(* ===== verification/Prelude.thy ===== *)
theory Prelude
  imports Main
begin

text \<open>
  Shared vocabulary of the development.  It holds the Python string type, the
  result type of the code that raises, the two sequencing combinators the
  component theories write their bodies with, the named collections the proofs
  feed to the simplifier, and the list facts several components use.
\<close>

section \<open>Collections of facts\<close>

named_theorems valid_defs
  \<open>definitions of the validity clauses of an aggregate\<close>
named_theorems branch_defs
  \<open>definitions of the branches of a reducer\<close>
named_theorems handler_defs
  \<open>definitions of the handlers of a decision function\<close>
named_theorems shape_defs
  \<open>definitions of the shape predicates of values and events\<close>

section \<open>Python strings\<close>

text \<open>
  A Python \<open>str\<close> is the list of its Unicode code points.  The literal
  \<open>py ''abc''\<close> is the ASCII string written between the quotes.
\<close>

type_synonym pystr = "nat list"

definition py :: "string \<Rightarrow> pystr" where
  "py s = map of_char s"

lemma inj_py: "inj py"
proof (rule injI)
  fix s t assume "py s = py t"
  moreover have "inj (of_char :: char \<Rightarrow> nat)" by (simp add: inj_def)
  ultimately show "s = t"
    by (simp add: py_def inj_map_eq_map)
qed

lemma py_eq_iff [simp]: "py s = py t \<longleftrightarrow> s = t"
  using inj_py by (auto dest: injD)

lemma py_eq_Nil_iff [simp]: "py s = [] \<longleftrightarrow> s = []"
  by (simp add: py_def)

lemma length_py [simp]: "length (py s) = length s"
  by (simp add: py_def)

text \<open>The code points for which \<open>str.isspace\<close> holds, which is what \<open>str.strip()\<close> removes.\<close>

definition py_isspace :: "nat \<Rightarrow> bool" where
  "py_isspace c \<longleftrightarrow>
     (9 \<le> c \<and> c \<le> 13) \<or> (28 \<le> c \<and> c \<le> 32) \<or> c = 133 \<or> c = 160 \<or> c = 5760
     \<or> (8192 \<le> c \<and> c \<le> 8202) \<or> c = 8232 \<or> c = 8233 \<or> c = 8239 \<or> c = 8287 \<or> c = 12288"

definition strip :: "pystr \<Rightarrow> pystr" where
  "strip s = rev (dropWhile py_isspace (rev (dropWhile py_isspace s)))"

lemma strip_eq_Nil_iff: "strip s = [] \<longleftrightarrow> (\<forall>c \<in> set s. py_isspace c)"
proof -
  have "strip s = [] \<longleftrightarrow> (\<forall>c \<in> set (dropWhile py_isspace s). py_isspace c)"
    by (auto simp: strip_def dropWhile_eq_Nil_conv)
  also have "\<dots> \<longleftrightarrow> (\<forall>c \<in> set s. py_isspace c)"
    by (induction s) auto
  finally show ?thesis .
qed

lemma strip_Cons_nonspace: "\<not> py_isspace c \<Longrightarrow> strip (c # s) \<noteq> []"
  by (simp add: strip_eq_Nil_iff)

section \<open>Results of code that raises\<close>

text \<open>
  A function that raises returns \<open>Inl\<close> of the code of the exception and
  otherwise \<open>Inr\<close> of its value.  \<open>andthen\<close> runs the rest of a body on the
  value, \<open>require\<close> is the guard that raises when its condition fails.
\<close>

definition andthen :: "'e + 'a \<Rightarrow> ('a \<Rightarrow> 'e + 'b) \<Rightarrow> 'e + 'b" where
  "andthen r k = (case r of Inl e \<Rightarrow> Inl e | Inr x \<Rightarrow> k x)"

definition require :: "'e \<Rightarrow> bool \<Rightarrow> 'e + 'a \<Rightarrow> 'e + 'a" where
  "require e b r = (if b then r else Inl e)"

lemma andthen_simps [simp]:
  "andthen (Inl e) k = Inl e"
  "andthen (Inr x) k = k x"
  by (simp_all add: andthen_def)

lemma andthen_eq_Inr_iff: "andthen r k = Inr y \<longleftrightarrow> (\<exists>x. r = Inr x \<and> k x = Inr y)"
  by (cases r) simp_all

lemma require_eq_Inr_iff [simp]: "require e b r = Inr y \<longleftrightarrow> b \<and> r = Inr y"
  by (simp add: require_def)

lemma unless_error: "(if b then Inl e else r) = Inr y \<longleftrightarrow> \<not> b \<and> r = Inr y"
  by simp

lemma require_True [simp]: "require e True r = r"
  by (simp add: require_def)

lemma require_False [simp]: "require e False r = Inl e"
  by (simp add: require_def)

definition is_ok :: "'e + 'a \<Rightarrow> bool" where
  "is_ok r = (case r of Inl _ \<Rightarrow> False | Inr _ \<Rightarrow> True)"

lemma is_ok_iff: "is_ok r \<longleftrightarrow> (\<exists>x. r = Inr x)"
  by (cases r) (simp_all add: is_ok_def)

section \<open>Lists\<close>

text \<open>The element of a filtered list that must be unique, as \<open>matches[0]\<close> after \<open>len(matches) == 1\<close>.\<close>

lemma length_one_iff: "length xs = 1 \<longleftrightarrow> (\<exists>x. xs = [x])"
  by (cases xs) auto

lemma filter_single_mem:
  "filter P xs = [x] \<Longrightarrow> x \<in> set xs \<and> P x"
  by (metis filter_eq_Cons_iff in_set_conv_decomp)

lemma distinct_map_filter_single:
  assumes "distinct (map f xs)" and "x \<in> set xs"
  shows "filter (\<lambda>y. f y = f x) xs = [x]"
  using assms
proof (induction xs)
  case (Cons a xs)
  show ?case
  proof (cases "x = a")
    case True
    with Cons.prems have "\<forall>y \<in> set xs. f y \<noteq> f a"
      by (metis distinct.simps(2) image_eqI list.set_map list.simps(9))
    then have "filter (\<lambda>y. f y = f a) xs = []" by (simp add: filter_empty_conv)
    with True show ?thesis by simp
  next
    case False
    with Cons.prems have "x \<in> set xs" and "f a \<noteq> f x" by auto
    with Cons show ?thesis by simp
  qed
qed simp

lemma distinct_map_filterI: "distinct (map f xs) \<Longrightarrow> distinct (map f (filter P xs))"
  by (simp add: distinct_map_filter)

lemma map_fst_if_same:
  "(\<And>x. f (g x) = f x) \<Longrightarrow> map f (map (\<lambda>x. if P x then g x else x) xs) = map f xs"
  by (induction xs) auto

lemma find_Some_mem: "find P xs = Some x \<Longrightarrow> x \<in> set xs \<and> P x"
  by (auto simp: find_Some_iff)

lemma find_distinct_key:
  assumes "distinct (map f xs)" and "x \<in> set xs"
  shows "find (\<lambda>y. f y = f x) xs = Some x"
  using assms by (induction xs) auto

lemma find_append:
  "find P (xs @ ys) = (case find P xs of None \<Rightarrow> find P ys | Some x \<Rightarrow> Some x)"
  by (induction xs) simp_all

lemma filter_single_iff:
  assumes "distinct xs"
  shows "filter P xs = [d] \<longleftrightarrow> d \<in> set xs \<and> (\<forall>x \<in> set xs. P x \<longleftrightarrow> x = d)"
proof
  assume l: "filter P xs = [d]"
  then have "set (filter P xs) = {d}" by simp
  then show "d \<in> set xs \<and> (\<forall>x \<in> set xs. P x \<longleftrightarrow> x = d)" by auto
next
  assume r: "d \<in> set xs \<and> (\<forall>x \<in> set xs. P x \<longleftrightarrow> x = d)"
  then have "filter P xs = filter (\<lambda>x. x = d) xs" by (intro filter_cong) auto
  also have "\<dots> = [d]" using distinct_map_filter_single [of "\<lambda>x. x" xs d] assms r by simp
  finally show "filter P xs = [d]" .
qed

lemma list_all_conj: "list_all (\<lambda>x. P x \<and> Q x) xs \<longleftrightarrow> list_all P xs \<and> list_all Q xs"
  by (auto simp: list_all_iff)

lemma map_const:
  assumes "map f es = map g xs" and "\<And>x. x \<in> set xs \<Longrightarrow> g x = c"
  shows "list_all (\<lambda>e. f e = c) es"
proof -
  have "list_all (\<lambda>y. y = c) (map g xs)" using assms(2) by (auto simp: list_all_iff)
  then have "list_all (\<lambda>y. y = c) (map f es)" by (simp only: assms(1))
  then show ?thesis by (simp add: list.pred_map comp_def)
qed

lemma list_all_head: "list_all P xs \<Longrightarrow> xs \<noteq> [] \<Longrightarrow> P (hd xs)"
  by (cases xs) auto

end
