(* ===== verification/Sha256.thy ===== *)
theory Sha256
  imports Prelude "HOL-Library.Word"
begin

text \<open>
  The SHA-256 function of Python's \<open>hashlib\<close> (FIPS 180-4) on byte lists, and
  its lowercase hexadecimal digest.  The identity derivations of the program
  hash canonical JSON with it.  The facts used later are the shape of the
  digest: 64 characters, each a lowercase hexadecimal digit.
\<close>

unbundle bit_operations_syntax

type_synonym byte = "8 word"
type_synonym u32 = "32 word"
type_synonym hash_state = "u32 \<times> u32 \<times> u32 \<times> u32 \<times> u32 \<times> u32 \<times> u32 \<times> u32"

definition rotr :: "nat \<Rightarrow> u32 \<Rightarrow> u32" where
  "rotr n x = drop_bit n x OR push_bit (32 - n) x"

definition small_sigma0 :: "u32 \<Rightarrow> u32" where
  "small_sigma0 x = rotr 7 x XOR rotr 18 x XOR drop_bit 3 x"

definition small_sigma1 :: "u32 \<Rightarrow> u32" where
  "small_sigma1 x = rotr 17 x XOR rotr 19 x XOR drop_bit 10 x"

definition big_sigma0 :: "u32 \<Rightarrow> u32" where
  "big_sigma0 x = rotr 2 x XOR rotr 13 x XOR rotr 22 x"

definition big_sigma1 :: "u32 \<Rightarrow> u32" where
  "big_sigma1 x = rotr 6 x XOR rotr 11 x XOR rotr 25 x"

definition choose_bits :: "u32 \<Rightarrow> u32 \<Rightarrow> u32 \<Rightarrow> u32" where
  "choose_bits x y z = (x AND y) XOR (NOT x AND z)"

definition majority_bits :: "u32 \<Rightarrow> u32 \<Rightarrow> u32 \<Rightarrow> u32" where
  "majority_bits x y z = (x AND y) XOR (x AND z) XOR (y AND z)"

text \<open>The round constants and the initial state of the standard, in decimal.\<close>

definition round_constants :: "u32 list" where
  "round_constants =
    [1116352408, 1899447441, 3049323471, 3921009573, 961987163, 1508970993, 2453635748, 2870763221,
     3624381080, 310598401, 607225278, 1426881987, 1925078388, 2162078206, 2614888103, 3248222580,
     3835390401, 4022224774, 264347078, 604807628, 770255983, 1249150122, 1555081692, 1996064986,
     2554220882, 2821834349, 2952996808, 3210313671, 3336571891, 3584528711, 113926993, 338241895,
     666307205, 773529912, 1294757372, 1396182291, 1695183700, 1986661051, 2177026350, 2456956037,
     2730485921, 2820302411, 3259730800, 3345764771, 3516065817, 3600352804, 4094571909, 275423344,
     430227734, 506948616, 659060556, 883997877, 958139571, 1322822218, 1537002063, 1747873779,
     1955562222, 2024104815, 2227730452, 2361852424,
     2428436474, 2756734187, 3204031479, 3329325298]"

definition initial_hash :: hash_state where
  "initial_hash = (1779033703, 3144134277, 1013904242, 2773480762,
                   1359893119, 2600822924, 528734635, 1541459225)"

text \<open>Padding: a one bit, zeros up to 56 modulo 64, the bit length in eight bytes.\<close>

fun big_endian :: "nat \<Rightarrow> nat \<Rightarrow> byte list" where
  "big_endian 0 n = []"
| "big_endian (Suc k) n = big_endian k (n div 256) @ [of_nat (n mod 256)]"

definition pad_message :: "byte list \<Rightarrow> byte list" where
  "pad_message m =
     m @ [0x80] @ replicate ((119 - length m mod 64) mod 64) 0 @ big_endian 8 (8 * length m)"

fun word_of_bytes :: "byte list \<Rightarrow> u32 list" where
  "word_of_bytes (a # b # c # d # bs) =
     (push_bit 24 (ucast a) OR push_bit 16 (ucast b) OR push_bit 8 (ucast c) OR ucast d)
       # word_of_bytes bs"
| "word_of_bytes _ = []"

text \<open>The message schedule, newest word first: word \<open>t\<close> needs words \<open>t-2, t-7, t-15, t-16\<close>.\<close>

fun extend_schedule :: "nat \<Rightarrow> u32 list \<Rightarrow> u32 list" where
  "extend_schedule 0 ws = ws"
| "extend_schedule (Suc k) ws =
     extend_schedule k
       ((small_sigma1 (ws ! 1) + ws ! 6 + small_sigma0 (ws ! 14) + ws ! 15) # ws)"

definition schedule :: "u32 list \<Rightarrow> u32 list" where
  "schedule block = rev (extend_schedule 48 (rev block))"

definition hash_round :: "hash_state \<Rightarrow> u32 \<times> u32 \<Rightarrow> hash_state" where
  "hash_round st kw =
     (case st of (a, b, c, d, e, f, g, h) \<Rightarrow>
        let t1 = h + big_sigma1 e + choose_bits e f g + fst kw + snd kw;
            t2 = big_sigma0 a + majority_bits a b c
        in (t1 + t2, a, b, c, d + t1, e, f, g))"

definition add_state :: "hash_state \<Rightarrow> hash_state \<Rightarrow> hash_state" where
  "add_state s t =
     (case s of (a, b, c, d, e, f, g, h) \<Rightarrow> case t of (a', b', c', d', e', f', g', h') \<Rightarrow>
        (a + a', b + b', c + c', d + d', e + e', f + f', g + g', h + h'))"

definition compress :: "hash_state \<Rightarrow> u32 list \<Rightarrow> hash_state" where
  "compress st block = add_state st (foldl hash_round st (zip round_constants (schedule block)))"

text \<open>Blocks of sixteen words.  The recursion consumes at least one word of a non-empty list.\<close>

fun hash_blocks :: "hash_state \<Rightarrow> u32 list \<Rightarrow> hash_state" where
  "hash_blocks st [] = st"
| "hash_blocks st (w # ws) = hash_blocks (compress st (take 16 (w # ws))) (drop 15 ws)"

definition sha256 :: "byte list \<Rightarrow> hash_state" where
  "sha256 m = hash_blocks initial_hash (word_of_bytes (pad_message m))"

text \<open>\<open>hexdigest()\<close>: eight lowercase hexadecimal digits per word.\<close>

definition hex_char :: "u32 \<Rightarrow> nat" where
  "hex_char w = (let n = unat (w AND 15) in if n < 10 then 48 + n else 87 + n)"

definition hex_word :: "u32 \<Rightarrow> pystr" where
  "hex_word w = map (\<lambda>k. hex_char (drop_bit (4 * k) w)) [7, 6, 5, 4, 3, 2, 1, 0]"

definition hexdigest :: "byte list \<Rightarrow> pystr" where
  "hexdigest m =
     (case sha256 m of (a, b, c, d, e, f, g, h) \<Rightarrow> concat (map hex_word [a, b, c, d, e, f, g, h]))"

definition is_hex_char :: "nat \<Rightarrow> bool" where
  "is_hex_char c \<longleftrightarrow> (48 \<le> c \<and> c \<le> 57) \<or> (97 \<le> c \<and> c \<le> 102)"

lemma hex_char_is_hex: "is_hex_char (hex_char w)"
proof -
  have "w AND 15 \<le> 15" by (rule word_and_le1)
  then have "unat (w AND 15) \<le> unat (15 :: u32)" by (simp only: word_le_nat_alt)
  then have "unat (w AND 15) \<le> 15" by simp
  then show ?thesis by (auto simp: hex_char_def is_hex_char_def Let_def)
qed

lemma length_hex_word [simp]: "length (hex_word w) = 8"
  by (simp add: hex_word_def)

lemma hex_word_hex: "c \<in> set (hex_word w) \<Longrightarrow> is_hex_char c"
  by (auto simp: hex_word_def hex_char_is_hex)

lemma length_hexdigest [simp]: "length (hexdigest m) = 64"
  by (simp add: hexdigest_def split: prod.splits)

lemma hexdigest_hex: "list_all is_hex_char (hexdigest m)"
  by (auto simp: hexdigest_def list_all_iff hex_word_hex split: prod.splits)

end
