(* ===== verification/Canonical_Json.thy ===== *)
theory Canonical_Json
  imports Sha256 "HOL-Library.List_Lexorder"
begin

text \<open>
  \<open>json.dumps(tree, ensure_ascii=False, allow_nan=False, separators=(",", ":"),
  sort_keys=True).encode()\<close>: the canonical bytes every digest of the program is
  taken of.  Keys are sorted by code points, which is the lexicographic order of
  \<open>HOL-Library.List_Lexorder\<close> on code point lists.  \<open>encode()\<close> is UTF-8 and raises
  on surrogates; the facts below show that a tree of ASCII strings never does.
\<close>

section \<open>JSON values\<close>

datatype json =
    JNull
  | JBool bool
  | JInt int
  | JStr pystr
  | JList "json list"
  | JObj "(pystr \<times> json) list"

definition optional_str :: "pystr option \<Rightarrow> json" where
  "optional_str v = (case v of None \<Rightarrow> JNull | Some s \<Rightarrow> JStr s)"

section \<open>Printing\<close>

fun nat_digits :: "nat \<Rightarrow> pystr" where
  "nat_digits n = (if n < 10 then [48 + n] else nat_digits (n div 10) @ [48 + n mod 10])"

declare nat_digits.simps [simp del]

definition int_str :: "int \<Rightarrow> pystr" where
  "int_str i = (if i < 0 then 45 # nat_digits (nat (- i)) else nat_digits (nat i))"

definition hex_digit :: "nat \<Rightarrow> nat" where
  "hex_digit n = (if n < 10 then 48 + n else 87 + n)"

text \<open>The escapes of \<open>json.encoder.ESCAPE\<close>: quote, backslash and the control characters.\<close>

definition escape_char :: "nat \<Rightarrow> pystr" where
  "escape_char c =
     (if c = 34 then [92, 34] else if c = 92 then [92, 92]
      else if c = 10 then [92, 110] else if c = 13 then [92, 114]
      else if c = 9 then [92, 116] else if c = 12 then [92, 102]
      else if c = 8 then [92, 98]
      else if c < 32 then [92, 117, 48, 48, hex_digit (c div 16), hex_digit (c mod 16)]
      else [c])"

definition quote_str :: "pystr \<Rightarrow> pystr" where
  "quote_str s = [34] @ concat (map escape_char s) @ [34]"

fun join :: "pystr \<Rightarrow> pystr list \<Rightarrow> pystr" where
  "join sep [] = []"
| "join sep [x] = x"
| "join sep (x # y # xs) = x @ sep @ join sep (y # xs)"

fun dumps :: "json \<Rightarrow> pystr" where
  "dumps JNull = py ''null''"
| "dumps (JBool b) = (if b then py ''true'' else py ''false'')"
| "dumps (JInt i) = int_str i"
| "dumps (JStr s) = quote_str s"
| "dumps (JList xs) = [91] @ join [44] (map dumps xs) @ [93]"
| "dumps (JObj kvs) =
     [123] @ join [44] (map (\<lambda>(k, s). quote_str k @ [58] @ s)
                         (sort_key fst (map (\<lambda>(k, v). (k, dumps v)) kvs))) @ [125]"

section \<open>UTF-8\<close>

text \<open>
  \<open>None\<close> is the \<open>UnicodeEncodeError\<close> raised on a surrogate.  Numbers from 1114112 on are not code
  points: no Python string has them, and they have no encoding here.
\<close>

definition utf8_char :: "nat \<Rightarrow> byte list option" where
  "utf8_char c =
     (if c < 128 then Some [of_nat c]
      else if c < 2048 then Some [of_nat (192 + c div 64), of_nat (128 + c mod 64)]
      else if 55296 \<le> c \<and> c < 57344 then None
      else if c < 65536 then
        Some [of_nat (224 + c div 4096), of_nat (128 + c div 64 mod 64), of_nat (128 + c mod 64)]
      else if c < 1114112 then
        Some [of_nat (240 + c div 262144), of_nat (128 + c div 4096 mod 64),
              of_nat (128 + c div 64 mod 64), of_nat (128 + c mod 64)]
      else None)"

fun utf8_encode :: "pystr \<Rightarrow> byte list option" where
  "utf8_encode [] = Some []"
| "utf8_encode (c # cs) =
     (case utf8_char c of
        None \<Rightarrow> None
      | Some b \<Rightarrow> (case utf8_encode cs of None \<Rightarrow> None | Some bs \<Rightarrow> Some (b @ bs)))"

definition canonical_json_bytes :: "json \<Rightarrow> byte list option" where
  "canonical_json_bytes tree = utf8_encode (dumps tree)"

section \<open>ASCII trees encode\<close>

definition ascii :: "pystr \<Rightarrow> bool" where
  "ascii s = list_all (\<lambda>c. c < 128) s"

lemma ascii_simps [simp]:
  "ascii []"
  "ascii (c # s) \<longleftrightarrow> c < 128 \<and> ascii s"
  "ascii (s @ t) \<longleftrightarrow> ascii s \<and> ascii t"
  by (simp_all add: ascii_def)

lemma ascii_concat: "(\<And>s. s \<in> set ss \<Longrightarrow> ascii s) \<Longrightarrow> ascii (concat ss)"
  by (induction ss) auto

fun ascii_json :: "json \<Rightarrow> bool" where
  "ascii_json (JStr s) = ascii s"
| "ascii_json (JList xs) = list_all ascii_json xs"
| "ascii_json (JObj kvs) = list_all (\<lambda>(k, v). ascii k \<and> ascii_json v) kvs"
| "ascii_json _ = True"

lemma ascii_nat_digits [simp]: "ascii (nat_digits n)"
proof (induction n rule: nat_digits.induct)
  case (1 n)
  have "n mod 10 < 10" by simp
  then have "48 + n mod 10 < 128" by linarith
  with "1.IH" show ?case by (subst nat_digits.simps) simp
qed

lemma ascii_int_str [simp]: "ascii (int_str i)"
  by (simp add: int_str_def)

lemma ascii_escape_char: "c < 128 \<Longrightarrow> ascii (escape_char c)"
  by (auto simp: escape_char_def hex_digit_def)

lemma ascii_quote_str [simp]: "ascii s \<Longrightarrow> ascii (quote_str s)"
  by (induction s) (auto simp: quote_str_def ascii_escape_char)

lemma ascii_join: "ascii sep \<Longrightarrow> list_all ascii xs \<Longrightarrow> ascii (join sep xs)"
  by (induction sep xs rule: join.induct) auto

lemma ascii_dumps: "ascii_json j \<Longrightarrow> ascii (dumps j)"
proof (induction j)
  case (JList xs)
  then have "list_all ascii (map dumps xs)" by (simp add: list_all_iff)
  then show ?case by (simp add: ascii_join)
next
  case (JObj kvs)
  have "list_all ascii (map (\<lambda>(k, s). quote_str k @ [58] @ s)
          (sort_key fst (map (\<lambda>(k, v). (k, dumps v)) kvs)))"
    using JObj by (fastforce simp: list_all_iff)
  then show ?case by (simp add: ascii_join)
qed (simp_all add: py_def)

lemma utf8_encode_ascii: "ascii s \<Longrightarrow> \<exists>bs. utf8_encode s = Some bs"
  by (induction s) (auto simp: utf8_char_def)

lemma utf8_encode_ascii_length:
  "ascii s \<Longrightarrow> \<exists>bs. utf8_encode s = Some bs \<and> length bs = length s"
  by (induction s) (auto simp: utf8_char_def)

lemma canonical_json_bytes_ascii:
  "ascii_json j \<Longrightarrow> \<exists>bs. canonical_json_bytes j = Some bs"
  by (simp add: canonical_json_bytes_def utf8_encode_ascii ascii_dumps)

end
