(* ===== verification/Json_Roundtrip.thy ===== *)
theory Json_Roundtrip
  imports Json_Parser
begin

text \<open>
  The parser reads back what the printer wrote: UTF-8 first, then strings, numbers, and trees by
  induction.  A printed tree comes back with its keys sorted, which is the only freedom the
  canonical bytes leave.  The last section shows that the parser's fuel is enough.
\<close>

section \<open>UTF-8\<close>

lemma unat_byte: "n < 256 \<Longrightarrow> unat (word_of_nat n :: byte) = n"
  by (simp add: unat_of_nat)

lemma div_64_parts:
  fixes c :: nat
  shows "c = c div 64 * 64 + c mod 64"
    and "c div 64 = c div 4096 * 64 + c div 64 mod 64"
    and "c div 4096 = c div 262144 * 64 + c div 4096 mod 64"
  using div_mult_mod_eq [of c 64] div_mult_mod_eq [of "c div 64" 64] div_mult_mod_eq [of "c div 4096" 64]
  by (simp_all add: div_mult2_eq [symmetric])

lemma utf8_points_char:
  assumes "utf8_char c = Some b"
  shows "utf8_points (map unat b @ bs) = map_option (Cons c) (utf8_points bs)"
proof -
  consider "c < 128" | "128 \<le> c" "c < 2048" | "2048 \<le> c" "c < 65536" "\<not> (55296 \<le> c \<and> c < 57344)"
    | "65536 \<le> c" "c < 1114112"
    using assms by (auto simp: utf8_char_def split: if_splits)
  then show ?thesis
  proof cases
    case 1
    with assms show ?thesis
      by (auto simp: utf8_char_def utf8_points.simps(2) unat_of_nat)
  next
    case 2
    define x y where "x = c div 64" and "y = c mod 64"
    then have v: "c = x * 64 + y" "x < 32" "y < 64"
      using 2 by (simp_all add: less_mult_imp_div_less)
    have "map unat b = [192 + x, 128 + y]"
      using assms 2 v(2,3) by (auto simp: utf8_char_def unat_byte x_def y_def simp del: of_nat_add)
    with v 2 show ?thesis
      by (simp add: utf8_points.simps(2) Let_def is_continuation_def)
  next
    case 3
    define x y z where "x = c div 4096" and "y = c div 64 mod 64" and "z = c mod 64"
    then have v: "c = x * 4096 + y * 64 + z" "x < 16" "y < 64" "z < 64"
      using div_64_parts(1,2) [of c] 3(2) by (linarith, simp_all add: less_mult_imp_div_less)
    have "map unat b = [224 + x, 128 + y, 128 + z]"
      using assms 3 v(2-4) by (auto simp: utf8_char_def unat_byte x_def y_def z_def simp del: of_nat_add)
    with v 3 show ?thesis
      by (simp add: utf8_points.simps(2) Let_def is_continuation_def is_scalar_def)
  next
    case 4
    define w x y z where "w = c div 262144" and "x = c div 4096 mod 64" and "y = c div 64 mod 64"
      and "z = c mod 64"
    then have v: "c = w * 262144 + x * 4096 + y * 64 + z" "w < 5" "x < 64" "y < 64" "z < 64"
      using div_64_parts [of c] 4(2) by (linarith, simp_all add: less_mult_imp_div_less)
    have "map unat b = [240 + w, 128 + x, 128 + y, 128 + z]"
      using assms 4 v(2-5)
      by (auto simp: utf8_char_def unat_byte w_def x_def y_def z_def simp del: of_nat_add)
    with v 4 assms show ?thesis
      by (simp add: utf8_points.simps(2) Let_def is_continuation_def is_scalar_def)
  qed
qed

lemma utf8_decode_encode:
  "utf8_encode s = Some bs \<Longrightarrow> utf8_decode bs = Some s"
proof (induction s arbitrary: bs)
  case Nil
  then show ?case by (simp add: utf8_decode_def)
next
  case (Cons c s)
  from Cons.prems obtain b r where "utf8_char c = Some b" "utf8_encode s = Some r" "bs = b @ r"
    by (auto split: option.splits)
  with Cons show ?case by (simp add: utf8_decode_def utf8_points_char)
qed

section \<open>Strings\<close>

lemma hex_value_digit: "d < 16 \<Longrightarrow> hex_value (hex_digit d) = Some d"
  by (auto simp: hex_value_def hex_digit_def is_digit_def)

lemma scan_chars_escape:
  "scan_chars (escape_char c @ r) = map_option (\<lambda>(t, q). (c # t, q)) (scan_chars r)"
proof (cases "c < 32 \<and> c \<notin> {8, 9, 10, 12, 13}")
  case True
  have h: "hex4 ([48, 48, hex_digit (c div 16), hex_digit (c mod 16)] @ r) = Some (c, r)"
    using True hex_value_digit [of "c div 16"] hex_value_digit [of "c mod 16"] hex_value_digit [of 0]
    by (simp add: less_mult_imp_div_less hex_digit_def [of 0])
  have "join_surrogate c r = (c, r)" using True by (auto simp: join_surrogate_def split: option.splits)
  with True h show ?thesis
    by (simp add: escape_char_def scan_chars.simps(2) [of 92])
next
  case False
  then consider "c \<in> {34, 92, 8, 9, 10, 12, 13}" | "32 \<le> c" "c \<noteq> 34" "c \<noteq> 92" by force
  then show ?thesis
  proof cases
    case 1
    then show ?thesis
      by (auto simp: escape_char_def scan_chars.simps(2) [of 92] simple_escape_def)
  next
    case 2
    then show ?thesis by (simp add: escape_char_def scan_chars.simps(2))
  qed
qed

lemma scan_string_quote: "scan_string (concat (map escape_char s) @ 34 # r) = Inr (s, r)"
proof -
  have "scan_chars (concat (map escape_char s) @ 34 # r) = Some (s, r)"
    by (induction s) (simp_all add: scan_chars_escape scan_chars.simps(2) [of 34])
  then show ?thesis by (simp add: scan_string_def)
qed

section \<open>Numbers\<close>

text \<open>What follows a value in a printed tree.\<close>

definition delimited :: "pystr \<Rightarrow> bool" where
  "delimited r \<longleftrightarrow> r = [] \<or> hd r \<in> {44, 93, 125}"

lemma nat_digits_digits: "\<forall>d \<in> set (nat_digits n). is_digit d"
proof (induction n rule: nat_digits.induct)
  case (1 n)
  then show ?case by (subst nat_digits.simps) (auto simp: is_digit_def)
qed

lemma digits_value_snoc: "digits_value (ds @ [d]) = digits_value ds * 10 + (d - 48)"
  by (simp add: digits_value_def)

lemma digits_value_nat_digits: "digits_value (nat_digits n) = n"
proof (induction n rule: nat_digits.induct)
  case (1 n)
  show ?case
  proof (cases "n < 10")
    case True
    then show ?thesis by (subst nat_digits.simps) (simp add: digits_value_def)
  next
    case False
    with "1.IH" show ?thesis by (subst nat_digits.simps) (simp add: digits_value_snoc)
  qed
qed

lemma nat_digits_nonempty [simp]: "nat_digits n \<noteq> []"
  by (subst nat_digits.simps) simp

lemma nat_digits_head: "hd (nat_digits n) = 48 \<Longrightarrow> n = 0"
proof (induction n rule: nat_digits.induct)
  case (1 n)
  show ?case
  proof (cases "n < 10")
    case True
    with "1.prems" show ?thesis by (subst (asm) nat_digits.simps) simp
  next
    case False
    with "1.prems" have "hd (nat_digits (n div 10)) = 48"
      by (subst (asm) nat_digits.simps) (simp add: hd_append)
    with "1.IH" False show ?thesis by simp
  qed
qed

lemma nat_digits_length: "n < 10 ^ Suc k \<Longrightarrow> length (nat_digits n) \<le> Suc k"
proof (induction k arbitrary: n)
  case 0
  then show ?case by (subst nat_digits.simps) simp
next
  case (Suc k)
  show ?case
  proof (cases "n < 10")
    case True
    then show ?thesis by (subst nat_digits.simps) simp
  next
    case False
    have "n div 10 < 10 ^ Suc k" using Suc.prems by (simp add: less_mult_imp_div_less)
    with Suc.IH False show ?thesis by (subst nat_digits.simps) simp
  qed
qed

lemma integer_part_digits:
  assumes "delimited r"
  shows "integer_part (nat_digits n @ r) = (nat_digits n, r)"
proof (cases "n = 0")
  case True
  then show ?thesis by (simp add: integer_part_def nat_digits.simps [of 0])
next
  case False
  then have "take 1 (nat_digits n @ r) \<noteq> [48]"
    using nat_digits_head [of n] by (cases "nat_digits n") auto
  moreover have "takeWhile is_digit r = []" "dropWhile is_digit r = r"
    using assms by (cases r; auto simp: delimited_def is_digit_def)+
  ultimately show ?thesis
    using nat_digits_digits [of n]
    by (simp add: integer_part_def takeWhile_append2 dropWhile_append2)
qed

lemma delimited_not_float: "delimited r \<Longrightarrow> \<not> float_follows r"
  by (auto simp: float_follows_def delimited_def split: list.splits)

lemma scan_number_int_str:
  assumes "delimited r" and "\<bar>i\<bar> < 10 ^ MAX_JSON_INTEGER_DIGITS"
  shows "scan_number (int_str i @ r) = Inr (JInt i, r)"
proof -
  let ?n = "nat \<bar>i\<bar>"
  have "?n < 10 ^ 256"
    using assms(2) by (simp add: MAX_JSON_INTEGER_DIGITS_def nat_less_iff)
  with nat_digits_length [of ?n 255] have l: "length (nat_digits ?n) \<le> MAX_JSON_INTEGER_DIGITS"
    by (simp add: MAX_JSON_INTEGER_DIGITS_def)
  have h: "hd (nat_digits ?n) \<noteq> 45"
    using nat_digits_digits [of ?n] by (cases "nat_digits ?n") (auto simp: is_digit_def)
  note f = integer_part_digits [OF assms(1)] delimited_not_float [OF assms(1)]
  show ?thesis
  proof (cases "i < 0")
    case True
    then have "int_str i = 45 # nat_digits ?n" "int ?n = - i" by (simp_all add: int_str_def)
    with True f l show ?thesis
      by (simp add: scan_number_def Let_def parse_json_integer_def digits_value_nat_digits)
  next
    case False
    then have "int_str i = nat_digits ?n" "int ?n = i" by (simp_all add: int_str_def)
    with False f l h show ?thesis
      by (simp add: scan_number_def Let_def parse_json_integer_def digits_value_nat_digits hd_append)
  qed
qed

section \<open>Trees\<close>

fun sorted_tree :: "json \<Rightarrow> json" where
  "sorted_tree (JList xs) = JList (map sorted_tree xs)"
| "sorted_tree (JObj kvs) = JObj (sort_key fst (map (\<lambda>(k, v). (k, sorted_tree v)) kvs))"
| "sorted_tree j = j"

fun distinct_keys :: "json \<Rightarrow> bool" where
  "distinct_keys (JList xs) \<longleftrightarrow> list_all distinct_keys xs"
| "distinct_keys (JObj kvs) \<longleftrightarrow> distinct (map fst kvs) \<and> list_all (\<lambda>(k, v). distinct_keys v) kvs"
| "distinct_keys j \<longleftrightarrow> True"

lemma insort_key_values:
  "map (\<lambda>(k, v). (k, f v)) (insort_key fst (k, v) kvs)
     = insort_key fst (k, f v) (map (\<lambda>(k, v). (k, f v)) kvs)"
  by (induction kvs) (auto split: prod.splits)

lemma sort_key_values:
  "sort_key fst (map (\<lambda>(k, v). (k, f v)) kvs) = map (\<lambda>(k, v). (k, f v)) (sort_key fst kvs)"
  by (induction kvs) (auto simp: insort_key_values)

definition member_text :: "pystr \<times> json \<Rightarrow> pystr" where
  "member_text m = quote_str (fst m) @ 58 # dumps (snd m)"

lemma dumps_obj: "dumps (JObj kvs) = 123 # join [44] (map member_text (sort_key fst kvs)) @ [125]"
proof -
  have "(\<lambda>(k, s). quote_str k @ 58 # s) \<circ> (\<lambda>(k, v). (k, dumps v)) = member_text"
    by (auto simp: member_text_def)
  then show ?thesis by (simp add: sort_key_values)
qed

lemma starts_simps [simp]:
  "starts [] s"
  "starts (a # w) (c # s) \<longleftrightarrow> c = of_char a \<and> starts w s"
  by (auto simp: starts_def py_def)

lemma int_str_head:
  obtains c s where "int_str i = c # s" "is_digit c \<or> c = 45 \<and> s \<noteq> [] \<and> is_digit (hd s)"
proof -
  have "\<exists>c s. nat_digits n = c # s \<and> is_digit c" for n
    using nat_digits_digits [of n] by (cases "nat_digits n") auto
  then show ?thesis using that unfolding int_str_def by (metis list.sel(1) list.distinct(1))
qed

lemma scan_value_int:
  assumes "delimited r" and "\<bar>i\<bar> < 10 ^ MAX_JSON_INTEGER_DIGITS"
  shows "scan_value (Suc n) (int_str i @ r) = Inr (JInt i, r)"
proof -
  obtain c s where c: "int_str i = c # s" "is_digit c \<or> c = 45 \<and> s \<noteq> [] \<and> is_digit (hd s)"
    by (rule int_str_head)
  then have "\<not> starts ''-Infinity'' (c # s @ r)"
    by (cases s) (auto simp: is_digit_def)
  with c(2) have "scan_value (Suc n) (c # s @ r) = scan_number (c # s @ r)"
    by (auto simp: scan_value.simps(2) is_digit_def)
  then show ?thesis using scan_number_int_str [OF assms] c(1) by simp
qed

definition value_head :: "nat \<Rightarrow> bool" where
  "value_head c \<longleftrightarrow> \<not> is_ws c \<and> c \<notin> {93, 125, 44}"

lemma dumps_head: "\<exists>c s. dumps j = c # s \<and> value_head c"
proof (cases j)
  case (JInt i)
  obtain c s where "int_str i = c # s" "is_digit c \<or> c = 45 \<and> s \<noteq> [] \<and> is_digit (hd s)"
    by (rule int_str_head)
  then show ?thesis by (auto simp: JInt value_head_def is_ws_def is_digit_def)
qed (auto simp: value_head_def is_ws_def quote_str_def py_def dumps_obj simp del: dumps.simps(6))

lemma skip_ws_dumps [simp]: "skip_ws (dumps j @ r) = dumps j @ r"
  using dumps_head [of j] by (auto simp: skip_ws_def value_head_def)

lemma skip_ws_Cons [simp]: "\<not> is_ws c \<Longrightarrow> skip_ws (c # r) = c # r"
  by (simp add: skip_ws_def)

lemma join_head: "xs \<noteq> [] \<Longrightarrow> \<exists>t. join sep xs = hd xs @ t"
  by (cases xs rule: list.exhaust [case_product list.exhaust [of "tl xs"]]; cases "tl xs"; auto)

lemma length_join_Cons: "xs \<noteq> [] \<Longrightarrow> join sep (x # xs) = x @ sep @ join sep xs"
  by (cases xs) simp_all

definition reads_back :: "json \<Rightarrow> bool" where
  "reads_back j \<longleftrightarrow> (\<forall>n r. 2 * length (dumps j) < n \<longrightarrow> delimited r \<longrightarrow>
     scan_value n (dumps j @ r) = Inr (sorted_tree j, r))"

lemma reads_backI:
  assumes "\<And>n r. \<lbrakk>2 * length (dumps j) \<le> n; delimited r\<rbrakk> \<Longrightarrow>
      scan_value (Suc n) (dumps j @ r) = Inr (sorted_tree j, r)"
  shows "reads_back j"
  unfolding reads_back_def
proof (intro allI impI)
  fix n r assume "2 * length (dumps j) < n" "delimited r"
  with assms [of "n - 1" r] show "scan_value n (dumps j @ r) = Inr (sorted_tree j, r)"
    by (cases n) simp_all
qed

lemma scan_elements_dumps:
  assumes "vs \<noteq> []" and "\<forall>v \<in> set vs. reads_back v"
    and "2 * length (join [44] (map dumps vs)) + 1 < n"
  shows "scan_elements n (join [44] (map dumps vs) @ 93 # r) = Inr (map sorted_tree vs, r)"
  using assms
proof (induction vs arbitrary: n)
  case (Cons v vs)
  from Cons.prems obtain m where m: "n = Suc m" by (cases n) auto
  show ?case
  proof (cases "vs = []")
    case True
    with Cons.prems m have "scan_value m (dumps v @ 93 # r) = Inr (sorted_tree v, 93 # r)"
      by (simp add: reads_back_def delimited_def)
    with True m show ?thesis by (simp add: scan_elements.simps(2) is_ws_def)
  next
    case False
    let ?t = "join [44] (map dumps vs)"
    have j: "join [44] (map dumps (v # vs)) = dumps v @ 44 # ?t"
      using False by (simp add: length_join_Cons)
    have "scan_value m (dumps v @ 44 # ?t @ 93 # r) = Inr (sorted_tree v, 44 # ?t @ 93 # r)"
      using Cons.prems m j by (simp add: reads_back_def delimited_def)
    moreover have "skip_ws (?t @ 93 # r) = ?t @ 93 # r"
      using False join_head [of "map dumps vs" "[44]"] dumps_head [of "hd vs"]
      by (auto simp: hd_map skip_ws_def value_head_def)
    moreover have "scan_elements m (?t @ 93 # r) = Inr (map sorted_tree vs, r)"
      using Cons False m j by simp
    ultimately show ?thesis using j m by (simp add: scan_elements.simps(2) is_ws_def)
  qed
qed simp

lemma scan_key_quote:
  "scan_key (quote_str k @ 58 # dumps v @ r) = Inr (k, dumps v @ r)"
  by (simp add: scan_key_def quote_str_def scan_string_quote is_ws_def)

lemma scan_members_dumps:
  assumes "kvs \<noteq> []" and "\<forall>(k, v) \<in> set kvs. reads_back v"
    and "2 * length (join [44] (map member_text kvs)) + 1 < n"
  shows "scan_members n (join [44] (map member_text kvs) @ 125 # r)
      = Inr (map (\<lambda>(k, v). (k, sorted_tree v)) kvs, r)"
  using assms
proof (induction kvs arbitrary: n)
  case (Cons kv kvs)
  obtain k v where kv: "kv = (k, v)" by (cases kv)
  from Cons.prems obtain m where m: "n = Suc m" by (cases n) auto
  have rb: "reads_back v" using Cons.prems(2) kv by simp
  show ?case
  proof (cases "kvs = []")
    case True
    with Cons.prems m kv have "scan_value m (dumps v @ 125 # r) = Inr (sorted_tree v, 125 # r)"
      using rb by (simp add: reads_back_def delimited_def member_text_def)
    with True m kv show ?thesis
      by (simp add: scan_members.simps(2) is_ws_def member_text_def scan_key_quote)
  next
    case False
    let ?t = "join [44] (map member_text kvs)"
    have j: "join [44] (map member_text (kv # kvs)) = quote_str k @ 58 # dumps v @ 44 # ?t"
      using False by (simp add: length_join_Cons kv member_text_def)
    have "scan_value m (dumps v @ 44 # ?t @ 125 # r) = Inr (sorted_tree v, 44 # ?t @ 125 # r)"
      using Cons.prems(3) m j rb by (simp add: reads_back_def delimited_def)
    moreover have "skip_ws (?t @ 125 # r) = ?t @ 125 # r"
      using False join_head [of "map member_text kvs" "[44]"]
      by (auto simp: hd_map skip_ws_def member_text_def quote_str_def is_ws_def)
    moreover have "scan_members m (?t @ 125 # r) = Inr (map (\<lambda>(k, v). (k, sorted_tree v)) kvs, r)"
      using Cons False m j by simp
    ultimately show ?thesis
      using j m kv by (simp add: scan_members.simps(2) is_ws_def scan_key_quote)
  qed
qed simp

lemma reads_back_tree:
  assumes "canonical_tree_is_valid j" and "distinct_keys j"
  shows "reads_back j"
  using assms
proof (induction j)
  case (JInt i)
  then show ?case by (simp add: reads_backI scan_value_int)
next
  case (JList xs)
  then have "\<forall>v \<in> set xs. reads_back v" by (auto simp: list_all_iff)
  from scan_elements_dumps [OF _ this] show ?case
    using join_head [of "map dumps xs" "[44]"] dumps_head [of "hd xs"]
    by (cases "xs = []") (auto intro!: reads_backI simp: scan_value.simps(2) is_ws_def hd_map
        value_head_def skip_ws_def Let_def)
next
  case (JObj kvs)
  let ?s = "sort_key fst kvs"
  have "\<forall>(k, v) \<in> set ?s. reads_back v" using JObj by (fastforce simp: list_all_iff)
  note m = scan_members_dumps [OF _ this]
  have d: "distinct (map fst ?s)" using JObj.prems by (simp add: distinct_map)
  have e: "sorted_tree (JObj kvs) = JObj (map (\<lambda>(k, v). (k, sorted_tree v)) ?s)"
    by (simp add: sort_key_values)
  have f: "fst \<circ> (\<lambda>(k :: pystr, v). (k, sorted_tree v)) = fst" by auto
  show ?case
  proof (cases "kvs = []")
    case True
    then show ?thesis
      by (auto intro!: reads_backI simp: scan_value.simps(2) is_ws_def
          object_without_duplicate_keys_def)
  next
    case False
    then have ne: "?s \<noteq> []" by (metis length_0_conv length_sort)
    have h: "\<exists>t. join [44] (map member_text ?s) = 34 # t"
      using ne join_head [of "map member_text ?s" "[44]"]
      by (auto simp: hd_map member_text_def quote_str_def)
    then obtain t where t: "join [44] (map member_text ?s) = 34 # t" ..
    show ?thesis
    proof (rule reads_backI, unfold dumps_obj e)
      fix n r assume "2 * length (123 # join [44] (map member_text ?s) @ [125]) \<le> n"
      then have "2 * length (join [44] (map member_text ?s)) + 1 < n" by simp
      from m [OF ne this, of r] d f t
      show "scan_value (Suc n) ((123 # join [44] (map member_text ?s) @ [125]) @ r)
          = Inr (JObj (map (\<lambda>(k, v). (k, sorted_tree v)) ?s), r)"
        by (simp add: scan_value.simps(2) is_ws_def object_without_duplicate_keys_def)
    qed
  qed
qed (auto intro!: reads_backI simp: scan_value.simps(2) py_def quote_str_def scan_string_quote)

section \<open>Records\<close>

lemma sorted_tree_obj:
  "sorted_tree (JObj kvs) = JObj (map (\<lambda>(k, v). (k, sorted_tree v)) (sort_key fst kvs))"
  by (simp add: sort_key_values)

lemma dumps_sorted_tree [simp]: "dumps (sorted_tree j) = dumps j"
proof (induction j)
  case (JList xs)
  then have "map dumps (map sorted_tree xs) = map dumps xs" by (simp add: list_eq_iff_nth_eq)
  then show ?case by (metis dumps.simps(5) sorted_tree.simps(1))
next
  case (JObj kvs)
  let ?s = "sort_key fst kvs"
  have "sort_key fst (map (\<lambda>(k, v). (k, sorted_tree v)) ?s) = map (\<lambda>(k, v). (k, sorted_tree v)) ?s"
    by (simp add: sort_key_values sort_key_id_if_sorted)
  moreover have "map member_text (map (\<lambda>(k, v). (k, sorted_tree v)) ?s) = map member_text ?s"
    unfolding map_map by (rule map_cong) (use JObj in \<open>auto simp: member_text_def\<close>)
  ultimately show ?case unfolding sorted_tree_obj dumps_obj by (simp only:)
qed simp_all

lemma canonical_sorted_tree [simp]:
  "canonical_tree_is_valid (sorted_tree j) \<longleftrightarrow> canonical_tree_is_valid j"
proof (induction j)
  case (JObj kvs)
  then show ?case by (fastforce simp: list_all_iff)
qed (auto simp: list_all_iff)

lemma canonical_record_bytes_sorted [simp]:
  "canonical_record_bytes (sorted_tree j) = canonical_record_bytes j"
  by (simp add: canonical_record_bytes_def canonical_json_bytes_def)

lemma ascii_record_bytes:
  assumes "canonical_tree_is_valid j" and "ascii_json j"
  obtains raw where "canonical_record_bytes j = Inr raw" and "length raw = length (dumps j)"
proof -
  obtain raw where "utf8_encode (dumps j) = Some raw" "length raw = length (dumps j)"
    using utf8_encode_ascii_length [OF ascii_dumps [OF assms(2)]] by blast
  then show thesis
    using that [of raw] assms(1) by (simp add: canonical_record_bytes_def canonical_json_bytes_def)
qed

lemma loads_dumps:
  assumes "canonical_tree_is_valid j" and "distinct_keys j"
  shows "loads (dumps j) = Inr (sorted_tree j)"
proof -
  have "scan_value (scan_fuel (dumps j)) (dumps j @ []) = Inr (sorted_tree j, [])"
    using reads_back_tree [OF assms] unfolding reads_back_def
    by (auto simp: scan_fuel_def delimited_def)
  then show ?thesis
    using skip_ws_dumps [of j "[]"] by (simp add: loads_def skip_ws_def)
qed

lemma parse_canonical_bytes:
  assumes "canonical_record_bytes j = Inr raw" and "distinct_keys j" and "length raw \<le> MAX_RECORD_BYTES"
  shows "parse_canonical raw = Inr (sorted_tree j)"
proof -
  from assms(1) have v: "canonical_tree_is_valid j" and e: "utf8_encode (dumps j) = Some raw"
    by (auto simp: canonical_record_bytes_def canonical_json_bytes_def split: option.splits)
  have "raw \<noteq> []"
    using e dumps_head [of j] by (auto simp: utf8_char_def split: option.splits if_splits)
  with assms(1,3) utf8_decode_encode [OF e] loads_dumps [OF v assms(2)]
  show ?thesis by (simp add: parse_canonical_def)
qed

lemma parse_canonical_InrD:
  assumes "parse_canonical raw = Inr j"
  shows "canonical_record_bytes j = Inr raw" and "length raw \<le> MAX_RECORD_BYTES"
proof -
  from assms obtain s v where l: "length raw \<le> MAX_RECORD_BYTES" and v: "loads s = Inr v"
    and "(case canonical_record_bytes v of Inl _ \<Rightarrow> Inl INVALID_JSON_RECORD
        | Inr canonical \<Rightarrow> require NON_CANONICAL_RECORD (canonical = raw) (Inr v)) = Inr j"
    by (cases "utf8_decode raw") (auto simp: parse_canonical_def andthen_eq_Inr_iff)
  with l show "canonical_record_bytes j = Inr raw" and "length raw \<le> MAX_RECORD_BYTES"
    by (cases "canonical_record_bytes v"; simp)+
qed

section \<open>The fuel of the scanner\<close>

lemma scan_chars_shorter: "scan_chars s = Some (t, r) \<Longrightarrow> length r < length s"
proof (induction "length s" arbitrary: s t r rule: less_induct)
  case less
  then obtain c q where s: "s = c # q" by (cases s) auto
  from less.prems consider "r = q" | t' where "scan_chars q = Some (t', r)"
    | e s' u r1 p r2 t' where "q = e # s'" "hex4 s' = Some (u, r1)" "join_surrogate u r1 = (p, r2)"
        "scan_chars r2 = Some (t', r)"
    | e s' t' where "q = e # s'" "scan_chars s' = Some (t', r)"
    unfolding s by (auto simp: scan_chars.simps(2) split: if_split_asm list.split_asm option.split_asm prod.split_asm)
  then show ?case
  proof cases
    case 3
    then have "length r2 < length s" using s hex4_shorter join_surrogate_shorter by fastforce
    with less.hyps [OF this] 3(4) show ?thesis by simp
  next
    case 2
    with less.hyps [of q] s show ?thesis by fastforce
  next
    case 4
    with less.hyps [of s'] s show ?thesis by fastforce
  qed (simp add: s)
qed

lemma scan_string_shorter: "scan_string s = Inr (t, r) \<Longrightarrow> length r < length s"
  by (auto simp: scan_string_def split: option.splits dest: scan_chars_shorter)

lemma skip_ws_length: "length (skip_ws s) \<le> length s"
  by (simp add: skip_ws_def length_dropWhile_le)

lemma skip_ws_Cons_length: "skip_ws s = c # r \<Longrightarrow> length r < length s"
  using skip_ws_length [of s] by simp

lemma scan_key_InrD:
  assumes "scan_key s = Inr (k, r)"
  obtains t r1 r2 where "s = 34 # t" "scan_string t = Inr (k, r1)" "skip_ws r1 = 58 # r2" "r = skip_ws r2"
proof -
  from assms obtain t where t: "s = 34 # t" by (cases s) (auto simp: scan_key_def split: if_split_asm)
  with assms obtain k' r1 where st: "scan_string t = Inr (k', r1)"
    by (cases "scan_string t") (auto simp: scan_key_def)
  with assms t show ?thesis using that
    by (cases "skip_ws r1") (auto simp: scan_key_def split: if_split_asm)
qed

lemma scan_key_shorter: "scan_key s = Inr (k, r) \<Longrightarrow> length r < length s"
  by (erule scan_key_InrD)
    (use scan_string_shorter skip_ws_Cons_length skip_ws_length in \<open>fastforce dest: le_less_trans\<close>)

lemma integer_part_length: "integer_part s = (ds, r) \<Longrightarrow> ds \<noteq> [] \<Longrightarrow> length r < length s"
proof -
  assume i: "integer_part s = (ds, r)" and ds: "ds \<noteq> []"
  show ?thesis
  proof (cases "take 1 s = [48]")
    case True
    with i show ?thesis by (cases s) (auto simp: integer_part_def)
  next
    case False
    with i have "ds = takeWhile is_digit s" "r = dropWhile is_digit s" by (auto simp: integer_part_def)
    with ds takeWhile_dropWhile_id [of is_digit s] show ?thesis
      by (metis add.commute length_append length_greater_0_conv less_add_same_cancel1)
  qed
qed

lemma scan_number_shorter: "scan_number s = Inr (v, r) \<Longrightarrow> length r < length s"
  using integer_part_length [of s] integer_part_length [of "tl s"]
  by (cases s) (auto simp: scan_number_def Let_def andthen_eq_Inr_iff split: prod.splits if_splits)

lemma scan_elements_InrD:
  assumes "scan_elements (Suc n) s = Inr (vs, r)"
  obtains x q c q' ws where "scan_value n s = Inr (x, q)" and "skip_ws q = c # q'" and "vs = x # ws"
    and "(ws = [] \<and> r = q') \<or> scan_elements n (skip_ws q') = Inr (ws, r)"
proof -
  from assms obtain x q where x: "scan_value n s = Inr (x, q)"
    and r: "(case skip_ws q of [] \<Rightarrow> Inl INVALID_JSON_RECORD
      | c # r' \<Rightarrow> if c = 93 then Inr ([x], r')
          else if c \<noteq> 44 then Inl INVALID_JSON_RECORD
          else andthen (scan_elements n (skip_ws r')) (\<lambda>(vs, q). Inr (x # vs, q))) = Inr (vs, r)"
    by (auto simp: scan_elements.simps(2) andthen_eq_Inr_iff)
  show thesis
  proof (cases "skip_ws q")
    case (Cons c q')
    from r that [OF x Cons] show ?thesis
      unfolding Cons by (auto simp: andthen_eq_Inr_iff split: if_split_asm)
  qed (use r in simp)
qed

lemma scan_members_InrD:
  assumes "scan_members (Suc n) s = Inr (kvs, r)"
  obtains k p x q c q' ws where "scan_key s = Inr (k, p)" and "scan_value n p = Inr (x, q)"
    and "skip_ws q = c # q'" and "kvs = (k, x) # ws"
    and "(ws = [] \<and> r = q') \<or> scan_members n (skip_ws q') = Inr (ws, r)"
proof -
  from assms obtain k p x q where x: "scan_key s = Inr (k, p)" "scan_value n p = Inr (x, q)"
    and r: "(case skip_ws q of [] \<Rightarrow> Inl INVALID_JSON_RECORD
      | c # r' \<Rightarrow> if c = 125 then Inr ([(k, x)], r')
          else if c \<noteq> 44 then Inl INVALID_JSON_RECORD
          else andthen (scan_members n (skip_ws r')) (\<lambda>(kvs, q). Inr ((k, x) # kvs, q))) = Inr (kvs, r)"
    by (auto simp: scan_members.simps(2) andthen_eq_Inr_iff)
  show thesis
  proof (cases "skip_ws q")
    case (Cons c q')
    from r that [OF x Cons] show ?thesis
      unfolding Cons by (auto simp: andthen_eq_Inr_iff split: if_split_asm)
  qed (use r in simp)
qed

lemma scan_value_shorter_if:
  assumes "scan_value (Suc n) s = Inr (v, r)"
    and "\<And>q vs. scan_elements n q = Inr (vs, r) \<Longrightarrow> length r < length q"
    and "\<And>q kvs. scan_members n q = Inr (kvs, r) \<Longrightarrow> length r < length q"
  shows "length r < length s"
proof (cases s)
  case (Cons c t)
  note w = skip_ws_length [of t]
  from assms(1) Cons consider x where "scan_string t = Inr (x, r)" | "r = tl (skip_ws t)"
    | kvs where "scan_members n (skip_ws t) = Inr (kvs, r)"
    | vs where "scan_elements n (skip_ws t) = Inr (vs, r)"
    | "r = drop 3 t" | "r = drop 4 t" | "scan_number s = Inr (v, r)"
    by (auto simp: scan_value.simps(2) Let_def andthen_eq_Inr_iff split: if_splits)
  then show ?thesis
    by cases (use Cons w assms(2,3) in \<open>auto dest: scan_string_shorter scan_number_shorter\<close>,
      (use assms(2,3) Cons w in fastforce)+)
qed (use assms in \<open>simp add: scan_value.simps(2)\<close>)

lemma scan_shorter:
  "(\<forall>v r. scan_value n s = Inr (v, r) \<longrightarrow> length r < length s)
   \<and> (\<forall>vs r. scan_elements n s = Inr (vs, r) \<longrightarrow> length r < length s)
   \<and> (\<forall>kvs r. scan_members n s = Inr (kvs, r) \<longrightarrow> length r < length s)"
proof (induction n arbitrary: s)
  case (Suc n)
  have v: "length r < length q" if "scan_value n q = Inr (v, r)" for q v r using Suc that by blast
  have e: "length r < length q" if "scan_elements n q = Inr (vs, r)" for q vs r using Suc that by blast
  have m: "length r < length q" if "scan_members n q = Inr (kvs, r)" for q kvs r using Suc that by blast
  have "length r < length s" if "scan_elements (Suc n) s = Inr (vs, r)" for vs r
    using that
  proof (rule scan_elements_InrD)
    fix x q c q' ws
    assume q: "scan_value n s = Inr (x, q)" "skip_ws q = c # q'"
      and "(ws = [] \<and> r = q') \<or> scan_elements n (skip_ws q') = Inr (ws, r)"
    then show ?thesis
      using v [OF q(1)] skip_ws_Cons_length [OF q(2)] skip_ws_length [of q'] e by fastforce
  qed
  moreover have "length r < length s" if "scan_members (Suc n) s = Inr (kvs, r)" for kvs r
    using that
  proof (rule scan_members_InrD)
    fix k p x q c q' ws
    assume q: "scan_key s = Inr (k, p)" "scan_value n p = Inr (x, q)" "skip_ws q = c # q'"
      and "(ws = [] \<and> r = q') \<or> scan_members n (skip_ws q') = Inr (ws, r)"
    then show ?thesis
      using v [OF q(2)] skip_ws_Cons_length [OF q(3)] skip_ws_length [of q'] m
        scan_key_shorter [OF q(1)] by fastforce
  qed
  moreover have "length r < length s" if "scan_value (Suc n) s = Inr (x, r)" for x r
    using that e m by (rule scan_value_shorter_if)
  ultimately show ?case by blast
qed simp

text \<open>More fuel than twice the text, and one more inside a container, changes nothing.\<close>

lemma andthen_cong_Inr:
  assumes "r = r'" and "\<And>x. r' = Inr x \<Longrightarrow> k x = k' x"
  shows "andthen r k = andthen r' k'"
  using assms by (cases r') simp_all

lemma scan_fuel_enough:
  "(2 * length s < n \<and> 2 * length s < m \<longrightarrow> scan_value n s = scan_value m s)
   \<and> (2 * length s + 1 < n \<and> 2 * length s + 1 < m \<longrightarrow> scan_elements n s = scan_elements m s)
   \<and> (2 * length s + 1 < n \<and> 2 * length s + 1 < m \<longrightarrow> scan_members n s = scan_members m s)"
proof (induction n arbitrary: m s)
  case (Suc n)
  have v: "scan_value n q = scan_value k q" if "2 * length q < n" "2 * length q < k" for q k
    using Suc that by blast
  have e: "scan_elements n q = scan_elements k q" if "2 * length q + 1 < n" "2 * length q + 1 < k" for q k
    using Suc that by blast
  have o: "scan_members n q = scan_members k q" if "2 * length q + 1 < n" "2 * length q + 1 < k" for q k
    using Suc that by blast
  have "scan_value (Suc n) s = scan_value m s" if l: "2 * length s < Suc n" "2 * length s < m"
  proof -
    from l obtain k where m: "m = Suc k" by (cases m) auto
    show ?thesis
    proof (cases s)
      case (Cons c t)
      with l m skip_ws_length [of t] have "2 * length (skip_ws t) + 1 < n" "2 * length (skip_ws t) + 1 < k"
        by simp_all
      then have "scan_elements n (skip_ws t) = scan_elements k (skip_ws t)"
        and "scan_members n (skip_ws t) = scan_members k (skip_ws t)" by (fact e, fact o)
      then show ?thesis
        unfolding m Cons scan_value.simps(2) list.case Let_def by (simp only:)
    qed (simp add: m scan_value.simps(2))
  qed
  moreover have "scan_elements (Suc n) s = scan_elements m s"
    if l: "2 * length s + 1 < Suc n" "2 * length s + 1 < m"
  proof -
    from l obtain k where m: "m = Suc k" by (cases m) auto
    have "scan_elements n (skip_ws r') = scan_elements k (skip_ws r')"
      if "scan_value k s = Inr (x, r)" "skip_ws r = c # r'" for x r c r'
    proof -
      have "length r < length s" using scan_shorter that(1) by blast
      with skip_ws_Cons_length [OF that(2)] skip_ws_length [of r'] l m
      show ?thesis by (intro e) linarith+
    qed
    with v [of s k] l m show ?thesis
      by (auto simp: scan_elements.simps(2) intro!: andthen_cong_Inr split: list.split)
  qed
  moreover have "scan_members (Suc n) s = scan_members m s"
    if l: "2 * length s + 1 < Suc n" "2 * length s + 1 < m"
  proof -
    from l obtain k where m: "m = Suc k" by (cases m) auto
    have p: "scan_value n q = scan_value k q" if "scan_key s = Inr (i, q)" for i q
      using scan_key_shorter [OF that] l m by (intro v) linarith+
    have "scan_members n (skip_ws r') = scan_members k (skip_ws r')"
      if "scan_key s = Inr (i, q)" "scan_value k q = Inr (x, r)" "skip_ws r = c # r'" for i q x r c r'
    proof -
      have "length r < length q" using scan_shorter that(2) by blast
      with scan_key_shorter [OF that(1)] skip_ws_Cons_length [OF that(3)] skip_ws_length [of r'] l m
      show ?thesis by (intro o) linarith+
    qed
    with p m show ?thesis
      by (auto simp: scan_members.simps(2) intro!: andthen_cong_Inr split: list.split)
  qed
  ultimately show ?case by blast
qed simp

text \<open>
  The JSON scanner ends on every text: with a fuel of twice the length of the text it gives
  the result it gives with any larger fuel, so no text is refused because the fuel ran out.
\<close>

lemma scanner_always_ends:
  "loads s = andthen (scan_value (scan_fuel s + extra) (skip_ws s)) (\<lambda>(v, r).
     require INVALID_JSON_RECORD (skip_ws r = []) (Inr v))"
proof -
  have "scan_value (scan_fuel s) (skip_ws s) = scan_value (scan_fuel s + extra) (skip_ws s)"
    using scan_fuel_enough skip_ws_length [of s] by (simp add: scan_fuel_def)
  then show ?thesis by (simp add: loads_def)
qed

section \<open>A parsed tree has no duplicate keys\<close>

lemma scan_number_distinct: "scan_number s = Inr (v, r) \<Longrightarrow> distinct_keys v"
  by (auto simp: scan_number_def Let_def andthen_eq_Inr_iff parse_json_integer_def
      split: prod.splits if_splits list.split_asm)

lemma scan_value_distinct_if:
  assumes "scan_value (Suc n) s = Inr (v, r)"
    and "\<And>q vs. scan_elements n q = Inr (vs, r) \<Longrightarrow> list_all distinct_keys vs"
    and "\<And>q kvs. scan_members n q = Inr (kvs, r) \<Longrightarrow> list_all (\<lambda>(k, v). distinct_keys v) kvs"
  shows "distinct_keys v"
proof (cases s)
  case (Cons c t)
  from assms(1) Cons consider x where "v = JStr x" | "v = JObj []" | "v = JList []"
    | kvs where "scan_members n (skip_ws t) = Inr (kvs, r)" "distinct (map fst kvs)" "v = JObj kvs"
    | vs where "scan_elements n (skip_ws t) = Inr (vs, r)" "v = JList vs"
    | "v = JNull" | b where "v = JBool b" | "scan_number s = Inr (v, r)"
    by (auto simp: scan_value.simps(2) Let_def andthen_eq_Inr_iff object_without_duplicate_keys_def
        split: if_splits)
  then show ?thesis by cases (use assms(2,3) scan_number_distinct in auto)
qed (use assms in \<open>simp add: scan_value.simps(2)\<close>)

lemma scan_distinct:
  "(\<forall>v r. scan_value n s = Inr (v, r) \<longrightarrow> distinct_keys v)
   \<and> (\<forall>vs r. scan_elements n s = Inr (vs, r) \<longrightarrow> list_all distinct_keys vs)
   \<and> (\<forall>kvs r. scan_members n s = Inr (kvs, r) \<longrightarrow> list_all (\<lambda>(k, v). distinct_keys v) kvs)"
proof (induction n arbitrary: s)
  case (Suc n)
  have v: "distinct_keys v" if "scan_value n q = Inr (v, r)" for q v r using Suc that by blast
  have e: "list_all distinct_keys vs" if "scan_elements n q = Inr (vs, r)" for q vs r using Suc that by blast
  have m: "list_all (\<lambda>(k, v). distinct_keys v) kvs" if "scan_members n q = Inr (kvs, r)" for q kvs r
    using Suc that by blast
  have "list_all distinct_keys vs" if "scan_elements (Suc n) s = Inr (vs, r)" for vs r
    using that by (rule scan_elements_InrD) (use v e in auto)
  moreover have "list_all (\<lambda>(k, v). distinct_keys v) kvs" if "scan_members (Suc n) s = Inr (kvs, r)" for kvs r
    using that by (rule scan_members_InrD) (use v m in auto)
  moreover have "distinct_keys x" if "scan_value (Suc n) s = Inr (x, r)" for x r
    using that e m by (rule scan_value_distinct_if)
  ultimately show ?case by blast
qed simp

lemma loads_distinct: "loads s = Inr j \<Longrightarrow> distinct_keys j"
  using scan_distinct [of "scan_fuel s" "skip_ws s"]
  by (auto simp: loads_def andthen_eq_Inr_iff)

lemma parse_canonical_distinct:
  assumes "parse_canonical raw = Inr j"
  shows "distinct_keys j"
proof -
  from assms obtain s v where "loads s = Inr v"
    and "(case canonical_record_bytes v of Inl _ \<Rightarrow> Inl INVALID_JSON_RECORD
        | Inr canonical \<Rightarrow> require NON_CANONICAL_RECORD (canonical = raw) (Inr v)) = Inr j"
    by (cases "utf8_decode raw") (auto simp: parse_canonical_def andthen_eq_Inr_iff)
  then show ?thesis using loads_distinct by (cases "canonical_record_bytes v") auto
qed

end
