(* ===== verification/Typed_Codec.thy ===== *)
theory Typed_Codec
  imports Json_Roundtrip
begin

text \<open>
  The typed codec of \<open>xsync_v2/event_codec.py\<close>: \<open>_to_tree\<close> and \<open>_from_tree\<close>, which follow the type
  hints of the data classes.  A Python value is a \<open>val\<close>: a scalar, a member of an enumeration, a
  tuple, or a record with its fields in order; a hint is a \<open>ty\<close>.  The tables below are the
  enumerations and the hints of \<open>DOMAIN_TYPES\<close>, class by class.  A field of a class with default
  values is a field like any other: the codec writes and expects all of them.
\<close>

section \<open>Values and hints\<close>

datatype val =
    VNone
  | VStr pystr
  | VInt int
  | VBool bool
  | VEnum string pystr
  | VTuple "val list"
  | VRec string "val list"

datatype ty =
    TyNone
  | TyStr
  | TyInt
  | TyBool
  | TyEnum string
  | TyRec string
  | TyMany ty
  | TyFixed "ty list"
  | TyUnion "ty list"

abbreviation optional :: "ty \<Rightarrow> ty" where
  "optional t \<equiv> TyUnion [t, TyNone]"

definition enum_values :: "(string \<times> string list) list" where
  "enum_values =
     [(''ConversationPhase'', [''none'', ''choosing_topic'', ''clarifying_topic'', ''awaiting_user'', ''waiting_host'',
         ''recoverable_error'']),
      (''SessionLifecycle'', [''new'', ''open'', ''ended'']),
      (''TopicLifecycle'', [''active'', ''paused'', ''completed'']),
      (''EvidenceHealth'', [''current'', ''captured_dirty'', ''stale'', ''disputed'', ''unavailable'']),
      (''Lens'', [''business'', ''technical'', ''mixed'']),
      (''GateId'', [''mechanism'', ''boundary'', ''repository_application'']),
      (''GateStatus'', [''unexplored'', ''emerging'', ''assisted'', ''supported'', ''stale'', ''disputed'']),
      (''QuestionIntent'', [''clarify'', ''causal_trace'', ''assumption_test'', ''counterexample'',
         ''evidence_locate'', ''business_technical_bridge'', ''repository_apply'', ''synthesize'']),
      (''InsightKind'', [''technical_conclusion'', ''business_insight'', ''business_technical_mapping'',
         ''boundary'', ''open_question'']),
      (''InsightStatus'', [''confirmed'', ''working_model'', ''open_question'', ''stale'', ''disputed'']),
      (''InsightProvenance'', [''learner_explicit'', ''agent_inferred'', ''jointly_confirmed'']),
      (''TriggerKind'', [''topic_candidates'', ''topic_selection'', ''initial_turn'', ''learner_reply'', ''help'',
         ''lens_changed'', ''reground'']),
      (''WorkStatus'', [''queued'', ''failed'', ''dead_letter'', ''completed'', ''superseded'']),
      (''WorkFailureCategory'', [''host_transient'', ''result_invalid'', ''lease_attempts_exhausted'', ''host_permanent'']),
      (''WorkRecoveryAction'', [''retry'', ''reground'']),
      (''PauseCause'', [''user'', ''session_deactivation'']),
      (''ExportStatus'', [''requested'', ''completed'']),
      (''ActorKind'', [''learner'', ''host'', ''runtime'']),
      (''EffectKind'', [''export_materialization''])]"

definition command_types :: "string list" where
  "command_types =
     [''StartSession'', ''PresentCandidates'', ''SelectTopic'', ''SubmitCustomTopic'',
      ''RequestTopicClarification'', ''AnswerTopicClarification'', ''SetLens'', ''RequestHelp'',
      ''CompleteTopic'', ''StartTopic'', ''CommitAgentTurn'', ''SubmitLearnerTurn'',
      ''PauseTopic'', ''SwitchTopic'', ''ExploreTopics'', ''ResumeTopic'', ''ReportWorkFailure'',
      ''RecoverWork'', ''RequestExport'', ''CompleteExport'']"

definition payload_types :: "string list" where
  "payload_types =
     [''SessionStarted'', ''CandidatesPresented'', ''TopicSelectionSubmitted'',
      ''TopicClarificationRequested'', ''TopicClarificationAnswered'', ''LensChanged'',
      ''HelpRequested'', ''TopicCompleted'', ''TopicStarted'', ''AgentTurnCommitted'',
      ''LearnerTurnSubmitted'', ''TopicPaused'', ''TopicSwitchRequested'',
      ''TopicExplorationRequested'', ''SessionDeactivationPrepared'', ''TopicResumed'',
      ''WorkFailed'', ''WorkRequeued'', ''WorkDeadLettered'', ''WorkRecoveryRequested'',
      ''ExportRequested'', ''ExportCompleted'']"

definition value_hints :: "(string \<times> (string \<times> ty) list) list" where
  "value_hints =
     [(''GateRequirement'',
        [(''gate_id'', TyEnum ''GateId''), (''required'', TyBool)]),
      (''GateAssessment'',
        [(''gate_id'', TyEnum ''GateId''), (''status'', TyEnum ''GateStatus''),
         (''source_turn_ids'', TyMany TyStr), (''evidence_refs'', TyMany TyStr)]),
      (''TaskScope'',
        [(''task_id'', TyStr), (''summary'', TyStr), (''included_paths'', TyMany TyStr),
         (''excluded_paths'', TyMany TyStr)]),
      (''TopicContract'',
        [(''contract_id'', TyStr), (''contract_version'', TyInt), (''topic_run_id'', TyStr),
         (''title'', TyStr), (''guiding_question'', TyStr), (''objective'', TyStr),
         (''task_scope'', TyRec ''TaskScope''), (''starting_lens'', TyEnum ''Lens''),
         (''bridge_required'', TyBool), (''evidence_refs'', TyMany TyStr),
         (''gates'', TyMany (TyRec ''GateRequirement'')),
         (''supersedes_contract_id'', optional TyStr), (''contract_digest'', TyStr)]),
      (''EvidenceCheck'',
        [(''health'', TyEnum ''EvidenceHealth''), (''evidence_digest'', TyStr),
         (''exact_recheck_fingerprint'', optional TyStr)]),
      (''TriggerBinding'',
        [(''kind'', TyEnum ''TriggerKind''), (''work_id'', TyStr), (''runtime_epoch'', TyStr),
         (''parent_turn_id'', optional TyStr), (''contract_digest'', optional TyStr),
         (''input_digest'', TyStr), (''evidence_digest'', TyStr)]),
      (''WorkFailure'',
        [(''failure_id'', TyStr), (''category'', TyEnum ''WorkFailureCategory''),
         (''safe_error_code'', TyStr), (''proof_digest'', TyStr)]),
      (''CurrentWorkState'',
        [(''work_id'', TyStr), (''trigger_event_id'', TyStr), (''trigger_event_sequence'', TyInt),
         (''trigger'', TyRec ''TriggerBinding''), (''attempt'', TyInt),
         (''status'', TyEnum ''WorkStatus''),
         (''last_failure'', optional (TyRec ''WorkFailure'')),
         (''allowed_recovery_actions'', TyMany (TyEnum ''WorkRecoveryAction''))]),
      (''DecisionContext'',
        [(''registry_generation'', TyInt), (''trigger'', optional (TyRec ''TriggerBinding'')),
         (''evidence'', TyRec ''EvidenceCheck'')]),
      (''LearnerModelEntry'',
        [(''entry_id'', TyStr), (''kind'', TyEnum ''InsightKind''),
         (''status'', TyEnum ''InsightStatus''), (''provenance'', TyEnum ''InsightProvenance''),
         (''statement'', TyStr), (''source_turn_ids'', TyMany TyStr),
         (''evidence_refs'', TyMany TyStr)]),
      (''AgentTurnResult'',
        [(''heard'', TyStr), (''one_step_further'', TyStr), (''question_id'', TyStr),
         (''question'', TyStr), (''question_intent'', TyEnum ''QuestionIntent''),
         (''learner_model_delta'', TyMany (TyRec ''LearnerModelEntry'')),
         (''gate_assessments'', TyMany (TyRec ''GateAssessment'')),
         (''evidence_refs'', TyMany TyStr)]),
      (''TopicSummary'',
        [(''takeaway'', TyStr), (''confirmed_entry_ids'', TyMany TyStr),
         (''open_questions'', TyMany TyStr), (''next_suggestion'', TyStr)]),
      (''TopicClarification'',
        [(''question_id'', TyStr), (''question'', TyStr), (''answer'', optional TyStr)]),
      (''TopicRunState'',
        [(''topic_run_id'', TyStr), (''contract'', TyRec ''TopicContract''),
         (''lifecycle'', TyEnum ''TopicLifecycle''),
         (''evidence_health'', TyEnum ''EvidenceHealth''), (''evidence_digest'', TyStr),
         (''exact_recheck_fingerprint'', optional TyStr),
         (''gates'', TyMany (TyRec ''GateAssessment'')),
         (''learner_model'', TyMany (TyRec ''LearnerModelEntry'')),
         (''current_agent_turn'', optional (TyRec ''AgentTurnResult'')),
         (''work'', optional (TyRec ''CurrentWorkState'')), (''learner_turn_ids'', TyMany TyStr),
         (''last_learner_turn_id'', optional TyStr), (''last_learner_text'', optional TyStr),
         (''current_lens'', optional (TyEnum ''Lens'')),
         (''summary'', optional (TyRec ''TopicSummary''))]),
      (''DialogueState'',
        [(''session_id'', TyStr), (''registry_generation'', TyInt), (''sequence'', TyInt),
         (''conversation_version'', TyInt), (''lifecycle'', TyEnum ''SessionLifecycle''),
         (''phase'', TyEnum ''ConversationPhase''), (''candidates'', TyMany TyStr),
         (''session_work'', optional (TyRec ''CurrentWorkState'')),
         (''active_topic'', optional (TyRec ''TopicRunState'')),
         (''paused_topics'', TyMany (TyRec ''TopicRunState'')),
         (''selected_candidate'', optional TyStr),
         (''topic_clarification'', optional (TyRec ''TopicClarification'')),
         (''completed_topics'', TyMany (TyRec ''TopicRunState'')),
         (''exports'', TyMany (TyRec ''ExportRecord''))]),
      (''ExportRecord'',
        [(''export_id'', TyStr), (''export_sequence'', TyInt), (''intent_id'', TyStr),
         (''as_of_event_sequence'', TyInt), (''requested_at'', TyStr),
         (''payload_digest'', TyStr), (''status'', TyEnum ''ExportStatus''),
         (''completed_at'', optional TyStr), (''json_path'', optional TyStr),
         (''json_digest'', optional TyStr), (''markdown_path'', optional TyStr),
         (''markdown_digest'', optional TyStr), (''freshness_overlay_digest'', optional TyStr)]),
      (''CommittedDialogueEvent'',
        [(''event_id'', TyStr), (''sequence'', TyInt), (''from_version'', TyInt),
         (''to_version'', TyInt), (''command_id'', TyStr),
         (''payload'', TyUnion (map TyRec payload_types))])]"

definition command_hints :: "(string \<times> (string \<times> ty) list) list" where
  "command_hints =
     [(''StartSession'',
        [(''command_id'', TyStr)]),
      (''PresentCandidates'',
        [(''command_id'', TyStr), (''candidates'', TyMany TyStr)]),
      (''SelectTopic'',
        [(''command_id'', TyStr), (''candidate'', TyStr)]),
      (''SubmitCustomTopic'',
        [(''command_id'', TyStr), (''topic'', TyStr)]),
      (''RequestTopicClarification'',
        [(''command_id'', TyStr), (''question_id'', TyStr), (''question'', TyStr)]),
      (''AnswerTopicClarification'',
        [(''command_id'', TyStr), (''question_id'', TyStr), (''answer'', TyStr)]),
      (''SetLens'',
        [(''command_id'', TyStr), (''lens'', TyEnum ''Lens'')]),
      (''RequestHelp'',
        [(''command_id'', TyStr), (''question_id'', TyStr)]),
      (''CompleteTopic'',
        [(''command_id'', TyStr), (''summary'', TyRec ''TopicSummary'')]),
      (''StartTopic'',
        [(''command_id'', TyStr), (''contract'', TyRec ''TopicContract''),
         (''selected_candidate'', optional TyStr)]),
      (''CommitAgentTurn'',
        [(''command_id'', TyStr), (''result'', TyRec ''AgentTurnResult'')]),
      (''SubmitLearnerTurn'',
        [(''command_id'', TyStr), (''question_id'', TyStr), (''learner_turn_id'', TyStr),
         (''text'', TyStr)]),
      (''PauseTopic'',
        [(''command_id'', TyStr)]),
      (''SwitchTopic'',
        [(''command_id'', TyStr)]),
      (''ExploreTopics'',
        [(''command_id'', TyStr)]),
      (''ResumeTopic'',
        [(''command_id'', TyStr), (''topic_run_id'', TyStr)]),
      (''ReportWorkFailure'',
        [(''command_id'', TyStr), (''work_id'', TyStr), (''failure'', TyRec ''WorkFailure'')]),
      (''RecoverWork'',
        [(''command_id'', TyStr), (''dead_work_id'', TyStr),
         (''action'', TyEnum ''WorkRecoveryAction'')]),
      (''RequestExport'',
        [(''command_id'', TyStr), (''export_id'', TyStr), (''intent_id'', TyStr),
         (''requested_at'', TyStr), (''payload_digest'', TyStr)]),
      (''CompleteExport'',
        [(''command_id'', TyStr), (''export_id'', TyStr), (''intent_id'', TyStr),
         (''completed_at'', TyStr), (''json_path'', TyStr), (''json_digest'', TyStr),
         (''markdown_path'', TyStr), (''markdown_digest'', TyStr),
         (''freshness_overlay_digest'', TyStr)])]"

definition payload_hints :: "(string \<times> (string \<times> ty) list) list" where
  "payload_hints =
     [(''SessionStarted'',
        [(''candidate_trigger'', TyRec ''TriggerBinding'')]),
      (''CandidatesPresented'',
        [(''candidates'', TyMany TyStr), (''trigger'', TyRec ''TriggerBinding'')]),
      (''TopicSelectionSubmitted'',
        [(''candidate'', TyStr), (''next_trigger'', TyRec ''TriggerBinding'')]),
      (''TopicClarificationRequested'',
        [(''question_id'', TyStr), (''question'', TyStr),
         (''selection_trigger'', TyRec ''TriggerBinding'')]),
      (''TopicClarificationAnswered'',
        [(''question_id'', TyStr), (''answer'', TyStr),
         (''next_trigger'', TyRec ''TriggerBinding'')]),
      (''LensChanged'',
        [(''topic_run_id'', TyStr), (''lens'', TyEnum ''Lens''),
         (''next_trigger'', TyRec ''TriggerBinding'')]),
      (''HelpRequested'',
        [(''topic_run_id'', TyStr), (''question_id'', TyStr),
         (''next_trigger'', TyRec ''TriggerBinding'')]),
      (''TopicCompleted'',
        [(''topic_run_id'', TyStr), (''summary'', TyRec ''TopicSummary''),
         (''trigger'', TyRec ''TriggerBinding''), (''evidence'', TyRec ''EvidenceCheck''),
         (''as_of_sequence'', TyInt), (''evidence_fingerprint'', TyStr)]),
      (''TopicStarted'',
        [(''contract'', TyRec ''TopicContract''), (''evidence'', TyRec ''EvidenceCheck''),
         (''initial_trigger'', TyRec ''TriggerBinding''),
         (''selected_candidate'', optional TyStr),
         (''selection_trigger'', optional (TyRec ''TriggerBinding''))]),
      (''AgentTurnCommitted'',
        [(''result'', TyRec ''AgentTurnResult''), (''trigger'', TyRec ''TriggerBinding''),
         (''evidence'', TyRec ''EvidenceCheck'')]),
      (''LearnerTurnSubmitted'',
        [(''question_id'', TyStr), (''learner_turn_id'', TyStr), (''text'', TyStr),
         (''next_trigger'', TyRec ''TriggerBinding'')]),
      (''TopicPaused'',
        [(''topic_run_id'', TyStr), (''cause'', TyEnum ''PauseCause''),
         (''handoff_id'', optional TyStr), (''fence_generation'', optional TyInt)]),
      (''TopicSwitchRequested'',
        [(''topic_run_id'', TyStr), (''candidate_trigger'', TyRec ''TriggerBinding'')]),
      (''TopicExplorationRequested'',
        [(''candidate_trigger'', TyRec ''TriggerBinding'')]),
      (''SessionDeactivationPrepared'',
        [(''handoff_id'', TyStr), (''fence_generation'', TyInt),
         (''superseded_trigger'', optional (TyRec ''TriggerBinding''))]),
      (''TopicResumed'',
        [(''topic_run_id'', TyStr), (''requires_reground'', TyBool),
         (''resumed_trigger'', optional (TyRec ''TriggerBinding'')),
         (''evidence'', TyRec ''EvidenceCheck'')]),
      (''WorkFailed'',
        [(''work_id'', TyStr), (''trigger'', TyRec ''TriggerBinding''), (''attempt'', TyInt),
         (''failure'', TyRec ''WorkFailure'')]),
      (''WorkRequeued'',
        [(''failed_work_id'', TyStr), (''failed_trigger'', TyRec ''TriggerBinding''),
         (''failed_attempt'', TyInt), (''failure'', TyRec ''WorkFailure''),
         (''next_trigger'', TyRec ''TriggerBinding''), (''next_attempt'', TyInt)]),
      (''WorkDeadLettered'',
        [(''failed_work_id'', TyStr), (''failed_trigger'', TyRec ''TriggerBinding''),
         (''failed_attempt'', TyInt), (''failure'', TyRec ''WorkFailure''),
         (''allowed_actions'', TyMany (TyEnum ''WorkRecoveryAction''))]),
      (''WorkRecoveryRequested'',
        [(''dead_work_id'', TyStr), (''action'', TyEnum ''WorkRecoveryAction''),
         (''next_trigger'', TyRec ''TriggerBinding''), (''evidence'', TyRec ''EvidenceCheck'')]),
      (''ExportRequested'',
        [(''export_id'', TyStr), (''export_sequence'', TyInt), (''intent_id'', TyStr),
         (''as_of_event_sequence'', TyInt), (''requested_at'', TyStr), (''payload_digest'', TyStr)]),
      (''ExportCompleted'',
        [(''export_id'', TyStr), (''export_sequence'', TyInt), (''intent_id'', TyStr),
         (''completed_at'', TyStr), (''json_path'', TyStr), (''json_digest'', TyStr),
         (''markdown_path'', TyStr), (''markdown_digest'', TyStr),
         (''freshness_overlay_digest'', TyStr)])]"

definition stored_hints :: "(string \<times> (string \<times> ty) list) list" where
  "stored_hints =
     [(''DurableEffectIntent'',
        [(''intent_id'', TyStr), (''kind'', TyEnum ''EffectKind''), (''session_id'', TyStr),
         (''export_id'', TyStr), (''as_of_sequence'', TyInt), (''formats'', TyMany TyStr),
         (''payload_digest'', TyStr)]),
      (''DialogueActor'',
        [(''kind'', TyEnum ''ActorKind''), (''actor_id'', TyStr)]),
      (''StoredDialogueEvent'',
        [(''schema_version'', TyInt), (''record_type'', TyStr), (''protocol_version'', TyStr),
         (''session_id'', TyStr), (''registry_generation'', TyInt), (''event_type'', TyStr),
         (''occurred_at'', TyStr), (''actor'', TyRec ''DialogueActor''),
         (''causation_id'', optional TyStr), (''previous_event_hash'', optional TyStr),
         (''event'', TyRec ''CommittedDialogueEvent''), (''event_hash'', TyStr)]),
      (''MarkerEventRef'',
        [(''sequence'', TyInt), (''event_id'', TyStr), (''event_hash'', TyStr)]),
      (''TransactionMarker'',
        [(''schema_version'', TyInt), (''record_type'', TyStr), (''session_id'', TyStr),
         (''transaction_id'', TyStr), (''command_id'', TyStr), (''request_digest'', TyStr),
         (''registry_generation'', TyInt), (''from_sequence'', TyInt), (''to_sequence'', TyInt),
         (''previous_marker_hash'', optional TyStr), (''state_digest'', TyStr),
         (''effect_intents'', TyMany (TyRec ''DurableEffectIntent'')),
         (''events'', TyMany (TyRec ''MarkerEventRef'')), (''marker_hash'', TyStr)]),
      (''DialogueCommandReceipt'',
        [(''command_id'', TyStr), (''request_digest'', TyStr), (''transaction_id'', TyStr),
         (''marker_hash'', TyStr), (''from_sequence'', TyInt), (''to_sequence'', TyInt),
         (''event_ids'', TyMany TyStr), (''state_digest'', TyStr)]),
      (''DialogueWriteRequestRecord'',
        [(''schema_version'', TyInt), (''record_type'', TyStr), (''session_id'', TyStr),
         (''expected_registry_generation'', TyInt), (''expected_conversation_version'', TyInt),
         (''command'', TyUnion (map TyRec command_types)),
         (''context'', TyRec ''DecisionContext'')]),
      (''DialogueStateSnapshot'',
        [(''schema_version'', TyInt), (''record_type'', TyStr), (''session_id'', TyStr),
         (''through_sequence'', TyInt), (''state_digest'', TyStr),
         (''last_event_hash'', optional TyStr), (''last_marker_hash'', optional TyStr),
         (''receipts'', TyMany (TyRec ''DialogueCommandReceipt'')),
         (''state'', TyRec ''DialogueState'')])]"

definition type_hints :: "(string \<times> (string \<times> ty) list) list" where
  "type_hints = value_hints @ command_hints @ payload_hints @ stored_hints"

definition hints_of :: "string \<Rightarrow> (string \<times> ty) list option" where
  "hints_of name = map_of type_hints name"

definition members_of :: "string \<Rightarrow> pystr list" where
  "members_of name = (case map_of enum_values name of None \<Rightarrow> [] | Some vs \<Rightarrow> map py vs)"

section \<open>Encoding\<close>

text \<open>A variant of a union that is exactly the type of the value.\<close>

fun is_exact :: "val \<Rightarrow> ty \<Rightarrow> bool" where
  "is_exact (VStr _) TyStr \<longleftrightarrow> True"
| "is_exact (VInt _) TyInt \<longleftrightarrow> True"
| "is_exact (VBool _) TyBool \<longleftrightarrow> True"
| "is_exact (VEnum m _) (TyEnum n) \<longleftrightarrow> m = n"
| "is_exact (VRec m _) (TyRec n) \<longleftrightarrow> m = n"
| "is_exact _ _ \<longleftrightarrow> False"

definition type_key :: pystr where
  "type_key = py ''$type''"

definition tagged :: "string \<Rightarrow> (string \<times> ty) list \<Rightarrow> json list \<Rightarrow> json" where
  "tagged name fs js = JObj ((type_key, JStr (py name)) # zip (map (py \<circ> fst) fs) js)"

lemma filter_single_member: "filter p ts = [t] \<Longrightarrow> t \<in> set ts \<and> p t"
  by (metis filter_is_subset filter_eq_Cons_iff in_mono list.set_intros(1))

lemma size_filter_single: "filter p ts = [t] \<Longrightarrow> size t < Suc (size_list size (ts :: ty list))"
  by (auto dest!: filter_single_member simp: less_Suc_eq_le intro: size_list_estimation')

function (sequential)
  to_tree :: "val \<Rightarrow> ty \<Rightarrow> codec_code + json"
  and to_trees :: "val list \<Rightarrow> ty list \<Rightarrow> codec_code + json list" where
  "to_tree v (TyUnion ts) =
     (if v = VNone \<and> TyNone \<in> set ts then Inr JNull
      else case filter (is_exact v) ts of
             [t] \<Rightarrow> to_tree v t
           | _ \<Rightarrow> Inl INVALID_UNION_VALUE)"
| "to_tree v (TyMany t) =
     (case v of
        VTuple vs \<Rightarrow> andthen (to_trees vs (replicate (length vs) t)) (\<lambda>js. Inr (JList js))
      | _ \<Rightarrow> Inl INVALID_TUPLE_VALUE)"
| "to_tree v (TyFixed ts) =
     (case v of
        VTuple vs \<Rightarrow>
          require INVALID_TUPLE_ARITY (length ts = length vs)
            (andthen (to_trees vs ts) (\<lambda>js. Inr (JList js)))
      | _ \<Rightarrow> Inl INVALID_TUPLE_VALUE)"
| "to_tree v TyNone = require INVALID_NULL_VALUE (v = VNone) (Inr JNull)"
| "to_tree v TyStr = (case v of VStr s \<Rightarrow> Inr (JStr s) | _ \<Rightarrow> Inl INVALID_SCALAR_TYPE)"
| "to_tree v TyInt = (case v of VInt i \<Rightarrow> Inr (JInt i) | _ \<Rightarrow> Inl INVALID_SCALAR_TYPE)"
| "to_tree v TyBool = (case v of VBool b \<Rightarrow> Inr (JBool b) | _ \<Rightarrow> Inl INVALID_SCALAR_TYPE)"
| "to_tree v (TyEnum n) =
     (case v of
        VEnum m s \<Rightarrow> require INVALID_ENUM_VALUE (m = n) (Inr (JStr s))
      | _ \<Rightarrow> Inl INVALID_ENUM_VALUE)"
| "to_tree v (TyRec n) =
     (case hints_of n of
        None \<Rightarrow> Inl UNSUPPORTED_CODEC_TYPE
      | Some fs \<Rightarrow>
          (case v of
             VRec m vs \<Rightarrow>
               require INVALID_RECORD_TYPE (m = n)
                 (andthen (to_trees vs (map snd fs)) (\<lambda>js. Inr (tagged n fs js)))
           | _ \<Rightarrow> Inl INVALID_RECORD_TYPE))"
| "to_trees [] [] = Inr []"
| "to_trees (v # vs) (t # ts) =
     andthen (to_tree v t) (\<lambda>j. andthen (to_trees vs ts) (\<lambda>js. Inr (j # js)))"
| "to_trees _ _ = Inl INVALID_RECORD_TYPE"
  by pat_completeness auto
termination
  by (relation "measures [\<lambda>x. case x of Inl (v, t) \<Rightarrow> size v | Inr (vs, ts) \<Rightarrow> size_list size vs,
                          \<lambda>x. case x of Inl (v, t) \<Rightarrow> size t | Inr (vs, ts) \<Rightarrow> 0]")
    (auto simp: size_filter_single)

section \<open>Decoding\<close>

text \<open>The variants a dictionary names by its \<open>$type\<close>.\<close>

definition named_variants :: "json \<Rightarrow> ty list \<Rightarrow> ty list" where
  "named_variants j ts =
     (case j of
        JObj kvs \<Rightarrow>
          filter (\<lambda>t. case t of TyRec n \<Rightarrow> map_of kvs type_key = Some (JStr (py n)) | _ \<Rightarrow> False) ts
      | _ \<Rightarrow> [])"

lemma named_variants_single: "named_variants j ts = [t] \<Longrightarrow> size t < Suc (size_list size ts)"
  by (auto simp: named_variants_def size_filter_single split: json.splits)

lemma map_of_size:
  "map_of kvs k = Some j \<Longrightarrow> size j < Suc (size_list (size_prod (\<lambda>_. 0) size) kvs)"
  by (induction kvs) (auto split: if_splits)

function (sequential)
  from_tree :: "json \<Rightarrow> ty \<Rightarrow> codec_code + val"
  and from_trees :: "json list \<Rightarrow> ty list \<Rightarrow> codec_code + val list"
  and from_fields :: "(pystr \<times> json) list \<Rightarrow> (string \<times> ty) list \<Rightarrow> codec_code + val list"
  and from_variants :: "json \<Rightarrow> ty list \<Rightarrow> val list" where
  "from_tree j (TyUnion ts) =
     (if j = JNull \<and> TyNone \<in> set ts then Inr VNone
      else case named_variants j ts of
             [t] \<Rightarrow> from_tree j t
           | _ \<Rightarrow> (case from_variants j ts of [v] \<Rightarrow> Inr v | _ \<Rightarrow> Inl INVALID_UNION_VALUE))"
| "from_tree j (TyMany t) =
     (case j of
        JList js \<Rightarrow> andthen (from_trees js (replicate (length js) t)) (\<lambda>vs. Inr (VTuple vs))
      | _ \<Rightarrow> Inl INVALID_TUPLE_VALUE)"
| "from_tree j (TyFixed ts) =
     (case j of
        JList js \<Rightarrow>
          require INVALID_TUPLE_ARITY (length ts = length js)
            (andthen (from_trees js ts) (\<lambda>vs. Inr (VTuple vs)))
      | _ \<Rightarrow> Inl INVALID_TUPLE_VALUE)"
| "from_tree j TyNone = require INVALID_NULL_VALUE (j = JNull) (Inr VNone)"
| "from_tree j TyStr = (case j of JStr s \<Rightarrow> Inr (VStr s) | _ \<Rightarrow> Inl INVALID_SCALAR_TYPE)"
| "from_tree j TyInt = (case j of JInt i \<Rightarrow> Inr (VInt i) | _ \<Rightarrow> Inl INVALID_SCALAR_TYPE)"
| "from_tree j TyBool = (case j of JBool b \<Rightarrow> Inr (VBool b) | _ \<Rightarrow> Inl INVALID_SCALAR_TYPE)"
| "from_tree j (TyEnum n) =
     (case j of
        JStr s \<Rightarrow> require INVALID_ENUM_VALUE (s \<in> set (members_of n)) (Inr (VEnum n s))
      | _ \<Rightarrow> Inl INVALID_ENUM_VALUE)"
| "from_tree j (TyRec n) =
     (case hints_of n of
        None \<Rightarrow> Inl UNSUPPORTED_CODEC_TYPE
      | Some fs \<Rightarrow>
          (case j of
             JObj kvs \<Rightarrow>
               require INVALID_RECORD_TYPE (map_of kvs type_key = Some (JStr (py n)))
               (require INVALID_RECORD_KEYS (set (map fst kvs) = insert type_key (set (map (py \<circ> fst) fs)))
                 (andthen (from_fields kvs fs) (\<lambda>vs. Inr (VRec n vs))))
           | _ \<Rightarrow> Inl INVALID_RECORD_TYPE))"
| "from_trees [] [] = Inr []"
| "from_trees (j # js) (t # ts) =
     andthen (from_tree j t) (\<lambda>v. andthen (from_trees js ts) (\<lambda>vs. Inr (v # vs)))"
| "from_trees _ _ = Inl INVALID_TUPLE_ARITY"
| "from_fields kvs [] = Inr []"
| "from_fields kvs ((k, t) # fs) =
     (case map_of kvs (py k) of
        None \<Rightarrow> Inl INVALID_RECORD_KEYS
      | Some j \<Rightarrow> andthen (from_tree j t) (\<lambda>v. andthen (from_fields kvs fs) (\<lambda>vs. Inr (v # vs))))"
| "from_variants j [] = []"
| "from_variants j (t # ts) =
     (if t = TyNone then from_variants j ts
      else case from_tree j t of
             Inl _ \<Rightarrow> from_variants j ts
           | Inr v \<Rightarrow> v # from_variants j ts)"
  by pat_completeness auto
termination
  by (relation "measures
       [\<lambda>x. case x of Inl (Inl (j, t)) \<Rightarrow> size j | Inl (Inr (js, ts)) \<Rightarrow> size_list size js
          | Inr (Inl (kvs, fs)) \<Rightarrow> size (JObj kvs) | Inr (Inr (j, ts)) \<Rightarrow> size j,
        \<lambda>x. case x of Inl (Inl _) \<Rightarrow> 1 | Inl (Inr _) \<Rightarrow> 0 | Inr (Inl _) \<Rightarrow> 0 | Inr (Inr _) \<Rightarrow> 1,
        \<lambda>x. case x of Inl (Inl (j, t)) \<Rightarrow> size t | Inl (Inr (js, ts)) \<Rightarrow> 0
          | Inr (Inl (kvs, fs)) \<Rightarrow> length fs | Inr (Inr (j, ts)) \<Rightarrow> size_list size ts]")
    (auto simp: named_variants_single map_of_size)

section \<open>Bytes\<close>

definition encode_typed :: "val \<Rightarrow> codec_code + byte list" where
  "encode_typed v =
     (case v of
        VRec n vs \<Rightarrow>
          require UNSUPPORTED_CODEC_VALUE (hints_of n \<noteq> None)
            (andthen (to_tree v (TyRec n)) canonical_record_bytes)
      | _ \<Rightarrow> Inl UNSUPPORTED_CODEC_VALUE)"

definition decode_typed :: "byte list \<Rightarrow> string \<Rightarrow> codec_code + val" where
  "decode_typed raw n = andthen (parse_canonical raw) (\<lambda>j. from_tree j (TyRec n))"

end
