(* ===== verification/Typed_Roundtrip.thy ===== *)
theory Typed_Roundtrip
  imports Typed_Codec "HOL-Library.Multiset"
begin

text \<open>
  Encoding and decoding are inverse.  The hints of the program are unambiguous (no two fields of
  a class share a name, no two variants of a union can decode the same value), and for such
  hints the tree of a value decodes to the value, and the tree a value was decoded from is its
  tree, up to the order of keys.  With the canonical bytes this makes the accepted byte strings
  and the encodable values correspond one to one.
\<close>

section \<open>Unambiguous hints\<close>

definition string_like :: "ty \<Rightarrow> bool" where
  "string_like t \<longleftrightarrow> (case t of TyStr \<Rightarrow> True | TyEnum _ \<Rightarrow> True | _ \<Rightarrow> False)"

definition plain_variant :: "ty \<Rightarrow> bool" where
  "plain_variant t \<longleftrightarrow> (case t of TyMany _ \<Rightarrow> False | TyFixed _ \<Rightarrow> False | TyUnion _ \<Rightarrow> False | _ \<Rightarrow> True)"

fun good_hint :: "ty \<Rightarrow> bool" where
  "good_hint (TyUnion ts) \<longleftrightarrow>
     distinct ts \<and> list_all plain_variant ts \<and> length (filter string_like ts) \<le> 1"
| "good_hint (TyMany t) \<longleftrightarrow> good_hint t"
| "good_hint (TyFixed ts) \<longleftrightarrow> list_all good_hint ts"
| "good_hint _ \<longleftrightarrow> True"

definition good_class :: "(string \<times> ty) list \<Rightarrow> bool" where
  "good_class fs \<longleftrightarrow>
     distinct (map fst fs) \<and> ''$type'' \<notin> set (map fst fs) \<and> list_all (\<lambda>(k, t). good_hint t) fs"

lemma value_hints_good: "list_all (\<lambda>(n, fs). good_class fs) value_hints"
  by code_simp

lemma command_hints_good: "list_all (\<lambda>(n, fs). good_class fs) command_hints"
  by code_simp

lemma payload_hints_good: "list_all (\<lambda>(n, fs). good_class fs) payload_hints"
  by code_simp

lemma stored_hints_good: "list_all (\<lambda>(n, fs). good_class fs) stored_hints"
  by code_simp

lemma hints_good:
  assumes "hints_of n = Some fs"
  shows "good_class fs"
proof -
  have "(n, fs) \<in> set type_hints" using assms by (simp add: hints_of_def map_of_SomeD)
  then show ?thesis
    using value_hints_good command_hints_good payload_hints_good stored_hints_good
    by (auto simp: type_hints_def list_all_iff)
qed

section \<open>Lists of members\<close>

lemma distinct_keys_eq:
  assumes "distinct (map fst xs)" and "distinct (map fst ys)" and "set xs = set ys"
  shows "sort_key fst xs = sort_key fst ys"
proof (rule sort_key_inj_key_eq)
  have "distinct xs" "distinct ys" using assms(1,2) by (auto simp: distinct_map)
  then show "mset xs = mset (sort_key fst ys)" using assms(3) by (simp add: set_eq_iff_mset_eq_distinct)
  show "inj_on fst (set xs)" using assms(1) by (simp add: distinct_map)
qed simp

lemma map_of_sort_key [simp]:
  "distinct (map fst kvs) \<Longrightarrow> map_of (sort_key fst kvs) k = map_of kvs k"
  by (metis distinct_map set_sort distinct_sort inj_on_def map_of_inject_set)

lemma sorted_tree_tagged:
  "sorted_tree (tagged n fs js) = JObj (sort_key fst ((type_key, JStr (py n)) # zip (map (py \<circ> fst) fs) (map sorted_tree js)))"
proof -
  have "map (\<lambda>(k, v). (k, sorted_tree v)) (zip ks js) = zip ks (map sorted_tree js)" for ks :: "pystr list"
    by (simp add: zip_map2)
  then show ?thesis by (simp add: tagged_def)
qed

lemma tagged_keys:
  assumes "good_class fs" and "length js = length fs"
  shows "distinct (map fst ((type_key, x) # zip (map (py \<circ> fst) fs) js))"
proof -
  have "distinct (map (py \<circ> fst) fs)"
    using assms(1) by (auto simp: good_class_def distinct_map comp_inj_on inj_on_def)
  moreover have "type_key \<notin> set (map (py \<circ> fst) fs)"
    using assms(1) by (force simp: good_class_def type_key_def)
  ultimately show ?thesis using assms(2) by simp
qed

lemma tagged_lookup:
  assumes "good_class fs" and "length js = length fs"
  shows "list_all2 (\<lambda>(k, t) j. map_of ((type_key, x) # zip (map (py \<circ> fst) fs) js) (py k) = Some j) fs js"
proof (rule list_all2_all_nthI)
  fix i assume i: "i < length fs"
  obtain k t where kt: "fs ! i = (k, t)" by force
  have "(py k, js ! i) \<in> set (zip (map (py \<circ> fst) fs) js)"
    using i kt assms(2) by (auto simp: set_zip intro!: exI [of _ i])
  then have "map_of ((type_key, x) # zip (map (py \<circ> fst) fs) js) (py k) = Some (js ! i)"
    using tagged_keys [OF assms] by (intro map_of_is_SomeI) auto
  then show "(case fs ! i of (k, t) \<Rightarrow> \<lambda>j. map_of ((type_key, x) # zip (map (py \<circ> fst) fs) js) (py k) = Some j) (js ! i)"
    by (simp add: kt)
qed (simp add: assms(2))

lemma from_fields_trees:
  "list_all2 (\<lambda>(k, t) j. map_of kvs (py k) = Some j) fs js \<Longrightarrow>
     from_fields kvs fs = from_trees js (map snd fs)"
  by (induction fs js rule: list_all2_induct) auto

section \<open>A tree decodes to its value\<close>

text \<open>The members of an enumeration are the only values of its type.\<close>

fun python_val :: "val \<Rightarrow> bool" where
  "python_val (VEnum n s) \<longleftrightarrow> s \<in> set (members_of n)"
| "python_val (VTuple vs) \<longleftrightarrow> list_all python_val vs"
| "python_val (VRec n vs) \<longleftrightarrow> list_all python_val vs"
| "python_val _ \<longleftrightarrow> True"

lemma to_trees_length: "to_trees vs ts = Inr js \<Longrightarrow> length vs = length ts \<and> length js = length ts"
  by (induction vs ts arbitrary: js rule: list_induct2') (auto simp: andthen_eq_Inr_iff)

lemma variant_from_variants:
  assumes "distinct ts" and "t \<in> set ts" and "t \<noteq> TyNone" and "from_tree j t = Inr v"
    and "\<And>t'. t' \<in> set ts \<Longrightarrow> t' \<noteq> t \<Longrightarrow> t' \<noteq> TyNone \<Longrightarrow> \<exists>e. from_tree j t' = Inl e"
  shows "from_variants j ts = [v]"
proof -
  have none: "from_variants j us = []"
    if "\<And>t'. t' \<in> set us \<Longrightarrow> t' \<noteq> TyNone \<Longrightarrow> \<exists>e. from_tree j t' = Inl e" for us
    using that by (induction us) (auto split: sum.split, metis Inr_Inl_False)
  from assms show ?thesis
  proof (induction ts)
    case (Cons u us)
    show ?case
    proof (cases "u = t")
      case True
      with Cons.prems have "from_variants j us = []" by (intro none) auto
      with True Cons.prems show ?thesis by simp
    next
      case False
      with Cons have "from_variants j us = [v]" by auto
      moreover have "u \<noteq> TyNone \<Longrightarrow> \<exists>e. from_tree j u = Inl e" using Cons.prems(5) [of u] False by simp
      ultimately show ?thesis by auto
    qed
  qed simp
qed

lemma one_string_like:
  assumes "length (filter string_like ts) \<le> 1" and "t \<in> set ts" and "t' \<in> set ts"
    and "string_like t" and "string_like t'"
  shows "t = t'"
proof -
  have "t \<in> set (filter string_like ts)" "t' \<in> set (filter string_like ts)" using assms by simp_all
  with assms(1) show ?thesis by (cases "filter string_like ts") auto
qed

text \<open>A plain variant determines the shape of the trees it decodes, so only one of them does.\<close>

lemma plain_shape:
  assumes "plain_variant t" and "from_tree j t = Inr v"
  shows "(t = TyNone \<and> j = JNull) \<or> (string_like t \<and> (\<exists>s. j = JStr s)) \<or> (t = TyInt \<and> (\<exists>i. j = JInt i))
    \<or> (t = TyBool \<and> (\<exists>b. j = JBool b)) \<or> ((\<exists>n. t = TyRec n) \<and> (\<exists>kvs. j = JObj kvs))"
proof (cases t)
  case (TyRec n)
  with assms(2) show ?thesis by (cases j) (auto split: option.split_asm)
qed (use assms in \<open>(cases j; simp add: plain_variant_def string_like_def)+\<close>)

lemma other_variant_fails:
  assumes "plain_variant t" and "plain_variant t'" and "t' \<noteq> t" and "t' \<noteq> TyNone" and "t \<noteq> TyNone"
    and "from_tree j t = Inr v" and "\<not> (string_like t \<and> string_like t')" and "\<nexists>n. t = TyRec n"
  shows "\<exists>e. from_tree j t' = Inl e"
proof (cases "from_tree j t'")
  case (Inr v')
  from plain_shape [OF assms(1,6)] plain_shape [OF assms(2) Inr] assms show ?thesis by auto
qed simp

lemma exact_plain: "is_exact v t \<Longrightarrow> plain_variant t \<and> t \<noteq> TyNone"
  by (cases "(v, t)" rule: is_exact.cases) (auto simp: plain_variant_def)

lemma to_tree_from_tree:
  "to_tree v t = Inr j \<Longrightarrow> python_val v \<Longrightarrow> good_hint t \<Longrightarrow> from_tree (sorted_tree j) t = Inr v"
  "to_trees vs ts = Inr js \<Longrightarrow> list_all python_val vs \<Longrightarrow> list_all good_hint ts \<Longrightarrow>
     from_trees (map sorted_tree js) ts = Inr vs"
proof (induction v t and vs ts arbitrary: j and js rule: to_tree_to_trees.induct)
  case (1 v ts)
  show ?case
  proof (cases "v = VNone \<and> TyNone \<in> set ts")
    case True
    with "1.prems" show ?thesis by simp
  next
    case False
    with "1.prems" obtain t where t: "filter (is_exact v) ts = [t]" "to_tree v t = Inr j"
      by (auto split: list.split_asm)
    have m: "t \<in> set ts" "is_exact v t" using filter_single_member [OF t(1)] by simp_all
    note p = exact_plain [OF m(2)]
    from p have "good_hint t" by (cases t) (auto simp: plain_variant_def)
    with "1.IH" False t "1.prems" have d: "from_tree (sorted_tree j) t = Inr v" by simp
    have g: "distinct ts" "list_all plain_variant ts" "length (filter string_like ts) \<le> 1"
      using "1.prems" by simp_all
    show ?thesis
    proof (cases "\<exists>n. t = TyRec n")
      case True
      then obtain n where n: "t = TyRec n" ..
      with d obtain kvs where kvs: "sorted_tree j = JObj kvs" "map_of kvs type_key = Some (JStr (py n))"
        by (cases "sorted_tree j") (auto split: option.split_asm)
      have "named_variants (sorted_tree j) ts = filter (\<lambda>u. u = t) ts"
        using kvs n by (auto simp: named_variants_def intro!: filter_cong split: ty.splits)
      also have "\<dots> = [t]" using g(1) m(1) by (induction ts) (auto simp: filter_empty_conv)
      finally show ?thesis using d kvs by simp
    next
      case False
      have "\<exists>e. from_tree (sorted_tree j) t' = Inl e" if "t' \<in> set ts" "t' \<noteq> t" "t' \<noteq> TyNone" for t'
        using other_variant_fails [OF _ _ that(2,3) _ d _ False] p g that m(1) one_string_like [OF g(3)]
        by (auto simp: list_all_iff)
      with variant_from_variants [OF g(1) m(1) _ d] p have "from_variants (sorted_tree j) ts = [v]" by blast
      moreover have "sorted_tree j \<noteq> JNull" "named_variants (sorted_tree j) ts = []"
        using d False p m(2)
        by (cases t; cases "sorted_tree j"; auto simp: named_variants_def plain_variant_def)+
      ultimately show ?thesis by simp
    qed
  qed
next
  case (9 v n)
  then obtain fs vs js where f: "hints_of n = Some fs" "v = VRec n vs"
    "to_trees vs (map snd fs) = Inr js" "j = tagged n fs js"
    by (auto simp: andthen_eq_Inr_iff split: option.split_asm val.split_asm)
  have g: "good_class fs" using f(1) by (rule hints_good)
  then have gs: "list_all good_hint (map snd fs)" by (auto simp: good_class_def list_all_iff)
  let ?js = "map sorted_tree js"
  let ?kvs = "(type_key, JStr (py n)) # zip (map (py \<circ> fst) fs) ?js"
  have l: "length ?js = length fs" using to_trees_length [OF f(3)] by simp
  note d = tagged_keys [OF g l]
  have "list_all2 (\<lambda>(k, t) j. map_of (sort_key fst ?kvs) (py k) = Some j) fs ?js"
    unfolding map_of_sort_key [OF d] by (rule tagged_lookup [OF g l])
  from from_fields_trees [OF this] "9.IH" f gs "9.prems"(2)
  have "from_fields (sort_key fst ?kvs) fs = Inr vs" by simp
  moreover have "map_of (sort_key fst ?kvs) type_key = Some (JStr (py n))"
    unfolding map_of_sort_key [OF d] by simp
  moreover have "set (map fst (sort_key fst ?kvs)) = insert type_key (set (map (py \<circ> fst) fs))"
    unfolding set_map set_sort using l by (simp add: comp_def flip: set_map)
  ultimately show ?case
    unfolding f(4) sorted_tree_tagged using f(1,2) by simp
next
  case (2 v t)
  then obtain vs js where f: "v = VTuple vs" "to_trees vs (replicate (length vs) t) = Inr js" "j = JList js"
    by (cases v) (auto simp: andthen_eq_Inr_iff)
  have "length js = length vs" using to_trees_length [OF f(2)] by simp
  moreover have "list_all good_hint (replicate (length vs) t)" using "2.prems"(3) by (simp add: list_all_iff)
  ultimately show ?case using "2.IH" [OF f(1,2)] "2.prems"(2) f(1,3) by simp
next
  case (3 v ts)
  then obtain vs js where f: "v = VTuple vs" "to_trees vs ts = Inr js" "j = JList js" "length ts = length vs"
    by (cases v) (auto simp: andthen_eq_Inr_iff)
  have "length js = length ts" using to_trees_length [OF f(2)] by simp
  then show ?case using "3.IH" [OF f(1,2)] "3.prems"(2,3) f(1,3,4) by simp
next
  case (8 v n)
  then show ?case by (cases v) auto
qed (auto simp: andthen_eq_Inr_iff split: val.split_asm)

section \<open>A value has the tree it was decoded from\<close>

lemma from_variants_members: "v \<in> set (from_variants j ts) \<Longrightarrow> \<exists>t \<in> set ts. t \<noteq> TyNone \<and> from_tree j t = Inr v"
  by (induction ts) (auto split: if_split_asm sum.split_asm)

text \<open>The value a plain variant decodes is exactly of that type.\<close>

lemma plain_exact:
  assumes "plain_variant t" and "from_tree j t = Inr v" and "t \<noteq> TyNone"
  shows "is_exact v t"
proof (cases t)
  case (TyRec n)
  with assms(2) show ?thesis by (cases j) (auto simp: andthen_eq_Inr_iff split: option.split_asm)
qed (use assms in \<open>(cases j; auto simp: plain_variant_def)+\<close>)

lemma is_exact_iff:
  "is_exact v t \<longleftrightarrow>
     (case v of VStr _ \<Rightarrow> t = TyStr | VInt _ \<Rightarrow> t = TyInt | VBool _ \<Rightarrow> t = TyBool
      | VEnum n _ \<Rightarrow> t = TyEnum n | VRec n _ \<Rightarrow> t = TyRec n | _ \<Rightarrow> False)"
  by (cases v; cases t) auto

lemma exact_unique: "is_exact v t \<Longrightarrow> is_exact v t' \<Longrightarrow> t = t'"
  by (cases v) (simp_all add: is_exact_iff)

lemma exact_filter:
  assumes "distinct ts" and "t \<in> set ts" and "is_exact v t"
  shows "filter (is_exact v) ts = [t]"
proof -
  have "is_exact v u \<longleftrightarrow> u = t" for u using exact_unique assms(3) by blast
  then have "filter (is_exact v) ts = filter (\<lambda>u. u = t) ts" by (intro filter_cong) simp_all
  also have "\<dots> = [t]" using assms(1,2) by (induction ts) (auto simp: filter_empty_conv)
  finally show ?thesis .
qed

lemma from_fields_values:
  "from_fields kvs fs = Inr vs \<Longrightarrow>
     list_all2 (\<lambda>(k, t) v. \<exists>j. map_of kvs (py k) = Some j \<and> from_tree j t = Inr v) fs vs"
  by (induction fs arbitrary: vs) (auto simp: andthen_eq_Inr_iff split: option.split_asm)

text \<open>Two trees the canonical bytes do not tell apart.\<close>

definition same_tree :: "json \<Rightarrow> json \<Rightarrow> bool" where
  "same_tree i j \<longleftrightarrow> sorted_tree i = sorted_tree j"

lemma same_tree_record:
  assumes k: "distinct (map fst kvs)" and g: "good_class fs"
    and t: "map_of kvs type_key = Some (JStr (py n))"
    and keys: "set (map fst kvs) = insert type_key (set (map (py \<circ> fst) fs))"
    and l: "length js = length fs"
    and f: "\<And>i. i < length fs \<Longrightarrow> \<exists>j. map_of kvs (py (fst (fs ! i))) = Some j \<and> same_tree (js ! i) j"
  shows "same_tree (tagged n fs js) (JObj kvs)"
proof -
  let ?xs = "(type_key, JStr (py n)) # zip (map (py \<circ> fst) fs) (map sorted_tree js)"
  let ?ys = "map (\<lambda>(k, v). (k, sorted_tree v)) kvs"
  have l': "length (map sorted_tree js) = length fs" using l by simp
  have y: "map fst ?ys = map fst kvs" by auto
  have "map_of ?xs key = map_of ?ys key" for key
  proof (cases "\<exists>i < length fs. key = py (fst (fs ! i))")
    case True
    then obtain i where i: "i < length fs" "key = py (fst (fs ! i))" by blast
    obtain nm t where nt: "fs ! i = (nm, t)" by force
    from f [OF i(1)] obtain j where j: "map_of kvs key = Some j" "same_tree (js ! i) j"
      using i by auto
    have "map_of ?xs key = Some (map sorted_tree js ! i)"
      using list_all2_nthD [OF tagged_lookup [OF g l', of "JStr (py n)"], of i] i nt by simp
    with j i l show ?thesis by (simp add: map_of_map same_tree_def)
  next
    case False
    then have o: "key \<notin> set (map (py \<circ> fst) fs)" by (fastforce simp: in_set_conv_nth)
    then have "map_of (zip (map (py \<circ> fst) fs) (map sorted_tree js)) key = None"
      using l map_fst_zip [of "map (py \<circ> fst) fs" "map sorted_tree js"]
      by (metis length_map list.set_map map_of_eq_None_iff)
    moreover have "key \<noteq> type_key \<Longrightarrow> map_of kvs key = None"
      using o keys by (auto simp: map_of_eq_None_iff)
    ultimately show ?thesis using t by (simp add: map_of_map)
  qed
  then have "map_of ?xs = map_of ?ys" by (rule ext)
  moreover note d = tagged_keys [OF g l', of "JStr (py n)"]
  moreover have "distinct (map fst ?ys)" unfolding y by (rule k)
  ultimately have "set ?xs = set ?ys" using map_of_inject_set by blast
  from distinct_keys_eq [OF d _ this] \<open>distinct (map fst ?ys)\<close> show ?thesis
    by (simp only: same_tree_def sorted_tree_tagged sorted_tree.simps)
qed

lemma from_trees_length: "from_trees js ts = Inr vs \<Longrightarrow> length js = length ts \<and> length vs = length ts"
  by (induction js ts arbitrary: vs rule: list_induct2') (auto simp: andthen_eq_Inr_iff)

lemma to_trees_nth:
  "list_all2 (\<lambda>v t. \<exists>j. to_tree v t = Inr j \<and> P v t j) vs ts \<Longrightarrow>
     \<exists>js. to_trees vs ts = Inr js \<and> length js = length ts \<and> (\<forall>i < length ts. P (vs ! i) (ts ! i) (js ! i))"
proof (induction vs ts rule: list_all2_induct)
  case (Cons v vs t ts)
  then obtain j js where "to_tree v t = Inr j" "P v t j" "to_trees vs ts = Inr js" "length js = length ts"
    "\<forall>i < length ts. P (vs ! i) (ts ! i) (js ! i)" by blast
  then show ?case by (intro exI [of _ "j # js"]) (auto simp: nth_Cons split: nat.split)
qed simp

lemma from_tree_to_tree:
  "from_tree j t = Inr v \<Longrightarrow> distinct_keys j \<Longrightarrow> good_hint t \<Longrightarrow>
     \<exists>j'. to_tree v t = Inr j' \<and> same_tree j' j"
  "from_trees js ts = Inr vs \<Longrightarrow> list_all distinct_keys js \<Longrightarrow> list_all good_hint ts \<Longrightarrow>
     \<exists>js'. to_trees vs ts = Inr js' \<and> map sorted_tree js' = map sorted_tree js"
  "from_fields kvs fs = Inr vs \<Longrightarrow> distinct_keys (JObj kvs) \<Longrightarrow> list_all (\<lambda>(k, t). good_hint t) fs \<Longrightarrow>
     \<exists>js'. to_trees vs (map snd fs) = Inr js' \<and> length js' = length fs
       \<and> (\<forall>i < length fs. \<exists>j. map_of kvs (py (fst (fs ! i))) = Some j \<and> same_tree (js' ! i) j)"
  "v \<in> set (from_variants j ts) \<Longrightarrow> distinct_keys j \<Longrightarrow> list_all plain_variant ts \<Longrightarrow>
     \<exists>t j'. t \<in> set ts \<and> is_exact v t \<and> to_tree v t = Inr j' \<and> same_tree j' j"
proof (induction j t and js ts and kvs fs and j ts arbitrary: v and vs and vs and v
    rule: from_tree_from_trees_from_fields_from_variants.induct)
  case (1 j ts)
  have g: "distinct ts" "list_all plain_variant ts" using "1.prems" by simp_all
  show ?case
  proof (cases "j = JNull \<and> TyNone \<in> set ts")
    case True
    with "1.prems" show ?thesis by (simp add: same_tree_def)
  next
    case False
    have "\<exists>t j'. t \<in> set ts \<and> is_exact v t \<and> to_tree v t = Inr j' \<and> same_tree j' j"
    proof (cases "\<exists>t. named_variants j ts = [t]")
      case True
      then obtain t where t: "named_variants j ts = [t]" ..
      then have m: "t \<in> set ts" "t \<noteq> TyNone"
        by (auto simp: named_variants_def split: json.split_asm dest!: filter_single_member)
      have d: "from_tree j t = Inr v" using "1.prems" False t by simp
      have p: "plain_variant t" using g(2) m(1) by (simp add: list_all_iff)
      then have "good_hint t" by (cases t) (auto simp: plain_variant_def)
      with "1.IH"(2) [OF False t] d "1.prems" plain_exact [OF p d m(2)] m(1) show ?thesis by blast
    next
      case n: False
      then have "(case from_variants j ts of [v] \<Rightarrow> Inr v | _ \<Rightarrow> Inl INVALID_UNION_VALUE) = Inr v"
        using "1.prems"(1) False by (auto split: list.split_asm)
      then have "v \<in> set (from_variants j ts)" by (auto split: list.split_asm)
      with n "1.IH"(1,3) [OF False] "1.prems"(2) g show ?thesis by (cases "named_variants j ts" rule: remdups_adj.cases) auto
    qed
    then obtain t j' where t: "t \<in> set ts" "is_exact v t" "to_tree v t = Inr j'" "same_tree j' j" by blast
    have "v \<noteq> VNone" using t(2) by (auto simp: is_exact_iff)
    with exact_filter [OF g(1) t(1,2)] t show ?thesis by simp
  qed
next
  case (2 j t)
  then obtain js vs where f: "j = JList js" "from_trees js (replicate (length js) t) = Inr vs" "v = VTuple vs"
    by (cases j) (auto simp: andthen_eq_Inr_iff)
  have "length vs = length js" using from_trees_length [OF f(2)] by simp
  moreover have "list_all good_hint (replicate (length js) t)" using "2.prems"(3) by (simp add: list_all_iff)
  ultimately show ?case using "2.IH" [OF f(1,2)] "2.prems"(2) f(1,3) by (auto simp: same_tree_def)
next
  case (3 j ts)
  then obtain js vs where f: "j = JList js" "from_trees js ts = Inr vs" "v = VTuple vs" "length ts = length js"
    by (cases j) (auto simp: andthen_eq_Inr_iff)
  have "length vs = length ts" using from_trees_length [OF f(2)] by simp
  then show ?case using "3.IH" [OF f(1,2)] "3.prems"(2,3) f(1,3) by (auto simp: same_tree_def)
next
  case (9 j n)
  then obtain fs kvs vs where f: "hints_of n = Some fs" "j = JObj kvs"
    "map_of kvs type_key = Some (JStr (py n))"
    "set (map fst kvs) = insert type_key (set (map (py \<circ> fst) fs))"
    "from_fields kvs fs = Inr vs" "v = VRec n vs"
    by (cases j) (auto simp: andthen_eq_Inr_iff split: option.split_asm)
  have g: "good_class fs" using f(1) by (rule hints_good)
  then have "list_all (\<lambda>(k, t). good_hint t) fs" by (simp add: good_class_def)
  from "9.IH" [OF f(1,2,5) _ this] "9.prems"(2) f(2) obtain js where
    js: "to_trees vs (map snd fs) = Inr js" "length js = length fs"
      "\<forall>i < length fs. \<exists>j. map_of kvs (py (fst (fs ! i))) = Some j \<and> same_tree (js ! i) j" by blast
  have "same_tree (tagged n fs js) (JObj kvs)"
    using same_tree_record [OF _ g f(3,4) js(2)] js(3) "9.prems"(2) f(2) by simp
  with js(1) f show ?case by simp
next
  case (11 j js t ts)
  then show ?case by (fastforce simp: andthen_eq_Inr_iff same_tree_def)
next
  case (14 kvs k t fs)
  then obtain j v ws where f: "map_of kvs (py k) = Some j" "from_tree j t = Inr v"
    "from_fields kvs fs = Inr ws" "vs = v # ws"
    by (auto simp: andthen_eq_Inr_iff split: option.split_asm)
  have "distinct_keys j" using "14.prems"(2) map_of_SomeD [OF f(1)] by (auto simp: list_all_iff)
  with "14.IH"(1) [OF f(1,2)] "14.IH"(2) [OF f(1,3)] "14.prems" obtain j' js' where
    "to_tree v t = Inr j'" "same_tree j' j" "to_trees ws (map snd fs) = Inr js'" "length js' = length fs"
    "\<forall>i < length fs. \<exists>j. map_of kvs (py (fst (fs ! i))) = Some j \<and> same_tree (js' ! i) j" by auto
  with f show ?case by (intro exI [of _ "j' # js'"]) (auto simp: nth_Cons split: nat.split)
next
  case (16 j t ts)
  have rest: ?case if "v \<in> set (from_variants j ts)"
  proof (cases "t = TyNone")
    case True
    from "16.IH"(1) [OF True that] "16.prems" show ?thesis by auto
  next
    case False
    show ?thesis
    proof (cases "from_tree j t")
      case (Inl e)
      from "16.IH"(3) [OF False Inl that] "16.prems" show ?thesis by auto
    next
      case (Inr w)
      from "16.IH"(4) [OF False Inr that] "16.prems" show ?thesis by auto
    qed
  qed
  show ?case
  proof (cases "t \<noteq> TyNone \<and> from_tree j t = Inr v")
    case True
    have p: "plain_variant t" using "16.prems"(3) by simp
    then have "good_hint t" by (cases t) (auto simp: plain_variant_def)
    with "16.IH"(2) True "16.prems"(2) plain_exact [OF p, of j v] show ?thesis by auto
  next
    case False
    with "16.prems"(1) have "v \<in> set (from_variants j ts)" by (auto split: if_split_asm sum.split_asm)
    then show ?thesis by (rule rest)
  qed
qed (auto simp: same_tree_def split: json.split_asm)

section \<open>The bytes of a record\<close>

lemma same_tree_bytes: "same_tree i j \<Longrightarrow> canonical_record_bytes i = canonical_record_bytes j"
  by (metis canonical_record_bytes_sorted same_tree_def)

lemma to_tree_tree:
  "to_tree v t = Inr j \<Longrightarrow> distinct_keys j"
  "to_trees vs ts = Inr js \<Longrightarrow> list_all distinct_keys js"
proof (induction v t and vs ts arbitrary: j and js rule: to_tree_to_trees.induct)
  case (1 v ts)
  then show ?case by (auto split: if_split_asm list.split_asm)
next
  case (9 v n)
  then obtain fs vs js where f: "hints_of n = Some fs" "v = VRec n vs"
    "to_trees vs (map snd fs) = Inr js" "j = tagged n fs js"
    by (auto simp: andthen_eq_Inr_iff split: option.split_asm val.split_asm)
  have l: "length js = length fs" using to_trees_length [OF f(3)] by simp
  have "list_all distinct_keys js" using "9.IH" f by simp
  then show ?case
    using tagged_keys [OF hints_good [OF f(1)] l, of "JStr (py n)"]
    by (force simp: f(4) tagged_def type_key_def list_all_iff dest: set_zip_leftD set_zip_rightD)
qed (auto simp: andthen_eq_Inr_iff split: val.split_asm)

text \<open>
  The bytes a value is encoded to decode to it, and the bytes a value was decoded from are its
  encoding: the record files and the values of the domain correspond one to one.
\<close>

lemma decode_encode_typed:
  assumes "encode_typed v = Inr raw" and "python_val v" and "length raw \<le> MAX_RECORD_BYTES"
  obtains n vs where "v = VRec n vs" and "decode_typed raw n = Inr v"
proof -
  from assms(1) obtain n vs j where v: "v = VRec n vs" "to_tree v (TyRec n) = Inr j"
    "canonical_record_bytes j = Inr raw"
    by (auto simp: encode_typed_def andthen_eq_Inr_iff simp del: to_tree.simps split: val.split_asm)
  have "parse_canonical raw = Inr (sorted_tree j)"
    using parse_canonical_bytes [OF v(3)] to_tree_tree(1) [OF v(2)] assms(3) by simp
  moreover have "from_tree (sorted_tree j) (TyRec n) = Inr v"
    using to_tree_from_tree(1) [OF v(2) assms(2)] by simp
  ultimately show thesis using that v(1) by (simp add: decode_typed_def)
qed

lemma encode_decode_typed:
  assumes "decode_typed raw n = Inr v"
  shows "encode_typed v = Inr raw" and "length raw \<le> MAX_RECORD_BYTES" and "\<exists>vs. v = VRec n vs"
proof -
  from assms obtain j where j: "parse_canonical raw = Inr j" "from_tree j (TyRec n) = Inr v"
    by (auto simp: decode_typed_def andthen_eq_Inr_iff simp del: from_tree.simps)
  from from_tree_to_tree(1) [OF j(2) parse_canonical_distinct [OF j(1)]] obtain j' where
    t: "to_tree v (TyRec n) = Inr j'" "same_tree j' j" by auto
  from j(2) have n: "\<exists>vs. v = VRec n vs" "hints_of n \<noteq> None"
    by (cases j; auto simp: andthen_eq_Inr_iff split: option.split_asm)+
  with t same_tree_bytes [OF t(2)] parse_canonical_InrD [OF j(1)]
  show "encode_typed v = Inr raw" and "length raw \<le> MAX_RECORD_BYTES" and "\<exists>vs. v = VRec n vs"
    by (auto simp: encode_typed_def simp del: to_tree.simps)
qed

text \<open>
  C13. The typed codec is a bijection: for a record value and a byte string within the size limit,
  the bytes decode to the value exactly when the value encodes to the bytes.  One accepted byte
  string per value, one value per accepted byte string, over all 67 classes of the codec.
\<close>

theorem typed_codec_is_bijective:
  assumes "python_val (VRec n vs)" and "length raw \<le> MAX_RECORD_BYTES"
  shows "decode_typed raw n = Inr (VRec n vs) \<longleftrightarrow> encode_typed (VRec n vs) = Inr raw"
  using decode_encode_typed [OF _ assms] encode_decode_typed(1) [of raw n] by auto

definition sample_actor :: val where
  "sample_actor = VRec ''DialogueActor'' [VEnum ''ActorKind'' (py ''host''), VStr (py ''agent'')]"

definition sample_actor_tree :: json where
  "sample_actor_tree = tagged ''DialogueActor'' [(''kind'', TyEnum ''ActorKind''), (''actor_id'', TyStr)]
     [JStr (py ''host''), JStr (py ''agent'')]"

lemma sample_actor_encoding:
  "hints_of ''DialogueActor'' = Some [(''kind'', TyEnum ''ActorKind''), (''actor_id'', TyStr)]"
  "to_tree sample_actor (TyRec ''DialogueActor'') = Inr sample_actor_tree"
  "length (dumps sample_actor_tree) < 100"
  by code_simp+

lemma typed_codec_is_bijective_witness:
  "\<exists>raw. encode_typed sample_actor = Inr raw \<and> decode_typed raw ''DialogueActor'' = Inr sample_actor"
proof -
  have "canonical_tree_is_valid sample_actor_tree" "ascii_json sample_actor_tree"
    by (simp_all add: sample_actor_tree_def tagged_def type_key_def py_def)
  then obtain raw where raw: "canonical_record_bytes sample_actor_tree = Inr raw"
    "length raw = length (dumps sample_actor_tree)" by (rule ascii_record_bytes)
  have e: "encode_typed sample_actor = Inr raw"
    using sample_actor_encoding(1,2) raw(1) by (simp add: encode_typed_def sample_actor_def del: to_tree.simps)
  have "python_val sample_actor"
    by (simp add: sample_actor_def members_of_def enum_values_def py_def)
  then have "decode_typed raw ''DialogueActor'' = Inr sample_actor"
    using typed_codec_is_bijective [of "''DialogueActor''" "[VEnum ''ActorKind'' (py ''host''), VStr (py ''agent'')]" raw]
      e raw(2) sample_actor_encoding(3) by (simp add: sample_actor_def MAX_RECORD_BYTES_def)
  with e show ?thesis by blast
qed

end
