(* ===== verification/Value_Maps.thy ===== *)
theory Value_Maps
  imports Typed_Roundtrip "HOL-Library.Monad_Syntax"
begin

text \<open>
  The records of the model as values of the codec.  A type of the model is represented by a hint
  when it has an embedding into \<open>val\<close> and a partial inverse that reads every value the hint
  admits.  The lemmas give this for scalars, enumerations, optional values, tuples and data
  classes; the theories that follow instantiate them class by class.
\<close>

section \<open>Values a hint admits\<close>

definition fits :: "val \<Rightarrow> ty \<Rightarrow> bool" where
  "fits v t \<longleftrightarrow> python_val v \<and> (\<exists>j. to_tree v t = Inr j)"

lemma fits_scalar:
  "fits v TyStr \<longleftrightarrow> (\<exists>s. v = VStr s)"
  "fits v TyInt \<longleftrightarrow> (\<exists>i. v = VInt i)"
  "fits v TyBool \<longleftrightarrow> (\<exists>b. v = VBool b)"
  by (cases v; simp add: fits_def)+

lemma fits_enum: "fits v (TyEnum n) \<longleftrightarrow> (\<exists>s \<in> set (members_of n). v = VEnum n s)"
  by (cases v) (auto simp: fits_def)

lemma to_trees_fits: "list_all python_val vs \<and> (\<exists>js. to_trees vs ts = Inr js) \<longleftrightarrow> list_all2 fits vs ts"
  by (induction vs ts rule: list_induct2') (auto simp: andthen_eq_Inr_iff fits_def)

lemma fits_tuple: "fits (VTuple vs) (TyMany t) \<longleftrightarrow> (\<forall>u \<in> set vs. fits u t)"
proof -
  have "fits (VTuple vs) (TyMany t) \<longleftrightarrow> list_all2 fits vs (replicate (length vs) t)"
    by (auto simp: fits_def andthen_eq_Inr_iff simp flip: to_trees_fits)
  also have "\<dots> \<longleftrightarrow> (\<forall>u \<in> set vs. fits u t)" by (induction vs) auto
  finally show ?thesis .
qed

lemma fits_many: "fits v (TyMany t) \<longleftrightarrow> (\<exists>vs. v = VTuple vs \<and> (\<forall>u \<in> set vs. fits u t))"
  by (cases v) (auto simp: fits_tuple, auto simp: fits_def)

lemma fits_record:
  assumes "hints_of n = Some fs"
  shows "fits v (TyRec n) \<longleftrightarrow> (\<exists>vs. v = VRec n vs \<and> list_all2 fits vs (map snd fs))"
  using assms by (cases v) (auto simp: fits_def andthen_eq_Inr_iff simp flip: to_trees_fits)

lemma fits_union:
  assumes "fits v (TyUnion ts)"
  shows "(v = VNone \<and> TyNone \<in> set ts) \<or> (\<exists>t \<in> set ts. is_exact v t \<and> fits v t)"
proof (cases "v = VNone \<and> TyNone \<in> set ts")
  case False
  with assms obtain t where t: "filter (is_exact v) ts = [t]" "fits v t"
    by (auto simp: fits_def split: list.split_asm)
  with filter_single_member [OF t(1)] show ?thesis by blast
qed simp

lemma fits_unionI:
  assumes "distinct ts" and "t \<in> set ts" and "is_exact v t" and "fits v t"
  shows "fits v (TyUnion ts)"
  using exact_filter [OF assms(1-3)] assms(3,4) by (auto simp: fits_def is_exact_iff)

section \<open>Embeddings and their inverses\<close>

definition opt_val :: "('a \<Rightarrow> val) \<Rightarrow> 'a option \<Rightarrow> val" where
  "opt_val enc x = (case x of None \<Rightarrow> VNone | Some y \<Rightarrow> enc y)"

definition tuple_val :: "('a \<Rightarrow> val) \<Rightarrow> 'a list \<Rightarrow> val" where
  "tuple_val enc xs = VTuple (map enc xs)"

definition un_str :: "val \<Rightarrow> pystr option" where
  "un_str v = (case v of VStr s \<Rightarrow> Some s | _ \<Rightarrow> None)"

definition un_int :: "val \<Rightarrow> int option" where
  "un_int v = (case v of VInt i \<Rightarrow> Some i | _ \<Rightarrow> None)"

definition un_bool :: "val \<Rightarrow> bool option" where
  "un_bool v = (case v of VBool b \<Rightarrow> Some b | _ \<Rightarrow> None)"

definition un_enum :: "string \<Rightarrow> (pystr \<times> 'a) list \<Rightarrow> val \<Rightarrow> 'a option" where
  "un_enum n table v = (case v of VEnum m s \<Rightarrow> if m = n then map_of table s else None | _ \<Rightarrow> None)"

definition un_opt :: "(val \<Rightarrow> 'a option) \<Rightarrow> val \<Rightarrow> 'a option option" where
  "un_opt dec v = (if v = VNone then Some None else map_option Some (dec v))"

definition un_tuple :: "(val \<Rightarrow> 'a option) \<Rightarrow> val \<Rightarrow> 'a list option" where
  "un_tuple dec v = (case v of VTuple vs \<Rightarrow> those (map dec vs) | _ \<Rightarrow> None)"

definition un_record :: "string \<Rightarrow> (val list \<Rightarrow> 'a option) \<Rightarrow> val \<Rightarrow> 'a option" where
  "un_record n un v = (case v of VRec m vs \<Rightarrow> if m = n then un vs else None | _ \<Rightarrow> None)"

section \<open>Representation\<close>

definition represents :: "ty \<Rightarrow> ('a \<Rightarrow> val) \<Rightarrow> (val \<Rightarrow> 'a option) \<Rightarrow> bool" where
  "represents t enc dec \<longleftrightarrow>
     (\<forall>v x. dec v = Some x \<longleftrightarrow> v = enc x) \<and> (\<forall>v. fits v t \<longleftrightarrow> dec v \<noteq> None)"

named_theorems represented \<open>the representations of the model's types\<close>

lemma represents_iff: "represents t enc dec \<Longrightarrow> dec v = Some x \<longleftrightarrow> v = enc x"
  by (simp add: represents_def)

lemma represents_fits: "represents t enc dec \<Longrightarrow> fits v t \<longleftrightarrow> (\<exists>x. v = enc x)"
  unfolding represents_def by (metis not_Some_eq)

lemma represents_inv: "represents t enc dec \<Longrightarrow> dec (enc x) = Some x"
  by (simp add: represents_def)

lemma represents_inj: "represents t enc dec \<Longrightarrow> enc x = enc y \<longleftrightarrow> x = y"
  by (metis represents_inv option.inject)

lemma represents_str [represented]: "represents TyStr VStr un_str"
  by (auto simp: represents_def un_str_def fits_scalar split: val.splits)

lemma represents_int [represented]: "represents TyInt VInt un_int"
  by (auto simp: represents_def un_int_def fits_scalar split: val.splits)

lemma represents_bool [represented]: "represents TyBool VBool un_bool"
  by (auto simp: represents_def un_bool_def fits_scalar split: val.splits)

lemma represents_enum:
  assumes "members_of n = map fst table" and "list_all (\<lambda>(s, x). value_of x = s) table"
    and "\<And>x. map_of table (value_of x) = Some x"
  shows "represents (TyEnum n) (\<lambda>x. VEnum n (value_of x)) (un_enum n table)"
proof -
  have "fits v (TyEnum n) \<longleftrightarrow> un_enum n table v \<noteq> None" for v
    unfolding fits_enum assms(1)
    by (cases v) (auto simp: un_enum_def map_of_eq_None_iff image_iff simp del: not_None_eq)
  moreover have "map_of table s = Some x \<longleftrightarrow> s = value_of x" for s x
    using assms(2,3) by (auto simp: list_all_iff dest!: map_of_SomeD)
  ultimately show ?thesis by (auto simp: represents_def un_enum_def split: val.splits)
qed

lemma represents_opt:
  assumes "represents t enc dec" and "\<And>x. enc x \<noteq> VNone" and "\<And>x. is_exact (enc x) t"
  shows "represents (optional t) (opt_val enc) (un_opt dec)"
proof -
  have "un_opt dec v = Some x \<longleftrightarrow> v = opt_val enc x" for v x
    using assms(2) assms(2) [symmetric]
    by (cases x) (auto simp: un_opt_def opt_val_def represents_iff [OF assms(1)])
  moreover have "fits v (optional t) \<longleftrightarrow> un_opt dec v \<noteq> None" for v
  proof
    assume "fits v (optional t)"
    from fits_union [OF this] show "un_opt dec v \<noteq> None"
      by (auto simp: un_opt_def represents_inv [OF assms(1)] represents_fits [OF assms(1)] dest: exact_plain)
  next
    have t: "t \<noteq> TyNone" using exact_plain [OF assms(3)] by blast
    assume "un_opt dec v \<noteq> None"
    then have "v = VNone \<or> (\<exists>x. v = enc x)"
      by (auto simp: un_opt_def represents_iff [OF assms(1)] split: if_split_asm)
    moreover have "fits (enc x) (optional t)" for x
      using fits_unionI [of "[t, TyNone]" t "enc x"] t assms(3) represents_fits [OF assms(1)] by auto
    moreover have "fits VNone (optional t)" by (simp add: fits_def)
    ultimately show "fits v (optional t)" by blast
  qed
  ultimately show ?thesis by (simp add: represents_def)
qed

lemma those_map: "those (map f vs) = Some xs \<longleftrightarrow> list_all2 (\<lambda>v x. f v = Some x) vs xs"
  by (induction vs arbitrary: xs) (auto simp: list_all2_Cons1 split: option.splits)

lemma represents_many:
  assumes "represents t enc dec"
  shows "represents (TyMany t) (tuple_val enc) (un_tuple dec)"
proof -
  have those: "those (map dec vs) = Some xs \<longleftrightarrow> vs = map enc xs" for vs xs
    using list.rel_map(2) [of "(=)" vs enc xs] by (simp add: those_map represents_iff [OF assms] list.rel_eq)
  have "(\<forall>u \<in> set vs. fits u t) \<longleftrightarrow> those (map dec vs) \<noteq> None" for vs
    by (simp add: represents_fits [OF assms] those flip: ex_map_conv)
  then have "fits v (TyMany t) \<longleftrightarrow> un_tuple dec v \<noteq> None" for v
    by (cases v) (simp_all add: fits_many un_tuple_def)
  moreover have "un_tuple dec v = Some xs \<longleftrightarrow> v = tuple_val enc xs" for v xs
    by (auto simp: un_tuple_def tuple_val_def those split: val.splits)
  ultimately show ?thesis by (simp add: represents_def)
qed

lemma represents_record:
  assumes "hints_of n = Some fs"
    and "\<And>x. enc x = VRec n (vals x)"
    and "\<And>vs x. un vs = Some x \<longleftrightarrow> vs = vals x"
    and "\<And>vs. list_all2 fits vs (map snd fs) \<longleftrightarrow> un vs \<noteq> None"
  shows "represents (TyRec n) enc (un_record n un)"
proof -
  have "fits v (TyRec n) \<longleftrightarrow> un_record n un v \<noteq> None" for v
    unfolding fits_record [OF assms(1)] assms(4) by (auto simp: un_record_def split: val.splits)
  then show ?thesis using assms(2,3) by (auto simp: represents_def un_record_def split: val.splits)
qed

section \<open>Unions of data classes\<close>

definition un_union :: "(string \<times> (val list \<Rightarrow> 'a option)) list \<Rightarrow> val \<Rightarrow> 'a option" where
  "un_union readers v =
     (case v of
        VRec n vs \<Rightarrow> (case map_of readers n of None \<Rightarrow> None | Some un \<Rightarrow> un vs)
      | _ \<Rightarrow> None)"

definition reads_variant :: "('a \<Rightarrow> val) \<Rightarrow> string \<Rightarrow> (val list \<Rightarrow> 'a option) \<Rightarrow> bool" where
  "reads_variant enc n un \<longleftrightarrow>
     (\<forall>vs x. un vs = Some x \<longleftrightarrow> enc x = VRec n vs) \<and> (\<forall>vs. fits (VRec n vs) (TyRec n) \<longleftrightarrow> un vs \<noteq> None)"

lemma reads_variantI:
  assumes "hints_of n = Some fs"
    and "\<And>vs x. un vs = Some x \<longleftrightarrow> enc x = VRec n vs"
    and "\<And>vs. list_all2 fits vs (map snd fs) \<longleftrightarrow> un vs \<noteq> None"
  shows "reads_variant enc n un"
  using assms fits_record [OF assms(1)] by (simp add: reads_variant_def)

lemma represents_union:
  assumes "list_all (\<lambda>(n, un). reads_variant enc n un) readers"
    and "\<And>x. \<exists>n vs. n \<in> set (map fst readers) \<and> enc x = VRec n vs"
    and "distinct (map fst readers)"
  shows "represents (TyUnion (map TyRec (map fst readers))) enc (un_union readers)"
proof -
  have r: "(un vs = Some x \<longleftrightarrow> enc x = VRec n vs) \<and> (fits (VRec n vs) (TyRec n) \<longleftrightarrow> un vs \<noteq> None)"
    if "map_of readers n = Some un" for n un vs x
  proof -
    have "reads_variant enc n un" using assms(1) map_of_SomeD [OF that] by (auto simp: list_all_iff)
    then show ?thesis by (simp add: reads_variant_def)
  qed
  have "un_union readers v = Some x \<longleftrightarrow> v = enc x" for v x
  proof
    assume "un_union readers v = Some x"
    then obtain n vs un where "v = VRec n vs" "map_of readers n = Some un" "un vs = Some x"
      by (auto simp: un_union_def split: val.split_asm option.split_asm)
    with r show "v = enc x" by metis
  next
    assume v: "v = enc x"
    obtain n vs where n: "n \<in> set (map fst readers)" "enc x = VRec n vs" using assms(2) by blast
    then obtain un where un: "map_of readers n = Some un"
      by (metis map_of_eq_None_iff option.exhaust set_map)
    with r [OF un, of vs x] n(2) v show "un_union readers v = Some x" by (simp add: un_union_def)
  qed
  moreover have "fits v (TyUnion (map TyRec (map fst readers))) \<longleftrightarrow> un_union readers v \<noteq> None" for v
  proof
    assume "fits v (TyUnion (map TyRec (map fst readers)))"
    from fits_union [OF this] obtain n where
      n: "n \<in> set (map fst readers)" "is_exact v (TyRec n)" "fits v (TyRec n)" by auto
    from n(1) obtain un where "map_of readers n = Some un"
      by (metis map_of_eq_None_iff option.exhaust set_map)
    moreover from n(2) obtain vs where "v = VRec n vs" by (cases v) auto
    ultimately show "un_union readers v \<noteq> None" using r n(3) by (fastforce simp: un_union_def)
  next
    assume "un_union readers v \<noteq> None"
    then obtain n vs un where n: "v = VRec n vs" "map_of readers n = Some un" "un vs \<noteq> None"
      by (auto simp: un_union_def split: val.split_asm option.split_asm)
    with r have "fits v (TyRec n)" by blast
    moreover have "TyRec n \<in> set (map TyRec (map fst readers))"
      using map_of_SomeD [OF n(2)] by force
    moreover have "distinct (map TyRec (map fst readers))"
      using assms(3) by (simp add: distinct_map inj_on_def)
    ultimately show "fits v (TyUnion (map TyRec (map fst readers)))"
      using fits_unionI n(1) by (metis is_exact.simps(5))
  qed
  ultimately show ?thesis by (simp add: represents_def)
qed

end
