(* ===== verification/Domain.thy ===== *)
theory Domain
  imports Prelude
begin

text \<open>
  The immutable vocabulary of the dialogue kernel (\<open>xsync_v2/domain.py\<close>): one
  datatype per enumeration, one record per data class, one constructor per
  command and event class.  A field of a record carries a prefix naming its class
  (\<open>tb_\<close> for \<open>TriggerBinding\<close>, \<open>cw_\<close> for \<open>CurrentWorkState\<close>, and so on)
  because field names are global.  Python \<open>int\<close> is \<open>int\<close>, \<open>tuple\<close> is \<open>list\<close>,
  an optional field is \<open>option\<close>.  The types of HOL replace the \<open>type(x) is C\<close> tests.
\<close>

section \<open>Enumerations\<close>

datatype conversation_phase =
    PHASE_NONE | CHOOSING_TOPIC | CLARIFYING_TOPIC | AWAITING_USER | WAITING_HOST
  | RECOVERABLE_ERROR

datatype session_lifecycle = SL_NEW | SL_OPEN | SL_ENDED

datatype topic_lifecycle = TL_ACTIVE | TL_PAUSED | TL_COMPLETED

datatype evidence_health = EH_CURRENT | EH_CAPTURED_DIRTY | EH_STALE | EH_DISPUTED | EH_UNAVAILABLE

datatype lens = LENS_BUSINESS | LENS_TECHNICAL | LENS_MIXED

datatype gate_id = GATE_MECHANISM | GATE_BOUNDARY | GATE_REPOSITORY_APPLICATION

datatype gate_status = GS_UNEXPLORED | GS_EMERGING | GS_ASSISTED | GS_SUPPORTED | GS_STALE | GS_DISPUTED

datatype question_intent =
    QI_CLARIFY | QI_CAUSAL_TRACE | QI_ASSUMPTION_TEST | QI_COUNTEREXAMPLE | QI_EVIDENCE_LOCATE
  | QI_BUSINESS_TECHNICAL_BRIDGE | QI_REPOSITORY_APPLY | QI_SYNTHESIZE

datatype insight_kind =
    IK_TECHNICAL_CONCLUSION | IK_BUSINESS_INSIGHT | IK_BUSINESS_TECHNICAL_MAPPING | IK_BOUNDARY
  | IK_OPEN_QUESTION

datatype insight_status = IS_CONFIRMED | IS_WORKING_MODEL | IS_OPEN_QUESTION | IS_STALE | IS_DISPUTED

datatype insight_provenance = IP_LEARNER_EXPLICIT | IP_AGENT_INFERRED | IP_JOINTLY_CONFIRMED

datatype trigger_kind =
    TK_TOPIC_CANDIDATES | TK_TOPIC_SELECTION | TK_INITIAL_TURN | TK_LEARNER_REPLY | TK_HELP
  | TK_LENS_CHANGED | TK_REGROUND

datatype work_status = WS_QUEUED | WS_FAILED | WS_DEAD_LETTER | WS_COMPLETED | WS_SUPERSEDED

datatype work_failure_category =
    WF_HOST_TRANSIENT | WF_RESULT_INVALID | WF_LEASE_ATTEMPTS_EXHAUSTED | WF_HOST_PERMANENT

datatype work_recovery_action = RA_RETRY | RA_REGROUND

datatype pause_cause = PC_USER | PC_SESSION_DEACTIVATION

datatype export_status = ES_REQUESTED | ES_COMPLETED

text \<open>\<open>frozenset(GateId)\<close> is the enumeration of the gates, the library's class \<open>enum\<close>.\<close>

instantiation gate_id :: enum
begin
definition "enum_gate_id = [GATE_MECHANISM, GATE_BOUNDARY, GATE_REPOSITORY_APPLICATION]"
definition "enum_all_gate_id P \<longleftrightarrow>
  P GATE_MECHANISM \<and> P GATE_BOUNDARY \<and> P GATE_REPOSITORY_APPLICATION"
definition "enum_ex_gate_id P \<longleftrightarrow>
  P GATE_MECHANISM \<or> P GATE_BOUNDARY \<or> P GATE_REPOSITORY_APPLICATION"
instance
proof
  show univ: "(UNIV :: gate_id set) = set enum_class.enum"
    by (auto simp: enum_gate_id_def intro: gate_id.exhaust)
  show "distinct (enum_class.enum :: gate_id list)"
    by (simp add: enum_gate_id_def)
  fix P :: "gate_id \<Rightarrow> bool"
  show "enum_class.enum_all P \<longleftrightarrow> Ball UNIV P"
    unfolding univ by (simp add: enum_gate_id_def enum_all_gate_id_def)
  show "enum_class.enum_ex P \<longleftrightarrow> Bex UNIV P"
    unfolding univ by (simp add: enum_gate_id_def enum_ex_gate_id_def)
qed
end

text \<open>The wire values of the trigger kinds, which enter the work identity.\<close>

fun trigger_kind_value :: "trigger_kind \<Rightarrow> pystr" where
  "trigger_kind_value TK_TOPIC_CANDIDATES = py ''topic_candidates''"
| "trigger_kind_value TK_TOPIC_SELECTION = py ''topic_selection''"
| "trigger_kind_value TK_INITIAL_TURN = py ''initial_turn''"
| "trigger_kind_value TK_LEARNER_REPLY = py ''learner_reply''"
| "trigger_kind_value TK_HELP = py ''help''"
| "trigger_kind_value TK_LENS_CHANGED = py ''lens_changed''"
| "trigger_kind_value TK_REGROUND = py ''reground''"

lemma inj_trigger_kind_value: "trigger_kind_value k = trigger_kind_value k' \<longleftrightarrow> k = k'"
  by (cases k; cases k') simp_all

section \<open>Values\<close>

record gate_requirement =
  gr_gate_id :: gate_id
  gr_required :: bool

record gate_assessment =
  ga_gate_id :: gate_id
  ga_status :: gate_status
  ga_source_turn_ids :: "pystr list"
  ga_evidence_refs :: "pystr list"

text \<open>\<open>GateAssessment(gate_id)\<close> with the defaults of the class.\<close>

definition new_gate_assessment :: "gate_id \<Rightarrow> gate_assessment" where
  "new_gate_assessment g =
     \<lparr>ga_gate_id = g, ga_status = GS_UNEXPLORED, ga_source_turn_ids = [], ga_evidence_refs = []\<rparr>"

record task_scope =
  ts_task_id :: pystr
  ts_summary :: pystr
  ts_included_paths :: "pystr list"
  ts_excluded_paths :: "pystr list"

record topic_contract =
  tc_contract_id :: pystr
  tc_contract_version :: int
  tc_topic_run_id :: pystr
  tc_title :: pystr
  tc_guiding_question :: pystr
  tc_objective :: pystr
  tc_task_scope :: task_scope
  tc_starting_lens :: lens
  tc_bridge_required :: bool
  tc_evidence_refs :: "pystr list"
  tc_gates :: "gate_requirement list"
  tc_supersedes_contract_id :: "pystr option"
  tc_contract_digest :: pystr

record evidence_check =
  ec_health :: evidence_health
  ec_evidence_digest :: pystr
  ec_exact_recheck_fingerprint :: "pystr option"

record trigger_binding =
  tb_kind :: trigger_kind
  tb_work_id :: pystr
  tb_runtime_epoch :: pystr
  tb_parent_turn_id :: "pystr option"
  tb_contract_digest :: "pystr option"
  tb_input_digest :: pystr
  tb_evidence_digest :: pystr

record work_failure =
  wf_failure_id :: pystr
  wf_category :: work_failure_category
  wf_safe_error_code :: pystr
  wf_proof_digest :: pystr

record current_work_state =
  cw_work_id :: pystr
  cw_trigger_event_id :: pystr
  cw_trigger_event_sequence :: int
  cw_trigger :: trigger_binding
  cw_attempt :: int
  cw_status :: work_status
  cw_last_failure :: "work_failure option"
  cw_allowed_recovery_actions :: "work_recovery_action list"

record decision_context =
  dc_registry_generation :: int
  dc_trigger :: "trigger_binding option"
  dc_evidence :: evidence_check

record learner_model_entry =
  lm_entry_id :: pystr
  lm_kind :: insight_kind
  lm_status :: insight_status
  lm_provenance :: insight_provenance
  lm_statement :: pystr
  lm_source_turn_ids :: "pystr list"
  lm_evidence_refs :: "pystr list"

record agent_turn_result =
  at_heard :: pystr
  at_one_step_further :: pystr
  at_question_id :: pystr
  at_question :: pystr
  at_question_intent :: question_intent
  at_learner_model_delta :: "learner_model_entry list"
  at_gate_assessments :: "gate_assessment list"
  at_evidence_refs :: "pystr list"

record topic_summary =
  su_takeaway :: pystr
  su_confirmed_entry_ids :: "pystr list"
  su_open_questions :: "pystr list"
  su_next_suggestion :: pystr

record topic_clarification =
  cl_question_id :: pystr
  cl_question :: pystr
  cl_answer :: "pystr option"

section \<open>The aggregate\<close>

record topic_run_state =
  tr_topic_run_id :: pystr
  tr_contract :: topic_contract
  tr_lifecycle :: topic_lifecycle
  tr_evidence_health :: evidence_health
  tr_evidence_digest :: pystr
  tr_exact_recheck_fingerprint :: "pystr option"
  tr_gates :: "gate_assessment list"
  tr_learner_model :: "learner_model_entry list"
  tr_current_agent_turn :: "agent_turn_result option"
  tr_work :: "current_work_state option"
  tr_learner_turn_ids :: "pystr list"
  tr_last_learner_turn_id :: "pystr option"
  tr_last_learner_text :: "pystr option"
  tr_current_lens :: "lens option"
  tr_summary :: "topic_summary option"

text \<open>The properties \<open>lens\<close> and \<open>open_question_id\<close> of the class.\<close>

definition topic_lens :: "topic_run_state \<Rightarrow> lens" where
  "topic_lens t =
     (case tr_current_lens t of None \<Rightarrow> tc_starting_lens (tr_contract t) | Some l \<Rightarrow> l)"

definition open_question_id :: "topic_run_state \<Rightarrow> pystr option" where
  "open_question_id t = map_option at_question_id (tr_current_agent_turn t)"

record export_record =
  ex_export_id :: pystr
  ex_export_sequence :: int
  ex_intent_id :: pystr
  ex_as_of_event_sequence :: int
  ex_requested_at :: pystr
  ex_payload_digest :: pystr
  ex_status :: export_status
  ex_completed_at :: "pystr option"
  ex_json_path :: "pystr option"
  ex_json_digest :: "pystr option"
  ex_markdown_path :: "pystr option"
  ex_markdown_digest :: "pystr option"
  ex_freshness_overlay_digest :: "pystr option"

record dialogue_state =
  session_id :: pystr
  registry_generation :: int
  sequence :: int
  conversation_version :: int
  lifecycle :: session_lifecycle
  phase :: conversation_phase
  candidates :: "pystr list"
  session_work :: "current_work_state option"
  active_topic :: "topic_run_state option"
  paused_topics :: "topic_run_state list"
  selected_candidate :: "pystr option"
  topic_clarification :: "topic_clarification option"
  completed_topics :: "topic_run_state list"
  exports :: "export_record list"

definition session_unresolved_trigger :: "dialogue_state \<Rightarrow> trigger_binding option" where
  "session_unresolved_trigger s = map_option cw_trigger (session_work s)"

section \<open>Commands\<close>

datatype dialogue_command =
    StartSession (command_id: pystr)
  | PresentCandidates (command_id: pystr) "pystr list"
  | SelectTopic (command_id: pystr) pystr
  | SubmitCustomTopic (command_id: pystr) pystr
  | RequestTopicClarification (command_id: pystr) pystr pystr
      \<comment> \<open>question id, question\<close>
  | AnswerTopicClarification (command_id: pystr) pystr pystr
      \<comment> \<open>question id, answer\<close>
  | SetLens (command_id: pystr) lens
  | RequestHelp (command_id: pystr) pystr
  | CompleteTopic (command_id: pystr) topic_summary
  | StartTopic (command_id: pystr) topic_contract "pystr option"
  | CommitAgentTurn (command_id: pystr) agent_turn_result
  | SubmitLearnerTurn (command_id: pystr) pystr pystr pystr
      \<comment> \<open>question id, learner turn id, text\<close>
  | PauseTopic (command_id: pystr)
  | SwitchTopic (command_id: pystr)
  | ExploreTopics (command_id: pystr)
  | ResumeTopic (command_id: pystr) pystr
  | ReportWorkFailure (command_id: pystr) pystr work_failure
  | RecoverWork (command_id: pystr) pystr work_recovery_action
  | RequestExport (command_id: pystr) pystr pystr pystr pystr
      \<comment> \<open>export id, intent id, requested at, payload digest\<close>
  | CompleteExport (command_id: pystr) pystr pystr pystr pystr pystr pystr pystr pystr
      \<comment> \<open>export id, intent id, completed at, JSON path and digest, Markdown path and
          digest, freshness overlay digest\<close>

text \<open>\<open>PrepareSessionDeactivation\<close> and its context are not part of \<open>DialogueCommand\<close>.\<close>

record fenced_quiesce_context =
  fq_handoff_id :: pystr
  fq_source_session_id :: pystr
  fq_source_generation :: int
  fq_fence_generation :: int

section \<open>Events\<close>

datatype dialogue_event_payload =
    SessionStarted trigger_binding
  | CandidatesPresented "pystr list" trigger_binding
  | TopicSelectionSubmitted pystr trigger_binding
  | TopicClarificationRequested pystr pystr trigger_binding
  | TopicClarificationAnswered pystr pystr trigger_binding
  | LensChanged pystr lens trigger_binding
  | HelpRequested pystr pystr trigger_binding
  | TopicCompleted pystr topic_summary trigger_binding evidence_check int pystr
      \<comment> \<open>topic run, summary, trigger, evidence, as-of sequence, evidence fingerprint\<close>
  | TopicStarted topic_contract evidence_check trigger_binding "pystr option"
      "trigger_binding option"
      \<comment> \<open>contract, evidence, initial trigger, selected candidate, selection trigger\<close>
  | AgentTurnCommitted agent_turn_result trigger_binding evidence_check
  | LearnerTurnSubmitted pystr pystr pystr trigger_binding
      \<comment> \<open>question id, learner turn id, text, next trigger\<close>
  | TopicPaused pystr pause_cause "pystr option" "int option"
      \<comment> \<open>topic run, cause, handoff id, fence generation\<close>
  | TopicSwitchRequested pystr trigger_binding
  | TopicExplorationRequested trigger_binding
  | SessionDeactivationPrepared pystr int "trigger_binding option"
  | TopicResumed pystr bool "trigger_binding option" evidence_check
      \<comment> \<open>topic run, requires reground, resumed trigger, evidence\<close>
  | WorkFailed pystr trigger_binding int work_failure
  | WorkRequeued pystr trigger_binding int work_failure trigger_binding int
      \<comment> \<open>failed work id, trigger and attempt, failure, next trigger, next attempt\<close>
  | WorkDeadLettered pystr trigger_binding int work_failure "work_recovery_action list"
  | WorkRecoveryRequested pystr work_recovery_action trigger_binding evidence_check
  | ExportRequested pystr int pystr int pystr pystr
      \<comment> \<open>export id, export sequence, intent id, as-of sequence, requested at, payload digest\<close>
  | ExportCompleted pystr int pystr pystr pystr pystr pystr pystr pystr
      \<comment> \<open>export id, export sequence, intent id, completed at, JSON path and digest,
          Markdown path and digest, freshness overlay digest\<close>

record pending_dialogue_event =
  pe_command_id :: pystr
  pe_payload :: dialogue_event_payload

record committed_dialogue_event =
  ce_event_id :: pystr
  ce_sequence :: int
  ce_from_version :: int
  ce_to_version :: int
  ce_command_id :: pystr
  ce_payload :: dialogue_event_payload

section \<open>Decisions and errors\<close>

text \<open>The codes of rejections and of the exceptions of the kernel.\<close>

datatype code =
    VALIDATION_FAILED | TOPIC_STATE_CONFLICT | STATE_INVARIANT_VIOLATION | SESSION_DEACTIVATED
  | WORK_SUPERSEDED | EVIDENCE_STALE | LENS_UNCHANGED | TOPIC_COMPLETION_GUARD_FAILED
  | IDEMPOTENCY_CONFLICT
  | INVALID_DIALOGUE_ENVELOPE | INVALID_EVENT_ENVELOPE | EVENT_SEQUENCE_GAP
  | EVENT_VERSION_CONFLICT | ILLEGAL_EVENT_TRANSITION
  | WORK_ID_INPUT_INVALID | UNICODE_ENCODE_ERROR | IDENTITY_DERIVATION_FAILED

datatype decision = Accepted "pending_dialogue_event list" | Rejected code

definition initial_dialogue_state :: "pystr \<Rightarrow> int \<Rightarrow> code + dialogue_state" where
  "initial_dialogue_state sid gen =
     (if strip sid = [] \<or> gen < 1 then Inl INVALID_DIALOGUE_ENVELOPE
      else Inr \<lparr>session_id = sid, registry_generation = gen, sequence = 0,
                conversation_version = 0, lifecycle = SL_NEW, phase = PHASE_NONE,
                candidates = [], session_work = None, active_topic = None,
                paused_topics = [], selected_candidate = None, topic_clarification = None,
                completed_topics = [], exports = []\<rparr>)"

end
