(* ===== verification/Domain_Values.thy ===== *)
theory Domain_Values
  imports Value_Maps Domain
begin

text \<open>
  The data classes of \<open>xsync_v2/domain.py\<close> as values of the codec, class by class in the order of
  their fields: the embedding \<open>X_val\<close>, its inverse \<open>un_X\<close>, and the fact that the hint of the class
  is represented, so a value decoded at that hint is always a record of the model.
\<close>

section \<open>Enumerations\<close>

fun conversation_phase_value :: "conversation_phase \<Rightarrow> pystr" where
  "conversation_phase_value PHASE_NONE = py ''none''"
| "conversation_phase_value CHOOSING_TOPIC = py ''choosing_topic''"
| "conversation_phase_value CLARIFYING_TOPIC = py ''clarifying_topic''"
| "conversation_phase_value AWAITING_USER = py ''awaiting_user''"
| "conversation_phase_value WAITING_HOST = py ''waiting_host''"
| "conversation_phase_value RECOVERABLE_ERROR = py ''recoverable_error''"

definition conversation_phase_val :: "conversation_phase \<Rightarrow> val" where
  "conversation_phase_val x = VEnum ''ConversationPhase'' (conversation_phase_value x)"

definition un_conversation_phase :: "val \<Rightarrow> conversation_phase option" where
  "un_conversation_phase = un_enum ''ConversationPhase''
     [(py ''none'', PHASE_NONE), (py ''choosing_topic'', CHOOSING_TOPIC),
      (py ''clarifying_topic'', CLARIFYING_TOPIC), (py ''awaiting_user'', AWAITING_USER),
      (py ''waiting_host'', WAITING_HOST), (py ''recoverable_error'', RECOVERABLE_ERROR)]"

lemma represents_conversation_phase [represented]:
  "represents (TyEnum ''ConversationPhase'') conversation_phase_val un_conversation_phase"
  unfolding un_conversation_phase_def conversation_phase_val_def
  by (rule represents_enum) (simp add: members_of_def enum_values_def, simp, case_tac x, simp_all)

fun session_lifecycle_value :: "session_lifecycle \<Rightarrow> pystr" where
  "session_lifecycle_value SL_NEW = py ''new''"
| "session_lifecycle_value SL_OPEN = py ''open''"
| "session_lifecycle_value SL_ENDED = py ''ended''"

definition session_lifecycle_val :: "session_lifecycle \<Rightarrow> val" where
  "session_lifecycle_val x = VEnum ''SessionLifecycle'' (session_lifecycle_value x)"

definition un_session_lifecycle :: "val \<Rightarrow> session_lifecycle option" where
  "un_session_lifecycle = un_enum ''SessionLifecycle''
     [(py ''new'', SL_NEW), (py ''open'', SL_OPEN), (py ''ended'', SL_ENDED)]"

lemma represents_session_lifecycle [represented]:
  "represents (TyEnum ''SessionLifecycle'') session_lifecycle_val un_session_lifecycle"
  unfolding un_session_lifecycle_def session_lifecycle_val_def
  by (rule represents_enum) (simp add: members_of_def enum_values_def, simp, case_tac x, simp_all)

fun topic_lifecycle_value :: "topic_lifecycle \<Rightarrow> pystr" where
  "topic_lifecycle_value TL_ACTIVE = py ''active''"
| "topic_lifecycle_value TL_PAUSED = py ''paused''"
| "topic_lifecycle_value TL_COMPLETED = py ''completed''"

definition topic_lifecycle_val :: "topic_lifecycle \<Rightarrow> val" where
  "topic_lifecycle_val x = VEnum ''TopicLifecycle'' (topic_lifecycle_value x)"

definition un_topic_lifecycle :: "val \<Rightarrow> topic_lifecycle option" where
  "un_topic_lifecycle = un_enum ''TopicLifecycle''
     [(py ''active'', TL_ACTIVE), (py ''paused'', TL_PAUSED), (py ''completed'', TL_COMPLETED)]"

lemma represents_topic_lifecycle [represented]:
  "represents (TyEnum ''TopicLifecycle'') topic_lifecycle_val un_topic_lifecycle"
  unfolding un_topic_lifecycle_def topic_lifecycle_val_def
  by (rule represents_enum) (simp add: members_of_def enum_values_def, simp, case_tac x, simp_all)

fun evidence_health_value :: "evidence_health \<Rightarrow> pystr" where
  "evidence_health_value EH_CURRENT = py ''current''"
| "evidence_health_value EH_CAPTURED_DIRTY = py ''captured_dirty''"
| "evidence_health_value EH_STALE = py ''stale''"
| "evidence_health_value EH_DISPUTED = py ''disputed''"
| "evidence_health_value EH_UNAVAILABLE = py ''unavailable''"

definition evidence_health_val :: "evidence_health \<Rightarrow> val" where
  "evidence_health_val x = VEnum ''EvidenceHealth'' (evidence_health_value x)"

definition un_evidence_health :: "val \<Rightarrow> evidence_health option" where
  "un_evidence_health = un_enum ''EvidenceHealth''
     [(py ''current'', EH_CURRENT), (py ''captured_dirty'', EH_CAPTURED_DIRTY),
      (py ''stale'', EH_STALE), (py ''disputed'', EH_DISPUTED),
      (py ''unavailable'', EH_UNAVAILABLE)]"

lemma represents_evidence_health [represented]:
  "represents (TyEnum ''EvidenceHealth'') evidence_health_val un_evidence_health"
  unfolding un_evidence_health_def evidence_health_val_def
  by (rule represents_enum) (simp add: members_of_def enum_values_def, simp, case_tac x, simp_all)

fun lens_value :: "lens \<Rightarrow> pystr" where
  "lens_value LENS_BUSINESS = py ''business''"
| "lens_value LENS_TECHNICAL = py ''technical''"
| "lens_value LENS_MIXED = py ''mixed''"

definition lens_val :: "lens \<Rightarrow> val" where
  "lens_val x = VEnum ''Lens'' (lens_value x)"

definition un_lens :: "val \<Rightarrow> lens option" where
  "un_lens = un_enum ''Lens''
     [(py ''business'', LENS_BUSINESS), (py ''technical'', LENS_TECHNICAL),
      (py ''mixed'', LENS_MIXED)]"

lemma represents_lens [represented]:
  "represents (TyEnum ''Lens'') lens_val un_lens"
  unfolding un_lens_def lens_val_def
  by (rule represents_enum) (simp add: members_of_def enum_values_def, simp, case_tac x, simp_all)

fun gate_id_value :: "gate_id \<Rightarrow> pystr" where
  "gate_id_value GATE_MECHANISM = py ''mechanism''"
| "gate_id_value GATE_BOUNDARY = py ''boundary''"
| "gate_id_value GATE_REPOSITORY_APPLICATION = py ''repository_application''"

definition gate_id_val :: "gate_id \<Rightarrow> val" where
  "gate_id_val x = VEnum ''GateId'' (gate_id_value x)"

definition un_gate_id :: "val \<Rightarrow> gate_id option" where
  "un_gate_id = un_enum ''GateId''
     [(py ''mechanism'', GATE_MECHANISM), (py ''boundary'', GATE_BOUNDARY),
      (py ''repository_application'', GATE_REPOSITORY_APPLICATION)]"

lemma represents_gate_id [represented]:
  "represents (TyEnum ''GateId'') gate_id_val un_gate_id"
  unfolding un_gate_id_def gate_id_val_def
  by (rule represents_enum) (simp add: members_of_def enum_values_def, simp, case_tac x, simp_all)

fun gate_status_value :: "gate_status \<Rightarrow> pystr" where
  "gate_status_value GS_UNEXPLORED = py ''unexplored''"
| "gate_status_value GS_EMERGING = py ''emerging''"
| "gate_status_value GS_ASSISTED = py ''assisted''"
| "gate_status_value GS_SUPPORTED = py ''supported''"
| "gate_status_value GS_STALE = py ''stale''"
| "gate_status_value GS_DISPUTED = py ''disputed''"

definition gate_status_val :: "gate_status \<Rightarrow> val" where
  "gate_status_val x = VEnum ''GateStatus'' (gate_status_value x)"

definition un_gate_status :: "val \<Rightarrow> gate_status option" where
  "un_gate_status = un_enum ''GateStatus''
     [(py ''unexplored'', GS_UNEXPLORED), (py ''emerging'', GS_EMERGING),
      (py ''assisted'', GS_ASSISTED), (py ''supported'', GS_SUPPORTED),
      (py ''stale'', GS_STALE), (py ''disputed'', GS_DISPUTED)]"

lemma represents_gate_status [represented]:
  "represents (TyEnum ''GateStatus'') gate_status_val un_gate_status"
  unfolding un_gate_status_def gate_status_val_def
  by (rule represents_enum) (simp add: members_of_def enum_values_def, simp, case_tac x, simp_all)

fun question_intent_value :: "question_intent \<Rightarrow> pystr" where
  "question_intent_value QI_CLARIFY = py ''clarify''"
| "question_intent_value QI_CAUSAL_TRACE = py ''causal_trace''"
| "question_intent_value QI_ASSUMPTION_TEST = py ''assumption_test''"
| "question_intent_value QI_COUNTEREXAMPLE = py ''counterexample''"
| "question_intent_value QI_EVIDENCE_LOCATE = py ''evidence_locate''"
| "question_intent_value QI_BUSINESS_TECHNICAL_BRIDGE = py ''business_technical_bridge''"
| "question_intent_value QI_REPOSITORY_APPLY = py ''repository_apply''"
| "question_intent_value QI_SYNTHESIZE = py ''synthesize''"

definition question_intent_val :: "question_intent \<Rightarrow> val" where
  "question_intent_val x = VEnum ''QuestionIntent'' (question_intent_value x)"

definition un_question_intent :: "val \<Rightarrow> question_intent option" where
  "un_question_intent = un_enum ''QuestionIntent''
     [(py ''clarify'', QI_CLARIFY), (py ''causal_trace'', QI_CAUSAL_TRACE),
      (py ''assumption_test'', QI_ASSUMPTION_TEST), (py ''counterexample'', QI_COUNTEREXAMPLE),
      (py ''evidence_locate'', QI_EVIDENCE_LOCATE),
      (py ''business_technical_bridge'', QI_BUSINESS_TECHNICAL_BRIDGE),
      (py ''repository_apply'', QI_REPOSITORY_APPLY), (py ''synthesize'', QI_SYNTHESIZE)]"

lemma represents_question_intent [represented]:
  "represents (TyEnum ''QuestionIntent'') question_intent_val un_question_intent"
  unfolding un_question_intent_def question_intent_val_def
  by (rule represents_enum) (simp add: members_of_def enum_values_def, simp, case_tac x, simp_all)

fun insight_kind_value :: "insight_kind \<Rightarrow> pystr" where
  "insight_kind_value IK_TECHNICAL_CONCLUSION = py ''technical_conclusion''"
| "insight_kind_value IK_BUSINESS_INSIGHT = py ''business_insight''"
| "insight_kind_value IK_BUSINESS_TECHNICAL_MAPPING = py ''business_technical_mapping''"
| "insight_kind_value IK_BOUNDARY = py ''boundary''"
| "insight_kind_value IK_OPEN_QUESTION = py ''open_question''"

definition insight_kind_val :: "insight_kind \<Rightarrow> val" where
  "insight_kind_val x = VEnum ''InsightKind'' (insight_kind_value x)"

definition un_insight_kind :: "val \<Rightarrow> insight_kind option" where
  "un_insight_kind = un_enum ''InsightKind''
     [(py ''technical_conclusion'', IK_TECHNICAL_CONCLUSION),
      (py ''business_insight'', IK_BUSINESS_INSIGHT),
      (py ''business_technical_mapping'', IK_BUSINESS_TECHNICAL_MAPPING),
      (py ''boundary'', IK_BOUNDARY), (py ''open_question'', IK_OPEN_QUESTION)]"

lemma represents_insight_kind [represented]:
  "represents (TyEnum ''InsightKind'') insight_kind_val un_insight_kind"
  unfolding un_insight_kind_def insight_kind_val_def
  by (rule represents_enum) (simp add: members_of_def enum_values_def, simp, case_tac x, simp_all)

fun insight_status_value :: "insight_status \<Rightarrow> pystr" where
  "insight_status_value IS_CONFIRMED = py ''confirmed''"
| "insight_status_value IS_WORKING_MODEL = py ''working_model''"
| "insight_status_value IS_OPEN_QUESTION = py ''open_question''"
| "insight_status_value IS_STALE = py ''stale''"
| "insight_status_value IS_DISPUTED = py ''disputed''"

definition insight_status_val :: "insight_status \<Rightarrow> val" where
  "insight_status_val x = VEnum ''InsightStatus'' (insight_status_value x)"

definition un_insight_status :: "val \<Rightarrow> insight_status option" where
  "un_insight_status = un_enum ''InsightStatus''
     [(py ''confirmed'', IS_CONFIRMED), (py ''working_model'', IS_WORKING_MODEL),
      (py ''open_question'', IS_OPEN_QUESTION), (py ''stale'', IS_STALE),
      (py ''disputed'', IS_DISPUTED)]"

lemma represents_insight_status [represented]:
  "represents (TyEnum ''InsightStatus'') insight_status_val un_insight_status"
  unfolding un_insight_status_def insight_status_val_def
  by (rule represents_enum) (simp add: members_of_def enum_values_def, simp, case_tac x, simp_all)

fun insight_provenance_value :: "insight_provenance \<Rightarrow> pystr" where
  "insight_provenance_value IP_LEARNER_EXPLICIT = py ''learner_explicit''"
| "insight_provenance_value IP_AGENT_INFERRED = py ''agent_inferred''"
| "insight_provenance_value IP_JOINTLY_CONFIRMED = py ''jointly_confirmed''"

definition insight_provenance_val :: "insight_provenance \<Rightarrow> val" where
  "insight_provenance_val x = VEnum ''InsightProvenance'' (insight_provenance_value x)"

definition un_insight_provenance :: "val \<Rightarrow> insight_provenance option" where
  "un_insight_provenance = un_enum ''InsightProvenance''
     [(py ''learner_explicit'', IP_LEARNER_EXPLICIT),
      (py ''agent_inferred'', IP_AGENT_INFERRED),
      (py ''jointly_confirmed'', IP_JOINTLY_CONFIRMED)]"

lemma represents_insight_provenance [represented]:
  "represents (TyEnum ''InsightProvenance'') insight_provenance_val un_insight_provenance"
  unfolding un_insight_provenance_def insight_provenance_val_def
  by (rule represents_enum) (simp add: members_of_def enum_values_def, simp, case_tac x, simp_all)

definition trigger_kind_val :: "trigger_kind \<Rightarrow> val" where
  "trigger_kind_val x = VEnum ''TriggerKind'' (trigger_kind_value x)"

definition un_trigger_kind :: "val \<Rightarrow> trigger_kind option" where
  "un_trigger_kind = un_enum ''TriggerKind''
     [(py ''topic_candidates'', TK_TOPIC_CANDIDATES),
      (py ''topic_selection'', TK_TOPIC_SELECTION), (py ''initial_turn'', TK_INITIAL_TURN),
      (py ''learner_reply'', TK_LEARNER_REPLY), (py ''help'', TK_HELP),
      (py ''lens_changed'', TK_LENS_CHANGED), (py ''reground'', TK_REGROUND)]"

lemma represents_trigger_kind [represented]:
  "represents (TyEnum ''TriggerKind'') trigger_kind_val un_trigger_kind"
  unfolding un_trigger_kind_def trigger_kind_val_def
  by (rule represents_enum) (simp add: members_of_def enum_values_def, simp, case_tac x, simp_all)

fun work_status_value :: "work_status \<Rightarrow> pystr" where
  "work_status_value WS_QUEUED = py ''queued''"
| "work_status_value WS_FAILED = py ''failed''"
| "work_status_value WS_DEAD_LETTER = py ''dead_letter''"
| "work_status_value WS_COMPLETED = py ''completed''"
| "work_status_value WS_SUPERSEDED = py ''superseded''"

definition work_status_val :: "work_status \<Rightarrow> val" where
  "work_status_val x = VEnum ''WorkStatus'' (work_status_value x)"

definition un_work_status :: "val \<Rightarrow> work_status option" where
  "un_work_status = un_enum ''WorkStatus''
     [(py ''queued'', WS_QUEUED), (py ''failed'', WS_FAILED),
      (py ''dead_letter'', WS_DEAD_LETTER), (py ''completed'', WS_COMPLETED),
      (py ''superseded'', WS_SUPERSEDED)]"

lemma represents_work_status [represented]:
  "represents (TyEnum ''WorkStatus'') work_status_val un_work_status"
  unfolding un_work_status_def work_status_val_def
  by (rule represents_enum) (simp add: members_of_def enum_values_def, simp, case_tac x, simp_all)

fun work_failure_category_value :: "work_failure_category \<Rightarrow> pystr" where
  "work_failure_category_value WF_HOST_TRANSIENT = py ''host_transient''"
| "work_failure_category_value WF_RESULT_INVALID = py ''result_invalid''"
| "work_failure_category_value WF_LEASE_ATTEMPTS_EXHAUSTED = py ''lease_attempts_exhausted''"
| "work_failure_category_value WF_HOST_PERMANENT = py ''host_permanent''"

definition work_failure_category_val :: "work_failure_category \<Rightarrow> val" where
  "work_failure_category_val x = VEnum ''WorkFailureCategory'' (work_failure_category_value x)"

definition un_work_failure_category :: "val \<Rightarrow> work_failure_category option" where
  "un_work_failure_category = un_enum ''WorkFailureCategory''
     [(py ''host_transient'', WF_HOST_TRANSIENT), (py ''result_invalid'', WF_RESULT_INVALID),
      (py ''lease_attempts_exhausted'', WF_LEASE_ATTEMPTS_EXHAUSTED),
      (py ''host_permanent'', WF_HOST_PERMANENT)]"

lemma represents_work_failure_category [represented]:
  "represents (TyEnum ''WorkFailureCategory'') work_failure_category_val un_work_failure_category"
  unfolding un_work_failure_category_def work_failure_category_val_def
  by (rule represents_enum) (simp add: members_of_def enum_values_def, simp, case_tac x, simp_all)

fun work_recovery_action_value :: "work_recovery_action \<Rightarrow> pystr" where
  "work_recovery_action_value RA_RETRY = py ''retry''"
| "work_recovery_action_value RA_REGROUND = py ''reground''"

definition work_recovery_action_val :: "work_recovery_action \<Rightarrow> val" where
  "work_recovery_action_val x = VEnum ''WorkRecoveryAction'' (work_recovery_action_value x)"

definition un_work_recovery_action :: "val \<Rightarrow> work_recovery_action option" where
  "un_work_recovery_action = un_enum ''WorkRecoveryAction''
     [(py ''retry'', RA_RETRY), (py ''reground'', RA_REGROUND)]"

lemma represents_work_recovery_action [represented]:
  "represents (TyEnum ''WorkRecoveryAction'') work_recovery_action_val un_work_recovery_action"
  unfolding un_work_recovery_action_def work_recovery_action_val_def
  by (rule represents_enum) (simp add: members_of_def enum_values_def, simp, case_tac x, simp_all)

fun pause_cause_value :: "pause_cause \<Rightarrow> pystr" where
  "pause_cause_value PC_USER = py ''user''"
| "pause_cause_value PC_SESSION_DEACTIVATION = py ''session_deactivation''"

definition pause_cause_val :: "pause_cause \<Rightarrow> val" where
  "pause_cause_val x = VEnum ''PauseCause'' (pause_cause_value x)"

definition un_pause_cause :: "val \<Rightarrow> pause_cause option" where
  "un_pause_cause = un_enum ''PauseCause''
     [(py ''user'', PC_USER), (py ''session_deactivation'', PC_SESSION_DEACTIVATION)]"

lemma represents_pause_cause [represented]:
  "represents (TyEnum ''PauseCause'') pause_cause_val un_pause_cause"
  unfolding un_pause_cause_def pause_cause_val_def
  by (rule represents_enum) (simp add: members_of_def enum_values_def, simp, case_tac x, simp_all)

fun export_status_value :: "export_status \<Rightarrow> pystr" where
  "export_status_value ES_REQUESTED = py ''requested''"
| "export_status_value ES_COMPLETED = py ''completed''"

definition export_status_val :: "export_status \<Rightarrow> val" where
  "export_status_val x = VEnum ''ExportStatus'' (export_status_value x)"

definition un_export_status :: "val \<Rightarrow> export_status option" where
  "un_export_status = un_enum ''ExportStatus''
     [(py ''requested'', ES_REQUESTED), (py ''completed'', ES_COMPLETED)]"

lemma represents_export_status [represented]:
  "represents (TyEnum ''ExportStatus'') export_status_val un_export_status"
  unfolding un_export_status_def export_status_val_def
  by (rule represents_enum) (simp add: members_of_def enum_values_def, simp, case_tac x, simp_all)

section \<open>Values\<close>

lemma hints_gate_requirement:
  "hints_of ''GateRequirement'' = Some
     [(''gate_id'', TyEnum ''GateId''), (''required'', TyBool)]"
  by code_simp

definition gate_requirement_val :: "gate_requirement \<Rightarrow> val" where
  "gate_requirement_val x =
     VRec ''GateRequirement''
       [gate_id_val (gr_gate_id x), VBool (gr_required x)]"

definition un_gate_requirement :: "val \<Rightarrow> gate_requirement option" where
  "un_gate_requirement = un_record ''GateRequirement''
     (\<lambda>vs. case vs of
        [v1, v2] \<Rightarrow>
          do {x1 \<leftarrow> un_gate_id v1; x2 \<leftarrow> un_bool v2;
             Some \<lparr>gr_gate_id = x1, gr_required = x2\<rparr>}
      | _ \<Rightarrow> None)"

lemma represents_gate_requirement [represented]:
  "represents (TyRec ''GateRequirement'') gate_requirement_val un_gate_requirement"
  unfolding un_gate_requirement_def
  by (rule represents_record [OF hints_gate_requirement])
    (auto simp: gate_requirement_val_def represented [THEN represents_iff] represented [THEN represents_inv]
      represented [THEN represents_inj] list_all2_Cons2 Option.bind_eq_Some_conv
      represented [THEN represents_fits] split: list.splits)

lemma represents_many_str [represented]:
  "represents (TyMany TyStr) (tuple_val VStr) (un_tuple un_str)"
  by (rule represents_many [OF represents_str])

lemma hints_gate_assessment:
  "hints_of ''GateAssessment'' = Some
     [(''gate_id'', TyEnum ''GateId''), (''status'', TyEnum ''GateStatus''),
      (''source_turn_ids'', TyMany TyStr), (''evidence_refs'', TyMany TyStr)]"
  by code_simp

definition gate_assessment_val :: "gate_assessment \<Rightarrow> val" where
  "gate_assessment_val x =
     VRec ''GateAssessment''
       [gate_id_val (ga_gate_id x), gate_status_val (ga_status x),
        tuple_val VStr (ga_source_turn_ids x), tuple_val VStr (ga_evidence_refs x)]"

definition un_gate_assessment :: "val \<Rightarrow> gate_assessment option" where
  "un_gate_assessment = un_record ''GateAssessment''
     (\<lambda>vs. case vs of
        [v1, v2, v3, v4] \<Rightarrow>
          do {x1 \<leftarrow> un_gate_id v1; x2 \<leftarrow> un_gate_status v2;
             x3 \<leftarrow> un_tuple un_str v3; x4 \<leftarrow> un_tuple un_str v4;
             Some \<lparr>ga_gate_id = x1, ga_status = x2, ga_source_turn_ids = x3,
                  ga_evidence_refs = x4\<rparr>}
      | _ \<Rightarrow> None)"

lemma represents_gate_assessment [represented]:
  "represents (TyRec ''GateAssessment'') gate_assessment_val un_gate_assessment"
  unfolding un_gate_assessment_def
  by (rule represents_record [OF hints_gate_assessment])
    (auto simp: gate_assessment_val_def represented [THEN represents_iff] represented [THEN represents_inv]
      represented [THEN represents_inj] list_all2_Cons2 Option.bind_eq_Some_conv
      represented [THEN represents_fits] split: list.splits)

lemma hints_task_scope:
  "hints_of ''TaskScope'' = Some
     [(''task_id'', TyStr), (''summary'', TyStr), (''included_paths'', TyMany TyStr),
      (''excluded_paths'', TyMany TyStr)]"
  by code_simp

definition task_scope_val :: "task_scope \<Rightarrow> val" where
  "task_scope_val x =
     VRec ''TaskScope''
       [VStr (ts_task_id x), VStr (ts_summary x), tuple_val VStr (ts_included_paths x),
        tuple_val VStr (ts_excluded_paths x)]"

definition un_task_scope :: "val \<Rightarrow> task_scope option" where
  "un_task_scope = un_record ''TaskScope''
     (\<lambda>vs. case vs of
        [v1, v2, v3, v4] \<Rightarrow>
          do {x1 \<leftarrow> un_str v1; x2 \<leftarrow> un_str v2;
             x3 \<leftarrow> un_tuple un_str v3; x4 \<leftarrow> un_tuple un_str v4;
             Some \<lparr>ts_task_id = x1, ts_summary = x2, ts_included_paths = x3,
                  ts_excluded_paths = x4\<rparr>}
      | _ \<Rightarrow> None)"

lemma represents_task_scope [represented]:
  "represents (TyRec ''TaskScope'') task_scope_val un_task_scope"
  unfolding un_task_scope_def
  by (rule represents_record [OF hints_task_scope])
    (auto simp: task_scope_val_def represented [THEN represents_iff] represented [THEN represents_inv]
      represented [THEN represents_inj] list_all2_Cons2 Option.bind_eq_Some_conv
      represented [THEN represents_fits] split: list.splits)

lemma represents_many_gate_requirement [represented]:
  "represents (TyMany (TyRec ''GateRequirement'')) (tuple_val gate_requirement_val) (un_tuple un_gate_requirement)"
  by (rule represents_many [OF represents_gate_requirement])

lemma represents_opt_str [represented]:
  "represents (optional TyStr) (opt_val VStr) (un_opt un_str)"
  by (rule represents_opt [OF represents_str]) simp_all

lemma hints_topic_contract:
  "hints_of ''TopicContract'' = Some
     [(''contract_id'', TyStr), (''contract_version'', TyInt), (''topic_run_id'', TyStr),
      (''title'', TyStr), (''guiding_question'', TyStr), (''objective'', TyStr),
      (''task_scope'', TyRec ''TaskScope''), (''starting_lens'', TyEnum ''Lens''),
      (''bridge_required'', TyBool), (''evidence_refs'', TyMany TyStr),
      (''gates'', TyMany (TyRec ''GateRequirement'')),
      (''supersedes_contract_id'', optional TyStr), (''contract_digest'', TyStr)]"
  by code_simp

definition topic_contract_val :: "topic_contract \<Rightarrow> val" where
  "topic_contract_val x =
     VRec ''TopicContract''
       [VStr (tc_contract_id x), VInt (tc_contract_version x), VStr (tc_topic_run_id x),
        VStr (tc_title x), VStr (tc_guiding_question x), VStr (tc_objective x),
        task_scope_val (tc_task_scope x), lens_val (tc_starting_lens x),
        VBool (tc_bridge_required x), tuple_val VStr (tc_evidence_refs x),
        tuple_val gate_requirement_val (tc_gates x),
        opt_val VStr (tc_supersedes_contract_id x), VStr (tc_contract_digest x)]"

definition un_topic_contract :: "val \<Rightarrow> topic_contract option" where
  "un_topic_contract = un_record ''TopicContract''
     (\<lambda>vs. case vs of
        [v1, v2, v3, v4, v5, v6, v7, v8, v9, v10, v11, v12, v13] \<Rightarrow>
          do {x1 \<leftarrow> un_str v1; x2 \<leftarrow> un_int v2; x3 \<leftarrow> un_str v3;
             x4 \<leftarrow> un_str v4; x5 \<leftarrow> un_str v5; x6 \<leftarrow> un_str v6;
             x7 \<leftarrow> un_task_scope v7; x8 \<leftarrow> un_lens v8;
             x9 \<leftarrow> un_bool v9; x10 \<leftarrow> un_tuple un_str v10;
             x11 \<leftarrow> un_tuple un_gate_requirement v11;
             x12 \<leftarrow> un_opt un_str v12; x13 \<leftarrow> un_str v13;
             Some \<lparr>tc_contract_id = x1, tc_contract_version = x2, tc_topic_run_id = x3,
                  tc_title = x4, tc_guiding_question = x5, tc_objective = x6,
                  tc_task_scope = x7, tc_starting_lens = x8, tc_bridge_required = x9,
                  tc_evidence_refs = x10, tc_gates = x11, tc_supersedes_contract_id = x12,
                  tc_contract_digest = x13\<rparr>}
      | _ \<Rightarrow> None)"

lemma represents_topic_contract [represented]:
  "represents (TyRec ''TopicContract'') topic_contract_val un_topic_contract"
  unfolding un_topic_contract_def
  by (rule represents_record [OF hints_topic_contract])
    (auto simp: topic_contract_val_def represented [THEN represents_iff] represented [THEN represents_inv]
      represented [THEN represents_inj] list_all2_Cons2 Option.bind_eq_Some_conv
      represented [THEN represents_fits] split: list.splits)

lemma hints_evidence_check:
  "hints_of ''EvidenceCheck'' = Some
     [(''health'', TyEnum ''EvidenceHealth''), (''evidence_digest'', TyStr),
      (''exact_recheck_fingerprint'', optional TyStr)]"
  by code_simp

definition evidence_check_val :: "evidence_check \<Rightarrow> val" where
  "evidence_check_val x =
     VRec ''EvidenceCheck''
       [evidence_health_val (ec_health x), VStr (ec_evidence_digest x),
        opt_val VStr (ec_exact_recheck_fingerprint x)]"

definition un_evidence_check :: "val \<Rightarrow> evidence_check option" where
  "un_evidence_check = un_record ''EvidenceCheck''
     (\<lambda>vs. case vs of
        [v1, v2, v3] \<Rightarrow>
          do {x1 \<leftarrow> un_evidence_health v1; x2 \<leftarrow> un_str v2;
             x3 \<leftarrow> un_opt un_str v3;
             Some \<lparr>ec_health = x1, ec_evidence_digest = x2, ec_exact_recheck_fingerprint = x3\<rparr>}
      | _ \<Rightarrow> None)"

lemma represents_evidence_check [represented]:
  "represents (TyRec ''EvidenceCheck'') evidence_check_val un_evidence_check"
  unfolding un_evidence_check_def
  by (rule represents_record [OF hints_evidence_check])
    (auto simp: evidence_check_val_def represented [THEN represents_iff] represented [THEN represents_inv]
      represented [THEN represents_inj] list_all2_Cons2 Option.bind_eq_Some_conv
      represented [THEN represents_fits] split: list.splits)

lemma hints_trigger_binding:
  "hints_of ''TriggerBinding'' = Some
     [(''kind'', TyEnum ''TriggerKind''), (''work_id'', TyStr), (''runtime_epoch'', TyStr),
      (''parent_turn_id'', optional TyStr), (''contract_digest'', optional TyStr),
      (''input_digest'', TyStr), (''evidence_digest'', TyStr)]"
  by code_simp

definition trigger_binding_val :: "trigger_binding \<Rightarrow> val" where
  "trigger_binding_val x =
     VRec ''TriggerBinding''
       [trigger_kind_val (tb_kind x), VStr (tb_work_id x), VStr (tb_runtime_epoch x),
        opt_val VStr (tb_parent_turn_id x), opt_val VStr (tb_contract_digest x),
        VStr (tb_input_digest x), VStr (tb_evidence_digest x)]"

definition un_trigger_binding :: "val \<Rightarrow> trigger_binding option" where
  "un_trigger_binding = un_record ''TriggerBinding''
     (\<lambda>vs. case vs of
        [v1, v2, v3, v4, v5, v6, v7] \<Rightarrow>
          do {x1 \<leftarrow> un_trigger_kind v1; x2 \<leftarrow> un_str v2;
             x3 \<leftarrow> un_str v3; x4 \<leftarrow> un_opt un_str v4;
             x5 \<leftarrow> un_opt un_str v5; x6 \<leftarrow> un_str v6;
             x7 \<leftarrow> un_str v7;
             Some \<lparr>tb_kind = x1, tb_work_id = x2, tb_runtime_epoch = x3, tb_parent_turn_id = x4,
                  tb_contract_digest = x5, tb_input_digest = x6, tb_evidence_digest = x7\<rparr>}
      | _ \<Rightarrow> None)"

lemma represents_trigger_binding [represented]:
  "represents (TyRec ''TriggerBinding'') trigger_binding_val un_trigger_binding"
  unfolding un_trigger_binding_def
  by (rule represents_record [OF hints_trigger_binding])
    (auto simp: trigger_binding_val_def represented [THEN represents_iff] represented [THEN represents_inv]
      represented [THEN represents_inj] list_all2_Cons2 Option.bind_eq_Some_conv
      represented [THEN represents_fits] split: list.splits)

lemma hints_work_failure:
  "hints_of ''WorkFailure'' = Some
     [(''failure_id'', TyStr), (''category'', TyEnum ''WorkFailureCategory''),
      (''safe_error_code'', TyStr), (''proof_digest'', TyStr)]"
  by code_simp

definition work_failure_val :: "work_failure \<Rightarrow> val" where
  "work_failure_val x =
     VRec ''WorkFailure''
       [VStr (wf_failure_id x), work_failure_category_val (wf_category x),
        VStr (wf_safe_error_code x), VStr (wf_proof_digest x)]"

definition un_work_failure :: "val \<Rightarrow> work_failure option" where
  "un_work_failure = un_record ''WorkFailure''
     (\<lambda>vs. case vs of
        [v1, v2, v3, v4] \<Rightarrow>
          do {x1 \<leftarrow> un_str v1; x2 \<leftarrow> un_work_failure_category v2;
             x3 \<leftarrow> un_str v3; x4 \<leftarrow> un_str v4;
             Some \<lparr>wf_failure_id = x1, wf_category = x2, wf_safe_error_code = x3,
                  wf_proof_digest = x4\<rparr>}
      | _ \<Rightarrow> None)"

lemma represents_work_failure [represented]:
  "represents (TyRec ''WorkFailure'') work_failure_val un_work_failure"
  unfolding un_work_failure_def
  by (rule represents_record [OF hints_work_failure])
    (auto simp: work_failure_val_def represented [THEN represents_iff] represented [THEN represents_inv]
      represented [THEN represents_inj] list_all2_Cons2 Option.bind_eq_Some_conv
      represented [THEN represents_fits] split: list.splits)

lemma represents_opt_work_failure [represented]:
  "represents (optional (TyRec ''WorkFailure'')) (opt_val work_failure_val) (un_opt un_work_failure)"
  by (rule represents_opt [OF represents_work_failure]) (simp_all add: work_failure_val_def)

lemma represents_many_work_recovery_action [represented]:
  "represents (TyMany (TyEnum ''WorkRecoveryAction'')) (tuple_val work_recovery_action_val) (un_tuple un_work_recovery_action)"
  by (rule represents_many [OF represents_work_recovery_action])

lemma hints_current_work_state:
  "hints_of ''CurrentWorkState'' = Some
     [(''work_id'', TyStr), (''trigger_event_id'', TyStr), (''trigger_event_sequence'', TyInt),
      (''trigger'', TyRec ''TriggerBinding''), (''attempt'', TyInt),
      (''status'', TyEnum ''WorkStatus''), (''last_failure'', optional (TyRec ''WorkFailure'')),
      (''allowed_recovery_actions'', TyMany (TyEnum ''WorkRecoveryAction''))]"
  by code_simp

definition current_work_state_val :: "current_work_state \<Rightarrow> val" where
  "current_work_state_val x =
     VRec ''CurrentWorkState''
       [VStr (cw_work_id x), VStr (cw_trigger_event_id x), VInt (cw_trigger_event_sequence x),
        trigger_binding_val (cw_trigger x), VInt (cw_attempt x), work_status_val (cw_status x),
        opt_val work_failure_val (cw_last_failure x),
        tuple_val work_recovery_action_val (cw_allowed_recovery_actions x)]"

definition un_current_work_state :: "val \<Rightarrow> current_work_state option" where
  "un_current_work_state = un_record ''CurrentWorkState''
     (\<lambda>vs. case vs of
        [v1, v2, v3, v4, v5, v6, v7, v8] \<Rightarrow>
          do {x1 \<leftarrow> un_str v1; x2 \<leftarrow> un_str v2; x3 \<leftarrow> un_int v3;
             x4 \<leftarrow> un_trigger_binding v4; x5 \<leftarrow> un_int v5;
             x6 \<leftarrow> un_work_status v6; x7 \<leftarrow> un_opt un_work_failure v7;
             x8 \<leftarrow> un_tuple un_work_recovery_action v8;
             Some \<lparr>cw_work_id = x1, cw_trigger_event_id = x2, cw_trigger_event_sequence = x3,
                  cw_trigger = x4, cw_attempt = x5, cw_status = x6, cw_last_failure = x7,
                  cw_allowed_recovery_actions = x8\<rparr>}
      | _ \<Rightarrow> None)"

lemma represents_current_work_state [represented]:
  "represents (TyRec ''CurrentWorkState'') current_work_state_val un_current_work_state"
  unfolding un_current_work_state_def
  by (rule represents_record [OF hints_current_work_state])
    (auto simp: current_work_state_val_def represented [THEN represents_iff] represented [THEN represents_inv]
      represented [THEN represents_inj] list_all2_Cons2 Option.bind_eq_Some_conv
      represented [THEN represents_fits] split: list.splits)

lemma represents_opt_trigger_binding [represented]:
  "represents (optional (TyRec ''TriggerBinding'')) (opt_val trigger_binding_val) (un_opt un_trigger_binding)"
  by (rule represents_opt [OF represents_trigger_binding]) (simp_all add: trigger_binding_val_def)

lemma hints_decision_context:
  "hints_of ''DecisionContext'' = Some
     [(''registry_generation'', TyInt), (''trigger'', optional (TyRec ''TriggerBinding'')),
      (''evidence'', TyRec ''EvidenceCheck'')]"
  by code_simp

definition decision_context_val :: "decision_context \<Rightarrow> val" where
  "decision_context_val x =
     VRec ''DecisionContext''
       [VInt (dc_registry_generation x), opt_val trigger_binding_val (dc_trigger x),
        evidence_check_val (dc_evidence x)]"

definition un_decision_context :: "val \<Rightarrow> decision_context option" where
  "un_decision_context = un_record ''DecisionContext''
     (\<lambda>vs. case vs of
        [v1, v2, v3] \<Rightarrow>
          do {x1 \<leftarrow> un_int v1; x2 \<leftarrow> un_opt un_trigger_binding v2;
             x3 \<leftarrow> un_evidence_check v3;
             Some \<lparr>dc_registry_generation = x1, dc_trigger = x2, dc_evidence = x3\<rparr>}
      | _ \<Rightarrow> None)"

lemma represents_decision_context [represented]:
  "represents (TyRec ''DecisionContext'') decision_context_val un_decision_context"
  unfolding un_decision_context_def
  by (rule represents_record [OF hints_decision_context])
    (auto simp: decision_context_val_def represented [THEN represents_iff] represented [THEN represents_inv]
      represented [THEN represents_inj] list_all2_Cons2 Option.bind_eq_Some_conv
      represented [THEN represents_fits] split: list.splits)

lemma hints_learner_model_entry:
  "hints_of ''LearnerModelEntry'' = Some
     [(''entry_id'', TyStr), (''kind'', TyEnum ''InsightKind''),
      (''status'', TyEnum ''InsightStatus''), (''provenance'', TyEnum ''InsightProvenance''),
      (''statement'', TyStr), (''source_turn_ids'', TyMany TyStr),
      (''evidence_refs'', TyMany TyStr)]"
  by code_simp

definition learner_model_entry_val :: "learner_model_entry \<Rightarrow> val" where
  "learner_model_entry_val x =
     VRec ''LearnerModelEntry''
       [VStr (lm_entry_id x), insight_kind_val (lm_kind x), insight_status_val (lm_status x),
        insight_provenance_val (lm_provenance x), VStr (lm_statement x),
        tuple_val VStr (lm_source_turn_ids x), tuple_val VStr (lm_evidence_refs x)]"

definition un_learner_model_entry :: "val \<Rightarrow> learner_model_entry option" where
  "un_learner_model_entry = un_record ''LearnerModelEntry''
     (\<lambda>vs. case vs of
        [v1, v2, v3, v4, v5, v6, v7] \<Rightarrow>
          do {x1 \<leftarrow> un_str v1; x2 \<leftarrow> un_insight_kind v2;
             x3 \<leftarrow> un_insight_status v3; x4 \<leftarrow> un_insight_provenance v4;
             x5 \<leftarrow> un_str v5; x6 \<leftarrow> un_tuple un_str v6;
             x7 \<leftarrow> un_tuple un_str v7;
             Some \<lparr>lm_entry_id = x1, lm_kind = x2, lm_status = x3, lm_provenance = x4,
                  lm_statement = x5, lm_source_turn_ids = x6, lm_evidence_refs = x7\<rparr>}
      | _ \<Rightarrow> None)"

lemma represents_learner_model_entry [represented]:
  "represents (TyRec ''LearnerModelEntry'') learner_model_entry_val un_learner_model_entry"
  unfolding un_learner_model_entry_def
  by (rule represents_record [OF hints_learner_model_entry])
    (auto simp: learner_model_entry_val_def represented [THEN represents_iff] represented [THEN represents_inv]
      represented [THEN represents_inj] list_all2_Cons2 Option.bind_eq_Some_conv
      represented [THEN represents_fits] split: list.splits)

lemma represents_many_learner_model_entry [represented]:
  "represents (TyMany (TyRec ''LearnerModelEntry'')) (tuple_val learner_model_entry_val) (un_tuple un_learner_model_entry)"
  by (rule represents_many [OF represents_learner_model_entry])

lemma represents_many_gate_assessment [represented]:
  "represents (TyMany (TyRec ''GateAssessment'')) (tuple_val gate_assessment_val) (un_tuple un_gate_assessment)"
  by (rule represents_many [OF represents_gate_assessment])

lemma hints_agent_turn_result:
  "hints_of ''AgentTurnResult'' = Some
     [(''heard'', TyStr), (''one_step_further'', TyStr), (''question_id'', TyStr),
      (''question'', TyStr), (''question_intent'', TyEnum ''QuestionIntent''),
      (''learner_model_delta'', TyMany (TyRec ''LearnerModelEntry'')),
      (''gate_assessments'', TyMany (TyRec ''GateAssessment'')),
      (''evidence_refs'', TyMany TyStr)]"
  by code_simp

definition agent_turn_result_val :: "agent_turn_result \<Rightarrow> val" where
  "agent_turn_result_val x =
     VRec ''AgentTurnResult''
       [VStr (at_heard x), VStr (at_one_step_further x), VStr (at_question_id x),
        VStr (at_question x), question_intent_val (at_question_intent x),
        tuple_val learner_model_entry_val (at_learner_model_delta x),
        tuple_val gate_assessment_val (at_gate_assessments x),
        tuple_val VStr (at_evidence_refs x)]"

definition un_agent_turn_result :: "val \<Rightarrow> agent_turn_result option" where
  "un_agent_turn_result = un_record ''AgentTurnResult''
     (\<lambda>vs. case vs of
        [v1, v2, v3, v4, v5, v6, v7, v8] \<Rightarrow>
          do {x1 \<leftarrow> un_str v1; x2 \<leftarrow> un_str v2; x3 \<leftarrow> un_str v3;
             x4 \<leftarrow> un_str v4; x5 \<leftarrow> un_question_intent v5;
             x6 \<leftarrow> un_tuple un_learner_model_entry v6;
             x7 \<leftarrow> un_tuple un_gate_assessment v7;
             x8 \<leftarrow> un_tuple un_str v8;
             Some \<lparr>at_heard = x1, at_one_step_further = x2, at_question_id = x3,
                  at_question = x4, at_question_intent = x5, at_learner_model_delta = x6,
                  at_gate_assessments = x7, at_evidence_refs = x8\<rparr>}
      | _ \<Rightarrow> None)"

lemma represents_agent_turn_result [represented]:
  "represents (TyRec ''AgentTurnResult'') agent_turn_result_val un_agent_turn_result"
  unfolding un_agent_turn_result_def
  by (rule represents_record [OF hints_agent_turn_result])
    (auto simp: agent_turn_result_val_def represented [THEN represents_iff] represented [THEN represents_inv]
      represented [THEN represents_inj] list_all2_Cons2 Option.bind_eq_Some_conv
      represented [THEN represents_fits] split: list.splits)

lemma hints_topic_summary:
  "hints_of ''TopicSummary'' = Some
     [(''takeaway'', TyStr), (''confirmed_entry_ids'', TyMany TyStr),
      (''open_questions'', TyMany TyStr), (''next_suggestion'', TyStr)]"
  by code_simp

definition topic_summary_val :: "topic_summary \<Rightarrow> val" where
  "topic_summary_val x =
     VRec ''TopicSummary''
       [VStr (su_takeaway x), tuple_val VStr (su_confirmed_entry_ids x),
        tuple_val VStr (su_open_questions x), VStr (su_next_suggestion x)]"

definition un_topic_summary :: "val \<Rightarrow> topic_summary option" where
  "un_topic_summary = un_record ''TopicSummary''
     (\<lambda>vs. case vs of
        [v1, v2, v3, v4] \<Rightarrow>
          do {x1 \<leftarrow> un_str v1; x2 \<leftarrow> un_tuple un_str v2;
             x3 \<leftarrow> un_tuple un_str v3; x4 \<leftarrow> un_str v4;
             Some \<lparr>su_takeaway = x1, su_confirmed_entry_ids = x2, su_open_questions = x3,
                  su_next_suggestion = x4\<rparr>}
      | _ \<Rightarrow> None)"

lemma represents_topic_summary [represented]:
  "represents (TyRec ''TopicSummary'') topic_summary_val un_topic_summary"
  unfolding un_topic_summary_def
  by (rule represents_record [OF hints_topic_summary])
    (auto simp: topic_summary_val_def represented [THEN represents_iff] represented [THEN represents_inv]
      represented [THEN represents_inj] list_all2_Cons2 Option.bind_eq_Some_conv
      represented [THEN represents_fits] split: list.splits)

lemma hints_topic_clarification:
  "hints_of ''TopicClarification'' = Some
     [(''question_id'', TyStr), (''question'', TyStr), (''answer'', optional TyStr)]"
  by code_simp

definition topic_clarification_val :: "topic_clarification \<Rightarrow> val" where
  "topic_clarification_val x =
     VRec ''TopicClarification''
       [VStr (cl_question_id x), VStr (cl_question x), opt_val VStr (cl_answer x)]"

definition un_topic_clarification :: "val \<Rightarrow> topic_clarification option" where
  "un_topic_clarification = un_record ''TopicClarification''
     (\<lambda>vs. case vs of
        [v1, v2, v3] \<Rightarrow>
          do {x1 \<leftarrow> un_str v1; x2 \<leftarrow> un_str v2;
             x3 \<leftarrow> un_opt un_str v3;
             Some \<lparr>cl_question_id = x1, cl_question = x2, cl_answer = x3\<rparr>}
      | _ \<Rightarrow> None)"

lemma represents_topic_clarification [represented]:
  "represents (TyRec ''TopicClarification'') topic_clarification_val un_topic_clarification"
  unfolding un_topic_clarification_def
  by (rule represents_record [OF hints_topic_clarification])
    (auto simp: topic_clarification_val_def represented [THEN represents_iff] represented [THEN represents_inv]
      represented [THEN represents_inj] list_all2_Cons2 Option.bind_eq_Some_conv
      represented [THEN represents_fits] split: list.splits)

lemma represents_opt_agent_turn_result [represented]:
  "represents (optional (TyRec ''AgentTurnResult'')) (opt_val agent_turn_result_val) (un_opt un_agent_turn_result)"
  by (rule represents_opt [OF represents_agent_turn_result]) (simp_all add: agent_turn_result_val_def)

lemma represents_opt_current_work_state [represented]:
  "represents (optional (TyRec ''CurrentWorkState'')) (opt_val current_work_state_val) (un_opt un_current_work_state)"
  by (rule represents_opt [OF represents_current_work_state]) (simp_all add: current_work_state_val_def)

lemma represents_opt_lens [represented]:
  "represents (optional (TyEnum ''Lens'')) (opt_val lens_val) (un_opt un_lens)"
  by (rule represents_opt [OF represents_lens]) (simp_all add: lens_val_def)

lemma represents_opt_topic_summary [represented]:
  "represents (optional (TyRec ''TopicSummary'')) (opt_val topic_summary_val) (un_opt un_topic_summary)"
  by (rule represents_opt [OF represents_topic_summary]) (simp_all add: topic_summary_val_def)

lemma hints_topic_run_state:
  "hints_of ''TopicRunState'' = Some
     [(''topic_run_id'', TyStr), (''contract'', TyRec ''TopicContract''),
      (''lifecycle'', TyEnum ''TopicLifecycle''),
      (''evidence_health'', TyEnum ''EvidenceHealth''), (''evidence_digest'', TyStr),
      (''exact_recheck_fingerprint'', optional TyStr),
      (''gates'', TyMany (TyRec ''GateAssessment'')),
      (''learner_model'', TyMany (TyRec ''LearnerModelEntry'')),
      (''current_agent_turn'', optional (TyRec ''AgentTurnResult'')),
      (''work'', optional (TyRec ''CurrentWorkState'')), (''learner_turn_ids'', TyMany TyStr),
      (''last_learner_turn_id'', optional TyStr), (''last_learner_text'', optional TyStr),
      (''current_lens'', optional (TyEnum ''Lens'')),
      (''summary'', optional (TyRec ''TopicSummary''))]"
  by code_simp

definition topic_run_state_val :: "topic_run_state \<Rightarrow> val" where
  "topic_run_state_val x =
     VRec ''TopicRunState''
       [VStr (tr_topic_run_id x), topic_contract_val (tr_contract x),
        topic_lifecycle_val (tr_lifecycle x), evidence_health_val (tr_evidence_health x),
        VStr (tr_evidence_digest x), opt_val VStr (tr_exact_recheck_fingerprint x),
        tuple_val gate_assessment_val (tr_gates x),
        tuple_val learner_model_entry_val (tr_learner_model x),
        opt_val agent_turn_result_val (tr_current_agent_turn x),
        opt_val current_work_state_val (tr_work x), tuple_val VStr (tr_learner_turn_ids x),
        opt_val VStr (tr_last_learner_turn_id x), opt_val VStr (tr_last_learner_text x),
        opt_val lens_val (tr_current_lens x), opt_val topic_summary_val (tr_summary x)]"

definition un_topic_run_state :: "val \<Rightarrow> topic_run_state option" where
  "un_topic_run_state = un_record ''TopicRunState''
     (\<lambda>vs. case vs of
        [v1, v2, v3, v4, v5, v6, v7, v8, v9, v10, v11, v12, v13, v14, v15] \<Rightarrow>
          do {x1 \<leftarrow> un_str v1; x2 \<leftarrow> un_topic_contract v2;
             x3 \<leftarrow> un_topic_lifecycle v3; x4 \<leftarrow> un_evidence_health v4;
             x5 \<leftarrow> un_str v5; x6 \<leftarrow> un_opt un_str v6;
             x7 \<leftarrow> un_tuple un_gate_assessment v7;
             x8 \<leftarrow> un_tuple un_learner_model_entry v8;
             x9 \<leftarrow> un_opt un_agent_turn_result v9;
             x10 \<leftarrow> un_opt un_current_work_state v10;
             x11 \<leftarrow> un_tuple un_str v11; x12 \<leftarrow> un_opt un_str v12;
             x13 \<leftarrow> un_opt un_str v13; x14 \<leftarrow> un_opt un_lens v14;
             x15 \<leftarrow> un_opt un_topic_summary v15;
             Some \<lparr>tr_topic_run_id = x1, tr_contract = x2, tr_lifecycle = x3,
                  tr_evidence_health = x4, tr_evidence_digest = x5,
                  tr_exact_recheck_fingerprint = x6, tr_gates = x7, tr_learner_model = x8,
                  tr_current_agent_turn = x9, tr_work = x10, tr_learner_turn_ids = x11,
                  tr_last_learner_turn_id = x12, tr_last_learner_text = x13,
                  tr_current_lens = x14, tr_summary = x15\<rparr>}
      | _ \<Rightarrow> None)"

lemma represents_topic_run_state [represented]:
  "represents (TyRec ''TopicRunState'') topic_run_state_val un_topic_run_state"
  unfolding un_topic_run_state_def
  by (rule represents_record [OF hints_topic_run_state])
    (auto simp: topic_run_state_val_def represented [THEN represents_iff] represented [THEN represents_inv]
      represented [THEN represents_inj] list_all2_Cons2 Option.bind_eq_Some_conv
      represented [THEN represents_fits] split: list.splits)

lemma hints_export_record:
  "hints_of ''ExportRecord'' = Some
     [(''export_id'', TyStr), (''export_sequence'', TyInt), (''intent_id'', TyStr),
      (''as_of_event_sequence'', TyInt), (''requested_at'', TyStr), (''payload_digest'', TyStr),
      (''status'', TyEnum ''ExportStatus''), (''completed_at'', optional TyStr),
      (''json_path'', optional TyStr), (''json_digest'', optional TyStr),
      (''markdown_path'', optional TyStr), (''markdown_digest'', optional TyStr),
      (''freshness_overlay_digest'', optional TyStr)]"
  by code_simp

definition export_record_val :: "export_record \<Rightarrow> val" where
  "export_record_val x =
     VRec ''ExportRecord''
       [VStr (ex_export_id x), VInt (ex_export_sequence x), VStr (ex_intent_id x),
        VInt (ex_as_of_event_sequence x), VStr (ex_requested_at x), VStr (ex_payload_digest x),
        export_status_val (ex_status x), opt_val VStr (ex_completed_at x),
        opt_val VStr (ex_json_path x), opt_val VStr (ex_json_digest x),
        opt_val VStr (ex_markdown_path x), opt_val VStr (ex_markdown_digest x),
        opt_val VStr (ex_freshness_overlay_digest x)]"

definition un_export_record :: "val \<Rightarrow> export_record option" where
  "un_export_record = un_record ''ExportRecord''
     (\<lambda>vs. case vs of
        [v1, v2, v3, v4, v5, v6, v7, v8, v9, v10, v11, v12, v13] \<Rightarrow>
          do {x1 \<leftarrow> un_str v1; x2 \<leftarrow> un_int v2; x3 \<leftarrow> un_str v3;
             x4 \<leftarrow> un_int v4; x5 \<leftarrow> un_str v5; x6 \<leftarrow> un_str v6;
             x7 \<leftarrow> un_export_status v7; x8 \<leftarrow> un_opt un_str v8;
             x9 \<leftarrow> un_opt un_str v9; x10 \<leftarrow> un_opt un_str v10;
             x11 \<leftarrow> un_opt un_str v11; x12 \<leftarrow> un_opt un_str v12;
             x13 \<leftarrow> un_opt un_str v13;
             Some \<lparr>ex_export_id = x1, ex_export_sequence = x2, ex_intent_id = x3,
                  ex_as_of_event_sequence = x4, ex_requested_at = x5, ex_payload_digest = x6,
                  ex_status = x7, ex_completed_at = x8, ex_json_path = x9, ex_json_digest = x10,
                  ex_markdown_path = x11, ex_markdown_digest = x12,
                  ex_freshness_overlay_digest = x13\<rparr>}
      | _ \<Rightarrow> None)"

lemma represents_export_record [represented]:
  "represents (TyRec ''ExportRecord'') export_record_val un_export_record"
  unfolding un_export_record_def
  by (rule represents_record [OF hints_export_record])
    (auto simp: export_record_val_def represented [THEN represents_iff] represented [THEN represents_inv]
      represented [THEN represents_inj] list_all2_Cons2 Option.bind_eq_Some_conv
      represented [THEN represents_fits] split: list.splits)

lemma represents_opt_topic_run_state [represented]:
  "represents (optional (TyRec ''TopicRunState'')) (opt_val topic_run_state_val) (un_opt un_topic_run_state)"
  by (rule represents_opt [OF represents_topic_run_state]) (simp_all add: topic_run_state_val_def)

lemma represents_many_topic_run_state [represented]:
  "represents (TyMany (TyRec ''TopicRunState'')) (tuple_val topic_run_state_val) (un_tuple un_topic_run_state)"
  by (rule represents_many [OF represents_topic_run_state])

lemma represents_opt_topic_clarification [represented]:
  "represents (optional (TyRec ''TopicClarification'')) (opt_val topic_clarification_val) (un_opt un_topic_clarification)"
  by (rule represents_opt [OF represents_topic_clarification]) (simp_all add: topic_clarification_val_def)

lemma represents_many_export_record [represented]:
  "represents (TyMany (TyRec ''ExportRecord'')) (tuple_val export_record_val) (un_tuple un_export_record)"
  by (rule represents_many [OF represents_export_record])

lemma hints_dialogue_state:
  "hints_of ''DialogueState'' = Some
     [(''session_id'', TyStr), (''registry_generation'', TyInt), (''sequence'', TyInt),
      (''conversation_version'', TyInt), (''lifecycle'', TyEnum ''SessionLifecycle''),
      (''phase'', TyEnum ''ConversationPhase''), (''candidates'', TyMany TyStr),
      (''session_work'', optional (TyRec ''CurrentWorkState'')),
      (''active_topic'', optional (TyRec ''TopicRunState'')),
      (''paused_topics'', TyMany (TyRec ''TopicRunState'')),
      (''selected_candidate'', optional TyStr),
      (''topic_clarification'', optional (TyRec ''TopicClarification'')),
      (''completed_topics'', TyMany (TyRec ''TopicRunState'')),
      (''exports'', TyMany (TyRec ''ExportRecord''))]"
  by code_simp

definition dialogue_state_val :: "dialogue_state \<Rightarrow> val" where
  "dialogue_state_val x =
     VRec ''DialogueState''
       [VStr (session_id x), VInt (registry_generation x), VInt (sequence x),
        VInt (conversation_version x), session_lifecycle_val (lifecycle x),
        conversation_phase_val (phase x), tuple_val VStr (candidates x),
        opt_val current_work_state_val (session_work x),
        opt_val topic_run_state_val (active_topic x),
        tuple_val topic_run_state_val (paused_topics x),
        opt_val VStr (selected_candidate x),
        opt_val topic_clarification_val (topic_clarification x),
        tuple_val topic_run_state_val (completed_topics x),
        tuple_val export_record_val (exports x)]"

definition un_dialogue_state :: "val \<Rightarrow> dialogue_state option" where
  "un_dialogue_state = un_record ''DialogueState''
     (\<lambda>vs. case vs of
        [v1, v2, v3, v4, v5, v6, v7, v8, v9, v10, v11, v12, v13, v14] \<Rightarrow>
          do {x1 \<leftarrow> un_str v1; x2 \<leftarrow> un_int v2; x3 \<leftarrow> un_int v3;
             x4 \<leftarrow> un_int v4; x5 \<leftarrow> un_session_lifecycle v5;
             x6 \<leftarrow> un_conversation_phase v6; x7 \<leftarrow> un_tuple un_str v7;
             x8 \<leftarrow> un_opt un_current_work_state v8;
             x9 \<leftarrow> un_opt un_topic_run_state v9;
             x10 \<leftarrow> un_tuple un_topic_run_state v10;
             x11 \<leftarrow> un_opt un_str v11;
             x12 \<leftarrow> un_opt un_topic_clarification v12;
             x13 \<leftarrow> un_tuple un_topic_run_state v13;
             x14 \<leftarrow> un_tuple un_export_record v14;
             Some \<lparr>session_id = x1, registry_generation = x2, sequence = x3,
                  conversation_version = x4, lifecycle = x5, phase = x6, candidates = x7,
                  session_work = x8, active_topic = x9, paused_topics = x10,
                  selected_candidate = x11, topic_clarification = x12, completed_topics = x13,
                  exports = x14\<rparr>}
      | _ \<Rightarrow> None)"

lemma represents_dialogue_state [represented]:
  "represents (TyRec ''DialogueState'') dialogue_state_val un_dialogue_state"
  unfolding un_dialogue_state_def
  by (rule represents_record [OF hints_dialogue_state])
    (auto simp: dialogue_state_val_def represented [THEN represents_iff] represented [THEN represents_inv]
      represented [THEN represents_inj] list_all2_Cons2 Option.bind_eq_Some_conv
      represented [THEN represents_fits] split: list.splits)

end
