(* ===== verification/Event_Values.thy ===== *)
theory Event_Values
  imports Domain_Values
begin

text \<open>
  Events and commands as values of the codec: one variant of the payload union per class of event,
  the committed event, and the commands, which are only encoded (for the digest of a request).
\<close>

section \<open>Event payloads\<close>

lemma represents_opt_int [represented]:
  "represents (optional TyInt) (opt_val VInt) (un_opt un_int)"
  by (rule represents_opt [OF represents_int]) simp_all

fun payload_val :: "dialogue_event_payload \<Rightarrow> val" where
  "payload_val (SessionStarted x1) =
     VRec ''SessionStarted'' [trigger_binding_val x1]"
| "payload_val (CandidatesPresented x1 x2) =
     VRec ''CandidatesPresented'' [tuple_val VStr x1, trigger_binding_val x2]"
| "payload_val (TopicSelectionSubmitted x1 x2) =
     VRec ''TopicSelectionSubmitted'' [VStr x1, trigger_binding_val x2]"
| "payload_val (TopicClarificationRequested x1 x2 x3) =
     VRec ''TopicClarificationRequested'' [VStr x1, VStr x2, trigger_binding_val x3]"
| "payload_val (TopicClarificationAnswered x1 x2 x3) =
     VRec ''TopicClarificationAnswered'' [VStr x1, VStr x2, trigger_binding_val x3]"
| "payload_val (LensChanged x1 x2 x3) =
     VRec ''LensChanged'' [VStr x1, lens_val x2, trigger_binding_val x3]"
| "payload_val (HelpRequested x1 x2 x3) =
     VRec ''HelpRequested'' [VStr x1, VStr x2, trigger_binding_val x3]"
| "payload_val (TopicCompleted x1 x2 x3 x4 x5 x6) =
     VRec ''TopicCompleted'' [VStr x1, topic_summary_val x2, trigger_binding_val x3, evidence_check_val x4, VInt x5,
       VStr x6]"
| "payload_val (TopicStarted x1 x2 x3 x4 x5) =
     VRec ''TopicStarted'' [topic_contract_val x1, evidence_check_val x2, trigger_binding_val x3, opt_val VStr x4,
       opt_val trigger_binding_val x5]"
| "payload_val (AgentTurnCommitted x1 x2 x3) =
     VRec ''AgentTurnCommitted'' [agent_turn_result_val x1, trigger_binding_val x2, evidence_check_val x3]"
| "payload_val (LearnerTurnSubmitted x1 x2 x3 x4) =
     VRec ''LearnerTurnSubmitted'' [VStr x1, VStr x2, VStr x3, trigger_binding_val x4]"
| "payload_val (TopicPaused x1 x2 x3 x4) =
     VRec ''TopicPaused'' [VStr x1, pause_cause_val x2, opt_val VStr x3, opt_val VInt x4]"
| "payload_val (TopicSwitchRequested x1 x2) =
     VRec ''TopicSwitchRequested'' [VStr x1, trigger_binding_val x2]"
| "payload_val (TopicExplorationRequested x1) =
     VRec ''TopicExplorationRequested'' [trigger_binding_val x1]"
| "payload_val (SessionDeactivationPrepared x1 x2 x3) =
     VRec ''SessionDeactivationPrepared'' [VStr x1, VInt x2, opt_val trigger_binding_val x3]"
| "payload_val (TopicResumed x1 x2 x3 x4) =
     VRec ''TopicResumed'' [VStr x1, VBool x2, opt_val trigger_binding_val x3, evidence_check_val x4]"
| "payload_val (WorkFailed x1 x2 x3 x4) =
     VRec ''WorkFailed'' [VStr x1, trigger_binding_val x2, VInt x3, work_failure_val x4]"
| "payload_val (WorkRequeued x1 x2 x3 x4 x5 x6) =
     VRec ''WorkRequeued'' [VStr x1, trigger_binding_val x2, VInt x3, work_failure_val x4, trigger_binding_val x5,
       VInt x6]"
| "payload_val (WorkDeadLettered x1 x2 x3 x4 x5) =
     VRec ''WorkDeadLettered'' [VStr x1, trigger_binding_val x2, VInt x3, work_failure_val x4,
       tuple_val work_recovery_action_val x5]"
| "payload_val (WorkRecoveryRequested x1 x2 x3 x4) =
     VRec ''WorkRecoveryRequested'' [VStr x1, work_recovery_action_val x2, trigger_binding_val x3, evidence_check_val x4]"
| "payload_val (ExportRequested x1 x2 x3 x4 x5 x6) =
     VRec ''ExportRequested'' [VStr x1, VInt x2, VStr x3, VInt x4, VStr x5, VStr x6]"
| "payload_val (ExportCompleted x1 x2 x3 x4 x5 x6 x7 x8 x9) =
     VRec ''ExportCompleted'' [VStr x1, VInt x2, VStr x3, VStr x4, VStr x5, VStr x6, VStr x7, VStr x8, VStr x9]"

named_theorems variants \<open>the variants of the payload union\<close>

lemmas payload_reads = represented [THEN represents_iff] represented [THEN represents_inv]
  represented [THEN represents_inj] represented [THEN represents_fits] list_all2_Cons2
  Option.bind_eq_Some_conv

lemma hints_session_started:
  "hints_of ''SessionStarted'' = Some
     [(''candidate_trigger'', TyRec ''TriggerBinding'')]"
  by code_simp

definition un_session_started :: "val list \<Rightarrow> dialogue_event_payload option" where
  "un_session_started vs =
     (case vs of
        [v1] \<Rightarrow>
          do {x1 \<leftarrow> un_trigger_binding v1;
              Some (SessionStarted x1)}
      | _ \<Rightarrow> None)"

lemma variant_session_started [variants]:
  "reads_variant payload_val ''SessionStarted'' un_session_started"
  by (rule reads_variantI [OF hints_session_started])
    (auto simp: un_session_started_def payload_reads elim!: payload_val.elims split: list.splits)

lemma hints_candidates_presented:
  "hints_of ''CandidatesPresented'' = Some
     [(''candidates'', TyMany TyStr), (''trigger'', TyRec ''TriggerBinding'')]"
  by code_simp

definition un_candidates_presented :: "val list \<Rightarrow> dialogue_event_payload option" where
  "un_candidates_presented vs =
     (case vs of
        [v1, v2] \<Rightarrow>
          do {x1 \<leftarrow> un_tuple un_str v1; x2 \<leftarrow> un_trigger_binding v2;
              Some (CandidatesPresented x1 x2)}
      | _ \<Rightarrow> None)"

lemma variant_candidates_presented [variants]:
  "reads_variant payload_val ''CandidatesPresented'' un_candidates_presented"
  by (rule reads_variantI [OF hints_candidates_presented])
    (auto simp: un_candidates_presented_def payload_reads elim!: payload_val.elims split: list.splits)

lemma hints_topic_selection_submitted:
  "hints_of ''TopicSelectionSubmitted'' = Some
     [(''candidate'', TyStr), (''next_trigger'', TyRec ''TriggerBinding'')]"
  by code_simp

definition un_topic_selection_submitted :: "val list \<Rightarrow> dialogue_event_payload option" where
  "un_topic_selection_submitted vs =
     (case vs of
        [v1, v2] \<Rightarrow>
          do {x1 \<leftarrow> un_str v1; x2 \<leftarrow> un_trigger_binding v2;
              Some (TopicSelectionSubmitted x1 x2)}
      | _ \<Rightarrow> None)"

lemma variant_topic_selection_submitted [variants]:
  "reads_variant payload_val ''TopicSelectionSubmitted'' un_topic_selection_submitted"
  by (rule reads_variantI [OF hints_topic_selection_submitted])
    (auto simp: un_topic_selection_submitted_def payload_reads elim!: payload_val.elims split: list.splits)

lemma hints_topic_clarification_requested:
  "hints_of ''TopicClarificationRequested'' = Some
     [(''question_id'', TyStr), (''question'', TyStr),
      (''selection_trigger'', TyRec ''TriggerBinding'')]"
  by code_simp

definition un_topic_clarification_requested :: "val list \<Rightarrow> dialogue_event_payload option" where
  "un_topic_clarification_requested vs =
     (case vs of
        [v1, v2, v3] \<Rightarrow>
          do {x1 \<leftarrow> un_str v1; x2 \<leftarrow> un_str v2;
              x3 \<leftarrow> un_trigger_binding v3;
              Some (TopicClarificationRequested x1 x2 x3)}
      | _ \<Rightarrow> None)"

lemma variant_topic_clarification_requested [variants]:
  "reads_variant payload_val ''TopicClarificationRequested'' un_topic_clarification_requested"
  by (rule reads_variantI [OF hints_topic_clarification_requested])
    (auto simp: un_topic_clarification_requested_def payload_reads elim!: payload_val.elims split: list.splits)

lemma hints_topic_clarification_answered:
  "hints_of ''TopicClarificationAnswered'' = Some
     [(''question_id'', TyStr), (''answer'', TyStr),
      (''next_trigger'', TyRec ''TriggerBinding'')]"
  by code_simp

definition un_topic_clarification_answered :: "val list \<Rightarrow> dialogue_event_payload option" where
  "un_topic_clarification_answered vs =
     (case vs of
        [v1, v2, v3] \<Rightarrow>
          do {x1 \<leftarrow> un_str v1; x2 \<leftarrow> un_str v2;
              x3 \<leftarrow> un_trigger_binding v3;
              Some (TopicClarificationAnswered x1 x2 x3)}
      | _ \<Rightarrow> None)"

lemma variant_topic_clarification_answered [variants]:
  "reads_variant payload_val ''TopicClarificationAnswered'' un_topic_clarification_answered"
  by (rule reads_variantI [OF hints_topic_clarification_answered])
    (auto simp: un_topic_clarification_answered_def payload_reads elim!: payload_val.elims split: list.splits)

lemma hints_lens_changed:
  "hints_of ''LensChanged'' = Some
     [(''topic_run_id'', TyStr), (''lens'', TyEnum ''Lens''),
      (''next_trigger'', TyRec ''TriggerBinding'')]"
  by code_simp

definition un_lens_changed :: "val list \<Rightarrow> dialogue_event_payload option" where
  "un_lens_changed vs =
     (case vs of
        [v1, v2, v3] \<Rightarrow>
          do {x1 \<leftarrow> un_str v1; x2 \<leftarrow> un_lens v2;
              x3 \<leftarrow> un_trigger_binding v3;
              Some (LensChanged x1 x2 x3)}
      | _ \<Rightarrow> None)"

lemma variant_lens_changed [variants]:
  "reads_variant payload_val ''LensChanged'' un_lens_changed"
  by (rule reads_variantI [OF hints_lens_changed])
    (auto simp: un_lens_changed_def payload_reads elim!: payload_val.elims split: list.splits)

lemma hints_help_requested:
  "hints_of ''HelpRequested'' = Some
     [(''topic_run_id'', TyStr), (''question_id'', TyStr),
      (''next_trigger'', TyRec ''TriggerBinding'')]"
  by code_simp

definition un_help_requested :: "val list \<Rightarrow> dialogue_event_payload option" where
  "un_help_requested vs =
     (case vs of
        [v1, v2, v3] \<Rightarrow>
          do {x1 \<leftarrow> un_str v1; x2 \<leftarrow> un_str v2;
              x3 \<leftarrow> un_trigger_binding v3;
              Some (HelpRequested x1 x2 x3)}
      | _ \<Rightarrow> None)"

lemma variant_help_requested [variants]:
  "reads_variant payload_val ''HelpRequested'' un_help_requested"
  by (rule reads_variantI [OF hints_help_requested])
    (auto simp: un_help_requested_def payload_reads elim!: payload_val.elims split: list.splits)

lemma hints_topic_completed:
  "hints_of ''TopicCompleted'' = Some
     [(''topic_run_id'', TyStr), (''summary'', TyRec ''TopicSummary''),
      (''trigger'', TyRec ''TriggerBinding''), (''evidence'', TyRec ''EvidenceCheck''),
      (''as_of_sequence'', TyInt), (''evidence_fingerprint'', TyStr)]"
  by code_simp

definition un_topic_completed :: "val list \<Rightarrow> dialogue_event_payload option" where
  "un_topic_completed vs =
     (case vs of
        [v1, v2, v3, v4, v5, v6] \<Rightarrow>
          do {x1 \<leftarrow> un_str v1; x2 \<leftarrow> un_topic_summary v2;
              x3 \<leftarrow> un_trigger_binding v3; x4 \<leftarrow> un_evidence_check v4;
              x5 \<leftarrow> un_int v5; x6 \<leftarrow> un_str v6;
              Some (TopicCompleted x1 x2 x3 x4 x5 x6)}
      | _ \<Rightarrow> None)"

lemma variant_topic_completed [variants]:
  "reads_variant payload_val ''TopicCompleted'' un_topic_completed"
  by (rule reads_variantI [OF hints_topic_completed])
    (auto simp: un_topic_completed_def payload_reads elim!: payload_val.elims split: list.splits)

lemma hints_topic_started:
  "hints_of ''TopicStarted'' = Some
     [(''contract'', TyRec ''TopicContract''), (''evidence'', TyRec ''EvidenceCheck''),
      (''initial_trigger'', TyRec ''TriggerBinding''),
      (''selected_candidate'', optional TyStr),
      (''selection_trigger'', optional (TyRec ''TriggerBinding''))]"
  by code_simp

definition un_topic_started :: "val list \<Rightarrow> dialogue_event_payload option" where
  "un_topic_started vs =
     (case vs of
        [v1, v2, v3, v4, v5] \<Rightarrow>
          do {x1 \<leftarrow> un_topic_contract v1; x2 \<leftarrow> un_evidence_check v2;
              x3 \<leftarrow> un_trigger_binding v3; x4 \<leftarrow> un_opt un_str v4;
              x5 \<leftarrow> un_opt un_trigger_binding v5;
              Some (TopicStarted x1 x2 x3 x4 x5)}
      | _ \<Rightarrow> None)"

lemma variant_topic_started [variants]:
  "reads_variant payload_val ''TopicStarted'' un_topic_started"
  by (rule reads_variantI [OF hints_topic_started])
    (auto simp: un_topic_started_def payload_reads elim!: payload_val.elims split: list.splits)

lemma hints_agent_turn_committed:
  "hints_of ''AgentTurnCommitted'' = Some
     [(''result'', TyRec ''AgentTurnResult''), (''trigger'', TyRec ''TriggerBinding''),
      (''evidence'', TyRec ''EvidenceCheck'')]"
  by code_simp

definition un_agent_turn_committed :: "val list \<Rightarrow> dialogue_event_payload option" where
  "un_agent_turn_committed vs =
     (case vs of
        [v1, v2, v3] \<Rightarrow>
          do {x1 \<leftarrow> un_agent_turn_result v1; x2 \<leftarrow> un_trigger_binding v2;
              x3 \<leftarrow> un_evidence_check v3;
              Some (AgentTurnCommitted x1 x2 x3)}
      | _ \<Rightarrow> None)"

lemma variant_agent_turn_committed [variants]:
  "reads_variant payload_val ''AgentTurnCommitted'' un_agent_turn_committed"
  by (rule reads_variantI [OF hints_agent_turn_committed])
    (auto simp: un_agent_turn_committed_def payload_reads elim!: payload_val.elims split: list.splits)

lemma hints_learner_turn_submitted:
  "hints_of ''LearnerTurnSubmitted'' = Some
     [(''question_id'', TyStr), (''learner_turn_id'', TyStr), (''text'', TyStr),
      (''next_trigger'', TyRec ''TriggerBinding'')]"
  by code_simp

definition un_learner_turn_submitted :: "val list \<Rightarrow> dialogue_event_payload option" where
  "un_learner_turn_submitted vs =
     (case vs of
        [v1, v2, v3, v4] \<Rightarrow>
          do {x1 \<leftarrow> un_str v1; x2 \<leftarrow> un_str v2; x3 \<leftarrow> un_str v3;
              x4 \<leftarrow> un_trigger_binding v4;
              Some (LearnerTurnSubmitted x1 x2 x3 x4)}
      | _ \<Rightarrow> None)"

lemma variant_learner_turn_submitted [variants]:
  "reads_variant payload_val ''LearnerTurnSubmitted'' un_learner_turn_submitted"
  by (rule reads_variantI [OF hints_learner_turn_submitted])
    (auto simp: un_learner_turn_submitted_def payload_reads elim!: payload_val.elims split: list.splits)

lemma hints_topic_paused:
  "hints_of ''TopicPaused'' = Some
     [(''topic_run_id'', TyStr), (''cause'', TyEnum ''PauseCause''),
      (''handoff_id'', optional TyStr), (''fence_generation'', optional TyInt)]"
  by code_simp

definition un_topic_paused :: "val list \<Rightarrow> dialogue_event_payload option" where
  "un_topic_paused vs =
     (case vs of
        [v1, v2, v3, v4] \<Rightarrow>
          do {x1 \<leftarrow> un_str v1; x2 \<leftarrow> un_pause_cause v2;
              x3 \<leftarrow> un_opt un_str v3; x4 \<leftarrow> un_opt un_int v4;
              Some (TopicPaused x1 x2 x3 x4)}
      | _ \<Rightarrow> None)"

lemma variant_topic_paused [variants]:
  "reads_variant payload_val ''TopicPaused'' un_topic_paused"
  by (rule reads_variantI [OF hints_topic_paused])
    (auto simp: un_topic_paused_def payload_reads elim!: payload_val.elims split: list.splits)

lemma hints_topic_switch_requested:
  "hints_of ''TopicSwitchRequested'' = Some
     [(''topic_run_id'', TyStr), (''candidate_trigger'', TyRec ''TriggerBinding'')]"
  by code_simp

definition un_topic_switch_requested :: "val list \<Rightarrow> dialogue_event_payload option" where
  "un_topic_switch_requested vs =
     (case vs of
        [v1, v2] \<Rightarrow>
          do {x1 \<leftarrow> un_str v1; x2 \<leftarrow> un_trigger_binding v2;
              Some (TopicSwitchRequested x1 x2)}
      | _ \<Rightarrow> None)"

lemma variant_topic_switch_requested [variants]:
  "reads_variant payload_val ''TopicSwitchRequested'' un_topic_switch_requested"
  by (rule reads_variantI [OF hints_topic_switch_requested])
    (auto simp: un_topic_switch_requested_def payload_reads elim!: payload_val.elims split: list.splits)

lemma hints_topic_exploration_requested:
  "hints_of ''TopicExplorationRequested'' = Some
     [(''candidate_trigger'', TyRec ''TriggerBinding'')]"
  by code_simp

definition un_topic_exploration_requested :: "val list \<Rightarrow> dialogue_event_payload option" where
  "un_topic_exploration_requested vs =
     (case vs of
        [v1] \<Rightarrow>
          do {x1 \<leftarrow> un_trigger_binding v1;
              Some (TopicExplorationRequested x1)}
      | _ \<Rightarrow> None)"

lemma variant_topic_exploration_requested [variants]:
  "reads_variant payload_val ''TopicExplorationRequested'' un_topic_exploration_requested"
  by (rule reads_variantI [OF hints_topic_exploration_requested])
    (auto simp: un_topic_exploration_requested_def payload_reads elim!: payload_val.elims split: list.splits)

lemma hints_session_deactivation_prepared:
  "hints_of ''SessionDeactivationPrepared'' = Some
     [(''handoff_id'', TyStr), (''fence_generation'', TyInt),
      (''superseded_trigger'', optional (TyRec ''TriggerBinding''))]"
  by code_simp

definition un_session_deactivation_prepared :: "val list \<Rightarrow> dialogue_event_payload option" where
  "un_session_deactivation_prepared vs =
     (case vs of
        [v1, v2, v3] \<Rightarrow>
          do {x1 \<leftarrow> un_str v1; x2 \<leftarrow> un_int v2;
              x3 \<leftarrow> un_opt un_trigger_binding v3;
              Some (SessionDeactivationPrepared x1 x2 x3)}
      | _ \<Rightarrow> None)"

lemma variant_session_deactivation_prepared [variants]:
  "reads_variant payload_val ''SessionDeactivationPrepared'' un_session_deactivation_prepared"
  by (rule reads_variantI [OF hints_session_deactivation_prepared])
    (auto simp: un_session_deactivation_prepared_def payload_reads elim!: payload_val.elims split: list.splits)

lemma hints_topic_resumed:
  "hints_of ''TopicResumed'' = Some
     [(''topic_run_id'', TyStr), (''requires_reground'', TyBool),
      (''resumed_trigger'', optional (TyRec ''TriggerBinding'')),
      (''evidence'', TyRec ''EvidenceCheck'')]"
  by code_simp

definition un_topic_resumed :: "val list \<Rightarrow> dialogue_event_payload option" where
  "un_topic_resumed vs =
     (case vs of
        [v1, v2, v3, v4] \<Rightarrow>
          do {x1 \<leftarrow> un_str v1; x2 \<leftarrow> un_bool v2;
              x3 \<leftarrow> un_opt un_trigger_binding v3; x4 \<leftarrow> un_evidence_check v4;
              Some (TopicResumed x1 x2 x3 x4)}
      | _ \<Rightarrow> None)"

lemma variant_topic_resumed [variants]:
  "reads_variant payload_val ''TopicResumed'' un_topic_resumed"
  by (rule reads_variantI [OF hints_topic_resumed])
    (auto simp: un_topic_resumed_def payload_reads elim!: payload_val.elims split: list.splits)

lemma hints_work_failed:
  "hints_of ''WorkFailed'' = Some
     [(''work_id'', TyStr), (''trigger'', TyRec ''TriggerBinding''), (''attempt'', TyInt),
      (''failure'', TyRec ''WorkFailure'')]"
  by code_simp

definition un_work_failed :: "val list \<Rightarrow> dialogue_event_payload option" where
  "un_work_failed vs =
     (case vs of
        [v1, v2, v3, v4] \<Rightarrow>
          do {x1 \<leftarrow> un_str v1; x2 \<leftarrow> un_trigger_binding v2;
              x3 \<leftarrow> un_int v3; x4 \<leftarrow> un_work_failure v4;
              Some (WorkFailed x1 x2 x3 x4)}
      | _ \<Rightarrow> None)"

lemma variant_work_failed [variants]:
  "reads_variant payload_val ''WorkFailed'' un_work_failed"
  by (rule reads_variantI [OF hints_work_failed])
    (auto simp: un_work_failed_def payload_reads elim!: payload_val.elims split: list.splits)

lemma hints_work_requeued:
  "hints_of ''WorkRequeued'' = Some
     [(''failed_work_id'', TyStr), (''failed_trigger'', TyRec ''TriggerBinding''),
      (''failed_attempt'', TyInt), (''failure'', TyRec ''WorkFailure''),
      (''next_trigger'', TyRec ''TriggerBinding''), (''next_attempt'', TyInt)]"
  by code_simp

definition un_work_requeued :: "val list \<Rightarrow> dialogue_event_payload option" where
  "un_work_requeued vs =
     (case vs of
        [v1, v2, v3, v4, v5, v6] \<Rightarrow>
          do {x1 \<leftarrow> un_str v1; x2 \<leftarrow> un_trigger_binding v2;
              x3 \<leftarrow> un_int v3; x4 \<leftarrow> un_work_failure v4;
              x5 \<leftarrow> un_trigger_binding v5; x6 \<leftarrow> un_int v6;
              Some (WorkRequeued x1 x2 x3 x4 x5 x6)}
      | _ \<Rightarrow> None)"

lemma variant_work_requeued [variants]:
  "reads_variant payload_val ''WorkRequeued'' un_work_requeued"
  by (rule reads_variantI [OF hints_work_requeued])
    (auto simp: un_work_requeued_def payload_reads elim!: payload_val.elims split: list.splits)

lemma hints_work_dead_lettered:
  "hints_of ''WorkDeadLettered'' = Some
     [(''failed_work_id'', TyStr), (''failed_trigger'', TyRec ''TriggerBinding''),
      (''failed_attempt'', TyInt), (''failure'', TyRec ''WorkFailure''),
      (''allowed_actions'', TyMany (TyEnum ''WorkRecoveryAction''))]"
  by code_simp

definition un_work_dead_lettered :: "val list \<Rightarrow> dialogue_event_payload option" where
  "un_work_dead_lettered vs =
     (case vs of
        [v1, v2, v3, v4, v5] \<Rightarrow>
          do {x1 \<leftarrow> un_str v1; x2 \<leftarrow> un_trigger_binding v2;
              x3 \<leftarrow> un_int v3; x4 \<leftarrow> un_work_failure v4;
              x5 \<leftarrow> un_tuple un_work_recovery_action v5;
              Some (WorkDeadLettered x1 x2 x3 x4 x5)}
      | _ \<Rightarrow> None)"

lemma variant_work_dead_lettered [variants]:
  "reads_variant payload_val ''WorkDeadLettered'' un_work_dead_lettered"
  by (rule reads_variantI [OF hints_work_dead_lettered])
    (auto simp: un_work_dead_lettered_def payload_reads elim!: payload_val.elims split: list.splits)

lemma hints_work_recovery_requested:
  "hints_of ''WorkRecoveryRequested'' = Some
     [(''dead_work_id'', TyStr), (''action'', TyEnum ''WorkRecoveryAction''),
      (''next_trigger'', TyRec ''TriggerBinding''), (''evidence'', TyRec ''EvidenceCheck'')]"
  by code_simp

definition un_work_recovery_requested :: "val list \<Rightarrow> dialogue_event_payload option" where
  "un_work_recovery_requested vs =
     (case vs of
        [v1, v2, v3, v4] \<Rightarrow>
          do {x1 \<leftarrow> un_str v1; x2 \<leftarrow> un_work_recovery_action v2;
              x3 \<leftarrow> un_trigger_binding v3; x4 \<leftarrow> un_evidence_check v4;
              Some (WorkRecoveryRequested x1 x2 x3 x4)}
      | _ \<Rightarrow> None)"

lemma variant_work_recovery_requested [variants]:
  "reads_variant payload_val ''WorkRecoveryRequested'' un_work_recovery_requested"
  by (rule reads_variantI [OF hints_work_recovery_requested])
    (auto simp: un_work_recovery_requested_def payload_reads elim!: payload_val.elims split: list.splits)

lemma hints_export_requested:
  "hints_of ''ExportRequested'' = Some
     [(''export_id'', TyStr), (''export_sequence'', TyInt), (''intent_id'', TyStr),
      (''as_of_event_sequence'', TyInt), (''requested_at'', TyStr), (''payload_digest'', TyStr)]"
  by code_simp

definition un_export_requested :: "val list \<Rightarrow> dialogue_event_payload option" where
  "un_export_requested vs =
     (case vs of
        [v1, v2, v3, v4, v5, v6] \<Rightarrow>
          do {x1 \<leftarrow> un_str v1; x2 \<leftarrow> un_int v2; x3 \<leftarrow> un_str v3;
              x4 \<leftarrow> un_int v4; x5 \<leftarrow> un_str v5; x6 \<leftarrow> un_str v6;
              Some (ExportRequested x1 x2 x3 x4 x5 x6)}
      | _ \<Rightarrow> None)"

lemma variant_export_requested [variants]:
  "reads_variant payload_val ''ExportRequested'' un_export_requested"
  by (rule reads_variantI [OF hints_export_requested])
    (auto simp: un_export_requested_def payload_reads elim!: payload_val.elims split: list.splits)

lemma hints_export_completed:
  "hints_of ''ExportCompleted'' = Some
     [(''export_id'', TyStr), (''export_sequence'', TyInt), (''intent_id'', TyStr),
      (''completed_at'', TyStr), (''json_path'', TyStr), (''json_digest'', TyStr),
      (''markdown_path'', TyStr), (''markdown_digest'', TyStr),
      (''freshness_overlay_digest'', TyStr)]"
  by code_simp

definition un_export_completed :: "val list \<Rightarrow> dialogue_event_payload option" where
  "un_export_completed vs =
     (case vs of
        [v1, v2, v3, v4, v5, v6, v7, v8, v9] \<Rightarrow>
          do {x1 \<leftarrow> un_str v1; x2 \<leftarrow> un_int v2; x3 \<leftarrow> un_str v3;
              x4 \<leftarrow> un_str v4; x5 \<leftarrow> un_str v5; x6 \<leftarrow> un_str v6;
              x7 \<leftarrow> un_str v7; x8 \<leftarrow> un_str v8; x9 \<leftarrow> un_str v9;
              Some (ExportCompleted x1 x2 x3 x4 x5 x6 x7 x8 x9)}
      | _ \<Rightarrow> None)"

lemma variant_export_completed [variants]:
  "reads_variant payload_val ''ExportCompleted'' un_export_completed"
  by (rule reads_variantI [OF hints_export_completed])
    (auto simp: un_export_completed_def payload_reads elim!: payload_val.elims split: list.splits)

definition payload_readers :: "(string \<times> (val list \<Rightarrow> dialogue_event_payload option)) list" where
  "payload_readers =
     [(''SessionStarted'', un_session_started),
      (''CandidatesPresented'', un_candidates_presented),
      (''TopicSelectionSubmitted'', un_topic_selection_submitted),
      (''TopicClarificationRequested'', un_topic_clarification_requested),
      (''TopicClarificationAnswered'', un_topic_clarification_answered),
      (''LensChanged'', un_lens_changed), (''HelpRequested'', un_help_requested),
      (''TopicCompleted'', un_topic_completed), (''TopicStarted'', un_topic_started),
      (''AgentTurnCommitted'', un_agent_turn_committed),
      (''LearnerTurnSubmitted'', un_learner_turn_submitted), (''TopicPaused'', un_topic_paused),
      (''TopicSwitchRequested'', un_topic_switch_requested),
      (''TopicExplorationRequested'', un_topic_exploration_requested),
      (''SessionDeactivationPrepared'', un_session_deactivation_prepared),
      (''TopicResumed'', un_topic_resumed), (''WorkFailed'', un_work_failed),
      (''WorkRequeued'', un_work_requeued), (''WorkDeadLettered'', un_work_dead_lettered),
      (''WorkRecoveryRequested'', un_work_recovery_requested),
      (''ExportRequested'', un_export_requested), (''ExportCompleted'', un_export_completed)]"

definition un_payload :: "val \<Rightarrow> dialogue_event_payload option" where
  "un_payload = un_union payload_readers"

lemma represents_payload [represented]:
  "represents (TyUnion (map TyRec payload_types)) payload_val un_payload"
proof -
  have "\<exists>n vs. n \<in> set (map fst payload_readers) \<and> payload_val x = VRec n vs" for x
    by (cases x) (simp_all add: payload_readers_def)
  moreover have "list_all (\<lambda>(n, un). reads_variant payload_val n un) payload_readers"
    by (simp add: payload_readers_def variants)
  moreover have "map fst payload_readers = payload_types"
    by (simp add: payload_readers_def payload_types_def)
  moreover have "distinct payload_types" by (simp add: payload_types_def)
  ultimately show ?thesis unfolding un_payload_def using represents_union by metis
qed

lemma hints_committed_dialogue_event:
  "hints_of ''CommittedDialogueEvent'' = Some
     [(''event_id'', TyStr), (''sequence'', TyInt), (''from_version'', TyInt),
      (''to_version'', TyInt), (''command_id'', TyStr),
      (''payload'', TyUnion (map TyRec payload_types))]"
  by code_simp

definition committed_dialogue_event_val :: "committed_dialogue_event \<Rightarrow> val" where
  "committed_dialogue_event_val x =
     VRec ''CommittedDialogueEvent''
       [VStr (ce_event_id x), VInt (ce_sequence x), VInt (ce_from_version x),
        VInt (ce_to_version x), VStr (ce_command_id x), payload_val (ce_payload x)]"

definition un_committed_dialogue_event :: "val \<Rightarrow> committed_dialogue_event option" where
  "un_committed_dialogue_event = un_record ''CommittedDialogueEvent''
     (\<lambda>vs. case vs of
        [v1, v2, v3, v4, v5, v6] \<Rightarrow>
          do {x1 \<leftarrow> un_str v1; x2 \<leftarrow> un_int v2; x3 \<leftarrow> un_int v3;
             x4 \<leftarrow> un_int v4; x5 \<leftarrow> un_str v5; x6 \<leftarrow> un_payload v6;
             Some \<lparr>ce_event_id = x1, ce_sequence = x2, ce_from_version = x3, ce_to_version = x4,
                  ce_command_id = x5, ce_payload = x6\<rparr>}
      | _ \<Rightarrow> None)"

lemma represents_committed_dialogue_event [represented]:
  "represents (TyRec ''CommittedDialogueEvent'') committed_dialogue_event_val un_committed_dialogue_event"
  unfolding un_committed_dialogue_event_def
  by (rule represents_record [OF hints_committed_dialogue_event])
    (auto simp: committed_dialogue_event_val_def represented [THEN represents_iff] represented [THEN represents_inv]
      represented [THEN represents_inj] list_all2_Cons2 Option.bind_eq_Some_conv
      represented [THEN represents_fits] split: list.splits)

section \<open>Commands\<close>

text \<open>Commands are only encoded, for the digest of a request.\<close>

fun command_val :: "dialogue_command \<Rightarrow> val" where
  "command_val (StartSession x1) =
     VRec ''StartSession'' [VStr x1]"
| "command_val (PresentCandidates x1 x2) =
     VRec ''PresentCandidates'' [VStr x1, tuple_val VStr x2]"
| "command_val (SelectTopic x1 x2) =
     VRec ''SelectTopic'' [VStr x1, VStr x2]"
| "command_val (SubmitCustomTopic x1 x2) =
     VRec ''SubmitCustomTopic'' [VStr x1, VStr x2]"
| "command_val (RequestTopicClarification x1 x2 x3) =
     VRec ''RequestTopicClarification'' [VStr x1, VStr x2, VStr x3]"
| "command_val (AnswerTopicClarification x1 x2 x3) =
     VRec ''AnswerTopicClarification'' [VStr x1, VStr x2, VStr x3]"
| "command_val (SetLens x1 x2) =
     VRec ''SetLens'' [VStr x1, lens_val x2]"
| "command_val (RequestHelp x1 x2) =
     VRec ''RequestHelp'' [VStr x1, VStr x2]"
| "command_val (CompleteTopic x1 x2) =
     VRec ''CompleteTopic'' [VStr x1, topic_summary_val x2]"
| "command_val (StartTopic x1 x2 x3) =
     VRec ''StartTopic'' [VStr x1, topic_contract_val x2, opt_val VStr x3]"
| "command_val (CommitAgentTurn x1 x2) =
     VRec ''CommitAgentTurn'' [VStr x1, agent_turn_result_val x2]"
| "command_val (SubmitLearnerTurn x1 x2 x3 x4) =
     VRec ''SubmitLearnerTurn'' [VStr x1, VStr x2, VStr x3, VStr x4]"
| "command_val (PauseTopic x1) =
     VRec ''PauseTopic'' [VStr x1]"
| "command_val (SwitchTopic x1) =
     VRec ''SwitchTopic'' [VStr x1]"
| "command_val (ExploreTopics x1) =
     VRec ''ExploreTopics'' [VStr x1]"
| "command_val (ResumeTopic x1 x2) =
     VRec ''ResumeTopic'' [VStr x1, VStr x2]"
| "command_val (ReportWorkFailure x1 x2 x3) =
     VRec ''ReportWorkFailure'' [VStr x1, VStr x2, work_failure_val x3]"
| "command_val (RecoverWork x1 x2 x3) =
     VRec ''RecoverWork'' [VStr x1, VStr x2, work_recovery_action_val x3]"
| "command_val (RequestExport x1 x2 x3 x4 x5) =
     VRec ''RequestExport'' [VStr x1, VStr x2, VStr x3, VStr x4, VStr x5]"
| "command_val (CompleteExport x1 x2 x3 x4 x5 x6 x7 x8 x9) =
     VRec ''CompleteExport'' [VStr x1, VStr x2, VStr x3, VStr x4, VStr x5, VStr x6, VStr x7, VStr x8, VStr x9]"

end
