(* ===== verification/Event_Records.thy ===== *)
theory Event_Records
  imports Event_Values
begin

text \<open>
  The durable records of \<open>xsync_v2/event_codec.py\<close>: the stored event, the transaction marker with its
  references and effect intents, the receipt, the write request and the state snapshot, with
  their embeddings into the values of the codec.
\<close>

datatype actor_kind = AK_LEARNER | AK_HOST | AK_RUNTIME

datatype effect_kind = EK_EXPORT_MATERIALIZATION

record effect_intent =
  ei_intent_id :: pystr
  ei_kind :: effect_kind
  ei_session_id :: pystr
  ei_export_id :: pystr
  ei_as_of_sequence :: int
  ei_formats :: "pystr list"
  ei_payload_digest :: pystr

record dialogue_actor =
  da_kind :: actor_kind
  da_actor_id :: pystr

record stored_event =
  se_schema_version :: int
  se_record_type :: pystr
  se_protocol_version :: pystr
  se_session_id :: pystr
  se_registry_generation :: int
  se_event_type :: pystr
  se_occurred_at :: pystr
  se_actor :: dialogue_actor
  se_causation_id :: "pystr option"
  se_previous_event_hash :: "pystr option"
  se_event :: committed_dialogue_event
  se_event_hash :: pystr

record marker_event_ref =
  me_sequence :: int
  me_event_id :: pystr
  me_event_hash :: pystr

record transaction_marker =
  tm_schema_version :: int
  tm_record_type :: pystr
  tm_session_id :: pystr
  tm_transaction_id :: pystr
  tm_command_id :: pystr
  tm_request_digest :: pystr
  tm_registry_generation :: int
  tm_from_sequence :: int
  tm_to_sequence :: int
  tm_previous_marker_hash :: "pystr option"
  tm_state_digest :: pystr
  tm_effect_intents :: "effect_intent list"
  tm_events :: "marker_event_ref list"
  tm_marker_hash :: pystr

record dialogue_receipt =
  dr_command_id :: pystr
  dr_request_digest :: pystr
  dr_transaction_id :: pystr
  dr_marker_hash :: pystr
  dr_from_sequence :: int
  dr_to_sequence :: int
  dr_event_ids :: "pystr list"
  dr_state_digest :: pystr

record write_request =
  wq_schema_version :: int
  wq_record_type :: pystr
  wq_session_id :: pystr
  wq_expected_registry_generation :: int
  wq_expected_conversation_version :: int
  wq_command :: dialogue_command
  wq_context :: decision_context

record state_snapshot =
  sn_schema_version :: int
  sn_record_type :: pystr
  sn_session_id :: pystr
  sn_through_sequence :: int
  sn_state_digest :: pystr
  sn_last_event_hash :: "pystr option"
  sn_last_marker_hash :: "pystr option"
  sn_receipts :: "dialogue_receipt list"
  sn_state :: dialogue_state

fun actor_kind_value :: "actor_kind \<Rightarrow> pystr" where
  "actor_kind_value AK_LEARNER = py ''learner''"
| "actor_kind_value AK_HOST = py ''host''"
| "actor_kind_value AK_RUNTIME = py ''runtime''"

definition actor_kind_val :: "actor_kind \<Rightarrow> val" where
  "actor_kind_val x = VEnum ''ActorKind'' (actor_kind_value x)"

definition un_actor_kind :: "val \<Rightarrow> actor_kind option" where
  "un_actor_kind = un_enum ''ActorKind''
     [(py ''learner'', AK_LEARNER), (py ''host'', AK_HOST), (py ''runtime'', AK_RUNTIME)]"

lemma represents_actor_kind [represented]:
  "represents (TyEnum ''ActorKind'') actor_kind_val un_actor_kind"
  unfolding un_actor_kind_def actor_kind_val_def
  by (rule represents_enum) (simp add: members_of_def enum_values_def, simp, case_tac x, simp_all)

fun effect_kind_value :: "effect_kind \<Rightarrow> pystr" where
  "effect_kind_value EK_EXPORT_MATERIALIZATION = py ''export_materialization''"

definition effect_kind_val :: "effect_kind \<Rightarrow> val" where
  "effect_kind_val x = VEnum ''EffectKind'' (effect_kind_value x)"

definition un_effect_kind :: "val \<Rightarrow> effect_kind option" where
  "un_effect_kind = un_enum ''EffectKind''
     [(py ''export_materialization'', EK_EXPORT_MATERIALIZATION)]"

lemma represents_effect_kind [represented]:
  "represents (TyEnum ''EffectKind'') effect_kind_val un_effect_kind"
  unfolding un_effect_kind_def effect_kind_val_def
  by (rule represents_enum) (simp add: members_of_def enum_values_def, simp, case_tac x, simp_all)

lemma hints_effect_intent:
  "hints_of ''DurableEffectIntent'' = Some
     [(''intent_id'', TyStr), (''kind'', TyEnum ''EffectKind''), (''session_id'', TyStr),
      (''export_id'', TyStr), (''as_of_sequence'', TyInt), (''formats'', TyMany TyStr),
      (''payload_digest'', TyStr)]"
  by code_simp

definition effect_intent_val :: "effect_intent \<Rightarrow> val" where
  "effect_intent_val x =
     VRec ''DurableEffectIntent''
       [VStr (ei_intent_id x), effect_kind_val (ei_kind x), VStr (ei_session_id x),
        VStr (ei_export_id x), VInt (ei_as_of_sequence x), tuple_val VStr (ei_formats x),
        VStr (ei_payload_digest x)]"

definition un_effect_intent :: "val \<Rightarrow> effect_intent option" where
  "un_effect_intent = un_record ''DurableEffectIntent''
     (\<lambda>vs. case vs of
        [v1, v2, v3, v4, v5, v6, v7] \<Rightarrow>
          do {x1 \<leftarrow> un_str v1; x2 \<leftarrow> un_effect_kind v2;
             x3 \<leftarrow> un_str v3; x4 \<leftarrow> un_str v4; x5 \<leftarrow> un_int v5;
             x6 \<leftarrow> un_tuple un_str v6; x7 \<leftarrow> un_str v7;
             Some \<lparr>ei_intent_id = x1, ei_kind = x2, ei_session_id = x3, ei_export_id = x4,
                  ei_as_of_sequence = x5, ei_formats = x6, ei_payload_digest = x7\<rparr>}
      | _ \<Rightarrow> None)"

lemma represents_effect_intent [represented]:
  "represents (TyRec ''DurableEffectIntent'') effect_intent_val un_effect_intent"
  unfolding un_effect_intent_def
  by (rule represents_record [OF hints_effect_intent])
    (auto simp: effect_intent_val_def represented [THEN represents_iff] represented [THEN represents_inv]
      represented [THEN represents_inj] list_all2_Cons2 Option.bind_eq_Some_conv
      represented [THEN represents_fits] split: list.splits)

lemma hints_dialogue_actor:
  "hints_of ''DialogueActor'' = Some
     [(''kind'', TyEnum ''ActorKind''), (''actor_id'', TyStr)]"
  by code_simp

definition dialogue_actor_val :: "dialogue_actor \<Rightarrow> val" where
  "dialogue_actor_val x =
     VRec ''DialogueActor''
       [actor_kind_val (da_kind x), VStr (da_actor_id x)]"

definition un_dialogue_actor :: "val \<Rightarrow> dialogue_actor option" where
  "un_dialogue_actor = un_record ''DialogueActor''
     (\<lambda>vs. case vs of
        [v1, v2] \<Rightarrow>
          do {x1 \<leftarrow> un_actor_kind v1; x2 \<leftarrow> un_str v2;
             Some \<lparr>da_kind = x1, da_actor_id = x2\<rparr>}
      | _ \<Rightarrow> None)"

lemma represents_dialogue_actor [represented]:
  "represents (TyRec ''DialogueActor'') dialogue_actor_val un_dialogue_actor"
  unfolding un_dialogue_actor_def
  by (rule represents_record [OF hints_dialogue_actor])
    (auto simp: dialogue_actor_val_def represented [THEN represents_iff] represented [THEN represents_inv]
      represented [THEN represents_inj] list_all2_Cons2 Option.bind_eq_Some_conv
      represented [THEN represents_fits] split: list.splits)

lemma hints_stored_event:
  "hints_of ''StoredDialogueEvent'' = Some
     [(''schema_version'', TyInt), (''record_type'', TyStr), (''protocol_version'', TyStr),
      (''session_id'', TyStr), (''registry_generation'', TyInt), (''event_type'', TyStr),
      (''occurred_at'', TyStr), (''actor'', TyRec ''DialogueActor''),
      (''causation_id'', optional TyStr), (''previous_event_hash'', optional TyStr),
      (''event'', TyRec ''CommittedDialogueEvent''), (''event_hash'', TyStr)]"
  by code_simp

definition stored_event_val :: "stored_event \<Rightarrow> val" where
  "stored_event_val x =
     VRec ''StoredDialogueEvent''
       [VInt (se_schema_version x), VStr (se_record_type x), VStr (se_protocol_version x),
        VStr (se_session_id x), VInt (se_registry_generation x), VStr (se_event_type x),
        VStr (se_occurred_at x), dialogue_actor_val (se_actor x),
        opt_val VStr (se_causation_id x), opt_val VStr (se_previous_event_hash x),
        committed_dialogue_event_val (se_event x), VStr (se_event_hash x)]"

definition un_stored_event :: "val \<Rightarrow> stored_event option" where
  "un_stored_event = un_record ''StoredDialogueEvent''
     (\<lambda>vs. case vs of
        [v1, v2, v3, v4, v5, v6, v7, v8, v9, v10, v11, v12] \<Rightarrow>
          do {x1 \<leftarrow> un_int v1; x2 \<leftarrow> un_str v2; x3 \<leftarrow> un_str v3;
             x4 \<leftarrow> un_str v4; x5 \<leftarrow> un_int v5; x6 \<leftarrow> un_str v6;
             x7 \<leftarrow> un_str v7; x8 \<leftarrow> un_dialogue_actor v8;
             x9 \<leftarrow> un_opt un_str v9; x10 \<leftarrow> un_opt un_str v10;
             x11 \<leftarrow> un_committed_dialogue_event v11; x12 \<leftarrow> un_str v12;
             Some \<lparr>se_schema_version = x1, se_record_type = x2, se_protocol_version = x3,
                  se_session_id = x4, se_registry_generation = x5, se_event_type = x6,
                  se_occurred_at = x7, se_actor = x8, se_causation_id = x9,
                  se_previous_event_hash = x10, se_event = x11, se_event_hash = x12\<rparr>}
      | _ \<Rightarrow> None)"

lemma represents_stored_event [represented]:
  "represents (TyRec ''StoredDialogueEvent'') stored_event_val un_stored_event"
  unfolding un_stored_event_def
  by (rule represents_record [OF hints_stored_event])
    (auto simp: stored_event_val_def represented [THEN represents_iff] represented [THEN represents_inv]
      represented [THEN represents_inj] list_all2_Cons2 Option.bind_eq_Some_conv
      represented [THEN represents_fits] split: list.splits)

lemma hints_marker_event_ref:
  "hints_of ''MarkerEventRef'' = Some
     [(''sequence'', TyInt), (''event_id'', TyStr), (''event_hash'', TyStr)]"
  by code_simp

definition marker_event_ref_val :: "marker_event_ref \<Rightarrow> val" where
  "marker_event_ref_val x =
     VRec ''MarkerEventRef''
       [VInt (me_sequence x), VStr (me_event_id x), VStr (me_event_hash x)]"

definition un_marker_event_ref :: "val \<Rightarrow> marker_event_ref option" where
  "un_marker_event_ref = un_record ''MarkerEventRef''
     (\<lambda>vs. case vs of
        [v1, v2, v3] \<Rightarrow>
          do {x1 \<leftarrow> un_int v1; x2 \<leftarrow> un_str v2; x3 \<leftarrow> un_str v3;
             Some \<lparr>me_sequence = x1, me_event_id = x2, me_event_hash = x3\<rparr>}
      | _ \<Rightarrow> None)"

lemma represents_marker_event_ref [represented]:
  "represents (TyRec ''MarkerEventRef'') marker_event_ref_val un_marker_event_ref"
  unfolding un_marker_event_ref_def
  by (rule represents_record [OF hints_marker_event_ref])
    (auto simp: marker_event_ref_val_def represented [THEN represents_iff] represented [THEN represents_inv]
      represented [THEN represents_inj] list_all2_Cons2 Option.bind_eq_Some_conv
      represented [THEN represents_fits] split: list.splits)

lemma represents_many_effect_intent [represented]:
  "represents (TyMany (TyRec ''DurableEffectIntent'')) (tuple_val effect_intent_val) (un_tuple un_effect_intent)"
  by (rule represents_many [OF represents_effect_intent])

lemma represents_many_marker_event_ref [represented]:
  "represents (TyMany (TyRec ''MarkerEventRef'')) (tuple_val marker_event_ref_val) (un_tuple un_marker_event_ref)"
  by (rule represents_many [OF represents_marker_event_ref])

lemma hints_transaction_marker:
  "hints_of ''TransactionMarker'' = Some
     [(''schema_version'', TyInt), (''record_type'', TyStr), (''session_id'', TyStr),
      (''transaction_id'', TyStr), (''command_id'', TyStr), (''request_digest'', TyStr),
      (''registry_generation'', TyInt), (''from_sequence'', TyInt), (''to_sequence'', TyInt),
      (''previous_marker_hash'', optional TyStr), (''state_digest'', TyStr),
      (''effect_intents'', TyMany (TyRec ''DurableEffectIntent'')),
      (''events'', TyMany (TyRec ''MarkerEventRef'')), (''marker_hash'', TyStr)]"
  by code_simp

definition transaction_marker_val :: "transaction_marker \<Rightarrow> val" where
  "transaction_marker_val x =
     VRec ''TransactionMarker''
       [VInt (tm_schema_version x), VStr (tm_record_type x), VStr (tm_session_id x),
        VStr (tm_transaction_id x), VStr (tm_command_id x), VStr (tm_request_digest x),
        VInt (tm_registry_generation x), VInt (tm_from_sequence x), VInt (tm_to_sequence x),
        opt_val VStr (tm_previous_marker_hash x), VStr (tm_state_digest x),
        tuple_val effect_intent_val (tm_effect_intents x),
        tuple_val marker_event_ref_val (tm_events x), VStr (tm_marker_hash x)]"

definition un_transaction_marker :: "val \<Rightarrow> transaction_marker option" where
  "un_transaction_marker = un_record ''TransactionMarker''
     (\<lambda>vs. case vs of
        [v1, v2, v3, v4, v5, v6, v7, v8, v9, v10, v11, v12, v13, v14] \<Rightarrow>
          do {x1 \<leftarrow> un_int v1; x2 \<leftarrow> un_str v2; x3 \<leftarrow> un_str v3;
             x4 \<leftarrow> un_str v4; x5 \<leftarrow> un_str v5; x6 \<leftarrow> un_str v6;
             x7 \<leftarrow> un_int v7; x8 \<leftarrow> un_int v8; x9 \<leftarrow> un_int v9;
             x10 \<leftarrow> un_opt un_str v10; x11 \<leftarrow> un_str v11;
             x12 \<leftarrow> un_tuple un_effect_intent v12;
             x13 \<leftarrow> un_tuple un_marker_event_ref v13; x14 \<leftarrow> un_str v14;
             Some \<lparr>tm_schema_version = x1, tm_record_type = x2, tm_session_id = x3,
                  tm_transaction_id = x4, tm_command_id = x5, tm_request_digest = x6,
                  tm_registry_generation = x7, tm_from_sequence = x8, tm_to_sequence = x9,
                  tm_previous_marker_hash = x10, tm_state_digest = x11, tm_effect_intents = x12,
                  tm_events = x13, tm_marker_hash = x14\<rparr>}
      | _ \<Rightarrow> None)"

lemma represents_transaction_marker [represented]:
  "represents (TyRec ''TransactionMarker'') transaction_marker_val un_transaction_marker"
  unfolding un_transaction_marker_def
  by (rule represents_record [OF hints_transaction_marker])
    (auto simp: transaction_marker_val_def represented [THEN represents_iff] represented [THEN represents_inv]
      represented [THEN represents_inj] list_all2_Cons2 Option.bind_eq_Some_conv
      represented [THEN represents_fits] split: list.splits)

lemma hints_dialogue_receipt:
  "hints_of ''DialogueCommandReceipt'' = Some
     [(''command_id'', TyStr), (''request_digest'', TyStr), (''transaction_id'', TyStr),
      (''marker_hash'', TyStr), (''from_sequence'', TyInt), (''to_sequence'', TyInt),
      (''event_ids'', TyMany TyStr), (''state_digest'', TyStr)]"
  by code_simp

definition dialogue_receipt_val :: "dialogue_receipt \<Rightarrow> val" where
  "dialogue_receipt_val x =
     VRec ''DialogueCommandReceipt''
       [VStr (dr_command_id x), VStr (dr_request_digest x), VStr (dr_transaction_id x),
        VStr (dr_marker_hash x), VInt (dr_from_sequence x), VInt (dr_to_sequence x),
        tuple_val VStr (dr_event_ids x), VStr (dr_state_digest x)]"

definition un_dialogue_receipt :: "val \<Rightarrow> dialogue_receipt option" where
  "un_dialogue_receipt = un_record ''DialogueCommandReceipt''
     (\<lambda>vs. case vs of
        [v1, v2, v3, v4, v5, v6, v7, v8] \<Rightarrow>
          do {x1 \<leftarrow> un_str v1; x2 \<leftarrow> un_str v2; x3 \<leftarrow> un_str v3;
             x4 \<leftarrow> un_str v4; x5 \<leftarrow> un_int v5; x6 \<leftarrow> un_int v6;
             x7 \<leftarrow> un_tuple un_str v7; x8 \<leftarrow> un_str v8;
             Some \<lparr>dr_command_id = x1, dr_request_digest = x2, dr_transaction_id = x3,
                  dr_marker_hash = x4, dr_from_sequence = x5, dr_to_sequence = x6,
                  dr_event_ids = x7, dr_state_digest = x8\<rparr>}
      | _ \<Rightarrow> None)"

lemma represents_dialogue_receipt [represented]:
  "represents (TyRec ''DialogueCommandReceipt'') dialogue_receipt_val un_dialogue_receipt"
  unfolding un_dialogue_receipt_def
  by (rule represents_record [OF hints_dialogue_receipt])
    (auto simp: dialogue_receipt_val_def represented [THEN represents_iff] represented [THEN represents_inv]
      represented [THEN represents_inj] list_all2_Cons2 Option.bind_eq_Some_conv
      represented [THEN represents_fits] split: list.splits)

definition write_request_val :: "write_request \<Rightarrow> val" where
  "write_request_val x =
     VRec ''DialogueWriteRequestRecord''
       [VInt (wq_schema_version x), VStr (wq_record_type x), VStr (wq_session_id x),
        VInt (wq_expected_registry_generation x), VInt (wq_expected_conversation_version x),
        command_val (wq_command x), decision_context_val (wq_context x)]"

lemma represents_many_dialogue_receipt [represented]:
  "represents (TyMany (TyRec ''DialogueCommandReceipt'')) (tuple_val dialogue_receipt_val) (un_tuple un_dialogue_receipt)"
  by (rule represents_many [OF represents_dialogue_receipt])

lemma hints_state_snapshot:
  "hints_of ''DialogueStateSnapshot'' = Some
     [(''schema_version'', TyInt), (''record_type'', TyStr), (''session_id'', TyStr),
      (''through_sequence'', TyInt), (''state_digest'', TyStr),
      (''last_event_hash'', optional TyStr), (''last_marker_hash'', optional TyStr),
      (''receipts'', TyMany (TyRec ''DialogueCommandReceipt'')),
      (''state'', TyRec ''DialogueState'')]"
  by code_simp

definition state_snapshot_val :: "state_snapshot \<Rightarrow> val" where
  "state_snapshot_val x =
     VRec ''DialogueStateSnapshot''
       [VInt (sn_schema_version x), VStr (sn_record_type x), VStr (sn_session_id x),
        VInt (sn_through_sequence x), VStr (sn_state_digest x),
        opt_val VStr (sn_last_event_hash x), opt_val VStr (sn_last_marker_hash x),
        tuple_val dialogue_receipt_val (sn_receipts x), dialogue_state_val (sn_state x)]"

definition un_state_snapshot :: "val \<Rightarrow> state_snapshot option" where
  "un_state_snapshot = un_record ''DialogueStateSnapshot''
     (\<lambda>vs. case vs of
        [v1, v2, v3, v4, v5, v6, v7, v8, v9] \<Rightarrow>
          do {x1 \<leftarrow> un_int v1; x2 \<leftarrow> un_str v2; x3 \<leftarrow> un_str v3;
             x4 \<leftarrow> un_int v4; x5 \<leftarrow> un_str v5;
             x6 \<leftarrow> un_opt un_str v6; x7 \<leftarrow> un_opt un_str v7;
             x8 \<leftarrow> un_tuple un_dialogue_receipt v8;
             x9 \<leftarrow> un_dialogue_state v9;
             Some \<lparr>sn_schema_version = x1, sn_record_type = x2, sn_session_id = x3,
                  sn_through_sequence = x4, sn_state_digest = x5, sn_last_event_hash = x6,
                  sn_last_marker_hash = x7, sn_receipts = x8, sn_state = x9\<rparr>}
      | _ \<Rightarrow> None)"

lemma represents_state_snapshot [represented]:
  "represents (TyRec ''DialogueStateSnapshot'') state_snapshot_val un_state_snapshot"
  unfolding un_state_snapshot_def
  by (rule represents_record [OF hints_state_snapshot])
    (auto simp: state_snapshot_val_def represented [THEN represents_iff] represented [THEN represents_inv]
      represented [THEN represents_inj] list_all2_Cons2 Option.bind_eq_Some_conv
      represented [THEN represents_fits] split: list.splits)

end
