(* ===== verification/Timestamps.thy ===== *)
theory Timestamps
  imports Json_Parser
begin

text \<open>
  The timestamps of durable records (\<open>_valid_timestamp\<close> of \<open>xsync_v2/event_codec.py\<close>): a string is a
  timestamp when \<open>datetime.fromisoformat\<close> of CPython 3.11 reads it and the result has a time zone.
  The parser below follows that function: it works on the UTF-8 bytes of the string, finds where
  the date ends, reads a calendar or a week date, and reads a clock time and an offset with or
  without separators.  Reading past the end gives the byte 0, as the terminated C string does.
\<close>

definition byte_at :: "nat list \<Rightarrow> nat \<Rightarrow> nat" where
  "byte_at b i = (if i < length b then b ! i else 0)"

text \<open>\<open>parse_digits\<close>: exactly \<open>n\<close> ASCII digits and what follows them.\<close>

definition iso_digits :: "nat \<Rightarrow> nat list \<Rightarrow> (int \<times> nat list) option" where
  "iso_digits n b =
     (if n \<le> length b \<and> list_all is_digit (take n b)
      then Some (foldl (\<lambda>v d. 10 * v + (int d - 48)) 0 (take n b), drop n b)
      else None)"

section \<open>Dates\<close>

definition leap_year :: "int \<Rightarrow> bool" where
  "leap_year y \<longleftrightarrow> y mod 4 = 0 \<and> (y mod 100 \<noteq> 0 \<or> y mod 400 = 0)"

definition days_in_month :: "int \<Rightarrow> int \<Rightarrow> int" where
  "days_in_month y m =
     (if m = 2 then (if leap_year y then 29 else 28) else if m \<in> {4, 6, 9, 11} then 30 else 31)"

definition days_before_year :: "int \<Rightarrow> int" where
  "days_before_year y = (y - 1) * 365 + (y - 1) div 4 - (y - 1) div 100 + (y - 1) div 400"

text \<open>The weekday of the first of January, Monday being 0.\<close>

definition first_weekday :: "int \<Rightarrow> int" where
  "first_weekday y = days_before_year y mod 7"

definition has_week_53 :: "int \<Rightarrow> bool" where
  "has_week_53 y \<longleftrightarrow> first_weekday y = 3 \<or> (first_weekday y = 2 \<and> leap_year y)"

definition MAX_ORDINAL :: int where
  "MAX_ORDINAL = 3652059"

text \<open>The ordinal of a day of an ISO week: the week of the first Thursday is the first.\<close>

definition week_ordinal :: "int \<Rightarrow> int \<Rightarrow> int \<Rightarrow> int" where
  "week_ordinal y w d =
     days_before_year y + 1 - first_weekday y
       + (if 3 < first_weekday y then 7 else 0) + 7 * (w - 1) + d - 1"

definition valid_week_date :: "int \<Rightarrow> int \<Rightarrow> int \<Rightarrow> bool" where
  "valid_week_date y w d \<longleftrightarrow>
     1 \<le> y \<and> y \<le> 9999 \<and> 1 \<le> w \<and> (w \<le> 52 \<or> (w = 53 \<and> has_week_53 y)) \<and> 1 \<le> d \<and> d \<le> 7
     \<and> 1 \<le> week_ordinal y w d \<and> week_ordinal y w d \<le> MAX_ORDINAL"

definition valid_date :: "int \<Rightarrow> int \<Rightarrow> int \<Rightarrow> bool" where
  "valid_date y m d \<longleftrightarrow>
     1 \<le> y \<and> y \<le> 9999 \<and> 1 \<le> m \<and> m \<le> 12 \<and> 1 \<le> d \<and> d \<le> days_in_month y m"

text \<open>Where the date ends: the position of the separator between date and time.\<close>

definition date_length :: "nat list \<Rightarrow> nat option" where
  "date_length b =
     (if length b = 7 then Some 7
      else if byte_at b 4 = 45 then
        (if byte_at b 5 = 87 then
           (if length b < 8 then None
            else if 8 < length b \<and> byte_at b 8 = 45 then
              (if length b = 9 then None
               else if 10 < length b \<and> is_digit (byte_at b 10) then Some 8
               else Some 10)
            else Some 8)
         else Some 10)
      else if byte_at b 4 = 87 then
        (let n = 7 + length (takeWhile is_digit (drop 7 b)) in
         if n < 9 then Some n else if n mod 2 = 0 then Some 7 else Some 8)
      else Some 8)"

text \<open>A week date: the week, and the day when the date is longer.\<close>

definition read_week :: "nat list \<Rightarrow> nat \<Rightarrow> int \<Rightarrow> bool \<Rightarrow> nat list \<Rightarrow> bool" where
  "read_week b n y sep p =
     (case iso_digits 2 p of
        None \<Rightarrow> False
      | Some (w, q) \<Rightarrow>
          if length b - length q < n then
            (\<not> sep \<or> byte_at q 0 = 45)
            \<and> (case iso_digits 1 (if sep then tl q else q) of
                 None \<Rightarrow> False
               | Some (d, _) \<Rightarrow> valid_week_date y w d)
          else valid_week_date y w 1)"

definition read_month :: "int \<Rightarrow> bool \<Rightarrow> nat list \<Rightarrow> bool" where
  "read_month y sep p =
     (case iso_digits 2 p of
        None \<Rightarrow> False
      | Some (m, q) \<Rightarrow>
          (\<not> sep \<or> byte_at q 0 = 45)
          \<and> (case iso_digits 2 (if sep then tl q else q) of
               None \<Rightarrow> False
             | Some (d, _) \<Rightarrow> valid_date y m d))"

definition read_date :: "nat list \<Rightarrow> nat \<Rightarrow> bool" where
  "read_date b n =
     (case iso_digits 4 b of
        None \<Rightarrow> False
      | Some (y, p) \<Rightarrow>
          (let sep = byte_at p 0 = 45; p = (if sep then tl p else p) in
           if byte_at p 0 = 87 then read_week b n y sep (tl p) else read_month y sep p))"

section \<open>Times\<close>

text \<open>
  The fraction and the fields of a clock time; \<open>stop\<close> is the number of bytes after the end of the
  text read.  The flag says that something other than the end of the string follows.
\<close>

definition read_fraction :: "nat list \<Rightarrow> nat \<Rightarrow> (int list \<times> int \<times> bool) option" where
  "read_fraction p stop =
     (let k = min 6 (length p - stop) in
      case iso_digits k p of
        None \<Rightarrow> None
      | Some (us, q) \<Rightarrow> Some ([], us * 10 ^ (6 - k), byte_at (dropWhile is_digit q) 0 \<noteq> 0))"

definition add_field :: "int \<Rightarrow> (int list \<times> int \<times> bool) option \<Rightarrow> (int list \<times> int \<times> bool) option" where
  "add_field v r = map_option (\<lambda>(vs, us, more). (v # vs, us, more)) r"

fun read_fields :: "nat \<Rightarrow> bool option \<Rightarrow> nat list \<Rightarrow> nat \<Rightarrow> (int list \<times> int \<times> bool) option" where
  "read_fields 0 sep p stop = read_fraction p stop"
| "read_fields (Suc n) sep p stop =
     (case iso_digits 2 p of
        None \<Rightarrow> None
      | Some (v, q) \<Rightarrow>
          (let c = byte_at q 0; sep = (case sep of None \<Rightarrow> c = 58 | Some s \<Rightarrow> s) in
           if q = [] \<or> length (tl q) \<le> stop then Some ([v], 0, c \<noteq> 0)
           else if sep \<and> c = 58 then add_field v (read_fields n (Some sep) (tl q) stop)
           else if c = 46 \<or> c = 44 then add_field v (read_fraction (tl q) stop)
           else if \<not> sep then add_field v (read_fields n (Some sep) q stop)
           else None))"

definition field :: "int list \<Rightarrow> nat \<Rightarrow> int" where
  "field vs i = (if i < length vs then vs ! i else 0)"

definition valid_clock :: "int list \<Rightarrow> bool" where
  "valid_clock vs \<longleftrightarrow> field vs 0 < 24 \<and> field vs 1 < 60 \<and> field vs 2 < 60"

text \<open>An offset is strictly less than a day.\<close>

definition valid_offset :: "int list \<Rightarrow> int \<Rightarrow> bool" where
  "valid_offset vs us \<longleftrightarrow>
     ((field vs 0 * 60 + field vs 1) * 60 + field vs 2) * 1000000 + us < 24 * 60 * 60 * 1000000"

text \<open>The time after the separator: whether it has an offset, \<open>None\<close> when it cannot be read.\<close>

definition read_time :: "nat list \<Rightarrow> bool option" where
  "read_time t =
     (let clock = takeWhile (\<lambda>c. c \<notin> {43, 45, 90}) t; zone = drop (length clock) t in
      case read_fields 3 None t (length zone) of
        None \<Rightarrow> None
      | Some (vs, us, more) \<Rightarrow>
          if \<not> valid_clock vs then None
          else if zone = [] then (if more then None else Some False)
          else if hd zone = 90 then (if byte_at zone 1 \<noteq> 0 then None else Some True)
          else (case read_fields 3 None (tl zone) 0 of
                  None \<Rightarrow> None
                | Some (zs, zus, more') \<Rightarrow>
                    if more' \<or> \<not> valid_offset zs zus then None else Some True))"

section \<open>Strings\<close>

text \<open>A surrogate at one of the places of the separator is read as \<open>T\<close>.\<close>

definition is_surrogate :: "nat \<Rightarrow> bool" where
  "is_surrogate c \<longleftrightarrow> 55296 \<le> int c \<and> int c < 57344"

definition sanitize :: "pystr \<Rightarrow> pystr" where
  "sanitize s =
     (case filter (\<lambda>i. i < length s \<and> is_surrogate (s ! i)) [7, 8, 10] of
        [] \<Rightarrow> s
      | i # _ \<Rightarrow> s[i := 84])"

text \<open>The number of bytes of the separator, from its first byte.\<close>

definition separator_length :: "nat \<Rightarrow> nat" where
  "separator_length c =
     (if c < 128 then 1 else if 224 \<le> c \<and> c < 240 then 3 else if 240 \<le> c then 4 else 2)"

text \<open>\<open>fromisoformat\<close>: whether the result has a time zone, \<open>None\<close> when it raises.\<close>

definition fromisoformat :: "pystr \<Rightarrow> bool option" where
  "fromisoformat s =
     (if length s < 7 then None
      else case utf8_encode (sanitize s) of
        None \<Rightarrow> None
      | Some raw \<Rightarrow>
          (let b = map unat raw in
           case date_length b of
             None \<Rightarrow> None
           | Some n \<Rightarrow>
               if \<not> read_date b n then None
               else if length b \<le> n then Some False
               else (let t = drop (n + separator_length (b ! n)) b in
                     if t = [] then None else read_time t)))"

definition replace_zulu :: "pystr \<Rightarrow> pystr" where
  "replace_zulu s = concat (map (\<lambda>c. if c = 90 then py ''+00:00'' else [c]) s)"

definition valid_timestamp :: "pystr \<Rightarrow> bool" where
  "valid_timestamp s \<longleftrightarrow> strip s \<noteq> [] \<and> fromisoformat (replace_zulu s) = Some True"

end
