(* ===== verification/Work_Identity.thy ===== *)
theory Work_Identity
  imports Domain Canonical_Json
begin

text \<open>
  \<open>xsync_v2/work_identity.py\<close>: the identifier and digest patterns of the wire
  protocol, the canonical shape of a trigger binding and the derivation of a work
  id from the event that created the trigger.  The lemmas show that the derivation
  succeeds exactly on canonical inputs, that its result is itself a protocol id,
  and that it ignores the trigger's own work id, epoch and parent turn.
\<close>

section \<open>Patterns\<close>

definition is_alnum_char :: "nat \<Rightarrow> bool" where
  "is_alnum_char c \<longleftrightarrow>
     (65 \<le> c \<and> c \<le> 90) \<or> (97 \<le> c \<and> c \<le> 122) \<or> (48 \<le> c \<and> c \<le> 57)"

text \<open>The punctuation of the pattern: dot, underscore, colon, hyphen.\<close>

definition is_id_char :: "nat \<Rightarrow> bool" where
  "is_id_char c \<longleftrightarrow> is_alnum_char c \<or> c \<in> {46, 95, 58, 45}"

definition is_protocol_id :: "pystr \<Rightarrow> bool" where
  "is_protocol_id s \<longleftrightarrow>
     (case s of
        [] \<Rightarrow> False
      | c # cs \<Rightarrow> is_alnum_char c \<and> list_all is_id_char cs \<and> length cs \<le> 127)"

definition is_optional_protocol_id :: "pystr option \<Rightarrow> bool" where
  "is_optional_protocol_id v = (case v of None \<Rightarrow> True | Some s \<Rightarrow> is_protocol_id s)"

definition digest_prefix :: pystr where
  "digest_prefix = py ''sha256:''"

definition is_sha256_digest :: "pystr \<Rightarrow> bool" where
  "is_sha256_digest s \<longleftrightarrow>
     take 7 s = digest_prefix \<and> length s = 71 \<and> list_all is_hex_char (drop 7 s)"

definition is_optional_sha256_digest :: "pystr option \<Rightarrow> bool" where
  "is_optional_sha256_digest v = (case v of None \<Rightarrow> True | Some s \<Rightarrow> is_sha256_digest s)"

definition is_canonical_trigger_binding :: "trigger_binding \<Rightarrow> bool" where
  "is_canonical_trigger_binding t \<longleftrightarrow>
     is_protocol_id (tb_work_id t)
     \<and> is_protocol_id (tb_runtime_epoch t)
     \<and> is_optional_protocol_id (tb_parent_turn_id t)
     \<and> is_optional_sha256_digest (tb_contract_digest t)
     \<and> is_sha256_digest (tb_input_digest t)
     \<and> is_sha256_digest (tb_evidence_digest t)"

section \<open>Derivation\<close>

definition identity_tree :: "pystr \<Rightarrow> pystr \<Rightarrow> int \<Rightarrow> trigger_binding \<Rightarrow> json" where
  "identity_tree sid eid seq t =
     JObj [(py ''contract_digest'', optional_str (tb_contract_digest t)),
           (py ''evidence_digest'', JStr (tb_evidence_digest t)),
           (py ''input_digest'', JStr (tb_input_digest t)),
           (py ''kind'', JStr (trigger_kind_value (tb_kind t))),
           (py ''session_id'', JStr sid),
           (py ''trigger_event_id'', JStr eid),
           (py ''trigger_event_sequence'', JInt seq)]"

definition work_prefix :: pystr where
  "work_prefix = py ''work-''"

definition derive_canonical_work_id :: "pystr \<Rightarrow> pystr \<Rightarrow> int \<Rightarrow> trigger_binding \<Rightarrow> code + pystr" where
  "derive_canonical_work_id sid eid seq t =
     (if \<not> is_protocol_id sid \<or> \<not> is_protocol_id eid \<or> seq < 1
         \<or> \<not> is_canonical_trigger_binding t
      then Inl WORK_ID_INPUT_INVALID
      else case canonical_json_bytes (identity_tree sid eid seq t) of
             None \<Rightarrow> Inl UNICODE_ENCODE_ERROR
           | Some bs \<Rightarrow> Inr (work_prefix @ hexdigest bs))"

section \<open>Facts\<close>

lemma is_alnum_not_space: "is_alnum_char c \<Longrightarrow> \<not> py_isspace c"
  by (auto simp: is_alnum_char_def py_isspace_def)

lemma is_hex_alnum: "is_hex_char c \<Longrightarrow> is_alnum_char c"
  by (auto simp: is_hex_char_def is_alnum_char_def)

lemma ascii_alnum: "is_alnum_char c \<Longrightarrow> c < 128"
  by (auto simp: is_alnum_char_def)

lemma ascii_id_char: "is_id_char c \<Longrightarrow> c < 128"
  by (auto simp: is_id_char_def ascii_alnum)

text \<open>A protocol id is never blank, so it passes every text test.\<close>

lemma protocol_id_strip: "is_protocol_id s \<Longrightarrow> strip s \<noteq> []"
  by (auto simp: is_protocol_id_def is_alnum_not_space strip_Cons_nonspace split: list.splits)

lemma protocol_id_ascii: "is_protocol_id s \<Longrightarrow> ascii s"
  by (auto simp: is_protocol_id_def ascii_alnum ascii_def list_all_iff ascii_id_char
      split: list.splits)

lemma digest_split: "is_sha256_digest s \<Longrightarrow> s = digest_prefix @ drop 7 s"
  by (metis append_take_drop_id is_sha256_digest_def)

lemma digest_ascii:
  assumes "is_sha256_digest s"
  shows "ascii s"
proof -
  have "ascii (drop 7 s)"
    using assms by (auto simp: is_sha256_digest_def ascii_def list_all_iff is_hex_alnum ascii_alnum)
  moreover have "ascii digest_prefix" by (simp add: digest_prefix_def py_def)
  ultimately show ?thesis using digest_split [OF assms] by (metis ascii_simps(3))
qed

lemma ascii_optional_str:
  "(\<And>s. v = Some s \<Longrightarrow> ascii s) \<Longrightarrow> ascii_json (optional_str v)"
  by (cases v) (simp_all add: optional_str_def)

lemma optional_digest_ascii: "is_optional_sha256_digest v \<Longrightarrow> ascii_json (optional_str v)"
  by (cases v) (simp_all add: optional_str_def is_optional_sha256_digest_def digest_ascii)

lemma optional_id_ascii: "is_optional_protocol_id v \<Longrightarrow> ascii_json (optional_str v)"
  by (cases v) (simp_all add: optional_str_def is_optional_protocol_id_def protocol_id_ascii)

lemma ascii_trigger_kind_value: "ascii (trigger_kind_value k)"
  by (cases k) (simp_all add: py_def)

lemma ascii_identity_tree:
  assumes "is_protocol_id sid" and "is_protocol_id eid" and "is_canonical_trigger_binding t"
  shows "ascii_json (identity_tree sid eid seq t)"
  using assms
  by (simp add: identity_tree_def is_canonical_trigger_binding_def protocol_id_ascii digest_ascii
      optional_digest_ascii ascii_trigger_kind_value)
    (simp add: py_def)

lemma work_id_of_digest: "is_protocol_id (work_prefix @ hexdigest bs)"
proof -
  have "list_all is_id_char (hexdigest bs)"
    using hexdigest_hex [of bs] by (auto simp: list_all_iff is_id_char_def is_hex_alnum)
  then show ?thesis
    by (simp add: is_protocol_id_def work_prefix_def py_def is_alnum_char_def is_id_char_def)
qed

text \<open>The derivation returns exactly on canonical inputs, and then returns a protocol id.\<close>

definition derivable :: "pystr \<Rightarrow> pystr \<Rightarrow> int \<Rightarrow> trigger_binding \<Rightarrow> bool" where
  "derivable sid eid seq t \<longleftrightarrow>
     is_protocol_id sid \<and> is_protocol_id eid \<and> 1 \<le> seq \<and> is_canonical_trigger_binding t"

lemma derive_ok:
  assumes "derivable sid eid seq t"
  shows "\<exists>w. derive_canonical_work_id sid eid seq t = Inr w \<and> is_protocol_id w"
proof -
  from assms have "ascii_json (identity_tree sid eid seq t)"
    by (simp add: derivable_def ascii_identity_tree)
  then obtain bs where "canonical_json_bytes (identity_tree sid eid seq t) = Some bs"
    using canonical_json_bytes_ascii by blast
  with assms show ?thesis
    by (auto simp: derive_canonical_work_id_def derivable_def work_id_of_digest)
qed

lemma derive_fails_iff:
  "derive_canonical_work_id sid eid seq t = Inl e \<longleftrightarrow>
     \<not> derivable sid eid seq t \<and> e = WORK_ID_INPUT_INVALID"
proof (cases "derivable sid eid seq t")
  case True
  from derive_ok [OF this] show ?thesis using True by auto
next
  case False
  then show ?thesis
    by (auto simp: derive_canonical_work_id_def derivable_def not_le)
qed

lemma derive_InrD:
  "derive_canonical_work_id sid eid seq t = Inr w \<Longrightarrow>
     derivable sid eid seq t \<and> is_protocol_id w"
  using derive_ok [of sid eid seq t] derive_fails_iff [of sid eid seq t]
  by (cases "derivable sid eid seq t") auto

text \<open>
  The work id is independent of the binding's own \<open>work_id\<close>, \<open>runtime_epoch\<close> and
  \<open>parent_turn_id\<close>: a caller cannot choose its identity.
\<close>

lemma derive_ignores_chosen_identity:
  assumes "tb_kind t' = tb_kind t" and "tb_contract_digest t' = tb_contract_digest t"
    and "tb_input_digest t' = tb_input_digest t" and "tb_evidence_digest t' = tb_evidence_digest t"
    and "is_canonical_trigger_binding t" and "is_canonical_trigger_binding t'"
  shows "derive_canonical_work_id sid eid seq t' = derive_canonical_work_id sid eid seq t"
  using assms by (simp add: derive_canonical_work_id_def identity_tree_def)

end
