(* ===== verification/Validation.thy ===== *)
theory Validation
  imports Work_Identity
begin

text \<open>
  The predicates of \<open>xsync_v2/state_machine.py\<close> on values and on the aggregate.
  Each function of the source is one definition; the two long ones,
  \<open>_valid_topic_state\<close> and \<open>validate_state\<close>, are conjunctions of named clauses, one
  per check of the source, because every failing check has the same effect.  The
  fields whose Python type is tested with \<open>type(x) is C\<close> are typed here.
\<close>

section \<open>Scalars\<close>

definition valid_text :: "pystr \<Rightarrow> bool" where
  "valid_text s \<longleftrightarrow> strip s \<noteq> []"

definition valid_positive_int :: "int \<Rightarrow> bool" where
  "valid_positive_int n \<longleftrightarrow> 1 \<le> n"

definition valid_nonnegative_int :: "int \<Rightarrow> bool" where
  "valid_nonnegative_int n \<longleftrightarrow> 0 \<le> n"

text \<open>A test applied to a field that may be \<open>None\<close>, which every test rejects.\<close>

definition present :: "('a \<Rightarrow> bool) \<Rightarrow> 'a option \<Rightarrow> bool" where
  "present P v = (case v of None \<Rightarrow> False | Some x \<Rightarrow> P x)"

text \<open>A test applied to a field only when it is not \<open>None\<close>.\<close>

definition absent_or :: "('a \<Rightarrow> bool) \<Rightarrow> 'a option \<Rightarrow> bool" where
  "absent_or P v = (case v of None \<Rightarrow> True | Some x \<Rightarrow> P x)"

lemma present_simps [simp]: "\<not> present P None" "present P (Some x) \<longleftrightarrow> P x"
  by (simp_all add: present_def)

lemma absent_or_simps [simp]: "absent_or P None" "absent_or P (Some x) \<longleftrightarrow> P x"
  by (simp_all add: absent_or_def)

lemma optional_simps [simp]:
  "is_optional_protocol_id None" "is_optional_protocol_id (Some s) \<longleftrightarrow> is_protocol_id s"
  "is_optional_sha256_digest None" "is_optional_sha256_digest (Some s) \<longleftrightarrow> is_sha256_digest s"
  by (simp_all add: is_optional_protocol_id_def is_optional_sha256_digest_def)

lemma protocol_id_text [simp]: "is_protocol_id s \<Longrightarrow> valid_text s"
  by (simp add: valid_text_def protocol_id_strip)

section \<open>Constants\<close>

definition REQUIRED_GATES :: "gate_id set" where
  "REQUIRED_GATES = set Enum.enum"

definition PUBLISHABLE_EVIDENCE :: "evidence_health set" where
  "PUBLISHABLE_EVIDENCE = {EH_CURRENT, EH_CAPTURED_DIRTY}"

definition MAX_AUTOMATIC_WORK_ATTEMPTS :: int where
  "MAX_AUTOMATIC_WORK_ATTEMPTS = 3"

definition RETRYABLE_WORK_FAILURES :: "work_failure_category set" where
  "RETRYABLE_WORK_FAILURES = {WF_HOST_TRANSIENT, WF_RESULT_INVALID, WF_LEASE_ATTEMPTS_EXHAUSTED}"

text \<open>The whole table \<open>REQUIRED_GATES\<close>: a list of gate ids is a permutation of the enumeration.\<close>

definition exactly_required_gates :: "gate_id list \<Rightarrow> bool" where
  "exactly_required_gates gs \<longleftrightarrow> length gs = card REQUIRED_GATES \<and> set gs = REQUIRED_GATES"

section \<open>Contracts, evidence, candidates, triggers\<close>

definition valid_contract_shape :: "topic_contract \<Rightarrow> bool" where
  "valid_contract_shape c \<longleftrightarrow>
     valid_positive_int (tc_contract_version c)
     \<and> is_optional_protocol_id (tc_supersedes_contract_id c)
     \<and> is_protocol_id (tc_contract_id c)
     \<and> is_protocol_id (tc_topic_run_id c)
     \<and> is_protocol_id (ts_task_id (tc_task_scope c))
     \<and> valid_text (tc_title c)
     \<and> valid_text (tc_guiding_question c)
     \<and> valid_text (tc_objective c)
     \<and> is_sha256_digest (tc_contract_digest c)
     \<and> list_all valid_text (tc_evidence_refs c)
     \<and> valid_text (ts_summary (tc_task_scope c))
     \<and> list_all valid_text
         (ts_included_paths (tc_task_scope c) @ ts_excluded_paths (tc_task_scope c))"

definition valid_contract :: "topic_contract \<Rightarrow> bool" where
  "valid_contract c \<longleftrightarrow>
     valid_contract_shape c
     \<and> tc_bridge_required c
     \<and> tc_evidence_refs c \<noteq> []
     \<and> distinct (tc_evidence_refs c)
     \<and> exactly_required_gates (map gr_gate_id (tc_gates c))
     \<and> list_all gr_required (tc_gates c)"

definition valid_evidence_shape :: "evidence_check \<Rightarrow> bool" where
  "valid_evidence_shape e \<longleftrightarrow>
     is_sha256_digest (ec_evidence_digest e)
     \<and> is_optional_sha256_digest (ec_exact_recheck_fingerprint e)"

definition valid_evidence :: "evidence_check \<Rightarrow> bool" where
  "valid_evidence e \<longleftrightarrow>
     valid_evidence_shape e
     \<and> (ec_health e \<noteq> EH_CAPTURED_DIRTY
        \<or> present (\<lambda>f. f \<noteq> []) (ec_exact_recheck_fingerprint e))"

definition valid_candidates_shape :: "pystr list \<Rightarrow> bool" where
  "valid_candidates_shape cs \<longleftrightarrow> list_all valid_text cs"

definition valid_candidates :: "pystr list \<Rightarrow> bool" where
  "valid_candidates cs \<longleftrightarrow>
     valid_candidates_shape cs \<and> 1 \<le> length cs \<and> length cs \<le> 4 \<and> distinct cs"

definition valid_trigger ::
  "trigger_binding \<Rightarrow> trigger_kind \<Rightarrow> pystr option \<Rightarrow> pystr \<Rightarrow> bool" where
  "valid_trigger t k cd ed \<longleftrightarrow>
     is_canonical_trigger_binding t
     \<and> tb_kind t = k \<and> tb_contract_digest t = cd \<and> tb_evidence_digest t = ed"

definition matching_trigger ::
  "trigger_binding option \<Rightarrow> trigger_kind \<Rightarrow> pystr option \<Rightarrow> pystr \<Rightarrow> trigger_binding option" where
  "matching_trigger v k cd ed =
     (case v of None \<Rightarrow> None | Some t \<Rightarrow> if valid_trigger t k cd ed then Some t else None)"

lemma matching_trigger_SomeD:
  "matching_trigger v k cd ed = Some t \<Longrightarrow> v = Some t \<and> valid_trigger t k cd ed"
  by (auto simp: matching_trigger_def split: option.splits if_splits)

definition valid_work_failure :: "work_failure \<Rightarrow> bool" where
  "valid_work_failure f \<longleftrightarrow>
     is_protocol_id (wf_failure_id f)
     \<and> valid_text (wf_safe_error_code f)
     \<and> is_sha256_digest (wf_proof_digest f)"

section \<open>Export records\<close>

definition valid_export_record :: "export_record \<Rightarrow> int \<Rightarrow> bool" where
  "valid_export_record r seq \<longleftrightarrow>
     is_protocol_id (ex_export_id r)
     \<and> valid_positive_int (ex_export_sequence r)
     \<and> is_protocol_id (ex_intent_id r)
     \<and> valid_nonnegative_int (ex_as_of_event_sequence r)
     \<and> ex_as_of_event_sequence r \<le> seq
     \<and> valid_text (ex_requested_at r)
     \<and> is_sha256_digest (ex_payload_digest r)
     \<and> (if ex_status r = ES_REQUESTED
        then ex_completed_at r = None \<and> ex_json_path r = None \<and> ex_json_digest r = None
             \<and> ex_markdown_path r = None \<and> ex_markdown_digest r = None
             \<and> ex_freshness_overlay_digest r = None
        else present valid_text (ex_completed_at r)
             \<and> present is_protocol_id (ex_json_path r)
             \<and> present is_sha256_digest (ex_json_digest r)
             \<and> present is_protocol_id (ex_markdown_path r)
             \<and> present is_sha256_digest (ex_markdown_digest r)
             \<and> present is_sha256_digest (ex_freshness_overlay_digest r))"

section \<open>Work\<close>

text \<open>The condition on the fields that depends on the status.\<close>

definition valid_work_status_fields :: "current_work_state \<Rightarrow> bool" where
  "valid_work_status_fields w =
     (case cw_status w of
        WS_QUEUED \<Rightarrow>
          cw_allowed_recovery_actions w = []
          \<and> (cw_attempt w = 1 \<or> cw_last_failure w \<noteq> None)
      | WS_FAILED \<Rightarrow> cw_last_failure w \<noteq> None \<and> cw_allowed_recovery_actions w = []
      | WS_DEAD_LETTER \<Rightarrow> cw_last_failure w \<noteq> None \<and> cw_allowed_recovery_actions w \<noteq> []
      | _ \<Rightarrow> cw_allowed_recovery_actions w = [])"

definition valid_current_work :: "current_work_state \<Rightarrow> pystr \<Rightarrow> int \<Rightarrow> bool" where
  "valid_current_work w sid seq \<longleftrightarrow>
     is_protocol_id (cw_work_id w)
     \<and> is_protocol_id (cw_trigger_event_id w)
     \<and> valid_positive_int (cw_trigger_event_sequence w)
     \<and> cw_trigger_event_sequence w \<le> seq
     \<and> is_canonical_trigger_binding (cw_trigger w)
     \<and> valid_positive_int (cw_attempt w)
     \<and> cw_attempt w \<le> MAX_AUTOMATIC_WORK_ATTEMPTS
     \<and> absent_or valid_work_failure (cw_last_failure w)
     \<and> distinct (cw_allowed_recovery_actions w)
     \<and> (case derive_canonical_work_id sid (cw_trigger_event_id w)
               (cw_trigger_event_sequence w) (cw_trigger w) of
          Inl _ \<Rightarrow> False
        | Inr expected_id \<Rightarrow> cw_work_id w = expected_id \<and> valid_work_status_fields w)"

definition queued_work_from_event ::
  "pystr \<Rightarrow> committed_dialogue_event \<Rightarrow> trigger_binding \<Rightarrow> int \<Rightarrow> work_failure option
    \<Rightarrow> code + current_work_state" where
  "queued_work_from_event sid ev t attempt last_failure =
     andthen (derive_canonical_work_id sid (ce_event_id ev) (ce_sequence ev) t)
       (\<lambda>wid. Inr \<lparr>cw_work_id = wid, cw_trigger_event_id = ce_event_id ev,
                   cw_trigger_event_sequence = ce_sequence ev, cw_trigger = t,
                   cw_attempt = attempt, cw_status = WS_QUEUED,
                   cw_last_failure = last_failure, cw_allowed_recovery_actions = []\<rparr>)"

definition retry_trigger_matches :: "trigger_binding \<Rightarrow> trigger_binding \<Rightarrow> bool" where
  "retry_trigger_matches current candidate \<longleftrightarrow>
     tb_work_id candidate \<noteq> tb_work_id current
     \<and> tb_kind candidate = tb_kind current
     \<and> tb_parent_turn_id candidate = tb_parent_turn_id current
     \<and> tb_contract_digest candidate = tb_contract_digest current
     \<and> tb_input_digest candidate = tb_input_digest current
     \<and> tb_evidence_digest candidate = tb_evidence_digest current"

definition allowed_recovery_actions :: "dialogue_state \<Rightarrow> work_recovery_action list" where
  "allowed_recovery_actions s =
     (if active_topic s = None then [RA_RETRY] else [RA_RETRY, RA_REGROUND])"

definition automatic_retry_allowed :: "current_work_state \<Rightarrow> bool" where
  "automatic_retry_allowed w \<longleftrightarrow>
     present (\<lambda>f. wf_category f \<in> RETRYABLE_WORK_FAILURES) (cw_last_failure w)
     \<and> cw_attempt w < MAX_AUTOMATIC_WORK_ATTEMPTS"

section \<open>Learner model and gates\<close>

definition valid_model_entry_shape :: "learner_model_entry \<Rightarrow> bool" where
  "valid_model_entry_shape e \<longleftrightarrow>
     valid_text (lm_entry_id e) \<and> valid_text (lm_statement e)
     \<and> list_all valid_text (lm_source_turn_ids e) \<and> list_all valid_text (lm_evidence_refs e)"

definition valid_model_entry :: "topic_contract \<Rightarrow> learner_model_entry \<Rightarrow> pystr set \<Rightarrow> bool" where
  "valid_model_entry c e known \<longleftrightarrow>
     valid_model_entry_shape e
     \<and> set (lm_source_turn_ids e) \<subseteq> known
     \<and> set (lm_evidence_refs e) \<subseteq> set (tc_evidence_refs c)
     \<and> (lm_provenance e \<noteq> IP_AGENT_INFERRED \<or> lm_status e = IS_WORKING_MODEL)
     \<and> (lm_status e \<noteq> IS_CONFIRMED
        \<or> (lm_provenance e \<in> {IP_LEARNER_EXPLICIT, IP_JOINTLY_CONFIRMED}
           \<and> lm_source_turn_ids e \<noteq> [] \<and> lm_evidence_refs e \<noteq> []))"

definition valid_gate_assessment_shape :: "gate_assessment \<Rightarrow> bool" where
  "valid_gate_assessment_shape g \<longleftrightarrow>
     list_all valid_text (ga_source_turn_ids g) \<and> list_all valid_text (ga_evidence_refs g)"

definition valid_gate_assessment :: "topic_contract \<Rightarrow> gate_assessment \<Rightarrow> pystr set \<Rightarrow> bool" where
  "valid_gate_assessment c g known \<longleftrightarrow>
     valid_gate_assessment_shape g
     \<and> set (ga_source_turn_ids g) \<subseteq> known
     \<and> set (ga_evidence_refs g) \<subseteq> set (tc_evidence_refs c)
     \<and> (ga_status g \<noteq> GS_SUPPORTED
        \<or> (ga_source_turn_ids g \<noteq> [] \<and> ga_evidence_refs g \<noteq> []))"

definition valid_agent_turn_shape :: "agent_turn_result \<Rightarrow> bool" where
  "valid_agent_turn_shape r \<longleftrightarrow>
     list_all valid_text [at_heard r, at_one_step_further r, at_question_id r, at_question r]
     \<and> list_all valid_model_entry_shape (at_learner_model_delta r)
     \<and> list_all valid_gate_assessment_shape (at_gate_assessments r)
     \<and> list_all valid_text (at_evidence_refs r)"

definition valid_topic_summary :: "topic_summary \<Rightarrow> bool" where
  "valid_topic_summary u \<longleftrightarrow>
     valid_text (su_takeaway u)
     \<and> su_confirmed_entry_ids u \<noteq> []
     \<and> list_all is_protocol_id (su_confirmed_entry_ids u)
     \<and> distinct (su_confirmed_entry_ids u)
     \<and> list_all valid_text (su_open_questions u)
     \<and> distinct (su_open_questions u)
     \<and> valid_text (su_next_suggestion u)"

definition valid_agent_turn ::
  "topic_contract \<Rightarrow> agent_turn_result \<Rightarrow> evidence_check \<Rightarrow> pystr set \<Rightarrow> bool" where
  "valid_agent_turn c r e known \<longleftrightarrow>
     valid_agent_turn_shape r
     \<and> list_all (\<lambda>m. valid_model_entry c m known) (at_learner_model_delta r)
     \<and> distinct (map lm_entry_id (at_learner_model_delta r))
     \<and> list_all (\<lambda>g. valid_gate_assessment c g known) (at_gate_assessments r)
     \<and> valid_evidence e
     \<and> at_evidence_refs r \<noteq> []
     \<and> distinct (at_evidence_refs r)
     \<and> set (at_evidence_refs r) \<subseteq> set (tc_evidence_refs c)
     \<and> exactly_required_gates (map ga_gate_id (at_gate_assessments r))"

fun MODEL_STATUS_TRANSITIONS :: "insight_status \<Rightarrow> insight_status set" where
  "MODEL_STATUS_TRANSITIONS IS_WORKING_MODEL = {IS_CONFIRMED, IS_STALE, IS_DISPUTED}"
| "MODEL_STATUS_TRANSITIONS IS_OPEN_QUESTION = {IS_WORKING_MODEL, IS_CONFIRMED, IS_STALE, IS_DISPUTED}"
| "MODEL_STATUS_TRANSITIONS IS_CONFIRMED = {IS_STALE, IS_DISPUTED}"
| "MODEL_STATUS_TRANSITIONS IS_STALE = {IS_WORKING_MODEL, IS_CONFIRMED, IS_DISPUTED}"
| "MODEL_STATUS_TRANSITIONS IS_DISPUTED = {IS_WORKING_MODEL, IS_CONFIRMED, IS_STALE}"

text \<open>\<open>by_id.get(i)\<close> for \<open>by_id = {entry.entry_id: entry for entry in entries}\<close>: the last entry wins.\<close>

definition entry_by_id :: "learner_model_entry list \<Rightarrow> pystr \<Rightarrow> learner_model_entry option" where
  "entry_by_id entries i = find (\<lambda>e. lm_entry_id e = i) (rev entries)"

definition valid_model_update :: "learner_model_entry \<Rightarrow> learner_model_entry \<Rightarrow> bool" where
  "valid_model_update before update \<longleftrightarrow>
     lm_kind update = lm_kind before
     \<and> lm_statement update = lm_statement before
     \<and> set (lm_source_turn_ids before) \<subseteq> set (lm_source_turn_ids update)
     \<and> set (lm_evidence_refs before) \<subseteq> set (lm_evidence_refs update)
     \<and> lm_status update \<in> MODEL_STATUS_TRANSITIONS (lm_status before)
     \<and> (lm_provenance update = lm_provenance before
        \<or> (lm_provenance before \<in> {IP_AGENT_INFERRED, IP_LEARNER_EXPLICIT}
           \<and> lm_provenance update = IP_JOINTLY_CONFIRMED))"

definition valid_model_updates ::
  "learner_model_entry list \<Rightarrow> learner_model_entry list \<Rightarrow> bool" where
  "valid_model_updates current updates \<longleftrightarrow>
     list_all (\<lambda>u. absent_or (\<lambda>b. valid_model_update b u) (entry_by_id current (lm_entry_id u)))
       updates"

definition apply_model_updates ::
  "learner_model_entry list \<Rightarrow> learner_model_entry list \<Rightarrow> learner_model_entry list" where
  "apply_model_updates current updates =
     map (\<lambda>e. case entry_by_id updates (lm_entry_id e) of None \<Rightarrow> e | Some u \<Rightarrow> u) current
     @ filter (\<lambda>u. lm_entry_id u \<notin> lm_entry_id ` set current) updates"

section \<open>Topic runs\<close>

definition topic_evidence :: "topic_run_state \<Rightarrow> evidence_check" where
  "topic_evidence t =
     \<lparr>ec_health = tr_evidence_health t, ec_evidence_digest = tr_evidence_digest t,
      ec_exact_recheck_fingerprint = tr_exact_recheck_fingerprint t\<rparr>"

text \<open>The first block of checks of \<open>_valid_topic_state\<close>: types, contract, evidence, work.\<close>

definition vt_shape :: "topic_run_state \<Rightarrow> topic_lifecycle \<Rightarrow> pystr \<Rightarrow> int \<Rightarrow> bool" where
  "vt_shape t lc sid seq \<longleftrightarrow>
     tr_lifecycle t = lc
     \<and> valid_contract (tr_contract t)
     \<and> tr_topic_run_id t = tc_topic_run_id (tr_contract t)
     \<and> valid_evidence (topic_evidence t)
     \<and> list_all valid_text (tr_learner_turn_ids t)
     \<and> absent_or (\<lambda>w. valid_current_work w sid seq) (tr_work t)"

text \<open>The gates and the learner model against the contract and the known turns.\<close>

definition vt_model :: "topic_run_state \<Rightarrow> bool" where
  "vt_model t \<longleftrightarrow>
     exactly_required_gates (map ga_gate_id (tr_gates t))
     \<and> list_all (\<lambda>g. valid_gate_assessment (tr_contract t) g (set (tr_learner_turn_ids t)))
         (tr_gates t)
     \<and> distinct (map lm_entry_id (tr_learner_model t))
     \<and> list_all (\<lambda>m. valid_model_entry (tr_contract t) m (set (tr_learner_turn_ids t)))
         (tr_learner_model t)"

text \<open>The learner turns and the last one of them.\<close>

definition vt_turns :: "topic_run_state \<Rightarrow> bool" where
  "vt_turns t \<longleftrightarrow>
     distinct (tr_learner_turn_ids t)
     \<and> (if tr_learner_turn_ids t = []
        then tr_last_learner_turn_id t = None \<and> tr_last_learner_text t = None
        else tr_last_learner_turn_id t = Some (last (tr_learner_turn_ids t))
             \<and> present valid_text (tr_last_learner_text t))"

text \<open>
  A completed topic has a summary and neither a question nor work; any other topic
  has no summary and exactly one of the two.
\<close>

definition vt_lifecycle :: "topic_run_state \<Rightarrow> topic_lifecycle \<Rightarrow> bool" where
  "vt_lifecycle t lc \<longleftrightarrow>
     (if lc = TL_COMPLETED
      then tr_current_agent_turn t = None \<and> tr_work t = None
           \<and> present valid_topic_summary (tr_summary t)
      else tr_summary t = None
           \<and> (tr_current_agent_turn t \<noteq> None) \<noteq> (tr_work t \<noteq> None))"

definition vt_agent_turn :: "topic_run_state \<Rightarrow> bool" where
  "vt_agent_turn t \<longleftrightarrow>
     absent_or
       (\<lambda>r. valid_agent_turn (tr_contract t) r (topic_evidence t) (set (tr_learner_turn_ids t))
            \<and> at_gate_assessments r = tr_gates t
            \<and> set (at_learner_model_delta r) \<subseteq> set (tr_learner_model t))
       (tr_current_agent_turn t)"

definition vt_work :: "topic_run_state \<Rightarrow> topic_lifecycle \<Rightarrow> bool" where
  "vt_work t lc \<longleftrightarrow>
     absent_or
       (\<lambda>w. valid_trigger (cw_trigger w) (tb_kind (cw_trigger w))
              (Some (tc_contract_digest (tr_contract t))) (tr_evidence_digest t)
            \<and> (lc = TL_ACTIVE \<longrightarrow> cw_status w \<in> {WS_QUEUED, WS_FAILED, WS_DEAD_LETTER})
            \<and> (lc = TL_PAUSED \<longrightarrow> cw_status w \<in> {WS_SUPERSEDED, WS_DEAD_LETTER})
            \<and> (cw_status w = WS_DEAD_LETTER \<longrightarrow>
                 cw_allowed_recovery_actions w = [RA_RETRY, RA_REGROUND]))
       (tr_work t)"

definition valid_topic_state :: "topic_run_state \<Rightarrow> topic_lifecycle \<Rightarrow> pystr \<Rightarrow> int \<Rightarrow> bool" where
  "valid_topic_state t lc sid seq \<longleftrightarrow>
     vt_shape t lc sid seq \<and> vt_model t \<and> vt_turns t \<and> vt_lifecycle t lc
     \<and> vt_agent_turn t \<and> vt_work t lc"

section \<open>The aggregate\<close>

text \<open>The clauses of \<open>validate_state\<close> in the order of the source.\<close>

definition valid_clarification :: "topic_clarification \<Rightarrow> bool" where
  "valid_clarification c \<longleftrightarrow>
     valid_text (cl_question_id c) \<and> valid_text (cl_question c)
     \<and> absent_or valid_text (cl_answer c)"

definition vs_fields :: "dialogue_state \<Rightarrow> bool" where
  "vs_fields s \<longleftrightarrow>
     is_protocol_id (session_id s)
     \<and> valid_positive_int (registry_generation s)
     \<and> valid_nonnegative_int (sequence s)
     \<and> valid_nonnegative_int (conversation_version s)
     \<and> absent_or valid_text (selected_candidate s)
     \<and> absent_or valid_clarification (topic_clarification s)
     \<and> absent_or (\<lambda>w. valid_current_work w (session_id s) (sequence s)) (session_work s)
     \<and> list_all (\<lambda>r. valid_export_record r (sequence s)) (exports s)"

definition vs_lifecycle :: "dialogue_state \<Rightarrow> bool" where
  "vs_lifecycle s \<longleftrightarrow>
     (lifecycle s = SL_NEW \<longrightarrow>
        phase s = PHASE_NONE \<and> active_topic s = None \<and> session_work s = None
        \<and> paused_topics s = [] \<and> completed_topics s = [] \<and> exports s = [])
     \<and> (lifecycle s = SL_ENDED \<longrightarrow>
        phase s = PHASE_NONE \<and> active_topic s = None \<and> session_work s = None)"

definition vs_idle_phases :: "dialogue_state \<Rightarrow> bool" where
  "vs_idle_phases s \<longleftrightarrow>
     (phase s \<in> {PHASE_NONE, CHOOSING_TOPIC, CLARIFYING_TOPIC} \<longrightarrow> active_topic s = None)
     \<and> (phase s = CHOOSING_TOPIC \<longrightarrow> valid_candidates (candidates s))
     \<and> (phase s = CHOOSING_TOPIC \<longrightarrow> \<not> present (\<lambda>c. c \<noteq> []) (selected_candidate s))
     \<and> (phase s = CLARIFYING_TOPIC \<longrightarrow>
          selected_candidate s \<noteq> None
          \<and> present (\<lambda>c. cl_answer c = None) (topic_clarification s)
          \<and> session_work s = None)
     \<and> (phase s \<noteq> CHOOSING_TOPIC \<longrightarrow> candidates s = [])"

definition vs_awaiting_user :: "dialogue_state \<Rightarrow> bool" where
  "vs_awaiting_user s \<longleftrightarrow>
     (phase s = AWAITING_USER \<longrightarrow>
        present (\<lambda>t. tr_current_agent_turn t \<noteq> None \<and> tr_work t = None
                     \<and> tr_evidence_health t \<in> PUBLISHABLE_EVIDENCE) (active_topic s))"

text \<open>The work items of the session and of the active topic, those present, in this order.\<close>

definition active_work :: "dialogue_state \<Rightarrow> current_work_state option" where
  "active_work s = (case active_topic s of None \<Rightarrow> None | Some t \<Rightarrow> tr_work t)"

definition current_works :: "dialogue_state \<Rightarrow> current_work_state list" where
  "current_works s = List.map_filter id [session_work s, active_work s]"

definition no_visible_question :: "dialogue_state \<Rightarrow> bool" where
  "no_visible_question s \<longleftrightarrow> absent_or (\<lambda>t. tr_current_agent_turn t = None) (active_topic s)"

definition vs_work_phases :: "dialogue_state \<Rightarrow> bool" where
  "vs_work_phases s =
     (case phase s of
        WAITING_HOST \<Rightarrow>
          length (current_works s) = 1
          \<and> list_all (\<lambda>w. cw_status w \<in> {WS_QUEUED, WS_FAILED}) (current_works s)
          \<and> no_visible_question s
      | RECOVERABLE_ERROR \<Rightarrow>
          length (current_works s) = 1
          \<and> list_all (\<lambda>w. cw_status w = WS_DEAD_LETTER) (current_works s)
          \<and> no_visible_question s
      | _ \<Rightarrow> session_work s = None)"

definition vs_session_work :: "dialogue_state \<Rightarrow> bool" where
  "vs_session_work s =
     (case session_work s of
        Some w \<Rightarrow>
          tb_kind (cw_trigger w) \<in> {TK_TOPIC_CANDIDATES, TK_TOPIC_SELECTION}
          \<and> valid_trigger (cw_trigger w) (tb_kind (cw_trigger w)) None
              (tb_evidence_digest (cw_trigger w))
          \<and> (tb_kind (cw_trigger w) = TK_TOPIC_CANDIDATES \<longrightarrow> selected_candidate s = None)
          \<and> (tb_kind (cw_trigger w) = TK_TOPIC_SELECTION \<longrightarrow> selected_candidate s \<noteq> None)
      | None \<Rightarrow> selected_candidate s = None \<or> phase s = CLARIFYING_TOPIC)"

definition vs_clarification :: "dialogue_state \<Rightarrow> bool" where
  "vs_clarification s \<longleftrightarrow>
     absent_or
       (\<lambda>c. selected_candidate s \<noteq> None
            \<and> active_topic s = None
            \<and> phase s \<in> {CLARIFYING_TOPIC, WAITING_HOST}
            \<and> (phase s = WAITING_HOST \<longrightarrow> cl_answer c \<noteq> None))
       (topic_clarification s)"

definition vs_dead_session_work :: "dialogue_state \<Rightarrow> bool" where
  "vs_dead_session_work s \<longleftrightarrow>
     absent_or
       (\<lambda>w. cw_status w = WS_DEAD_LETTER \<longrightarrow> cw_allowed_recovery_actions w = [RA_RETRY])
       (session_work s)"

definition vs_topics :: "dialogue_state \<Rightarrow> bool" where
  "vs_topics s \<longleftrightarrow>
     absent_or (\<lambda>t. valid_topic_state t TL_ACTIVE (session_id s) (sequence s)) (active_topic s)
     \<and> list_all (\<lambda>t. valid_topic_state t TL_PAUSED (session_id s) (sequence s)) (paused_topics s)
     \<and> list_all (\<lambda>t. valid_topic_state t TL_COMPLETED (session_id s) (sequence s))
         (completed_topics s)"

text \<open>All topic run ids of the session: \<open>paused_ids + completed_ids + active\<close>.\<close>

definition all_topic_ids :: "dialogue_state \<Rightarrow> pystr list" where
  "all_topic_ids s =
     map tr_topic_run_id (paused_topics s) @ map tr_topic_run_id (completed_topics s)
     @ (case active_topic s of None \<Rightarrow> [] | Some t \<Rightarrow> [tr_topic_run_id t])"

definition vs_topic_ids :: "dialogue_state \<Rightarrow> bool" where
  "vs_topic_ids s \<longleftrightarrow> distinct (all_topic_ids s)"

definition vs_exports :: "dialogue_state \<Rightarrow> bool" where
  "vs_exports s \<longleftrightarrow>
     map ex_export_sequence (exports s) = map int [1..<Suc (length (exports s))]
     \<and> distinct (map ex_export_id (exports s))
     \<and> distinct (map ex_intent_id (exports s))"

definition validate_state :: "dialogue_state \<Rightarrow> bool" where
  "validate_state s \<longleftrightarrow>
     vs_fields s \<and> vs_lifecycle s \<and> vs_idle_phases s \<and> vs_awaiting_user s \<and> vs_work_phases s
     \<and> vs_session_work s \<and> vs_clarification s \<and> vs_dead_session_work s \<and> vs_topics s
     \<and> vs_topic_ids s \<and> vs_exports s"

lemmas validate_state_clauses [valid_defs] =
  vs_fields_def vs_lifecycle_def vs_idle_phases_def vs_awaiting_user_def vs_work_phases_def
  vs_session_work_def vs_clarification_def vs_dead_session_work_def vs_topics_def
  vs_topic_ids_def vs_exports_def

lemmas valid_topic_clauses =
  vt_shape_def vt_model_def vt_turns_def vt_lifecycle_def vt_agent_turn_def vt_work_def

end
