(* ===== verification/Decide.thy ===== *)
theory Decide
  imports Validation
begin

text \<open>
  The decision half of \<open>xsync_v2/state_machine.py\<close>: one handler per command class,
  the table that dispatches on the class, \<open>decide\<close> with its common guards and
  \<open>decide_fenced_quiesce\<close>.  A handler returns in the order of the source, one
  \<open>if\<close> per early \<open>return Rejected(...)\<close>.
\<close>

section \<open>Shared pieces\<close>

definition accept :: "pystr \<Rightarrow> dialogue_event_payload \<Rightarrow> decision" where
  "accept cid p =
     (if \<not> valid_text cid then Rejected VALIDATION_FAILED
      else Accepted [\<lparr>pe_command_id = cid, pe_payload = p\<rparr>])"

text \<open>The comparison of the context's evidence with the topic's, inlined in five handlers.\<close>

definition evidence_differs :: "evidence_check \<Rightarrow> topic_run_state \<Rightarrow> bool" where
  "evidence_differs e t \<longleftrightarrow>
     ec_health e \<noteq> tr_evidence_health t
     \<or> ec_evidence_digest e \<noteq> tr_evidence_digest t
     \<or> ec_exact_recheck_fingerprint e \<noteq> tr_exact_recheck_fingerprint t"

text \<open>The status of a work item that may be absent.\<close>

definition is_queued :: "current_work_state option \<Rightarrow> bool" where
  "is_queued v = present (\<lambda>w. cw_status w = WS_QUEUED) v"

definition has_kind :: "trigger_kind \<Rightarrow> current_work_state option \<Rightarrow> bool" where
  "has_kind k v = present (\<lambda>w. tb_kind (cw_trigger w) = k) v"

section \<open>Session and topic selection\<close>

definition start_session :: "dialogue_state \<Rightarrow> pystr \<Rightarrow> decision_context \<Rightarrow> decision" where
  "start_session s cid ctx =
     (if lifecycle s \<noteq> SL_NEW \<or> phase s \<noteq> PHASE_NONE then Rejected TOPIC_STATE_CONFLICT
      else case matching_trigger (dc_trigger ctx) TK_TOPIC_CANDIDATES None
                  (ec_evidence_digest (dc_evidence ctx)) of
             None \<Rightarrow> Rejected VALIDATION_FAILED
           | Some t \<Rightarrow> accept cid (SessionStarted t))"

definition present_candidates ::
  "dialogue_state \<Rightarrow> pystr \<Rightarrow> pystr list \<Rightarrow> decision_context \<Rightarrow> decision" where
  "present_candidates s cid cs ctx =
     (if phase s \<noteq> WAITING_HOST \<or> active_topic s \<noteq> None \<or> \<not> is_queued (session_work s)
      then Rejected TOPIC_STATE_CONFLICT
      else if \<not> valid_candidates cs then Rejected VALIDATION_FAILED
      else case dc_trigger ctx of
             None \<Rightarrow> Rejected WORK_SUPERSEDED
           | Some t \<Rightarrow>
               if Some t \<noteq> session_unresolved_trigger s then Rejected WORK_SUPERSEDED
               else accept cid (CandidatesPresented cs t))"

definition choosing_allowed :: "dialogue_state \<Rightarrow> bool" where
  "choosing_allowed s \<longleftrightarrow>
     phase s = CHOOSING_TOPIC \<and> active_topic s = None \<and> session_work s = None
     \<and> selected_candidate s = None"

definition select_topic ::
  "dialogue_state \<Rightarrow> pystr \<Rightarrow> pystr \<Rightarrow> decision_context \<Rightarrow> decision" where
  "select_topic s cid candidate ctx =
     (if \<not> choosing_allowed s then Rejected TOPIC_STATE_CONFLICT
      else if \<not> valid_text candidate \<or> candidate \<notin> set (candidates s)
      then Rejected VALIDATION_FAILED
      else case matching_trigger (dc_trigger ctx) TK_TOPIC_SELECTION None
                  (ec_evidence_digest (dc_evidence ctx)) of
             None \<Rightarrow> Rejected VALIDATION_FAILED
           | Some t \<Rightarrow> accept cid (TopicSelectionSubmitted candidate t))"

definition submit_custom_topic ::
  "dialogue_state \<Rightarrow> pystr \<Rightarrow> pystr \<Rightarrow> decision_context \<Rightarrow> decision" where
  "submit_custom_topic s cid topic ctx =
     (if \<not> choosing_allowed s then Rejected TOPIC_STATE_CONFLICT
      else if \<not> valid_text topic then Rejected VALIDATION_FAILED
      else case matching_trigger (dc_trigger ctx) TK_TOPIC_SELECTION None
                  (ec_evidence_digest (dc_evidence ctx)) of
             None \<Rightarrow> Rejected VALIDATION_FAILED
           | Some t \<Rightarrow> accept cid (TopicSelectionSubmitted topic t))"

definition request_topic_clarification ::
  "dialogue_state \<Rightarrow> pystr \<Rightarrow> pystr \<Rightarrow> pystr \<Rightarrow> decision_context \<Rightarrow> decision" where
  "request_topic_clarification s cid qid question ctx =
     (if phase s \<noteq> WAITING_HOST \<or> active_topic s \<noteq> None \<or> selected_candidate s = None
      then Rejected TOPIC_STATE_CONFLICT
      else case session_work s of
             None \<Rightarrow> Rejected TOPIC_STATE_CONFLICT
           | Some w \<Rightarrow>
               if cw_status w \<noteq> WS_QUEUED \<or> tb_kind (cw_trigger w) \<noteq> TK_TOPIC_SELECTION
               then Rejected TOPIC_STATE_CONFLICT
               else if \<not> valid_text qid \<or> \<not> valid_text question then Rejected VALIDATION_FAILED
               else if dc_trigger ctx \<noteq> Some (cw_trigger w) then Rejected WORK_SUPERSEDED
               else accept cid (TopicClarificationRequested qid question (cw_trigger w)))"

definition answer_topic_clarification ::
  "dialogue_state \<Rightarrow> pystr \<Rightarrow> pystr \<Rightarrow> pystr \<Rightarrow> decision_context \<Rightarrow> decision" where
  "answer_topic_clarification s cid qid answer ctx =
     (if phase s \<noteq> CLARIFYING_TOPIC \<or> active_topic s \<noteq> None \<or> selected_candidate s = None
         \<or> session_work s \<noteq> None
         \<or> \<not> present (\<lambda>c. cl_answer c = None \<and> cl_question_id c = qid) (topic_clarification s)
      then Rejected TOPIC_STATE_CONFLICT
      else if \<not> valid_text answer then Rejected VALIDATION_FAILED
      else case matching_trigger (dc_trigger ctx) TK_TOPIC_SELECTION None
                  (ec_evidence_digest (dc_evidence ctx)) of
             None \<Rightarrow> Rejected VALIDATION_FAILED
           | Some t \<Rightarrow>
               if tb_parent_turn_id t \<noteq> Some qid then Rejected VALIDATION_FAILED
               else accept cid (TopicClarificationAnswered qid answer t))"

text \<open>The two ways to a topic: straight from the candidates, or after durable selection work.\<close>

definition legacy_selection :: "dialogue_state \<Rightarrow> pystr option \<Rightarrow> bool" where
  "legacy_selection s sel \<longleftrightarrow>
     phase s = CHOOSING_TOPIC \<and> session_work s = None \<and> selected_candidate s = None \<and> sel = None"

definition durable_selection :: "dialogue_state \<Rightarrow> pystr option \<Rightarrow> bool" where
  "durable_selection s sel \<longleftrightarrow>
     phase s = WAITING_HOST
     \<and> is_queued (session_work s) \<and> has_kind TK_TOPIC_SELECTION (session_work s)
     \<and> selected_candidate s \<noteq> None \<and> sel = selected_candidate s
     \<and> absent_or (\<lambda>c. cl_answer c \<noteq> None) (topic_clarification s)"

definition initial_kind :: "evidence_check \<Rightarrow> trigger_kind" where
  "initial_kind e = (if ec_health e \<in> PUBLISHABLE_EVIDENCE then TK_INITIAL_TURN else TK_REGROUND)"

definition start_topic ::
  "dialogue_state \<Rightarrow> pystr \<Rightarrow> topic_contract \<Rightarrow> pystr option \<Rightarrow> decision_context \<Rightarrow> decision" where
  "start_topic s cid contract sel ctx =
     (if active_topic s \<noteq> None \<or> \<not> (legacy_selection s sel \<or> durable_selection s sel)
      then Rejected TOPIC_STATE_CONFLICT
      else if \<not> valid_contract contract then Rejected VALIDATION_FAILED
      else case matching_trigger (dc_trigger ctx) (initial_kind (dc_evidence ctx))
                  (Some (tc_contract_digest contract)) (ec_evidence_digest (dc_evidence ctx)) of
             None \<Rightarrow> Rejected VALIDATION_FAILED
           | Some t \<Rightarrow>
               if \<not> valid_evidence (dc_evidence ctx) then Rejected VALIDATION_FAILED
               else accept cid
                      (TopicStarted contract (dc_evidence ctx) t sel
                        (if durable_selection s sel
                         then map_option cw_trigger (session_work s) else None)))"

section \<open>Turns\<close>

definition commit_agent_turn ::
  "dialogue_state \<Rightarrow> pystr \<Rightarrow> agent_turn_result \<Rightarrow> decision_context \<Rightarrow> decision" where
  "commit_agent_turn s cid result ctx =
     (if phase s \<noteq> WAITING_HOST then Rejected TOPIC_STATE_CONFLICT
      else case active_topic s of
             None \<Rightarrow> Rejected TOPIC_STATE_CONFLICT
           | Some topic \<Rightarrow>
               if open_question_id topic \<noteq> None then Rejected TOPIC_STATE_CONFLICT
               else (case tr_work topic of
                  None \<Rightarrow> Rejected TOPIC_STATE_CONFLICT
                | Some w \<Rightarrow>
                    if cw_status w \<noteq> WS_QUEUED then Rejected TOPIC_STATE_CONFLICT
                    else if tr_evidence_health topic \<notin> PUBLISHABLE_EVIDENCE
                    then Rejected EVIDENCE_STALE
                    else if dc_trigger ctx \<noteq> Some (cw_trigger w)
                            \<or> evidence_differs (dc_evidence ctx) topic
                    then Rejected WORK_SUPERSEDED
                    else if \<not> valid_agent_turn (tr_contract topic) result (dc_evidence ctx)
                              (set (tr_learner_turn_ids topic))
                    then Rejected VALIDATION_FAILED
                    else if \<not> valid_model_updates (tr_learner_model topic)
                              (at_learner_model_delta result)
                    then Rejected VALIDATION_FAILED
                    else accept cid (AgentTurnCommitted result (cw_trigger w) (dc_evidence ctx))))"

definition submit_turn ::
  "dialogue_state \<Rightarrow> pystr \<Rightarrow> pystr \<Rightarrow> pystr \<Rightarrow> pystr \<Rightarrow> decision_context \<Rightarrow> decision" where
  "submit_turn s cid qid ltid txt ctx =
     (case active_topic s of
        None \<Rightarrow> Rejected TOPIC_STATE_CONFLICT
      | Some topic \<Rightarrow>
          if phase s \<noteq> AWAITING_USER \<or> open_question_id topic \<noteq> Some qid
          then Rejected TOPIC_STATE_CONFLICT
          else if \<not> valid_text qid \<or> \<not> valid_text ltid \<or> \<not> valid_text txt
          then Rejected VALIDATION_FAILED
          else if ltid \<in> set (tr_learner_turn_ids topic) then Rejected VALIDATION_FAILED
          else (case matching_trigger (dc_trigger ctx) TK_LEARNER_REPLY
                      (Some (tc_contract_digest (tr_contract topic))) (tr_evidence_digest topic) of
                 None \<Rightarrow> Rejected VALIDATION_FAILED
               | Some t \<Rightarrow>
                   if tb_parent_turn_id t \<noteq> Some ltid then Rejected VALIDATION_FAILED
                   else accept cid (LearnerTurnSubmitted qid ltid txt t)))"

definition pause_topic :: "dialogue_state \<Rightarrow> pystr \<Rightarrow> decision_context \<Rightarrow> decision" where
  "pause_topic s cid ctx =
     (case active_topic s of
        None \<Rightarrow> Rejected TOPIC_STATE_CONFLICT
      | Some topic \<Rightarrow> accept cid (TopicPaused (tr_topic_run_id topic) PC_USER None None))"

text \<open>The parent turn of a lens change: the visible question, else the parent of the work.\<close>

definition lens_parent :: "conversation_phase \<Rightarrow> topic_run_state \<Rightarrow> pystr option" where
  "lens_parent ph topic =
     (case tr_current_agent_turn topic of
        Some r \<Rightarrow>
          if ph = AWAITING_USER then Some (at_question_id r)
          else (case tr_work topic of None \<Rightarrow> None | Some w \<Rightarrow> tb_parent_turn_id (cw_trigger w))
      | None \<Rightarrow>
          (case tr_work topic of None \<Rightarrow> None | Some w \<Rightarrow> tb_parent_turn_id (cw_trigger w)))"

definition set_lens :: "dialogue_state \<Rightarrow> pystr \<Rightarrow> lens \<Rightarrow> decision_context \<Rightarrow> decision" where
  "set_lens s cid l ctx =
     (case active_topic s of
        None \<Rightarrow> Rejected TOPIC_STATE_CONFLICT
      | Some topic \<Rightarrow>
          if phase s \<notin> {AWAITING_USER, WAITING_HOST} then Rejected TOPIC_STATE_CONFLICT
          else if l = topic_lens topic then Rejected LENS_UNCHANGED
          else if evidence_differs (dc_evidence ctx) topic then Rejected EVIDENCE_STALE
          else (case matching_trigger (dc_trigger ctx) TK_LENS_CHANGED
                      (Some (tc_contract_digest (tr_contract topic))) (tr_evidence_digest topic) of
                 None \<Rightarrow> Rejected VALIDATION_FAILED
               | Some t \<Rightarrow>
                   if tb_parent_turn_id t \<noteq> lens_parent (phase s) topic
                   then Rejected VALIDATION_FAILED
                   else accept cid (LensChanged (tr_topic_run_id topic) l t)))"

definition request_help :: "dialogue_state \<Rightarrow> pystr \<Rightarrow> pystr \<Rightarrow> decision_context \<Rightarrow> decision" where
  "request_help s cid qid ctx =
     (case active_topic s of
        None \<Rightarrow> Rejected TOPIC_STATE_CONFLICT
      | Some topic \<Rightarrow>
          if phase s \<noteq> AWAITING_USER \<or> open_question_id topic \<noteq> Some qid
          then Rejected TOPIC_STATE_CONFLICT
          else if \<not> is_protocol_id qid then Rejected VALIDATION_FAILED
          else if evidence_differs (dc_evidence ctx) topic then Rejected EVIDENCE_STALE
          else (case matching_trigger (dc_trigger ctx) TK_HELP
                      (Some (tc_contract_digest (tr_contract topic))) (tr_evidence_digest topic) of
                 None \<Rightarrow> Rejected VALIDATION_FAILED
               | Some t \<Rightarrow>
                   if tb_parent_turn_id t \<noteq> Some qid then Rejected VALIDATION_FAILED
                   else accept cid (HelpRequested (tr_topic_run_id topic) qid t)))"

section \<open>Completing, switching, resuming\<close>

text \<open>The ids of the confirmed entries, the confirmed bridge and the whole completion guard.\<close>

definition confirmed_entries :: "topic_run_state \<Rightarrow> learner_model_entry list" where
  "confirmed_entries t = filter (\<lambda>m. lm_status m = IS_CONFIRMED) (tr_learner_model t)"

definition has_bridge :: "topic_run_state \<Rightarrow> bool" where
  "has_bridge t \<longleftrightarrow>
     list_ex (\<lambda>m. lm_kind m = IK_BUSINESS_TECHNICAL_MAPPING \<and> lm_status m = IS_CONFIRMED)
       (tr_learner_model t)"

definition completion_guard :: "topic_run_state \<Rightarrow> topic_summary \<Rightarrow> bool" where
  "completion_guard t u \<longleftrightarrow>
     list_all (\<lambda>g. ga_status g = GS_SUPPORTED) (tr_gates t)
     \<and> has_bridge t
     \<and> set (su_confirmed_entry_ids u) \<subseteq> lm_entry_id ` set (confirmed_entries t)"

definition evidence_fingerprint :: "evidence_check \<Rightarrow> pystr" where
  "evidence_fingerprint e =
     (case ec_exact_recheck_fingerprint e of None \<Rightarrow> ec_evidence_digest e | Some f \<Rightarrow> f)"

definition complete_topic ::
  "dialogue_state \<Rightarrow> pystr \<Rightarrow> topic_summary \<Rightarrow> decision_context \<Rightarrow> decision" where
  "complete_topic s cid summary ctx =
     (if phase s \<noteq> WAITING_HOST then Rejected TOPIC_STATE_CONFLICT
      else case active_topic s of
             None \<Rightarrow> Rejected TOPIC_STATE_CONFLICT
           | Some topic \<Rightarrow>
               (case tr_work topic of
                  None \<Rightarrow> Rejected TOPIC_STATE_CONFLICT
                | Some w \<Rightarrow>
                    if cw_status w \<noteq> WS_QUEUED then Rejected TOPIC_STATE_CONFLICT
                    else if \<not> valid_topic_summary summary then Rejected VALIDATION_FAILED
                    else if dc_trigger ctx \<noteq> Some (cw_trigger w)
                            \<or> evidence_differs (dc_evidence ctx) topic
                    then Rejected EVIDENCE_STALE
                    else if ec_health (dc_evidence ctx) \<notin> PUBLISHABLE_EVIDENCE
                    then Rejected EVIDENCE_STALE
                    else if \<not> completion_guard topic summary
                    then Rejected TOPIC_COMPLETION_GUARD_FAILED
                    else accept cid
                           (TopicCompleted (tr_topic_run_id topic) summary (cw_trigger w)
                              (dc_evidence ctx) (sequence s)
                              (evidence_fingerprint (dc_evidence ctx)))))"

definition switch_topic :: "dialogue_state \<Rightarrow> pystr \<Rightarrow> decision_context \<Rightarrow> decision" where
  "switch_topic s cid ctx =
     (case active_topic s of
        None \<Rightarrow> Rejected TOPIC_STATE_CONFLICT
      | Some topic \<Rightarrow>
          (case matching_trigger (dc_trigger ctx) TK_TOPIC_CANDIDATES None
                  (ec_evidence_digest (dc_evidence ctx)) of
             None \<Rightarrow> Rejected VALIDATION_FAILED
           | Some t \<Rightarrow> accept cid (TopicSwitchRequested (tr_topic_run_id topic) t)))"

definition explore_topics :: "dialogue_state \<Rightarrow> pystr \<Rightarrow> decision_context \<Rightarrow> decision" where
  "explore_topics s cid ctx =
     (if phase s \<noteq> PHASE_NONE \<or> active_topic s \<noteq> None \<or> session_work s \<noteq> None
         \<or> (completed_topics s = [] \<and> paused_topics s = [])
      then Rejected TOPIC_STATE_CONFLICT
      else case matching_trigger (dc_trigger ctx) TK_TOPIC_CANDIDATES None
                  (ec_evidence_digest (dc_evidence ctx)) of
             None \<Rightarrow> Rejected VALIDATION_FAILED
           | Some t \<Rightarrow> accept cid (TopicExplorationRequested t))"

definition requires_reground :: "evidence_check \<Rightarrow> topic_run_state \<Rightarrow> bool" where
  "requires_reground e t \<longleftrightarrow>
     evidence_differs e t \<or> ec_health e \<in> {EH_STALE, EH_DISPUTED, EH_UNAVAILABLE}"

text \<open>
  The trigger a resumed topic continues with: \<open>Inl\<close> of the rejection, else \<open>Inr\<close>
  of the trigger, absent when a visible question is restored.
\<close>

definition resume_trigger ::
  "topic_run_state \<Rightarrow> evidence_check \<Rightarrow> trigger_binding option
    \<Rightarrow> code + trigger_binding option" where
  "resume_trigger topic e trigger =
     (if requires_reground e topic
      then (case matching_trigger trigger TK_REGROUND
                   (Some (tc_contract_digest (tr_contract topic))) (ec_evidence_digest e) of
              None \<Rightarrow> Inl VALIDATION_FAILED
            | Some t \<Rightarrow> Inr (Some t))
      else if tr_current_agent_turn topic \<noteq> None
      then (if trigger \<noteq> None then Inl VALIDATION_FAILED else Inr None)
      else (case tr_work topic of
              None \<Rightarrow> Inl TOPIC_STATE_CONFLICT
            | Some w \<Rightarrow>
                if cw_status w = WS_DEAD_LETTER then Inl TOPIC_STATE_CONFLICT
                else if cw_status w \<noteq> WS_SUPERSEDED then Inl STATE_INVARIANT_VIOLATION
                else (case matching_trigger trigger (tb_kind (cw_trigger w))
                             (Some (tc_contract_digest (tr_contract topic)))
                             (ec_evidence_digest e) of
                        None \<Rightarrow> Inl VALIDATION_FAILED
                      | Some t \<Rightarrow>
                          if tb_work_id t = tb_work_id (cw_trigger w)
                             \<or> tb_parent_turn_id t \<noteq> tb_parent_turn_id (cw_trigger w)
                             \<or> tb_input_digest t \<noteq> tb_input_digest (cw_trigger w)
                          then Inl VALIDATION_FAILED
                          else Inr (Some t))))"

definition resume_topic ::
  "dialogue_state \<Rightarrow> pystr \<Rightarrow> pystr \<Rightarrow> decision_context \<Rightarrow> decision" where
  "resume_topic s cid trid ctx =
     (if phase s \<noteq> PHASE_NONE \<or> active_topic s \<noteq> None then Rejected TOPIC_STATE_CONFLICT
      else if \<not> valid_text trid then Rejected VALIDATION_FAILED
      else case find (\<lambda>t. tr_topic_run_id t = trid) (paused_topics s) of
             None \<Rightarrow> Rejected TOPIC_STATE_CONFLICT
           | Some topic \<Rightarrow>
               if \<not> valid_evidence (dc_evidence ctx) then Rejected VALIDATION_FAILED
               else (case resume_trigger topic (dc_evidence ctx) (dc_trigger ctx) of
                       Inl e \<Rightarrow> Rejected e
                     | Inr t \<Rightarrow>
                         accept cid
                           (TopicResumed trid (requires_reground (dc_evidence ctx) topic) t
                              (dc_evidence ctx))))"

section \<open>Work failure and recovery\<close>

definition current_nonterminal_work :: "dialogue_state \<Rightarrow> current_work_state option" where
  "current_nonterminal_work s =
     (case filter (\<lambda>w. cw_status w \<in> {WS_QUEUED, WS_FAILED, WS_DEAD_LETTER}) (current_works s) of
        [w] \<Rightarrow> Some w
      | _ \<Rightarrow> None)"

definition report_work_failure ::
  "dialogue_state \<Rightarrow> pystr \<Rightarrow> pystr \<Rightarrow> work_failure \<Rightarrow> decision_context \<Rightarrow> decision" where
  "report_work_failure s cid wid failure ctx =
     (case current_nonterminal_work s of
        None \<Rightarrow> Rejected TOPIC_STATE_CONFLICT
      | Some w \<Rightarrow>
          if phase s \<noteq> WAITING_HOST \<or> cw_status w \<noteq> WS_QUEUED then Rejected TOPIC_STATE_CONFLICT
          else if \<not> valid_text wid \<or> \<not> valid_work_failure failure then Rejected VALIDATION_FAILED
          else if ec_evidence_digest (dc_evidence ctx) \<noteq> tb_evidence_digest (cw_trigger w)
          then Rejected VALIDATION_FAILED
          else if wid \<noteq> cw_work_id w then Rejected WORK_SUPERSEDED
          else if wf_category failure \<in> RETRYABLE_WORK_FAILURES
                  \<and> cw_attempt w < MAX_AUTOMATIC_WORK_ATTEMPTS
          then (case dc_trigger ctx of
                  None \<Rightarrow> Rejected VALIDATION_FAILED
                | Some nt \<Rightarrow>
                    if \<not> is_canonical_trigger_binding nt
                       \<or> \<not> retry_trigger_matches (cw_trigger w) nt
                    then Rejected VALIDATION_FAILED
                    else Accepted
                      [\<lparr>pe_command_id = cid, pe_payload =
                         WorkFailed (cw_work_id w) (cw_trigger w) (cw_attempt w) failure\<rparr>,
                       \<lparr>pe_command_id = cid, pe_payload =
                         WorkRequeued (cw_work_id w) (cw_trigger w) (cw_attempt w) failure nt
                           (cw_attempt w + 1)\<rparr>])
          else if dc_trigger ctx \<noteq> None then Rejected VALIDATION_FAILED
          else Accepted
            [\<lparr>pe_command_id = cid, pe_payload =
               WorkFailed (cw_work_id w) (cw_trigger w) (cw_attempt w) failure\<rparr>,
             \<lparr>pe_command_id = cid, pe_payload =
               WorkDeadLettered (cw_work_id w) (cw_trigger w) (cw_attempt w) failure
                 (allowed_recovery_actions s)\<rparr>])"

definition is_dead_work :: "pystr \<Rightarrow> current_work_state option \<Rightarrow> bool" where
  "is_dead_work wid v = present (\<lambda>w. cw_status w = WS_DEAD_LETTER \<and> cw_work_id w = wid) v"

text \<open>The dead work, the topic that owns it if any, and whether that topic is paused.\<close>

definition dead_work_target ::
  "dialogue_state \<Rightarrow> pystr \<Rightarrow> (current_work_state \<times> topic_run_state option \<times> bool) option" where
  "dead_work_target s wid =
     (if is_dead_work wid (session_work s)
      then map_option (\<lambda>w. (w, None, False)) (session_work s)
      else if is_dead_work wid (active_work s)
      then map_option (\<lambda>w. (w, active_topic s, False)) (active_work s)
      else (case filter (\<lambda>t. is_dead_work wid (tr_work t)) (paused_topics s) of
              [t] \<Rightarrow> map_option (\<lambda>w. (w, Some t, True)) (tr_work t)
            | _ \<Rightarrow> None))"

definition reground_trigger_matches ::
  "trigger_binding \<Rightarrow> trigger_binding \<Rightarrow> evidence_check \<Rightarrow> bool" where
  "reground_trigger_matches dead t e \<longleftrightarrow>
     tb_work_id t \<noteq> tb_work_id dead
     \<and> tb_kind t = TK_REGROUND
     \<and> tb_parent_turn_id t = tb_parent_turn_id dead
     \<and> tb_contract_digest t = tb_contract_digest dead
     \<and> tb_evidence_digest t = ec_evidence_digest e"

definition recovery_allowed ::
  "work_recovery_action \<Rightarrow> current_work_state \<Rightarrow> topic_run_state option \<Rightarrow> trigger_binding
    \<Rightarrow> evidence_check \<Rightarrow> bool" where
  "recovery_allowed action w topic t e =
     (case action of
        RA_RETRY \<Rightarrow>
          retry_trigger_matches (cw_trigger w) t
          \<and> ec_evidence_digest e = tb_evidence_digest (cw_trigger w)
      | RA_REGROUND \<Rightarrow> topic \<noteq> None \<and> reground_trigger_matches (cw_trigger w) t e)"

definition recover_work ::
  "dialogue_state \<Rightarrow> pystr \<Rightarrow> pystr \<Rightarrow> work_recovery_action \<Rightarrow> decision_context \<Rightarrow> decision" where
  "recover_work s cid wid action ctx =
     (if \<not> valid_text wid then Rejected VALIDATION_FAILED
      else case dead_work_target s wid of
             None \<Rightarrow> Rejected TOPIC_STATE_CONFLICT
           | Some (w, topic, paused) \<Rightarrow>
               if action \<notin> set (cw_allowed_recovery_actions w) then Rejected VALIDATION_FAILED
               else (case dc_trigger ctx of
                       None \<Rightarrow> Rejected VALIDATION_FAILED
                     | Some t \<Rightarrow>
                         if \<not> recovery_allowed action w topic t (dc_evidence ctx)
                         then Rejected VALIDATION_FAILED
                         else if paused \<and> (phase s \<noteq> PHASE_NONE \<or> active_topic s \<noteq> None)
                         then Rejected TOPIC_STATE_CONFLICT
                         else if \<not> paused \<and> phase s \<noteq> RECOVERABLE_ERROR
                         then Rejected TOPIC_STATE_CONFLICT
                         else accept cid
                                (WorkRecoveryRequested (cw_work_id w) action t (dc_evidence ctx))))"

section \<open>Exports\<close>

definition request_export ::
  "dialogue_state \<Rightarrow> pystr \<Rightarrow> pystr \<Rightarrow> pystr \<Rightarrow> pystr \<Rightarrow> pystr \<Rightarrow> decision_context \<Rightarrow> decision" where
  "request_export s cid xid iid at dg ctx =
     (if \<not> is_protocol_id xid \<or> \<not> is_protocol_id iid \<or> \<not> valid_text at
         \<or> \<not> is_sha256_digest dg \<or> dc_trigger ctx \<noteq> None
      then Rejected VALIDATION_FAILED
      else if list_ex (\<lambda>r. ex_export_id r = xid \<or> ex_intent_id r = iid) (exports s)
      then Rejected IDEMPOTENCY_CONFLICT
      else accept cid
             (ExportRequested xid (int (length (exports s)) + 1) iid (sequence s) at dg))"

definition complete_export ::
  "dialogue_state \<Rightarrow> pystr \<Rightarrow> pystr \<Rightarrow> pystr \<Rightarrow> pystr \<Rightarrow> pystr \<Rightarrow> pystr \<Rightarrow> pystr \<Rightarrow> pystr \<Rightarrow> pystr
    \<Rightarrow> decision_context \<Rightarrow> decision" where
  "complete_export s cid xid iid at jp jd mp md fd ctx =
     (if \<not> is_protocol_id xid \<or> \<not> is_protocol_id iid \<or> \<not> valid_text at
         \<or> \<not> is_protocol_id jp \<or> \<not> is_sha256_digest jd \<or> \<not> is_protocol_id mp
         \<or> \<not> is_sha256_digest md \<or> \<not> is_sha256_digest fd \<or> dc_trigger ctx \<noteq> None
      then Rejected VALIDATION_FAILED
      else case filter (\<lambda>r. ex_export_id r = xid) (exports s) of
             [r] \<Rightarrow>
               if ex_status r \<noteq> ES_REQUESTED \<or> ex_intent_id r \<noteq> iid
               then Rejected IDEMPOTENCY_CONFLICT
               else accept cid
                      (ExportCompleted (ex_export_id r) (ex_export_sequence r) (ex_intent_id r)
                         at jp jd mp md fd)
           | _ \<Rightarrow> Rejected TOPIC_STATE_CONFLICT)"

section \<open>Dispatch\<close>

text \<open>\<open>TRANSITION_TABLE\<close>.\<close>

fun handle :: "dialogue_state \<Rightarrow> dialogue_command \<Rightarrow> decision_context \<Rightarrow> decision" where
  "handle s (StartSession cid) ctx = start_session s cid ctx"
| "handle s (PresentCandidates cid cs) ctx = present_candidates s cid cs ctx"
| "handle s (SelectTopic cid c) ctx = select_topic s cid c ctx"
| "handle s (SubmitCustomTopic cid c) ctx = submit_custom_topic s cid c ctx"
| "handle s (RequestTopicClarification cid qid q) ctx = request_topic_clarification s cid qid q ctx"
| "handle s (AnswerTopicClarification cid qid a) ctx = answer_topic_clarification s cid qid a ctx"
| "handle s (StartTopic cid c sel) ctx = start_topic s cid c sel ctx"
| "handle s (CommitAgentTurn cid r) ctx = commit_agent_turn s cid r ctx"
| "handle s (SubmitLearnerTurn cid qid ltid txt) ctx = submit_turn s cid qid ltid txt ctx"
| "handle s (SetLens cid l) ctx = set_lens s cid l ctx"
| "handle s (RequestHelp cid qid) ctx = request_help s cid qid ctx"
| "handle s (CompleteTopic cid u) ctx = complete_topic s cid u ctx"
| "handle s (PauseTopic cid) ctx = pause_topic s cid ctx"
| "handle s (SwitchTopic cid) ctx = switch_topic s cid ctx"
| "handle s (ExploreTopics cid) ctx = explore_topics s cid ctx"
| "handle s (ResumeTopic cid trid) ctx = resume_topic s cid trid ctx"
| "handle s (ReportWorkFailure cid wid f) ctx = report_work_failure s cid wid f ctx"
| "handle s (RecoverWork cid wid a) ctx = recover_work s cid wid a ctx"
| "handle s (RequestExport cid xid iid at dg) ctx = request_export s cid xid iid at dg ctx"
| "handle s (CompleteExport cid xid iid at jp jd mp md fd) ctx =
     complete_export s cid xid iid at jp jd mp md fd ctx"

definition valid_decision_context :: "decision_context \<Rightarrow> bool" where
  "valid_decision_context ctx \<longleftrightarrow>
     valid_positive_int (dc_registry_generation ctx)
     \<and> valid_evidence (dc_evidence ctx)
     \<and> absent_or is_canonical_trigger_binding (dc_trigger ctx)"

fun lifecycle_allowed :: "session_lifecycle \<Rightarrow> dialogue_command \<Rightarrow> bool" where
  "lifecycle_allowed l (StartSession _) \<longleftrightarrow> l = SL_NEW"
| "lifecycle_allowed l (RequestExport _ _ _ _ _) \<longleftrightarrow> l \<in> {SL_OPEN, SL_ENDED}"
| "lifecycle_allowed l (CompleteExport _ _ _ _ _ _ _ _ _) \<longleftrightarrow> l \<in> {SL_OPEN, SL_ENDED}"
| "lifecycle_allowed l _ \<longleftrightarrow> l = SL_OPEN"

definition decide :: "dialogue_state \<Rightarrow> dialogue_command \<Rightarrow> decision_context \<Rightarrow> decision" where
  "decide s c ctx =
     (if \<not> validate_state s then Rejected STATE_INVARIANT_VIOLATION
      else if \<not> valid_decision_context ctx then Rejected VALIDATION_FAILED
      else if dc_registry_generation ctx \<noteq> registry_generation s then Rejected SESSION_DEACTIVATED
      else if \<not> is_protocol_id (command_id c) then Rejected VALIDATION_FAILED
      else if \<not> lifecycle_allowed (lifecycle s) c then Rejected TOPIC_STATE_CONFLICT
      else handle s c ctx)"

section \<open>Fenced quiesce\<close>

definition decide_fenced_quiesce ::
  "dialogue_state \<Rightarrow> pystr \<Rightarrow> fenced_quiesce_context \<Rightarrow> decision" where
  "decide_fenced_quiesce s cid fq =
     (if \<not> validate_state s then Rejected STATE_INVARIANT_VIOLATION
      else if \<not> valid_text cid \<or> \<not> valid_text (fq_handoff_id fq)
              \<or> \<not> valid_text (fq_source_session_id fq)
              \<or> \<not> valid_positive_int (fq_source_generation fq)
              \<or> \<not> valid_positive_int (fq_fence_generation fq)
      then Rejected VALIDATION_FAILED
      else if lifecycle s \<notin> {SL_NEW, SL_OPEN}
              \<or> fq_source_session_id fq \<noteq> session_id s
              \<or> fq_source_generation fq \<noteq> registry_generation s
              \<or> fq_fence_generation fq \<noteq> fq_source_generation fq + 1
      then Rejected SESSION_DEACTIVATED
      else if lifecycle s = SL_NEW
      then (if phase s \<noteq> PHASE_NONE then Rejected STATE_INVARIANT_VIOLATION
            else accept cid
                   (SessionDeactivationPrepared (fq_handoff_id fq) (fq_fence_generation fq) None))
      else case active_topic s of
             Some topic \<Rightarrow>
               accept cid
                 (TopicPaused (tr_topic_run_id topic) PC_SESSION_DEACTIVATION
                    (Some (fq_handoff_id fq)) (Some (fq_fence_generation fq)))
           | None \<Rightarrow>
               if phase s = PHASE_NONE then Accepted []
               else accept cid
                      (SessionDeactivationPrepared (fq_handoff_id fq) (fq_fence_generation fq)
                         (session_unresolved_trigger s)))"

lemmas session_handlers [handler_defs] =
  start_session_def present_candidates_def select_topic_def submit_custom_topic_def
  request_topic_clarification_def answer_topic_clarification_def start_topic_def

lemmas turn_handlers [handler_defs] =
  commit_agent_turn_def submit_turn_def pause_topic_def set_lens_def request_help_def
  complete_topic_def switch_topic_def explore_topics_def resume_topic_def

lemmas work_handlers [handler_defs] =
  report_work_failure_def recover_work_def request_export_def complete_export_def

lemma accept_Accepted_iff [simp]:
  "accept cid p = Accepted evs \<longleftrightarrow>
     valid_text cid \<and> evs = [\<lparr>pe_command_id = cid, pe_payload = p\<rparr>]"
  by (auto simp: accept_def)

end
