(* ===== verification/Reduce.thy ===== *)
theory Reduce
  imports Decide
begin

text \<open>
  The reducing half of \<open>xsync_v2/state_machine.py\<close>: the shape of event payloads and
  envelopes, one definition per branch of \<open>reduce\<close>, the dispatch on the payload,
  \<open>reduce\<close> itself and the numbering of a decision's events that the coordinator
  commits (\<open>_commit_dialogue_events\<close>).  A branch gets the state \<open>s\<close>, the state
  \<open>n\<close> with sequence and version already advanced (the source's \<open>next_state\<close>) and
  the committed event.  \<open>illegal\<close> is the source's \<open>_require\<close>.
\<close>

section \<open>Payload shapes\<close>

fun valid_event_payload_shape :: "dialogue_event_payload \<Rightarrow> bool" where
  "valid_event_payload_shape (SessionStarted t) \<longleftrightarrow> is_canonical_trigger_binding t"
| "valid_event_payload_shape (CandidatesPresented cs t) \<longleftrightarrow>
     valid_candidates_shape cs \<and> is_canonical_trigger_binding t"
| "valid_event_payload_shape (TopicSelectionSubmitted c t) \<longleftrightarrow>
     valid_text c \<and> is_canonical_trigger_binding t"
| "valid_event_payload_shape (TopicClarificationRequested qid q t) \<longleftrightarrow>
     valid_text qid \<and> valid_text q \<and> is_canonical_trigger_binding t"
| "valid_event_payload_shape (TopicClarificationAnswered qid a t) \<longleftrightarrow>
     valid_text qid \<and> valid_text a \<and> is_canonical_trigger_binding t"
| "valid_event_payload_shape (LensChanged trid l t) \<longleftrightarrow>
     valid_text trid \<and> is_canonical_trigger_binding t"
| "valid_event_payload_shape (HelpRequested trid qid t) \<longleftrightarrow>
     valid_text trid \<and> is_protocol_id qid \<and> is_canonical_trigger_binding t"
| "valid_event_payload_shape (TopicCompleted trid u t e asof fp) \<longleftrightarrow>
     valid_text trid \<and> valid_topic_summary u \<and> is_canonical_trigger_binding t
     \<and> valid_evidence_shape e \<and> valid_nonnegative_int asof \<and> is_sha256_digest fp"
| "valid_event_payload_shape (TopicStarted c e t sel st) \<longleftrightarrow>
     valid_contract_shape c \<and> valid_evidence_shape e \<and> is_canonical_trigger_binding t
     \<and> absent_or valid_text sel \<and> absent_or is_canonical_trigger_binding st"
| "valid_event_payload_shape (AgentTurnCommitted r t e) \<longleftrightarrow>
     valid_agent_turn_shape r \<and> is_canonical_trigger_binding t \<and> valid_evidence_shape e"
| "valid_event_payload_shape (LearnerTurnSubmitted qid ltid txt t) \<longleftrightarrow>
     valid_text qid \<and> valid_text ltid \<and> valid_text txt \<and> is_canonical_trigger_binding t"
| "valid_event_payload_shape (TopicPaused trid cause hid fg) \<longleftrightarrow>
     valid_text trid
     \<and> (if cause = PC_USER then hid = None \<and> fg = None
        else present valid_text hid \<and> present valid_positive_int fg)"
| "valid_event_payload_shape (TopicSwitchRequested trid t) \<longleftrightarrow>
     valid_text trid \<and> is_canonical_trigger_binding t"
| "valid_event_payload_shape (SessionDeactivationPrepared hid fg st) \<longleftrightarrow>
     valid_text hid \<and> valid_positive_int fg \<and> absent_or is_canonical_trigger_binding st"
| "valid_event_payload_shape (TopicExplorationRequested t) \<longleftrightarrow> is_canonical_trigger_binding t"
| "valid_event_payload_shape (TopicResumed trid rr t e) \<longleftrightarrow>
     valid_text trid \<and> absent_or is_canonical_trigger_binding t \<and> valid_evidence_shape e"
| "valid_event_payload_shape (WorkFailed wid t n f) \<longleftrightarrow>
     valid_text wid \<and> is_canonical_trigger_binding t \<and> valid_positive_int n
     \<and> valid_work_failure f"
| "valid_event_payload_shape (WorkRequeued wid t n f t' n') \<longleftrightarrow>
     valid_text wid \<and> is_canonical_trigger_binding t \<and> valid_positive_int n
     \<and> valid_work_failure f \<and> is_canonical_trigger_binding t' \<and> valid_positive_int n'"
| "valid_event_payload_shape (WorkDeadLettered wid t n f acts) \<longleftrightarrow>
     valid_text wid \<and> is_canonical_trigger_binding t \<and> valid_positive_int n
     \<and> valid_work_failure f \<and> acts \<noteq> [] \<and> distinct acts"
| "valid_event_payload_shape (WorkRecoveryRequested wid a t e) \<longleftrightarrow>
     valid_text wid \<and> is_canonical_trigger_binding t \<and> valid_evidence_shape e"
| "valid_event_payload_shape (ExportRequested xid n iid asof at dg) \<longleftrightarrow>
     is_protocol_id xid \<and> valid_positive_int n \<and> is_protocol_id iid
     \<and> valid_nonnegative_int asof \<and> valid_text at \<and> is_sha256_digest dg"
| "valid_event_payload_shape (ExportCompleted xid n iid at jp jd mp md fd) \<longleftrightarrow>
     is_protocol_id xid \<and> valid_positive_int n \<and> is_protocol_id iid \<and> valid_text at
     \<and> is_protocol_id jp \<and> is_sha256_digest jd \<and> is_protocol_id mp \<and> is_sha256_digest md
     \<and> is_sha256_digest fd"

definition valid_committed_event_envelope :: "committed_dialogue_event \<Rightarrow> bool" where
  "valid_committed_event_envelope ev \<longleftrightarrow>
     is_protocol_id (ce_event_id ev)
     \<and> valid_positive_int (ce_sequence ev)
     \<and> valid_nonnegative_int (ce_from_version ev)
     \<and> valid_nonnegative_int (ce_to_version ev)
     \<and> is_protocol_id (ce_command_id ev)
     \<and> valid_event_payload_shape (ce_payload ev)"

text \<open>The version effect of a fact: zero for the version-neutral ones, else one.\<close>

fun conversation_version_delta :: "dialogue_event_payload \<Rightarrow> int" where
  "conversation_version_delta (WorkFailed _ _ _ _) = 0"
| "conversation_version_delta (WorkRequeued _ _ _ _ _ _) = 0"
| "conversation_version_delta (ExportRequested _ _ _ _ _ _) = 0"
| "conversation_version_delta (ExportCompleted _ _ _ _ _ _ _ _ _) = 0"
| "conversation_version_delta _ = 1"

section \<open>Pieces of the branches\<close>

abbreviation illegal :: "bool \<Rightarrow> code + 'a \<Rightarrow> code + 'a" where
  "illegal \<equiv> require ILLEGAL_EVENT_TRANSITION"

text \<open>A fresh first attempt created by the event.\<close>

definition fresh_work ::
  "dialogue_state \<Rightarrow> committed_dialogue_event \<Rightarrow> trigger_binding \<Rightarrow> code + current_work_state" where
  "fresh_work s ev t = queued_work_from_event (session_id s) ev t 1 None"

text \<open>Work of a topic leaving the foreground: queued and failed work is superseded.\<close>

definition supersede_work :: "current_work_state option \<Rightarrow> current_work_state option" where
  "supersede_work v =
     map_option (\<lambda>w. if cw_status w \<in> {WS_QUEUED, WS_FAILED} then w\<lparr>cw_status := WS_SUPERSEDED\<rparr>
                     else w) v"

definition pause_run :: "topic_run_state \<Rightarrow> topic_run_state" where
  "pause_run t = t\<lparr>tr_lifecycle := TL_PAUSED, tr_work := supersede_work (tr_work t)\<rparr>"

text \<open>Regrounding downgrades progress: gates and confirmed entries become stale.\<close>

definition stale_gate :: "gate_assessment \<Rightarrow> gate_assessment" where
  "stale_gate g =
     (if ga_status g \<in> {GS_EMERGING, GS_ASSISTED, GS_SUPPORTED} then g\<lparr>ga_status := GS_STALE\<rparr>
      else g)"

definition stale_entry :: "learner_model_entry \<Rightarrow> learner_model_entry" where
  "stale_entry m = (if lm_status m = IS_CONFIRMED then m\<lparr>lm_status := IS_STALE\<rparr> else m)"

definition downgrade :: "topic_run_state \<Rightarrow> topic_run_state" where
  "downgrade t =
     t\<lparr>tr_gates := map stale_gate (tr_gates t),
       tr_learner_model := map stale_entry (tr_learner_model t)\<rparr>"

definition with_evidence :: "evidence_check \<Rightarrow> topic_run_state \<Rightarrow> topic_run_state" where
  "with_evidence e t =
     t\<lparr>tr_evidence_health := ec_health e, tr_evidence_digest := ec_evidence_digest e,
       tr_exact_recheck_fingerprint := ec_exact_recheck_fingerprint e\<rparr>"

section \<open>Session and topic selection\<close>

definition red_session_started ::
  "dialogue_state \<Rightarrow> dialogue_state \<Rightarrow> committed_dialogue_event
    \<Rightarrow> trigger_binding \<Rightarrow> code + dialogue_state" where
  "red_session_started s n ev t =
     illegal (lifecycle s = SL_NEW \<and> phase s = PHASE_NONE \<and> session_work s = None
              \<and> valid_trigger t TK_TOPIC_CANDIDATES None (tb_evidence_digest t))
       (andthen (fresh_work s ev t) (\<lambda>w.
          Inr (n\<lparr>lifecycle := SL_OPEN, phase := WAITING_HOST, session_work := Some w\<rparr>)))"

definition red_candidates_presented ::
  "dialogue_state \<Rightarrow> dialogue_state \<Rightarrow> committed_dialogue_event
    \<Rightarrow> pystr list \<Rightarrow> trigger_binding \<Rightarrow> code + dialogue_state" where
  "red_candidates_presented s n ev cs t =
     illegal (phase s = WAITING_HOST \<and> active_topic s = None
              \<and> is_queued (session_work s) \<and> valid_candidates cs
              \<and> session_unresolved_trigger s = Some t)
       (Inr (n\<lparr>candidates := cs, phase := CHOOSING_TOPIC, session_work := None\<rparr>))"

definition red_topic_selection_submitted ::
  "dialogue_state \<Rightarrow> dialogue_state \<Rightarrow> committed_dialogue_event \<Rightarrow> pystr
    \<Rightarrow> trigger_binding \<Rightarrow> code + dialogue_state" where
  "red_topic_selection_submitted s n ev c t =
     illegal (choosing_allowed s \<and> valid_text c
              \<and> valid_trigger t TK_TOPIC_SELECTION None (tb_evidence_digest t))
       (andthen (fresh_work s ev t) (\<lambda>w.
          Inr (n\<lparr>candidates := [], selected_candidate := Some c, phase := WAITING_HOST,
                 session_work := Some w, topic_clarification := None\<rparr>)))"

definition red_topic_clarification_requested ::
  "dialogue_state \<Rightarrow> dialogue_state \<Rightarrow> committed_dialogue_event \<Rightarrow> pystr
    \<Rightarrow> pystr \<Rightarrow> trigger_binding \<Rightarrow> code + dialogue_state" where
  "red_topic_clarification_requested s n ev qid q t =
     illegal (phase s = WAITING_HOST \<and> active_topic s = None \<and> selected_candidate s \<noteq> None
              \<and> is_queued (session_work s) \<and> has_kind TK_TOPIC_SELECTION (session_work s)
              \<and> session_unresolved_trigger s = Some t)
       (Inr (n\<lparr>phase := CLARIFYING_TOPIC, session_work := None,
               topic_clarification :=
                 Some \<lparr>cl_question_id = qid, cl_question = q, cl_answer = None\<rparr>\<rparr>))"

definition red_topic_clarification_answered ::
  "dialogue_state \<Rightarrow> dialogue_state \<Rightarrow> committed_dialogue_event \<Rightarrow> pystr
    \<Rightarrow> pystr \<Rightarrow> trigger_binding \<Rightarrow> code + dialogue_state" where
  "red_topic_clarification_answered s n ev qid a t =
     illegal (phase s = CLARIFYING_TOPIC \<and> active_topic s = None \<and> selected_candidate s \<noteq> None
              \<and> session_work s = None
              \<and> present (\<lambda>c. cl_answer c = None \<and> cl_question_id c = qid) (topic_clarification s)
              \<and> valid_trigger t TK_TOPIC_SELECTION None (tb_evidence_digest t)
              \<and> tb_parent_turn_id t = Some qid)
       (andthen (fresh_work s ev t) (\<lambda>w.
          Inr (n\<lparr>phase := WAITING_HOST, session_work := Some w,
                 topic_clarification :=
                   map_option (\<lambda>c. c\<lparr>cl_answer := Some a\<rparr>) (topic_clarification s)\<rparr>)))"

text \<open>The topic run a contract opens.\<close>

definition new_topic_run ::
  "topic_contract \<Rightarrow> evidence_check \<Rightarrow> current_work_state \<Rightarrow> topic_run_state" where
  "new_topic_run c e w =
     \<lparr>tr_topic_run_id = tc_topic_run_id c, tr_contract = c, tr_lifecycle = TL_ACTIVE,
      tr_evidence_health = ec_health e, tr_evidence_digest = ec_evidence_digest e,
      tr_exact_recheck_fingerprint = ec_exact_recheck_fingerprint e,
      tr_gates = map (new_gate_assessment \<circ> gr_gate_id) (tc_gates c),
      tr_learner_model = [], tr_current_agent_turn = None, tr_work = Some w,
      tr_learner_turn_ids = [], tr_last_learner_turn_id = None, tr_last_learner_text = None,
      tr_current_lens = None, tr_summary = None\<rparr>"

definition started_from_candidates :: "dialogue_state \<Rightarrow> pystr option \<Rightarrow> trigger_binding option \<Rightarrow> bool" where
  "started_from_candidates s sel st \<longleftrightarrow> legacy_selection s sel \<and> st = None"

definition started_from_selection :: "dialogue_state \<Rightarrow> pystr option \<Rightarrow> trigger_binding option \<Rightarrow> bool" where
  "started_from_selection s sel st \<longleftrightarrow>
     phase s = WAITING_HOST
     \<and> is_queued (session_work s) \<and> has_kind TK_TOPIC_SELECTION (session_work s)
     \<and> sel = selected_candidate s
     \<and> st = session_unresolved_trigger s"

definition red_topic_started ::
  "dialogue_state \<Rightarrow> dialogue_state \<Rightarrow> committed_dialogue_event
    \<Rightarrow> topic_contract \<Rightarrow> evidence_check \<Rightarrow> trigger_binding
    \<Rightarrow> pystr option \<Rightarrow> trigger_binding option \<Rightarrow> code + dialogue_state" where
  "red_topic_started s n ev c e t sel st =
     illegal (active_topic s = None
              \<and> (started_from_candidates s sel st \<or> started_from_selection s sel st))
       (illegal (valid_contract c \<and> valid_evidence e)
         (illegal (valid_trigger t (initial_kind e) (Some (tc_contract_digest c))
                     (ec_evidence_digest e))
           (andthen (fresh_work s ev t) (\<lambda>w.
              Inr (n\<lparr>active_topic := Some (new_topic_run c e w), candidates := [],
                     selected_candidate := None, topic_clarification := None,
                     session_work := None, phase := WAITING_HOST\<rparr>)))))"

section \<open>Turns\<close>

definition commit_run :: "topic_run_state \<Rightarrow> agent_turn_result \<Rightarrow> topic_run_state" where
  "commit_run t r =
     t\<lparr>tr_learner_model := apply_model_updates (tr_learner_model t) (at_learner_model_delta r),
       tr_gates := at_gate_assessments r, tr_current_agent_turn := Some r, tr_work := None\<rparr>"

definition red_agent_turn_committed ::
  "dialogue_state \<Rightarrow> dialogue_state \<Rightarrow> committed_dialogue_event
    \<Rightarrow> agent_turn_result \<Rightarrow> trigger_binding \<Rightarrow> evidence_check
    \<Rightarrow> code + dialogue_state" where
  "red_agent_turn_committed s n ev r t e =
     (case active_topic s of
        None \<Rightarrow> Inl ILLEGAL_EVENT_TRANSITION
      | Some topic \<Rightarrow>
          illegal (phase s = WAITING_HOST \<and> open_question_id topic = None
                   \<and> is_queued (tr_work topic)
                   \<and> tr_evidence_health topic \<in> PUBLISHABLE_EVIDENCE
                   \<and> valid_evidence e
                   \<and> map_option cw_trigger (tr_work topic) = Some t
                   \<and> \<not> evidence_differs e topic
                   \<and> valid_agent_turn (tr_contract topic) r e (set (tr_learner_turn_ids topic)))
            (illegal (valid_model_updates (tr_learner_model topic) (at_learner_model_delta r))
              (Inr (n\<lparr>active_topic := Some (commit_run topic r), phase := AWAITING_USER\<rparr>))))"

definition learner_run ::
  "topic_run_state \<Rightarrow> pystr \<Rightarrow> pystr \<Rightarrow> current_work_state \<Rightarrow> topic_run_state" where
  "learner_run t ltid txt w =
     t\<lparr>tr_current_agent_turn := None, tr_work := Some w,
       tr_learner_turn_ids := tr_learner_turn_ids t @ [ltid],
       tr_last_learner_turn_id := Some ltid, tr_last_learner_text := Some txt\<rparr>"

definition red_learner_turn_submitted ::
  "dialogue_state \<Rightarrow> dialogue_state \<Rightarrow> committed_dialogue_event \<Rightarrow> pystr
    \<Rightarrow> pystr \<Rightarrow> pystr \<Rightarrow> trigger_binding
    \<Rightarrow> code + dialogue_state" where
  "red_learner_turn_submitted s n ev qid ltid txt t =
     (case active_topic s of
        None \<Rightarrow> Inl ILLEGAL_EVENT_TRANSITION
      | Some topic \<Rightarrow>
          illegal (phase s = AWAITING_USER \<and> open_question_id topic = Some qid
                   \<and> tr_work topic = None
                   \<and> valid_text qid \<and> valid_text ltid \<and> valid_text txt
                   \<and> ltid \<notin> set (tr_learner_turn_ids topic)
                   \<and> valid_trigger t TK_LEARNER_REPLY
                       (Some (tc_contract_digest (tr_contract topic))) (tr_evidence_digest topic)
                   \<and> tb_parent_turn_id t = Some ltid)
            (andthen (fresh_work s ev t) (\<lambda>w.
               Inr (n\<lparr>active_topic := Some (learner_run topic ltid txt w),
                      phase := WAITING_HOST\<rparr>))))"

definition requeue_run :: "topic_run_state \<Rightarrow> current_work_state \<Rightarrow> topic_run_state" where
  "requeue_run t w = t\<lparr>tr_current_agent_turn := None, tr_work := Some w\<rparr>"

definition red_lens_changed ::
  "dialogue_state \<Rightarrow> dialogue_state \<Rightarrow> committed_dialogue_event \<Rightarrow> pystr
    \<Rightarrow> lens \<Rightarrow> trigger_binding \<Rightarrow> code + dialogue_state" where
  "red_lens_changed s n ev trid l t =
     (case active_topic s of
        None \<Rightarrow> Inl ILLEGAL_EVENT_TRANSITION
      | Some topic \<Rightarrow>
          illegal (phase s \<in> {AWAITING_USER, WAITING_HOST}
                   \<and> trid = tr_topic_run_id topic \<and> l \<noteq> topic_lens topic
                   \<and> valid_trigger t TK_LENS_CHANGED
                       (Some (tc_contract_digest (tr_contract topic))) (tr_evidence_digest topic))
            (illegal (tb_parent_turn_id t = lens_parent (phase s) topic)
              (andthen (fresh_work s ev t) (\<lambda>w.
                 Inr (n\<lparr>active_topic := Some ((requeue_run topic w)\<lparr>tr_current_lens := Some l\<rparr>),
                        phase := WAITING_HOST\<rparr>)))))"

definition red_help_requested ::
  "dialogue_state \<Rightarrow> dialogue_state \<Rightarrow> committed_dialogue_event \<Rightarrow> pystr
    \<Rightarrow> pystr \<Rightarrow> trigger_binding \<Rightarrow> code + dialogue_state" where
  "red_help_requested s n ev trid qid t =
     (case active_topic s of
        None \<Rightarrow> Inl ILLEGAL_EVENT_TRANSITION
      | Some topic \<Rightarrow>
          illegal (phase s = AWAITING_USER \<and> open_question_id topic = Some qid
                   \<and> trid = tr_topic_run_id topic
                   \<and> valid_trigger t TK_HELP
                       (Some (tc_contract_digest (tr_contract topic))) (tr_evidence_digest topic)
                   \<and> tb_parent_turn_id t = Some qid)
            (andthen (fresh_work s ev t) (\<lambda>w.
               Inr (n\<lparr>active_topic := Some (requeue_run topic w), phase := WAITING_HOST\<rparr>))))"

section \<open>Completing, pausing, switching, exploring\<close>

definition complete_run :: "topic_run_state \<Rightarrow> topic_summary \<Rightarrow> topic_run_state" where
  "complete_run t u =
     t\<lparr>tr_lifecycle := TL_COMPLETED, tr_current_agent_turn := None, tr_work := None,
       tr_summary := Some u\<rparr>"

definition red_topic_completed ::
  "dialogue_state \<Rightarrow> dialogue_state \<Rightarrow> committed_dialogue_event \<Rightarrow> pystr
    \<Rightarrow> topic_summary \<Rightarrow> trigger_binding \<Rightarrow> evidence_check \<Rightarrow> int
    \<Rightarrow> pystr \<Rightarrow> code + dialogue_state" where
  "red_topic_completed s n ev trid u t e asof fp =
     (case active_topic s of
        None \<Rightarrow> Inl ILLEGAL_EVENT_TRANSITION
      | Some topic \<Rightarrow>
          illegal (phase s = WAITING_HOST \<and> is_queued (tr_work topic)
                   \<and> trid = tr_topic_run_id topic
                   \<and> map_option cw_trigger (tr_work topic) = Some t
                   \<and> \<not> evidence_differs e topic
                   \<and> ec_health e \<in> PUBLISHABLE_EVIDENCE
                   \<and> asof = sequence s
                   \<and> fp = evidence_fingerprint e
                   \<and> completion_guard topic u)
            (Inr (n\<lparr>active_topic := None,
                    completed_topics := completed_topics s @ [complete_run topic u],
                    phase := PHASE_NONE\<rparr>)))"

definition red_topic_paused ::
  "dialogue_state \<Rightarrow> dialogue_state \<Rightarrow> committed_dialogue_event \<Rightarrow> pystr
    \<Rightarrow> pause_cause \<Rightarrow> pystr option \<Rightarrow> int option
    \<Rightarrow> code + dialogue_state" where
  "red_topic_paused s n ev trid cause hid fg =
     (case active_topic s of
        None \<Rightarrow> Inl ILLEGAL_EVENT_TRANSITION
      | Some topic \<Rightarrow>
          illegal (valid_text trid \<and> tr_topic_run_id topic = trid)
            (illegal (if cause = PC_USER then hid = None \<and> fg = None
                      else present valid_text hid \<and> fg = Some (registry_generation s + 1))
              (Inr (n\<lparr>active_topic := None,
                      paused_topics := paused_topics n @ [pause_run topic],
                      phase := PHASE_NONE\<rparr>))))"

definition red_topic_switch_requested ::
  "dialogue_state \<Rightarrow> dialogue_state \<Rightarrow> committed_dialogue_event \<Rightarrow> pystr
    \<Rightarrow> trigger_binding \<Rightarrow> code + dialogue_state" where
  "red_topic_switch_requested s n ev trid t =
     (case active_topic s of
        None \<Rightarrow> Inl ILLEGAL_EVENT_TRANSITION
      | Some topic \<Rightarrow>
          illegal (tr_topic_run_id topic = trid
                   \<and> valid_trigger t TK_TOPIC_CANDIDATES None (tb_evidence_digest t))
            (andthen (fresh_work s ev t) (\<lambda>w.
               Inr (n\<lparr>active_topic := None,
                      paused_topics := paused_topics s @ [pause_run topic],
                      candidates := [], selected_candidate := None, topic_clarification := None,
                      session_work := Some w, phase := WAITING_HOST\<rparr>))))"

definition red_topic_exploration_requested ::
  "dialogue_state \<Rightarrow> dialogue_state \<Rightarrow> committed_dialogue_event
    \<Rightarrow> trigger_binding \<Rightarrow> code + dialogue_state" where
  "red_topic_exploration_requested s n ev t =
     illegal (phase s = PHASE_NONE \<and> active_topic s = None \<and> session_work s = None
              \<and> (completed_topics s \<noteq> [] \<or> paused_topics s \<noteq> [])
              \<and> valid_trigger t TK_TOPIC_CANDIDATES None (tb_evidence_digest t))
       (andthen (fresh_work s ev t) (\<lambda>w.
          Inr (n\<lparr>candidates := [], selected_candidate := None, topic_clarification := None,
                 session_work := Some w, phase := WAITING_HOST\<rparr>)))"

definition red_session_deactivation_prepared ::
  "dialogue_state \<Rightarrow> dialogue_state \<Rightarrow> committed_dialogue_event \<Rightarrow> pystr
    \<Rightarrow> int \<Rightarrow> trigger_binding option \<Rightarrow> code + dialogue_state" where
  "red_session_deactivation_prepared s n ev hid fg st =
     illegal (((lifecycle s = SL_NEW \<and> phase s = PHASE_NONE \<and> session_work s = None)
               \<or> (lifecycle s = SL_OPEN \<and> phase s \<noteq> PHASE_NONE))
              \<and> active_topic s = None \<and> valid_text hid
              \<and> fg = registry_generation s + 1
              \<and> st = session_unresolved_trigger s)
       (Inr (n\<lparr>lifecycle := SL_OPEN, phase := PHASE_NONE, candidates := [],
               selected_candidate := None, topic_clarification := None, session_work := None\<rparr>))"

section \<open>Resuming\<close>

text \<open>The resumed run with the checked evidence, before its work is decided.\<close>

definition resumed_run :: "topic_run_state \<Rightarrow> evidence_check \<Rightarrow> topic_run_state" where
  "resumed_run t e = with_evidence e (t\<lparr>tr_lifecycle := TL_ACTIVE\<rparr>)"

definition resume_active ::
  "dialogue_state \<Rightarrow> committed_dialogue_event \<Rightarrow> topic_run_state \<Rightarrow> trigger_binding option
    \<Rightarrow> evidence_check \<Rightarrow> code + topic_run_state \<times> conversation_phase" where
  "resume_active s ev paused t e =
     (let active = resumed_run paused e in
      if requires_reground e paused
      then (case t of
              None \<Rightarrow> Inl ILLEGAL_EVENT_TRANSITION
            | Some rt \<Rightarrow>
                illegal (valid_trigger rt TK_REGROUND
                           (Some (tc_contract_digest (tr_contract paused))) (ec_evidence_digest e))
                  (andthen (fresh_work s ev rt) (\<lambda>w.
                     Inr (downgrade (requeue_run active w), WAITING_HOST))))
      else if open_question_id active \<noteq> None
      then illegal (t = None) (illegal (tr_work active = None) (Inr (active, AWAITING_USER)))
      else (case tr_work active of
              None \<Rightarrow> Inl STATE_INVARIANT_VIOLATION
            | Some saved \<Rightarrow>
                (case t of
                   None \<Rightarrow> Inl ILLEGAL_EVENT_TRANSITION
                 | Some rt \<Rightarrow>
                     illegal (cw_status saved = WS_SUPERSEDED)
                       (illegal (valid_trigger rt (tb_kind (cw_trigger saved))
                                   (Some (tc_contract_digest (tr_contract active)))
                                   (ec_evidence_digest e)
                                 \<and> tb_work_id rt \<noteq> tb_work_id (cw_trigger saved)
                                 \<and> tb_parent_turn_id rt = tb_parent_turn_id (cw_trigger saved)
                                 \<and> tb_input_digest rt = tb_input_digest (cw_trigger saved))
                         (andthen (fresh_work s ev rt) (\<lambda>w.
                            Inr (active\<lparr>tr_work := Some w\<rparr>, WAITING_HOST)))))))"

definition red_topic_resumed ::
  "dialogue_state \<Rightarrow> dialogue_state \<Rightarrow> committed_dialogue_event \<Rightarrow> pystr
    \<Rightarrow> bool \<Rightarrow> trigger_binding option \<Rightarrow> evidence_check
    \<Rightarrow> code + dialogue_state" where
  "red_topic_resumed s n ev trid rr t e =
     illegal (valid_text trid \<and> valid_evidence e \<and> phase s = PHASE_NONE \<and> active_topic s = None)
       (case filter (\<lambda>x. tr_topic_run_id x = trid) (paused_topics s) of
          [paused] \<Rightarrow>
            illegal (rr = requires_reground e paused)
              (andthen (resume_active s ev paused t e) (\<lambda>(active, ph).
                 Inr (n\<lparr>active_topic := Some active,
                        paused_topics :=
                          filter (\<lambda>x. tr_topic_run_id x \<noteq> trid) (paused_topics s),
                        phase := ph\<rparr>)))
        | _ \<Rightarrow> Inl ILLEGAL_EVENT_TRANSITION)"

section \<open>Work failure and recovery\<close>

definition replace_work ::
  "dialogue_state \<Rightarrow> current_work_state \<Rightarrow> current_work_state \<Rightarrow> code + dialogue_state" where
  "replace_work s current replacement =
     (if session_work s = Some current then Inr (s\<lparr>session_work := Some replacement\<rparr>)
      else if active_work s = Some current
      then Inr (s\<lparr>active_topic :=
             map_option (\<lambda>t. t\<lparr>tr_work := Some replacement\<rparr>) (active_topic s)\<rparr>)
      else if length (filter (\<lambda>t. tr_work t = Some current) (paused_topics s)) \<noteq> 1
      then Inl STATE_INVARIANT_VIOLATION
      else Inr (s\<lparr>paused_topics :=
             map (\<lambda>t. if tr_work t = Some current then t\<lparr>tr_work := Some replacement\<rparr> else t)
               (paused_topics s)\<rparr>))"

definition red_work_failed ::
  "dialogue_state \<Rightarrow> dialogue_state \<Rightarrow> committed_dialogue_event \<Rightarrow> pystr
    \<Rightarrow> trigger_binding \<Rightarrow> int \<Rightarrow> work_failure
    \<Rightarrow> code + dialogue_state" where
  "red_work_failed s n ev wid t attempt f =
     (case current_nonterminal_work s of
        None \<Rightarrow> Inl ILLEGAL_EVENT_TRANSITION
      | Some w \<Rightarrow>
          illegal (phase s = WAITING_HOST \<and> cw_status w = WS_QUEUED
                   \<and> wid = cw_work_id w \<and> t = cw_trigger w \<and> attempt = cw_attempt w
                   \<and> valid_work_failure f)
            (replace_work n w (w\<lparr>cw_status := WS_FAILED, cw_last_failure := Some f\<rparr>)))"

definition red_work_requeued ::
  "dialogue_state \<Rightarrow> dialogue_state \<Rightarrow> committed_dialogue_event \<Rightarrow> pystr
    \<Rightarrow> trigger_binding \<Rightarrow> int \<Rightarrow> work_failure \<Rightarrow> trigger_binding
    \<Rightarrow> int \<Rightarrow> code + dialogue_state" where
  "red_work_requeued s n ev wid t attempt f t' attempt' =
     (case current_nonterminal_work s of
        None \<Rightarrow> Inl ILLEGAL_EVENT_TRANSITION
      | Some w \<Rightarrow>
          illegal (phase s = WAITING_HOST \<and> cw_status w = WS_FAILED
                   \<and> wid = cw_work_id w \<and> t = cw_trigger w \<and> attempt = cw_attempt w
                   \<and> Some f = cw_last_failure w \<and> attempt' = cw_attempt w + 1
                   \<and> automatic_retry_allowed w \<and> retry_trigger_matches (cw_trigger w) t')
            (andthen (queued_work_from_event (session_id s) ev t' attempt' (Some f))
              (\<lambda>w'. replace_work n w w')))"

definition red_work_dead_lettered ::
  "dialogue_state \<Rightarrow> dialogue_state \<Rightarrow> committed_dialogue_event \<Rightarrow> pystr
    \<Rightarrow> trigger_binding \<Rightarrow> int \<Rightarrow> work_failure
    \<Rightarrow> work_recovery_action list \<Rightarrow> code + dialogue_state" where
  "red_work_dead_lettered s n ev wid t attempt f acts =
     (case current_nonterminal_work s of
        None \<Rightarrow> Inl ILLEGAL_EVENT_TRANSITION
      | Some w \<Rightarrow>
          illegal (phase s = WAITING_HOST \<and> cw_status w = WS_FAILED
                   \<and> wid = cw_work_id w \<and> t = cw_trigger w \<and> attempt = cw_attempt w
                   \<and> Some f = cw_last_failure w \<and> \<not> automatic_retry_allowed w
                   \<and> acts = allowed_recovery_actions s)
            (andthen
              (replace_work n w
                (w\<lparr>cw_status := WS_DEAD_LETTER, cw_allowed_recovery_actions := acts\<rparr>))
              (\<lambda>n'. Inr (n'\<lparr>phase := RECOVERABLE_ERROR\<rparr>))))"

text \<open>The topic a recovery restarts; regrounding also downgrades its progress.\<close>

definition recovered_run ::
  "topic_run_state \<Rightarrow> evidence_check \<Rightarrow> work_recovery_action \<Rightarrow> current_work_state
    \<Rightarrow> topic_run_state" where
  "recovered_run t e a w =
     (let r = requeue_run (resumed_run t e) w in if a = RA_REGROUND then downgrade r else r)"

definition red_work_recovery_requested ::
  "dialogue_state \<Rightarrow> dialogue_state \<Rightarrow> committed_dialogue_event \<Rightarrow> pystr
    \<Rightarrow> work_recovery_action \<Rightarrow> trigger_binding \<Rightarrow> evidence_check
    \<Rightarrow> code + dialogue_state" where
  "red_work_recovery_requested s n ev wid a t e =
     (case dead_work_target s wid of
        None \<Rightarrow> Inl ILLEGAL_EVENT_TRANSITION
      | Some (dead, target, paused) \<Rightarrow>
          illegal (a \<in> set (cw_allowed_recovery_actions dead) \<and> valid_evidence e)
            (illegal (recovery_allowed a dead target t e)
              (andthen (fresh_work s ev t) (\<lambda>w.
                 (case target of
                    None \<Rightarrow>
                      illegal (\<not> paused \<and> phase s = RECOVERABLE_ERROR
                               \<and> session_work s = Some dead)
                        (Inr (n\<lparr>session_work := Some w, phase := WAITING_HOST\<rparr>))
                  | Some topic \<Rightarrow>
                      if paused
                      then illegal (phase s = PHASE_NONE \<and> active_topic s = None)
                        (Inr (n\<lparr>active_topic := Some (recovered_run topic e a w),
                                paused_topics :=
                                  filter (\<lambda>x. tr_topic_run_id x \<noteq> tr_topic_run_id topic)
                                    (paused_topics s),
                                phase := WAITING_HOST\<rparr>))
                      else illegal (phase s = RECOVERABLE_ERROR \<and> active_topic s = Some topic)
                        (Inr (n\<lparr>active_topic := Some (recovered_run topic e a w),
                                phase := WAITING_HOST\<rparr>)))))))"

section \<open>Exports\<close>

definition new_export ::
  "pystr \<Rightarrow> int \<Rightarrow> pystr \<Rightarrow> int \<Rightarrow> pystr \<Rightarrow> pystr \<Rightarrow> export_record" where
  "new_export xid k iid asof at dg =
     \<lparr>ex_export_id = xid, ex_export_sequence = k, ex_intent_id = iid,
      ex_as_of_event_sequence = asof, ex_requested_at = at, ex_payload_digest = dg,
      ex_status = ES_REQUESTED, ex_completed_at = None, ex_json_path = None,
      ex_json_digest = None, ex_markdown_path = None, ex_markdown_digest = None,
      ex_freshness_overlay_digest = None\<rparr>"

definition red_export_requested ::
  "dialogue_state \<Rightarrow> dialogue_state \<Rightarrow> committed_dialogue_event \<Rightarrow> pystr
    \<Rightarrow> int \<Rightarrow> pystr \<Rightarrow> int \<Rightarrow> pystr \<Rightarrow> pystr
    \<Rightarrow> code + dialogue_state" where
  "red_export_requested s n ev xid k iid asof at dg =
     illegal (lifecycle s \<in> {SL_OPEN, SL_ENDED} \<and> is_protocol_id xid
              \<and> k = int (length (exports s)) + 1 \<and> is_protocol_id iid
              \<and> asof = sequence s \<and> valid_text at \<and> is_sha256_digest dg
              \<and> list_all (\<lambda>r. ex_export_id r \<noteq> xid \<and> ex_intent_id r \<noteq> iid) (exports s))
       (Inr (n\<lparr>exports := exports s @ [new_export xid k iid asof at dg]\<rparr>))"

definition finish_export ::
  "pystr \<Rightarrow> pystr \<Rightarrow> pystr \<Rightarrow> pystr \<Rightarrow> pystr \<Rightarrow> pystr \<Rightarrow> export_record \<Rightarrow> export_record" where
  "finish_export at jp jd mp md fd r =
     r\<lparr>ex_status := ES_COMPLETED, ex_completed_at := Some at, ex_json_path := Some jp,
       ex_json_digest := Some jd, ex_markdown_path := Some mp, ex_markdown_digest := Some md,
       ex_freshness_overlay_digest := Some fd\<rparr>"

definition red_export_completed ::
  "dialogue_state \<Rightarrow> dialogue_state \<Rightarrow> committed_dialogue_event \<Rightarrow> pystr
    \<Rightarrow> int \<Rightarrow> pystr \<Rightarrow> pystr \<Rightarrow> pystr \<Rightarrow> pystr
    \<Rightarrow> pystr \<Rightarrow> pystr \<Rightarrow> pystr \<Rightarrow> code + dialogue_state" where
  "red_export_completed s n ev xid k iid at jp jd mp md fd =
     illegal (lifecycle s \<in> {SL_OPEN, SL_ENDED} \<and> is_protocol_id xid \<and> valid_positive_int k
              \<and> is_protocol_id iid \<and> valid_text at \<and> is_protocol_id jp \<and> is_sha256_digest jd
              \<and> is_protocol_id mp \<and> is_sha256_digest md \<and> is_sha256_digest fd)
       (case filter (\<lambda>r. ex_export_id r = xid) (exports s) of
          [x] \<Rightarrow>
            illegal (ex_status x = ES_REQUESTED \<and> ex_export_sequence x = k \<and> ex_intent_id x = iid)
              (Inr (n\<lparr>exports :=
                 map (\<lambda>r. if ex_export_id r = xid then finish_export at jp jd mp md fd r else r)
                   (exports s)\<rparr>))
        | _ \<Rightarrow> Inl ILLEGAL_EVENT_TRANSITION)"

section \<open>Reduce\<close>

definition apply_payload ::
  "dialogue_state \<Rightarrow> dialogue_state \<Rightarrow> committed_dialogue_event \<Rightarrow> code + dialogue_state" where
  "apply_payload s n ev =
     (case ce_payload ev of
        SessionStarted t \<Rightarrow> red_session_started s n ev t
      | CandidatesPresented cs t \<Rightarrow> red_candidates_presented s n ev cs t
      | TopicSelectionSubmitted c t \<Rightarrow> red_topic_selection_submitted s n ev c t
      | TopicClarificationRequested qid q t \<Rightarrow> red_topic_clarification_requested s n ev qid q t
      | TopicClarificationAnswered qid a t \<Rightarrow> red_topic_clarification_answered s n ev qid a t
      | TopicStarted c e t sel st \<Rightarrow> red_topic_started s n ev c e t sel st
      | AgentTurnCommitted r t e \<Rightarrow> red_agent_turn_committed s n ev r t e
      | LearnerTurnSubmitted qid ltid txt t \<Rightarrow> red_learner_turn_submitted s n ev qid ltid txt t
      | LensChanged trid l t \<Rightarrow> red_lens_changed s n ev trid l t
      | HelpRequested trid qid t \<Rightarrow> red_help_requested s n ev trid qid t
      | TopicCompleted trid u t e asof fp \<Rightarrow> red_topic_completed s n ev trid u t e asof fp
      | TopicPaused trid cause hid fg \<Rightarrow> red_topic_paused s n ev trid cause hid fg
      | TopicSwitchRequested trid t \<Rightarrow> red_topic_switch_requested s n ev trid t
      | TopicExplorationRequested t \<Rightarrow> red_topic_exploration_requested s n ev t
      | SessionDeactivationPrepared hid fg st \<Rightarrow>
          red_session_deactivation_prepared s n ev hid fg st
      | TopicResumed trid rr t e \<Rightarrow> red_topic_resumed s n ev trid rr t e
      | WorkFailed wid t k f \<Rightarrow> red_work_failed s n ev wid t k f
      | WorkRequeued wid t k f t' k' \<Rightarrow> red_work_requeued s n ev wid t k f t' k'
      | WorkDeadLettered wid t k f acts \<Rightarrow> red_work_dead_lettered s n ev wid t k f acts
      | WorkRecoveryRequested wid a t e \<Rightarrow> red_work_recovery_requested s n ev wid a t e
      | ExportRequested xid k iid asof at dg \<Rightarrow> red_export_requested s n ev xid k iid asof at dg
      | ExportCompleted xid k iid at jp jd mp md fd \<Rightarrow>
          red_export_completed s n ev xid k iid at jp jd mp md fd)"

definition advance :: "dialogue_state \<Rightarrow> committed_dialogue_event \<Rightarrow> dialogue_state" where
  "advance s ev = s\<lparr>sequence := ce_sequence ev, conversation_version := ce_to_version ev\<rparr>"

definition reduce :: "dialogue_state \<Rightarrow> committed_dialogue_event \<Rightarrow> code + dialogue_state" where
  "reduce s ev =
     (if \<not> validate_state s then Inl STATE_INVARIANT_VIOLATION
      else if \<not> valid_committed_event_envelope ev then Inl INVALID_EVENT_ENVELOPE
      else if ce_sequence ev \<noteq> sequence s + 1 then Inl EVENT_SEQUENCE_GAP
      else if ce_from_version ev \<noteq> conversation_version s then Inl EVENT_VERSION_CONFLICT
      else if ce_to_version ev \<noteq> ce_from_version ev + conversation_version_delta (ce_payload ev)
      then Inl EVENT_VERSION_CONFLICT
      else andthen (apply_payload s (advance s ev) ev)
        (\<lambda>s'. if validate_state s' then Inr s' else Inl STATE_INVARIANT_VIOLATION))"

text \<open>The store folds \<open>reduce\<close> over the events of a transaction and of the whole log.\<close>

fun replay :: "dialogue_state \<Rightarrow> committed_dialogue_event list \<Rightarrow> code + dialogue_state" where
  "replay s [] = Inr s"
| "replay s (ev # evs) = andthen (reduce s ev) (\<lambda>s'. replay s' evs)"

section \<open>Committing a decision\<close>

text \<open>\<open>_stable_id\<close> of the coordinator: a prefix, 48 digits of the request digest, an index.\<close>

definition stable_id :: "pystr \<Rightarrow> pystr \<Rightarrow> int option \<Rightarrow> code + pystr" where
  "stable_id prefix digest index =
     (let suffix = take 48 (if take 7 digest = digest_prefix then drop 7 digest else digest);
          base = prefix @ py ''.'' @ suffix;
          result = (case index of None \<Rightarrow> base | Some i \<Rightarrow> base @ py ''.'' @ int_str i)
      in if is_protocol_id result then Inr result else Inl IDENTITY_DERIVATION_FAILED)"

text \<open>
  The numbering loop of \<open>_commit_dialogue_events\<close>: consecutive sequences from the
  tip, versions advanced by the payload's effect, ids derived from the request.
\<close>

fun number_events ::
  "pystr \<Rightarrow> int \<Rightarrow> int \<Rightarrow> int \<Rightarrow> pending_dialogue_event list
    \<Rightarrow> code + committed_dialogue_event list" where
  "number_events digest index seq version [] = Inr []"
| "number_events digest index seq version (p # ps) =
     andthen (stable_id (py ''dlg.event'') digest (Some index)) (\<lambda>eid.
       (let version' = version + conversation_version_delta (pe_payload p);
            ev = \<lparr>ce_event_id = eid, ce_sequence = seq + 1, ce_from_version = version,
                  ce_to_version = version', ce_command_id = pe_command_id p,
                  ce_payload = pe_payload p\<rparr>
        in andthen (number_events digest (index + 1) (seq + 1) version' ps)
             (\<lambda>evs. Inr (ev # evs))))"

definition commit_events ::
  "dialogue_state \<Rightarrow> pystr \<Rightarrow> pending_dialogue_event list
    \<Rightarrow> code + committed_dialogue_event list" where
  "commit_events s digest ps = number_events digest 1 (sequence s) (conversation_version s) ps"

lemmas selection_branches [branch_defs] =
  red_session_started_def red_candidates_presented_def red_topic_selection_submitted_def
  red_topic_clarification_requested_def red_topic_clarification_answered_def
  red_topic_started_def

lemmas turn_branches [branch_defs] =
  red_agent_turn_committed_def red_learner_turn_submitted_def red_lens_changed_def
  red_help_requested_def

lemmas topic_branches [branch_defs] =
  red_topic_completed_def red_topic_paused_def red_topic_switch_requested_def
  red_topic_exploration_requested_def red_session_deactivation_prepared_def
  red_topic_resumed_def

lemmas work_branches [branch_defs] =
  red_work_failed_def red_work_requeued_def red_work_dead_lettered_def
  red_work_recovery_requested_def

lemmas export_branches [branch_defs] =
  red_export_requested_def red_export_completed_def

end
