(* ===== verification/Event_Codec.thy ===== *)
theory Event_Codec
  imports Event_Records Timestamps Reduce
begin

text \<open>
  The durable records of \<open>xsync_v2/event_codec.py\<close>: identifier checks over a whole value, digests of
  states and requests, and the building, validation, encoding and decoding of stored events,
  transaction markers, receipts and state snapshots.  A raised \<open>ValueError\<close> is its code.
\<close>

section \<open>Constants and helpers\<close>

definition SCHEMA_VERSION :: int where
  "SCHEMA_VERSION = 2"

definition PROTOCOL_VERSION :: pystr where
  "PROTOCOL_VERSION = py ''x-sync-dialogue/2''"

definition nonblank :: "pystr \<Rightarrow> bool" where
  "nonblank s \<longleftrightarrow> strip s \<noteq> []"

definition sha256_of :: "byte list \<Rightarrow> pystr" where
  "sha256_of raw = digest_prefix @ hexdigest raw"

text \<open>\<open>except ValueError as exc: raise ValueError(code) from exc\<close>.\<close>

definition reraise :: "'e \<Rightarrow> 'e + 'a \<Rightarrow> 'e + 'a" where
  "reraise e r = (case r of Inl _ \<Rightarrow> Inl e | Inr x \<Rightarrow> Inr x)"

lemma reraise_eq_Inr_iff [simp]: "reraise e r = Inr x \<longleftrightarrow> r = Inr x"
  by (simp add: reraise_def split: sum.split)

fun event_type :: "dialogue_event_payload \<Rightarrow> pystr" where
  "event_type (SessionStarted _) = py ''session_started''"
| "event_type (CandidatesPresented _ _) = py ''topic_candidates_presented''"
| "event_type (TopicSelectionSubmitted _ _) = py ''topic_selection_submitted''"
| "event_type (TopicClarificationRequested _ _ _) = py ''topic_clarification_requested''"
| "event_type (TopicClarificationAnswered _ _ _) = py ''topic_clarification_answered''"
| "event_type (LensChanged _ _ _) = py ''lens_changed''"
| "event_type (HelpRequested _ _ _) = py ''help_requested''"
| "event_type (TopicCompleted _ _ _ _ _ _) = py ''topic_completed''"
| "event_type (TopicExplorationRequested _) = py ''topic_exploration_requested''"
| "event_type (TopicStarted _ _ _ _ _) = py ''topic_started''"
| "event_type (AgentTurnCommitted _ _ _) = py ''agent_turn_committed''"
| "event_type (LearnerTurnSubmitted _ _ _ _) = py ''learner_turn_submitted''"
| "event_type (TopicPaused _ _ _ _) = py ''topic_paused''"
| "event_type (TopicSwitchRequested _ _) = py ''topic_switch_requested''"
| "event_type (SessionDeactivationPrepared _ _ _) = py ''session_deactivation_prepared''"
| "event_type (TopicResumed _ _ _ _) = py ''topic_resumed''"
| "event_type (WorkFailed _ _ _ _) = py ''work_failed''"
| "event_type (WorkRequeued _ _ _ _ _ _) = py ''work_requeued''"
| "event_type (WorkDeadLettered _ _ _ _ _) = py ''work_dead_lettered''"
| "event_type (WorkRecoveryRequested _ _ _ _) = py ''work_recovery_requested''"
| "event_type (ExportRequested _ _ _ _ _ _) = py ''export_requested''"
| "event_type (ExportCompleted _ _ _ _ _ _ _ _ _) = py ''export_completed''"

section \<open>Identifiers\<close>

definition ends_with :: "string \<Rightarrow> string \<Rightarrow> bool" where
  "ends_with w s \<longleftrightarrow> length w \<le> length s \<and> drop (length s - length w) s = w"

text \<open>The check of one field by the end of its name.\<close>

definition check_field :: "string \<Rightarrow> val \<Rightarrow> codec_code + unit" where
  "check_field name v =
     (if ends_with ''_id'' name then
        require INVALID_DOMAIN_IDENTIFIER
          (case v of VEnum _ _ \<Rightarrow> True | VNone \<Rightarrow> True | VStr s \<Rightarrow> is_protocol_id s | _ \<Rightarrow> False) (Inr ())
      else if ends_with ''_ids'' name then
        require INVALID_DOMAIN_IDENTIFIER
          (case v of
             VTuple vs \<Rightarrow> list_all (\<lambda>u. case u of VStr s \<Rightarrow> is_protocol_id s | _ \<Rightarrow> False) vs
           | _ \<Rightarrow> False) (Inr ())
      else if ends_with ''_digest'' name then
        require INVALID_DOMAIN_DIGEST
          (case v of VNone \<Rightarrow> True | VStr s \<Rightarrow> is_sha256_digest s | _ \<Rightarrow> False) (Inr ())
      else Inr ())"

fun validate_domain_identifiers :: "val \<Rightarrow> codec_code + unit"
  and validate_items :: "val list \<Rightarrow> codec_code + unit"
  and validate_fields :: "string list \<Rightarrow> val list \<Rightarrow> codec_code + unit" where
  "validate_domain_identifiers (VTuple vs) = validate_items vs"
| "validate_domain_identifiers (VRec n vs) =
     (case hints_of n of
        None \<Rightarrow> Inr ()
      | Some fs \<Rightarrow>
          require INVALID_DOMAIN_IDENTIFIER
            (n = ''TriggerBinding'' \<longrightarrow>
               (case un_trigger_binding (VRec n vs) of None \<Rightarrow> False | Some t \<Rightarrow> is_canonical_trigger_binding t))
            (validate_fields (map fst fs) vs))"
| "validate_domain_identifiers _ = Inr ()"
| "validate_items [] = Inr ()"
| "validate_items (v # vs) = andthen (validate_domain_identifiers v) (\<lambda>_. validate_items vs)"
| "validate_fields (k # ks) (v # vs) =
     andthen (check_field k v) (\<lambda>_.
     andthen (validate_domain_identifiers v) (\<lambda>_. validate_fields ks vs))"
| "validate_fields _ _ = Inr ()"

definition validate_dialogue_event :: "committed_dialogue_event \<Rightarrow> codec_code + unit" where
  "validate_dialogue_event ev =
     require INVALID_COMMITTED_DIALOGUE_EVENT
       (is_protocol_id (ce_event_id ev) \<and> 1 \<le> ce_sequence ev \<and> 0 \<le> ce_from_version ev
        \<and> is_protocol_id (ce_command_id ev))
    (require INVALID_COMMITTED_DIALOGUE_EVENT
       (ce_to_version ev = ce_from_version ev + conversation_version_delta (ce_payload ev))
       (validate_domain_identifiers (committed_dialogue_event_val ev)))"

definition validate_dialogue_state :: "dialogue_state \<Rightarrow> codec_code \<Rightarrow> codec_code + unit" where
  "validate_dialogue_state s e =
     require e (validate_state s) (reraise e (validate_domain_identifiers (dialogue_state_val s)))"

section \<open>Host values\<close>

definition host_types :: "string list" where
  "host_types = [''TopicContract'', ''AgentTurnResult'', ''TopicSummary'']"

definition decode_host_domain_value :: "json \<Rightarrow> string \<Rightarrow> codec_code + val" where
  "decode_host_domain_value j n =
     require HOST_DOMAIN_TYPE_NOT_ALLOWED (n \<in> set host_types)
       (andthen (from_tree j (TyRec n)) (\<lambda>v. andthen (validate_domain_identifiers v) (\<lambda>_. Inr v)))"

definition encode_host_domain_value :: "val \<Rightarrow> codec_code + json" where
  "encode_host_domain_value v =
     (case v of
        VRec n _ \<Rightarrow>
          require HOST_DOMAIN_TYPE_NOT_ALLOWED (n \<in> set host_types)
            (andthen (validate_domain_identifiers v) (\<lambda>_. to_tree v (TyRec n)))
      | _ \<Rightarrow> Inl HOST_DOMAIN_TYPE_NOT_ALLOWED)"

section \<open>Digests\<close>

definition typed_digest :: "val \<Rightarrow> codec_code + pystr" where
  "typed_digest v = andthen (encode_typed v) (\<lambda>raw. Inr (sha256_of raw))"

definition dialogue_state_digest :: "dialogue_state \<Rightarrow> codec_code + pystr" where
  "dialogue_state_digest s =
     andthen (validate_dialogue_state s INVALID_DIALOGUE_STATE) (\<lambda>_. typed_digest (dialogue_state_val s))"

definition dialogue_request_digest :: "write_request \<Rightarrow> codec_code + pystr" where
  "dialogue_request_digest r =
     require INVALID_DIALOGUE_WRITE_REQUEST
       (wq_schema_version r = SCHEMA_VERSION \<and> wq_record_type r = py ''dialogue_write_request''
        \<and> nonblank (wq_session_id r) \<and> 1 \<le> wq_expected_registry_generation r
        \<and> 0 \<le> wq_expected_conversation_version r)
       (andthen (reraise INVALID_DIALOGUE_WRITE_REQUEST (validate_domain_identifiers (write_request_val r)))
          (\<lambda>_. typed_digest (write_request_val r)))"

section \<open>Stored events\<close>

definition unhashed_event :: "stored_event \<Rightarrow> stored_event" where
  "unhashed_event r = r\<lparr>se_event_hash := []\<rparr>"

definition stored_event_digest :: "stored_event \<Rightarrow> codec_code + pystr" where
  "stored_event_digest r = typed_digest (stored_event_val (unhashed_event r))"

definition stored_event_fields :: "stored_event \<Rightarrow> bool" where
  "stored_event_fields r \<longleftrightarrow>
     se_schema_version r = SCHEMA_VERSION \<and> se_record_type r = py ''dialogue_event''
     \<and> se_protocol_version r = PROTOCOL_VERSION \<and> nonblank (se_session_id r)
     \<and> 1 \<le> se_registry_generation r
     \<and> se_event_type r = event_type (ce_payload (se_event r))
     \<and> valid_timestamp (se_occurred_at r)
     \<and> nonblank (da_actor_id (se_actor r))
     \<and> (case se_causation_id r of None \<Rightarrow> True | Some c \<Rightarrow> nonblank c)
     \<and> is_sha256_digest (se_event_hash r)
     \<and> is_optional_sha256_digest (se_previous_event_hash r)"

definition validate_stored_event :: "stored_event \<Rightarrow> codec_code + unit" where
  "validate_stored_event r =
     require INVALID_STORED_EVENT (stored_event_fields r)
       (andthen (reraise INVALID_STORED_EVENT
          (andthen (validate_dialogue_event (se_event r))
             (\<lambda>_. validate_domain_identifiers (dialogue_actor_val (se_actor r))))) (\<lambda>_.
        andthen (stored_event_digest r) (\<lambda>d.
          require STORED_EVENT_HASH_MISMATCH (d = se_event_hash r) (Inr ()))))"

definition build_stored_event ::
  "pystr \<Rightarrow> committed_dialogue_event \<Rightarrow> pystr option \<Rightarrow> int \<Rightarrow> pystr \<Rightarrow> dialogue_actor \<Rightarrow> pystr option
    \<Rightarrow> codec_code + stored_event" where
  "build_stored_event sid ev previous generation occurred actor causation =
     require INVALID_STORED_EVENT
       (nonblank sid \<and> 1 \<le> generation \<and> valid_timestamp occurred \<and> nonblank (da_actor_id actor)
        \<and> (case causation of None \<Rightarrow> True | Some c \<Rightarrow> nonblank c))
    (require INVALID_STORED_EVENT (is_optional_sha256_digest previous)
       (andthen (reraise INVALID_STORED_EVENT
          (andthen (validate_dialogue_event ev)
             (\<lambda>_. validate_domain_identifiers (dialogue_actor_val actor)))) (\<lambda>_.
        (let r = \<lparr>se_schema_version = SCHEMA_VERSION, se_record_type = py ''dialogue_event'',
                  se_protocol_version = PROTOCOL_VERSION, se_session_id = sid,
                  se_registry_generation = generation, se_event_type = event_type (ce_payload ev),
                  se_occurred_at = occurred, se_actor = actor, se_causation_id = causation,
                  se_previous_event_hash = previous, se_event = ev, se_event_hash = []\<rparr>
         in andthen (typed_digest (stored_event_val r)) (\<lambda>d.
              (let r = r\<lparr>se_event_hash := d\<rparr> in
               andthen (validate_stored_event r) (\<lambda>_. Inr r)))))))"

definition encode_stored_event :: "stored_event \<Rightarrow> codec_code + byte list" where
  "encode_stored_event r = andthen (validate_stored_event r) (\<lambda>_. encode_typed (stored_event_val r))"

definition decode_stored_event :: "byte list \<Rightarrow> codec_code + stored_event" where
  "decode_stored_event raw =
     andthen (decode_typed raw ''StoredDialogueEvent'') (\<lambda>v.
       case un_stored_event v of
         None \<Rightarrow> Inl INVALID_STORED_EVENT
       | Some r \<Rightarrow> andthen (validate_stored_event r) (\<lambda>_. Inr r))"

section \<open>Transaction markers\<close>

definition event_reference :: "stored_event \<Rightarrow> marker_event_ref" where
  "event_reference r =
     \<lparr>me_sequence = ce_sequence (se_event r), me_event_id = ce_event_id (se_event r),
      me_event_hash = se_event_hash r\<rparr>"

definition build_marker_event_ref :: "stored_event \<Rightarrow> codec_code + marker_event_ref" where
  "build_marker_event_ref r = andthen (validate_stored_event r) (\<lambda>_. Inr (event_reference r))"

definition export_formats :: "pystr list" where
  "export_formats = [py ''json'', py ''markdown'']"

definition valid_effect_intents :: "effect_intent list \<Rightarrow> pystr \<Rightarrow> int \<Rightarrow> bool" where
  "valid_effect_intents intents sid maximum \<longleftrightarrow>
     length intents \<le> 16 \<and> distinct (map ei_intent_id intents)
     \<and> list_all (\<lambda>i. is_protocol_id (ei_intent_id i) \<and> ei_kind i = EK_EXPORT_MATERIALIZATION
          \<and> ei_session_id i = sid \<and> is_protocol_id (ei_export_id i)
          \<and> 0 \<le> ei_as_of_sequence i \<and> ei_as_of_sequence i \<le> maximum
          \<and> ei_formats i = export_formats \<and> is_sha256_digest (ei_payload_digest i)) intents"

definition unhashed_marker :: "transaction_marker \<Rightarrow> transaction_marker" where
  "unhashed_marker m = m\<lparr>tm_marker_hash := []\<rparr>"

definition marker_digest :: "transaction_marker \<Rightarrow> codec_code + pystr" where
  "marker_digest m = typed_digest (transaction_marker_val (unhashed_marker m))"

definition marker_fields :: "transaction_marker \<Rightarrow> bool" where
  "marker_fields m \<longleftrightarrow>
     tm_schema_version m = SCHEMA_VERSION \<and> tm_record_type m = py ''dialogue_transaction_marker''
     \<and> nonblank (tm_session_id m) \<and> nonblank (tm_transaction_id m) \<and> nonblank (tm_command_id m)
     \<and> is_sha256_digest (tm_request_digest m) \<and> 1 \<le> tm_registry_generation m
     \<and> is_sha256_digest (tm_state_digest m) \<and> is_sha256_digest (tm_marker_hash m)
     \<and> is_optional_sha256_digest (tm_previous_marker_hash m)
     \<and> valid_effect_intents (tm_effect_intents m) (tm_session_id m) (tm_to_sequence m)
     \<and> tm_events m \<noteq> []"

definition marker_references :: "transaction_marker \<Rightarrow> bool" where
  "marker_references m \<longleftrightarrow>
     list_all (\<lambda>e. 1 \<le> me_sequence e) (tm_events m)
     \<and> list_all (\<lambda>e. nonblank (me_event_id e)) (tm_events m)
     \<and> list_all (\<lambda>e. is_sha256_digest (me_event_hash e)) (tm_events m)
     \<and> distinct (map me_event_id (tm_events m))
     \<and> map me_sequence (tm_events m)
         = [me_sequence (hd (tm_events m)) .. me_sequence (last (tm_events m))]
     \<and> tm_from_sequence m = me_sequence (hd (tm_events m))
     \<and> tm_to_sequence m = me_sequence (last (tm_events m))"

definition validate_transaction_marker :: "transaction_marker \<Rightarrow> codec_code + unit" where
  "validate_transaction_marker m =
     require INVALID_TRANSACTION_MARKER (marker_fields m)
    (require INVALID_TRANSACTION_MARKER (marker_references m)
      (andthen (marker_digest m) (\<lambda>d.
        require TRANSACTION_MARKER_HASH_MISMATCH (d = tm_marker_hash m) (Inr ()))))"

text \<open>The consecutive pairs of a list, \<open>itertools.pairwise\<close>.\<close>

definition pairwise :: "'a list \<Rightarrow> ('a \<times> 'a) list" where
  "pairwise xs = zip xs (tl xs)"

fun event_references :: "stored_event list \<Rightarrow> codec_code + marker_event_ref list" where
  "event_references [] = Inr []"
| "event_references (r # rs) =
     andthen (build_marker_event_ref r) (\<lambda>e. andthen (event_references rs) (\<lambda>es. Inr (e # es)))"

definition marker_binds ::
  "pystr \<Rightarrow> pystr \<Rightarrow> int \<Rightarrow> dialogue_state \<Rightarrow> stored_event list \<Rightarrow> bool" where
  "marker_binds sid cid generation s rs \<longleftrightarrow>
     list_all (\<lambda>r. se_session_id r = sid) rs
     \<and> list_all (\<lambda>r. se_registry_generation r = generation) rs
     \<and> list_all (\<lambda>r. ce_command_id (se_event r) = cid) rs
     \<and> map (\<lambda>r. ce_sequence (se_event r)) rs
         = [ce_sequence (se_event (hd rs)) .. ce_sequence (se_event (last rs))]
     \<and> sequence s = ce_sequence (se_event (last rs))
     \<and> conversation_version s = ce_to_version (se_event (last rs))
     \<and> list_all (\<lambda>(p, c). se_previous_event_hash c = Some (se_event_hash p)) (pairwise rs)
     \<and> list_all (\<lambda>(p, c). ce_from_version (se_event c) = ce_to_version (se_event p)) (pairwise rs)"

definition build_transaction_marker ::
  "pystr \<Rightarrow> pystr \<Rightarrow> pystr \<Rightarrow> pystr \<Rightarrow> int \<Rightarrow> pystr option \<Rightarrow> dialogue_state \<Rightarrow> stored_event list
    \<Rightarrow> effect_intent list \<Rightarrow> codec_code + transaction_marker" where
  "build_transaction_marker sid tid cid digest generation previous s rs intents =
     require INVALID_TRANSACTION_MARKER
       (nonblank sid \<and> nonblank tid \<and> nonblank cid \<and> is_sha256_digest digest \<and> 1 \<le> generation
        \<and> rs \<noteq> [] \<and> valid_effect_intents intents sid (sequence s) \<and> session_id s = sid
        \<and> is_optional_sha256_digest previous)
      (andthen (validate_dialogue_state s INVALID_TRANSACTION_MARKER) (\<lambda>_.
       andthen (event_references rs) (\<lambda>refs.
       require INVALID_TRANSACTION_MARKER (marker_binds sid cid generation s rs)
        (andthen (dialogue_state_digest s) (\<lambda>sd.
          (let m = \<lparr>tm_schema_version = SCHEMA_VERSION,
                    tm_record_type = py ''dialogue_transaction_marker'', tm_session_id = sid,
                    tm_transaction_id = tid, tm_command_id = cid, tm_request_digest = digest,
                    tm_registry_generation = generation, tm_from_sequence = me_sequence (hd refs),
                    tm_to_sequence = me_sequence (last refs), tm_previous_marker_hash = previous,
                    tm_state_digest = sd, tm_effect_intents = intents, tm_events = refs,
                    tm_marker_hash = []\<rparr>
           in andthen (typed_digest (transaction_marker_val m)) (\<lambda>d.
                (let m = m\<lparr>tm_marker_hash := d\<rparr> in
                 andthen (validate_transaction_marker m) (\<lambda>_. Inr m)))))))))"

definition encode_transaction_marker :: "transaction_marker \<Rightarrow> codec_code + byte list" where
  "encode_transaction_marker m =
     andthen (validate_transaction_marker m) (\<lambda>_. encode_typed (transaction_marker_val m))"

definition decode_transaction_marker :: "byte list \<Rightarrow> codec_code + transaction_marker" where
  "decode_transaction_marker raw =
     andthen (decode_typed raw ''TransactionMarker'') (\<lambda>v.
       case un_transaction_marker v of
         None \<Rightarrow> Inl INVALID_TRANSACTION_MARKER
       | Some m \<Rightarrow> andthen (validate_transaction_marker m) (\<lambda>_. Inr m))"

definition marker_receipt :: "transaction_marker \<Rightarrow> dialogue_receipt" where
  "marker_receipt m =
     \<lparr>dr_command_id = tm_command_id m, dr_request_digest = tm_request_digest m,
      dr_transaction_id = tm_transaction_id m, dr_marker_hash = tm_marker_hash m,
      dr_from_sequence = tm_from_sequence m, dr_to_sequence = tm_to_sequence m,
      dr_event_ids = map me_event_id (tm_events m), dr_state_digest = tm_state_digest m\<rparr>"

definition receipt_from_marker :: "transaction_marker \<Rightarrow> codec_code + dialogue_receipt" where
  "receipt_from_marker m = andthen (validate_transaction_marker m) (\<lambda>_. Inr (marker_receipt m))"

section \<open>State snapshots\<close>

definition valid_dialogue_receipt :: "dialogue_receipt \<Rightarrow> int \<Rightarrow> bool" where
  "valid_dialogue_receipt r expected \<longleftrightarrow>
     nonblank (dr_command_id r) \<and> is_sha256_digest (dr_request_digest r)
     \<and> nonblank (dr_transaction_id r) \<and> is_sha256_digest (dr_marker_hash r)
     \<and> dr_from_sequence r = expected \<and> dr_from_sequence r \<le> dr_to_sequence r
     \<and> int (length (dr_event_ids r)) = dr_to_sequence r - dr_from_sequence r + 1
     \<and> list_all nonblank (dr_event_ids r) \<and> distinct (dr_event_ids r)
     \<and> is_sha256_digest (dr_state_digest r)"

text \<open>The loop over the receipts, with the identifiers seen; its value is the next sequence.\<close>

fun check_receipts ::
  "int \<Rightarrow> pystr list \<Rightarrow> pystr list \<Rightarrow> pystr list \<Rightarrow> pystr list \<Rightarrow> dialogue_receipt list
    \<Rightarrow> codec_code + int" where
  "check_receipts expected commands transactions hashes ids [] = Inr expected"
| "check_receipts expected commands transactions hashes ids (r # rs) =
     require INVALID_STATE_SNAPSHOT (valid_dialogue_receipt r expected)
    (require INVALID_STATE_SNAPSHOT
       (dr_command_id r \<notin> set commands \<and> dr_transaction_id r \<notin> set transactions
        \<and> dr_marker_hash r \<notin> set hashes \<and> list_all (\<lambda>i. i \<notin> set ids) (dr_event_ids r))
       (check_receipts (dr_to_sequence r + 1) (dr_command_id r # commands)
          (dr_transaction_id r # transactions) (dr_marker_hash r # hashes) (dr_event_ids r @ ids) rs))"

definition snapshot_fields :: "state_snapshot \<Rightarrow> bool" where
  "snapshot_fields n \<longleftrightarrow>
     sn_schema_version n = SCHEMA_VERSION \<and> sn_record_type n = py ''dialogue_state_snapshot''
     \<and> nonblank (sn_session_id n) \<and> 0 \<le> sn_through_sequence n
     \<and> is_sha256_digest (sn_state_digest n)
     \<and> session_id (sn_state n) = sn_session_id n \<and> sequence (sn_state n) = sn_through_sequence n"

definition validate_state_snapshot :: "state_snapshot \<Rightarrow> codec_code + unit" where
  "validate_state_snapshot n =
     require INVALID_STATE_SNAPSHOT (snapshot_fields n)
      (andthen (dialogue_state_digest (sn_state n)) (\<lambda>d.
       require INVALID_STATE_SNAPSHOT (d = sn_state_digest n)
        (andthen (validate_dialogue_state (sn_state n) INVALID_STATE_SNAPSHOT) (\<lambda>_.
          if sn_through_sequence n = 0 then
            require INVALID_STATE_SNAPSHOT
              (sn_last_event_hash n = None \<and> sn_last_marker_hash n = None \<and> sn_receipts n = []) (Inr ())
          else
            require INVALID_STATE_SNAPSHOT
              ((case sn_last_event_hash n of None \<Rightarrow> False | Some h \<Rightarrow> is_sha256_digest h)
               \<and> (case sn_last_marker_hash n of None \<Rightarrow> False | Some h \<Rightarrow> is_sha256_digest h)
               \<and> sn_receipts n \<noteq> [])
             (andthen (check_receipts 1 [] [] [] [] (sn_receipts n)) (\<lambda>next_sequence.
                require INVALID_STATE_SNAPSHOT
                  (next_sequence - 1 = sn_through_sequence n
                   \<and> Some (dr_marker_hash (last (sn_receipts n))) = sn_last_marker_hash n
                   \<and> dr_state_digest (last (sn_receipts n)) = sn_state_digest n) (Inr ())))))))"

definition build_state_snapshot ::
  "dialogue_state \<Rightarrow> pystr option \<Rightarrow> pystr option \<Rightarrow> dialogue_receipt list
    \<Rightarrow> codec_code + state_snapshot" where
  "build_state_snapshot s last_event last_marker receipts =
     andthen (validate_dialogue_state s INVALID_STATE_SNAPSHOT) (\<lambda>_.
     andthen (dialogue_state_digest s) (\<lambda>d.
       (let n = \<lparr>sn_schema_version = SCHEMA_VERSION,
                 sn_record_type = py ''dialogue_state_snapshot'', sn_session_id = session_id s,
                 sn_through_sequence = sequence s, sn_state_digest = d,
                 sn_last_event_hash = last_event, sn_last_marker_hash = last_marker,
                 sn_receipts = receipts, sn_state = s\<rparr>
        in andthen (validate_state_snapshot n) (\<lambda>_. Inr n))))"

definition encode_state_snapshot :: "state_snapshot \<Rightarrow> codec_code + byte list" where
  "encode_state_snapshot n =
     andthen (validate_state_snapshot n) (\<lambda>_. encode_typed (state_snapshot_val n))"

definition decode_state_snapshot :: "byte list \<Rightarrow> codec_code + state_snapshot" where
  "decode_state_snapshot raw =
     andthen (decode_typed raw ''DialogueStateSnapshot'') (\<lambda>v.
       case un_state_snapshot v of
         None \<Rightarrow> Inl INVALID_STATE_SNAPSHOT
       | Some n \<Rightarrow> andthen (validate_state_snapshot n) (\<lambda>_. Inr n))"

end
