(* ===== verification/Event_Codec_Facts.thy ===== *)
theory Event_Codec_Facts
  imports Event_Codec
begin

text \<open>
  The codec of the durable records is exact: a file is accepted exactly when it is the encoding of
  a valid record within the size limit, and encodings of different records differ.
\<close>

section \<open>Typed values\<close>

lemma from_tree_python:
  "from_tree j t = Inr v \<Longrightarrow> python_val v"
  "from_trees js ts = Inr vs \<Longrightarrow> list_all python_val vs"
  "from_fields kvs fs = Inr vs \<Longrightarrow> list_all python_val vs"
  "v \<in> set (from_variants j ts) \<Longrightarrow> python_val v"
proof (induction j t and js ts and kvs fs and j ts arbitrary: v and vs and vs and v
    rule: from_tree_from_trees_from_fields_from_variants.induct)
  case (1 j ts)
  show ?case
  proof (cases "j = JNull \<and> TyNone \<in> set ts")
    case True
    with "1.prems" show ?thesis by simp
  next
    case False
    show ?thesis
    proof (cases "named_variants j ts" rule: remdups_adj.cases)
      case 1
      with "1.IH"(1) [OF False] "1.prems" False show ?thesis by (auto split: list.split_asm)
    next
      case (2 t)
      with "1.IH"(2) [OF False] "1.prems" False show ?thesis by auto
    next
      case (3 t u us)
      with "1.IH"(3) [OF False] "1.prems" False show ?thesis by (auto split: list.split_asm)
    qed
  qed
next
  case (9 j n)
  then show ?case by (cases j) (auto simp: andthen_eq_Inr_iff split: option.split_asm)
next
  case (14 kvs k t fs)
  then show ?case by (auto simp: andthen_eq_Inr_iff split: option.split_asm)
next
  case (16 j t ts)
  then show ?case by (auto split: if_split_asm sum.split_asm)
qed (auto simp: andthen_eq_Inr_iff split: json.split_asm)

lemma good_record: "good_hint (TyRec n)"
  by simp

lemma from_tree_tag:
  "from_tree j (TyRec n) = Inr v \<Longrightarrow> \<exists>kvs. j = JObj kvs \<and> map_of kvs type_key = Some (JStr (py n))"
  by (cases j) (auto split: option.split_asm)

lemma decode_typed_fits:
  assumes "decode_typed raw n = Inr v"
  shows "fits v (TyRec n)"
proof -
  from assms obtain j where j: "parse_canonical raw = Inr j" "from_tree j (TyRec n) = Inr v"
    by (auto simp: decode_typed_def andthen_eq_Inr_iff simp del: from_tree.simps)
  have "\<exists>j'. to_tree v (TyRec n) = Inr j'"
    using from_tree_to_tree(1) [OF j(2) parse_canonical_distinct [OF j(1)] good_record] by blast
  with from_tree_python(1) [OF j(2)] show ?thesis unfolding fits_def by blast
qed

lemma decode_typed_iff:
  assumes "represents (TyRec n) enc un" and "\<And>x. enc x = VRec n (vals x)"
  shows "decode_typed raw n = Inr v \<longleftrightarrow>
     (\<exists>x. v = enc x \<and> encode_typed (enc x) = Inr raw \<and> length raw \<le> MAX_RECORD_BYTES)"
proof
  assume d: "decode_typed raw n = Inr v"
  then obtain x where "v = enc x" using decode_typed_fits represents_fits [OF assms(1)] by blast
  with encode_decode_typed(1,2) [OF d]
  show "\<exists>x. v = enc x \<and> encode_typed (enc x) = Inr raw \<and> length raw \<le> MAX_RECORD_BYTES"
    by (intro exI [of _ x]) simp
next
  assume "\<exists>x. v = enc x \<and> encode_typed (enc x) = Inr raw \<and> length raw \<le> MAX_RECORD_BYTES"
  then obtain x where x: "v = enc x" "encode_typed (enc x) = Inr raw" "length raw \<le> MAX_RECORD_BYTES" by blast
  have "fits (enc x) (TyRec n)" using represents_fits [OF assms(1)] by blast
  then have "python_val (enc x)" by (simp add: fits_def)
  from decode_encode_typed [OF x(2) this x(3)] assms(2) [of x] x(1) show "decode_typed raw n = Inr v" by auto
qed

text \<open>Encodings of different values differ, whatever their size.\<close>

lemma encode_typed_tree:
  assumes "encode_typed v = Inr raw" and "python_val v"
  obtains n vs j where "v = VRec n vs" and "from_tree j (TyRec n) = Inr v"
    and "utf8_decode raw = Some (dumps j)" and "loads (dumps j) = Inr j"
proof -
  from assms(1) obtain n vs i where v: "v = VRec n vs" "to_tree v (TyRec n) = Inr i"
    "canonical_record_bytes i = Inr raw"
    by (auto simp: encode_typed_def andthen_eq_Inr_iff simp del: to_tree.simps split: val.split_asm)
  have "canonical_tree_is_valid i" "utf8_encode (dumps i) = Some raw"
    using v(3) by (auto simp: canonical_record_bytes_def canonical_json_bytes_def split: option.split_asm)
  moreover have "distinct_keys i" using to_tree_tree(1) [OF v(2)] .
  ultimately have "utf8_decode raw = Some (dumps (sorted_tree i))"
    "loads (dumps (sorted_tree i)) = Inr (sorted_tree i)"
    using utf8_decode_encode loads_dumps by (simp_all only: dumps_sorted_tree)
  with that [OF v(1) to_tree_from_tree(1) [OF v(2) assms(2) good_record]] show thesis .
qed

lemma encode_typed_inj:
  assumes "encode_typed v = Inr raw" and "encode_typed w = Inr raw" and "python_val v" and "python_val w"
  shows "v = w"
proof -
  from encode_typed_tree [OF assms(1,3)] obtain n vs i where
    v: "v = VRec n vs" "from_tree i (TyRec n) = Inr v" "utf8_decode raw = Some (dumps i)" "loads (dumps i) = Inr i" .
  from encode_typed_tree [OF assms(2,4)] obtain m ws j where
    w: "w = VRec m ws" "from_tree j (TyRec m) = Inr w" "utf8_decode raw = Some (dumps j)" "loads (dumps j) = Inr j" .
  from v(3,4) w(3,4) have ij: "i = j" by simp
  have "n = m"
    using from_tree_tag [OF v(2)] from_tree_tag [OF w(2)] by (auto simp: ij py_eq_iff)
  with v(2) w(2) ij show ?thesis by simp
qed

lemma represents_python: "represents (TyRec n) enc un \<Longrightarrow> python_val (enc x)"
  using represents_fits [of "TyRec n" enc un "enc x"] by (auto simp: fits_def)

section \<open>Record codecs\<close>

text \<open>
  What the store relies on in a pair of an encoder and a decoder of records: a file is read as a
  record exactly when it is the encoding of that record and is not too large, and two records
  with one encoding are the same.
\<close>

locale record_codec =
  fixes encode :: "'r \<Rightarrow> 'e + byte list"
    and decode :: "byte list \<Rightarrow> 'e + 'r"
  assumes decode_iff: "decode raw = Inr r \<longleftrightarrow> encode r = Inr raw \<and> length raw \<le> MAX_RECORD_BYTES"
    and encode_inj: "encode r = Inr raw \<Longrightarrow> encode r' = Inr raw \<Longrightarrow> r = r'"
begin

lemma decode_encode: "encode r = Inr raw \<Longrightarrow> length raw \<le> MAX_RECORD_BYTES \<Longrightarrow> decode raw = Inr r"
  by (simp add: decode_iff)

lemma encode_decode: "decode raw = Inr r \<Longrightarrow> encode r = Inr raw"
  by (simp add: decode_iff)

lemma decode_inj: "decode raw = Inr r \<Longrightarrow> decode raw' = Inr r \<Longrightarrow> raw = raw'"
  by (simp add: decode_iff)

end

text \<open>A codec that validates a record and encodes it as a typed value has these laws.\<close>

lemma validated_codec:
  assumes r: "represents (TyRec n) enc un" and v: "\<And>x. enc x = VRec n (vals x)"
    and e: "\<And>x. encode x = andthen (validate x) (\<lambda>_ :: unit. encode_typed (enc x))"
    and d: "\<And>raw. decode raw = andthen (decode_typed raw n) (\<lambda>v. case un v of
              None \<Rightarrow> Inl err | Some x \<Rightarrow> andthen (validate x) (\<lambda>_. Inr x))"
  shows "record_codec encode decode"
proof
  fix raw x
  show "decode raw = Inr x \<longleftrightarrow> encode x = Inr raw \<and> length raw \<le> MAX_RECORD_BYTES"
    unfolding d e
    by (auto simp: andthen_eq_Inr_iff decode_typed_iff [OF r v] represents_iff [OF r]
        represents_inv [OF r] split: option.split_asm)
next
  fix x y raw
  assume "encode x = Inr raw" "encode y = Inr raw"
  then have "encode_typed (enc x) = Inr raw" "encode_typed (enc y) = Inr raw"
    by (simp_all add: e andthen_eq_Inr_iff)
  then have "enc x = enc y" using encode_typed_inj represents_python [OF r] by blast
  then show "x = y" by (simp add: represents_inj [OF r])
qed

interpretation event_codec: record_codec encode_stored_event decode_stored_event
  by (rule validated_codec [OF represents_stored_event stored_event_val_def
        encode_stored_event_def decode_stored_event_def])

interpretation marker_codec: record_codec encode_transaction_marker decode_transaction_marker
  by (rule validated_codec [OF represents_transaction_marker transaction_marker_val_def
        encode_transaction_marker_def decode_transaction_marker_def])

interpretation snapshot_codec: record_codec encode_state_snapshot decode_state_snapshot
  by (rule validated_codec [OF represents_state_snapshot state_snapshot_val_def
        encode_state_snapshot_def decode_state_snapshot_def])

text \<open>
  C12. The record files of a session are exact: a byte string is read as a stored event, a
  transaction marker or a state snapshot exactly when it is the encoding of that record, the
  record passes its validation (its own hash included), and the string is within the size limit.
\<close>

theorem record_files_are_exact:
  "(decode_stored_event raw = Inr r \<longleftrightarrow>
      encode_stored_event r = Inr raw \<and> length raw \<le> MAX_RECORD_BYTES)
   \<and> (decode_transaction_marker raw = Inr m \<longleftrightarrow>
      encode_transaction_marker m = Inr raw \<and> length raw \<le> MAX_RECORD_BYTES)
   \<and> (decode_state_snapshot raw = Inr n \<longleftrightarrow>
      encode_state_snapshot n = Inr raw \<and> length raw \<le> MAX_RECORD_BYTES)"
  by (intro conjI event_codec.decode_iff marker_codec.decode_iff snapshot_codec.decode_iff)

text \<open>
  C14. Decoding is well typed: whatever bytes a file holds, the values that decode at the hint of a
  durable record are exactly the images of the records of that type whose encoding is those bytes.
  The type tests that follow the decoding in the code never fail, and no field of a decoded
  record, at any depth, has a value outside its annotation.
\<close>

theorem decoded_values_are_typed:
  "(decode_typed raw ''StoredDialogueEvent'' = Inr v \<longleftrightarrow>
      (\<exists>r. v = stored_event_val r \<and> encode_typed (stored_event_val r) = Inr raw
         \<and> length raw \<le> MAX_RECORD_BYTES))
   \<and> (decode_typed raw ''TransactionMarker'' = Inr v \<longleftrightarrow>
      (\<exists>m. v = transaction_marker_val m \<and> encode_typed (transaction_marker_val m) = Inr raw
         \<and> length raw \<le> MAX_RECORD_BYTES))
   \<and> (decode_typed raw ''DialogueStateSnapshot'' = Inr v \<longleftrightarrow>
      (\<exists>n. v = state_snapshot_val n \<and> encode_typed (state_snapshot_val n) = Inr raw
         \<and> length raw \<le> MAX_RECORD_BYTES))"
  by (intro conjI decode_typed_iff [OF represents_stored_event stored_event_val_def]
      decode_typed_iff [OF represents_transaction_marker transaction_marker_val_def]
      decode_typed_iff [OF represents_state_snapshot state_snapshot_val_def])

section \<open>Self hashes\<close>

text \<open>A validated record is determined by the bytes its own hash covers.\<close>

lemma typed_digest_InrD: "typed_digest v = Inr d \<Longrightarrow> \<exists>raw. encode_typed v = Inr raw \<and> d = sha256_of raw"
  by (auto simp: typed_digest_def andthen_eq_Inr_iff)

lemma validate_stored_eventD:
  assumes "validate_stored_event r = Inr u"
  shows "stored_event_fields r" and "stored_event_digest r = Inr (se_event_hash r)"
    and "validate_dialogue_event (se_event r) = Inr ()"
  using assms by (auto simp: validate_stored_event_def andthen_eq_Inr_iff)

lemma validate_transaction_markerD:
  assumes "validate_transaction_marker m = Inr u"
  shows "marker_fields m" and "marker_references m" and "marker_digest m = Inr (tm_marker_hash m)"
  using assms by (auto simp: validate_transaction_marker_def andthen_eq_Inr_iff)

end
