(* ===== verification/Directory.thy ===== *)
theory Directory
  imports Json_Parser
begin

text \<open>
  A private directory as the clients of \<open>SecureDirectory\<close> (\<open>xsync_v2/secure_fs.py\<close>) see it: names
  with contents.  The files are regular, owned and private, as the class enforces; how a write
  becomes one step, and what a crash inside it leaves behind, is the subject of the theories on
  the file system itself.
\<close>

datatype fs_code =
    INVALID_COMPONENT | INVALID_READ_LIMIT | FILE_NOT_FOUND | FILE_TOO_LARGE | IMMUTABLE_EXISTS
  | INVALID_QUARANTINE_TARGET | UNSAFE_FILE_TYPE | INSECURE_PERMISSIONS | UNSAFE_PATH
  | UNSAFE_TEMPORARY_FILE | UNSAFE_QUARANTINE_MOVE | FILE_CHANGED_DURING_MOVE
  | DIRECTORY_NOT_FOUND | TEMPORARY_NAME_EXHAUSTED | FILESYSTEM_ERROR

type_synonym dir = "(pystr \<times> byte list) list"

definition MAX_COMPONENT_BYTES :: nat where
  "MAX_COMPONENT_BYTES = 255"

definition valid_component :: "pystr \<Rightarrow> bool" where
  "valid_component name \<longleftrightarrow>
     name \<noteq> [] \<and> name \<noteq> py ''.'' \<and> name \<noteq> py ''..''
     \<and> 47 \<notin> set name \<and> 92 \<notin> set name \<and> list_all (\<lambda>c. 32 \<le> c \<and> c \<noteq> 127) name
     \<and> (case utf8_encode name of None \<Rightarrow> False | Some raw \<Rightarrow> length raw \<le> MAX_COMPONENT_BYTES)"

lemma valid_component_ascii:
  assumes "ascii s" and c: "list_all (\<lambda>c. 32 \<le> c \<and> c \<noteq> 127 \<and> c \<noteq> 47 \<and> c \<noteq> 92) s"
    and n: "3 \<le> length s" "length s \<le> MAX_COMPONENT_BYTES"
  shows "valid_component s"
proof -
  obtain bs where bs: "utf8_encode s = Some bs" "length bs = length s"
    using utf8_encode_ascii_length [OF assms(1)] by blast
  have "s \<noteq> py t" if "length t < 3" for t using that n(1) by auto
  then have "s \<noteq> []" "s \<noteq> py ''.''" "s \<noteq> py ''..''" using n(1) by auto
  moreover have "47 \<notin> set s" "92 \<notin> set s" "list_all (\<lambda>c. 32 \<le> c \<and> c \<noteq> 127) s"
    using c unfolding list_all_iff by blast+
  ultimately show ?thesis using bs n(2) by (simp add: valid_component_def)
qed

definition dir_read :: "dir \<Rightarrow> pystr \<Rightarrow> nat \<Rightarrow> fs_code + byte list" where
  "dir_read d name limit =
     require INVALID_COMPONENT (valid_component name)
    (require INVALID_READ_LIMIT (1 \<le> limit)
      (case map_of d name of
         None \<Rightarrow> Inl FILE_NOT_FOUND
       | Some raw \<Rightarrow> require FILE_TOO_LARGE (length raw \<le> limit) (Inr raw)))"

text \<open>Publication never replaces a name.\<close>

definition dir_write :: "dir \<Rightarrow> pystr \<Rightarrow> byte list \<Rightarrow> fs_code + dir" where
  "dir_write d name raw =
     require INVALID_COMPONENT (valid_component name)
    (require IMMUTABLE_EXISTS (map_of d name = None) (Inr ((name, raw) # d)))"

definition dir_remove :: "dir \<Rightarrow> pystr \<Rightarrow> dir" where
  "dir_remove d name = filter (\<lambda>(k, _). k \<noteq> name) d"

definition dir_replace :: "dir \<Rightarrow> pystr \<Rightarrow> byte list \<Rightarrow> fs_code + dir" where
  "dir_replace d name raw =
     require INVALID_COMPONENT (valid_component name) (Inr ((name, raw) # dir_remove d name))"

definition dir_list :: "dir \<Rightarrow> fs_code + pystr list" where
  "dir_list d =
     require INVALID_COMPONENT (list_all (valid_component \<circ> fst) d) (Inr (sort (map fst d)))"

text \<open>
  A file is moved to another directory without overwriting: a destination of the same name must
  have the same contents, and then the source is only removed.
\<close>

definition dir_quarantine :: "dir \<Rightarrow> pystr \<Rightarrow> dir \<Rightarrow> pystr \<Rightarrow> fs_code + dir \<times> dir" where
  "dir_quarantine source name target target_name =
     require INVALID_COMPONENT (valid_component name \<and> valid_component target_name)
      (case map_of source name of
         None \<Rightarrow> Inl FILE_NOT_FOUND
       | Some raw \<Rightarrow>
           (case map_of target target_name of
              None \<Rightarrow> Inr (dir_remove source name, (target_name, raw) # target)
            | Some other \<Rightarrow>
                (let limit = max 1 (length raw) in
                 require FILE_TOO_LARGE (length other \<le> limit)
                (require IMMUTABLE_EXISTS (raw = other) (Inr (dir_remove source name, target))))))"

section \<open>What an operation leaves alone\<close>

lemma map_of_dir_remove [simp]: "map_of (dir_remove d name) k = (if k = name then None else map_of d k)"
  by (induction d) (auto simp: dir_remove_def)

lemma dir_write_InrD:
  assumes "dir_write d name raw = Inr d'"
  shows "map_of d name = None" and "map_of d' = (map_of d)(name \<mapsto> raw)" and "valid_component name"
  using assms by (auto simp: dir_write_def)

lemma dir_quarantine_InrD:
  assumes "dir_quarantine s name t tn = Inr (s', t')"
  shows "map_of s' = (map_of s)(name := None)" and "s' = dir_remove s name"
  using assms by (auto simp: dir_quarantine_def Let_def fun_eq_iff split: option.split_asm)

lemma dir_read_InrD:
  assumes "dir_read d name limit = Inr raw"
  shows "map_of d name = Some raw" and "length raw \<le> limit"
  using assms by (auto simp: dir_read_def split: option.split_asm)

lemma dir_read_cong: "map_of d name = map_of d' name \<Longrightarrow> dir_read d name limit = dir_read d' name limit"
  by (simp add: dir_read_def)

lemma dir_list_names: "dir_list d = Inr names \<Longrightarrow> set names = set (map fst d)"
  by (auto simp: dir_list_def simp del: set_map)

end
