(* ===== verification/Topic_Runs.thy ===== *)
theory Topic_Runs
  imports Reduce
begin

text \<open>
  What each step of a topic run keeps: work created from a canonical trigger is
  valid work, validity survives a later observation sequence, and every operation
  that builds or changes a run (opening it, committing a turn, submitting a learner
  turn, requeueing, completing, pausing, resuming, downgrading) yields a valid run
  of its new lifecycle.
\<close>

section \<open>Work\<close>

lemma queued_work_InrD:
  assumes "queued_work_from_event sid ev t a f = Inr w"
  shows "cw_trigger_event_id w = ce_event_id ev" "cw_trigger_event_sequence w = ce_sequence ev"
    "cw_trigger w = t" "cw_attempt w = a" "cw_status w = WS_QUEUED" "cw_last_failure w = f"
    "cw_allowed_recovery_actions w = []"
    "derive_canonical_work_id sid (ce_event_id ev) (ce_sequence ev) t = Inr (cw_work_id w)"
  using assms by (auto simp: queued_work_from_event_def andthen_eq_Inr_iff)

lemma queued_work_valid:
  assumes "queued_work_from_event sid ev t a f = Inr w"
    and "1 \<le> a" and "a \<le> MAX_AUTOMATIC_WORK_ATTEMPTS"
    and "a = 1 \<or> f \<noteq> None" and "absent_or valid_work_failure f"
  shows "valid_current_work w sid (ce_sequence ev)"
proof -
  note w = queued_work_InrD [OF assms(1)]
  from derive_InrD [OF w(8)] have "derivable sid (ce_event_id ev) (ce_sequence ev) t"
    and "is_protocol_id (cw_work_id w)" by simp_all
  with w assms(2-) show ?thesis
    by (simp add: valid_current_work_def valid_work_status_fields_def derivable_def
        valid_positive_int_def)
qed

lemma fresh_work_InrD:
  assumes "fresh_work s ev t = Inr w"
  shows "valid_current_work w (session_id s) (ce_sequence ev)"
    and "cw_trigger w = t" and "cw_status w = WS_QUEUED"
    and "cw_trigger_event_id w = ce_event_id ev"
    and "cw_trigger_event_sequence w = ce_sequence ev"
    and "cw_attempt w = 1"
  using assms queued_work_valid [of "session_id s" ev t 1 None w]
    queued_work_InrD [of "session_id s" ev t 1 None w]
  by (simp_all add: fresh_work_def MAX_AUTOMATIC_WORK_ATTEMPTS_def)

lemma queued_work_ok:
  assumes "is_protocol_id sid" and "is_protocol_id (ce_event_id ev)" and "1 \<le> ce_sequence ev"
    and "is_canonical_trigger_binding t"
  shows "\<exists>w. queued_work_from_event sid ev t a f = Inr w"
proof -
  from assms have "derivable sid (ce_event_id ev) (ce_sequence ev) t" by (simp add: derivable_def)
  from derive_ok [OF this] show ?thesis by (auto simp: queued_work_from_event_def)
qed

lemma valid_current_work_mono:
  "valid_current_work w sid m \<Longrightarrow> m \<le> n \<Longrightarrow> valid_current_work w sid n"
  by (simp add: valid_current_work_def)

lemma valid_export_record_mono:
  "valid_export_record r m \<Longrightarrow> m \<le> n \<Longrightarrow> valid_export_record r n"
  by (simp add: valid_export_record_def)

lemma valid_topic_state_mono:
  "valid_topic_state t lc sid m \<Longrightarrow> m \<le> n \<Longrightarrow> valid_topic_state t lc sid n"
  by (cases "tr_work t")
    (auto simp: valid_topic_state_def vt_shape_def intro: valid_current_work_mono)

lemma valid_current_work_trigger:
  "valid_current_work w sid n \<Longrightarrow> is_canonical_trigger_binding (cw_trigger w)"
  by (simp add: valid_current_work_def)

lemma valid_current_work_id:
  "valid_current_work w sid n \<Longrightarrow>
     derive_canonical_work_id sid (cw_trigger_event_id w) (cw_trigger_event_sequence w)
       (cw_trigger w) = Inr (cw_work_id w)"
  by (simp add: valid_current_work_def split: sum.splits)

text \<open>Changing the status of valid work, with the fields the new status needs.\<close>

lemma valid_work_superseded:
  assumes "valid_current_work w sid n" and "cw_status w \<in> {WS_QUEUED, WS_FAILED}"
  shows "valid_current_work (w\<lparr>cw_status := WS_SUPERSEDED\<rparr>) sid n"
  using assms
  by (auto simp: valid_current_work_def valid_work_status_fields_def split: sum.splits)

lemma valid_work_failed:
  assumes "valid_current_work w sid n" and "cw_status w = WS_QUEUED" and "valid_work_failure f"
  shows "valid_current_work (w\<lparr>cw_status := WS_FAILED, cw_last_failure := Some f\<rparr>) sid n"
  using assms
  by (auto simp: valid_current_work_def valid_work_status_fields_def split: sum.splits)

lemma valid_work_dead:
  assumes "valid_current_work w sid n" and "cw_status w = WS_FAILED"
    and "acts \<noteq> []" and "distinct acts"
  shows "valid_current_work
           (w\<lparr>cw_status := WS_DEAD_LETTER, cw_allowed_recovery_actions := acts\<rparr>) sid n"
  using assms
  by (auto simp: valid_current_work_def valid_work_status_fields_def split: sum.splits)

section \<open>The learner model\<close>

lemma entry_by_id_SomeD:
  "entry_by_id es i = Some e \<Longrightarrow> e \<in> set es \<and> lm_entry_id e = i"
  by (auto simp: entry_by_id_def dest: find_Some_mem)

lemma entry_by_id_None_iff: "entry_by_id es i = None \<longleftrightarrow> i \<notin> lm_entry_id ` set es"
  by (auto simp: entry_by_id_def find_None_iff)

lemma entry_by_id_mem:
  assumes "distinct (map lm_entry_id es)" and "e \<in> set es"
  shows "entry_by_id es (lm_entry_id e) = Some e"
proof -
  from assms have "distinct (map lm_entry_id (rev es))" and "e \<in> set (rev es)"
    by (simp_all add: rev_map [symmetric])
  then show ?thesis unfolding entry_by_id_def by (rule find_distinct_key)
qed

text \<open>The ids after an update: the old ones in their order, then the new ones.\<close>

lemma apply_model_updates_ids:
  "map lm_entry_id (apply_model_updates cur ups) =
     map lm_entry_id cur
     @ map lm_entry_id (filter (\<lambda>u. lm_entry_id u \<notin> lm_entry_id ` set cur) ups)"
  by (auto simp: apply_model_updates_def dest: entry_by_id_SomeD split: option.splits)

lemma apply_model_updates_distinct:
  assumes "distinct (map lm_entry_id cur)" and "distinct (map lm_entry_id ups)"
  shows "distinct (map lm_entry_id (apply_model_updates cur ups))"
  using assms by (auto simp: apply_model_updates_ids distinct_map_filterI) (metis imageI)

lemma apply_model_updates_set:
  "set (apply_model_updates cur ups) \<subseteq> set cur \<union> set ups"
  by (auto simp: apply_model_updates_def dest: entry_by_id_SomeD split: option.splits)

lemma apply_model_updates_contains:
  assumes "distinct (map lm_entry_id ups)"
  shows "set ups \<subseteq> set (apply_model_updates cur ups)"
proof
  fix u assume u: "u \<in> set ups"
  show "u \<in> set (apply_model_updates cur ups)"
  proof (cases "lm_entry_id u \<in> lm_entry_id ` set cur")
    case True
    then obtain e where e: "e \<in> set cur" "lm_entry_id e = lm_entry_id u" by auto
    from entry_by_id_mem [OF assms u] e have
      "(case entry_by_id ups (lm_entry_id e) of None \<Rightarrow> e | Some u' \<Rightarrow> u') = u" by simp
    with e show ?thesis unfolding apply_model_updates_def by force
  next
    case False
    with u show ?thesis by (simp add: apply_model_updates_def)
  qed
qed

section \<open>Runs\<close>

lemma valid_model_entry_mono:
  "valid_model_entry c m K \<Longrightarrow> K \<subseteq> K' \<Longrightarrow> valid_model_entry c m K'"
  by (auto simp: valid_model_entry_def)

lemma valid_gate_assessment_mono:
  "valid_gate_assessment c g K \<Longrightarrow> K \<subseteq> K' \<Longrightarrow> valid_gate_assessment c g K'"
  by (auto simp: valid_gate_assessment_def)

lemma topic_evidence_eq_iff:
  "\<not> evidence_differs e t \<longleftrightarrow> e = topic_evidence t"
  by (cases e) (auto simp: evidence_differs_def topic_evidence_def)

lemma valid_work_slot:
  assumes "valid_topic_state t lc sid n" and "tr_work t = Some w"
  shows "valid_current_work w sid n" and "tr_current_agent_turn t = None"
  using assms by (auto simp: valid_topic_state_def vt_shape_def vt_lifecycle_def split: if_splits)

lemma required_gates_fresh:
  assumes "valid_contract c"
  shows "exactly_required_gates (map ga_gate_id (map (new_gate_assessment \<circ> gr_gate_id) (tc_gates c)))"
  using assms by (simp add: valid_contract_def comp_def new_gate_assessment_def)

lemma new_topic_run_valid:
  assumes c: "valid_contract c" and e: "valid_evidence e"
    and t: "valid_trigger (cw_trigger w) k (Some (tc_contract_digest c)) (ec_evidence_digest e)"
    and w: "valid_current_work w sid n" "cw_status w = WS_QUEUED"
  shows "valid_topic_state (new_topic_run c e w) TL_ACTIVE sid n"
proof -
  have "topic_evidence (new_topic_run c e w) = e"
    by (simp add: topic_evidence_def new_topic_run_def)
  moreover have "\<forall>r \<in> set (tc_gates c).
      valid_gate_assessment c (new_gate_assessment (gr_gate_id r)) {}"
    by (simp add: valid_gate_assessment_def valid_gate_assessment_shape_def new_gate_assessment_def)
  ultimately show ?thesis
    using assms required_gates_fresh [OF c]
    by (auto simp: valid_topic_state_def valid_topic_clauses new_topic_run_def list_all_iff
        valid_trigger_def)
qed

lemma commit_run_valid:
  assumes t: "valid_topic_state t TL_ACTIVE sid n"
    and r: "valid_agent_turn (tr_contract t) r (topic_evidence t) (set (tr_learner_turn_ids t))"
  shows "valid_topic_state (commit_run t r) TL_ACTIVE sid n"
proof -
  let ?m = "apply_model_updates (tr_learner_model t) (at_learner_model_delta r)"
  from r have ids: "distinct (map lm_entry_id (at_learner_model_delta r))"
    and new: "\<And>m. m \<in> set (at_learner_model_delta r) \<Longrightarrow>
        valid_model_entry (tr_contract t) m (set (tr_learner_turn_ids t))"
    by (simp_all add: valid_agent_turn_def list_all_iff)
  from t have old: "distinct (map lm_entry_id (tr_learner_model t))"
    "\<And>m. m \<in> set (tr_learner_model t) \<Longrightarrow>
        valid_model_entry (tr_contract t) m (set (tr_learner_turn_ids t))"
    by (simp_all add: valid_topic_state_def vt_model_def list_all_iff)
  from old(1) ids have "distinct (map lm_entry_id ?m)" by (rule apply_model_updates_distinct)
  moreover have "\<forall>m \<in> set ?m. valid_model_entry (tr_contract t) m (set (tr_learner_turn_ids t))"
    using apply_model_updates_set new old(2) by blast
  moreover have "set (at_learner_model_delta r) \<subseteq> set ?m"
    using ids by (rule apply_model_updates_contains)
  ultimately show ?thesis
    using t r
    by (auto simp: valid_topic_state_def valid_topic_clauses commit_run_def list_all_iff
        topic_evidence_def valid_agent_turn_def)
qed

lemma requeue_run_valid:
  assumes t: "valid_topic_state t TL_ACTIVE sid n"
    and k: "valid_trigger (cw_trigger w) k (Some (tc_contract_digest (tr_contract t)))
              (tr_evidence_digest t)"
    and w: "valid_current_work w sid n" "cw_status w = WS_QUEUED"
  shows "valid_topic_state (requeue_run t w) TL_ACTIVE sid n"
  using assms
  by (auto simp: valid_topic_state_def valid_topic_clauses requeue_run_def valid_trigger_def
      topic_evidence_def)

lemma set_lens_run_valid:
  "valid_topic_state (t\<lparr>tr_current_lens := l\<rparr>) lc sid n \<longleftrightarrow> valid_topic_state t lc sid n"
  by (simp add: valid_topic_state_def valid_topic_clauses topic_evidence_def)

lemma learner_run_valid:
  assumes t: "valid_topic_state t TL_ACTIVE sid n"
    and k: "valid_trigger (cw_trigger w) k (Some (tc_contract_digest (tr_contract t)))
              (tr_evidence_digest t)"
    and w: "valid_current_work w sid n" "cw_status w = WS_QUEUED"
    and turn: "valid_text ltid" "valid_text txt" "ltid \<notin> set (tr_learner_turn_ids t)"
  shows "valid_topic_state (learner_run t ltid txt w) TL_ACTIVE sid n"
proof -
  have "set (tr_learner_turn_ids t) \<subseteq> set (tr_learner_turn_ids t @ [ltid])" by auto
  then have "list_all (\<lambda>g. valid_gate_assessment (tr_contract t) g
        (set (tr_learner_turn_ids t @ [ltid]))) (tr_gates t)"
    and "list_all (\<lambda>m. valid_model_entry (tr_contract t) m
        (set (tr_learner_turn_ids t @ [ltid]))) (tr_learner_model t)"
    using t unfolding valid_topic_state_def vt_model_def list_all_iff
    by (blast intro: valid_gate_assessment_mono valid_model_entry_mono)+
  with assms show ?thesis
    by (auto simp: valid_topic_state_def valid_topic_clauses learner_run_def valid_trigger_def
        topic_evidence_def)
qed

lemma complete_run_valid:
  assumes "valid_topic_state t TL_ACTIVE sid n" and "valid_topic_summary u"
  shows "valid_topic_state (complete_run t u) TL_COMPLETED sid n"
  using assms
  by (auto simp: valid_topic_state_def valid_topic_clauses complete_run_def topic_evidence_def)

lemma pause_run_valid:
  assumes "valid_topic_state t TL_ACTIVE sid n"
  shows "valid_topic_state (pause_run t) TL_PAUSED sid n"
proof (cases "tr_work t")
  case None
  with assms show ?thesis
    by (auto simp: valid_topic_state_def valid_topic_clauses pause_run_def supersede_work_def
        topic_evidence_def)
next
  case (Some w)
  with assms have "valid_current_work w sid n" by (rule valid_work_slot)
  with assms Some show ?thesis
    by (auto simp: valid_topic_state_def valid_topic_clauses pause_run_def supersede_work_def
        topic_evidence_def intro: valid_work_superseded)
qed

text \<open>Downgrading weakens statuses only; nothing that is not visible can lose its validity.\<close>

lemma stale_gate_id [simp]: "ga_gate_id (stale_gate g) = ga_gate_id g"
  by (simp add: stale_gate_def)

lemma stale_entry_id [simp]: "lm_entry_id (stale_entry m) = lm_entry_id m"
  by (simp add: stale_entry_def)

lemma stale_gate_valid:
  "valid_gate_assessment c g K \<Longrightarrow> valid_gate_assessment c (stale_gate g) K"
  by (auto simp: valid_gate_assessment_def valid_gate_assessment_shape_def stale_gate_def)

lemma stale_entry_valid: "valid_model_entry c m K \<Longrightarrow> valid_model_entry c (stale_entry m) K"
  by (auto simp: valid_model_entry_def valid_model_entry_shape_def stale_entry_def)

lemma downgrade_valid:
  assumes t: "valid_topic_state t TL_ACTIVE sid n" and "tr_current_agent_turn t = None"
  shows "valid_topic_state (downgrade t) TL_ACTIVE sid n"
proof -
  have "map ga_gate_id (map stale_gate (tr_gates t)) = map ga_gate_id (tr_gates t)"
    and "map lm_entry_id (map stale_entry (tr_learner_model t)) = map lm_entry_id (tr_learner_model t)"
    by simp_all
  moreover have "list_all (\<lambda>g. valid_gate_assessment (tr_contract t) g
      (set (tr_learner_turn_ids t))) (map stale_gate (tr_gates t))"
    and "list_all (\<lambda>m. valid_model_entry (tr_contract t) m
      (set (tr_learner_turn_ids t))) (map stale_entry (tr_learner_model t))"
    using t by (auto simp: valid_topic_state_def vt_model_def list_all_iff
        intro: stale_gate_valid stale_entry_valid)
  ultimately show ?thesis
    using assms
    by (simp add: valid_topic_state_def valid_topic_clauses downgrade_def topic_evidence_def
        del: map_map)
qed

text \<open>A paused or active run taken to the foreground with fresh work under checked evidence.\<close>

lemma resumed_work_run_valid:
  assumes t: "valid_topic_state t lc sid n" and lc: "lc \<in> {TL_ACTIVE, TL_PAUSED}"
    and e: "valid_evidence e"
    and k: "valid_trigger (cw_trigger w) k (Some (tc_contract_digest (tr_contract t)))
              (ec_evidence_digest e)"
    and w: "valid_current_work w sid n" "cw_status w = WS_QUEUED"
  shows "valid_topic_state (requeue_run (resumed_run t e) w) TL_ACTIVE sid n"
proof -
  have "topic_evidence (requeue_run (resumed_run t e) w) = e"
    by (simp add: topic_evidence_def requeue_run_def resumed_run_def with_evidence_def)
  with assms show ?thesis
    by (auto simp: valid_topic_state_def valid_topic_clauses requeue_run_def resumed_run_def
        with_evidence_def valid_trigger_def)
qed

lemma resumed_question_run_valid:
  assumes t: "valid_topic_state t TL_PAUSED sid n" and e: "\<not> evidence_differs e t"
    and q: "tr_current_agent_turn t \<noteq> None"
  shows "valid_topic_state (resumed_run t e) TL_ACTIVE sid n"
proof -
  from e have "e = topic_evidence t" by (simp add: topic_evidence_eq_iff)
  with t q show ?thesis
    by (auto simp: valid_topic_state_def valid_topic_clauses resumed_run_def with_evidence_def
        topic_evidence_def)
qed

lemma resumed_run_simps [simp]:
  "tr_current_agent_turn (resumed_run t e) = tr_current_agent_turn t"
  "tr_work (resumed_run t e) = tr_work t"
  "tr_contract (resumed_run t e) = tr_contract t"
  "tr_topic_run_id (resumed_run t e) = tr_topic_run_id t"
  "tr_evidence_health (resumed_run t e) = ec_health e"
  "open_question_id (resumed_run t e) = open_question_id t"
  by (simp_all add: resumed_run_def with_evidence_def open_question_id_def)

lemma run_id_simps [simp]:
  "tr_topic_run_id (commit_run t r) = tr_topic_run_id t"
  "tr_topic_run_id (requeue_run t w) = tr_topic_run_id t"
  "tr_topic_run_id (learner_run t i x w) = tr_topic_run_id t"
  "tr_topic_run_id (complete_run t u) = tr_topic_run_id t"
  "tr_topic_run_id (pause_run t) = tr_topic_run_id t"
  "tr_topic_run_id (downgrade t) = tr_topic_run_id t"
  "tr_topic_run_id (new_topic_run c e w) = tc_topic_run_id c"
  "tr_topic_run_id (recovered_run t e a w) = tr_topic_run_id t"
  by (simp_all add: commit_run_def requeue_run_def learner_run_def complete_run_def pause_run_def
      downgrade_def new_topic_run_def recovered_run_def Let_def resumed_run_def with_evidence_def)

lemma recovered_run_valid:
  assumes "valid_topic_state t lc sid n" and "lc \<in> {TL_ACTIVE, TL_PAUSED}" and "valid_evidence e"
    and "valid_trigger (cw_trigger w) k (Some (tc_contract_digest (tr_contract t)))
           (ec_evidence_digest e)"
    and "valid_current_work w sid n" and "cw_status w = WS_QUEUED"
  shows "valid_topic_state (recovered_run t e a w) TL_ACTIVE sid n"
  using resumed_work_run_valid [OF assms] downgrade_valid
  by (simp add: recovered_run_def Let_def requeue_run_def)

lemma open_question_None_iff [simp]:
  "open_question_id t = None \<longleftrightarrow> tr_current_agent_turn t = None"
  by (simp add: open_question_id_def)

end
