(* ===== verification/Preservation.thy ===== *)
theory Preservation
  imports Topic_Runs
begin

text \<open>
  The guards of the reducer keep the aggregate valid.  \<open>reduce\<close> ends with a call of
  \<open>validate_state\<close> on its result; the lemmas here show, branch by branch, that the
  call can only fail in two situations the guards leave open: candidates presented
  while contract work is outstanding, and a topic started under the id of a run
  that already exists.
\<close>

section \<open>Events that fit a state\<close>

definition event_fits :: "dialogue_state \<Rightarrow> committed_dialogue_event \<Rightarrow> bool" where
  "event_fits s ev \<longleftrightarrow>
     valid_committed_event_envelope ev
     \<and> ce_sequence ev = sequence s + 1
     \<and> ce_from_version ev = conversation_version s
     \<and> ce_to_version ev = ce_from_version ev + conversation_version_delta (ce_payload ev)"

lemma reduce_eq_InrD:
  assumes "reduce s ev = Inr s'"
  shows "validate_state s" "event_fits s ev" "apply_payload s (advance s ev) ev = Inr s'"
    "validate_state s'"
  using assms
  by (auto simp: reduce_def event_fits_def andthen_eq_Inr_iff split: if_splits)

lemma reduce_eq_InrI:
  assumes "validate_state s" and "event_fits s ev"
    and "apply_payload s (advance s ev) ev = Inr s'" and "validate_state s'"
  shows "reduce s ev = Inr s'"
  using assms by (simp add: reduce_def event_fits_def)

lemma advance_simps [simp]:
  "session_id (advance s ev) = session_id s"
  "registry_generation (advance s ev) = registry_generation s"
  "sequence (advance s ev) = ce_sequence ev"
  "conversation_version (advance s ev) = ce_to_version ev"
  "lifecycle (advance s ev) = lifecycle s"
  "phase (advance s ev) = phase s"
  "candidates (advance s ev) = candidates s"
  "session_work (advance s ev) = session_work s"
  "active_topic (advance s ev) = active_topic s"
  "paused_topics (advance s ev) = paused_topics s"
  "selected_candidate (advance s ev) = selected_candidate s"
  "topic_clarification (advance s ev) = topic_clarification s"
  "completed_topics (advance s ev) = completed_topics s"
  "exports (advance s ev) = exports s"
  by (simp_all add: advance_def)

lemma active_work_advance [simp]: "active_work (advance s ev) = active_work s"
  by (simp add: active_work_def)

lemma current_works_advance [simp]: "current_works (advance s ev) = current_works s"
  by (simp add: current_works_def)

text \<open>Advancing sequence and version alone keeps every clause.\<close>

lemma advance_clauses [simp]:
  "vs_lifecycle (advance s ev) = vs_lifecycle s"
  "vs_idle_phases (advance s ev) = vs_idle_phases s"
  "vs_awaiting_user (advance s ev) = vs_awaiting_user s"
  "vs_work_phases (advance s ev) = vs_work_phases s"
  "vs_session_work (advance s ev) = vs_session_work s"
  "vs_clarification (advance s ev) = vs_clarification s"
  "vs_dead_session_work (advance s ev) = vs_dead_session_work s"
  "vs_topic_ids (advance s ev) = vs_topic_ids s"
  "vs_exports (advance s ev) = vs_exports s"
  by (simp_all add: validate_state_clauses no_visible_question_def all_topic_ids_def
      cong: conversation_phase.case_cong option.case_cong)

lemma validate_advance:
  assumes v: "validate_state s" and f: "event_fits s ev"
  shows "validate_state (advance s ev)"
proof -
  from f have le: "sequence s \<le> ce_sequence ev" and "0 \<le> ce_sequence ev" "0 \<le> ce_to_version ev"
    by (auto simp: event_fits_def valid_committed_event_envelope_def valid_positive_int_def
        valid_nonnegative_int_def)
  then have "vs_fields (advance s ev)"
    using v by (cases "session_work s")
      (auto simp: validate_state_def vs_fields_def list_all_iff valid_nonnegative_int_def
        intro: valid_current_work_mono valid_export_record_mono)
  moreover have "vs_topics (advance s ev)"
    using v le by (cases "active_topic s")
      (auto simp: validate_state_def vs_topics_def list_all_iff intro: valid_topic_state_mono)
  ultimately show ?thesis using v by (simp add: validate_state_def)
qed

lemma validate_positive: "validate_state s \<Longrightarrow> 0 \<le> sequence s"
  by (simp add: validate_state_def vs_fields_def valid_nonnegative_int_def)

section \<open>What a valid state knows about its phase\<close>

lemmas state_defs =
  validate_state_def validate_state_clauses active_work_def current_works_def
  no_visible_question_def all_topic_ids_def List.map_filter_simps

lemma valid_active_topic:
  assumes "validate_state s" and "active_topic s = Some t"
  shows "valid_topic_state t TL_ACTIVE (session_id s) (sequence s)"
    and "lifecycle s = SL_OPEN" and "selected_candidate s = None"
    and "topic_clarification s = None" and "session_work s = None" and "candidates s = []"
    and "phase s \<in> {AWAITING_USER, WAITING_HOST, RECOVERABLE_ERROR}"
proof -
  show "valid_topic_state t TL_ACTIVE (session_id s) (sequence s)"
    using assms by (simp add: state_defs)
  then have one: "(tr_current_agent_turn t \<noteq> None) \<noteq> (tr_work t \<noteq> None)"
    by (simp add: valid_topic_state_def vt_lifecycle_def)
  show "lifecycle s = SL_OPEN"
    using assms by (cases "lifecycle s") (auto simp: state_defs)
  show ph: "phase s \<in> {AWAITING_USER, WAITING_HOST, RECOVERABLE_ERROR}"
    using assms by (cases "phase s") (auto simp: state_defs)
  show sw: "session_work s = None"
    using assms one ph
    by (cases "phase s"; cases "session_work s"; cases "tr_work t") (auto simp: state_defs)
  show sel: "selected_candidate s = None"
    using assms sw ph by (auto simp: state_defs)
  show "topic_clarification s = None"
    using assms sel by (cases "topic_clarification s") (auto simp: state_defs)
  show "candidates s = []"
    using assms ph by (auto simp: state_defs)
qed


section \<open>Branches\<close>

lemma keep_session_started:
  assumes n: "validate_state n" and "lifecycle n = SL_NEW"
    and w: "valid_current_work w (session_id n) (sequence n)" "cw_status w = WS_QUEUED"
    and t: "valid_trigger (cw_trigger w) TK_TOPIC_CANDIDATES None d"
  shows "validate_state
    (n\<lparr>lifecycle := SL_OPEN, phase := WAITING_HOST, session_work := Some w\<rparr>)"
  using assms by (auto simp: state_defs valid_trigger_def)

lemma keep_candidates_presented:
  assumes n: "validate_state n" and "phase n = WAITING_HOST" and "active_topic n = None"
    and "valid_candidates cs" and "selected_candidate n = None"
  shows "validate_state (n\<lparr>candidates := cs, phase := CHOOSING_TOPIC, session_work := None\<rparr>)"
  using assms by (cases "topic_clarification n") (auto simp: state_defs)

lemma keep_topic_selection_submitted:
  assumes n: "validate_state n" and "choosing_allowed n" and "valid_text c"
    and w: "valid_current_work w (session_id n) (sequence n)" "cw_status w = WS_QUEUED"
    and t: "valid_trigger (cw_trigger w) TK_TOPIC_SELECTION None d"
  shows "validate_state
    (n\<lparr>candidates := [], selected_candidate := Some c, phase := WAITING_HOST,
       session_work := Some w, topic_clarification := None\<rparr>)"
  using assms by (auto simp: state_defs valid_trigger_def choosing_allowed_def)

lemma keep_topic_clarification_requested:
  assumes n: "validate_state n" and "phase n = WAITING_HOST" and "active_topic n = None"
    and "selected_candidate n \<noteq> None" and "valid_text qid" and "valid_text q"
  shows "validate_state
    (n\<lparr>phase := CLARIFYING_TOPIC, session_work := None,
       topic_clarification :=
         Some \<lparr>cl_question_id = qid, cl_question = q, cl_answer = None\<rparr>\<rparr>)"
  using assms by (auto simp: state_defs valid_clarification_def)

lemma keep_topic_clarification_answered:
  assumes n: "validate_state n" and "phase n = CLARIFYING_TOPIC"
    and "valid_text a"
    and w: "valid_current_work w (session_id n) (sequence n)" "cw_status w = WS_QUEUED"
    and t: "valid_trigger (cw_trigger w) TK_TOPIC_SELECTION None d"
  shows "validate_state
    (n\<lparr>phase := WAITING_HOST, session_work := Some w,
       topic_clarification := map_option (\<lambda>c. c\<lparr>cl_answer := Some a\<rparr>) (topic_clarification n)\<rparr>)"
  using assms by (cases "topic_clarification n") (auto simp: state_defs valid_trigger_def valid_clarification_def)

lemma keep_topic_started:
  assumes n: "validate_state n" and "active_topic n = None" and "lifecycle n = SL_OPEN"
    and t: "valid_topic_state t TL_ACTIVE (session_id n) (sequence n)"
    and w: "tr_work t = Some w" "cw_status w = WS_QUEUED"
    and fresh: "tr_topic_run_id t \<notin> set (all_topic_ids n)"
  shows "validate_state
    (n\<lparr>active_topic := Some t, candidates := [], selected_candidate := None,
       topic_clarification := None, session_work := None, phase := WAITING_HOST\<rparr>)"
  using assms valid_work_slot [OF t w(1)] by (auto simp: state_defs)


lemma keep_waiting_topic:
  assumes n: "validate_state n" and t: "active_topic n = Some t"
    and t': "valid_topic_state t' TL_ACTIVE (session_id n) (sequence n)"
    and id: "tr_topic_run_id t' = tr_topic_run_id t"
    and w: "tr_work t' = Some w" "cw_status w \<in> {WS_QUEUED, WS_FAILED}"
  shows "validate_state (n\<lparr>active_topic := Some t', phase := WAITING_HOST\<rparr>)"
  using assms valid_active_topic [OF n t] valid_work_slot [OF t' w(1)]
  by (auto simp: state_defs)

lemma keep_awaiting_topic:
  assumes n: "validate_state n" and t: "active_topic n = Some t"
    and t': "valid_topic_state t' TL_ACTIVE (session_id n) (sequence n)"
    and id: "tr_topic_run_id t' = tr_topic_run_id t"
    and q: "tr_current_agent_turn t' \<noteq> None" and h: "tr_evidence_health t' \<in> PUBLISHABLE_EVIDENCE"
  shows "validate_state (n\<lparr>active_topic := Some t', phase := AWAITING_USER\<rparr>)"
proof -
  from t' q have "tr_work t' = None"
    by (auto simp: valid_topic_state_def vt_lifecycle_def split: if_splits)
  with assms valid_active_topic [OF n t] show ?thesis by (auto simp: state_defs)
qed

lemma keep_dead_topic:
  assumes n: "validate_state n" and t: "active_topic n = Some t"
    and t': "valid_topic_state t' TL_ACTIVE (session_id n) (sequence n)"
    and id: "tr_topic_run_id t' = tr_topic_run_id t"
    and w: "tr_work t' = Some w" "cw_status w = WS_DEAD_LETTER"
  shows "validate_state (n\<lparr>active_topic := Some t', phase := RECOVERABLE_ERROR\<rparr>)"
  using assms valid_active_topic [OF n t] valid_work_slot [OF t' w(1)]
  by (auto simp: state_defs)

lemma keep_topic_completed:
  assumes n: "validate_state n" and t: "active_topic n = Some t"
    and t': "valid_topic_state t' TL_COMPLETED (session_id n) (sequence n)"
    and id: "tr_topic_run_id t' = tr_topic_run_id t"
  shows "validate_state
    (n\<lparr>active_topic := None, completed_topics := completed_topics n @ [t'], phase := PHASE_NONE\<rparr>)"
  using assms valid_active_topic [OF n t] by (auto simp: state_defs)

lemma keep_topic_paused:
  assumes n: "validate_state n" and t: "active_topic n = Some t"
    and t': "valid_topic_state t' TL_PAUSED (session_id n) (sequence n)"
    and id: "tr_topic_run_id t' = tr_topic_run_id t"
  shows "validate_state
    (n\<lparr>active_topic := None, paused_topics := paused_topics n @ [t'], phase := PHASE_NONE\<rparr>)"
  using assms valid_active_topic [OF n t] by (auto simp: state_defs)

lemma keep_topic_switched:
  assumes n: "validate_state n" and t: "active_topic n = Some t"
    and t': "valid_topic_state t' TL_PAUSED (session_id n) (sequence n)"
    and id: "tr_topic_run_id t' = tr_topic_run_id t"
    and w: "valid_current_work w (session_id n) (sequence n)" "cw_status w = WS_QUEUED"
    and k: "valid_trigger (cw_trigger w) TK_TOPIC_CANDIDATES None d"
  shows "validate_state
    (n\<lparr>active_topic := None, paused_topics := paused_topics n @ [t'], candidates := [],
       selected_candidate := None, topic_clarification := None, session_work := Some w,
       phase := WAITING_HOST\<rparr>)"
  using assms valid_active_topic [OF n t] by (auto simp: state_defs valid_trigger_def)

lemma keep_topic_explored:
  assumes n: "validate_state n" and "phase n = PHASE_NONE" and "lifecycle n = SL_OPEN"
    and w: "valid_current_work w (session_id n) (sequence n)" "cw_status w = WS_QUEUED"
    and k: "valid_trigger (cw_trigger w) TK_TOPIC_CANDIDATES None d"
  shows "validate_state
    (n\<lparr>candidates := [], selected_candidate := None, topic_clarification := None,
       session_work := Some w, phase := WAITING_HOST\<rparr>)"
  using assms by (auto simp: state_defs valid_trigger_def)

lemma keep_session_deactivated:
  assumes n: "validate_state n" and "active_topic n = None"
  shows "validate_state
    (n\<lparr>lifecycle := SL_OPEN, phase := PHASE_NONE, candidates := [], selected_candidate := None,
       topic_clarification := None, session_work := None\<rparr>)"
  using assms by (auto simp: state_defs)

lemma keep_resumed_topic:
  assumes n: "validate_state n" and "phase n = PHASE_NONE" and "lifecycle n = SL_OPEN"
    and p: "p \<in> set (paused_topics n)"
    and t': "valid_topic_state t' TL_ACTIVE (session_id n) (sequence n)"
    and id: "tr_topic_run_id t' = tr_topic_run_id p"
    and ph: "(ph = WAITING_HOST \<and> (\<exists>w. tr_work t' = Some w \<and> cw_status w = WS_QUEUED))
      \<or> (ph = AWAITING_USER \<and> tr_current_agent_turn t' \<noteq> None
          \<and> tr_evidence_health t' \<in> PUBLISHABLE_EVIDENCE)"
  shows "validate_state
    (n\<lparr>active_topic := Some t',
       paused_topics := filter (\<lambda>x. tr_topic_run_id x \<noteq> tr_topic_run_id p) (paused_topics n),
       phase := ph\<rparr>)"
proof -
  have one: "(tr_current_agent_turn t' \<noteq> None) \<noteq> (tr_work t' \<noteq> None)"
    using t' by (simp add: valid_topic_state_def vt_lifecycle_def)
  have "distinct (map tr_topic_run_id
          (filter (\<lambda>x. tr_topic_run_id x \<noteq> tr_topic_run_id p) (paused_topics n)))"
    using n by (simp add: state_defs distinct_map_filterI)
  moreover have "list_all (\<lambda>t. valid_topic_state t TL_PAUSED (session_id n) (sequence n))
      (filter (\<lambda>x. tr_topic_run_id x \<noteq> tr_topic_run_id p) (paused_topics n))"
    using n by (simp add: validate_state_def vs_topics_def list_all_iff)
  ultimately show ?thesis using assms one by (auto simp: state_defs)
qed

lemma keep_session_requeued:
  assumes n: "validate_state n" and s: "session_work n = Some w" and "phase n = WAITING_HOST"
    and w': "valid_current_work w' (session_id n) (sequence n)"
      "cw_status w' \<in> {WS_QUEUED, WS_FAILED}"
    and k: "is_canonical_trigger_binding (cw_trigger w')"
      "tb_kind (cw_trigger w') = tb_kind (cw_trigger w)" "tb_contract_digest (cw_trigger w') = None"
  shows "validate_state (n\<lparr>session_work := Some w'\<rparr>)"
  using assms by (auto simp: state_defs valid_trigger_def)

lemma keep_session_dead:
  assumes n: "validate_state n" and s: "session_work n = Some w" and "phase n = WAITING_HOST"
    and c: "topic_clarification n = None"
    and w': "valid_current_work w' (session_id n) (sequence n)" "cw_status w' = WS_DEAD_LETTER"
      "cw_allowed_recovery_actions w' = [RA_RETRY]"
    and k: "cw_trigger w' = cw_trigger w"
  shows "validate_state (n\<lparr>session_work := Some w', phase := RECOVERABLE_ERROR\<rparr>)"
  using assms by (auto simp: state_defs valid_trigger_def)

lemma keep_session_recovered:
  assumes n: "validate_state n" and s: "session_work n = Some w" and "phase n = RECOVERABLE_ERROR"
    and w': "valid_current_work w' (session_id n) (sequence n)" "cw_status w' = WS_QUEUED"
    and k: "is_canonical_trigger_binding (cw_trigger w')"
      "tb_kind (cw_trigger w') = tb_kind (cw_trigger w)" "tb_contract_digest (cw_trigger w') = None"
  shows "validate_state (n\<lparr>session_work := Some w', phase := WAITING_HOST\<rparr>)"
  using assms
  by (cases "topic_clarification n"; cases "active_topic n") (auto simp: state_defs valid_trigger_def)

lemma export_clauses [simp]:
  "vs_idle_phases (n\<lparr>exports := xs\<rparr>) = vs_idle_phases n"
  "vs_awaiting_user (n\<lparr>exports := xs\<rparr>) = vs_awaiting_user n"
  "vs_work_phases (n\<lparr>exports := xs\<rparr>) = vs_work_phases n"
  "vs_session_work (n\<lparr>exports := xs\<rparr>) = vs_session_work n"
  "vs_clarification (n\<lparr>exports := xs\<rparr>) = vs_clarification n"
  "vs_dead_session_work (n\<lparr>exports := xs\<rparr>) = vs_dead_session_work n"
  "vs_topics (n\<lparr>exports := xs\<rparr>) = vs_topics n"
  "vs_topic_ids (n\<lparr>exports := xs\<rparr>) = vs_topic_ids n"
  by (simp_all add: validate_state_clauses no_visible_question_def all_topic_ids_def
      current_works_def active_work_def
      cong: conversation_phase.case_cong option.case_cong)

lemma keep_exports:
  assumes n: "validate_state n" and "lifecycle n \<noteq> SL_NEW"
    and "list_all (\<lambda>r. valid_export_record r (sequence n)) xs"
    and "map ex_export_sequence xs = map int [1..<Suc (length xs)]"
    and "distinct (map ex_export_id xs)" and "distinct (map ex_intent_id xs)"
  shows "validate_state (n\<lparr>exports := xs\<rparr>)"
proof -
  have "vs_fields (n\<lparr>exports := xs\<rparr>)"
    using n assms(3) by (simp add: validate_state_def vs_fields_def)
  moreover have "vs_lifecycle (n\<lparr>exports := xs\<rparr>)"
    using n assms(2) by (simp add: validate_state_def vs_lifecycle_def)
  moreover have "vs_exports (n\<lparr>exports := xs\<rparr>)"
    using assms(4-) by (simp add: vs_exports_def)
  ultimately show ?thesis using n by (simp add: validate_state_def)
qed

lemma keep_export_requested:
  assumes n: "validate_state n" and "lifecycle n \<noteq> SL_NEW"
    and r: "valid_export_record r (sequence n)" "ex_export_sequence r = int (length (exports n)) + 1"
    and fresh: "list_all (\<lambda>x. ex_export_id x \<noteq> ex_export_id r \<and> ex_intent_id x \<noteq> ex_intent_id r)
      (exports n)"
  shows "validate_state (n\<lparr>exports := exports n @ [r]\<rparr>)"
proof (rule keep_exports)
  from n have e: "vs_exports n" and f: "vs_fields n" by (simp_all add: validate_state_def)
  from f r show "list_all (\<lambda>r. valid_export_record r (sequence n)) (exports n @ [r])"
    by (simp add: vs_fields_def)
  from e r show "map ex_export_sequence (exports n @ [r])
      = map int [1..<Suc (length (exports n @ [r]))]"
    by (simp add: vs_exports_def)
  from e fresh show "distinct (map ex_export_id (exports n @ [r]))"
    and "distinct (map ex_intent_id (exports n @ [r]))"
    by (auto simp: vs_exports_def list_all_iff)
qed (use assms in simp_all)

lemma keep_export_completed:
  assumes n: "validate_state n" and "lifecycle n \<noteq> SL_NEW"
    and g: "\<And>r. r \<in> set (exports n) \<Longrightarrow> P r \<Longrightarrow> valid_export_record (g r) (sequence n)"
    and ids: "\<And>r. ex_export_id (g r) = ex_export_id r" "\<And>r. ex_intent_id (g r) = ex_intent_id r"
      "\<And>r. ex_export_sequence (g r) = ex_export_sequence r"
  shows "validate_state (n\<lparr>exports := map (\<lambda>r. if P r then g r else r) (exports n)\<rparr>)"
proof (rule keep_exports)
  let ?xs = "map (\<lambda>r. if P r then g r else r) (exports n)"
  from n have e: "vs_exports n" and f: "vs_fields n" by (simp_all add: validate_state_def)
  show "list_all (\<lambda>r. valid_export_record r (sequence n)) ?xs"
    using f g by (auto simp: vs_fields_def list_all_iff)
  have "map ex_export_id ?xs = map ex_export_id (exports n)"
    "map ex_intent_id ?xs = map ex_intent_id (exports n)"
    "map ex_export_sequence ?xs = map ex_export_sequence (exports n)"
    using ids by auto
  with e show "map ex_export_sequence ?xs = map int [1..<Suc (length ?xs)]"
    and "distinct (map ex_export_id ?xs)" and "distinct (map ex_intent_id ?xs)"
    by (simp_all only: vs_exports_def length_map)
qed (use assms in simp_all)

end
