(* ===== verification/Guards.thy ===== *)
theory Guards
  imports Preservation
begin

text \<open>
  The guards of every branch of \<open>reduce\<close> against the invariant: whenever a branch
  applies to a valid state and the situation is not one of the three \<open>invariant_gap\<close>
  cases, its result is valid, so the final call of \<open>validate_state\<close> cannot fail.
\<close>

section \<open>The gaps\<close>

text \<open>
  The three situations that pass the guards of a branch but not the final validation:
  candidates presented while a selected candidate is outstanding, a contract that
  reuses the id of an existing topic run, and a dead letter for the contract work
  that follows an answered clarification.
\<close>

definition invariant_gap :: "dialogue_state \<Rightarrow> dialogue_event_payload \<Rightarrow> bool" where
  "invariant_gap s p =
     (case p of
        CandidatesPresented _ _ \<Rightarrow> selected_candidate s \<noteq> None
      | TopicStarted c _ _ _ _ \<Rightarrow> tc_topic_run_id c \<in> set (all_topic_ids s)
      | WorkDeadLettered _ _ _ _ _ \<Rightarrow> topic_clarification s \<noteq> None
      | _ \<Rightarrow> False)"

lemma all_topic_ids_advance [simp]: "all_topic_ids (advance s ev) = all_topic_ids s"
  by (simp add: all_topic_ids_def)

lemma fits_positive:
  assumes "validate_state s" and "event_fits s ev"
  shows "1 \<le> ce_sequence ev" and "sequence s \<le> ce_sequence ev" and "0 \<le> sequence s"
    and "is_protocol_id (ce_event_id ev)" and "valid_event_payload_shape (ce_payload ev)"
  using assms validate_positive [of s]
  by (auto simp: event_fits_def valid_committed_event_envelope_def valid_positive_int_def)

text \<open>The one work item of a waiting state, and where it is.\<close>

lemma waiting_work:
  assumes v: "validate_state s" and w: "current_nonterminal_work s = Some w"
  shows "(session_work s = Some w \<and> active_topic s = None)
       \<or> (\<exists>t. active_topic s = Some t \<and> tr_work t = Some w \<and> session_work s = None)"
proof (cases "active_topic s")
  case (Some t)
  with v have "session_work s = None" by (rule valid_active_topic)
  with Some w show ?thesis
    by (cases "tr_work t")
      (auto simp: current_nonterminal_work_def current_works_def active_work_def
        List.map_filter_simps split: if_splits)
next
  case None
  with w show ?thesis
    by (cases "session_work s")
      (auto simp: current_nonterminal_work_def current_works_def active_work_def
        List.map_filter_simps split: if_splits)
qed

lemma valid_session_work:
  assumes v: "validate_state s" and w: "session_work s = Some w"
  shows "valid_current_work w (session_id s) (sequence s)" and "active_topic s = None"
    and "lifecycle s = SL_OPEN" and "phase s \<in> {WAITING_HOST, RECOVERABLE_ERROR}"
    and "tb_contract_digest (cw_trigger w) = None"
    and "tb_kind (cw_trigger w) \<in> {TK_TOPIC_CANDIDATES, TK_TOPIC_SELECTION}"
proof -
  show "active_topic s = None"
    using valid_active_topic(5) [OF v] w by (cases "active_topic s") auto
  show "lifecycle s = SL_OPEN"
    using assms by (cases "lifecycle s") (auto simp: state_defs)
  show "phase s \<in> {WAITING_HOST, RECOVERABLE_ERROR}"
    using assms by (cases "phase s") (auto simp: state_defs)
qed (use assms in \<open>auto simp: state_defs valid_trigger_def\<close>)

section \<open>Selection branches\<close>

lemma red_session_started_valid:
  assumes v: "validate_state s" and f: "event_fits s ev"
    and r: "red_session_started s (advance s ev) ev t = Inr s'"
  shows "validate_state s'"
proof -
  from r obtain w where g: "lifecycle s = SL_NEW" "valid_trigger t TK_TOPIC_CANDIDATES None
        (tb_evidence_digest t)" and w: "fresh_work s ev t = Inr w"
    and s': "s' = (advance s ev)\<lparr>lifecycle := SL_OPEN, phase := WAITING_HOST,
        session_work := Some w\<rparr>"
    by (auto simp: red_session_started_def andthen_eq_Inr_iff)
  show ?thesis unfolding s'
    using keep_session_started [OF validate_advance [OF v f]] g fresh_work_InrD [OF w] by simp
qed

lemma red_candidates_presented_valid:
  assumes v: "validate_state s" and f: "event_fits s ev" and "selected_candidate s = None"
    and r: "red_candidates_presented s (advance s ev) ev cs t = Inr s'"
  shows "validate_state s'"
  using r keep_candidates_presented [OF validate_advance [OF v f]] assms(3)
  by (auto simp: red_candidates_presented_def)

lemma red_topic_selection_submitted_valid:
  assumes v: "validate_state s" and f: "event_fits s ev"
    and r: "red_topic_selection_submitted s (advance s ev) ev c t = Inr s'"
  shows "validate_state s'"
proof -
  from r obtain w where g: "choosing_allowed (advance s ev)" "valid_text c"
      "valid_trigger t TK_TOPIC_SELECTION None (tb_evidence_digest t)"
    and w: "fresh_work s ev t = Inr w"
    and s': "s' = (advance s ev)\<lparr>candidates := [], selected_candidate := Some c,
        phase := WAITING_HOST, session_work := Some w, topic_clarification := None\<rparr>"
    by (auto simp: red_topic_selection_submitted_def andthen_eq_Inr_iff choosing_allowed_def)
  show ?thesis unfolding s'
    using keep_topic_selection_submitted [OF validate_advance [OF v f]] g fresh_work_InrD [OF w]
    by simp
qed

lemma red_topic_clarification_requested_valid:
  assumes v: "validate_state s" and f: "event_fits s ev"
    and p: "ce_payload ev = TopicClarificationRequested qid q t"
    and r: "red_topic_clarification_requested s (advance s ev) ev qid q t = Inr s'"
  shows "validate_state s'"
  using r keep_topic_clarification_requested [OF validate_advance [OF v f]]
    fits_positive(5) [OF v f] p
  by (auto simp: red_topic_clarification_requested_def)

lemma red_topic_clarification_answered_valid:
  assumes v: "validate_state s" and f: "event_fits s ev"
    and p: "ce_payload ev = TopicClarificationAnswered qid a t"
    and r: "red_topic_clarification_answered s (advance s ev) ev qid a t = Inr s'"
  shows "validate_state s'"
proof -
  from r obtain w where g: "phase s = CLARIFYING_TOPIC"
      "valid_trigger t TK_TOPIC_SELECTION None (tb_evidence_digest t)"
    and w: "fresh_work s ev t = Inr w"
    and s': "s' = (advance s ev)\<lparr>phase := WAITING_HOST, session_work := Some w,
        topic_clarification :=
          map_option (\<lambda>c. c\<lparr>cl_answer := Some a\<rparr>) (topic_clarification (advance s ev))\<rparr>"
    by (auto simp: red_topic_clarification_answered_def andthen_eq_Inr_iff)
  show ?thesis unfolding s'
    using keep_topic_clarification_answered [OF validate_advance [OF v f]] g
      fresh_work_InrD [OF w] fits_positive(5) [OF v f] p by simp
qed

lemma red_topic_started_valid:
  assumes v: "validate_state s" and f: "event_fits s ev"
    and fresh: "tc_topic_run_id c \<notin> set (all_topic_ids s)"
    and r: "red_topic_started s (advance s ev) ev c e t sel st = Inr s'"
  shows "validate_state s'"
proof -
  from r obtain w where g: "active_topic s = None" "valid_contract c" "valid_evidence e"
      "valid_trigger t (initial_kind e) (Some (tc_contract_digest c)) (ec_evidence_digest e)"
      "started_from_candidates s sel st \<or> started_from_selection s sel st"
    and w: "fresh_work s ev t = Inr w"
    and s': "s' = (advance s ev)\<lparr>active_topic := Some (new_topic_run c e w), candidates := [],
        selected_candidate := None, topic_clarification := None, session_work := None,
        phase := WAITING_HOST\<rparr>"
    by (auto simp: red_topic_started_def andthen_eq_Inr_iff)
  note w' = fresh_work_InrD [OF w]
  have "lifecycle s = SL_OPEN"
    using v g(5) by (cases "lifecycle s")
      (auto simp: state_defs started_from_candidates_def started_from_selection_def
        legacy_selection_def)
  moreover have "valid_topic_state (new_topic_run c e w) TL_ACTIVE (session_id s) (ce_sequence ev)"
    using new_topic_run_valid g w' by simp
  ultimately show ?thesis unfolding s'
    using keep_topic_started [OF validate_advance [OF v f]] g w' fresh
    by (simp add: new_topic_run_def)
qed

section \<open>Turn branches\<close>

lemma active_advanced:
  assumes v: "validate_state s" and f: "event_fits s ev" and t: "active_topic s = Some t"
  shows "valid_topic_state t TL_ACTIVE (session_id s) (ce_sequence ev)"
  using valid_active_topic(1) [OF validate_advance [OF v f]] t by simp

lemma red_agent_turn_committed_valid:
  assumes v: "validate_state s" and f: "event_fits s ev"
    and r: "red_agent_turn_committed s (advance s ev) ev res t e = Inr s'"
  shows "validate_state s'"
proof -
  from r obtain topic where t: "active_topic s = Some topic"
    and g: "tr_evidence_health topic \<in> PUBLISHABLE_EVIDENCE" "\<not> evidence_differs e topic"
      "valid_agent_turn (tr_contract topic) res e (set (tr_learner_turn_ids topic))"
    and s': "s' = (advance s ev)\<lparr>active_topic := Some (commit_run topic res),
        phase := AWAITING_USER\<rparr>"
    by (auto simp: red_agent_turn_committed_def split: option.splits)
  from g have "valid_topic_state (commit_run topic res) TL_ACTIVE (session_id s) (ce_sequence ev)"
    by (auto intro!: commit_run_valid [OF active_advanced [OF v f t]] simp: topic_evidence_eq_iff)
  then show ?thesis unfolding s'
    using keep_awaiting_topic [OF validate_advance [OF v f]] t g by (simp add: commit_run_def)
qed

lemma requeued_topic_valid:
  assumes v: "validate_state s" and f: "event_fits s ev" and t: "active_topic s = Some topic"
    and w: "fresh_work s ev tr = Inr w"
    and g: "valid_trigger tr k (Some (tc_contract_digest (tr_contract topic)))
              (tr_evidence_digest topic)"
  shows "validate_state ((advance s ev)\<lparr>active_topic := Some (requeue_run topic w),
           phase := WAITING_HOST\<rparr>)"
    and "validate_state ((advance s ev)\<lparr>active_topic :=
           Some ((requeue_run topic w)\<lparr>tr_current_lens := l\<rparr>), phase := WAITING_HOST\<rparr>)"
proof -
  note w' = fresh_work_InrD [OF w]
  have q: "valid_topic_state (requeue_run topic w) TL_ACTIVE (session_id s) (ce_sequence ev)"
    using requeue_run_valid [OF active_advanced [OF v f t]] w' g by simp
  then show "validate_state ((advance s ev)\<lparr>active_topic := Some (requeue_run topic w),
           phase := WAITING_HOST\<rparr>)"
    using keep_waiting_topic [OF validate_advance [OF v f]] t w' by (simp add: requeue_run_def)
  from q have "valid_topic_state ((requeue_run topic w)\<lparr>tr_current_lens := l\<rparr>) TL_ACTIVE
      (session_id s) (ce_sequence ev)" by (simp add: set_lens_run_valid)
  then show "validate_state ((advance s ev)\<lparr>active_topic :=
           Some ((requeue_run topic w)\<lparr>tr_current_lens := l\<rparr>), phase := WAITING_HOST\<rparr>)"
    using keep_waiting_topic [OF validate_advance [OF v f]] t w' by (simp add: requeue_run_def)
qed

lemma red_learner_turn_submitted_valid:
  assumes v: "validate_state s" and f: "event_fits s ev"
    and r: "red_learner_turn_submitted s (advance s ev) ev qid ltid txt t = Inr s'"
  shows "validate_state s'"
proof -
  from r obtain topic w where t: "active_topic s = Some topic"
    and g: "valid_text ltid" "valid_text txt" "ltid \<notin> set (tr_learner_turn_ids topic)"
      "valid_trigger t TK_LEARNER_REPLY (Some (tc_contract_digest (tr_contract topic)))
         (tr_evidence_digest topic)"
    and w: "fresh_work s ev t = Inr w"
    and s': "s' = (advance s ev)\<lparr>active_topic := Some (learner_run topic ltid txt w),
        phase := WAITING_HOST\<rparr>"
    by (auto simp: red_learner_turn_submitted_def andthen_eq_Inr_iff split: option.splits)
  note w' = fresh_work_InrD [OF w]
  have "valid_topic_state (learner_run topic ltid txt w) TL_ACTIVE (session_id s) (ce_sequence ev)"
    using learner_run_valid [OF active_advanced [OF v f t]] w' g by simp
  then show ?thesis unfolding s'
    using keep_waiting_topic [OF validate_advance [OF v f]] t w' by (simp add: learner_run_def)
qed

lemma red_lens_changed_valid:
  assumes v: "validate_state s" and f: "event_fits s ev"
    and r: "red_lens_changed s (advance s ev) ev trid l t = Inr s'"
  shows "validate_state s'"
  using r requeued_topic_valid(2) [OF v f]
  by (auto simp: red_lens_changed_def andthen_eq_Inr_iff split: option.splits)

lemma red_help_requested_valid:
  assumes v: "validate_state s" and f: "event_fits s ev"
    and r: "red_help_requested s (advance s ev) ev trid qid t = Inr s'"
  shows "validate_state s'"
  using r requeued_topic_valid(1) [OF v f]
  by (auto simp: red_help_requested_def andthen_eq_Inr_iff split: option.splits)

section \<open>Topic branches\<close>

lemma red_topic_completed_valid:
  assumes v: "validate_state s" and f: "event_fits s ev"
    and p: "ce_payload ev = TopicCompleted trid u t e asof fp"
    and r: "red_topic_completed s (advance s ev) ev trid u t e asof fp = Inr s'"
  shows "validate_state s'"
proof -
  from r obtain topic where t: "active_topic s = Some topic"
    and s': "s' = (advance s ev)\<lparr>active_topic := None,
        completed_topics := completed_topics (advance s ev) @ [complete_run topic u],
        phase := PHASE_NONE\<rparr>"
    by (auto simp: red_topic_completed_def split: option.splits)
  have "valid_topic_state (complete_run topic u) TL_COMPLETED (session_id s) (ce_sequence ev)"
    using complete_run_valid [OF active_advanced [OF v f t]] fits_positive(5) [OF v f] p by simp
  then show ?thesis unfolding s'
    using keep_topic_completed [OF validate_advance [OF v f]] t by simp
qed

lemma red_topic_paused_valid:
  assumes v: "validate_state s" and f: "event_fits s ev"
    and r: "red_topic_paused s (advance s ev) ev trid cause hid fg = Inr s'"
  shows "validate_state s'"
proof -
  from r obtain topic where t: "active_topic s = Some topic"
    and s': "s' = (advance s ev)\<lparr>active_topic := None,
        paused_topics := paused_topics (advance s ev) @ [pause_run topic], phase := PHASE_NONE\<rparr>"
    by (auto simp: red_topic_paused_def split: option.splits)
  show ?thesis unfolding s'
    using keep_topic_paused [OF validate_advance [OF v f]] t
      pause_run_valid [OF active_advanced [OF v f t]] by simp
qed

lemma red_topic_switch_requested_valid:
  assumes v: "validate_state s" and f: "event_fits s ev"
    and r: "red_topic_switch_requested s (advance s ev) ev trid t = Inr s'"
  shows "validate_state s'"
proof -
  from r obtain topic w where t: "active_topic s = Some topic"
    and g: "valid_trigger t TK_TOPIC_CANDIDATES None (tb_evidence_digest t)"
    and w: "fresh_work s ev t = Inr w"
    and s': "s' = (advance s ev)\<lparr>active_topic := None,
        paused_topics := paused_topics (advance s ev) @ [pause_run topic], candidates := [],
        selected_candidate := None, topic_clarification := None, session_work := Some w,
        phase := WAITING_HOST\<rparr>"
    by (auto simp: red_topic_switch_requested_def andthen_eq_Inr_iff split: option.splits)
  show ?thesis unfolding s'
    using keep_topic_switched [OF validate_advance [OF v f]] t g fresh_work_InrD [OF w]
      pause_run_valid [OF active_advanced [OF v f t]] by simp
qed

lemma red_topic_exploration_requested_valid:
  assumes v: "validate_state s" and f: "event_fits s ev" and l: "lifecycle s \<noteq> SL_ENDED"
    and r: "red_topic_exploration_requested s (advance s ev) ev t = Inr s'"
  shows "validate_state s'"
proof -
  from r obtain w where g: "phase s = PHASE_NONE" "completed_topics s \<noteq> [] \<or> paused_topics s \<noteq> []"
      "valid_trigger t TK_TOPIC_CANDIDATES None (tb_evidence_digest t)"
    and w: "fresh_work s ev t = Inr w"
    and s': "s' = (advance s ev)\<lparr>candidates := [], selected_candidate := None,
        topic_clarification := None, session_work := Some w, phase := WAITING_HOST\<rparr>"
    by (auto simp: red_topic_exploration_requested_def andthen_eq_Inr_iff)
  from v l g(2) have "lifecycle s = SL_OPEN"
    by (cases "lifecycle s") (auto simp: validate_state_def vs_lifecycle_def)
  then show ?thesis unfolding s'
    using keep_topic_explored [OF validate_advance [OF v f]] g fresh_work_InrD [OF w] by simp
qed

lemma red_session_deactivation_prepared_valid:
  assumes v: "validate_state s" and f: "event_fits s ev"
    and r: "red_session_deactivation_prepared s (advance s ev) ev hid fg st = Inr s'"
  shows "validate_state s'"
  using r keep_session_deactivated [OF validate_advance [OF v f]]
  by (auto simp: red_session_deactivation_prepared_def)

text \<open>The topic that \<open>resume_active\<close> builds, with the phase it belongs to.\<close>

lemma resume_active_valid:
  assumes v: "validate_state s" and f: "event_fits s ev"
    and p: "p \<in> set (paused_topics s)" and e: "valid_evidence e"
    and r: "resume_active s ev p t e = Inr (a, ph)"
  shows "valid_topic_state a TL_ACTIVE (session_id s) (ce_sequence ev)"
    and "tr_topic_run_id a = tr_topic_run_id p"
    and "(ph = WAITING_HOST \<and> (\<exists>w. tr_work a = Some w \<and> cw_status w = WS_QUEUED))
      \<or> (ph = AWAITING_USER \<and> tr_current_agent_turn a \<noteq> None
          \<and> tr_evidence_health a \<in> PUBLISHABLE_EVIDENCE)"
proof -
  have pv: "valid_topic_state p TL_PAUSED (session_id s) (ce_sequence ev)"
    using validate_advance [OF v f] p by (simp add: validate_state_def vs_topics_def list_all_iff)
  note run = resumed_work_run_valid [OF pv _ e]
  consider (reground) rt w where "requires_reground e p" "t = Some rt"
        "valid_trigger rt TK_REGROUND (Some (tc_contract_digest (tr_contract p)))
           (ec_evidence_digest e)"
        "fresh_work s ev rt = Inr w" "a = downgrade (requeue_run (resumed_run p e) w)"
        "ph = WAITING_HOST"
    | (question) "\<not> requires_reground e p" "tr_current_agent_turn p \<noteq> None"
        "a = resumed_run p e" "ph = AWAITING_USER"
    | (work) saved rt w where "\<not> requires_reground e p" "tr_current_agent_turn p = None"
        "tr_work p = Some saved" "fresh_work s ev rt = Inr w"
        "valid_trigger rt (tb_kind (cw_trigger saved))
           (Some (tc_contract_digest (tr_contract p))) (ec_evidence_digest e)"
        "a = (resumed_run p e)\<lparr>tr_work := Some w\<rparr>" "ph = WAITING_HOST"
    using r
    by (auto simp: resume_active_def Let_def andthen_eq_Inr_iff split: option.splits if_splits)
  then have "valid_topic_state a TL_ACTIVE (session_id s) (ce_sequence ev)
      \<and> tr_topic_run_id a = tr_topic_run_id p
      \<and> ((ph = WAITING_HOST \<and> (\<exists>w. tr_work a = Some w \<and> cw_status w = WS_QUEUED))
        \<or> (ph = AWAITING_USER \<and> tr_current_agent_turn a \<noteq> None
            \<and> tr_evidence_health a \<in> PUBLISHABLE_EVIDENCE))"
  proof cases
    case reground
    note w = fresh_work_InrD [OF reground(4)]
    have "valid_topic_state (requeue_run (resumed_run p e) w) TL_ACTIVE (session_id s)
        (ce_sequence ev)"
      using run w reground(3) by simp
    then have "valid_topic_state a TL_ACTIVE (session_id s) (ce_sequence ev)"
      unfolding reground(5) by (rule downgrade_valid) (simp add: requeue_run_def)
    with reground w show ?thesis by (simp add: downgrade_def requeue_run_def)
  next
    case question
    then have "\<not> evidence_differs e p" and "ec_health e \<in> PUBLISHABLE_EVIDENCE"
      by (cases "ec_health e"; simp add: requires_reground_def PUBLISHABLE_EVIDENCE_def)+
    with question resumed_question_run_valid [OF pv] show ?thesis by simp
  next
    case work
    note w = fresh_work_InrD [OF work(4)]
    have "a = requeue_run (resumed_run p e) w"
      using work(2,6) by (simp add: requeue_run_def resumed_run_def with_evidence_def)
    with work w run show ?thesis by (simp add: requeue_run_def)
  qed
  then show "valid_topic_state a TL_ACTIVE (session_id s) (ce_sequence ev)"
    and "tr_topic_run_id a = tr_topic_run_id p"
    and "(ph = WAITING_HOST \<and> (\<exists>w. tr_work a = Some w \<and> cw_status w = WS_QUEUED))
      \<or> (ph = AWAITING_USER \<and> tr_current_agent_turn a \<noteq> None
          \<and> tr_evidence_health a \<in> PUBLISHABLE_EVIDENCE)"
    by blast+
qed

lemma red_topic_resumed_valid:
  assumes v: "validate_state s" and f: "event_fits s ev" and l: "lifecycle s \<noteq> SL_ENDED"
    and r: "red_topic_resumed s (advance s ev) ev trid rr t e = Inr s'"
  shows "validate_state s'"
proof -
  from r obtain p a ph where g: "valid_evidence e" "phase s = PHASE_NONE"
    and m: "filter (\<lambda>x. tr_topic_run_id x = trid) (paused_topics s) = [p]"
    and a: "resume_active s ev p t e = Inr (a, ph)"
    and s': "s' = (advance s ev)\<lparr>active_topic := Some a,
        paused_topics := filter (\<lambda>x. tr_topic_run_id x \<noteq> trid) (paused_topics (advance s ev)),
        phase := ph\<rparr>"
    by (auto simp: red_topic_resumed_def andthen_eq_Inr_iff split: list.splits)
  from filter_single_mem [OF m] have p: "p \<in> set (paused_topics s)" "tr_topic_run_id p = trid"
    by simp_all
  with v l have "lifecycle s = SL_OPEN"
    by (cases "lifecycle s") (auto simp: validate_state_def vs_lifecycle_def)
  then show ?thesis unfolding s' p(2) [symmetric]
    using keep_resumed_topic [OF validate_advance [OF v f], of p a ph] p(1) g
      resume_active_valid [OF v f p(1) g(1) a] by simp
qed

section \<open>Work branches\<close>

lemma replace_session_work:
  assumes "session_work s = Some w"
  shows "replace_work (advance s ev) w w' = Inr ((advance s ev)\<lparr>session_work := Some w'\<rparr>)"
  using assms by (simp add: replace_work_def)

lemma replace_topic_work:
  assumes "session_work s = None" and "active_topic s = Some t" and "tr_work t = Some w"
  shows "replace_work (advance s ev) w w'
    = Inr ((advance s ev)\<lparr>active_topic := Some (t\<lparr>tr_work := Some w'\<rparr>)\<rparr>)"
  using assms by (simp add: replace_work_def active_work_def)

text \<open>Replacing the work of the active topic by work with an equivalent trigger.\<close>

lemma rework_topic_valid:
  assumes t: "valid_topic_state t TL_ACTIVE sid n" and w: "tr_work t = Some w"
    and w': "valid_current_work w' sid n"
    and k: "valid_trigger (cw_trigger w') (tb_kind (cw_trigger w'))
        (tb_contract_digest (cw_trigger w)) (tb_evidence_digest (cw_trigger w))"
    and st: "cw_status w' \<in> {WS_QUEUED, WS_FAILED, WS_DEAD_LETTER}"
    and acts: "cw_status w' = WS_DEAD_LETTER \<longrightarrow>
        cw_allowed_recovery_actions w' = [RA_RETRY, RA_REGROUND]"
  shows "valid_topic_state (t\<lparr>tr_work := Some w'\<rparr>) TL_ACTIVE sid n"
  using assms
  by (auto simp: valid_topic_state_def valid_topic_clauses topic_evidence_def valid_trigger_def)

text \<open>A new version of the one waiting work item, in the session or in the active topic.\<close>

lemma rework_waiting_valid:
  assumes v: "validate_state s" and f: "event_fits s ev" and ph: "phase s = WAITING_HOST"
    and w: "current_nonterminal_work s = Some w"
    and w': "valid_current_work w' (session_id s) (ce_sequence ev)"
      "cw_status w' \<in> {WS_QUEUED, WS_FAILED}"
    and k: "is_canonical_trigger_binding (cw_trigger w')"
      "tb_kind (cw_trigger w') = tb_kind (cw_trigger w)"
      "tb_contract_digest (cw_trigger w') = tb_contract_digest (cw_trigger w)"
      "tb_evidence_digest (cw_trigger w') = tb_evidence_digest (cw_trigger w)"
    and r: "replace_work (advance s ev) w w' = Inr s'"
  shows "validate_state s'"
  using waiting_work [OF v w]
proof (elim disjE exE conjE)
  assume sw: "session_work s = Some w"
  with r have "s' = (advance s ev)\<lparr>session_work := Some w'\<rparr>" by (simp add: replace_session_work)
  then show ?thesis
    using keep_session_requeued [OF validate_advance [OF v f]] sw ph w' k
      valid_session_work(5) [OF v sw] by simp
next
  fix t assume t: "active_topic s = Some t" "tr_work t = Some w" and "session_work s = None"
  with r have s': "s' = (advance s ev)\<lparr>active_topic := Some (t\<lparr>tr_work := Some w'\<rparr>)\<rparr>"
    by (simp add: replace_topic_work)
  have "valid_topic_state (t\<lparr>tr_work := Some w'\<rparr>) TL_ACTIVE (session_id s) (ce_sequence ev)"
    using rework_topic_valid [OF active_advanced [OF v f t(1)] t(2) w'(1)] w'(2) k
    by (auto simp: valid_trigger_def)
  then have "validate_state ((advance s ev)\<lparr>active_topic := Some (t\<lparr>tr_work := Some w'\<rparr>),
      phase := WAITING_HOST\<rparr>)"
    using keep_waiting_topic [OF validate_advance [OF v f]] t w' by simp
  moreover have "(advance s ev)\<lparr>active_topic := Some (t\<lparr>tr_work := Some w'\<rparr>),
      phase := WAITING_HOST\<rparr> = s'"
    using ph unfolding s' by (simp add: advance_def)
  ultimately show ?thesis by simp
qed

lemma nonterminal_work_valid:
  assumes v: "validate_state s" and w: "current_nonterminal_work s = Some w"
  shows "valid_current_work w (session_id s) (sequence s)"
  using waiting_work [OF v w] valid_session_work(1) [OF v] valid_active_topic(1) [OF v]
    valid_work_slot(1) by blast

lemma nonterminal_work_advanced:
  assumes v: "validate_state s" and f: "event_fits s ev" and w: "current_nonterminal_work s = Some w"
  shows "valid_current_work w (session_id s) (ce_sequence ev)"
  using valid_current_work_mono [OF nonterminal_work_valid [OF v w]] fits_positive(2) [OF v f] .

lemma red_work_failed_valid:
  assumes v: "validate_state s" and f: "event_fits s ev"
    and r: "red_work_failed s (advance s ev) ev wid t k fl = Inr s'"
  shows "validate_state s'"
proof -
  from r obtain w where w: "current_nonterminal_work s = Some w"
    and g: "phase s = WAITING_HOST" "cw_status w = WS_QUEUED" "valid_work_failure fl"
    and s': "replace_work (advance s ev) w
        (w\<lparr>cw_status := WS_FAILED, cw_last_failure := Some fl\<rparr>) = Inr s'"
    by (auto simp: red_work_failed_def split: option.splits)
  note wv = nonterminal_work_advanced [OF v f w]
  show ?thesis
    using rework_waiting_valid [OF v f g(1) w valid_work_failed [OF wv g(2,3)] _ _ _ _ _ s']
      valid_current_work_trigger [OF wv] by simp
qed

lemma red_work_requeued_valid:
  assumes v: "validate_state s" and f: "event_fits s ev"
    and p: "ce_payload ev = WorkRequeued wid t k fl t' k'"
    and r: "red_work_requeued s (advance s ev) ev wid t k fl t' k' = Inr s'"
  shows "validate_state s'"
proof -
  from r obtain w w' where w: "current_nonterminal_work s = Some w"
    and g: "phase s = WAITING_HOST" "Some fl = cw_last_failure w" "k' = cw_attempt w + 1"
      "automatic_retry_allowed w" "retry_trigger_matches (cw_trigger w) t'"
    and w': "queued_work_from_event (session_id s) ev t' k' (Some fl) = Inr w'"
    and s': "replace_work (advance s ev) w w' = Inr s'"
    by (auto simp: red_work_requeued_def andthen_eq_Inr_iff split: option.splits)
  note wv = nonterminal_work_advanced [OF v f w]
  from p fits_positive(5) [OF v f] have sh: "is_canonical_trigger_binding t'" "1 \<le> k'"
    "valid_work_failure fl" by (simp_all add: valid_positive_int_def)
  have "k' \<le> MAX_AUTOMATIC_WORK_ATTEMPTS" using g by (simp add: automatic_retry_allowed_def)
  with w' sh have "valid_current_work w' (session_id s) (ce_sequence ev)"
    by (auto intro: queued_work_valid)
  then show ?thesis
    using rework_waiting_valid [OF v f g(1) w _ _ _ _ _ _ s'] queued_work_InrD [OF w'] sh g(5)
    by (simp add: retry_trigger_matches_def)
qed

lemma red_work_dead_lettered_valid:
  assumes v: "validate_state s" and f: "event_fits s ev"
    and c: "topic_clarification s = None"
    and r: "red_work_dead_lettered s (advance s ev) ev wid t k fl acts = Inr s'"
  shows "validate_state s'"
proof -
  from r obtain w n' where w: "current_nonterminal_work s = Some w"
    and g: "phase s = WAITING_HOST" "cw_status w = WS_FAILED" "acts = allowed_recovery_actions s"
    and n': "replace_work (advance s ev) w
        (w\<lparr>cw_status := WS_DEAD_LETTER, cw_allowed_recovery_actions := acts\<rparr>) = Inr n'"
    and s': "s' = n'\<lparr>phase := RECOVERABLE_ERROR\<rparr>"
    by (auto simp: red_work_dead_lettered_def andthen_eq_Inr_iff split: option.splits)
  let ?w = "w\<lparr>cw_status := WS_DEAD_LETTER, cw_allowed_recovery_actions := acts\<rparr>"
  have "acts \<noteq> []" "distinct acts" using g(3) by (simp_all add: allowed_recovery_actions_def)
  then have wv: "valid_current_work ?w (session_id s) (ce_sequence ev)"
    using valid_work_dead [OF nonterminal_work_advanced [OF v f w] g(2)] by blast
  show ?thesis
    using waiting_work [OF v w]
  proof (elim disjE exE conjE)
    assume sw: "session_work s = Some w" and a: "active_topic s = None"
    with n' have "n' = (advance s ev)\<lparr>session_work := Some ?w\<rparr>" by (simp add: replace_session_work)
    with s' show ?thesis
      using keep_session_dead [OF validate_advance [OF v f]] sw a g wv c
      by (simp add: allowed_recovery_actions_def)
  next
    fix t assume t: "active_topic s = Some t" "tr_work t = Some w" and sw: "session_work s = None"
    with n' have n: "n' = (advance s ev)\<lparr>active_topic := Some (t\<lparr>tr_work := Some ?w\<rparr>)\<rparr>"
      by (simp add: replace_topic_work)
    have "valid_topic_state (t\<lparr>tr_work := Some ?w\<rparr>) TL_ACTIVE (session_id s) (ce_sequence ev)"
      using rework_topic_valid [OF active_advanced [OF v f t(1)] t(2) wv]
        valid_current_work_trigger [OF wv] g(3) t(1)
      by (simp add: valid_trigger_def allowed_recovery_actions_def)
    then show ?thesis unfolding s' n
      using keep_dead_topic [OF validate_advance [OF v f]] t by simp
  qed
qed

text \<open>Where the target of a recovery is.\<close>

lemma dead_work_target_cases:
  assumes v: "validate_state s" and d: "dead_work_target s wid = Some (w, target, paused)"
  obtains (session) "session_work s = Some w" "target = None" "\<not> paused"
  | (active) t where "active_topic s = Some t" "tr_work t = Some w" "target = Some t" "\<not> paused"
  | (paused) t where "t \<in> set (paused_topics s)" "tr_work t = Some w" "target = Some t" "paused"
proof -
  consider "is_dead_work wid (session_work s)"
    | "\<not> is_dead_work wid (session_work s)" "is_dead_work wid (active_work s)"
    | "\<not> is_dead_work wid (session_work s)" "\<not> is_dead_work wid (active_work s)" by blast
  then show thesis
  proof cases
    case 1
    with d session show ?thesis by (auto simp: dead_work_target_def)
  next
    case 2
    with d active show ?thesis
      by (auto simp: dead_work_target_def active_work_def split: option.splits)
  next
    case 3
    then obtain t where m: "filter (\<lambda>t. is_dead_work wid (tr_work t)) (paused_topics s) = [t]"
      and t: "tr_work t = Some w" "target = Some t" "paused"
      using d by (auto simp: dead_work_target_def split: list.splits)
    from filter_single_mem [OF m] t paused show ?thesis by blast
  qed
qed

lemma dead_work_target_dead:
  assumes "dead_work_target s wid = Some (w, target, paused)"
  shows "cw_status w = WS_DEAD_LETTER" and "cw_work_id w = wid"
proof -
  have "cw_status w = WS_DEAD_LETTER \<and> cw_work_id w = wid"
  proof (cases "is_dead_work wid (session_work s) \<or> is_dead_work wid (active_work s)")
    case True
    with assms show ?thesis
      by (auto simp: dead_work_target_def is_dead_work_def present_def
          split: option.splits if_splits)
  next
    case False
    then obtain t where "filter (\<lambda>t. is_dead_work wid (tr_work t)) (paused_topics s) = [t]"
      and "tr_work t = Some w"
      using assms by (auto simp: dead_work_target_def split: list.splits)
    with filter_single_mem show ?thesis by (fastforce simp: is_dead_work_def)
  qed
  then show "cw_status w = WS_DEAD_LETTER" and "cw_work_id w = wid" by simp_all
qed

text \<open>The trigger of an allowed recovery belongs to the topic's contract and the new evidence.\<close>

lemma recovery_trigger:
  assumes t: "valid_topic_state topic lc sid n" and w: "tr_work topic = Some dead"
    and a: "recovery_allowed a dead (Some topic) t e" and c: "is_canonical_trigger_binding t"
  shows "valid_trigger t (tb_kind t) (Some (tc_contract_digest (tr_contract topic)))
           (ec_evidence_digest e)"
  using assms
  by (cases a) (auto simp: recovery_allowed_def retry_trigger_matches_def valid_topic_state_def
      reground_trigger_matches_def vt_work_def valid_trigger_def)

lemma recovered_topic_valid:
  assumes t: "valid_topic_state topic lc (session_id s) (ce_sequence ev)"
      "lc \<in> {TL_ACTIVE, TL_PAUSED}"
    and dead: "tr_work topic = Some dead" and a: "recovery_allowed a dead (Some topic) t e"
    and c: "is_canonical_trigger_binding t" and e: "valid_evidence e"
    and w: "fresh_work s ev t = Inr w"
  shows "valid_topic_state (recovered_run topic e a w) TL_ACTIVE (session_id s) (ce_sequence ev)"
    and "tr_work (recovered_run topic e a w) = Some w"
proof -
  note w' = fresh_work_InrD [OF w]
  have "valid_trigger (cw_trigger w) (tb_kind t) (Some (tc_contract_digest (tr_contract topic)))
      (ec_evidence_digest e)"
    using recovery_trigger [OF t(1) dead a c] w'(2) by simp
  then show "valid_topic_state (recovered_run topic e a w) TL_ACTIVE (session_id s)
      (ce_sequence ev)"
    by (rule recovered_run_valid [OF t e _ w'(1,3)])
  show "tr_work (recovered_run topic e a w) = Some w"
    by (simp add: recovered_run_def Let_def requeue_run_def downgrade_def)
qed

lemma red_work_recovery_requested_valid:
  assumes v: "validate_state s" and f: "event_fits s ev" and l: "lifecycle s \<noteq> SL_ENDED"
    and p: "ce_payload ev = WorkRecoveryRequested wid a t e"
    and r: "red_work_recovery_requested s (advance s ev) ev wid a t e = Inr s'"
  shows "validate_state s'"
proof -
  from r obtain dead target paused w where d: "dead_work_target s wid = Some (dead, target, paused)"
    and g: "valid_evidence e" "recovery_allowed a dead target t e" "fresh_work s ev t = Inr w"
    by (auto simp: red_work_recovery_requested_def andthen_eq_Inr_iff split: option.splits)
  note w = fresh_work_InrD [OF g(3)]
  from p fits_positive(5) [OF v f] have c: "is_canonical_trigger_binding t" by simp
  from v d show ?thesis
  proof (cases rule: dead_work_target_cases)
    case session
    with r d g have "phase s = RECOVERABLE_ERROR" and s': "s' = (advance s ev)\<lparr>session_work := Some w,
        phase := WAITING_HOST\<rparr>"
      by (auto simp: red_work_recovery_requested_def)
    moreover have "tb_kind t = tb_kind (cw_trigger dead)" "tb_contract_digest t = None"
      using g(2) session(2) valid_session_work(5) [OF v session(1)]
      by (auto simp: recovery_allowed_def retry_trigger_matches_def split: work_recovery_action.splits)
    ultimately show ?thesis
      using keep_session_recovered [OF validate_advance [OF v f]] session(1) w c by simp
  next
    case (active topic)
    with r d g have "s' = (advance s ev)\<lparr>active_topic := Some (recovered_run topic e a w),
        phase := WAITING_HOST\<rparr>"
      by (auto simp: red_work_recovery_requested_def)
    moreover note recovered_topic_valid [OF active_advanced [OF v f active(1)] _ active(2) _ c g(1,3)]
    ultimately show ?thesis
      using keep_waiting_topic [OF validate_advance [OF v f]] active g(2) w by simp
  next
    case (paused topic)
    with r d g have ph: "phase s = PHASE_NONE"
      and s': "s' = (advance s ev)\<lparr>active_topic := Some (recovered_run topic e a w),
        paused_topics := filter (\<lambda>x. tr_topic_run_id x \<noteq> tr_topic_run_id topic)
          (paused_topics (advance s ev)), phase := WAITING_HOST\<rparr>"
      by (auto simp: red_work_recovery_requested_def)
    from v l paused(1) have "lifecycle s = SL_OPEN"
      by (cases "lifecycle s") (auto simp: validate_state_def vs_lifecycle_def)
    moreover have "valid_topic_state topic TL_PAUSED (session_id s) (ce_sequence ev)"
      using validate_advance [OF v f] paused(1)
      by (simp add: validate_state_def vs_topics_def list_all_iff)
    note recovered_topic_valid [OF this _ paused(2) _ c g(1,3)]
    ultimately show ?thesis unfolding s'
      using keep_resumed_topic [OF validate_advance [OF v f], of topic] paused g(2) ph w by simp
  qed
qed

section \<open>Export branches\<close>

lemma red_export_requested_valid:
  assumes v: "validate_state s" and f: "event_fits s ev"
    and r: "red_export_requested s (advance s ev) ev xid k iid asof at dg = Inr s'"
  shows "validate_state s'"
proof -
  have "valid_export_record (new_export xid k iid asof at dg) (ce_sequence ev)"
    using r fits_positive [OF v f]
    by (auto simp: red_export_requested_def valid_export_record_def new_export_def
        valid_positive_int_def valid_nonnegative_int_def)
  then show ?thesis
    using r keep_export_requested [OF validate_advance [OF v f]]
    by (auto simp: red_export_requested_def new_export_def)
qed

lemma finish_export_ids [simp]:
  "ex_export_id (finish_export at jp jd mp md fd r) = ex_export_id r"
  "ex_intent_id (finish_export at jp jd mp md fd r) = ex_intent_id r"
  "ex_export_sequence (finish_export at jp jd mp md fd r) = ex_export_sequence r"
  by (simp_all add: finish_export_def)

lemma red_export_completed_valid:
  assumes v: "validate_state s" and f: "event_fits s ev"
    and r: "red_export_completed s (advance s ev) ev xid k iid at jp jd mp md fd = Inr s'"
  shows "validate_state s'"
proof -
  from r have g: "lifecycle s \<noteq> SL_NEW" "valid_text at" "is_protocol_id jp" "is_sha256_digest jd"
      "is_protocol_id mp" "is_sha256_digest md" "is_sha256_digest fd"
    and s': "s' = (advance s ev)\<lparr>exports := map (\<lambda>r. if ex_export_id r = xid
        then finish_export at jp jd mp md fd r else r) (exports (advance s ev))\<rparr>"
    by (auto simp: red_export_completed_def split: list.splits)
  have "valid_export_record (finish_export at jp jd mp md fd x) (ce_sequence ev)"
    if "x \<in> set (exports s)" for x
  proof -
    have "valid_export_record x (ce_sequence ev)"
      using validate_advance [OF v f] that
      by (simp add: validate_state_def vs_fields_def list_all_iff)
    with g show ?thesis by (simp add: valid_export_record_def finish_export_def)
  qed
  then show ?thesis unfolding s'
    using keep_export_completed [OF validate_advance [OF v f]] g(1) by simp
qed

section \<open>Every branch\<close>

lemmas branch_valid =
  red_session_started_valid red_candidates_presented_valid red_topic_selection_submitted_valid
  red_topic_clarification_requested_valid red_topic_clarification_answered_valid
  red_topic_started_valid red_agent_turn_committed_valid red_learner_turn_submitted_valid
  red_lens_changed_valid red_help_requested_valid red_topic_completed_valid
  red_topic_paused_valid red_topic_switch_requested_valid red_topic_exploration_requested_valid
  red_session_deactivation_prepared_valid red_topic_resumed_valid red_work_failed_valid
  red_work_requeued_valid red_work_dead_lettered_valid red_work_recovery_requested_valid
  red_export_requested_valid red_export_completed_valid

lemma apply_payload_valid:
  assumes "validate_state s" and "event_fits s ev" and "lifecycle s \<noteq> SL_ENDED"
    and "\<not> invariant_gap s (ce_payload ev)"
    and "apply_payload s (advance s ev) ev = Inr s'"
  shows "validate_state s'"
  using assms
  by (cases "ce_payload ev") (auto simp: apply_payload_def invariant_gap_def intro: branch_valid)

lemma reduce_iff_guards:
  assumes "validate_state s" and "event_fits s ev" and "lifecycle s \<noteq> SL_ENDED"
    and "\<not> invariant_gap s (ce_payload ev)"
  shows "reduce s ev = apply_payload s (advance s ev) ev"
  using assms apply_payload_valid [OF assms]
  by (cases "apply_payload s (advance s ev) ev") (auto simp: reduce_def event_fits_def)

end
