(* ===== verification/Progress.thy ===== *)
theory Progress
  imports Guards
begin

text \<open>
  What is accepted can be committed: every handler that accepts a command produces
  events that the reducer applies to the same state.  With \<open>Guards\<close> this gives that
  the events of an accepted decision replay from the tip, outside the three gaps.
\<close>

section \<open>Applicable payloads\<close>

definition applicable :: "dialogue_state \<Rightarrow> dialogue_event_payload \<Rightarrow> bool" where
  "applicable s p \<longleftrightarrow>
     valid_event_payload_shape p
     \<and> (\<forall>ev. event_fits s ev \<longrightarrow> ce_payload ev = p
          \<longrightarrow> (\<exists>s'. apply_payload s (advance s ev) ev = Inr s'))"

lemma applicableI:
  assumes "valid_event_payload_shape p"
    and "\<And>ev. event_fits s ev \<Longrightarrow> ce_payload ev = p \<Longrightarrow>
           \<exists>s'. apply_payload s (advance s ev) ev = Inr s'"
  shows "applicable s p"
  using assms by (simp add: applicable_def)

lemma fresh_work_ok:
  assumes "validate_state s" and "event_fits s ev" and "is_canonical_trigger_binding t"
  shows "\<exists>w. fresh_work s ev t = Inr w"
  using assms fits_positive [OF assms(1,2)]
  by (auto simp: fresh_work_def validate_state_def vs_fields_def intro!: queued_work_ok)

lemma run_id_text:
  assumes "valid_topic_state t lc sid n"
  shows "valid_text (tr_topic_run_id t)" and "is_protocol_id (tr_topic_run_id t)"
  using assms
  by (simp_all add: valid_topic_state_def vt_shape_def valid_contract_def valid_contract_shape_def)

lemma context_evidence:
  assumes "valid_decision_context ctx"
  shows "valid_evidence (dc_evidence ctx)" and "valid_evidence_shape (dc_evidence ctx)"
    and "is_sha256_digest (evidence_fingerprint (dc_evidence ctx))"
  using assms
  by (cases "ec_exact_recheck_fingerprint (dc_evidence ctx)";
      simp add: valid_decision_context_def valid_evidence_def valid_evidence_shape_def
        evidence_fingerprint_def)+

lemma context_trigger:
  "valid_decision_context ctx \<Longrightarrow> dc_trigger ctx = Some t \<Longrightarrow> is_canonical_trigger_binding t"
  by (simp add: valid_decision_context_def)

lemma valid_trigger_canonical: "valid_trigger t k c e \<Longrightarrow> is_canonical_trigger_binding t"
  by (simp add: valid_trigger_def)

lemma valid_trigger_refl: "valid_trigger t k c e \<Longrightarrow> valid_trigger t k c (tb_evidence_digest t)"
  by (simp add: valid_trigger_def)

section \<open>One lemma per handler\<close>

lemma start_session_applicable:
  assumes v: "validate_state s" and a: "start_session s cid ctx = Accepted ps"
  shows "\<exists>p. ps = [\<lparr>pe_command_id = cid, pe_payload = p\<rparr>] \<and> applicable s p"
proof -
  from a obtain t where g: "lifecycle s = SL_NEW" "phase s = PHASE_NONE"
    and t: "valid_trigger t TK_TOPIC_CANDIDATES None (ec_evidence_digest (dc_evidence ctx))"
    and ps: "ps = [\<lparr>pe_command_id = cid, pe_payload = SessionStarted t\<rparr>]"
    by (auto simp: start_session_def dest!: matching_trigger_SomeD split: if_splits option.splits)
  have "session_work s = None" using v g by (simp add: validate_state_def vs_lifecycle_def)
  then have "applicable s (SessionStarted t)"
    using fresh_work_ok [OF v] g valid_trigger_canonical [OF t] valid_trigger_refl [OF t]
    by (intro applicableI) (fastforce simp: apply_payload_def red_session_started_def)+
  with ps show ?thesis by blast
qed

lemma present_candidates_applicable:
  assumes v: "validate_state s" and c: "valid_decision_context ctx"
    and a: "present_candidates s cid cs ctx = Accepted ps"
  shows "\<exists>p. ps = [\<lparr>pe_command_id = cid, pe_payload = p\<rparr>] \<and> applicable s p"
proof -
  from a obtain t where g: "phase s = WAITING_HOST" "active_topic s = None"
      "is_queued (session_work s)" "valid_candidates cs" "session_unresolved_trigger s = Some t"
      "dc_trigger ctx = Some t"
    and ps: "ps = [\<lparr>pe_command_id = cid, pe_payload = CandidatesPresented cs t\<rparr>]"
    by (fastforce simp: present_candidates_def dest: sym split: if_splits option.splits)
  then have "applicable s (CandidatesPresented cs t)"
    using context_trigger [OF c]
    by (intro applicableI) (simp_all add: apply_payload_def red_candidates_presented_def
        valid_candidates_def)
  with ps show ?thesis by blast
qed

lemma selection_applicable:
  assumes v: "validate_state s" and "choosing_allowed s" and "valid_text c"
    and t: "valid_trigger t TK_TOPIC_SELECTION None d"
  shows "applicable s (TopicSelectionSubmitted c t)"
  using assms fresh_work_ok [OF v] valid_trigger_canonical [OF t] valid_trigger_refl [OF t]
  by (intro applicableI) (fastforce simp: apply_payload_def red_topic_selection_submitted_def)+

lemma select_topic_applicable:
  assumes v: "validate_state s" and a: "select_topic s cid c ctx = Accepted ps"
  shows "\<exists>p. ps = [\<lparr>pe_command_id = cid, pe_payload = p\<rparr>] \<and> applicable s p"
  using a selection_applicable [OF v]
  by (auto simp: select_topic_def dest!: matching_trigger_SomeD split: if_splits option.splits)

lemma submit_custom_topic_applicable:
  assumes v: "validate_state s" and a: "submit_custom_topic s cid c ctx = Accepted ps"
  shows "\<exists>p. ps = [\<lparr>pe_command_id = cid, pe_payload = p\<rparr>] \<and> applicable s p"
  using a selection_applicable [OF v]
  by (auto simp: submit_custom_topic_def dest!: matching_trigger_SomeD
      split: if_splits option.splits)

lemma request_topic_clarification_applicable:
  assumes v: "validate_state s" and c: "valid_decision_context ctx"
    and a: "request_topic_clarification s cid qid q ctx = Accepted ps"
  shows "\<exists>p. ps = [\<lparr>pe_command_id = cid, pe_payload = p\<rparr>] \<and> applicable s p"
proof -
  from a obtain w where g: "phase s = WAITING_HOST" "active_topic s = None"
      "selected_candidate s \<noteq> None" "session_work s = Some w" "cw_status w = WS_QUEUED"
      "tb_kind (cw_trigger w) = TK_TOPIC_SELECTION" "valid_text qid" "valid_text q"
      "dc_trigger ctx = Some (cw_trigger w)"
    and ps: "ps = [\<lparr>pe_command_id = cid,
        pe_payload = TopicClarificationRequested qid q (cw_trigger w)\<rparr>]"
    by (auto simp: request_topic_clarification_def split: if_splits option.splits)
  then have "applicable s (TopicClarificationRequested qid q (cw_trigger w))"
    using context_trigger [OF c]
    by (intro applicableI) (auto simp: apply_payload_def red_topic_clarification_requested_def
        is_queued_def has_kind_def session_unresolved_trigger_def)
  with ps show ?thesis by blast
qed

lemma answer_topic_clarification_applicable:
  assumes v: "validate_state s" and a: "answer_topic_clarification s cid qid ans ctx = Accepted ps"
  shows "\<exists>p. ps = [\<lparr>pe_command_id = cid, pe_payload = p\<rparr>] \<and> applicable s p"
proof -
  from a obtain t where g: "phase s = CLARIFYING_TOPIC" "active_topic s = None"
      "selected_candidate s \<noteq> None" "session_work s = None"
      "present (\<lambda>c. cl_answer c = None \<and> cl_question_id c = qid) (topic_clarification s)"
      "valid_text ans" "tb_parent_turn_id t = Some qid"
    and t: "valid_trigger t TK_TOPIC_SELECTION None (ec_evidence_digest (dc_evidence ctx))"
    and ps: "ps = [\<lparr>pe_command_id = cid, pe_payload = TopicClarificationAnswered qid ans t\<rparr>]"
    by (auto simp: answer_topic_clarification_def dest!: matching_trigger_SomeD
        split: if_splits option.splits)
  have "valid_text qid"
    using v g(5) by (cases "topic_clarification s")
      (auto simp: validate_state_def vs_fields_def valid_clarification_def)
  then have "applicable s (TopicClarificationAnswered qid ans t)"
    using fresh_work_ok [OF v] g valid_trigger_canonical [OF t] valid_trigger_refl [OF t]
    by (intro applicableI)
      (fastforce simp: apply_payload_def red_topic_clarification_answered_def)+
  with ps show ?thesis by blast
qed

lemma start_topic_applicable:
  assumes v: "validate_state s" and c: "valid_decision_context ctx"
    and a: "start_topic s cid contract sel ctx = Accepted ps"
  shows "\<exists>p. ps = [\<lparr>pe_command_id = cid, pe_payload = p\<rparr>] \<and> applicable s p"
proof -
  let ?e = "dc_evidence ctx"
  let ?st = "if durable_selection s sel then map_option cw_trigger (session_work s) else None"
  from a obtain t where g: "active_topic s = None"
      "legacy_selection s sel \<or> durable_selection s sel" "valid_contract contract"
    and t: "valid_trigger t (initial_kind ?e) (Some (tc_contract_digest contract))
      (ec_evidence_digest ?e)"
    and ps: "ps = [\<lparr>pe_command_id = cid, pe_payload = TopicStarted contract ?e t sel ?st\<rparr>]"
    unfolding start_topic_def
    by (auto dest!: matching_trigger_SomeD split: if_split_asm option.splits)
  have sel: "started_from_candidates s sel ?st \<or> started_from_selection s sel ?st"
    using g(2) by (auto simp: started_from_candidates_def started_from_selection_def
        durable_selection_def session_unresolved_trigger_def legacy_selection_def)
  have "absent_or valid_text sel"
    using g(2) v by (cases "selected_candidate s")
      (auto simp: legacy_selection_def durable_selection_def validate_state_def vs_fields_def)
  moreover have "absent_or is_canonical_trigger_binding ?st"
    using v by (cases "session_work s")
      (auto simp: validate_state_def vs_fields_def valid_current_work_def)
  ultimately have "applicable s (TopicStarted contract ?e t sel ?st)"
    using fresh_work_ok [OF v] g sel t valid_trigger_canonical [OF t] context_evidence [OF c]
    by (intro applicableI)
      (fastforce simp: apply_payload_def red_topic_started_def valid_contract_def)+
  with ps show ?thesis by blast
qed

lemma commit_agent_turn_applicable:
  assumes v: "validate_state s" and c: "valid_decision_context ctx"
    and a: "commit_agent_turn s cid r ctx = Accepted ps"
  shows "\<exists>p. ps = [\<lparr>pe_command_id = cid, pe_payload = p\<rparr>] \<and> applicable s p"
proof -
  from a obtain topic w where t: "active_topic s = Some topic" "tr_work topic = Some w"
    and g: "phase s = WAITING_HOST" "open_question_id topic = None" "cw_status w = WS_QUEUED"
      "tr_evidence_health topic \<in> PUBLISHABLE_EVIDENCE" "dc_trigger ctx = Some (cw_trigger w)"
      "\<not> evidence_differs (dc_evidence ctx) topic"
      "valid_agent_turn (tr_contract topic) r (dc_evidence ctx) (set (tr_learner_turn_ids topic))"
      "valid_model_updates (tr_learner_model topic) (at_learner_model_delta r)"
    and ps: "ps = [\<lparr>pe_command_id = cid,
        pe_payload = AgentTurnCommitted r (cw_trigger w) (dc_evidence ctx)\<rparr>]"
    by (auto simp: commit_agent_turn_def split: if_splits option.splits)
  then have "applicable s (AgentTurnCommitted r (cw_trigger w) (dc_evidence ctx))"
    using context_evidence [OF c] context_trigger [OF c]
    by (intro applicableI) (simp_all add: apply_payload_def red_agent_turn_committed_def
        is_queued_def valid_agent_turn_def)
  with ps show ?thesis by blast
qed

lemma submit_turn_applicable:
  assumes v: "validate_state s" and a: "submit_turn s cid qid ltid txt ctx = Accepted ps"
  shows "\<exists>p. ps = [\<lparr>pe_command_id = cid, pe_payload = p\<rparr>] \<and> applicable s p"
proof -
  from a obtain topic t where tp: "active_topic s = Some topic"
    and g: "phase s = AWAITING_USER" "open_question_id topic = Some qid" "valid_text qid"
      "valid_text ltid" "valid_text txt" "ltid \<notin> set (tr_learner_turn_ids topic)"
      "tb_parent_turn_id t = Some ltid"
    and t: "valid_trigger t TK_LEARNER_REPLY (Some (tc_contract_digest (tr_contract topic)))
        (tr_evidence_digest topic)"
    and ps: "ps = [\<lparr>pe_command_id = cid, pe_payload = LearnerTurnSubmitted qid ltid txt t\<rparr>]"
    by (auto simp: submit_turn_def dest!: matching_trigger_SomeD split: if_splits option.splits)
  have "tr_work topic = None"
    using v g(1) tp by (simp add: validate_state_def vs_awaiting_user_def)
  then have "applicable s (LearnerTurnSubmitted qid ltid txt t)"
    using fresh_work_ok [OF v] tp g t valid_trigger_canonical [OF t]
    by (intro applicableI) (fastforce simp: apply_payload_def red_learner_turn_submitted_def)+
  with ps show ?thesis by blast
qed

lemma pause_topic_applicable:
  assumes v: "validate_state s" and a: "pause_topic s cid ctx = Accepted ps"
  shows "\<exists>p. ps = [\<lparr>pe_command_id = cid, pe_payload = p\<rparr>] \<and> applicable s p"
proof -
  from a obtain topic where t: "active_topic s = Some topic"
    and ps: "ps = [\<lparr>pe_command_id = cid,
        pe_payload = TopicPaused (tr_topic_run_id topic) PC_USER None None\<rparr>]"
    by (auto simp: pause_topic_def split: option.splits)
  have "applicable s (TopicPaused (tr_topic_run_id topic) PC_USER None None)"
    using t run_id_text(1) [OF valid_active_topic(1) [OF v t]]
    by (intro applicableI) (simp_all add: apply_payload_def red_topic_paused_def)
  with ps show ?thesis by blast
qed

lemma set_lens_applicable:
  assumes v: "validate_state s" and a: "set_lens s cid l ctx = Accepted ps"
  shows "\<exists>p. ps = [\<lparr>pe_command_id = cid, pe_payload = p\<rparr>] \<and> applicable s p"
proof -
  from a obtain topic t where tp: "active_topic s = Some topic"
    and g: "phase s \<in> {AWAITING_USER, WAITING_HOST}" "l \<noteq> topic_lens topic"
      "tb_parent_turn_id t = lens_parent (phase s) topic"
    and t: "valid_trigger t TK_LENS_CHANGED (Some (tc_contract_digest (tr_contract topic)))
        (tr_evidence_digest topic)"
    and ps: "ps = [\<lparr>pe_command_id = cid,
        pe_payload = LensChanged (tr_topic_run_id topic) l t\<rparr>]"
    by (auto simp: set_lens_def dest!: matching_trigger_SomeD split: if_splits option.splits)
  have "applicable s (LensChanged (tr_topic_run_id topic) l t)"
    using fresh_work_ok [OF v] tp g t valid_trigger_canonical [OF t]
      run_id_text(1) [OF valid_active_topic(1) [OF v tp]]
    by (intro applicableI) (fastforce simp: apply_payload_def red_lens_changed_def)+
  with ps show ?thesis by blast
qed

lemma request_help_applicable:
  assumes v: "validate_state s" and a: "request_help s cid qid ctx = Accepted ps"
  shows "\<exists>p. ps = [\<lparr>pe_command_id = cid, pe_payload = p\<rparr>] \<and> applicable s p"
proof -
  from a obtain topic t where tp: "active_topic s = Some topic"
    and g: "phase s = AWAITING_USER" "open_question_id topic = Some qid" "is_protocol_id qid"
      "tb_parent_turn_id t = Some qid"
    and t: "valid_trigger t TK_HELP (Some (tc_contract_digest (tr_contract topic)))
        (tr_evidence_digest topic)"
    and ps: "ps = [\<lparr>pe_command_id = cid,
        pe_payload = HelpRequested (tr_topic_run_id topic) qid t\<rparr>]"
    by (auto simp: request_help_def dest!: matching_trigger_SomeD split: if_splits option.splits)
  have "applicable s (HelpRequested (tr_topic_run_id topic) qid t)"
    using fresh_work_ok [OF v] tp g t valid_trigger_canonical [OF t]
      run_id_text(1) [OF valid_active_topic(1) [OF v tp]]
    by (intro applicableI) (fastforce simp: apply_payload_def red_help_requested_def)+
  with ps show ?thesis by blast
qed

lemma complete_topic_applicable:
  assumes v: "validate_state s" and c: "valid_decision_context ctx"
    and a: "complete_topic s cid u ctx = Accepted ps"
  shows "\<exists>p. ps = [\<lparr>pe_command_id = cid, pe_payload = p\<rparr>] \<and> applicable s p"
proof -
  let ?e = "dc_evidence ctx"
  from a obtain topic w where t: "active_topic s = Some topic" "tr_work topic = Some w"
    and g: "phase s = WAITING_HOST" "cw_status w = WS_QUEUED" "valid_topic_summary u"
      "dc_trigger ctx = Some (cw_trigger w)" "\<not> evidence_differs ?e topic"
      "ec_health ?e \<in> PUBLISHABLE_EVIDENCE" "completion_guard topic u"
    and ps: "ps = [\<lparr>pe_command_id = cid, pe_payload =
        TopicCompleted (tr_topic_run_id topic) u (cw_trigger w) ?e (sequence s)
          (evidence_fingerprint ?e)\<rparr>]"
    by (auto simp: complete_topic_def split: if_splits option.splits)
  have "applicable s (TopicCompleted (tr_topic_run_id topic) u (cw_trigger w) ?e (sequence s)
      (evidence_fingerprint ?e))"
    using t g context_evidence [OF c] context_trigger [OF c] validate_positive [OF v]
      run_id_text(1) [OF valid_active_topic(1) [OF v t(1)]]
    by (intro applicableI) (simp_all add: apply_payload_def red_topic_completed_def
        is_queued_def valid_nonnegative_int_def)
  with ps show ?thesis by blast
qed

lemma switch_topic_applicable:
  assumes v: "validate_state s" and a: "switch_topic s cid ctx = Accepted ps"
  shows "\<exists>p. ps = [\<lparr>pe_command_id = cid, pe_payload = p\<rparr>] \<and> applicable s p"
proof -
  from a obtain topic t where tp: "active_topic s = Some topic"
    and t: "valid_trigger t TK_TOPIC_CANDIDATES None (ec_evidence_digest (dc_evidence ctx))"
    and ps: "ps = [\<lparr>pe_command_id = cid,
        pe_payload = TopicSwitchRequested (tr_topic_run_id topic) t\<rparr>]"
    by (auto simp: switch_topic_def dest!: matching_trigger_SomeD split: option.splits)
  have "applicable s (TopicSwitchRequested (tr_topic_run_id topic) t)"
    using fresh_work_ok [OF v] tp valid_trigger_canonical [OF t] valid_trigger_refl [OF t]
      run_id_text(1) [OF valid_active_topic(1) [OF v tp]]
    by (intro applicableI) (fastforce simp: apply_payload_def red_topic_switch_requested_def)+
  with ps show ?thesis by blast
qed

lemma explore_topics_applicable:
  assumes v: "validate_state s" and a: "explore_topics s cid ctx = Accepted ps"
  shows "\<exists>p. ps = [\<lparr>pe_command_id = cid, pe_payload = p\<rparr>] \<and> applicable s p"
proof -
  from a obtain t where g: "phase s = PHASE_NONE" "active_topic s = None" "session_work s = None"
      "completed_topics s \<noteq> [] \<or> paused_topics s \<noteq> []"
    and t: "valid_trigger t TK_TOPIC_CANDIDATES None (ec_evidence_digest (dc_evidence ctx))"
    and ps: "ps = [\<lparr>pe_command_id = cid, pe_payload = TopicExplorationRequested t\<rparr>]"
    unfolding explore_topics_def
    by (auto dest!: matching_trigger_SomeD split: if_split_asm option.splits)
  have "applicable s (TopicExplorationRequested t)"
    using fresh_work_ok [OF v] g valid_trigger_canonical [OF t] valid_trigger_refl [OF t]
    by (intro applicableI) (fastforce simp: apply_payload_def red_topic_exploration_requested_def)+
  with ps show ?thesis by blast
qed

text \<open>The trigger the handler found makes the reducer's resumption succeed.\<close>

lemma resume_active_ok:
  assumes v: "validate_state s" and f: "event_fits s ev" and p: "p \<in> set (paused_topics s)"
    and r: "resume_trigger p e trig = Inr t"
  shows "\<exists>a. resume_active s ev p t e = Inr a"
proof -
  have pv: "valid_topic_state p TL_PAUSED (session_id s) (sequence s)"
    using v p by (simp add: validate_state_def vs_topics_def list_all_iff)
  consider (reground) rt where "requires_reground e p" "t = Some rt"
      "valid_trigger rt TK_REGROUND (Some (tc_contract_digest (tr_contract p)))
         (ec_evidence_digest e)"
    | (question) "\<not> requires_reground e p" "tr_current_agent_turn p \<noteq> None" "t = None"
    | (work) w rt where "\<not> requires_reground e p" "tr_current_agent_turn p = None"
        "tr_work p = Some w" "t = Some rt" "cw_status w = WS_SUPERSEDED"
        "valid_trigger rt (tb_kind (cw_trigger w))
           (Some (tc_contract_digest (tr_contract p))) (ec_evidence_digest e)"
        "tb_work_id rt \<noteq> tb_work_id (cw_trigger w)"
        "tb_parent_turn_id rt = tb_parent_turn_id (cw_trigger w)"
        "tb_input_digest rt = tb_input_digest (cw_trigger w)"
    using r by (auto simp: resume_trigger_def matching_trigger_def
        split: if_splits option.splits)
  then show ?thesis
  proof cases
    case reground
    then show ?thesis
      using fresh_work_ok [OF v f valid_trigger_canonical [OF reground(3)]]
      by (auto simp: resume_active_def)
  next
    case question
    with pv have "tr_work p = None"
      by (auto simp: valid_topic_state_def vt_lifecycle_def split: if_splits)
    with question show ?thesis by (auto simp: resume_active_def)
  next
    case work
    then show ?thesis
      using fresh_work_ok [OF v f valid_trigger_canonical [OF work(6)]]
      by (auto simp: resume_active_def)
  qed
qed

lemma resume_trigger_canonical:
  "resume_trigger p e trig = Inr t \<Longrightarrow> absent_or is_canonical_trigger_binding t"
  by (auto simp: resume_trigger_def valid_trigger_def matching_trigger_def
      split: if_splits option.splits)

lemma paused_match:
  assumes v: "validate_state s" and p: "p \<in> set (paused_topics s)"
  shows "filter (\<lambda>x. tr_topic_run_id x = tr_topic_run_id p) (paused_topics s) = [p]"
  using v p by (intro distinct_map_filter_single)
    (auto simp: validate_state_def vs_topic_ids_def all_topic_ids_def)

lemma resume_topic_applicable:
  assumes v: "validate_state s" and c: "valid_decision_context ctx"
    and a: "resume_topic s cid trid ctx = Accepted ps"
  shows "\<exists>p. ps = [\<lparr>pe_command_id = cid, pe_payload = p\<rparr>] \<and> applicable s p"
proof -
  let ?e = "dc_evidence ctx"
  from a obtain p t where g: "phase s = PHASE_NONE" "active_topic s = None" "valid_text trid"
    and p: "find (\<lambda>t. tr_topic_run_id t = trid) (paused_topics s) = Some p"
    and t: "resume_trigger p ?e (dc_trigger ctx) = Inr t"
    and ps: "ps = [\<lparr>pe_command_id = cid,
        pe_payload = TopicResumed trid (requires_reground ?e p) t ?e\<rparr>]"
    by (auto simp: resume_topic_def split: if_splits option.splits sum.splits)
  from find_Some_mem [OF p] have p: "p \<in> set (paused_topics s)" "tr_topic_run_id p = trid"
    by simp_all
  have "applicable s (TopicResumed trid (requires_reground ?e p) t ?e)"
  proof (rule applicableI)
    show "valid_event_payload_shape (TopicResumed trid (requires_reground ?e p) t ?e)"
      using g context_evidence [OF c] resume_trigger_canonical [OF t] by simp
    fix ev assume f: "event_fits s ev"
      and pl: "ce_payload ev = TopicResumed trid (requires_reground ?e p) t ?e"
    from resume_active_ok [OF v f p(1) t] obtain x where "resume_active s ev p t ?e = Inr x" ..
    with g pl p(2) paused_match [OF v p(1)] context_evidence [OF c]
    show "\<exists>s'. apply_payload s (advance s ev) ev = Inr s'"
      by (cases x) (simp add: apply_payload_def red_topic_resumed_def)
  qed
  with ps show ?thesis by blast
qed

lemma recover_work_applicable:
  assumes v: "validate_state s" and c: "valid_decision_context ctx"
    and a: "recover_work s cid wid act ctx = Accepted ps"
  shows "\<exists>p. ps = [\<lparr>pe_command_id = cid, pe_payload = p\<rparr>] \<and> applicable s p"
proof -
  let ?e = "dc_evidence ctx"
  from a obtain w target paused t where d: "dead_work_target s wid = Some (w, target, paused)"
    and g: "valid_text wid" "act \<in> set (cw_allowed_recovery_actions w)" "dc_trigger ctx = Some t"
      "recovery_allowed act w target t ?e"
      "paused \<longrightarrow> phase s = PHASE_NONE \<and> active_topic s = None"
      "\<not> paused \<longrightarrow> phase s = RECOVERABLE_ERROR"
    and ps: "ps = [\<lparr>pe_command_id = cid,
        pe_payload = WorkRecoveryRequested (cw_work_id w) act t ?e\<rparr>]"
    by (auto simp: recover_work_def split: if_splits option.splits)
  have id: "cw_work_id w = wid" using dead_work_target_dead(2) [OF d] .
  have "applicable s (WorkRecoveryRequested wid act t ?e)"
  proof (rule applicableI)
    show "valid_event_payload_shape (WorkRecoveryRequested wid act t ?e)"
      using g context_evidence [OF c] context_trigger [OF c] by simp
    fix ev assume f: "event_fits s ev" and pl: "ce_payload ev = WorkRecoveryRequested wid act t ?e"
    from fresh_work_ok [OF v f context_trigger [OF c g(3)]] obtain fw
      where fw: "fresh_work s ev t = Inr fw" ..
    from v d show "\<exists>s'. apply_payload s (advance s ev) ev = Inr s'"
    proof (cases rule: dead_work_target_cases)
      case session
      with d g fw pl context_evidence [OF c] show ?thesis
        by (simp add: apply_payload_def red_work_recovery_requested_def)
    next
      case (active topic)
      with d g fw pl context_evidence [OF c] show ?thesis
        by (simp add: apply_payload_def red_work_recovery_requested_def)
    next
      case (paused topic)
      with d g fw pl context_evidence [OF c] show ?thesis
        by (simp add: apply_payload_def red_work_recovery_requested_def)
    qed
  qed
  with ps id show ?thesis by blast
qed

lemma request_export_applicable:
  assumes v: "validate_state s" and l: "lifecycle s \<in> {SL_OPEN, SL_ENDED}"
    and a: "request_export s cid xid iid at dg ctx = Accepted ps"
  shows "\<exists>p. ps = [\<lparr>pe_command_id = cid, pe_payload = p\<rparr>] \<and> applicable s p"
proof -
  let ?p = "ExportRequested xid (int (length (exports s)) + 1) iid (sequence s) at dg"
  from a have g: "is_protocol_id xid" "is_protocol_id iid" "valid_text at" "is_sha256_digest dg"
      "\<not> list_ex (\<lambda>r. ex_export_id r = xid \<or> ex_intent_id r = iid) (exports s)"
    and ps: "ps = [\<lparr>pe_command_id = cid, pe_payload = ?p\<rparr>]"
    by (auto simp: request_export_def split: if_splits)
  have "applicable s ?p"
    using g l validate_positive [OF v]
    by (intro applicableI) (auto simp: apply_payload_def red_export_requested_def
        valid_positive_int_def valid_nonnegative_int_def list_ex_iff list_all_iff)
  with ps show ?thesis by blast
qed

lemma complete_export_applicable:
  assumes v: "validate_state s" and l: "lifecycle s \<in> {SL_OPEN, SL_ENDED}"
    and a: "complete_export s cid xid iid at jp jd mp md fd ctx = Accepted ps"
  shows "\<exists>p. ps = [\<lparr>pe_command_id = cid, pe_payload = p\<rparr>] \<and> applicable s p"
proof -
  from a obtain r where m: "filter (\<lambda>r. ex_export_id r = xid) (exports s) = [r]"
    and g: "is_protocol_id xid" "is_protocol_id iid" "valid_text at" "is_protocol_id jp"
      "is_sha256_digest jd" "is_protocol_id mp" "is_sha256_digest md" "is_sha256_digest fd"
      "ex_status r = ES_REQUESTED" "ex_intent_id r = iid"
    and ps: "ps = [\<lparr>pe_command_id = cid, pe_payload = ExportCompleted (ex_export_id r)
        (ex_export_sequence r) (ex_intent_id r) at jp jd mp md fd\<rparr>]"
    by (auto simp: complete_export_def split: if_splits list.splits)
  from filter_single_mem [OF m] have r: "r \<in> set (exports s)" "ex_export_id r = xid" by simp_all
  with v have "valid_positive_int (ex_export_sequence r)"
    by (auto simp: validate_state_def vs_fields_def list_all_iff valid_export_record_def)
  then have "applicable s (ExportCompleted (ex_export_id r) (ex_export_sequence r)
      (ex_intent_id r) at jp jd mp md fd)"
    using g l m r by (intro applicableI) (auto simp: apply_payload_def red_export_completed_def)
  with ps show ?thesis by blast
qed

end
