(* ===== verification/Effects.thy ===== *)
theory Effects
  imports Progress
begin

text \<open>
  What an event can change, independent of which payload it carries: the frame of every
  branch, and the six moves the topics of a session can make.  The moves are the
  abstract view of the reducer the properties on topics are proved over.
\<close>

section \<open>Fields no branch touches\<close>

definition same_frame :: "dialogue_state \<Rightarrow> dialogue_state \<Rightarrow> bool" where
  "same_frame n s' \<longleftrightarrow>
     session_id s' = session_id n \<and> registry_generation s' = registry_generation n
     \<and> sequence s' = sequence n \<and> conversation_version s' = conversation_version n"

lemma replace_work_frame: "replace_work n w w' = Inr s' \<Longrightarrow> same_frame n s'"
  by (auto simp: replace_work_def same_frame_def split: if_splits)

lemma same_frame_phase [simp]: "same_frame n (s\<lparr>phase := p\<rparr>) = same_frame n s"
  by (simp add: same_frame_def)

text \<open>The three ways a recovery is applied.\<close>

lemma red_work_recovery_requested_InrD:
  assumes "red_work_recovery_requested s n ev wid a t e = Inr s'"
  obtains (session) dead w where "dead_work_target s wid = Some (dead, None, False)"
      "phase s = RECOVERABLE_ERROR" "session_work s = Some dead" "fresh_work s ev t = Inr w"
      "s' = n\<lparr>session_work := Some w, phase := WAITING_HOST\<rparr>"
  | (active) dead topic w where "dead_work_target s wid = Some (dead, Some topic, False)"
      "phase s = RECOVERABLE_ERROR" "active_topic s = Some topic" "fresh_work s ev t = Inr w"
      "s' = n\<lparr>active_topic := Some (recovered_run topic e a w), phase := WAITING_HOST\<rparr>"
  | (paused) dead topic w where "dead_work_target s wid = Some (dead, Some topic, True)"
      "phase s = PHASE_NONE" "active_topic s = None" "fresh_work s ev t = Inr w"
      "s' = n\<lparr>active_topic := Some (recovered_run topic e a w),
              paused_topics := filter (\<lambda>x. tr_topic_run_id x \<noteq> tr_topic_run_id topic)
                (paused_topics s),
              phase := WAITING_HOST\<rparr>"
proof -
  from assms obtain dead target p w where d: "dead_work_target s wid = Some (dead, target, p)"
    and w: "fresh_work s ev t = Inr w"
    by (auto simp: red_work_recovery_requested_def andthen_eq_Inr_iff split: option.splits)
  show thesis
  proof (cases target)
    case None
    with assms d w session show ?thesis by (auto simp: red_work_recovery_requested_def)
  next
    case (Some topic)
    with assms d w active paused show ?thesis
      by (cases p) (auto simp: red_work_recovery_requested_def)
  qed
qed

lemma apply_payload_frame:
  assumes "apply_payload s n ev = Inr s'"
  shows "same_frame n s'"
proof (cases "ce_payload ev")
  case (WorkFailed wid t k f)
  with assms show ?thesis
    by (auto simp: apply_payload_def red_work_failed_def split: option.splits
        intro: replace_work_frame)
next
  case (WorkRequeued wid t k f t' k')
  with assms show ?thesis
    by (auto simp: apply_payload_def red_work_requeued_def andthen_eq_Inr_iff split: option.splits
        intro: replace_work_frame)
next
  case (WorkDeadLettered wid t k f acts)
  with assms show ?thesis
    by (auto simp: apply_payload_def red_work_dead_lettered_def andthen_eq_Inr_iff
        split: option.splits intro: replace_work_frame)
next
  case (WorkRecoveryRequested wid a t e)
  with assms have "red_work_recovery_requested s n ev wid a t e = Inr s'"
    by (simp add: apply_payload_def)
  then show ?thesis
    by (rule red_work_recovery_requested_InrD) (simp_all add: same_frame_def)
qed (use assms in \<open>auto simp: apply_payload_def branch_defs andthen_eq_Inr_iff same_frame_def
      split: option.splits list.splits if_splits\<close>)

lemma reduce_frame:
  assumes "reduce s ev = Inr s'"
  shows "session_id s' = session_id s" and "registry_generation s' = registry_generation s"
    and "sequence s' = sequence s + 1"
    and "conversation_version s' = conversation_version s + conversation_version_delta (ce_payload ev)"
  using apply_payload_frame [OF reduce_eq_InrD(3) [OF assms]] reduce_eq_InrD(2) [OF assms]
  by (simp_all add: same_frame_def event_fits_def)

section \<open>Moves of the topics\<close>

text \<open>
  What later turns keep of an entry of the learner model: what it says, the turns and the
  evidence it rests on, and who said it until both sides confirm it.
\<close>

definition entry_kept :: "learner_model_entry \<Rightarrow> learner_model_entry \<Rightarrow> bool" where
  "entry_kept m m' \<longleftrightarrow>
     lm_entry_id m' = lm_entry_id m \<and> lm_kind m' = lm_kind m \<and> lm_statement m' = lm_statement m
     \<and> set (lm_source_turn_ids m) \<subseteq> set (lm_source_turn_ids m')
     \<and> set (lm_evidence_refs m) \<subseteq> set (lm_evidence_refs m')
     \<and> lm_provenance m' \<in> {lm_provenance m, IP_JOINTLY_CONFIRMED}"

lemma entry_kept_refl [simp, intro]: "entry_kept m m"
  by (simp add: entry_kept_def)

lemma entry_kept_trans: "entry_kept a b \<Longrightarrow> entry_kept b c \<Longrightarrow> entry_kept a c"
  by (auto simp: entry_kept_def)

lemma entry_kept_stale [simp, intro]: "entry_kept m (stale_entry m)"
  by (simp add: entry_kept_def stale_entry_def)

text \<open>
  A run continued by an event: same id and contract, the learner's turns extended, the entries
  of the learner model kept.
\<close>

definition continues :: "topic_run_state \<Rightarrow> topic_run_state \<Rightarrow> bool" where
  "continues t t' \<longleftrightarrow>
     tr_topic_run_id t' = tr_topic_run_id t \<and> tr_contract t' = tr_contract t
     \<and> (\<exists>ids. tr_learner_turn_ids t' = tr_learner_turn_ids t @ ids)
     \<and> (\<forall>m \<in> set (tr_learner_model t). \<exists>m' \<in> set (tr_learner_model t'). entry_kept m m')"

inductive topic_move :: "dialogue_state \<Rightarrow> dialogue_state \<Rightarrow> bool" where
  stay: "\<lbrakk>active_topic s' = active_topic s; paused_topics s' = paused_topics s;
      completed_topics s' = completed_topics s\<rbrakk> \<Longrightarrow> topic_move s s'"
| open_run: "\<lbrakk>active_topic s = None; active_topic s' = Some (new_topic_run c e w);
      paused_topics s' = paused_topics s; completed_topics s' = completed_topics s\<rbrakk>
    \<Longrightarrow> topic_move s s'"
| continue: "\<lbrakk>active_topic s = Some t; active_topic s' = Some t'; continues t t';
      paused_topics s' = paused_topics s; completed_topics s' = completed_topics s\<rbrakk>
    \<Longrightarrow> topic_move s s'"
| pause: "\<lbrakk>active_topic s = Some t; active_topic s' = None;
      paused_topics s' = paused_topics s @ [pause_run t];
      completed_topics s' = completed_topics s\<rbrakk> \<Longrightarrow> topic_move s s'"
| complete: "\<lbrakk>active_topic s = Some t; active_topic s' = None; completion_guard t u;
      paused_topics s' = paused_topics s;
      completed_topics s' = completed_topics s @ [complete_run t u]\<rbrakk> \<Longrightarrow> topic_move s s'"
| resume: "\<lbrakk>active_topic s = None; p \<in> set (paused_topics s); active_topic s' = Some a;
      continues p a;
      paused_topics s' = filter (\<lambda>x. tr_topic_run_id x \<noteq> tr_topic_run_id p) (paused_topics s);
      completed_topics s' = completed_topics s\<rbrakk> \<Longrightarrow> topic_move s s'"

text \<open>A valid delta keeps every entry: ids are distinct, so it is checked against its own.\<close>

lemma apply_model_updates_keep:
  assumes v: "valid_model_updates ms us" and d: "distinct (map lm_entry_id ms)" and m: "m \<in> set ms"
  shows "\<exists>m' \<in> set (apply_model_updates ms us). entry_kept m m'"
proof -
  let ?m' = "case entry_by_id us (lm_entry_id m) of None \<Rightarrow> m | Some u \<Rightarrow> u"
  have current: "entry_by_id ms (lm_entry_id m) = Some m"
  proof (cases "entry_by_id ms (lm_entry_id m)")
    case None
    with m show ?thesis by (auto simp: entry_by_id_def find_None_iff)
  next
    case (Some e)
    then have "e \<in> set ms" "lm_entry_id e = lm_entry_id m"
      by (auto simp: entry_by_id_def dest: find_Some_mem)
    with m d have "e = m" by (auto simp: distinct_map inj_on_def)
    with Some show ?thesis by simp
  qed
  have "entry_kept m ?m'"
  proof (cases "entry_by_id us (lm_entry_id m)")
    case (Some u)
    then have u: "u \<in> set us" "lm_entry_id u = lm_entry_id m"
      by (auto simp: entry_by_id_def dest: find_Some_mem)
    with v current have "valid_model_update m u" by (auto simp: valid_model_updates_def list_all_iff)
    with u Some show ?thesis by (auto simp: valid_model_update_def entry_kept_def)
  qed simp
  moreover have "?m' \<in> set (apply_model_updates ms us)"
    using m by (simp add: apply_model_updates_def)
  ultimately show ?thesis by blast
qed

lemma continues_commit:
  assumes "validate_state s" and "active_topic s = Some t"
    and "valid_model_updates (tr_learner_model t) (at_learner_model_delta r)"
  shows "continues t (commit_run t r)"
proof -
  have "distinct (map lm_entry_id (tr_learner_model t))"
    using assms(1,2) by (simp add: validate_state_def vs_topics_def valid_topic_state_def vt_model_def)
  with assms(3) show ?thesis by (simp add: continues_def commit_run_def apply_model_updates_keep)
qed

lemma continues_runs [intro!]:
  "continues t (learner_run t ltid txt w)"
  "continues t (requeue_run t w)"
  "continues t ((requeue_run t w)\<lparr>tr_current_lens := l\<rparr>)"
  "continues t (recovered_run t e a w)"
  "continues t (downgrade (requeue_run (resumed_run t e) w))"
  "continues t (resumed_run t e)"
  "continues t ((resumed_run t e)\<lparr>tr_work := v\<rparr>)"
  "continues t (t\<lparr>tr_work := v\<rparr>)"
  by (auto simp: continues_def learner_run_def requeue_run_def recovered_run_def
      downgrade_def resumed_run_def with_evidence_def Let_def)

lemma resume_active_continues:
  "resume_active s ev p t e = Inr (a, ph) \<Longrightarrow> continues p a"
  by (auto simp: resume_active_def Let_def andthen_eq_Inr_iff split: if_splits option.splits)

lemma replace_work_move:
  assumes v: "validate_state s" and w: "current_nonterminal_work s = Some w"
    and r: "replace_work (advance s ev) w w' = Inr s'"
  shows "topic_move s s'" and "topic_move s (s'\<lparr>phase := p\<rparr>)"
proof -
  from waiting_work [OF v w] have "topic_move s s' \<and> topic_move s (s'\<lparr>phase := p\<rparr>)"
  proof (elim disjE exE conjE)
    assume "session_work s = Some w"
    with r have "s' = (advance s ev)\<lparr>session_work := Some w'\<rparr>" by (simp add: replace_session_work)
    then show ?thesis by (auto intro: stay)
  next
    fix t assume "active_topic s = Some t" "tr_work t = Some w" "session_work s = None"
    with r have "s' = (advance s ev)\<lparr>active_topic := Some (t\<lparr>tr_work := Some w'\<rparr>)\<rparr>"
      by (simp add: replace_topic_work)
    with \<open>active_topic s = Some t\<close> show ?thesis by (auto intro!: continue)
  qed
  then show "topic_move s s'" and "topic_move s (s'\<lparr>phase := p\<rparr>)" by simp_all
qed

lemma red_work_recovery_requested_move:
  assumes v: "validate_state s" and r: "red_work_recovery_requested s (advance s ev) ev wid a t e = Inr s'"
  shows "topic_move s s'"
  using r
proof (cases rule: red_work_recovery_requested_InrD)
  case (paused dead topic w)
  with dead_work_target_cases [OF v paused(1)] have "topic \<in> set (paused_topics s)" by blast
  with paused show ?thesis by (auto intro!: resume [where p = topic])
next
  case session
  then show ?thesis by (auto intro: stay)
next
  case active
  then show ?thesis by (auto intro!: continue)
qed

lemma red_topic_resumed_move:
  assumes r: "red_topic_resumed s (advance s ev) ev trid rr t e = Inr s'"
  shows "topic_move s s'"
proof -
  from r obtain p a ph where m: "filter (\<lambda>x. tr_topic_run_id x = trid) (paused_topics s) = [p]"
    and a: "resume_active s ev p t e = Inr (a, ph)" and "active_topic s = None"
    and s': "s' = (advance s ev)\<lparr>active_topic := Some a,
        paused_topics := filter (\<lambda>x. tr_topic_run_id x \<noteq> trid) (paused_topics (advance s ev)),
        phase := ph\<rparr>"
    by (auto simp: red_topic_resumed_def andthen_eq_Inr_iff split: list.splits)
  with filter_single_mem [OF m] resume_active_continues [OF a] show ?thesis
    by (auto intro!: resume [where p = p])
qed

theorem reduce_topic_move:
  assumes "reduce s ev = Inr s'"
  shows "topic_move s s'"
proof -
  note r = reduce_eq_InrD [OF assms]
  show ?thesis
  proof (cases "ce_payload ev")
    case (WorkFailed wid t k f)
    with r(3) show ?thesis
      by (auto simp: apply_payload_def red_work_failed_def split: option.splits
          intro: replace_work_move [OF r(1)])
  next
    case (WorkRequeued wid t k f t' k')
    with r(3) show ?thesis
      by (auto simp: apply_payload_def red_work_requeued_def andthen_eq_Inr_iff
          split: option.splits intro: replace_work_move [OF r(1)])
  next
    case (WorkDeadLettered wid t k f acts)
    with r(3) show ?thesis
      by (auto simp: apply_payload_def red_work_dead_lettered_def andthen_eq_Inr_iff
          split: option.splits intro: replace_work_move [OF r(1)])
  next
    case (WorkRecoveryRequested wid a t e)
    with r red_work_recovery_requested_move show ?thesis by (simp add: apply_payload_def)
  next
    case (TopicResumed trid rr t e)
    with r red_topic_resumed_move show ?thesis by (simp add: apply_payload_def)
  next
    case (TopicStarted c e t sel st)
    with r(3) show ?thesis
      by (auto simp: apply_payload_def red_topic_started_def andthen_eq_Inr_iff intro!: open_run)
  next
    case (TopicCompleted trid u t e asof fp)
    with r(3) show ?thesis
      by (auto simp: apply_payload_def red_topic_completed_def split: option.splits intro!: complete)
  next
    case (TopicPaused trid c hid fg)
    with r(3) show ?thesis
      by (auto simp: apply_payload_def red_topic_paused_def split: option.splits intro: pause)
  next
    case (TopicSwitchRequested trid t)
    with r(3) show ?thesis
      by (auto simp: apply_payload_def red_topic_switch_requested_def andthen_eq_Inr_iff
          split: option.splits intro: pause)
  next
    case (AgentTurnCommitted rs t e)
    with r(3) show ?thesis
      by (auto simp: apply_payload_def red_agent_turn_committed_def split: option.splits
          intro!: continue continues_commit [OF r(1)])
  next
    case (LearnerTurnSubmitted qid ltid x t)
    with r(3) show ?thesis
      by (auto simp: apply_payload_def red_learner_turn_submitted_def andthen_eq_Inr_iff
          split: option.splits intro!: continue)
  next
    case (LensChanged trid l t)
    with r(3) show ?thesis
      by (auto simp: apply_payload_def red_lens_changed_def andthen_eq_Inr_iff
          split: option.splits intro!: continue)
  next
    case (HelpRequested trid qid t)
    with r(3) show ?thesis
      by (auto simp: apply_payload_def red_help_requested_def andthen_eq_Inr_iff
          split: option.splits intro!: continue)
  qed (use r in \<open>auto simp: apply_payload_def branch_defs andthen_eq_Inr_iff split: list.splits
      intro: stay\<close>)
qed

inductive_cases topic_moveE: "topic_move s s'"

end
