(* ===== verification/Commit.thy ===== *)
theory Commit
  imports Effects
begin

text \<open>
  From a decision to the log: the numbering of the coordinator gives every event of an
  accepted decision an envelope that fits the state it is reduced in, and the events
  reduce one after the other.
\<close>

section \<open>Event ids\<close>

lemma int_str_small: "int_str 1 = [49]" "int_str 2 = [50]"
  by (simp_all add: int_str_def nat_digits.simps)

lemma stable_id_ok:
  assumes d: "is_sha256_digest dg" and i: "i \<in> {1, 2}"
  shows "\<exists>eid. stable_id (py ''dlg.event'') dg (Some i) = Inr eid \<and> is_protocol_id eid"
proof -
  let ?h = "take 48 (drop 7 dg)"
  have hex: "list_all is_hex_char (drop 7 dg)" and pre: "take 7 dg = digest_prefix"
    using d by (simp_all add: is_sha256_digest_def)
  have "set ?h \<subseteq> set (drop 7 dg)" by (rule set_take_subset)
  with hex have h: "list_all is_id_char ?h"
    by (metis (no_types, lifting) is_hex_alnum is_id_char_def list_all_iff subsetD)
  have n: "length (int_str i) = 1" "list_all is_id_char (int_str i)"
    using i int_str_small by (auto simp: is_id_char_def is_alnum_char_def)
  have p: "py ''dlg.event'' = 100 # py ''lg.event''" "list_all is_id_char (py ''lg.event'')"
    "list_all is_id_char (py ''.'')" by (simp_all add: py_def is_id_char_def is_alnum_char_def)
  have "is_protocol_id (py ''dlg.event'' @ py ''.'' @ ?h @ py ''.'' @ int_str i)"
    using h n p by (simp add: is_protocol_id_def is_alnum_char_def)
  moreover have "stable_id (py ''dlg.event'') dg (Some i)
      = (if is_protocol_id (py ''dlg.event'' @ py ''.'' @ ?h @ py ''.'' @ int_str i)
         then Inr (py ''dlg.event'' @ py ''.'' @ ?h @ py ''.'' @ int_str i)
         else Inl IDENTITY_DERIVATION_FAILED)"
    by (simp add: stable_id_def pre)
  ultimately show ?thesis by simp
qed

section \<open>One event\<close>

text \<open>A session that has ended accepts only the export facts.\<close>

definition export_payload :: "dialogue_event_payload \<Rightarrow> bool" where
  "export_payload p =
     (case p of ExportRequested _ _ _ _ _ _ \<Rightarrow> True
      | ExportCompleted _ _ _ _ _ _ _ _ _ \<Rightarrow> True
      | _ \<Rightarrow> False)"

lemma reduce_ok:
  assumes v: "validate_state s" and f: "event_fits s ev"
    and l: "lifecycle s \<noteq> SL_ENDED \<or> export_payload (ce_payload ev)"
    and g: "\<not> invariant_gap s (ce_payload ev)"
    and a: "apply_payload s (advance s ev) ev = Inr s'"
  shows "reduce s ev = Inr s'"
proof -
  have "validate_state s'"
  proof (cases "lifecycle s = SL_ENDED")
    case False
    with assms show ?thesis by (blast intro: apply_payload_valid)
  next
    case True
    with l a show ?thesis
      by (cases "ce_payload ev") (auto simp: export_payload_def apply_payload_def
          intro: red_export_requested_valid [OF v f] red_export_completed_valid [OF v f])
  qed
  with v f a show ?thesis by (rule reduce_eq_InrI)
qed

definition step_ready :: "dialogue_state \<Rightarrow> dialogue_event_payload \<Rightarrow> bool" where
  "step_ready s p \<longleftrightarrow>
     applicable s p \<and> \<not> invariant_gap s p \<and> (lifecycle s \<noteq> SL_ENDED \<or> export_payload p)"

text \<open>Numbering a ready payload gives an event that reduces, and numbering goes on from there.\<close>

lemma number_fits:
  assumes v: "validate_state s" and p: "valid_event_payload_shape p" and c: "is_protocol_id cid"
    and d: "is_sha256_digest dg" and i: "i \<in> {1, 2}"
  obtains ev where "ce_payload ev = p" and "event_fits s ev"
    and "\<And>ps. number_events dg i (sequence s) (conversation_version s)
          (\<lparr>pe_command_id = cid, pe_payload = p\<rparr> # ps)
        = andthen (number_events dg (i + 1) (sequence s + 1)
            (conversation_version s + conversation_version_delta p) ps) (\<lambda>evs. Inr (ev # evs))"
proof -
  from stable_id_ok [OF d i] obtain eid
    where eid: "stable_id (py ''dlg.event'') dg (Some i) = Inr eid" "is_protocol_id eid" by blast
  let ?d = "conversation_version_delta p"
  let ?ev = "\<lparr>ce_event_id = eid, ce_sequence = sequence s + 1,
      ce_from_version = conversation_version s, ce_to_version = conversation_version s + ?d,
      ce_command_id = cid, ce_payload = p\<rparr>"
  have "0 \<le> ?d" by (cases p) simp_all
  moreover have "0 \<le> conversation_version s" "0 \<le> sequence s"
    using v by (simp_all add: validate_state_def vs_fields_def valid_nonnegative_int_def)
  ultimately have f: "event_fits s ?ev"
    using p c eid by (simp add: event_fits_def valid_committed_event_envelope_def
        valid_positive_int_def valid_nonnegative_int_def)
  from that [of ?ev] f eid show thesis by (simp add: Let_def)
qed

lemma number_step:
  assumes v: "validate_state s" and r: "step_ready s p" and c: "is_protocol_id cid"
    and d: "is_sha256_digest dg" and i: "i \<in> {1, 2}"
  obtains ev s' where "ce_payload ev = p" and "event_fits s ev" and "reduce s ev = Inr s'"
    and "apply_payload s (advance s ev) ev = Inr s'"
    and "\<And>ps. number_events dg i (sequence s) (conversation_version s)
          (\<lparr>pe_command_id = cid, pe_payload = p\<rparr> # ps)
        = andthen (number_events dg (i + 1) (sequence s') (conversation_version s') ps)
            (\<lambda>evs. Inr (ev # evs))"
proof -
  have "valid_event_payload_shape p" using r by (simp add: step_ready_def applicable_def)
  then obtain ev where ev: "ce_payload ev = p" and f: "event_fits s ev"
    and n: "\<And>ps. number_events dg i (sequence s) (conversation_version s)
          (\<lparr>pe_command_id = cid, pe_payload = p\<rparr> # ps)
        = andthen (number_events dg (i + 1) (sequence s + 1)
            (conversation_version s + conversation_version_delta p) ps) (\<lambda>evs. Inr (ev # evs))"
    using number_fits [OF v _ c d i] by blast
  then obtain s' where a: "apply_payload s (advance s ev) ev = Inr s'"
    using r by (auto simp: step_ready_def applicable_def)
  with v f r ev have red: "reduce s ev = Inr s'"
    by (intro reduce_ok) (simp_all add: step_ready_def)
  with reduce_frame [OF red] ev f a n that [of ev s'] show thesis by simp
qed

text \<open>The result the coordinator needs of an accepted decision.\<close>

definition commits :: "dialogue_state \<Rightarrow> pystr \<Rightarrow> pending_dialogue_event list \<Rightarrow> bool" where
  "commits s dg ps \<longleftrightarrow>
     (\<exists>evs s'. commit_events s dg ps = Inr evs \<and> replay s evs = Inr s' \<and> validate_state s')"

lemma commits_single:
  assumes v: "validate_state s" and r: "step_ready s p" and c: "is_protocol_id cid"
    and d: "is_sha256_digest dg"
  shows "commits s dg [\<lparr>pe_command_id = cid, pe_payload = p\<rparr>]"
proof -
  obtain ev s' where red: "reduce s ev = Inr s'"
    and n: "\<And>ps. number_events dg 1 (sequence s) (conversation_version s)
          (\<lparr>pe_command_id = cid, pe_payload = p\<rparr> # ps)
        = andthen (number_events dg (1 + 1) (sequence s') (conversation_version s') ps)
            (\<lambda>evs. Inr (ev # evs))"
    by (rule number_step [OF v r c d, of 1]) auto
  with reduce_eq_InrD(4) [OF red] show ?thesis
    by (simp add: commits_def commit_events_def n del: number_events.simps(2))
qed

lemma commits_pair:
  assumes v: "validate_state s" and p: "step_ready s p" and c: "is_protocol_id cid"
    and d: "is_sha256_digest dg"
    and q: "\<And>ev s1. \<lbrakk>ce_payload ev = p; event_fits s ev;
        apply_payload s (advance s ev) ev = Inr s1; validate_state s1\<rbrakk> \<Longrightarrow> step_ready s1 q"
  shows "commits s dg [\<lparr>pe_command_id = cid, pe_payload = p\<rparr>,
      \<lparr>pe_command_id = cid, pe_payload = q\<rparr>]"
proof -
  obtain ev s1 where e: "ce_payload ev = p" "event_fits s ev"
      "apply_payload s (advance s ev) ev = Inr s1" and red: "reduce s ev = Inr s1"
    and n: "\<And>ps. number_events dg 1 (sequence s) (conversation_version s)
          (\<lparr>pe_command_id = cid, pe_payload = p\<rparr> # ps)
        = andthen (number_events dg (1 + 1) (sequence s1) (conversation_version s1) ps)
            (\<lambda>evs. Inr (ev # evs))"
    by (rule number_step [OF v p c d, of 1]) auto
  note v1 = reduce_eq_InrD(4) [OF red]
  obtain ev2 s2 where red2: "reduce s1 ev2 = Inr s2"
    and n2: "\<And>ps. number_events dg 2 (sequence s1) (conversation_version s1)
          (\<lparr>pe_command_id = cid, pe_payload = q\<rparr> # ps)
        = andthen (number_events dg (2 + 1) (sequence s2) (conversation_version s2) ps)
            (\<lambda>evs. Inr (ev2 # evs))"
    by (rule number_step [OF v1 q [OF e v1] c d, of 2]) auto
  with red reduce_eq_InrD(4) [OF red2] show ?thesis
    by (simp add: commits_def commit_events_def n n2 del: number_events.simps(2))
qed

section \<open>The two events of a failure report\<close>

text \<open>After \<open>WorkFailed\<close> the same work is the one nonterminal work, now failed.\<close>

lemma work_failed_result:
  assumes v: "validate_state s" and w: "current_nonterminal_work s = Some w"
    and r: "red_work_failed s (advance s ev) ev wid t k f = Inr s'"
  shows "current_nonterminal_work s' = Some (w\<lparr>cw_status := WS_FAILED, cw_last_failure := Some f\<rparr>)"
    and "phase s' = WAITING_HOST" and "lifecycle s' = lifecycle s"
    and "topic_clarification s' = topic_clarification s"
    and "allowed_recovery_actions s' = allowed_recovery_actions s"
    and "cw_status w = WS_QUEUED"
proof -
  let ?w = "w\<lparr>cw_status := WS_FAILED, cw_last_failure := Some f\<rparr>"
  from r w have g: "phase s = WAITING_HOST" "cw_status w = WS_QUEUED"
      "replace_work (advance s ev) w ?w = Inr s'"
    by (simp_all add: red_work_failed_def)
  have "current_nonterminal_work s' = Some ?w \<and> phase s' = WAITING_HOST
      \<and> lifecycle s' = lifecycle s \<and> topic_clarification s' = topic_clarification s
      \<and> allowed_recovery_actions s' = allowed_recovery_actions s"
    using waiting_work [OF v w]
  proof (elim disjE exE conjE)
    assume "session_work s = Some w" "active_topic s = None"
    with g show ?thesis
      by (auto simp: replace_session_work current_nonterminal_work_def current_works_def
          active_work_def List.map_filter_simps allowed_recovery_actions_def)
  next
    fix t assume "active_topic s = Some t" "tr_work t = Some w" "session_work s = None"
    with g show ?thesis
      by (auto simp: replace_topic_work current_nonterminal_work_def current_works_def
          active_work_def List.map_filter_simps allowed_recovery_actions_def)
  qed
  with g(2) show "current_nonterminal_work s' = Some ?w" "phase s' = WAITING_HOST"
    "lifecycle s' = lifecycle s" "topic_clarification s' = topic_clarification s"
    "allowed_recovery_actions s' = allowed_recovery_actions s" "cw_status w = WS_QUEUED"
    by simp_all
qed

lemma replace_nonterminal_ok:
  assumes v: "validate_state s" and w: "current_nonterminal_work s = Some w"
  shows "\<exists>s'. replace_work (advance s ev) w w' = Inr s'"
  using waiting_work [OF v w] by (auto simp: replace_session_work replace_topic_work)

lemma work_failed_ready:
  assumes v: "validate_state s" and w: "current_nonterminal_work s = Some w"
    and g: "phase s = WAITING_HOST" "cw_status w = WS_QUEUED" "valid_work_failure f"
  shows "step_ready s (WorkFailed (cw_work_id w) (cw_trigger w) (cw_attempt w) f)"
proof -
  have l: "lifecycle s \<noteq> SL_ENDED"
    using v g by (auto simp: validate_state_def vs_lifecycle_def)
  note wv = nonterminal_work_valid [OF v w]
  have "applicable s (WorkFailed (cw_work_id w) (cw_trigger w) (cw_attempt w) f)"
  proof (rule applicableI)
    show "valid_event_payload_shape (WorkFailed (cw_work_id w) (cw_trigger w) (cw_attempt w) f)"
      using wv g by (simp add: valid_current_work_def valid_text_def protocol_id_strip)
    fix ev :: committed_dialogue_event assume "ce_payload ev = WorkFailed (cw_work_id w) (cw_trigger w) (cw_attempt w) f"
    with g w replace_nonterminal_ok [OF v w]
    show "\<exists>s'. apply_payload s (advance s ev) ev = Inr s'"
      by (simp add: apply_payload_def red_work_failed_def)
  qed
  with l show ?thesis by (simp add: step_ready_def invariant_gap_def)
qed

lemma work_requeued_ready:
  assumes v: "validate_state s" and w: "current_nonterminal_work s = Some w"
    and g: "phase s = WAITING_HOST" "cw_status w = WS_FAILED" "cw_last_failure w = Some f"
      "automatic_retry_allowed w" "retry_trigger_matches (cw_trigger w) t'"
      "is_canonical_trigger_binding t'" "k' = cw_attempt w + 1"
  shows "step_ready s (WorkRequeued (cw_work_id w) (cw_trigger w) (cw_attempt w) f t' k')"
    (is "step_ready s ?p")
proof -
  have l: "lifecycle s \<noteq> SL_ENDED"
    using v g by (auto simp: validate_state_def vs_lifecycle_def)
  note wv = nonterminal_work_valid [OF v w]
  have "applicable s ?p"
  proof (rule applicableI)
    show "valid_event_payload_shape ?p"
      using wv g by (simp add: valid_current_work_def valid_text_def protocol_id_strip
          valid_positive_int_def)
    fix ev assume f: "event_fits s ev" and p: "ce_payload ev = ?p"
    from v f have "\<exists>w'. queued_work_from_event (session_id s) ev t' k' (Some f) = Inr w'"
      using fits_positive [OF v f] g(6)
      by (intro queued_work_ok) (simp_all add: validate_state_def vs_fields_def)
    with p g w replace_nonterminal_ok [OF v w]
    show "\<exists>s'. apply_payload s (advance s ev) ev = Inr s'"
      by (auto simp: apply_payload_def red_work_requeued_def)
  qed
  with l show ?thesis by (simp add: step_ready_def invariant_gap_def)
qed

lemma work_dead_lettered_ready:
  assumes v: "validate_state s" and w: "current_nonterminal_work s = Some w"
    and g: "phase s = WAITING_HOST" "cw_status w = WS_FAILED" "cw_last_failure w = Some f"
      "\<not> automatic_retry_allowed w" "topic_clarification s = None"
  shows "step_ready s (WorkDeadLettered (cw_work_id w) (cw_trigger w) (cw_attempt w) f
      (allowed_recovery_actions s))" (is "step_ready s ?p")
proof -
  have l: "lifecycle s \<noteq> SL_ENDED"
    using v g by (auto simp: validate_state_def vs_lifecycle_def)
  note wv = nonterminal_work_valid [OF v w]
  have "applicable s ?p"
  proof (rule applicableI)
    show "valid_event_payload_shape ?p"
      using wv g by (simp add: valid_current_work_def valid_text_def protocol_id_strip
          allowed_recovery_actions_def)
    fix ev :: committed_dialogue_event assume "ce_payload ev = ?p"
    with g w replace_nonterminal_ok [OF v w]
    show "\<exists>s'. apply_payload s (advance s ev) ev = Inr s'"
      by (simp add: apply_payload_def red_work_dead_lettered_def) (metis andthen_simps(2))
  qed
  with l g show ?thesis by (simp add: step_ready_def invariant_gap_def)
qed

lemma report_work_failure_commits:
  assumes v: "validate_state s" and c: "valid_decision_context ctx" and cid: "is_protocol_id cid"
    and d: "is_sha256_digest dg" and a: "report_work_failure s cid wid f ctx = Accepted ps"
    and gap: "\<forall>p \<in> set ps. \<not> invariant_gap s (pe_payload p)"
  shows "commits s dg ps"
proof -
  from a obtain w where w: "current_nonterminal_work s = Some w"
    by (auto simp: report_work_failure_def split: option.splits)
  with a have g: "phase s = WAITING_HOST" "cw_status w = WS_QUEUED" "valid_work_failure f"
    by (auto simp: report_work_failure_def split: if_splits)
  let ?w = "w\<lparr>cw_status := WS_FAILED, cw_last_failure := Some f\<rparr>"
  let ?failed = "WorkFailed (cw_work_id w) (cw_trigger w) (cw_attempt w) f"
  note ready = work_failed_ready [OF v w g]
  have next_state: "current_nonterminal_work s1 = Some ?w \<and> phase s1 = WAITING_HOST
      \<and> topic_clarification s1 = topic_clarification s
      \<and> allowed_recovery_actions s1 = allowed_recovery_actions s"
    if "ce_payload ev = ?failed" "apply_payload s (advance s ev) ev = Inr s1" for ev s1
    using that work_failed_result [OF v w] by (auto simp: apply_payload_def)
  show ?thesis
  proof (cases "wf_category f \<in> RETRYABLE_WORK_FAILURES \<and> cw_attempt w < MAX_AUTOMATIC_WORK_ATTEMPTS")
    case True
    with a w g obtain nt where nt: "is_canonical_trigger_binding nt"
        "retry_trigger_matches (cw_trigger w) nt"
      and ps: "ps = [\<lparr>pe_command_id = cid, pe_payload = ?failed\<rparr>, \<lparr>pe_command_id = cid,
        pe_payload = WorkRequeued (cw_work_id w) (cw_trigger w) (cw_attempt w) f nt
          (cw_attempt w + 1)\<rparr>]"
      by (auto simp: report_work_failure_def split: if_splits option.splits)
    show ?thesis unfolding ps
    proof (rule commits_pair [OF v ready cid d])
      fix ev s1 assume "ce_payload ev = ?failed" "apply_payload s (advance s ev) ev = Inr s1"
        and "validate_state s1"
      with work_requeued_ready [of s1 ?w f nt] next_state True nt
      show "step_ready s1 (WorkRequeued (cw_work_id w) (cw_trigger w) (cw_attempt w) f nt
          (cw_attempt w + 1))" by (simp add: automatic_retry_allowed_def)
    qed
  next
    case False
    with a w g have ps: "ps = [\<lparr>pe_command_id = cid, pe_payload = ?failed\<rparr>, \<lparr>pe_command_id = cid,
        pe_payload = WorkDeadLettered (cw_work_id w) (cw_trigger w) (cw_attempt w) f
          (allowed_recovery_actions s)\<rparr>]"
      by (auto simp: report_work_failure_def split: if_splits)
    with gap have cl: "topic_clarification s = None" by (simp add: invariant_gap_def)
    show ?thesis unfolding ps
    proof (rule commits_pair [OF v ready cid d])
      fix ev s1 assume "ce_payload ev = ?failed" "apply_payload s (advance s ev) ev = Inr s1"
        and "validate_state s1"
      with work_dead_lettered_ready [of s1 ?w f] next_state False cl
      show "step_ready s1 (WorkDeadLettered (cw_work_id w) (cw_trigger w) (cw_attempt w) f
          (allowed_recovery_actions s))" by (auto simp: automatic_retry_allowed_def)
    qed
  qed
qed

section \<open>Every handler\<close>

lemmas handler_applicable =
  start_session_applicable present_candidates_applicable select_topic_applicable
  submit_custom_topic_applicable request_topic_clarification_applicable
  answer_topic_clarification_applicable start_topic_applicable commit_agent_turn_applicable
  submit_turn_applicable set_lens_applicable request_help_applicable complete_topic_applicable
  pause_topic_applicable switch_topic_applicable explore_topics_applicable
  resume_topic_applicable recover_work_applicable request_export_applicable
  complete_export_applicable

lemma handle_single:
  assumes v: "validate_state s" and c: "valid_decision_context ctx"
    and l: "lifecycle_allowed (lifecycle s) cmd"
    and n: "\<nexists>cid wid f. cmd = ReportWorkFailure cid wid f"
    and a: "handle s cmd ctx = Accepted ps"
  shows "\<exists>p. ps = [\<lparr>pe_command_id = command_id cmd, pe_payload = p\<rparr>] \<and> applicable s p
      \<and> (lifecycle s \<noteq> SL_ENDED \<or> export_payload p)"
proof (cases cmd)
  case (ReportWorkFailure cid wid f)
  with n show ?thesis by blast
next
  case (RequestExport cid xid iid at dg)
  with l a have "lifecycle s \<in> {SL_OPEN, SL_ENDED}" "request_export s cid xid iid at dg ctx = Accepted ps"
    by simp_all
  from request_export_applicable [OF v this] this(2) RequestExport show ?thesis
    by (auto simp: request_export_def export_payload_def split: if_split_asm)
next
  case (CompleteExport cid xid iid at jp jd mp md fd)
  with l a have "lifecycle s \<in> {SL_OPEN, SL_ENDED}"
    "complete_export s cid xid iid at jp jd mp md fd ctx = Accepted ps" by simp_all
  from complete_export_applicable [OF v this] this(2) CompleteExport show ?thesis
    by (auto simp: complete_export_def export_payload_def split: if_split_asm list.splits)
qed (use v c l a in \<open>auto dest: handler_applicable\<close>)

lemma handle_commits:
  assumes v: "validate_state s" and c: "valid_decision_context ctx"
    and cid: "is_protocol_id (command_id cmd)"
    and l: "lifecycle_allowed (lifecycle s) cmd" and d: "is_sha256_digest dg"
    and a: "handle s cmd ctx = Accepted ps"
    and gap: "\<forall>p \<in> set ps. \<not> invariant_gap s (pe_payload p)"
  shows "commits s dg ps"
proof (cases "\<exists>cid wid f. cmd = ReportWorkFailure cid wid f")
  case True
  with assms show ?thesis by (auto intro: report_work_failure_commits)
next
  case False
  from handle_single [OF v c l this a] obtain p
    where ps: "ps = [\<lparr>pe_command_id = command_id cmd, pe_payload = p\<rparr>]"
      and "applicable s p" "lifecycle s \<noteq> SL_ENDED \<or> export_payload p" by blast
  with gap have "step_ready s p" by (simp add: step_ready_def)
  then show ?thesis unfolding ps by (rule commits_single [OF v _ cid d])
qed

lemma decide_AcceptedD:
  assumes "decide s cmd ctx = Accepted ps"
  shows "validate_state s" "valid_decision_context ctx"
    "dc_registry_generation ctx = registry_generation s" "is_protocol_id (command_id cmd)"
    "lifecycle_allowed (lifecycle s) cmd" "handle s cmd ctx = Accepted ps"
  using assms by (auto simp: decide_def split: if_splits)

lemma decide_commits:
  assumes "decide s cmd ctx = Accepted ps" and "is_sha256_digest dg"
    and "\<forall>p \<in> set ps. \<not> invariant_gap s (pe_payload p)"
  shows "commits s dg ps"
  using handle_commits assms decide_AcceptedD [OF assms(1)] by blast

end
