(* ===== verification/Event_Sourcing.thy ===== *)
theory Event_Sourcing
  imports Prelude
begin

text \<open>
  The contract every event-sourced aggregate of the program keeps.  A reducer applies
  one event to a valid state or refuses it; the store folds the reducer over the
  stored events.  The laws say that a reducer starts from and returns valid states,
  that it advances the position by one and only takes the event numbered with the
  next position.  What the store relies on follows: replay splits at any point, the
  numbers of a log are consecutive, an event out of place is refused, and a property
  or relation that every event respects is respected by every log.
\<close>

fun fold_events :: "('s \<Rightarrow> 'e \<Rightarrow> 'x + 's) \<Rightarrow> 's \<Rightarrow> 'e list \<Rightarrow> 'x + 's" where
  "fold_events f s [] = Inr s"
| "fold_events f s (e # es) = andthen (f s e) (\<lambda>s'. fold_events f s' es)"

lemma fold_events_append:
  "fold_events f s (xs @ ys) = andthen (fold_events f s xs) (\<lambda>s'. fold_events f s' ys)"
proof (induction xs arbitrary: s)
  case (Cons x xs)
  then show ?case by (cases "f s x") simp_all
qed simp

text \<open>A step that keeps the valid states valid.\<close>

locale guarded =
  fixes step :: "'s \<Rightarrow> 'e \<Rightarrow> 'x + 's" and valid :: "'s \<Rightarrow> bool"
  assumes step_keeps: "valid s \<Longrightarrow> step s e = Inr s' \<Longrightarrow> valid s'"
begin

text \<open>A property that every event keeps holds after every log.\<close>

lemma fold_invariant:
  assumes keep: "\<And>s e s'. \<lbrakk>P s; step s e = Inr s'\<rbrakk> \<Longrightarrow> P s'"
  shows "P s \<Longrightarrow> fold_events step s es = Inr s' \<Longrightarrow> P s'"
proof (induction es arbitrary: s)
  case (Cons e es)
  then obtain t where "step s e = Inr t" "fold_events step t es = Inr s'"
    by (auto simp: andthen_eq_Inr_iff)
  with Cons.IH keep Cons.prems(1) show ?case by blast
qed simp

lemma fold_valid: "valid s \<Longrightarrow> fold_events step s es = Inr s' \<Longrightarrow> valid s'"
  using step_keeps by (rule fold_invariant [where P = valid])

text \<open>A preorder that every event respects relates the ends of every log.\<close>

lemma fold_related:
  assumes refl: "\<And>s. R s s" and trans: "\<And>a b c. \<lbrakk>R a b; R b c\<rbrakk> \<Longrightarrow> R a c"
    and one: "\<And>s e s'. step s e = Inr s' \<Longrightarrow> R s s'"
  shows "fold_events step s es = Inr s' \<Longrightarrow> R s s'"
proof (induction es arbitrary: s)
  case Nil
  then show ?case by (simp add: refl)
next
  case (Cons e es)
  then obtain t where "step s e = Inr t" "fold_events step t es = Inr s'"
    by (auto simp: andthen_eq_Inr_iff)
  with Cons.IH one trans show ?case by blast
qed

end

text \<open>An aggregate whose reducer validates every state it returns.\<close>

locale aggregate =
  fixes step :: "'s \<Rightarrow> 'e \<Rightarrow> 'x + 's" and valid :: "'s \<Rightarrow> bool"
  assumes step_valid: "step s e = Inr s' \<Longrightarrow> valid s'"

sublocale aggregate \<subseteq> guarded step valid
  by unfold_locales (rule step_valid)

text \<open>A log whose events are numbered by the position they lead to.\<close>

locale numbered =
  fixes step :: "'s \<Rightarrow> 'e \<Rightarrow> 'x + 's" and position :: "'s \<Rightarrow> int" and number :: "'e \<Rightarrow> int"
  assumes step_position: "step s e = Inr s' \<Longrightarrow> position s' = position s + 1 \<and> number e = position s'"
begin

lemma fold_position: "fold_events step s es = Inr s' \<Longrightarrow> position s' = position s + int (length es)"
proof (induction es arbitrary: s)
  case (Cons e es)
  then obtain t where "step s e = Inr t" "fold_events step t es = Inr s'"
    by (auto simp: andthen_eq_Inr_iff)
  with Cons.IH [of t] step_position [of s e t] show ?case by simp
qed simp

text \<open>The numbers of a log that replays are consecutive, without gap or repetition.\<close>

lemma fold_numbers:
  "fold_events step s es = Inr s' \<Longrightarrow>
     map number es = [position s + 1 .. position s + int (length es)]"
proof (induction es arbitrary: s)
  case (Cons e es)
  then obtain t where t: "step s e = Inr t" "fold_events step t es = Inr s'"
    by (auto simp: andthen_eq_Inr_iff)
  with Cons.IH [OF t(2)] step_position [OF t(1)] show ?case
    by (simp add: upto_rec1 algebra_simps)
qed simp

lemma fold_distinct:
  assumes "fold_events step s es = Inr s'"
  shows "distinct (map number es)"
  using fold_numbers [OF assms] by simp

text \<open>An event that is part of the history already is refused.\<close>

lemma old_event_refused:
  assumes "fold_events step s es = Inr s'" and "e \<in> set es"
  shows "\<exists>x. step s' e = Inl x"
proof (cases "step s' e")
  case (Inr t)
  have "number e \<in> set (map number es)" using assms(2) by simp
  then have "number e \<le> position s + int (length es)"
    unfolding fold_numbers [OF assms(1)] by auto
  with step_position [OF Inr] fold_position [OF assms(1)] show ?thesis by simp
qed auto

text \<open>Only the position a log leads to decides which event is next.\<close>

lemma misplaced_event_refused:
  assumes "number e \<noteq> position s + 1"
  shows "\<exists>x. step s e = Inl x"
  using assms step_position [of s e] by (cases "step s e") auto

end

text \<open>An aggregate with numbered events, as the dialogue and its log are.\<close>

locale sequenced =
  aggregate step valid + numbered step position number
  for step :: "'s \<Rightarrow> 'e \<Rightarrow> 'x + 's" and valid :: "'s \<Rightarrow> bool"
    and position :: "'s \<Rightarrow> int" and number :: "'e \<Rightarrow> int"

end
