(* ===== verification/Sessions.thy ===== *)
theory Sessions
  imports Commit Event_Sourcing
begin

text \<open>
  The dialogue kernel as an event-sourced aggregate, its reachable states, and the two
  abstract views of a session the properties are stated over: the runs it holds, which
  only grow, and the ledger of topic statuses, a small transition system that the
  reducer refines.
\<close>

section \<open>The aggregate\<close>

interpretation dialogue: sequenced reduce validate_state sequence ce_sequence
proof
  fix s ev s' assume "reduce s ev = Inr s'"
  from reduce_eq_InrD [OF this] reduce_frame [OF this]
  show "validate_state s'" and "sequence s' = sequence s + 1 \<and> ce_sequence ev = sequence s'"
    by (simp_all add: event_fits_def)
qed

lemma replay_fold: "replay s evs = fold_events reduce s evs"
  by (induction evs arbitrary: s) simp_all

text \<open>What the store can hold: the states the log of one session leads to.\<close>

inductive session_state :: "pystr \<Rightarrow> int \<Rightarrow> dialogue_state \<Rightarrow> bool" for sid gen where
  opened: "initial_dialogue_state sid gen = Inr s \<Longrightarrow> session_state sid gen s"
| stepped: "\<lbrakk>session_state sid gen s; reduce s ev = Inr s'\<rbrakk> \<Longrightarrow> session_state sid gen s'"

lemma initial_valid:
  assumes "is_protocol_id sid" and "initial_dialogue_state sid gen = Inr s"
  shows "validate_state s"
  using assms
  by (auto simp: initial_dialogue_state_def state_defs valid_nonnegative_int_def
      valid_positive_int_def split: if_splits)

lemma session_state_replay:
  assumes "session_state sid gen s" and "replay s evs = Inr s'"
  shows "session_state sid gen s'"
  using assms
proof (induction evs arbitrary: s)
  case (Cons ev evs)
  then obtain t where "reduce s ev = Inr t" "replay t evs = Inr s'"
    by (auto simp: andthen_eq_Inr_iff)
  with Cons show ?case by (blast intro: stepped)
qed simp

section \<open>The runs of a session\<close>

definition runs :: "dialogue_state \<Rightarrow> topic_run_state set" where
  "runs s = set_option (active_topic s) \<union> set (paused_topics s) \<union> set (completed_topics s)"

text \<open>Every run of the first state lives on in the second.\<close>

definition runs_kept :: "dialogue_state \<Rightarrow> dialogue_state \<Rightarrow> bool" where
  "runs_kept s s' \<longleftrightarrow> (\<forall>t \<in> runs s. \<exists>t' \<in> runs s'. continues t t')"

lemma continues_refl [simp, intro]: "continues t t"
  by (auto simp: continues_def)

lemma continues_trans:
  assumes "continues t u" and "continues u v"
  shows "continues t v"
proof -
  have "\<exists>m'' \<in> set (tr_learner_model v). entry_kept m m''" if "m \<in> set (tr_learner_model t)" for m
    using assms that unfolding continues_def by (meson entry_kept_trans)
  with assms show ?thesis by (auto simp: continues_def)
qed

lemma continues_shelved [intro]: "continues t (pause_run t)" "continues t (complete_run t u)"
  by (auto simp: continues_def pause_run_def complete_run_def)

lemma runs_kept_refl: "runs_kept s s"
  by (auto simp: runs_kept_def)

lemma runs_kept_trans: "runs_kept a b \<Longrightarrow> runs_kept b c \<Longrightarrow> runs_kept a c"
  unfolding runs_kept_def by (meson continues_trans)

lemma paused_id_unique:
  assumes "validate_state s" and "p \<in> set (paused_topics s)" and "q \<in> set (paused_topics s)"
    and "tr_topic_run_id p = tr_topic_run_id q"
  shows "p = q"
proof -
  have "distinct (map tr_topic_run_id (paused_topics s))"
    using assms(1) by (simp add: validate_state_def vs_topic_ids_def all_topic_ids_def)
  with assms(2-) show ?thesis by (auto simp: distinct_map inj_on_def)
qed

lemma move_runs_kept:
  assumes v: "validate_state s" and m: "topic_move s s'"
  shows "runs_kept s s'"
  using m
proof (cases rule: topic_move.cases)
  case (resume p a)
  have "\<exists>t' \<in> runs s'. continues t t'" if "t \<in> runs s" for t
  proof (cases "t \<in> set (paused_topics s) \<and> tr_topic_run_id t = tr_topic_run_id p")
    case True
    with paused_id_unique [OF v _ resume(2)] have "t = p" by blast
    with resume show ?thesis by (auto simp: runs_def)
  next
    case False
    with that resume show ?thesis by (auto simp: runs_def)
  qed
  then show ?thesis by (simp add: runs_kept_def)
qed (auto simp: runs_kept_def runs_def intro: continues_refl; blast)+

lemma reduce_runs_kept: "reduce s ev = Inr s' \<Longrightarrow> runs_kept s s'"
  using move_runs_kept reduce_eq_InrD(1) reduce_topic_move by blast

lemma replay_runs_kept: "replay s evs = Inr s' \<Longrightarrow> runs_kept s s'"
  unfolding replay_fold
  by (rule dialogue.fold_related [where R = runs_kept])
    (blast intro: runs_kept_refl runs_kept_trans reduce_runs_kept)+

section \<open>Completed runs\<close>

definition completed_kept :: "dialogue_state \<Rightarrow> dialogue_state \<Rightarrow> bool" where
  "completed_kept s s' \<longleftrightarrow> (\<exists>ts. completed_topics s' = completed_topics s @ ts)"

lemma reduce_completed_kept: "reduce s ev = Inr s' \<Longrightarrow> completed_kept s s'"
  by (drule reduce_topic_move) (auto elim!: topic_moveE simp: completed_kept_def)

lemma replay_completed_kept: "replay s evs = Inr s' \<Longrightarrow> completed_kept s s'"
  unfolding replay_fold
  by (rule dialogue.fold_related [where R = completed_kept])
    (auto simp: completed_kept_def dest: reduce_completed_kept [unfolded completed_kept_def])

text \<open>What a completed run proves about the learner.\<close>

definition mastered :: "topic_run_state \<Rightarrow> bool" where
  "mastered t \<longleftrightarrow>
     list_all (\<lambda>g. ga_status g = GS_SUPPORTED) (tr_gates t) \<and> has_bridge t
     \<and> present (\<lambda>u. set (su_confirmed_entry_ids u) \<subseteq> lm_entry_id ` set (confirmed_entries t))
         (tr_summary t)"

lemma complete_run_mastered: "completion_guard t u \<Longrightarrow> mastered (complete_run t u)"
  by (simp add: mastered_def completion_guard_def complete_run_def has_bridge_def
      confirmed_entries_def)

lemma reduce_mastered:
  assumes "reduce s ev = Inr s'" and "list_all mastered (completed_topics s)"
  shows "list_all mastered (completed_topics s')"
  using reduce_topic_move [OF assms(1)] assms(2)
  by (auto elim!: topic_moveE simp: complete_run_mastered)

lemma replay_mastered:
  assumes "replay s evs = Inr s'" and "list_all mastered (completed_topics s)"
  shows "list_all mastered (completed_topics s')"
  using assms unfolding replay_fold
  by (blast intro: dialogue.fold_invariant [where P = "\<lambda>s. list_all mastered (completed_topics s)"]
      reduce_mastered)

section \<open>The ledger of topics\<close>

datatype topic_status = T_ABSENT | T_ACTIVE | T_PAUSED | T_COMPLETED

type_synonym ledger = "pystr \<Rightarrow> topic_status"

definition ledger_of :: "dialogue_state \<Rightarrow> ledger" where
  "ledger_of s i =
     (if present (\<lambda>t. tr_topic_run_id t = i) (active_topic s) then T_ACTIVE
      else if i \<in> tr_topic_run_id ` set (paused_topics s) then T_PAUSED
      else if i \<in> tr_topic_run_id ` set (completed_topics s) then T_COMPLETED
      else T_ABSENT)"

text \<open>One topic changes status at a time, and only while no other one is active.\<close>

inductive ledger_step :: "ledger \<Rightarrow> ledger \<Rightarrow> bool" where
  keep: "ledger_step l l"
| start: "\<lbrakk>l i \<in> {T_ABSENT, T_PAUSED}; T_ACTIVE \<notin> range l\<rbrakk> \<Longrightarrow> ledger_step l (l(i := T_ACTIVE))"
| shelve: "l i = T_ACTIVE \<Longrightarrow> ledger_step l (l(i := T_PAUSED))"
| finish: "l i = T_ACTIVE \<Longrightarrow> ledger_step l (l(i := T_COMPLETED))"

inductive_cases ledger_stepE: "ledger_step l l'"

inductive_simps ledger_step_done: "ledger_step l (l(i := T_ABSENT))"

lemma ledger_step_completed:
  assumes "ledger_step l l'" and "l i = T_COMPLETED"
  shows "l' i = T_COMPLETED"
  using assms by (auto elim!: ledger_stepE)

lemma ledger_step_one_active:
  assumes "ledger_step l l'" and "\<And>i j. \<lbrakk>l i = T_ACTIVE; l j = T_ACTIVE\<rbrakk> \<Longrightarrow> i = j"
  shows "\<And>i j. \<lbrakk>l' i = T_ACTIVE; l' j = T_ACTIVE\<rbrakk> \<Longrightarrow> i = j"
  using assms by (auto elim!: ledger_stepE split: if_splits) (metis rangeI)+

lemma ledger_ActiveI: "ledger_of s i = T_ACTIVE \<longleftrightarrow> present (\<lambda>t. tr_topic_run_id t = i) (active_topic s)"
  by (simp add: ledger_of_def)

lemma ledger_active_iff:
  "T_ACTIVE \<in> range (ledger_of s) \<longleftrightarrow> active_topic s \<noteq> None"
proof -
  have "T_ACTIVE \<in> range (ledger_of s) \<longleftrightarrow> (\<exists>i. ledger_of s i = T_ACTIVE)"
    by (metis rangeE rangeI)
  then show ?thesis by (cases "active_topic s") (simp_all add: ledger_ActiveI)
qed

lemma reduce_ledger_step:
  assumes r: "reduce s ev = Inr s'"
  shows "ledger_step (ledger_of s) (ledger_of s')"
proof -
  have d: "distinct (all_topic_ids s)" and d': "distinct (all_topic_ids s')"
    using reduce_eq_InrD [OF r] by (simp_all add: validate_state_def vs_topic_ids_def)
  from reduce_topic_move [OF r] show ?thesis
  proof (cases rule: topic_move.cases)
    case stay
    then have "ledger_of s' = ledger_of s" by (auto simp: ledger_of_def)
    then show ?thesis by (simp add: keep)
  next
    case (open_run c e w)
    let ?i = "tc_topic_run_id c"
    have i: "ledger_of s ?i = T_ABSENT"
      using d' open_run by (auto simp: ledger_of_def all_topic_ids_def)
    have "ledger_of s' = (ledger_of s)(?i := T_ACTIVE)"
      using d' open_run by (auto simp: ledger_of_def all_topic_ids_def)
    moreover have "T_ACTIVE \<notin> range (ledger_of s)" using open_run by (simp add: ledger_active_iff)
    ultimately show ?thesis using i start by simp
  next
    case (continue t t')
    then have "ledger_of s' = ledger_of s" by (auto simp: ledger_of_def continues_def)
    then show ?thesis by (simp add: keep)
  next
    case (pause t)
    then have "ledger_of s' = (ledger_of s)(tr_topic_run_id t := T_PAUSED)"
      and "ledger_of s (tr_topic_run_id t) = T_ACTIVE"
      by (auto simp: ledger_of_def)
    then show ?thesis by (simp add: shelve)
  next
    case (complete t u)
    then have "ledger_of s' = (ledger_of s)(tr_topic_run_id t := T_COMPLETED)"
      and "ledger_of s (tr_topic_run_id t) = T_ACTIVE"
      using d by (auto simp: ledger_of_def all_topic_ids_def)
    then show ?thesis by (simp add: finish)
  next
    case (resume p a)
    then have "ledger_of s' = (ledger_of s)(tr_topic_run_id p := T_ACTIVE)"
      and "ledger_of s (tr_topic_run_id p) = T_PAUSED"
      by (auto simp: ledger_of_def continues_def fun_eq_iff image_iff)
    moreover have "T_ACTIVE \<notin> range (ledger_of s)" using resume by (simp add: ledger_active_iff)
    ultimately show ?thesis using start [of "ledger_of s"] by simp
  qed
qed

end
