(* ===== verification/Event_Log.thy ===== *)
theory Event_Log
  imports Event_Codec_Facts Directory Sessions
begin

text \<open>
  The transaction log of a session (\<open>xsync_v2/event_store.py\<close>).  The disk of a session is three
  directories (events, transactions, quarantine) and the snapshot file; a transaction is committed
  when its marker file exists, and the tip is what replaying the markers gives.  This theory
  reads: what a batch and a marker must satisfy, and the loop that replays the markers.
\<close>

section \<open>Data\<close>

datatype store_code =
    INVALID_COMMIT_REQUEST | INVALID_WORK_FAILURE_BATCH | DUPLICATE_EVENT_ID
  | DUPLICATE_EFFECT_INTENT_ID | DUPLICATE_TRANSACTION_ID | REGISTRY_GENERATION_MISMATCH
  | TRANSACTION_RECEIPT_MISMATCH | TRANSACTION_STATE_MISMATCH
  | TRANSACTION_CHAIN_MISMATCH | TRANSACTION_EVENT_MISMATCH | EVENT_CHAIN_MISMATCH
  | TRANSACTION_SEQUENCE_GAP | DIALOGUE_STORE_CLOSED | LOCK_AUTHORITY_REQUIRED
  | INVALID_INITIAL_STATE | INVALID_SEQUENCE | INVALID_SESSION_ID

text \<open>\<open>DialogueStoreError(str(exc))\<close> carries the code of a lower layer upwards; the
  exception of a caller's guard is passed on.\<close>

datatype log_error =
    Store store_code | Codec codec_code | Kernel code | Fs fs_code | Raised pystr

record event_metadata =
  em_occurred_at :: pystr
  em_actor :: dialogue_actor
  em_causation_id :: "pystr option"

record commit_request =
  cq_session_id :: pystr
  cq_transaction_id :: pystr
  cq_request_digest :: pystr
  cq_registry_generation :: int
  cq_events :: "committed_dialogue_event list"
  cq_metadata :: "event_metadata list"
  cq_effect_intents :: "effect_intent list"

record dialogue_tip =
  tp_state :: dialogue_state
  tp_last_event_hash :: "pystr option"
  tp_last_marker_hash :: "pystr option"
  tp_receipts :: "dialogue_receipt list"
  tp_last_registry_generation :: int

definition last_event_id :: "dialogue_tip \<Rightarrow> pystr option" where
  "last_event_id tip =
     (if tp_receipts tip = [] then None else Some (last (dr_event_ids (last (tp_receipts tip)))))"

record commit_outcome =
  co_receipt :: dialogue_receipt
  co_state :: dialogue_state
  co_events :: "committed_dialogue_event list"
  co_replayed :: bool
  co_projection_current :: bool

record log_disk =
  ld_events :: dir
  ld_transactions :: dir
  ld_quarantine :: dir
  ld_session :: dir

definition store_fault :: "store_code \<Rightarrow> bool \<Rightarrow> log_error + 'a \<Rightarrow> log_error + 'a" where
  "store_fault c = require (Store c)"

definition lift_error :: "('e \<Rightarrow> log_error) \<Rightarrow> 'e + 'a \<Rightarrow> log_error + 'a" where
  "lift_error f r = (case r of Inl e \<Rightarrow> Inl (f e) | Inr x \<Rightarrow> Inr x)"

lemma lift_error_eq_Inr_iff [simp]: "lift_error f r = Inr x \<longleftrightarrow> r = Inr x"
  by (simp add: lift_error_def split: sum.split)

lemma lift_error_Inr [simp]: "lift_error f (Inr x) = Inr x"
  by (simp add: lift_error_def)

lemma store_fault_eq_Inr_iff [simp]: "store_fault c b r = Inr x \<longleftrightarrow> b \<and> r = Inr x"
  by (simp add: store_fault_def)

lemma store_fault_True [simp]: "store_fault c True r = r"
  by (simp add: store_fault_def)

section \<open>Names\<close>

definition session_directory_component :: "pystr \<Rightarrow> log_error + pystr" where
  "session_directory_component sid =
     store_fault INVALID_SESSION_ID (nonblank sid)
       (case utf8_encode sid of
          None \<Rightarrow> Inl (Kernel UNICODE_ENCODE_ERROR)
        | Some raw \<Rightarrow> Inr (py ''session-'' @ hexdigest raw))"

text \<open>\<open>{n:020d}\<close>.\<close>

definition padded :: "int \<Rightarrow> pystr" where
  "padded n = replicate (20 - length (int_str n)) 48 @ int_str n"

definition event_name :: "int \<Rightarrow> pystr" where
  "event_name n = py ''event-'' @ padded n @ py ''.json''"

definition marker_name :: "int \<Rightarrow> pystr" where
  "marker_name n = py ''transaction-'' @ padded n @ py ''.json''"

definition orphan_name :: "byte list \<Rightarrow> pystr" where
  "orphan_name raw = py ''orphan-'' @ hexdigest raw @ py ''.json''"

section \<open>The shape of a batch\<close>

fun batch_chain ::
  "committed_dialogue_event option \<Rightarrow> committed_dialogue_event list \<Rightarrow> log_error + unit" where
  "batch_chain previous [] = Inr ()"
| "batch_chain previous (ev # evs) =
     store_fault INVALID_COMMIT_REQUEST (1 \<le> ce_sequence ev \<and> 0 \<le> ce_from_version ev)
    (require (Kernel EVENT_VERSION_CONFLICT)
       (ce_to_version ev = ce_from_version ev + conversation_version_delta (ce_payload ev))
    (require (Kernel EVENT_SEQUENCE_GAP)
       (case previous of None \<Rightarrow> True | Some p \<Rightarrow> ce_sequence ev = ce_sequence p + 1)
    (require (Kernel EVENT_VERSION_CONFLICT)
       (case previous of None \<Rightarrow> True | Some p \<Rightarrow> ce_from_version ev = ce_to_version p)
       (batch_chain (Some ev) evs))))"

definition is_work_failure :: "dialogue_event_payload \<Rightarrow> bool" where
  "is_work_failure p =
     (case p of
        WorkFailed _ _ _ _ \<Rightarrow> True | WorkRequeued _ _ _ _ _ _ \<Rightarrow> True
      | WorkDeadLettered _ _ _ _ _ \<Rightarrow> True | _ \<Rightarrow> False)"

text \<open>A work failure is committed with its resolution, and with nothing else.\<close>

definition failure_resolved :: "dialogue_event_payload \<Rightarrow> dialogue_event_payload \<Rightarrow> bool" where
  "failure_resolved p q =
     (case p of
        WorkFailed w t a f \<Rightarrow>
          (case q of
             WorkRequeued w' t' a' f' _ _ \<Rightarrow> w' = w \<and> t' = t \<and> a' = a \<and> f' = f
           | WorkDeadLettered w' t' a' f' _ \<Rightarrow> w' = w \<and> t' = t \<and> a' = a \<and> f' = f
           | _ \<Rightarrow> False)
      | _ \<Rightarrow> False)"

definition failure_batch :: "committed_dialogue_event list \<Rightarrow> bool" where
  "failure_batch evs \<longleftrightarrow>
     (\<not> list_ex (is_work_failure \<circ> ce_payload) evs
      \<or> (length evs = 2 \<and> failure_resolved (ce_payload (hd evs)) (ce_payload (last evs))
         \<and> ce_command_id (hd evs) = ce_command_id (last evs)))"

definition validate_event_batch_shape :: "committed_dialogue_event list \<Rightarrow> log_error + unit" where
  "validate_event_batch_shape evs =
     andthen (batch_chain None evs) (\<lambda>_.
       store_fault INVALID_WORK_FAILURE_BATCH (failure_batch evs) (Inr ()))"

definition validate_request :: "dialogue_state \<Rightarrow> commit_request \<Rightarrow> log_error + unit" where
  "validate_request initial q =
     store_fault INVALID_COMMIT_REQUEST
       (cq_session_id q = session_id initial \<and> nonblank (cq_transaction_id q)
        \<and> is_sha256_digest (cq_request_digest q) \<and> 1 \<le> cq_registry_generation q
        \<and> cq_events q \<noteq> [] \<and> length (cq_metadata q) = length (cq_events q))
       (andthen (validate_event_batch_shape (cq_events q)) (\<lambda>_.
         store_fault INVALID_COMMIT_REQUEST
           (list_all (\<lambda>ev. ce_command_id ev = ce_command_id (hd (cq_events q))) (cq_events q)) (Inr ())))"

section \<open>The registry generation of a transaction\<close>

definition is_deactivation :: "dialogue_event_payload \<Rightarrow> bool" where
  "is_deactivation p =
     (case p of
        SessionDeactivationPrepared _ _ _ \<Rightarrow> True
      | TopicPaused _ cause _ _ \<Rightarrow> cause = PC_SESSION_DEACTIVATION
      | _ \<Rightarrow> False)"

definition fenced_at :: "int \<Rightarrow> dialogue_event_payload \<Rightarrow> bool" where
  "fenced_at generation p =
     (case p of
        TopicPaused _ cause handoff fence \<Rightarrow>
          cause = PC_SESSION_DEACTIVATION \<and> fence = Some generation
          \<and> (case handoff of None \<Rightarrow> False | Some h \<Rightarrow> nonblank h)
      | SessionDeactivationPrepared handoff fence _ \<Rightarrow> fence = generation \<and> nonblank handoff
      | _ \<Rightarrow> False)"

definition validate_registry_generation ::
  "dialogue_state \<Rightarrow> int \<Rightarrow> committed_dialogue_event list \<Rightarrow> log_error + unit" where
  "validate_registry_generation initial generation evs =
     (if generation = registry_generation initial then
        store_fault REGISTRY_GENERATION_MISMATCH
          (\<not> list_ex (is_deactivation \<circ> ce_payload) evs) (Inr ())
      else
        store_fault REGISTRY_GENERATION_MISMATCH
          (generation = registry_generation initial + 1
           \<and> list_all (fenced_at generation \<circ> ce_payload) evs) (Inr ()))"

section \<open>Reading\<close>

definition read_marker :: "log_disk \<Rightarrow> int \<Rightarrow> log_error + transaction_marker" where
  "read_marker d first =
     andthen (lift_error Fs (dir_read (ld_transactions d) (marker_name first) MAX_RECORD_BYTES)) (\<lambda>raw.
       lift_error Codec (decode_transaction_marker raw))"

definition read_optional_marker :: "log_disk \<Rightarrow> int \<Rightarrow> log_error + transaction_marker option" where
  "read_optional_marker d first =
     (case read_marker d first of
        Inl e \<Rightarrow> if e = Fs FILE_NOT_FOUND then Inr None else Inl e
      | Inr m \<Rightarrow> Inr (Some m))"

definition read_event :: "log_disk \<Rightarrow> int \<Rightarrow> log_error + stored_event" where
  "read_event d n =
     andthen (lift_error Fs (dir_read (ld_events d) (event_name n) MAX_RECORD_BYTES)) (\<lambda>raw.
       lift_error Codec (decode_stored_event raw))"

fun events_at :: "log_disk \<Rightarrow> int list \<Rightarrow> log_error + committed_dialogue_event list" where
  "events_at d [] = Inr []"
| "events_at d (n # ns) =
     andthen (read_event d n) (\<lambda>r. andthen (events_at d ns) (\<lambda>evs. Inr (se_event r # evs)))"

definition events_between :: "log_disk \<Rightarrow> int \<Rightarrow> int \<Rightarrow> log_error + committed_dialogue_event list" where
  "events_between d first final = events_at d [first .. final]"

definition match_reference :: "stored_event \<Rightarrow> marker_event_ref \<Rightarrow> bool" where
  "match_reference r e \<longleftrightarrow>
     ce_sequence (se_event r) = me_sequence e \<and> ce_event_id (se_event r) = me_event_id e
     \<and> se_event_hash r = me_event_hash e"

fun read_records ::
  "dialogue_state \<Rightarrow> log_disk \<Rightarrow> transaction_marker \<Rightarrow> pystr option \<Rightarrow> marker_event_ref list
    \<Rightarrow> log_error + stored_event list" where
  "read_records initial d m previous [] = Inr []"
| "read_records initial d m previous (e # es) =
     andthen (read_event d (me_sequence e)) (\<lambda>r.
       store_fault TRANSACTION_EVENT_MISMATCH (match_reference r e)
      (store_fault EVENT_CHAIN_MISMATCH
         (se_session_id r = session_id initial \<and> se_previous_event_hash r = previous
          \<and> se_registry_generation r = tm_registry_generation m
          \<and> ce_command_id (se_event r) = tm_command_id m)
        (andthen (read_records initial d m (Some (se_event_hash r)) es) (\<lambda>rs. Inr (r # rs)))))"

definition last_hash :: "pystr option \<Rightarrow> stored_event list \<Rightarrow> pystr option" where
  "last_hash previous rs = (if rs = [] then previous else Some (se_event_hash (last rs)))"

definition apply_marker ::
  "dialogue_state \<Rightarrow> log_disk \<Rightarrow> dialogue_tip \<Rightarrow> transaction_marker \<Rightarrow> log_error + dialogue_tip" where
  "apply_marker initial d tip m =
     store_fault TRANSACTION_CHAIN_MISMATCH
       (tm_session_id m = session_id initial \<and> tm_from_sequence m = sequence (tp_state tip) + 1
        \<and> tm_previous_marker_hash m = tp_last_marker_hash tip
        \<and> tp_last_registry_generation tip = registry_generation initial)
      (andthen (read_records initial d m (tp_last_event_hash tip) (tm_events m)) (\<lambda>rs.
       andthen (validate_event_batch_shape (map se_event rs)) (\<lambda>_.
       andthen (lift_error Kernel (replay (tp_state tip) (map se_event rs))) (\<lambda>s.
       andthen (validate_registry_generation initial (tm_registry_generation m) (map se_event rs)) (\<lambda>_.
       andthen (lift_error Codec (receipt_from_marker m)) (\<lambda>receipt.
       andthen (lift_error Codec
          (build_state_snapshot s (last_hash (tp_last_event_hash tip) rs) (Some (tm_marker_hash m))
             (tp_receipts tip @ [receipt]))) (\<lambda>snapshot.
         store_fault TRANSACTION_STATE_MISMATCH (sn_state_digest snapshot = tm_state_digest m)
           (Inr \<lparr>tp_state = s, tp_last_event_hash = last_hash (tp_last_event_hash tip) rs,
                 tp_last_marker_hash = Some (tm_marker_hash m),
                 tp_receipts = tp_receipts tip @ [receipt],
                 tp_last_registry_generation = tm_registry_generation m\<rparr>))))))))"

definition initial_tip :: "dialogue_state \<Rightarrow> dialogue_tip" where
  "initial_tip initial =
     \<lparr>tp_state = initial, tp_last_event_hash = None, tp_last_marker_hash = None, tp_receipts = [],
      tp_last_registry_generation = registry_generation initial\<rparr>"

section \<open>What applying a marker does\<close>

lemma read_markerD:
  assumes "read_marker d first = Inr m"
  shows "\<exists>raw. map_of (ld_transactions d) (marker_name first) = Some raw
    \<and> decode_transaction_marker raw = Inr m"
  using assms by (auto simp: read_marker_def andthen_eq_Inr_iff dest: dir_read_InrD)

lemma read_optional_marker_Some [simp]:
  "read_optional_marker d first = Inr (Some m) \<longleftrightarrow> read_marker d first = Inr m"
  by (auto simp: read_optional_marker_def split: sum.split)

lemma read_optional_marker_None:
  "read_optional_marker d first = Inr None \<longleftrightarrow> read_marker d first = Inl (Fs FILE_NOT_FOUND)"
  by (auto simp: read_optional_marker_def split: sum.split)

lemma read_records_length: "read_records initial d m h es = Inr rs \<Longrightarrow> length rs = length es"
  by (induction es arbitrary: h rs) (auto simp: andthen_eq_Inr_iff)

lemma receipt_from_marker_Inr:
  "receipt_from_marker m = Inr r \<longleftrightarrow> validate_transaction_marker m = Inr () \<and> r = marker_receipt m"
  by (auto simp: receipt_from_marker_def andthen_eq_Inr_iff)

text \<open>The parts of a step, read off once for all proofs.\<close>

lemma apply_markerE:
  assumes "apply_marker initial d tip m = Inr tip'"
  obtains rs snapshot where
    "tm_session_id m = session_id initial" "tm_from_sequence m = sequence (tp_state tip) + 1"
    "tm_previous_marker_hash m = tp_last_marker_hash tip"
    "tp_last_registry_generation tip = registry_generation initial"
    "read_records initial d m (tp_last_event_hash tip) (tm_events m) = Inr rs"
    "validate_event_batch_shape (map se_event rs) = Inr ()"
    "replay (tp_state tip) (map se_event rs) = Inr (tp_state tip')"
    "validate_registry_generation initial (tm_registry_generation m) (map se_event rs) = Inr ()"
    "validate_transaction_marker m = Inr ()"
    "build_state_snapshot (tp_state tip') (tp_last_event_hash tip') (tp_last_marker_hash tip')
       (tp_receipts tip') = Inr snapshot"
    "sn_state_digest snapshot = tm_state_digest m"
    "tp_last_event_hash tip' = last_hash (tp_last_event_hash tip) rs"
    "tp_last_marker_hash tip' = Some (tm_marker_hash m)"
    "tp_receipts tip' = tp_receipts tip @ [marker_receipt m]"
    "tp_last_registry_generation tip' = tm_registry_generation m"
  using assms
  by (auto simp: apply_marker_def andthen_eq_Inr_iff receipt_from_marker_Inr)

lemma apply_marker_sequence:
  assumes "apply_marker initial d tip m = Inr tip'"
  shows "sequence (tp_state tip') = sequence (tp_state tip) + int (length (tm_events m))"
    and "sequence (tp_state tip) < sequence (tp_state tip')"
    and "tm_from_sequence m = sequence (tp_state tip) + 1"
    and "tm_to_sequence m = sequence (tp_state tip')"
proof -
  from assms obtain rs snapshot where
    r: "read_records initial d m (tp_last_event_hash tip) (tm_events m) = Inr rs"
       "replay (tp_state tip) (map se_event rs) = Inr (tp_state tip')"
    and v: "validate_transaction_marker m = Inr ()"
    and f: "tm_from_sequence m = sequence (tp_state tip) + 1"
    by (rule apply_markerE)
  show s: "sequence (tp_state tip') = sequence (tp_state tip) + int (length (tm_events m))"
    using dialogue.fold_position [OF r(2) [unfolded replay_fold]] read_records_length [OF r(1)] by simp
  have n: "tm_events m \<noteq> []" using validate_transaction_markerD(1) [OF v] by (simp add: marker_fields_def)
  with s show "sequence (tp_state tip) < sequence (tp_state tip')" by simp
  show "tm_from_sequence m = sequence (tp_state tip) + 1" by (rule f)
  have refs: "map me_sequence (tm_events m) = [tm_from_sequence m .. tm_to_sequence m]"
    using validate_transaction_markerD(2) [OF v] by (simp add: marker_references_def)
  have "length (tm_events m) = length [tm_from_sequence m .. tm_to_sequence m]"
    by (simp only: refs [symmetric] length_map)
  with n f s show "tm_to_sequence m = sequence (tp_state tip')"
    by (simp add: nat_add_distrib) (smt (verit) nat_0_iff length_0_conv int_nat_eq)
qed

section \<open>Replaying the markers\<close>

lemma andthen_cong [fundef_cong]:
  "\<lbrakk>r = r'; \<And>x. r' = Inr x \<Longrightarrow> k x = k' x\<rbrakk> \<Longrightarrow> andthen r k = andthen r' k'"
  by (cases r') simp_all

text \<open>
  The loop of \<open>_synchronize\<close> and of \<open>_full_recover\<close>: the tip it reaches, and how it ends.  It
  ends because a marker it applies has a greater first sequence than those before it: the markers
  of the directory that are still ahead become fewer.
\<close>

definition markers_ahead :: "log_disk \<Rightarrow> dialogue_tip \<Rightarrow> byte list set" where
  "markers_ahead d tip =
     {raw \<in> snd ` set (ld_transactions d).
        \<exists>m. decode_transaction_marker raw = Inr m \<and> sequence (tp_state tip) < tm_from_sequence m}"

lemma markers_ahead_decrease:
  assumes "read_marker d (sequence (tp_state tip) + 1) = Inr m" and "apply_marker initial d tip m = Inr tip'"
  shows "card (markers_ahead d tip') < card (markers_ahead d tip)"
proof (rule psubset_card_mono)
  show "finite (markers_ahead d tip)" by (simp add: markers_ahead_def)
  from read_markerD [OF assms(1)] obtain raw where
    raw: "(marker_name (sequence (tp_state tip) + 1), raw) \<in> set (ld_transactions d)"
      "decode_transaction_marker raw = Inr m" by (blast dest: map_of_SomeD)
  note s = apply_marker_sequence [OF assms(2)]
  from raw s have "raw \<in> markers_ahead d tip" "raw \<notin> markers_ahead d tip'"
    by (force simp: markers_ahead_def image_iff)+
  moreover have "markers_ahead d tip' \<subseteq> markers_ahead d tip"
    using s(2) by (auto simp: markers_ahead_def intro: order.strict_trans)
  ultimately show "markers_ahead d tip' \<subset> markers_ahead d tip" by blast
qed

function catch_up :: "dialogue_state \<Rightarrow> log_disk \<Rightarrow> dialogue_tip \<Rightarrow> dialogue_tip \<times> (log_error + unit)" where
  "catch_up initial d tip =
     (case read_optional_marker d (sequence (tp_state tip) + 1) of
        Inl e \<Rightarrow> (tip, Inl e)
      | Inr None \<Rightarrow> (tip, Inr ())
      | Inr (Some m) \<Rightarrow>
          (case apply_marker initial d tip m of
             Inl e \<Rightarrow> (tip, Inl e)
           | Inr tip' \<Rightarrow> catch_up initial d tip'))"
  by pat_completeness auto

termination
  by (relation "measure (\<lambda>(initial, d, tip). card (markers_ahead d tip))")
    (auto intro: markers_ahead_decrease)

declare catch_up.simps [simp del]

lemma catch_up_eq:
  "catch_up initial d tip =
     (case read_marker d (sequence (tp_state tip) + 1) of
        Inl e \<Rightarrow> (tip, if e = Fs FILE_NOT_FOUND then Inr () else Inl e)
      | Inr m \<Rightarrow> (case apply_marker initial d tip m of
            Inl e \<Rightarrow> (tip, Inl e)
          | Inr tip' \<Rightarrow> catch_up initial d tip'))"
  by (subst catch_up.simps) (simp add: read_optional_marker_def split: sum.split)

lemma catch_up_induct:
  assumes "\<And>tip. (\<And>m tip'. \<lbrakk>read_marker d (sequence (tp_state tip) + 1) = Inr m;
     apply_marker initial d tip m = Inr tip'\<rbrakk> \<Longrightarrow> P tip') \<Longrightarrow> P tip"
  shows "P tip"
  by (induction initial \<equiv> initial d \<equiv> d tip rule: catch_up.induct)
    (rule assms, metis read_optional_marker_Some)

end
