(* ===== verification/Log_Store.thy ===== *)
theory Log_Store
  imports Event_Log
begin

text \<open>
  The operations of the transaction log, \<open>_DialogueTransactionLog\<close> of \<open>xsync_v2/event_store.py\<close>.
  An operation acts on the object and on the disk of the session.  Every write is recorded: the
  disks that were there before, the latest first, are the disks a crash may leave.  An operation
  has no value when it does not return, which only the loop that follows the markers allows; the
  session lock and the caller's guard are answers.
\<close>

section \<open>Operations\<close>

record dialogue_log =
  lg_initial :: dialogue_state
  lg_tip :: dialogue_tip
  lg_closed :: bool
  lg_disk :: log_disk
  lg_past :: "log_disk list"

type_synonym 'a log_op = "dialogue_log \<Rightarrow> (dialogue_log \<times> (log_error + 'a)) option"

definition give :: "log_error + 'a \<Rightarrow> 'a log_op" where
  "give r = (\<lambda>s. Some (s, r))"

definition asks :: "(dialogue_log \<Rightarrow> log_error + 'a) \<Rightarrow> 'a log_op" where
  "asks f = (\<lambda>s. Some (s, f s))"

definition follow :: "'a log_op \<Rightarrow> ('a \<Rightarrow> 'b log_op) \<Rightarrow> 'b log_op" where
  "follow f k = (\<lambda>s. case f s of
     None \<Rightarrow> None
   | Some (s', Inl e) \<Rightarrow> Some (s', Inl e)
   | Some (s', Inr x) \<Rightarrow> k x s')"

definition set_tip :: "dialogue_tip \<Rightarrow> unit log_op" where
  "set_tip tip = (\<lambda>s. Some (s\<lparr>lg_tip := tip\<rparr>, Inr ()))"

definition write_disk :: "log_disk \<Rightarrow> unit log_op" where
  "write_disk d = (\<lambda>s. Some (s\<lparr>lg_disk := d, lg_past := lg_disk s # lg_past s\<rparr>, Inr ()))"

text \<open>The disks a crash during an operation may leave.\<close>

definition visited :: "dialogue_log \<Rightarrow> log_disk set" where
  "visited s = insert (lg_disk s) (set (lg_past s))"

section \<open>Guards\<close>

definition require_open :: "unit log_op" where
  "require_open = asks (\<lambda>s. store_fault DIALOGUE_STORE_CLOSED (\<not> lg_closed s) (Inr ()))"

definition require_authority :: "bool \<Rightarrow> unit log_op" where
  "require_authority held = give (store_fault LOCK_AUTHORITY_REQUIRED held (Inr ()))"

section \<open>Recovery\<close>

definition synchronize :: "unit log_op" where
  "synchronize = (\<lambda>s. case catch_up (lg_initial s) (lg_disk s) (lg_tip s) of
     (tip, r) \<Rightarrow> Some (s\<lparr>lg_tip := tip\<rparr>, r))"

text \<open>
  The replay of \<open>_full_recover\<close>, from the initial state.  The marker and event names it has used
  are those the receipts of the tip tell.
\<close>

definition recover_tip :: "dialogue_state \<Rightarrow> log_disk \<Rightarrow> log_error + dialogue_tip" where
  "recover_tip initial d =
     (case catch_up initial d (initial_tip initial) of
        (tip, Inl e) \<Rightarrow> Inl e
      | (tip, Inr _) \<Rightarrow> Inr tip)"

definition used_markers :: "dialogue_tip \<Rightarrow> pystr list" where
  "used_markers tip = map (\<lambda>r. marker_name (dr_from_sequence r)) (tp_receipts tip)"

definition used_events :: "dialogue_tip \<Rightarrow> pystr list" where
  "used_events tip =
     concat (map (\<lambda>r. map event_name [dr_from_sequence r .. dr_to_sequence r]) (tp_receipts tip))"

definition reject_unexpected_markers :: "log_disk \<Rightarrow> dialogue_tip \<Rightarrow> log_error + unit" where
  "reject_unexpected_markers d tip =
     andthen (lift_error Fs (dir_list (ld_transactions d))) (\<lambda>names.
       store_fault TRANSACTION_SEQUENCE_GAP (list_all (\<lambda>n. n \<in> set (used_markers tip)) names) (Inr ()))"

definition quarantine_orphan :: "pystr \<Rightarrow> unit log_op" where
  "quarantine_orphan name = (\<lambda>s.
     let d = lg_disk s in
     case andthen (lift_error Fs (dir_read (ld_events d) name MAX_RECORD_BYTES)) (\<lambda>raw.
            lift_error Fs (dir_quarantine (ld_events d) name (ld_quarantine d) (orphan_name raw))) of
       Inl e \<Rightarrow> Some (s, Inl e)
     | Inr (es, qs) \<Rightarrow> write_disk (d\<lparr>ld_events := es, ld_quarantine := qs\<rparr>) s)"

fun quarantine_orphans :: "pystr list \<Rightarrow> pystr list \<Rightarrow> unit log_op" where
  "quarantine_orphans used [] = give (Inr ())"
| "quarantine_orphans used (n # ns) =
     (if n \<in> set used then quarantine_orphans used ns
      else follow (quarantine_orphan n) (\<lambda>_. quarantine_orphans used ns))"

definition quarantine_orphan_events :: "dialogue_tip \<Rightarrow> unit log_op" where
  "quarantine_orphan_events tip =
     follow (asks (\<lambda>s. lift_error Fs (dir_list (ld_events (lg_disk s)))))
       (quarantine_orphans (used_events tip))"

definition projection_bytes :: "dialogue_tip \<Rightarrow> log_error + byte list" where
  "projection_bytes tip =
     lift_error Codec
       (andthen (build_state_snapshot (tp_state tip) (tp_last_event_hash tip) (tp_last_marker_hash tip)
          (tp_receipts tip)) encode_state_snapshot)"

definition write_projection :: "bool log_op" where
  "write_projection = (\<lambda>s.
     case andthen (projection_bytes (lg_tip s)) (\<lambda>raw.
            lift_error Fs (dir_replace (ld_session (lg_disk s)) (py ''state.json'') raw)) of
       Inl _ \<Rightarrow> Some (s, Inr False)
     | Inr files \<Rightarrow>
         follow (write_disk ((lg_disk s)\<lparr>ld_session := files\<rparr>)) (\<lambda>_. give (Inr True)) s)"

definition full_recover :: "bool \<Rightarrow> dialogue_tip log_op" where
  "full_recover maintain =
     follow (asks (\<lambda>s. recover_tip (lg_initial s) (lg_disk s))) (\<lambda>tip.
     follow (asks (\<lambda>s. reject_unexpected_markers (lg_disk s) tip)) (\<lambda>_.
     follow (if maintain then quarantine_orphan_events tip else give (Inr ())) (\<lambda>_.
     follow (set_tip tip) (\<lambda>_.
     follow (if maintain then write_projection else give (Inr True)) (\<lambda>_.
       give (Inr tip))))))"

section \<open>Reading the log\<close>

text \<open>The tip at an earlier sequence, which must be the end of a transaction.\<close>

function tip_at :: "dialogue_state \<Rightarrow> log_disk \<Rightarrow> int \<Rightarrow> dialogue_tip \<Rightarrow> log_error + dialogue_tip" where
  "tip_at initial d target tip =
     (if sequence (tp_state tip) < target then
        andthen (read_marker d (sequence (tp_state tip) + 1)) (\<lambda>m.
          store_fault TRANSACTION_SEQUENCE_GAP (tm_to_sequence m \<le> target)
            (andthen (apply_marker initial d tip m) (\<lambda>tip'. tip_at initial d target tip')))
      else store_fault TRANSACTION_SEQUENCE_GAP (sequence (tp_state tip) = target) (Inr tip))"
  by pat_completeness auto

termination
  by (relation "measure (\<lambda>(initial, d, target, tip). nat (target - sequence (tp_state tip)))")
    (auto dest: apply_marker_sequence(2))

declare tip_at.simps [simp del]

definition tip_at_sequence :: "dialogue_state \<Rightarrow> log_disk \<Rightarrow> int \<Rightarrow> log_error + dialogue_tip" where
  "tip_at_sequence initial d target = tip_at initial d target (initial_tip initial)"

text \<open>
  The loops that follow the markers from the first one to the tip.  Nothing in a marker file ties
  the sequence it names to the name of the file, so that the loop may return to a file it has read.
\<close>

partial_function (option) each_marker ::
  "(transaction_marker \<Rightarrow> log_error + 'a list) \<Rightarrow> log_disk \<Rightarrow> int \<Rightarrow> int \<Rightarrow> (log_error + 'a list) option"
where
  "each_marker f d final first =
     (if final < first then Some (Inr [])
      else case andthen (read_marker d first) (\<lambda>m. andthen (f m) (\<lambda>xs. Inr (m, xs))) of
             Inl e \<Rightarrow> Some (Inl e)
           | Inr (m, xs) \<Rightarrow>
               Option.bind (each_marker f d final (tm_to_sequence m + 1)) (\<lambda>r.
                 Some (andthen r (\<lambda>ys. Inr (xs @ ys)))))"

definition follow_markers :: "(log_disk \<Rightarrow> transaction_marker \<Rightarrow> log_error + 'a list) \<Rightarrow> 'a list log_op" where
  "follow_markers f = (\<lambda>s.
     map_option (Pair s) (each_marker (f (lg_disk s)) (lg_disk s) (sequence (tp_state (lg_tip s))) 1))"

fun referenced_events ::
  "log_disk \<Rightarrow> int \<Rightarrow> marker_event_ref list \<Rightarrow> log_error + committed_dialogue_event list" where
  "referenced_events d after_sequence [] = Inr []"
| "referenced_events d after_sequence (e # es) =
     andthen (read_event d (me_sequence e)) (\<lambda>r.
       store_fault TRANSACTION_EVENT_MISMATCH (match_reference r e)
         (andthen (referenced_events d after_sequence es) (\<lambda>evs.
            Inr (if after_sequence < me_sequence e then se_event r # evs else evs))))"

definition read_committed :: "int \<Rightarrow> committed_dialogue_event list log_op" where
  "read_committed after_sequence =
     follow require_open (\<lambda>_.
     follow (give (store_fault INVALID_SEQUENCE (0 \<le> after_sequence) (Inr ()))) (\<lambda>_.
     follow synchronize (\<lambda>_.
       follow_markers (\<lambda>d m. referenced_events d after_sequence (tm_events m)))))"

definition read_effect_intents :: "effect_intent list log_op" where
  "read_effect_intents =
     follow require_open (\<lambda>_.
     follow synchronize (\<lambda>_.
       follow_markers (\<lambda>d m. Inr (tm_effect_intents m))))"

definition completed_intents :: "committed_dialogue_event list \<Rightarrow> pystr list" where
  "completed_intents evs =
     concat (map (\<lambda>ev. case ce_payload ev of
       ExportCompleted _ _ i _ _ _ _ _ _ \<Rightarrow> [i] | _ \<Rightarrow> []) evs)"

definition read_pending_effect_intents :: "effect_intent list log_op" where
  "read_pending_effect_intents =
     follow read_effect_intents (\<lambda>intents.
     follow (read_committed 0) (\<lambda>evs.
       give (Inr (filter (\<lambda>i. ei_intent_id i \<notin> set (completed_intents evs)) intents))))"

definition state_at_sequence :: "int \<Rightarrow> dialogue_state log_op" where
  "state_at_sequence n =
     follow require_open (\<lambda>_.
     follow (give (store_fault INVALID_SEQUENCE (0 \<le> n) (Inr ()))) (\<lambda>_.
     follow synchronize (\<lambda>_.
       asks (\<lambda>s. store_fault TRANSACTION_SEQUENCE_GAP (n \<le> sequence (tp_state (lg_tip s)))
         (andthen (tip_at_sequence (lg_initial s) (lg_disk s) n) (\<lambda>tip. Inr (tp_state tip)))))))"

definition log_tip :: "dialogue_tip log_op" where
  "log_tip = follow require_open (\<lambda>_. follow synchronize (\<lambda>_. asks (\<lambda>s. Inr (lg_tip s))))"

definition log_recover :: "bool \<Rightarrow> dialogue_tip log_op" where
  "log_recover held =
     follow require_open (\<lambda>_.
     follow (require_authority held) (\<lambda>_.
     follow (full_recover True) (\<lambda>tip.
     follow write_projection (\<lambda>_. give (Inr tip)))))"

definition log_close :: "dialogue_log \<Rightarrow> dialogue_log" where
  "log_close s = s\<lparr>lg_closed := True\<rparr>"

end
