(* ===== verification/Log_Commit.thy ===== *)
theory Log_Commit
  imports Log_Store
begin

text \<open>
  Opening the log and committing a batch (\<open>xsync_v2/event_store.py\<close>).  A commit replays the log,
  answers a command it has already, prepares the records in memory, publishes the events and then
  the marker; the marker is the commit.
\<close>

section \<open>Opening\<close>

definition new_log :: "dialogue_state \<Rightarrow> log_disk \<Rightarrow> dialogue_log" where
  "new_log initial d =
     \<lparr>lg_initial = initial, lg_tip = initial_tip initial, lg_closed = False, lg_disk = d, lg_past = []\<rparr>"

text \<open>The constructor; its tip is set when it returns.\<close>

definition open_log :: "bool \<Rightarrow> bool \<Rightarrow> unit log_op" where
  "open_log held read_only =
     follow (asks (\<lambda>s. store_fault INVALID_INITIAL_STATE
       (validate_state (lg_initial s) \<and> sequence (lg_initial s) = 0) (Inr ()))) (\<lambda>_.
     follow (require_authority held) (\<lambda>_.
     follow (full_recover (\<not> read_only)) (\<lambda>_. give (Inr ()))))"

definition empty_disk :: log_disk where
  "empty_disk = \<lparr>ld_events = [], ld_transactions = [], ld_quarantine = [], ld_session = []\<rparr>"

type_synonym dialogues = "(pystr \<times> log_disk) list"

definition create_log ::
  "dialogues \<Rightarrow> dialogue_state \<Rightarrow> bool \<Rightarrow> log_error + pystr \<times> (dialogue_log \<times> (log_error + unit)) option" where
  "create_log sessions initial held =
     store_fault LOCK_AUTHORITY_REQUIRED held
       (andthen (session_directory_component (session_id initial)) (\<lambda>name.
          Inr (name, open_log held False (new_log initial
            (case map_of sessions name of None \<Rightarrow> empty_disk | Some d \<Rightarrow> d)))))"

definition open_existing ::
  "dialogues \<Rightarrow> dialogue_state \<Rightarrow> bool \<Rightarrow> log_error + (dialogue_log \<times> (log_error + unit)) option" where
  "open_existing sessions initial held =
     store_fault LOCK_AUTHORITY_REQUIRED held
       (andthen (session_directory_component (session_id initial)) (\<lambda>name.
          case map_of sessions name of
            None \<Rightarrow> Inl (Fs DIRECTORY_NOT_FOUND)
          | Some d \<Rightarrow> Inr (open_log held True (new_log initial d))))"

section \<open>A command that is committed already\<close>

definition original_commit ::
  "dialogue_state \<Rightarrow> log_disk \<Rightarrow> commit_request \<Rightarrow> dialogue_receipt
    \<Rightarrow> log_error + dialogue_state \<times> committed_dialogue_event list" where
  "original_commit initial d q r =
     require (Kernel IDEMPOTENCY_CONFLICT) (dr_request_digest r = cq_request_digest q)
       (andthen (tip_at_sequence initial d (dr_to_sequence r)) (\<lambda>tip.
        store_fault TRANSACTION_RECEIPT_MISMATCH (tp_receipts tip \<noteq> [] \<and> last (tp_receipts tip) = r)
          (andthen (events_between d (dr_from_sequence r) (dr_to_sequence r)) (\<lambda>evs.
           andthen (read_event d (dr_to_sequence r)) (\<lambda>final.
           andthen (lift_error Codec (build_state_snapshot (tp_state tip) (Some (se_event_hash final))
              (Some (dr_marker_hash r))
              (filter (\<lambda>i. dr_to_sequence i \<le> dr_to_sequence r) (tp_receipts tip)))) (\<lambda>snapshot.
           store_fault TRANSACTION_STATE_MISMATCH (sn_state_digest snapshot = dr_state_digest r)
             (Inr (tp_state tip, evs))))))))"

definition answer_again :: "commit_request \<Rightarrow> dialogue_receipt \<Rightarrow> commit_outcome log_op" where
  "answer_again q r =
     follow (asks (\<lambda>s. original_commit (lg_initial s) (lg_disk s) q r)) (\<lambda>(state, evs).
     follow write_projection (\<lambda>current.
       give (Inr \<lparr>co_receipt = r, co_state = state, co_events = evs, co_replayed = True,
                  co_projection_current = current\<rparr>)))"

section \<open>Preparing a transaction\<close>

definition reject_event_reuse :: "dialogue_tip \<Rightarrow> commit_request \<Rightarrow> log_error + unit" where
  "reject_event_reuse tip q =
     store_fault DUPLICATE_EVENT_ID (distinct (map ce_event_id (cq_events q)))
    (store_fault DUPLICATE_EVENT_ID
       (list_all (\<lambda>ev. list_all (\<lambda>r. ce_event_id ev \<notin> set (dr_event_ids r)) (tp_receipts tip)) (cq_events q))
    (store_fault DUPLICATE_EFFECT_INTENT_ID (distinct (map ei_intent_id (cq_effect_intents q)))
       (Inr ())))"

definition reject_identity_reuse :: "commit_request \<Rightarrow> unit log_op" where
  "reject_identity_reuse q =
     follow (asks (\<lambda>s. reject_event_reuse (lg_tip s) q)) (\<lambda>_.
     follow (follow_markers (\<lambda>d m. Inr (map ei_intent_id (tm_effect_intents m)))) (\<lambda>committed.
     follow (give (store_fault DUPLICATE_EFFECT_INTENT_ID
       (list_all (\<lambda>i. ei_intent_id i \<notin> set committed) (cq_effect_intents q)) (Inr ()))) (\<lambda>_.
     asks (\<lambda>s. store_fault DUPLICATE_TRANSACTION_ID
       (list_all (\<lambda>r. dr_transaction_id r \<noteq> cq_transaction_id q) (tp_receipts (lg_tip s))) (Inr ())))))"

text \<open>
  Every event is reduced, stored and encoded before the next; the request has as many metadata as
  events (\<open>strict=True\<close>).
\<close>

fun prepare_events ::
  "commit_request \<Rightarrow> dialogue_state \<Rightarrow> pystr option \<Rightarrow> committed_dialogue_event list
    \<Rightarrow> event_metadata list \<Rightarrow> log_error + dialogue_state \<times> (stored_event \<times> byte list) list" where
  "prepare_events q s previous [] [] = Inr (s, [])"
| "prepare_events q s previous (ev # evs) (md # mds) =
     andthen (lift_error Kernel (reduce s ev)) (\<lambda>s'.
     andthen (lift_error Codec (build_stored_event (cq_session_id q) ev previous
        (cq_registry_generation q) (em_occurred_at md) (em_actor md) (em_causation_id md))) (\<lambda>r.
     andthen (lift_error Codec (encode_stored_event r)) (\<lambda>raw.
     require (Fs FILE_TOO_LARGE) (length raw \<le> MAX_RECORD_BYTES)
       (andthen (prepare_events q s' (Some (se_event_hash r)) evs mds) (\<lambda>(final, rs).
          Inr (final, (r, raw) # rs))))))"
| "prepare_events q s previous _ _ = Inl (Store INVALID_COMMIT_REQUEST)"

definition prepare_transaction ::
  "dialogue_state \<Rightarrow> dialogue_tip \<Rightarrow> commit_request
    \<Rightarrow> log_error + dialogue_state \<times> (stored_event \<times> byte list) list \<times> transaction_marker \<times> byte list" where
  "prepare_transaction initial tip q =
     andthen (validate_registry_generation initial (cq_registry_generation q) (cq_events q)) (\<lambda>_.
     andthen (prepare_events q (tp_state tip) (tp_last_event_hash tip) (cq_events q) (cq_metadata q)) (\<lambda>(s, rs).
     andthen (lift_error Codec (build_transaction_marker (cq_session_id q) (cq_transaction_id q)
        (ce_command_id (hd (cq_events q))) (cq_request_digest q) (cq_registry_generation q)
        (tp_last_marker_hash tip) s (map fst rs) (cq_effect_intents q))) (\<lambda>m.
     andthen (lift_error Codec (encode_transaction_marker m)) (\<lambda>raw.
     require (Fs FILE_TOO_LARGE) (length raw \<le> MAX_RECORD_BYTES) (Inr (s, rs, m, raw))))))"

section \<open>Publishing\<close>

text \<open>
  An event file that is there already is left by a commit that did not reach its marker: the same
  bytes stand, other bytes go to quarantine.
\<close>

definition publish_event :: "stored_event \<Rightarrow> byte list \<Rightarrow> unit log_op" where
  "publish_event r raw = (\<lambda>s.
     let d = lg_disk s; name = event_name (ce_sequence (se_event r)) in
     case dir_write (ld_events d) name raw of
       Inr es \<Rightarrow> write_disk (d\<lparr>ld_events := es\<rparr>) s
     | Inl e \<Rightarrow>
         if e \<noteq> IMMUTABLE_EXISTS then Some (s, Inl (Fs e))
         else (case dir_read (ld_events d) name MAX_RECORD_BYTES of
             Inl e \<Rightarrow> Some (s, Inl (Fs e))
           | Inr existing \<Rightarrow>
               if existing = raw then Some (s, Inr ())
               else (case dir_quarantine (ld_events d) name (ld_quarantine d) (orphan_name existing) of
                   Inl e \<Rightarrow> Some (s, Inl (Fs e))
                 | Inr (es, qs) \<Rightarrow>
                     follow (write_disk (d\<lparr>ld_events := es, ld_quarantine := qs\<rparr>)) (\<lambda>_ s.
                       case dir_write es name raw of
                         Inl e \<Rightarrow> Some (s, Inl (Fs e))
                       | Inr es' \<Rightarrow> write_disk ((lg_disk s)\<lparr>ld_events := es'\<rparr>) s) s)))"

fun publish_events :: "(stored_event \<times> byte list) list \<Rightarrow> unit log_op" where
  "publish_events [] = give (Inr ())"
| "publish_events ((r, raw) # rs) = follow (publish_event r raw) (\<lambda>_. publish_events rs)"

text \<open>
  The answers the session lock gives at the entry and around the caller's guard, and the exception
  the guard raises, if any.
\<close>

record commit_guards =
  cg_entry :: bool
  cg_before :: bool
  cg_host :: "pystr option"
  cg_after :: bool

definition guard_marker_publication :: "commit_guards \<Rightarrow> log_error + unit" where
  "guard_marker_publication g =
     store_fault LOCK_AUTHORITY_REQUIRED (cg_before g)
       (case cg_host g of
          Some e \<Rightarrow> Inl (Raised e)
        | None \<Rightarrow> store_fault LOCK_AUTHORITY_REQUIRED (cg_after g) (Inr ()))"

definition publish_marker :: "commit_guards \<Rightarrow> transaction_marker \<Rightarrow> byte list \<Rightarrow> unit log_op" where
  "publish_marker g m raw = (\<lambda>s.
     let d = lg_disk s; name = marker_name (tm_from_sequence m) in
     case require (Fs INVALID_COMPONENT) (valid_component name)
            (andthen (guard_marker_publication g) (\<lambda>_.
               lift_error Fs (dir_write (ld_transactions d) name raw))) of
       Inl e \<Rightarrow> Some (s, Inl e)
     | Inr ts \<Rightarrow> write_disk (d\<lparr>ld_transactions := ts\<rparr>) s)"

section \<open>Committing\<close>

definition committed_tip ::
  "dialogue_tip \<Rightarrow> dialogue_state \<Rightarrow> (stored_event \<times> byte list) list \<Rightarrow> transaction_marker
    \<Rightarrow> dialogue_receipt \<Rightarrow> dialogue_tip" where
  "committed_tip tip s rs m receipt =
     \<lparr>tp_state = s, tp_last_event_hash = Some (se_event_hash (fst (last rs))),
      tp_last_marker_hash = Some (tm_marker_hash m), tp_receipts = tp_receipts tip @ [receipt],
      tp_last_registry_generation = tm_registry_generation m\<rparr>"

definition require_active :: "unit log_op" where
  "require_active = asks (\<lambda>s. require (Kernel SESSION_DEACTIVATED)
     (tp_last_registry_generation (lg_tip s) = registry_generation (lg_initial s)) (Inr ()))"

definition publish_transaction ::
  "commit_guards \<Rightarrow> commit_request \<Rightarrow> dialogue_state \<Rightarrow> (stored_event \<times> byte list) list
    \<Rightarrow> transaction_marker \<Rightarrow> byte list \<Rightarrow> commit_outcome log_op" where
  "publish_transaction g q state rs m raw =
     follow (publish_events rs) (\<lambda>_.
     follow (publish_marker g m raw) (\<lambda>_.
     follow (give (lift_error Codec (receipt_from_marker m))) (\<lambda>receipt.
     follow (\<lambda>s. set_tip (committed_tip (lg_tip s) state rs m receipt) s) (\<lambda>_.
     follow write_projection (\<lambda>current.
       give (Inr \<lparr>co_receipt = receipt, co_state = state, co_events = cq_events q, co_replayed = False,
                  co_projection_current = current\<rparr>))))))"

definition append_commit :: "commit_guards \<Rightarrow> commit_request \<Rightarrow> commit_outcome log_op" where
  "append_commit g q =
     follow (reject_identity_reuse q) (\<lambda>_.
     follow require_active (\<lambda>_.
     follow (asks (\<lambda>s. prepare_transaction (lg_initial s) (lg_tip s) q)) (\<lambda>(state, rs, m, raw).
       publish_transaction g q state rs m raw)))"

definition log_commit :: "commit_guards \<Rightarrow> commit_request \<Rightarrow> commit_outcome log_op" where
  "log_commit g q =
     follow require_open (\<lambda>_.
     follow (require_authority (cg_entry g)) (\<lambda>_.
     follow (asks (\<lambda>s. validate_request (lg_initial s) q)) (\<lambda>_.
     follow (full_recover False) (\<lambda>tip.
       case find (\<lambda>r. dr_command_id r = ce_command_id (hd (cq_events q))) (tp_receipts tip) of
         Some r \<Rightarrow> answer_again q r
       | None \<Rightarrow> append_commit g q))))"

end
