(* ===== verification/Log_Facts.thy ===== *)
theory Log_Facts
  imports Log_Commit
begin

text \<open>
  Facts on recovery: the names of files are injective; the tips a disk leads to, as an inductive
  predicate that the replay loop computes; what such a tip says of the files; and that it depends
  on nothing but the files it names.
\<close>

section \<open>Names\<close>

lemma digits_value_zeros: "digits_value (replicate k 48 @ ds) = digits_value ds"
  by (induction k) (simp_all add: digits_value_def)

lemma padded_value: "0 \<le> n \<Longrightarrow> int (digits_value (padded n)) = n"
  by (simp add: padded_def digits_value_zeros int_str_def digits_value_nat_digits)

lemma padded_inj: "\<lbrakk>0 \<le> m; 0 \<le> n; padded m = padded n\<rbrakk> \<Longrightarrow> m = n"
  by (metis padded_value)

lemma event_name_inj: "\<lbrakk>0 \<le> m; 0 \<le> n\<rbrakk> \<Longrightarrow> event_name m = event_name n \<longleftrightarrow> m = n"
  by (auto simp: event_name_def intro: padded_inj)

lemma marker_name_inj: "\<lbrakk>0 \<le> m; 0 \<le> n\<rbrakk> \<Longrightarrow> marker_name m = marker_name n \<longleftrightarrow> m = n"
  by (auto simp: marker_name_def intro: padded_inj)

section \<open>The tips of a disk\<close>

inductive recovered :: "dialogue_state \<Rightarrow> log_disk \<Rightarrow> dialogue_tip \<Rightarrow> bool" for initial d where
  no_marker: "recovered initial d (initial_tip initial)"
| marker: "\<lbrakk>recovered initial d tip; read_marker d (sequence (tp_state tip) + 1) = Inr m;
     apply_marker initial d tip m = Inr tip'\<rbrakk> \<Longrightarrow> recovered initial d tip'"

lemma catch_up_recovered:
  "recovered initial d tip \<Longrightarrow> recovered initial d (fst (catch_up initial d tip))"
proof (induction tip rule: catch_up_induct [where d = d and initial = initial])
  case (1 tip)
  then show ?case by (subst catch_up_eq) (auto split: sum.split intro: marker)
qed

lemma catch_up_end:
  "catch_up initial d tip = (tip', Inr u) \<Longrightarrow>
     read_marker d (sequence (tp_state tip') + 1) = Inl (Fs FILE_NOT_FOUND)"
proof (induction tip rule: catch_up_induct [where d = d and initial = initial])
  case (1 tip)
  then show ?case by (subst (asm) catch_up_eq) (auto split: sum.split_asm if_split_asm)
qed

lemma recovered_catch_up:
  "recovered initial d tip \<Longrightarrow> catch_up initial d (initial_tip initial) = catch_up initial d tip"
  by (induction rule: recovered.induct) (simp_all add: catch_up_eq [of initial d tip for tip])

lemma recover_tip_iff:
  "recover_tip initial d = Inr tip \<longleftrightarrow>
     recovered initial d tip \<and> read_marker d (sequence (tp_state tip) + 1) = Inl (Fs FILE_NOT_FOUND)"
proof
  assume r: "recover_tip initial d = Inr tip"
  then obtain u where c: "catch_up initial d (initial_tip initial) = (tip, Inr u)"
    by (auto simp: recover_tip_def split: prod.split_asm sum.split_asm)
  from catch_up_recovered [OF no_marker [of initial d]] catch_up_end [OF c] c
  show "recovered initial d tip \<and> read_marker d (sequence (tp_state tip) + 1) = Inl (Fs FILE_NOT_FOUND)"
    by simp
next
  assume a: "recovered initial d tip \<and> read_marker d (sequence (tp_state tip) + 1) = Inl (Fs FILE_NOT_FOUND)"
  then have "catch_up initial d tip = (tip, Inr ())"
    by (subst catch_up_eq) simp
  with recovered_catch_up [of initial d tip] a show "recover_tip initial d = Inr tip"
    by (simp add: recover_tip_def)
qed

section \<open>What a marker says of the events\<close>

lemma validate_transaction_marker_range:
  assumes "validate_transaction_marker m = Inr u"
  shows "map me_sequence (tm_events m) = [tm_from_sequence m .. tm_to_sequence m]"
    and "1 \<le> tm_from_sequence m" and "tm_from_sequence m \<le> tm_to_sequence m"
proof -
  note refs = validate_transaction_markerD(2) [OF assms, unfolded marker_references_def]
  have n: "tm_events m \<noteq> []"
    using validate_transaction_markerD(1) [OF assms] by (simp add: marker_fields_def)
  from refs show r: "map me_sequence (tm_events m) = [tm_from_sequence m .. tm_to_sequence m]" by simp
  from n have "hd (tm_events m) \<in> set (tm_events m)" by simp
  with refs show "1 \<le> tm_from_sequence m" by (auto simp: list_all_iff)
  from n have "[tm_from_sequence m .. tm_to_sequence m] \<noteq> []" by (simp flip: r)
  then show "tm_from_sequence m \<le> tm_to_sequence m" by simp
qed

lemma read_records_events:
  "read_records initial d m h es = Inr rs \<Longrightarrow>
     events_at d (map me_sequence es) = Inr (map se_event rs) \<and> map event_reference rs = es"
proof (induction es arbitrary: h rs)
  case (Cons e es)
  then obtain r rs' where r: "rs = r # rs'" "read_event d (me_sequence e) = Inr r" "match_reference r e"
    "read_records initial d m (Some (se_event_hash r)) es = Inr rs'"
    by (auto simp: andthen_eq_Inr_iff)
  with Cons.IH [OF r(4)] show ?case by (simp add: match_reference_def event_reference_def)
qed simp

lemma read_records_final:
  "\<lbrakk>read_records initial d m h es = Inr rs; es \<noteq> []\<rbrakk> \<Longrightarrow>
     rs \<noteq> [] \<and> read_event d (me_sequence (last es)) = Inr (last rs)"
proof (induction es arbitrary: h rs)
  case (Cons e es)
  then obtain r rs' where r: "rs = r # rs'" "read_event d (me_sequence e) = Inr r"
    "read_records initial d m (Some (se_event_hash r)) es = Inr rs'"
    by (auto simp: andthen_eq_Inr_iff)
  show ?case
  proof (cases "es = []")
    case True
    with r show ?thesis by simp
  next
    case False
    with Cons.IH [OF r(3)] r show ?thesis by simp
  qed
qed simp

lemma read_records_frame:
  assumes "\<And>e. e \<in> set es \<Longrightarrow> read_event d (me_sequence e) = read_event d' (me_sequence e)"
  shows "read_records initial d m h es = read_records initial d' m h es"
  using assms by (induction es arbitrary: h) simp_all

lemma apply_marker_frame:
  assumes "\<And>e. e \<in> set (tm_events m) \<Longrightarrow> read_event d (me_sequence e) = read_event d' (me_sequence e)"
  shows "apply_marker initial d tip m = apply_marker initial d' tip m"
proof -
  have "read_records initial d m h (tm_events m) = read_records initial d' m h (tm_events m)" for h
    by (rule read_records_frame) (rule assms)
  then show ?thesis by (simp only: apply_marker_def)
qed

lemma upto_join: "\<lbrakk>i \<le> j + 1; j \<le> k\<rbrakk> \<Longrightarrow> [i .. k] = [i .. j] @ [j + 1 .. k]" for i :: int
proof (cases "i \<le> j")
  case True
  then show "j \<le> k \<Longrightarrow> [i .. k] = [i .. j] @ [j + 1 .. k]" by (rule upto_split2)
next
  case False
  then show "i \<le> j + 1 \<Longrightarrow> [i .. k] = [i .. j] @ [j + 1 .. k]" by (cases "i = j + 1") simp_all
qed

lemma events_at_append:
  "events_at d (ms @ ns) = andthen (events_at d ms) (\<lambda>xs. andthen (events_at d ns) (\<lambda>ys. Inr (xs @ ys)))"
  by (induction ms) (simp_all add: andthen_def split: sum.split)

lemma events_at_frame:
  "(\<And>n. n \<in> set ns \<Longrightarrow> read_event d n = read_event d' n) \<Longrightarrow> events_at d ns = events_at d' ns"
  by (induction ns) simp_all

lemma events_at_part:
  assumes "events_at d (ms @ ns @ ks) = Inr evs"
  shows "\<exists>xs. events_at d ns = Inr xs"
  using assms by (auto simp: events_at_append andthen_eq_Inr_iff)

lemma replay_append: "replay s (xs @ ys) = andthen (replay s xs) (\<lambda>t. replay t ys)"
  by (simp add: replay_fold fold_events_append)

section \<open>The events of a recovered tip\<close>

text \<open>The state of the tip is the replay of the event files, numbered from one without a gap.\<close>

lemma recovered_events:
  assumes "recovered initial d tip" and "sequence initial = 0"
  shows "0 \<le> sequence (tp_state tip) \<and>
    (\<exists>evs. events_between d 1 (sequence (tp_state tip)) = Inr evs
       \<and> replay initial evs = Inr (tp_state tip)
       \<and> map ce_event_id evs = concat (map dr_event_ids (tp_receipts tip)))"
  using assms(1)
proof induction
  case no_marker
  with assms(2) show ?case by (simp add: initial_tip_def events_between_def)
next
  case (marker tip m tip')
  from marker.IH obtain evs where evs: "events_at d [1 .. sequence (tp_state tip)] = Inr evs"
    "replay initial evs = Inr (tp_state tip)"
    "map ce_event_id evs = concat (map dr_event_ids (tp_receipts tip))"
    and n: "0 \<le> sequence (tp_state tip)" by (auto simp: events_between_def)
  note s = apply_marker_sequence [OF marker.hyps(3)]
  from marker.hyps(3) obtain rs where
    r: "read_records initial d m (tp_last_event_hash tip) (tm_events m) = Inr rs"
      "replay (tp_state tip) (map se_event rs) = Inr (tp_state tip')"
      "validate_transaction_marker m = Inr ()" "tp_receipts tip' = tp_receipts tip @ [marker_receipt m]"
    by (elim apply_markerE) blast
  from read_records_events [OF r(1)] validate_transaction_marker_range(1) [OF r(3)] s(3,4)
  have e: "events_at d [sequence (tp_state tip) + 1 .. sequence (tp_state tip')] = Inr (map se_event rs)"
    "map event_reference rs = tm_events m" by simp_all
  have i: "map ce_event_id (map se_event rs) = dr_event_ids (marker_receipt m)"
    by (simp add: marker_receipt_def event_reference_def flip: e(2))
  have "[1 .. sequence (tp_state tip')]
      = [1 .. sequence (tp_state tip)] @ [sequence (tp_state tip) + 1 .. sequence (tp_state tip')]"
    using n s(2) by (intro upto_join) simp_all
  with e evs r(2,4) i s(2) n show ?case
    by (simp add: events_between_def events_at_append replay_append)
qed

lemma recovered_sequence: "\<lbrakk>recovered initial d tip; sequence initial = 0\<rbrakk> \<Longrightarrow> 0 \<le> sequence (tp_state tip)"
  by (blast dest: recovered_events)

section \<open>The receipts of a recovered tip\<close>

lemma recovered_ranges:
  assumes "recovered initial d tip" and "sequence initial = 0"
  shows "concat (map (\<lambda>r. [dr_from_sequence r .. dr_to_sequence r]) (tp_receipts tip))
      = [1 .. sequence (tp_state tip)]
    \<and> list_all (\<lambda>r. dr_from_sequence r \<le> dr_to_sequence r) (tp_receipts tip)"
  using assms(1)
proof induction
  case no_marker
  with assms(2) show ?case by (simp add: initial_tip_def)
next
  case (marker tip m tip')
  note s = apply_marker_sequence [OF marker.hyps(3)]
  from marker.hyps(3) have v: "validate_transaction_marker m = Inr ()"
    "tp_receipts tip' = tp_receipts tip @ [marker_receipt m]" by (elim apply_markerE, blast)+
  have "[1 .. sequence (tp_state tip')]
      = [1 .. sequence (tp_state tip)] @ [sequence (tp_state tip) + 1 .. sequence (tp_state tip')]"
    using recovered_sequence [OF marker.hyps(1) assms(2)] s(2) by (intro upto_join) simp_all
  with marker.IH v s validate_transaction_marker_range(3) [OF v(1)] show ?case
    by (simp add: marker_receipt_def)
qed

text \<open>Every receipt belongs to an earlier tip, the one its transaction led to.\<close>

lemma recovered_receipt_tip:
  assumes "recovered initial d tip" and "r \<in> set (tp_receipts tip)"
  shows "\<exists>t. recovered initial d t \<and> tp_receipts t \<noteq> [] \<and> last (tp_receipts t) = r
    \<and> sequence (tp_state t) = dr_to_sequence r \<and> sequence (tp_state t) \<le> sequence (tp_state tip)
    \<and> (\<exists>snapshot. build_state_snapshot (tp_state t) (tp_last_event_hash t) (tp_last_marker_hash t)
          (tp_receipts t) = Inr snapshot \<and> sn_state_digest snapshot = dr_state_digest r)
    \<and> tp_last_marker_hash t = Some (dr_marker_hash r)
    \<and> (\<exists>e. read_event d (dr_to_sequence r) = Inr e \<and> tp_last_event_hash t = Some (se_event_hash e))"
  using assms
proof induction
  case no_marker
  then show ?case by (simp add: initial_tip_def)
next
  case (marker tip m tip')
  note s = apply_marker_sequence [OF marker.hyps(3)]
  show ?case
  proof (cases "r \<in> set (tp_receipts tip)")
    case True
    with marker.IH s(2) show ?thesis by (meson order.trans order.strict_implies_order)
  next
    case False
    from marker.hyps(3) obtain rs snapshot where
      a: "read_records initial d m (tp_last_event_hash tip) (tm_events m) = Inr rs"
      "validate_transaction_marker m = Inr ()"
      "build_state_snapshot (tp_state tip') (tp_last_event_hash tip') (tp_last_marker_hash tip')
         (tp_receipts tip') = Inr snapshot" "sn_state_digest snapshot = tm_state_digest m"
      "tp_last_event_hash tip' = last_hash (tp_last_event_hash tip) rs"
      "tp_last_marker_hash tip' = Some (tm_marker_hash m)"
      "tp_receipts tip' = tp_receipts tip @ [marker_receipt m]"
      by (elim apply_markerE) blast
    from False marker.prems a(7) have r: "r = marker_receipt m" by simp
    have "\<exists>e. read_event d (tm_to_sequence m) = Inr e
        \<and> tp_last_event_hash tip' = Some (se_event_hash e)"
    proof -
      have n: "tm_events m \<noteq> []"
        using validate_transaction_markerD(1) [OF a(2)] by (simp add: marker_fields_def)
      moreover have "me_sequence (last (tm_events m)) = tm_to_sequence m"
        using validate_transaction_markerD(2) [OF a(2)] by (simp add: marker_references_def)
      ultimately show ?thesis
        using read_records_final [OF a(1)] a(5) by (simp add: last_hash_def)
    qed
    with recovered.marker [OF marker.hyps] a(3,4,6,7) r s(4) show ?thesis
      by (intro exI [of _ tip']) (simp add: marker_receipt_def)
  qed
qed

end
