(* ===== verification/Log_Appends.thy ===== *)
theory Log_Appends
  imports Log_Facts
begin

text \<open>
  What a commit prepares is what recovery accepts: once the event files of a prepared transaction
  are in place, applying its marker gives the tip the commit returns.
\<close>

section \<open>Receipts\<close>

lemma check_receipts_snoc:
  assumes "check_receipts n cs ts hs is rs = Inr k" and "valid_dialogue_receipt r k"
    and "dr_command_id r \<notin> set cs \<union> dr_command_id ` set rs"
    and "dr_transaction_id r \<notin> set ts \<union> dr_transaction_id ` set rs"
    and "dr_marker_hash r \<notin> set hs \<union> dr_marker_hash ` set rs"
    and "set (dr_event_ids r) \<inter> (set is \<union> (\<Union>x \<in> set rs. set (dr_event_ids x))) = {}"
  shows "check_receipts n cs ts hs is (rs @ [r]) = Inr (dr_to_sequence r + 1)"
  using assms
proof (induction rs arbitrary: n cs ts hs "is")
  case Nil
  then show ?case by (auto simp: list_all_iff)
next
  case (Cons x xs)
  from Cons.prems(1) have x: "valid_dialogue_receipt x n"
    "dr_command_id x \<notin> set cs \<and> dr_transaction_id x \<notin> set ts \<and> dr_marker_hash x \<notin> set hs
       \<and> list_all (\<lambda>i. i \<notin> set is) (dr_event_ids x)"
    "check_receipts (dr_to_sequence x + 1) (dr_command_id x # cs) (dr_transaction_id x # ts)
       (dr_marker_hash x # hs) (dr_event_ids x @ is) xs = Inr k" by simp_all
  have "check_receipts (dr_to_sequence x + 1) (dr_command_id x # cs) (dr_transaction_id x # ts)
       (dr_marker_hash x # hs) (dr_event_ids x @ is) (xs @ [r]) = Inr (dr_to_sequence r + 1)"
    by (rule Cons.IH [OF x(3) Cons.prems(2)]) (use Cons.prems(3-) in auto)
  with x show ?case by simp
qed

lemma marker_receipt_valid:
  assumes "validate_transaction_marker m = Inr u"
  shows "valid_dialogue_receipt (marker_receipt m) (tm_from_sequence m)"
proof -
  note f = validate_transaction_markerD(1) [OF assms, unfolded marker_fields_def]
  note r = validate_transaction_markerD(2) [OF assms, unfolded marker_references_def]
  note g = validate_transaction_marker_range [OF assms]
  have "length (tm_events m) = length [tm_from_sequence m .. tm_to_sequence m]"
    by (simp only: g(1) [symmetric] length_map)
  with g(2,3) have "int (length (tm_events m)) = tm_to_sequence m - tm_from_sequence m + 1" by simp
  with f r g show ?thesis
    by (simp add: valid_dialogue_receipt_def marker_receipt_def list_all_iff)
qed

section \<open>Snapshots\<close>

lemma validate_dialogue_state_Inr:
  "validate_dialogue_state s e = Inr () \<longleftrightarrow>
     validate_state s \<and> validate_domain_identifiers (dialogue_state_val s) = Inr ()"
  by (simp add: validate_dialogue_state_def)

lemma dialogue_state_digestD:
  assumes "dialogue_state_digest s = Inr d"
  shows "validate_dialogue_state s e = Inr ()"
  using assms by (simp add: dialogue_state_digest_def andthen_eq_Inr_iff validate_dialogue_state_Inr)

lemma build_state_snapshot_Inr:
  assumes "dialogue_state_digest s = Inr d" and "is_sha256_digest d" and "nonblank (session_id s)"
    and "1 \<le> sequence s" and "is_sha256_digest e" and "is_sha256_digest h" and "receipts \<noteq> []"
    and "check_receipts 1 [] [] [] [] receipts = Inr (sequence s + 1)"
    and "dr_marker_hash (last receipts) = h" and "dr_state_digest (last receipts) = d"
  shows "\<exists>n. build_state_snapshot s (Some e) (Some h) receipts = Inr n \<and> sn_state_digest n = d"
  using assms dialogue_state_digestD [OF assms(1)]
  by (simp add: build_state_snapshot_def validate_state_snapshot_def snapshot_fields_def Let_def)

lemma build_state_snapshotD:
  assumes "build_state_snapshot s e h receipts = Inr n"
  shows "dialogue_state_digest s = Inr (sn_state_digest n)"
    and "sequence s = 0 \<and> receipts = []
      \<or> check_receipts 1 [] [] [] [] receipts = Inr (sequence s + 1)"
  using assms
  by (auto simp: build_state_snapshot_def validate_state_snapshot_def Let_def andthen_eq_Inr_iff
      snapshot_fields_def split: if_split_asm)

lemma recovered_check_receipts:
  assumes "recovered initial d tip" and "sequence initial = 0"
  shows "check_receipts 1 [] [] [] [] (tp_receipts tip) = Inr (sequence (tp_state tip) + 1)"
proof (cases "tp_receipts tip = []")
  case True
  with recovered_ranges [OF assms] recovered_sequence [OF assms] show ?thesis by simp
next
  case False
  from assms(1) show ?thesis
  proof cases
    case no_marker
    with False show ?thesis by (simp add: initial_tip_def)
  next
    case (marker tip0 m)
    from marker(3) obtain n where
      "build_state_snapshot (tp_state tip) (tp_last_event_hash tip) (tp_last_marker_hash tip)
         (tp_receipts tip) = Inr n" by (elim apply_markerE) blast
    from build_state_snapshotD(2) [OF this] False show ?thesis by simp
  qed
qed

section \<open>Prepared records\<close>

lemma build_stored_eventD:
  assumes "build_stored_event sid ev h generation occurred actor causation = Inr r"
  shows "se_session_id r = sid \<and> se_event r = ev \<and> se_previous_event_hash r = h
    \<and> se_registry_generation r = generation"
  using assms by (auto simp: build_stored_event_def andthen_eq_Inr_iff Let_def)

text \<open>The chain a prepared transaction forms, from the hash it continues.\<close>

fun prepared_chain :: "commit_request \<Rightarrow> pystr option \<Rightarrow> (stored_event \<times> byte list) list \<Rightarrow> bool" where
  "prepared_chain q h [] \<longleftrightarrow> True"
| "prepared_chain q h ((r, raw) # rs) \<longleftrightarrow>
     encode_stored_event r = Inr raw \<and> length raw \<le> MAX_RECORD_BYTES
     \<and> se_session_id r = cq_session_id q \<and> se_registry_generation r = cq_registry_generation q
     \<and> se_previous_event_hash r = h \<and> prepared_chain q (Some (se_event_hash r)) rs"

lemma prepare_eventsD:
  "prepare_events q s h evs mds = Inr (s', rs) \<Longrightarrow>
     replay s evs = Inr s' \<and> map (\<lambda>x. se_event (fst x)) rs = evs \<and> prepared_chain q h rs"
proof (induction q s h evs mds arbitrary: rs rule: prepare_events.induct)
  case (2 q s h ev evs md mds)
  then obtain t r raw rs' where p: "reduce s ev = Inr t"
    "build_stored_event (cq_session_id q) ev h (cq_registry_generation q) (em_occurred_at md)
       (em_actor md) (em_causation_id md) = Inr r"
    "encode_stored_event r = Inr raw" "length raw \<le> MAX_RECORD_BYTES"
    "prepare_events q t (Some (se_event_hash r)) evs mds = Inr (s', rs')" "rs = (r, raw) # rs'"
    by (auto simp: andthen_eq_Inr_iff)
  from p(1-3) have "replay t evs = Inr s' \<and> map (\<lambda>x. se_event (fst x)) rs' = evs
      \<and> prepared_chain q (Some (se_event_hash r)) rs'"
    using "2.IH" p(4,5) by auto
  with p build_stored_eventD [OF p(2)] show ?case by simp
qed auto

lemma event_references_Inr: "event_references rs = Inr es \<Longrightarrow> es = map event_reference rs"
  by (induction rs arbitrary: es) (auto simp: andthen_eq_Inr_iff build_marker_event_ref_def)

lemma build_transaction_markerD:
  assumes "build_transaction_marker sid tid cid digest generation h s rs intents = Inr m"
  shows "validate_transaction_marker m = Inr ()" and "tm_events m = map event_reference rs"
    and "tm_session_id m = sid" and "tm_transaction_id m = tid" and "tm_command_id m = cid"
    and "tm_registry_generation m = generation" and "tm_previous_marker_hash m = h"
    and "dialogue_state_digest s = Inr (tm_state_digest m)" and "session_id s = sid"
    and "marker_binds sid cid generation s rs" and "rs \<noteq> []"
  using assms
  by (auto simp: build_transaction_marker_def andthen_eq_Inr_iff Let_def dest: event_references_Inr)

section \<open>Applying the marker of a prepared transaction\<close>

lemma read_event_bytes:
  assumes "map_of (ld_events d) (event_name n) = Some raw" and "encode_stored_event r = Inr raw"
    and "length raw \<le> MAX_RECORD_BYTES" and "valid_component (event_name n)"
  shows "read_event d n = Inr r"
  using assms event_codec.decode_encode
  by (simp add: read_event_def dir_read_def MAX_RECORD_BYTES_def)

definition published :: "log_disk \<Rightarrow> (stored_event \<times> byte list) list \<Rightarrow> bool" where
  "published d rs \<longleftrightarrow>
     list_all (\<lambda>(r, raw). map_of (ld_events d) (event_name (ce_sequence (se_event r))) = Some raw
        \<and> valid_component (event_name (ce_sequence (se_event r)))) rs"

lemma read_records_published:
  assumes "prepared_chain q h rs" and "published d rs"
    and "cq_session_id q = session_id initial" and "tm_registry_generation m = cq_registry_generation q"
    and "list_all (\<lambda>(r, raw). ce_command_id (se_event r) = tm_command_id m) rs"
  shows "read_records initial d m h (map (\<lambda>x. event_reference (fst x)) rs) = Inr (map fst rs)"
  using assms
proof (induction q h rs rule: prepared_chain.induct)
  case (2 q h r raw rs)
  then have "read_event d (ce_sequence (se_event r)) = Inr r"
    using read_event_bytes [of d "ce_sequence (se_event r)" raw r] by (simp add: published_def)
  with 2 show ?case by (simp add: published_def match_reference_def event_reference_def)
qed simp

lemma upto_eqD: "\<lbrakk>[i .. j] = [k .. l]; i \<le> j\<rbrakk> \<Longrightarrow> i = k \<and> j = l" for i :: int
proof -
  assume e: "[i .. j] = [k .. l]" and n: "i \<le> j"
  have "{i .. j} = {k .. l}" using arg_cong [OF e, of set] by simp
  with n show "i = k \<and> j = l" by (simp add: Icc_eq_Icc)
qed

lemma reject_event_reuseD:
  assumes "reject_event_reuse tip q = Inr u"
  shows "distinct (map ce_event_id (cq_events q))"
    and "\<And>ev r. \<lbrakk>ev \<in> set (cq_events q); r \<in> set (tp_receipts tip)\<rbrakk> \<Longrightarrow> ce_event_id ev \<notin> set (dr_event_ids r)"
  using assms by (auto simp: reject_event_reuse_def list_all_iff)

lemma prepare_transactionE:
  assumes "prepare_transaction initial tip q = Inr (s, rs, m, raw)"
  obtains "validate_registry_generation initial (cq_registry_generation q) (cq_events q) = Inr ()"
    "replay (tp_state tip) (cq_events q) = Inr s" "map (\<lambda>x. se_event (fst x)) rs = cq_events q"
    "prepared_chain q (tp_last_event_hash tip) rs"
    "build_transaction_marker (cq_session_id q) (cq_transaction_id q) (ce_command_id (hd (cq_events q)))
       (cq_request_digest q) (cq_registry_generation q) (tp_last_marker_hash tip) s (map fst rs)
       (cq_effect_intents q) = Inr m"
    "encode_transaction_marker m = Inr raw" "length raw \<le> MAX_RECORD_BYTES"
  using assms prepare_eventsD
  by (fastforce simp: prepare_transaction_def andthen_eq_Inr_iff split: prod.split_asm)

text \<open>The transaction continues the tip: its events are numbered from the next sequence on.\<close>

lemma prepared_sequences:
  assumes "prepare_transaction initial tip q = Inr (s, rs, m, raw)"
  shows "tm_from_sequence m = sequence (tp_state tip) + 1" and "tm_to_sequence m = sequence s"
    and "map (\<lambda>x. ce_sequence (se_event (fst x))) rs = [sequence (tp_state tip) + 1 .. sequence s]"
proof -
  from assms obtain pr: "replay (tp_state tip) (cq_events q) = Inr s"
    "map (\<lambda>x. se_event (fst x)) rs = cq_events q"
    and b: "build_transaction_marker (cq_session_id q) (cq_transaction_id q)
       (ce_command_id (hd (cq_events q))) (cq_request_digest q) (cq_registry_generation q)
       (tp_last_marker_hash tip) s (map fst rs) (cq_effect_intents q) = Inr m"
    by (rule prepare_transactionE)
  note fold = pr(1) [unfolded replay_fold]
  note bm = build_transaction_markerD [OF b]
  have nums: "map ce_sequence (cq_events q) = [sequence (tp_state tip) + 1 .. sequence s]"
    using dialogue.fold_numbers [OF fold] dialogue.fold_position [OF fold] by simp
  show n: "map (\<lambda>x. ce_sequence (se_event (fst x))) rs = [sequence (tp_state tip) + 1 .. sequence s]"
    using nums by (simp add: comp_def flip: pr(2))
  have "[tm_from_sequence m .. tm_to_sequence m] = [sequence (tp_state tip) + 1 .. sequence s]"
    using validate_transaction_marker_range(1) [OF bm(1)] n
    by (simp add: bm(2) event_reference_def comp_def)
  with validate_transaction_marker_range(3) [OF bm(1)]
  show "tm_from_sequence m = sequence (tp_state tip) + 1" "tm_to_sequence m = sequence s"
    using upto_eqD by blast+
qed

lemma encoded_event_hash: "encode_stored_event r = Inr raw \<Longrightarrow> is_sha256_digest (se_event_hash r)"
  by (auto simp: encode_stored_event_def andthen_eq_Inr_iff stored_event_fields_def
      dest!: validate_stored_eventD(1))

lemma prepared_last_hash:
  "\<lbrakk>prepared_chain q h rs; rs \<noteq> []\<rbrakk> \<Longrightarrow> is_sha256_digest (se_event_hash (fst (last rs)))"
  by (induction q h rs rule: prepared_chain.induct) (auto dest: encoded_event_hash)

lemma apply_prepared_marker:
  assumes p: "prepare_transaction initial tip q = Inr (s, rs, m, raw)"
    and req: "validate_request initial q = Inr ()"
    and rec: "recovered initial d tip" "sequence initial = 0"
    and gen: "tp_last_registry_generation tip = registry_generation initial"
    and fresh: "reject_event_reuse tip q = Inr ()"
      "\<And>r. r \<in> set (tp_receipts tip) \<Longrightarrow> dr_command_id r \<noteq> ce_command_id (hd (cq_events q))
         \<and> dr_transaction_id r \<noteq> cq_transaction_id q \<and> dr_marker_hash r \<noteq> tm_marker_hash m"
    and pub: "published d' rs"
  shows "apply_marker initial d' tip m = Inr (committed_tip tip s rs m (marker_receipt m))"
proof -
  from p obtain pr: "validate_registry_generation initial (cq_registry_generation q) (cq_events q) = Inr ()"
    "replay (tp_state tip) (cq_events q) = Inr s" "map (\<lambda>x. se_event (fst x)) rs = cq_events q"
    "prepared_chain q (tp_last_event_hash tip) rs"
    and b: "build_transaction_marker (cq_session_id q) (cq_transaction_id q)
       (ce_command_id (hd (cq_events q))) (cq_request_digest q) (cq_registry_generation q)
       (tp_last_marker_hash tip) s (map fst rs) (cq_effect_intents q) = Inr m"
    by (rule prepare_transactionE)
  note bm = build_transaction_markerD [OF b]
  note binds = bm(10) [unfolded marker_binds_def]
  have ids: "cq_session_id q = session_id initial" "validate_event_batch_shape (cq_events q) = Inr ()"
    using req by (auto simp: validate_request_def andthen_eq_Inr_iff)
  have refs: "tm_events m = map (\<lambda>x. event_reference (fst x)) rs" using bm(2) by (simp add: comp_def)
  have ne: "rs \<noteq> []" using bm(11) by simp
  have cmd: "list_all (\<lambda>(r, raw). ce_command_id (se_event r) = tm_command_id m) rs"
    using binds bm(5) by (auto simp: list_all_iff)
  have reads: "read_records initial d' m (tp_last_event_hash tip) (tm_events m) = Inr (map fst rs)"
    unfolding refs by (rule read_records_published [OF pr(4) pub ids(1) bm(6) cmd])
  have events: "map se_event (map fst rs) = cq_events q" using pr(3) by (simp add: comp_def)
  note v = validate_transaction_markerD(1) [OF bm(1), unfolded marker_fields_def]
  note range = validate_transaction_marker_range [OF bm(1)]
  note seqs = prepared_sequences [OF p]
  have ids': "set (dr_event_ids (marker_receipt m)) = ce_event_id ` set (cq_events q)"
    by (simp add: marker_receipt_def refs event_reference_def image_image flip: pr(3))
  have "check_receipts 1 [] [] [] [] (tp_receipts tip @ [marker_receipt m])
      = Inr (dr_to_sequence (marker_receipt m) + 1)"
  proof (rule check_receipts_snoc [OF recovered_check_receipts [OF rec]])
    show "valid_dialogue_receipt (marker_receipt m) (sequence (tp_state tip) + 1)"
      using marker_receipt_valid [OF bm(1)] seqs by simp
    show "set (dr_event_ids (marker_receipt m))
        \<inter> (set [] \<union> (\<Union>x \<in> set (tp_receipts tip). set (dr_event_ids x))) = {}"
      using reject_event_reuseD(2) [OF fresh(1)] by (auto simp: ids')
  qed (use bm(4,5) in \<open>auto simp: marker_receipt_def dest: fresh(2)\<close>)
  then have chk: "check_receipts 1 [] [] [] [] (tp_receipts tip @ [marker_receipt m]) = Inr (sequence s + 1)"
    using seqs by (simp add: marker_receipt_def)
  obtain n where n: "build_state_snapshot s (Some (se_event_hash (fst (last rs))))
      (Some (tm_marker_hash m)) (tp_receipts tip @ [marker_receipt m]) = Inr n"
    "sn_state_digest n = tm_state_digest m"
    using build_state_snapshot_Inr [OF bm(8) _ _ _ prepared_last_hash [OF pr(4) ne] _ _ chk] v bm(3,9)
      seqs range by (auto simp: marker_receipt_def)
  have "last_hash (tp_last_event_hash tip) (map fst rs) = Some (se_event_hash (fst (last rs)))"
    using ne by (simp add: last_hash_def last_map)
  with n reads events ids seqs gen pr(1,2) bm(1,3,6,7) show ?thesis
    by (simp add: apply_marker_def committed_tip_def receipt_from_marker_def lift_error_def comp_def)
qed

end
