(* ===== verification/Log_Crash.thy ===== *)
theory Log_Crash
  imports Log_Appends
begin

text \<open>
  What an operation writes, and what recovery makes of every disk a commit leaves on its way.
\<close>

section \<open>Runs of operations\<close>

lemma follow_eq_Some:
  "follow f k s = Some (s', r) \<longleftrightarrow>
     (\<exists>e. f s = Some (s', Inl e) \<and> r = Inl e) \<or> (\<exists>t x. f s = Some (t, Inr x) \<and> k x t = Some (s', r))"
  by (auto simp: follow_def split: option.split sum.split)

lemma followE:
  assumes "follow f k s = Some (s', r)"
  obtains e where "f s = Some (s', Inl e)" "r = Inl e"
    | t x where "f s = Some (t, Inr x)" "k x t = Some (s', r)"
  using assms unfolding follow_eq_Some by blast

lemma give_eq [simp]: "give r s = Some (s, r)"
  by (simp add: give_def)

lemma asks_eq [simp]: "asks f s = Some (s, f s)"
  by (simp add: asks_def)

lemma set_tip_eq [simp]: "set_tip tip s = Some (s\<lparr>lg_tip := tip\<rparr>, Inr ())"
  by (simp add: set_tip_def)

lemma write_disk_eq [simp]:
  "write_disk d s = Some (s\<lparr>lg_disk := d, lg_past := lg_disk s # lg_past s\<rparr>, Inr ())"
  by (simp add: write_disk_def)

lemma follow_markers_state: "follow_markers f s = Some (s', r) \<Longrightarrow> s' = s"
  by (auto simp: follow_markers_def)

section \<open>What a run changes\<close>

text \<open>
  The object keeps its initial state and tip, and every new disk has the markers of the first one
  and its event files outside the given names.
\<close>

definition touches :: "pystr set \<Rightarrow> log_disk \<Rightarrow> log_disk \<Rightarrow> bool" where
  "touches A d d' \<longleftrightarrow>
     ld_transactions d' = ld_transactions d
     \<and> (\<forall>name. name \<notin> A \<longrightarrow> map_of (ld_events d') name = map_of (ld_events d) name)"

definition run_touches :: "pystr set \<Rightarrow> dialogue_log \<Rightarrow> dialogue_log \<Rightarrow> bool" where
  "run_touches A s s' \<longleftrightarrow>
     lg_initial s' = lg_initial s \<and> lg_tip s' = lg_tip s \<and> touches A (lg_disk s) (lg_disk s')
     \<and> (\<forall>d \<in> visited s'. d \<in> visited s \<or> touches A (lg_disk s) d)"

lemma touches_refl [simp]: "touches A d d"
  by (simp add: touches_def)

lemma touches_trans: "\<lbrakk>touches A d e; touches B e f\<rbrakk> \<Longrightarrow> touches (A \<union> B) d f"
  by (auto simp: touches_def)

lemma touches_mono: "\<lbrakk>touches A d e; A \<subseteq> B\<rbrakk> \<Longrightarrow> touches B d e"
  by (auto simp: touches_def)

lemma run_touches_refl [simp]: "run_touches A s s"
  by (simp add: run_touches_def)

lemma run_touches_trans:
  assumes "run_touches A s t" and "run_touches B t u"
  shows "run_touches (A \<union> B) s u"
  using assms unfolding run_touches_def
  by (auto intro: touches_trans touches_mono)

lemma run_touches_write:
  assumes "touches A (lg_disk s) d"
  shows "run_touches A s (s\<lparr>lg_disk := d, lg_past := lg_disk s # lg_past s\<rparr>)"
  using assms by (auto simp: run_touches_def visited_def)

lemma write_projection_run:
  assumes "write_projection s = Some (s', r)"
  shows "run_touches {} s s' \<and> (\<exists>current. r = Inr current)"
proof -
  have "run_touches {} s (s\<lparr>lg_disk := (lg_disk s)\<lparr>ld_session := files\<rparr>, lg_past := lg_disk s # lg_past s\<rparr>)"
    for files by (rule run_touches_write) (simp add: touches_def)
  with assms show ?thesis
    by (auto simp: write_projection_def follow_eq_Some split: sum.split_asm)
qed

lemma dir_write_events: "dir_write (ld_events d) name raw = Inr es \<Longrightarrow> touches {name} d (d\<lparr>ld_events := es\<rparr>)"
  by (auto simp: touches_def dest: dir_write_InrD(2))

lemma dir_quarantine_events:
  "dir_quarantine (ld_events d) name qd tn = Inr (es, qs) \<Longrightarrow>
     touches {name} d (d\<lparr>ld_events := es, ld_quarantine := qs\<rparr>)"
  by (auto simp: touches_def dest: dir_quarantine_InrD(1))

lemma dir_read_valid: "dir_read d name limit = Inr raw \<Longrightarrow> valid_component name"
  by (simp add: dir_read_def)

lemma publish_event_run:
  assumes "publish_event r raw s = Some (s', res)"
  shows "run_touches {event_name (ce_sequence (se_event r))} s s'
    \<and> (res = Inr u \<longrightarrow> published (lg_disk s') [(r, raw)])"
proof -
  let ?d = "lg_disk s" and ?name = "event_name (ce_sequence (se_event r))"
  note def = assms [unfolded publish_event_def Let_def]
  show ?thesis
  proof (cases "dir_write (ld_events ?d) ?name raw")
    case (Inr es)
    with def run_touches_write [OF dir_write_events [OF Inr]] dir_write_InrD [OF Inr] show ?thesis
      by (auto simp: published_def)
  next
    case (Inl e)
    show ?thesis
    proof (cases "e = IMMUTABLE_EXISTS")
      case False
      with Inl def show ?thesis by auto
    next
      case e: True
      show ?thesis
      proof (cases "dir_read (ld_events ?d) ?name MAX_RECORD_BYTES")
        case rd: (Inr existing)
        show ?thesis
        proof (cases "existing = raw")
          case True
          with Inl e rd def dir_read_InrD(1) [OF rd] dir_read_valid [OF rd] show ?thesis
            by (simp add: published_def)
        next
          case ne: False
          show ?thesis
          proof (cases "dir_quarantine (ld_events ?d) ?name (ld_quarantine ?d) (orphan_name existing)")
            case q: (Inr moved)
            obtain es qs where m: "moved = (es, qs)" by (cases moved)
            let ?s1 = "s\<lparr>lg_disk := ?d\<lparr>ld_events := es, ld_quarantine := qs\<rparr>, lg_past := ?d # lg_past s\<rparr>"
            have one: "run_touches {?name} s ?s1"
              using run_touches_write [OF dir_quarantine_events [OF q [unfolded m]]] by simp
            show ?thesis
            proof (cases "dir_write es ?name raw")
              case (Inl e')
              with one def \<open>dir_write (ld_events ?d) ?name raw = Inl e\<close> e rd ne q m show ?thesis
                by (auto simp: follow_def)
            next
              case w: (Inr es')
              have "run_touches {?name} ?s1
                  (?s1\<lparr>lg_disk := (lg_disk ?s1)\<lparr>ld_events := es'\<rparr>, lg_past := lg_disk ?s1 # lg_past ?s1\<rparr>)"
                by (rule run_touches_write, rule dir_write_events [where raw = raw]) (simp add: w)
              from run_touches_trans [OF one this] w def Inl e rd ne q m dir_write_InrD [OF w]
              show ?thesis by (auto simp: follow_def published_def)
            qed
          qed (use Inl e rd ne def in auto)
        qed
      qed (use Inl e def in auto)
    qed
  qed
qed

lemma published_Cons: "published d (x # rs) \<longleftrightarrow> published d [x] \<and> published d rs"
  by (simp add: published_def split: prod.split)

lemma published_touches:
  assumes "published d rs" and "touches A d d'"
    and "\<And>x. x \<in> set rs \<Longrightarrow> event_name (ce_sequence (se_event (fst x))) \<notin> A"
  shows "published d' rs"
  using assms by (auto simp: published_def touches_def list_all_iff)

definition event_files :: "(stored_event \<times> byte list) list \<Rightarrow> pystr set" where
  "event_files rs = (\<lambda>x. event_name (ce_sequence (se_event (fst x)))) ` set rs"

lemma publish_events_run:
  assumes "publish_events rs s = Some (s', res)"
    and "distinct (map (\<lambda>x. event_name (ce_sequence (se_event (fst x)))) rs)"
  shows "run_touches (event_files rs) s s' \<and> (res = Inr u \<longrightarrow> published (lg_disk s') rs)"
  using assms
proof (induction rs arbitrary: s)
  case Nil
  then show ?case by (simp add: published_def)
next
  case (Cons x rs)
  obtain r raw where x: "x = (r, raw)" by (cases x)
  from Cons.prems(1) x have "follow (publish_event r raw) (\<lambda>_. publish_events rs) s = Some (s', res)"
    by simp
  then show ?case
  proof (cases rule: followE)
    case (1 e)
    from publish_event_run [OF 1(1)] 1(2) x show ?thesis
      by (auto simp: event_files_def run_touches_def intro: touches_mono)
  next
    case (2 t y)
    note one = publish_event_run [OF 2(1), of y]
    note more = Cons.IH [OF 2(2)] Cons.prems(2)
    have run: "run_touches (event_files (x # rs)) s s'"
      using run_touches_trans [OF conjunct1 [OF one] conjunct1 [OF more(1)]] more(2) x
      by (simp add: event_files_def)
    moreover have "published (lg_disk s') (x # rs)" if "res = Inr u"
    proof -
      have "touches (event_files rs) (lg_disk t) (lg_disk s')" and "published (lg_disk s') rs"
        using more that by (auto simp: run_touches_def)
      moreover have "published (lg_disk s') [x]"
        by (rule published_touches [OF _ calculation(1)])
          (use one x more(2) in \<open>auto simp: event_files_def\<close>)
      ultimately show ?thesis by (subst published_Cons) blast
    qed
    ultimately show ?thesis by blast
  qed
qed

section \<open>Recovery of a disk that agrees on the log\<close>

lemma read_event_touches:
  "\<lbrakk>touches A d d'; event_name n \<notin> A\<rbrakk> \<Longrightarrow> read_event d' n = read_event d n"
  by (simp add: touches_def read_event_def dir_read_def)

lemma read_marker_touches: "touches A d d' \<Longrightarrow> read_marker d' n = read_marker d n"
  by (simp add: touches_def read_marker_def)

lemma recovered_frame:
  assumes "recovered initial d tip" and "sequence initial = 0"
    and "\<And>n. \<lbrakk>1 \<le> n; n \<le> sequence (tp_state tip)\<rbrakk> \<Longrightarrow>
      read_marker d' n = read_marker d n \<and> read_event d' n = read_event d n"
  shows "recovered initial d' tip"
  using assms(1,3)
proof induction
  case no_marker
  show ?case by (rule recovered.no_marker)
next
  case (marker tip m tip')
  note s = apply_marker_sequence [OF marker.hyps(3)]
  have n: "0 \<le> sequence (tp_state tip)" by (rule recovered_sequence [OF marker.hyps(1) assms(2)])
  from marker.hyps(3) have v: "validate_transaction_marker m = Inr ()" by (elim apply_markerE) blast
  have "me_sequence e \<in> set [tm_from_sequence m .. tm_to_sequence m]" if "e \<in> set (tm_events m)" for e
    using that by (simp flip: validate_transaction_marker_range(1) [OF v])
  then have "apply_marker initial d' tip m = apply_marker initial d tip m"
    using marker.prems n s(3,4) by (intro apply_marker_frame) fastforce
  moreover have "recovered initial d' tip" using marker.IH marker.prems s(2) by simp
  moreover have "read_marker d' (sequence (tp_state tip) + 1) = Inr m"
    using marker.prems marker.hyps(2) n s(2) by simp
  ultimately show ?case using marker.hyps(3) recovered.marker by metis
qed

lemma recover_tip_touches:
  assumes "recover_tip initial d = Inr tip" and "sequence initial = 0" and "touches A d d'"
    and "\<And>n. \<lbrakk>1 \<le> n; n \<le> sequence (tp_state tip)\<rbrakk> \<Longrightarrow> event_name n \<notin> A"
  shows "recover_tip initial d' = Inr tip"
  using assms recovered_frame [of initial d tip d']
  by (simp add: recover_tip_iff read_marker_touches [OF assms(3)] read_event_touches [OF assms(3)])

section \<open>The name of the next marker\<close>

lemma padded_shape:
  assumes "0 \<le> n" and "n < 10 ^ 200"
  shows "length (padded n) \<le> 200" and "c \<in> set (padded n) \<Longrightarrow> 48 \<le> c \<and> c \<le> 57"
    and "ascii (padded n)"
proof -
  have "nat n < 10 ^ Suc 199" using assms by (simp add: nat_less_iff)
  from nat_digits_length [OF this] assms(1) have "length (int_str n) \<le> 200" by (simp add: int_str_def)
  then show "length (padded n) \<le> 200" by (simp add: padded_def)
  show digit: "48 \<le> c \<and> c \<le> 57" if "c \<in> set (padded n)" for c
    using that assms(1) nat_digits_digits [of "nat n"]
    by (auto simp: padded_def int_str_def is_digit_def split: if_split_asm)
  show "ascii (padded n)" unfolding ascii_def list_all_iff by (auto dest!: digit)
qed

lemma valid_numbered_name:
  assumes "0 \<le> n" and "n < 10 ^ 200" and "ascii pre" and "ascii post"
    and "list_all (\<lambda>c. 32 \<le> c \<and> c \<noteq> 127 \<and> c \<noteq> 47 \<and> c \<noteq> 92) pre"
    and "list_all (\<lambda>c. 32 \<le> c \<and> c \<noteq> 127 \<and> c \<noteq> 47 \<and> c \<noteq> 92) post"
    and "3 \<le> length pre" and "length pre + length post \<le> 50"
  shows "valid_component (pre @ padded n @ post)"
proof (rule valid_component_ascii)
  note shape = padded_shape [OF assms(1,2)]
  have "list_all (\<lambda>c. 32 \<le> c \<and> c \<noteq> 127 \<and> c \<noteq> 47 \<and> c \<noteq> 92) (padded n)"
    unfolding list_all_iff by (auto dest!: shape(2))
  with assms(5,6) show "list_all (\<lambda>c. 32 \<le> c \<and> c \<noteq> 127 \<and> c \<noteq> 47 \<and> c \<noteq> 92) (pre @ padded n @ post)"
    by simp
  show "ascii (pre @ padded n @ post)" using assms(3,4) shape(3) by simp
  show "3 \<le> length (pre @ padded n @ post)" using assms(7) by simp
  show "length (pre @ padded n @ post) \<le> MAX_COMPONENT_BYTES"
    using assms(8) shape(1) by (simp add: MAX_COMPONENT_BYTES_def)
qed

lemma valid_marker_name: "\<lbrakk>0 \<le> n; n < 10 ^ 200\<rbrakk> \<Longrightarrow> valid_component (marker_name n)"
  unfolding marker_name_def by (rule valid_numbered_name) (simp_all add: ascii_def py_def)

lemma valid_event_name: "\<lbrakk>0 \<le> n; n < 10 ^ 200\<rbrakk> \<Longrightarrow> valid_component (event_name n)"
  unfolding event_name_def by (rule valid_numbered_name) (simp_all add: ascii_def py_def)

section \<open>The run of a commit\<close>

lemma full_recover_False:
  "full_recover False s =
     (case recover_tip (lg_initial s) (lg_disk s) of
        Inl e \<Rightarrow> Some (s, Inl e)
      | Inr tip \<Rightarrow> (case reject_unexpected_markers (lg_disk s) tip of
            Inl e \<Rightarrow> Some (s, Inl e)
          | Inr _ \<Rightarrow> Some (s\<lparr>lg_tip := tip\<rparr>, Inr tip)))"
  by (simp add: full_recover_def follow_def split: sum.split)

text \<open>A directory that passes the check has no marker beyond the tip.\<close>

lemma no_later_marker:
  assumes "reject_unexpected_markers d tip = Inr u" and "recovered initial d tip" and "sequence initial = 0"
    and "sequence (tp_state tip) < n"
  shows "map_of (ld_transactions d) (marker_name n) = None"
proof -
  have "set (map fst (ld_transactions d)) \<subseteq> set (used_markers tip)"
    using assms(1) dir_list_names
    by (fastforce simp: reject_unexpected_markers_def andthen_eq_Inr_iff list_all_iff)
  moreover have "marker_name n \<notin> set (used_markers tip)"
  proof
    assume "marker_name n \<in> set (used_markers tip)"
    then obtain r where r: "r \<in> set (tp_receipts tip)" "marker_name n = marker_name (dr_from_sequence r)"
      by (auto simp: used_markers_def)
    note ranges = recovered_ranges [OF assms(2,3)]
    have "dr_from_sequence r \<in> set (concat (map (\<lambda>r. [dr_from_sequence r .. dr_to_sequence r]) (tp_receipts tip)))"
      using r(1) conjunct2 [OF ranges] by (fastforce simp: list_all_iff)
    then have "1 \<le> dr_from_sequence r \<and> dr_from_sequence r \<le> sequence (tp_state tip)"
      unfolding conjunct1 [OF ranges] by simp
    with r(2) assms(4) show False by (simp add: marker_name_inj)
  qed
  ultimately show ?thesis unfolding map_of_eq_None_iff by auto
qed

text \<open>The new marker collides with none of the committed ones.\<close>

definition fresh_marker_hash :: "dialogue_log \<Rightarrow> commit_request \<Rightarrow> bool" where
  "fresh_marker_hash s q =
     (case recover_tip (lg_initial s) (lg_disk s) of
        Inl _ \<Rightarrow> True
      | Inr tip \<Rightarrow> (case prepare_transaction (lg_initial s) tip q of
            Inl _ \<Rightarrow> True
          | Inr (_, _, m, _) \<Rightarrow> list_all (\<lambda>r. dr_marker_hash r \<noteq> tm_marker_hash m) (tp_receipts tip)))"

lemma fresh_marker_hashD:
  assumes "fresh_marker_hash s q" and "recover_tip (lg_initial s) (lg_disk s) = Inr tip"
    and "prepare_transaction (lg_initial s) tip q = Inr (state, rs, m, raw)"
  shows "r \<in> set (tp_receipts tip) \<Longrightarrow> dr_marker_hash r \<noteq> tm_marker_hash m"
  using assms by (simp add: fresh_marker_hash_def list_all_iff)

text \<open>Publishing the marker turns the tip of the disk into the committed one.\<close>

lemma publish_marker_tip:
  assumes p: "prepare_transaction initial tip q = Inr (state, rs, m, raw)"
    and req: "validate_request initial q = Inr ()"
    and rec: "recover_tip initial d = Inr tip" "sequence initial = 0"
    and gen: "tp_last_registry_generation tip = registry_generation initial"
    and fresh: "reject_event_reuse tip q = Inr ()"
      "\<And>r. r \<in> set (tp_receipts tip) \<Longrightarrow> dr_command_id r \<noteq> ce_command_id (hd (cq_events q))
         \<and> dr_transaction_id r \<noteq> cq_transaction_id q \<and> dr_marker_hash r \<noteq> tm_marker_hash m"
    and pub: "published d rs"
    and w: "dir_write (ld_transactions d) (marker_name (tm_from_sequence m)) raw = Inr ts"
    and none: "reject_unexpected_markers d tip = Inr u" and small: "sequence state < 10 ^ 199"
  shows "recover_tip initial (d\<lparr>ld_transactions := ts\<rparr>) = Inr (committed_tip tip state rs m (marker_receipt m))"
proof -
  let ?d = "d\<lparr>ld_transactions := ts\<rparr>" and ?t = "committed_tip tip state rs m (marker_receipt m)"
  from rec have r: "recovered initial d tip" by (simp add: recover_tip_iff)
  have n: "0 \<le> sequence (tp_state tip)" by (rule recovered_sequence [OF r rec(2)])
  note seqs = prepared_sequences [OF p]
  note wd = dir_write_InrD [OF w]
  have "published ?d rs" using pub by (simp add: published_def)
  from apply_prepared_marker [OF p req r rec(2) gen fresh this]
  have a: "apply_marker initial ?d tip m = Inr ?t" .
  from p obtain enc: "encode_transaction_marker m = Inr raw" "length raw \<le> MAX_RECORD_BYTES"
    by (rule prepare_transactionE)
  have m: "read_marker ?d (sequence (tp_state tip) + 1) = Inr m"
    using wd enc marker_codec.decode_encode [OF enc] seqs(1)
    by (simp add: read_marker_def dir_read_def MAX_RECORD_BYTES_def)
  have "read_marker ?d k = read_marker d k \<and> read_event ?d k = read_event d k"
    if "1 \<le> k" "k \<le> sequence (tp_state tip)" for k
    using that wd(2) seqs(1) by (simp add: read_marker_def read_event_def dir_read_def marker_name_inj)
  from recovered_frame [OF r rec(2) this] have "recovered initial ?d tip" by blast
  from recovered.marker [OF this m a] have t: "recovered initial ?d ?t" .
  have s: "sequence (tp_state tip) < sequence state"
    using apply_marker_sequence(2) [OF a] by (simp add: committed_tip_def)
  have "map_of (ld_transactions d) (marker_name (sequence state + 1)) = None"
    using no_later_marker [OF none r rec(2)] s by simp
  then have "map_of ts (marker_name (sequence state + 1)) = None"
    using wd(2) seqs(1) s n by (simp add: marker_name_inj)
  moreover have "valid_component (marker_name (sequence state + 1))"
    using valid_marker_name [of "sequence state + 1"] small s n by simp
  ultimately have "read_marker ?d (sequence (tp_state ?t) + 1) = Inl (Fs FILE_NOT_FOUND)"
    by (simp add: committed_tip_def read_marker_def dir_read_def MAX_RECORD_BYTES_def lift_error_def)
  with t show ?thesis by (simp add: recover_tip_iff)
qed

lemma reject_identity_reuse_run:
  assumes "reject_identity_reuse q s = Some (s', r)"
  shows "s' = s \<and> (r = Inr u \<longrightarrow> reject_event_reuse (lg_tip s) q = Inr ()
    \<and> (\<forall>x \<in> set (tp_receipts (lg_tip s)). dr_transaction_id x \<noteq> cq_transaction_id q))"
  using assms unfolding reject_identity_reuse_def
proof (cases rule: followE)
  case (2 t x)
  then have t: "t = s" "reject_event_reuse (lg_tip s) q = Inr ()" by auto
  from 2(2) show ?thesis
  proof (cases rule: followE)
    case (2 t' ids)
    then have "t' = s" using follow_markers_state t(1) by blast
    with 2(2) t show ?thesis by (auto simp: follow_def list_all_iff split: sum.split_asm)
  qed (use t follow_markers_state in blast)
qed simp

lemma require_active_run:
  "require_active s = Some (s', r) \<Longrightarrow>
     s' = s \<and> (r = Inr u \<longrightarrow> tp_last_registry_generation (lg_tip s) = registry_generation (lg_initial s))"
  by (auto simp: require_active_def)

lemma publish_marker_run:
  assumes "publish_marker g m raw s = Some (s', r)"
  obtains e where "r = Inl e" "s' = s"
    | ts where "r = Inr ()"
        "dir_write (ld_transactions (lg_disk s)) (marker_name (tm_from_sequence m)) raw = Inr ts"
        "guard_marker_publication g = Inr ()"
        "s' = s\<lparr>lg_disk := (lg_disk s)\<lparr>ld_transactions := ts\<rparr>, lg_past := lg_disk s # lg_past s\<rparr>"
proof (cases "require (Fs INVALID_COMPONENT) (valid_component (marker_name (tm_from_sequence m)))
    (andthen (guard_marker_publication g) (\<lambda>_. lift_error Fs
       (dir_write (ld_transactions (lg_disk s)) (marker_name (tm_from_sequence m)) raw)))")
  case (Inl e)
  with assms that(1) show thesis by (auto simp: publish_marker_def Let_def)
next
  case (Inr ts)
  with assms have "r = Inr ()"
    "s' = s\<lparr>lg_disk := (lg_disk s)\<lparr>ld_transactions := ts\<rparr>, lg_past := lg_disk s # lg_past s\<rparr>"
    by (auto simp: publish_marker_def Let_def)
  moreover from Inr have "guard_marker_publication g = Inr ()"
    "dir_write (ld_transactions (lg_disk s)) (marker_name (tm_from_sequence m)) raw = Inr ts"
    by (simp_all add: andthen_eq_Inr_iff)
  ultimately show thesis using that(2) by blast
qed

text \<open>
  What a crash in the middle of an appending commit leaves: before the marker nothing is
  committed, from then on everything is.
\<close>

definition all_or_nothing ::
  "dialogue_log \<Rightarrow> dialogue_log \<Rightarrow> log_error + commit_outcome \<Rightarrow> bool" where
  "all_or_nothing t s' r =
     (case r of
        Inl e \<Rightarrow> \<forall>d \<in> visited s'. recover_tip (lg_initial t) d = Inr (lg_tip t)
      | Inr out \<Rightarrow>
          recover_tip (lg_initial t) (lg_disk s') = Inr (lg_tip s')
          \<and> (\<forall>d \<in> visited s'. recover_tip (lg_initial t) d \<in> {Inr (lg_tip t), Inr (lg_tip s')})
          \<and> co_state out = tp_state (lg_tip s')
          \<and> tp_receipts (lg_tip s') = tp_receipts (lg_tip t) @ [co_receipt out])"

lemma run_touches_recovers:
  assumes "run_touches A t v" and "lg_past t = []"
    and "recover_tip (lg_initial t) (lg_disk t) = Inr tip" and "sequence (lg_initial t) = 0"
    and "\<And>n. \<lbrakk>1 \<le> n; n \<le> sequence (tp_state tip)\<rbrakk> \<Longrightarrow> event_name n \<notin> A"
  shows "d \<in> visited v \<Longrightarrow> recover_tip (lg_initial t) d = Inr tip"
  using assms recover_tip_touches [OF assms(3,4) _ assms(5)]
  by (auto simp: run_touches_def visited_def)

lemma publish_transaction_crash:
  assumes run: "publish_transaction g q state rs m raw t = Some (s', r)" and past: "lg_past t = []"
    and p: "prepare_transaction (lg_initial t) (lg_tip t) q = Inr (state, rs, m, raw)"
    and req: "validate_request (lg_initial t) q = Inr ()"
    and rec: "recover_tip (lg_initial t) (lg_disk t) = Inr (lg_tip t)" "sequence (lg_initial t) = 0"
    and gen: "tp_last_registry_generation (lg_tip t) = registry_generation (lg_initial t)"
    and fresh: "reject_event_reuse (lg_tip t) q = Inr ()"
      "\<And>r. r \<in> set (tp_receipts (lg_tip t)) \<Longrightarrow> dr_command_id r \<noteq> ce_command_id (hd (cq_events q))
         \<and> dr_transaction_id r \<noteq> cq_transaction_id q \<and> dr_marker_hash r \<noteq> tm_marker_hash m"
    and none: "reject_unexpected_markers (lg_disk t) (lg_tip t) = Inr u"
    and small: "sequence state < 10 ^ 199"
  shows "all_or_nothing t s' r"
proof -
  let ?tip = "lg_tip t"
  have rt: "recovered (lg_initial t) (lg_disk t) ?tip" using rec(1) by (simp add: recover_tip_iff)
  have zero: "0 \<le> sequence (tp_state ?tip)" by (rule recovered_sequence [OF rt rec(2)])
  note nums = prepared_sequences(3) [OF p]
  have number: "sequence (tp_state ?tip) < ce_sequence (se_event (fst x))" if "x \<in> set rs" for x
  proof -
    have "ce_sequence (se_event (fst x)) \<in> set (map (\<lambda>x. ce_sequence (se_event (fst x))) rs)"
      using that by simp
    then show ?thesis unfolding nums by simp
  qed
  have dist: "distinct (map (\<lambda>x. event_name (ce_sequence (se_event (fst x)))) rs)"
  proof -
    have "distinct (map event_name (map (\<lambda>x. ce_sequence (se_event (fst x))) rs))"
      unfolding nums using zero by (auto simp: distinct_map inj_on_def event_name_inj)
    then show ?thesis by (simp add: comp_def)
  qed
  have other: "event_name n \<notin> event_files rs" if "1 \<le> n" "n \<le> sequence (tp_state ?tip)" for n
    using that number zero by (fastforce simp: event_files_def event_name_inj)
  from run [unfolded publish_transaction_def] show ?thesis
  proof (cases rule: followE)
    case (1 e)
    with publish_events_run [OF 1(1) dist] run_touches_recovers [OF _ past rec other]
    show ?thesis by (auto simp: all_or_nothing_def)
  next
    case (2 t1 x1)
    note pub = publish_events_run [OF 2(1) dist, of x1]
    have old: "recover_tip (lg_initial t) d = Inr ?tip" if "d \<in> visited t1" for d
      using run_touches_recovers [OF conjunct1 [OF pub] past rec other that] .
    from 2(2) show ?thesis
    proof (cases rule: followE)
      case (1 e)
      from 1(1) have "t1 = s'" by (rule publish_marker_run) auto
      with old 1(2) show ?thesis by (simp add: all_or_nothing_def)
    next
      case (2 t2 x2)
      from 2(1) obtain ts where
        w: "dir_write (ld_transactions (lg_disk t1)) (marker_name (tm_from_sequence m)) raw = Inr ts"
        "t2 = t1\<lparr>lg_disk := (lg_disk t1)\<lparr>ld_transactions := ts\<rparr>, lg_past := lg_disk t1 # lg_past t1\<rparr>"
        by (rule publish_marker_run) auto
      from pub have same: "lg_initial t1 = lg_initial t" "lg_tip t1 = ?tip"
        "reject_unexpected_markers (lg_disk t1) ?tip = Inr u"
        using none by (simp_all add: run_touches_def touches_def reject_unexpected_markers_def)
      have "recover_tip (lg_initial t) (lg_disk t1) = Inr ?tip" using old by (simp add: visited_def)
      from publish_marker_tip [OF p req this rec(2) gen fresh _ w(1) same(3) small] pub
      have new: "recover_tip (lg_initial t) (lg_disk t2)
          = Inr (committed_tip ?tip state rs m (marker_receipt m))" using w(2) by simp
      let ?new = "committed_tip ?tip state rs m (marker_receipt m)"
      have vis: "visited t2 = insert (lg_disk t2) (visited t1)" using w(2) by (auto simp: visited_def)
      have "receipt_from_marker m = Inr (marker_receipt m)"
        using p by (elim prepare_transactionE) (auto simp: receipt_from_marker_Inr dest: build_transaction_markerD(1))
      with 2(2) same(2) w(2) obtain current where
        proj: "write_projection (t2\<lparr>lg_tip := ?new\<rparr>) = Some (s', Inr current)"
        and r: "r = Inr \<lparr>co_receipt = marker_receipt m, co_state = state, co_events = cq_events q,
          co_replayed = False, co_projection_current = current\<rparr>"
        by (auto simp: follow_eq_Some dest: write_projection_run)
      from write_projection_run [OF proj] have final: "run_touches {} (t2\<lparr>lg_tip := ?new\<rparr>) s'" by simp
      have "recover_tip (lg_initial t) d = Inr ?new" if "touches {} (lg_disk t2) d" for d
        using recover_tip_touches [OF new rec(2) that] by simp
      note projected = this
      have "recover_tip (lg_initial t) d \<in> {Inr ?tip, Inr ?new}" if "d \<in> visited s'" for d
      proof -
        from final that have "d \<in> visited t2 \<or> touches {} (lg_disk t2) d"
          by (auto simp: run_touches_def visited_def)
        with vis old new projected show ?thesis by auto
      qed
      moreover have "recover_tip (lg_initial t) (lg_disk s') = Inr ?new" "lg_tip s' = ?new"
        using final projected by (auto simp: run_touches_def)
      ultimately show ?thesis by (simp add: all_or_nothing_def r) (simp add: committed_tip_def)
    qed
  qed
qed

lemma append_commit_crash:
  assumes run: "append_commit g q t = Some (s', r)" and past: "lg_past t = []"
    and rec: "recover_tip (lg_initial t) (lg_disk t) = Inr (lg_tip t)" "sequence (lg_initial t) = 0"
    and none: "reject_unexpected_markers (lg_disk t) (lg_tip t) = Inr u"
    and req: "validate_request (lg_initial t) q = Inr ()"
    and cmd: "\<And>x. x \<in> set (tp_receipts (lg_tip t)) \<Longrightarrow> dr_command_id x \<noteq> ce_command_id (hd (cq_events q))"
    and fresh: "fresh_marker_hash t q"
    and small: "sequence (tp_state (lg_tip t)) + int (length (cq_events q)) < 10 ^ 199"
  shows "all_or_nothing t s' r"
proof -
  have here: "all_or_nothing t t (Inl e)" for e
    using past rec(1) by (simp add: all_or_nothing_def visited_def)
  from run [unfolded append_commit_def] show ?thesis
  proof (cases rule: followE)
    case (1 e)
    with reject_identity_reuse_run [OF 1(1)] here show ?thesis by simp
  next
    case (2 t1 x1)
    with reject_identity_reuse_run [OF 2(1), of x1] have t1: "t1 = t"
      "reject_event_reuse (lg_tip t) q = Inr ()"
      "\<And>x. x \<in> set (tp_receipts (lg_tip t)) \<Longrightarrow> dr_transaction_id x \<noteq> cq_transaction_id q" by auto
    from 2(2) show ?thesis
    proof (cases rule: followE)
      case (1 e)
      with require_active_run [OF 1(1)] t1 here show ?thesis by simp
    next
      case (2 t2 x2)
      with require_active_run [OF 2(1), of x2] t1 have t2: "t2 = t"
        "tp_last_registry_generation (lg_tip t) = registry_generation (lg_initial t)" by auto
      from 2(2) show ?thesis
      proof (cases rule: followE)
        case (1 e)
        with t2 here show ?thesis by simp
      next
        case (2 t3 x3)
        obtain state rs m raw where x3: "x3 = (state, rs, m, raw)" by (cases x3)
        with 2(1) t2 have t3: "t3 = t" "prepare_transaction (lg_initial t) (lg_tip t) q = Inr (state, rs, m, raw)"
          by auto
        have "sequence state < 10 ^ 199"
          using t3(2) small dialogue.fold_position
          by (elim prepare_transactionE) (fastforce simp: replay_fold)
        with 2(2) x3 t3 show ?thesis
          using publish_transaction_crash [OF _ past t3(2) req rec t2(2) t1(2) _ none, of g s' r]
            cmd t1(3) fresh_marker_hashD [OF fresh rec(1) t3(2)] by simp
      qed
    qed
  qed
qed

section \<open>A command that is committed already\<close>

lemma recovered_tip_at:
  assumes "recovered initial d t" and "sequence (tp_state t) \<le> target"
  shows "tip_at_sequence initial d target = tip_at initial d target t"
  using assms
proof induction
  case no_marker
  then show ?case by (simp add: tip_at_sequence_def)
next
  case (marker tip m tip')
  note s = apply_marker_sequence [OF marker.hyps(3)]
  have "tip_at initial d target tip = tip_at initial d target tip'"
  proof -
    have "sequence (tp_state tip) < target" "tm_to_sequence m \<le> target"
      using s(2,4) marker.prems by linarith+
    with marker.hyps(2,3) show ?thesis by (subst tip_at.simps) simp
  qed
  with marker.IH order.trans [OF order.strict_implies_order [OF s(2)] marker.prems] show ?case by simp
qed

lemma tip_at_recovered:
  assumes "recovered initial d t"
  shows "tip_at_sequence initial d (sequence (tp_state t)) = Inr t"
  using recovered_tip_at [OF assms order.refl] by (simp add: tip_at.simps)

lemma receipts_within:
  assumes "recovered initial d t" and "sequence initial = 0" and "r \<in> set (tp_receipts t)"
  shows "1 \<le> dr_from_sequence r" and "dr_from_sequence r \<le> dr_to_sequence r"
    and "dr_to_sequence r \<le> sequence (tp_state t)"
proof -
  note ranges = recovered_ranges [OF assms(1,2)]
  show le: "dr_from_sequence r \<le> dr_to_sequence r" using ranges assms(3) by (simp add: list_all_iff)
  have "{dr_from_sequence r, dr_to_sequence r}
      \<subseteq> set (concat (map (\<lambda>r. [dr_from_sequence r .. dr_to_sequence r]) (tp_receipts t)))"
    using le assms(3) by auto
  then show "1 \<le> dr_from_sequence r" "dr_to_sequence r \<le> sequence (tp_state t)"
    unfolding conjunct1 [OF ranges] by simp_all
qed

lemma events_at_length: "events_at d ns = Inr evs \<Longrightarrow> length evs = length ns"
  by (induction ns arbitrary: evs) (auto simp: andthen_eq_Inr_iff)

text \<open>The answer to a repeated command is its state and its events, as they were.\<close>

lemma original_commit_answers:
  assumes "recovered initial d tip" and "sequence initial = 0" and "r \<in> set (tp_receipts tip)"
    and "dr_request_digest r = cq_request_digest q"
  shows "\<exists>evs before state. original_commit initial d q r = Inr (state, evs)
    \<and> events_between d 1 (dr_to_sequence r) = Inr (before @ evs)
    \<and> replay initial (before @ evs) = Inr state
    \<and> map ce_sequence evs = [dr_from_sequence r .. dr_to_sequence r]"
proof -
  obtain t n e where t: "recovered initial d t" "tp_receipts t \<noteq> []" "last (tp_receipts t) = r"
    "sequence (tp_state t) = dr_to_sequence r"
    "build_state_snapshot (tp_state t) (tp_last_event_hash t) (tp_last_marker_hash t) (tp_receipts t) = Inr n"
    "sn_state_digest n = dr_state_digest r" "tp_last_marker_hash t = Some (dr_marker_hash r)"
    "read_event d (dr_to_sequence r) = Inr e" "tp_last_event_hash t = Some (se_event_hash e)"
    using recovered_receipt_tip [OF assms(1,3)] by metis
  have mem: "r \<in> set (tp_receipts t)" using t(2,3) last_in_set by blast
  note w = receipts_within [OF t(1) assms(2) mem]
  obtain evs where evs: "events_between d 1 (dr_to_sequence r) = Inr evs" "replay initial evs = Inr (tp_state t)"
    using recovered_events [OF t(1) assms(2)] t(4) by auto
  have split: "[1 .. dr_to_sequence r] = [1 .. dr_from_sequence r - 1] @ [dr_from_sequence r .. dr_to_sequence r]"
    using upto_join [of 1 "dr_from_sequence r - 1" "dr_to_sequence r"] w by simp
  obtain xs ys where parts: "events_at d [1 .. dr_from_sequence r - 1] = Inr xs"
    "events_at d [dr_from_sequence r .. dr_to_sequence r] = Inr ys" "evs = xs @ ys"
    using evs(1) unfolding events_between_def split events_at_append by (auto simp: andthen_eq_Inr_iff)
  have "filter (\<lambda>i. dr_to_sequence i \<le> dr_to_sequence r) (tp_receipts t) = tp_receipts t"
    using receipts_within(3) [OF t(1) assms(2)] t(4) by (simp add: filter_id_conv)
  with t tip_at_recovered [OF t(1)] parts assms(4) have "original_commit initial d q r = Inr (tp_state t, ys)"
    by (simp add: original_commit_def events_between_def lift_error_def)
  moreover have "map ce_sequence ys = [dr_from_sequence r .. dr_to_sequence r]"
  proof -
    have "map ce_sequence (xs @ ys) = [1 .. dr_to_sequence r]"
      using dialogue.fold_numbers [OF evs(2) [unfolded replay_fold]]
        dialogue.fold_position [OF evs(2) [unfolded replay_fold]] assms(2) t(4) parts(3) by simp
    moreover have "length xs = length [1 .. dr_from_sequence r - 1]"
      using events_at_length [OF parts(1)] .
    ultimately show ?thesis unfolding split by simp
  qed
  ultimately show ?thesis using evs parts(3) by blast
qed

end
