(* ===== verification/Phases.thy ===== *)
theory Phases
  imports Sessions
begin

text \<open>
  The conversation phases as a labelled transition system: which phase an event may be
  applied in and which one it leads to.  The reducer refines it.  The second half
  counts work: an agent turn uses up the one outstanding work item, and only the
  events that create work put one back.
\<close>

section \<open>Edges of the phase machine\<close>

fun phase_edge :: "dialogue_event_payload \<Rightarrow> conversation_phase \<Rightarrow> conversation_phase \<Rightarrow> bool" where
  "phase_edge (SessionStarted _) a b \<longleftrightarrow> a = PHASE_NONE \<and> b = WAITING_HOST"
| "phase_edge (CandidatesPresented _ _) a b \<longleftrightarrow> a = WAITING_HOST \<and> b = CHOOSING_TOPIC"
| "phase_edge (TopicSelectionSubmitted _ _) a b \<longleftrightarrow> a = CHOOSING_TOPIC \<and> b = WAITING_HOST"
| "phase_edge (TopicClarificationRequested _ _ _) a b \<longleftrightarrow> a = WAITING_HOST \<and> b = CLARIFYING_TOPIC"
| "phase_edge (TopicClarificationAnswered _ _ _) a b \<longleftrightarrow> a = CLARIFYING_TOPIC \<and> b = WAITING_HOST"
| "phase_edge (TopicStarted _ _ _ _ _) a b \<longleftrightarrow> a \<in> {CHOOSING_TOPIC, WAITING_HOST} \<and> b = WAITING_HOST"
| "phase_edge (AgentTurnCommitted _ _ _) a b \<longleftrightarrow> a = WAITING_HOST \<and> b = AWAITING_USER"
| "phase_edge (LearnerTurnSubmitted _ _ _ _) a b \<longleftrightarrow> a = AWAITING_USER \<and> b = WAITING_HOST"
| "phase_edge (LensChanged _ _ _) a b \<longleftrightarrow> a \<in> {AWAITING_USER, WAITING_HOST} \<and> b = WAITING_HOST"
| "phase_edge (HelpRequested _ _ _) a b \<longleftrightarrow> a = AWAITING_USER \<and> b = WAITING_HOST"
| "phase_edge (TopicCompleted _ _ _ _ _ _) a b \<longleftrightarrow> a = WAITING_HOST \<and> b = PHASE_NONE"
| "phase_edge (TopicPaused _ _ _ _) a b \<longleftrightarrow>
     a \<in> {AWAITING_USER, WAITING_HOST, RECOVERABLE_ERROR} \<and> b = PHASE_NONE"
| "phase_edge (TopicSwitchRequested _ _) a b \<longleftrightarrow>
     a \<in> {AWAITING_USER, WAITING_HOST, RECOVERABLE_ERROR} \<and> b = WAITING_HOST"
| "phase_edge (TopicExplorationRequested _) a b \<longleftrightarrow> a = PHASE_NONE \<and> b = WAITING_HOST"
| "phase_edge (SessionDeactivationPrepared _ _ _) a b \<longleftrightarrow> b = PHASE_NONE"
| "phase_edge (TopicResumed _ _ t _) a b \<longleftrightarrow>
     a = PHASE_NONE \<and> b = (if t = None then AWAITING_USER else WAITING_HOST)"
| "phase_edge (WorkFailed _ _ _ _) a b \<longleftrightarrow> a = WAITING_HOST \<and> b = WAITING_HOST"
| "phase_edge (WorkRequeued _ _ _ _ _ _) a b \<longleftrightarrow> a = WAITING_HOST \<and> b = WAITING_HOST"
| "phase_edge (WorkDeadLettered _ _ _ _ _) a b \<longleftrightarrow> a = WAITING_HOST \<and> b = RECOVERABLE_ERROR"
| "phase_edge (WorkRecoveryRequested _ _ _ _) a b \<longleftrightarrow>
     a \<in> {RECOVERABLE_ERROR, PHASE_NONE} \<and> b = WAITING_HOST"
| "phase_edge (ExportRequested _ _ _ _ _ _) a b \<longleftrightarrow> b = a"
| "phase_edge (ExportCompleted _ _ _ _ _ _ _ _ _) a b \<longleftrightarrow> b = a"

lemma replace_work_phase: "replace_work n w w' = Inr s' \<Longrightarrow> phase s' = phase n \<and> lifecycle s' = lifecycle n"
  by (auto simp: replace_work_def split: if_splits)

lemma resume_active_phase:
  "resume_active s ev p t e = Inr (a, ph) \<Longrightarrow> ph = (if t = None then AWAITING_USER else WAITING_HOST)"
  by (auto simp: resume_active_def Let_def andthen_eq_Inr_iff split: if_splits option.splits)

lemma reduce_phase_edge:
  assumes "reduce s ev = Inr s'"
  shows "phase_edge (ce_payload ev) (phase s) (phase s')"
proof -
  note r = reduce_eq_InrD [OF assms]
  show ?thesis
  proof (cases "ce_payload ev")
    case (TopicPaused i c h g)
    with r(3) valid_active_topic(7) [OF r(1)] show ?thesis
      by (auto simp: apply_payload_def red_topic_paused_def split: option.splits)
  next
    case (TopicSwitchRequested i t)
    with r(3) valid_active_topic(7) [OF r(1)] show ?thesis
      by (auto simp: apply_payload_def red_topic_switch_requested_def andthen_eq_Inr_iff
          split: option.splits)
  next
    case (TopicResumed i rr t e)
    with r(3) show ?thesis
      by (auto simp: apply_payload_def red_topic_resumed_def andthen_eq_Inr_iff
          split: list.splits dest!: resume_active_phase)
  next
    case (WorkRecoveryRequested wid a t e)
    with r(3) have "red_work_recovery_requested s (advance s ev) ev wid a t e = Inr s'"
      by (simp add: apply_payload_def)
    then show ?thesis
      using WorkRecoveryRequested by (cases rule: red_work_recovery_requested_InrD) simp_all
  next
    case (WorkFailed wid t k f)
    with r(3) show ?thesis
      by (auto simp: apply_payload_def red_work_failed_def split: option.splits
          dest!: replace_work_phase)
  next
    case (WorkRequeued wid t k f t' k')
    with r(3) show ?thesis
      by (auto simp: apply_payload_def red_work_requeued_def andthen_eq_Inr_iff
          split: option.splits dest!: replace_work_phase)
  next
    case (WorkDeadLettered wid t k f acts)
    with r(3) show ?thesis
      by (auto simp: apply_payload_def red_work_dead_lettered_def andthen_eq_Inr_iff
          split: option.splits)
  next
    case (TopicStarted c e t sel st)
    with r(3) show ?thesis
      by (auto simp: apply_payload_def red_topic_started_def andthen_eq_Inr_iff
          started_from_candidates_def started_from_selection_def legacy_selection_def)
  qed (use r in \<open>auto simp: apply_payload_def branch_defs andthen_eq_Inr_iff choosing_allowed_def
        split: option.splits list.splits\<close>)
qed

text \<open>No event ends a session.\<close>

lemma reduce_lifecycle:
  assumes "reduce s ev = Inr s'"
  shows "lifecycle s' = lifecycle s \<or> lifecycle s' = SL_OPEN"
proof -
  note r = reduce_eq_InrD [OF assms]
  show ?thesis
  proof (cases "ce_payload ev")
    case (WorkRecoveryRequested wid a t e)
    with r(3) have "red_work_recovery_requested s (advance s ev) ev wid a t e = Inr s'"
      by (simp add: apply_payload_def)
    then show ?thesis by (cases rule: red_work_recovery_requested_InrD) simp_all
  next
    case (WorkFailed wid t k f)
    with r(3) show ?thesis
      by (auto simp: apply_payload_def red_work_failed_def split: option.splits
          dest!: replace_work_phase)
  next
    case (WorkRequeued wid t k f t' k')
    with r(3) show ?thesis
      by (auto simp: apply_payload_def red_work_requeued_def andthen_eq_Inr_iff
          split: option.splits dest!: replace_work_phase)
  next
    case (WorkDeadLettered wid t k f acts)
    with r(3) show ?thesis
      by (auto simp: apply_payload_def red_work_dead_lettered_def andthen_eq_Inr_iff
          split: option.splits dest!: replace_work_phase)
  qed (use r in \<open>auto simp: apply_payload_def branch_defs andthen_eq_Inr_iff
        split: option.splits list.splits\<close>)
qed

section \<open>What each phase holds\<close>

lemma awaiting_iff:
  assumes v: "validate_state s"
  shows "phase s = AWAITING_USER \<longleftrightarrow> (\<exists>t. active_topic s = Some t \<and> open_question_id t \<noteq> None)"
proof
  assume "phase s = AWAITING_USER"
  with v show "\<exists>t. active_topic s = Some t \<and> open_question_id t \<noteq> None"
    by (cases "active_topic s") (auto simp: validate_state_def vs_awaiting_user_def)
next
  assume "\<exists>t. active_topic s = Some t \<and> open_question_id t \<noteq> None"
  then obtain t where t: "active_topic s = Some t" "tr_current_agent_turn t \<noteq> None" by auto
  with v valid_active_topic(7) [OF v t(1)] show "phase s = AWAITING_USER"
    by (auto simp: validate_state_def vs_work_phases_def no_visible_question_def)
qed

lemma working_iff:
  assumes v: "validate_state s"
  shows "phase s \<in> {WAITING_HOST, RECOVERABLE_ERROR} \<longleftrightarrow> current_nonterminal_work s \<noteq> None"
proof (cases "current_nonterminal_work s")
  case None
  have "phase s \<notin> {WAITING_HOST, RECOVERABLE_ERROR}"
  proof
    assume "phase s \<in> {WAITING_HOST, RECOVERABLE_ERROR}"
    with v have l: "length (current_works s) = 1"
      and st: "list_all (\<lambda>w. cw_status w \<in> {WS_QUEUED, WS_FAILED, WS_DEAD_LETTER}) (current_works s)"
      by (auto simp: validate_state_def vs_work_phases_def list_all_iff)
    from l obtain w where "current_works s = [w]" unfolding length_one_iff ..
    with st None show False by (simp add: current_nonterminal_work_def)
  qed
  with None show ?thesis by simp
next
  case (Some w)
  from waiting_work [OF v Some] have "phase s \<in> {WAITING_HOST, RECOVERABLE_ERROR}"
  proof (elim disjE exE conjE)
    assume "session_work s = Some w"
    with valid_session_work(4) [OF v] show ?thesis by blast
  next
    fix t assume t: "active_topic s = Some t" "tr_work t = Some w"
    have "tr_current_agent_turn t = None"
      using valid_work_slot(2) [OF valid_active_topic(1) [OF v t(1)] t(2)] .
    moreover have "phase s = AWAITING_USER \<Longrightarrow> tr_current_agent_turn t \<noteq> None"
      using awaiting_iff [OF v] t(1) by auto
    ultimately show ?thesis using valid_active_topic(7) [OF v t(1)] by blast
  qed
  with Some show ?thesis by simp
qed

text \<open>The work of a waiting state is live, the work of a state in error is dead.\<close>

lemma working_status:
  assumes v: "validate_state s" and w: "current_nonterminal_work s = Some w"
  shows "phase s = WAITING_HOST \<Longrightarrow> cw_status w \<in> {WS_QUEUED, WS_FAILED}"
    and "phase s = RECOVERABLE_ERROR \<Longrightarrow> cw_status w = WS_DEAD_LETTER"
proof -
  from w have "w \<in> set (current_works s)"
    by (auto simp: current_nonterminal_work_def split: list.splits dest!: filter_single_mem)
  with v show "phase s = WAITING_HOST \<Longrightarrow> cw_status w \<in> {WS_QUEUED, WS_FAILED}"
    and "phase s = RECOVERABLE_ERROR \<Longrightarrow> cw_status w = WS_DEAD_LETTER"
    by (simp_all add: validate_state_def vs_work_phases_def list_all_iff)
qed

section \<open>Work and agent turns\<close>

fun is_agent_turn :: "dialogue_event_payload \<Rightarrow> bool" where
  "is_agent_turn (AgentTurnCommitted _ _ _) = True"
| "is_agent_turn _ = False"

text \<open>The events that put a work item in front of the host.\<close>

fun creates_work :: "dialogue_event_payload \<Rightarrow> bool" where
  "creates_work (TopicResumed _ _ t _) = (t \<noteq> None)"
| "creates_work (CandidatesPresented _ _) = False"
| "creates_work (TopicClarificationRequested _ _ _) = False"
| "creates_work (AgentTurnCommitted _ _ _) = False"
| "creates_work (TopicCompleted _ _ _ _ _ _) = False"
| "creates_work (TopicPaused _ _ _ _) = False"
| "creates_work (SessionDeactivationPrepared _ _ _) = False"
| "creates_work (WorkFailed _ _ _ _) = False"
| "creates_work (WorkDeadLettered _ _ _ _ _) = False"
| "creates_work (ExportRequested _ _ _ _ _ _) = False"
| "creates_work (ExportCompleted _ _ _ _ _ _ _ _ _) = False"
| "creates_work _ = True"

definition pending :: "dialogue_state \<Rightarrow> nat" where
  "pending s = (if current_nonterminal_work s = None then 0 else 1)"

lemma pending_phase:
  "validate_state s \<Longrightarrow> pending s = (if phase s \<in> {WAITING_HOST, RECOVERABLE_ERROR} then 1 else 0)"
  using working_iff [of s] by (auto simp: pending_def)

lemma reduce_pending:
  assumes "reduce s ev = Inr s'"
  shows "pending s' + of_bool (is_agent_turn (ce_payload ev))
       \<le> pending s + of_bool (creates_work (ce_payload ev))"
proof -
  note r = reduce_eq_InrD [OF assms]
  show ?thesis
    unfolding pending_phase [OF r(1)] pending_phase [OF r(4)]
    using reduce_phase_edge [OF assms] by (cases "ce_payload ev") auto
qed

lemma replay_pending:
  "replay s evs = Inr s' \<Longrightarrow>
     pending s' + length (filter (is_agent_turn \<circ> ce_payload) evs)
       \<le> pending s + length (filter (creates_work \<circ> ce_payload) evs)"
proof (induction evs arbitrary: s)
  case (Cons ev evs)
  then obtain t where t: "reduce s ev = Inr t" "replay t evs = Inr s'"
    by (auto simp: andthen_eq_Inr_iff)
  from Cons.IH [OF t(2)] reduce_pending [OF t(1)] show ?case
    by (auto simp: of_bool_def split: if_splits)
qed simp

end
