(* ===== verification/Scenario.thy ===== *)
theory Scenario
  imports Phases
begin

text \<open>
  Concrete sessions the witnesses run on: one topic about a repository, in the states a
  dialogue passes through.  Work ids are the derived ones, left unevaluated; everything
  else is data.
\<close>

section \<open>Values\<close>

definition sample_digest :: pystr where
  "sample_digest = digest_prefix @ replicate 64 48"

definition other_digest :: pystr where
  "other_digest = digest_prefix @ replicate 64 49"

definition sample_contract :: topic_contract where
  "sample_contract =
     \<lparr>tc_contract_id = py ''contract1'', tc_contract_version = 1, tc_topic_run_id = py ''run1'',
      tc_title = py ''Leases'', tc_guiding_question = py ''Why'', tc_objective = py ''Know'',
      tc_task_scope = \<lparr>ts_task_id = py ''task1'', ts_summary = py ''Task'',
        ts_included_paths = [py ''src''], ts_excluded_paths = []\<rparr>,
      tc_starting_lens = LENS_MIXED, tc_bridge_required = True,
      tc_evidence_refs = [py ''ref1''],
      tc_gates = map (\<lambda>g. \<lparr>gr_gate_id = g, gr_required = True\<rparr>) Enum.enum,
      tc_supersedes_contract_id = None, tc_contract_digest = sample_digest\<rparr>"

definition sample_evidence :: evidence_check where
  "sample_evidence =
     \<lparr>ec_health = EH_CURRENT, ec_evidence_digest = sample_digest,
      ec_exact_recheck_fingerprint = None\<rparr>"

definition stale_evidence :: evidence_check where
  "stale_evidence =
     \<lparr>ec_health = EH_STALE, ec_evidence_digest = other_digest,
      ec_exact_recheck_fingerprint = None\<rparr>"

definition sample_trigger :: "trigger_kind \<Rightarrow> pystr \<Rightarrow> pystr option \<Rightarrow> pystr option \<Rightarrow> trigger_binding" where
  "sample_trigger k wid parent cd =
     \<lparr>tb_kind = k, tb_work_id = wid, tb_runtime_epoch = py ''epoch1'',
      tb_parent_turn_id = parent, tb_contract_digest = cd, tb_input_digest = sample_digest,
      tb_evidence_digest = sample_digest\<rparr>"

definition sample_context :: "trigger_binding option \<Rightarrow> decision_context" where
  "sample_context t =
     \<lparr>dc_registry_generation = 1, dc_trigger = t, dc_evidence = sample_evidence\<rparr>"

definition sample_gates :: "gate_assessment list" where
  "sample_gates =
     map (\<lambda>g. \<lparr>ga_gate_id = g, ga_status = GS_SUPPORTED, ga_source_turn_ids = [py ''turn1''],
       ga_evidence_refs = [py ''ref1'']\<rparr>) Enum.enum"

definition sample_entry :: learner_model_entry where
  "sample_entry =
     \<lparr>lm_entry_id = py ''entry1'', lm_kind = IK_BUSINESS_TECHNICAL_MAPPING,
      lm_status = IS_CONFIRMED, lm_provenance = IP_JOINTLY_CONFIRMED,
      lm_statement = py ''A lease is a deadline'', lm_source_turn_ids = [py ''turn1''],
      lm_evidence_refs = [py ''ref1'']\<rparr>"

definition sample_turn :: agent_turn_result where
  "sample_turn =
     \<lparr>at_heard = py ''Heard'', at_one_step_further = py ''Further'', at_question_id = py ''q1'',
      at_question = py ''Why?'', at_question_intent = QI_CLARIFY,
      at_learner_model_delta = [], at_gate_assessments = sample_gates,
      at_evidence_refs = [py ''ref1'']\<rparr>"

definition sample_summary :: topic_summary where
  "sample_summary =
     \<lparr>su_takeaway = py ''Takeaway'', su_confirmed_entry_ids = [py ''entry1''],
      su_open_questions = [], su_next_suggestion = py ''Next''\<rparr>"

definition sample_failure :: work_failure where
  "sample_failure =
     \<lparr>wf_failure_id = py ''fail1'', wf_category = WF_HOST_TRANSIENT,
      wf_safe_error_code = py ''timeout'', wf_proof_digest = sample_digest\<rparr>"

definition permanent_failure :: work_failure where
  "permanent_failure = sample_failure\<lparr>wf_category := WF_HOST_PERMANENT\<rparr>"

section \<open>Work and runs\<close>

definition sample_work :: "trigger_binding \<Rightarrow> current_work_state" where
  "sample_work t =
     \<lparr>cw_work_id = (case derive_canonical_work_id (py ''session1'') (py ''event5'') 5 t of
        Inl _ \<Rightarrow> [] | Inr i \<Rightarrow> i),
      cw_trigger_event_id = py ''event5'', cw_trigger_event_sequence = 5, cw_trigger = t,
      cw_attempt = 1, cw_status = WS_QUEUED, cw_last_failure = None,
      cw_allowed_recovery_actions = []\<rparr>"

definition dead_work :: "work_recovery_action list \<Rightarrow> current_work_state \<Rightarrow> current_work_state" where
  "dead_work acts w =
     w\<lparr>cw_status := WS_DEAD_LETTER, cw_last_failure := Some sample_failure,
       cw_allowed_recovery_actions := acts\<rparr>"

definition sample_run ::
  "topic_lifecycle \<Rightarrow> agent_turn_result option \<Rightarrow> current_work_state option \<Rightarrow> topic_run_state" where
  "sample_run lc turn w =
     \<lparr>tr_topic_run_id = py ''run1'', tr_contract = sample_contract, tr_lifecycle = lc,
      tr_evidence_health = EH_CURRENT, tr_evidence_digest = sample_digest,
      tr_exact_recheck_fingerprint = None, tr_gates = sample_gates,
      tr_learner_model = [sample_entry], tr_current_agent_turn = turn, tr_work = w,
      tr_learner_turn_ids = [py ''turn1''], tr_last_learner_turn_id = Some (py ''turn1''),
      tr_last_learner_text = Some (py ''Because''), tr_current_lens = None, tr_summary = None\<rparr>"

definition reply_trigger :: trigger_binding where
  "reply_trigger =
     sample_trigger TK_LEARNER_REPLY (py ''w1'') (Some (py ''turn1'')) (Some sample_digest)"

definition selection_trigger :: trigger_binding where
  "selection_trigger = sample_trigger TK_TOPIC_SELECTION (py ''w1'') None None"

section \<open>States\<close>

definition sample_state :: dialogue_state where
  "sample_state =
     \<lparr>session_id = py ''session1'', registry_generation = 1, sequence = 9,
      conversation_version = 8, lifecycle = SL_OPEN, phase = PHASE_NONE, candidates = [],
      session_work = None, active_topic = None, paused_topics = [], selected_candidate = None,
      topic_clarification = None, completed_topics = [], exports = []\<rparr>"

definition new_state :: dialogue_state where
  "new_state = sample_state\<lparr>sequence := 0, conversation_version := 0, lifecycle := SL_NEW\<rparr>"

definition asking_state :: dialogue_state where
  "asking_state =
     sample_state\<lparr>phase := AWAITING_USER,
       active_topic := Some (sample_run TL_ACTIVE (Some sample_turn) None)\<rparr>"

definition paused_state :: dialogue_state where
  "paused_state =
     sample_state\<lparr>sequence := 10, conversation_version := 9,
       paused_topics := [sample_run TL_PAUSED (Some sample_turn) None]\<rparr>"

definition waiting_state :: dialogue_state where
  "waiting_state =
     sample_state\<lparr>phase := WAITING_HOST,
       active_topic := Some (sample_run TL_ACTIVE None (Some (sample_work reply_trigger)))\<rparr>"

definition error_state :: dialogue_state where
  "error_state =
     sample_state\<lparr>phase := RECOVERABLE_ERROR,
       active_topic := Some (sample_run TL_ACTIVE None
         (Some (dead_work [RA_RETRY, RA_REGROUND] (sample_work reply_trigger))))\<rparr>"

definition choosing_state :: dialogue_state where
  "choosing_state =
     sample_state\<lparr>phase := CHOOSING_TOPIC, candidates := [py ''Leases'', py ''Exports'']\<rparr>"

definition selecting_state :: "topic_clarification option \<Rightarrow> dialogue_state" where
  "selecting_state c =
     sample_state\<lparr>phase := WAITING_HOST, selected_candidate := Some (py ''Leases''),
       session_work := Some (sample_work selection_trigger), topic_clarification := c\<rparr>"

definition answered_clarification :: topic_clarification where
  "answered_clarification =
     \<lparr>cl_question_id = py ''cq1'', cl_question = py ''Which?'', cl_answer = Some (py ''This'')\<rparr>"

definition completed_state :: dialogue_state where
  "completed_state =
     sample_state\<lparr>sequence := 10, conversation_version := 9,
       completed_topics := [complete_run (sample_run TL_ACTIVE None None) sample_summary]\<rparr>"

section \<open>Events\<close>

definition sample_event :: "dialogue_event_payload \<Rightarrow> committed_dialogue_event" where
  "sample_event p =
     \<lparr>ce_event_id = py ''event5'', ce_sequence = 10, ce_from_version = 8, ce_to_version = 9,
      ce_command_id = py ''cmd1'', ce_payload = p\<rparr>"

definition pause_event :: committed_dialogue_event where
  "pause_event = sample_event (TopicPaused (py ''run1'') PC_USER None None)"

definition complete_event :: committed_dialogue_event where
  "complete_event =
     sample_event (TopicCompleted (py ''run1'') sample_summary reply_trigger sample_evidence 9
       sample_digest)"

section \<open>They are valid\<close>

lemmas sample_defs =
  sample_state_def sample_run_def sample_contract_def sample_evidence_def sample_trigger_def
  sample_context_def sample_gates_def sample_entry_def sample_turn_def sample_summary_def
  sample_failure_def reply_trigger_def selection_trigger_def answered_clarification_def

lemma sample_digest_ok [simp]: "is_sha256_digest sample_digest" "is_sha256_digest other_digest"
  "sample_digest \<noteq> other_digest" "other_digest \<noteq> sample_digest"
  by (simp_all add: is_sha256_digest_def sample_digest_def other_digest_def digest_prefix_def
      is_hex_char_def list_all_iff)

lemma sample_ids [simp]:
  "is_protocol_id (py ''session1'')" "is_protocol_id (py ''event5'')" "is_protocol_id (py ''epoch1'')"
  "is_protocol_id (py ''contract1'')" "is_protocol_id (py ''run1'')" "is_protocol_id (py ''task1'')"
  "is_protocol_id (py ''turn1'')" "is_protocol_id (py ''turn2'')" "is_protocol_id (py ''ref1'')"
  "is_protocol_id (py ''entry1'')" "is_protocol_id (py ''q1'')" "is_protocol_id (py ''fail1'')"
  "is_protocol_id (py ''w1'')" "is_protocol_id (py ''w2'')" "is_protocol_id (py ''cmd1'')"
  "is_protocol_id (py ''Leases'')" "is_protocol_id (py ''Exports'')" "is_protocol_id (py ''Why'')"
  "is_protocol_id (py ''Know'')" "is_protocol_id (py ''Task'')" "is_protocol_id (py ''src'')"
  "is_protocol_id (py ''Heard'')" "is_protocol_id (py ''Further'')" "is_protocol_id (py ''Because'')"
  "is_protocol_id (py ''Takeaway'')" "is_protocol_id (py ''Next'')" "is_protocol_id (py ''timeout'')"
  "is_protocol_id (py ''cq1'')" "is_protocol_id (py ''This'')" "is_protocol_id (py ''Which'')"
  by (simp_all add: is_protocol_id_def py_def is_alnum_char_def is_id_char_def)

lemma sample_texts [simp]: "valid_text (py ''Why?'')" "valid_text (py ''Which?'')"
  "valid_text (py ''A lease is a deadline'')"
  by (simp_all add: valid_text_def strip_eq_Nil_iff py_def py_isspace_def)

lemma sample_contract_valid [simp]: "valid_contract sample_contract"
  by (simp add: valid_contract_def valid_contract_shape_def sample_contract_def
      valid_positive_int_def exactly_required_gates_def REQUIRED_GATES_def enum_gate_id_def)

lemma sample_trigger_canonical [simp]:
  assumes "is_protocol_id wid" and "is_optional_protocol_id p" and "is_optional_sha256_digest c"
  shows "is_canonical_trigger_binding (sample_trigger k wid p c)"
  using assms by (simp add: is_canonical_trigger_binding_def sample_trigger_def)

lemma sample_trigger_simps [simp]:
  "tb_kind (sample_trigger k wid p c) = k" "tb_work_id (sample_trigger k wid p c) = wid"
  "tb_parent_turn_id (sample_trigger k wid p c) = p"
  "tb_contract_digest (sample_trigger k wid p c) = c"
  "tb_input_digest (sample_trigger k wid p c) = sample_digest"
  "tb_evidence_digest (sample_trigger k wid p c) = sample_digest"
  by (simp_all add: sample_trigger_def)

lemma sample_evidence_valid [simp]: "valid_evidence sample_evidence" "valid_evidence stale_evidence"
  by (simp_all add: valid_evidence_def valid_evidence_shape_def sample_evidence_def
      stale_evidence_def)

lemma sample_failure_valid [simp]: "valid_work_failure sample_failure"
    "valid_work_failure permanent_failure"
  by (simp_all add: valid_work_failure_def permanent_failure_def sample_failure_def)

lemma sample_work_valid [simp]:
  assumes "is_canonical_trigger_binding t" and "5 \<le> n"
  shows "valid_current_work (sample_work t) (py ''session1'') n"
    and "valid_current_work (dead_work [RA_RETRY] (sample_work t)) (py ''session1'') n"
    and "valid_current_work (dead_work [RA_RETRY, RA_REGROUND] (sample_work t)) (py ''session1'') n"
proof -
  have "derivable (py ''session1'') (py ''event5'') 5 t" using assms(1) by (simp add: derivable_def)
  from derive_ok [OF this] obtain i
    where "derive_canonical_work_id (py ''session1'') (py ''event5'') 5 t = Inr i" "is_protocol_id i"
    by blast
  with assms show "valid_current_work (sample_work t) (py ''session1'') n"
    and "valid_current_work (dead_work [RA_RETRY] (sample_work t)) (py ''session1'') n"
    and "valid_current_work (dead_work [RA_RETRY, RA_REGROUND] (sample_work t)) (py ''session1'') n"
    by (simp_all add: valid_current_work_def sample_work_def dead_work_def valid_positive_int_def
        MAX_AUTOMATIC_WORK_ATTEMPTS_def valid_work_status_fields_def)
qed

lemma sample_work_simps [simp]:
  "cw_trigger (sample_work t) = t" "cw_status (sample_work t) = WS_QUEUED"
  "cw_attempt (sample_work t) = 1"
  "cw_status (dead_work acts w) = WS_DEAD_LETTER" "cw_trigger (dead_work acts w) = cw_trigger w"
  "cw_allowed_recovery_actions (dead_work acts w) = acts"
  "cw_work_id (dead_work acts w) = cw_work_id w"
  by (simp_all add: sample_work_def dead_work_def)

lemma sample_turn_valid: "valid_agent_turn sample_contract sample_turn sample_evidence {py ''turn1''}"
  by (simp add: valid_agent_turn_def valid_agent_turn_shape_def sample_turn_def sample_gates_def
      sample_contract_def valid_gate_assessment_shape_def valid_gate_assessment_def
      exactly_required_gates_def REQUIRED_GATES_def enum_gate_id_def)

lemma sample_run_valid:
  assumes "absent_or (\<lambda>r. r = sample_turn) turn" and "(turn = None) \<noteq> (w = None)"
    and "vt_work (sample_run lc turn w) lc"
    and "absent_or (\<lambda>w. valid_current_work w (py ''session1'') n) w" and "lc \<noteq> TL_COMPLETED"
  shows "valid_topic_state (sample_run lc turn w) lc (py ''session1'') n"
proof -
  have e: "topic_evidence (sample_run lc turn w) = sample_evidence"
    by (simp add: topic_evidence_def sample_run_def sample_evidence_def)
  have "vt_model (sample_run lc turn w)"
    by (simp add: vt_model_def sample_run_def sample_gates_def sample_entry_def sample_contract_def
      valid_gate_assessment_shape_def valid_gate_assessment_def valid_model_entry_def
      valid_model_entry_shape_def
      exactly_required_gates_def REQUIRED_GATES_def enum_gate_id_def)
  moreover have "vt_agent_turn (sample_run lc turn w)"
    unfolding vt_agent_turn_def e using assms(1) sample_turn_valid
    by (cases turn) (simp_all add: sample_run_def sample_turn_def)
  moreover have "vt_shape (sample_run lc turn w) lc (py ''session1'') n"
    unfolding vt_shape_def e using assms(4) sample_contract_valid
    by (simp add: sample_run_def) (simp add: sample_contract_def)
  ultimately show ?thesis
    using assms by (auto simp: valid_topic_state_def vt_turns_def vt_lifecycle_def sample_run_def)
qed

lemma sample_state_valid: "validate_state sample_state"
  by (simp add: state_defs sample_state_def valid_positive_int_def valid_nonnegative_int_def)

lemma new_state_valid: "validate_state new_state"
  by (simp add: state_defs sample_state_def new_state_def valid_positive_int_def
      valid_nonnegative_int_def)

lemma choosing_state_valid: "validate_state choosing_state"
  using sample_state_valid
  by (simp add: state_defs sample_state_def choosing_state_def valid_candidates_def
      valid_candidates_shape_def)

lemma asking_state_valid: "validate_state asking_state"
  using sample_state_valid sample_run_valid [of "Some sample_turn" None TL_ACTIVE 9]
  by (simp add: state_defs sample_state_def asking_state_def vt_work_def PUBLISHABLE_EVIDENCE_def)
    (simp add: sample_run_def)

lemma paused_state_valid: "validate_state paused_state"
  using sample_state_valid sample_run_valid [of "Some sample_turn" None TL_PAUSED 10]
  by (simp add: state_defs sample_state_def paused_state_def vt_work_def
      valid_nonnegative_int_def)
    (simp add: sample_run_def)

lemma waiting_state_valid: "validate_state waiting_state"
  using sample_state_valid sample_run_valid [of None "Some (sample_work reply_trigger)" TL_ACTIVE 9]
  by (simp add: state_defs sample_state_def waiting_state_def vt_work_def reply_trigger_def
      valid_trigger_def) (simp add: sample_run_def sample_contract_def)

lemma error_state_valid: "validate_state error_state"
  using sample_state_valid
    sample_run_valid [of None "Some (dead_work [RA_RETRY, RA_REGROUND] (sample_work reply_trigger))"
      TL_ACTIVE 9]
  by (simp add: state_defs sample_state_def error_state_def vt_work_def reply_trigger_def
      valid_trigger_def) (simp add: sample_run_def sample_contract_def)

lemma selecting_state_valid:
  assumes "absent_or (\<lambda>c. c = answered_clarification) c"
  shows "validate_state (selecting_state c)"
  using sample_state_valid assms
  by (cases c) (simp_all add: state_defs sample_state_def selecting_state_def selection_trigger_def
      valid_trigger_def valid_clarification_def answered_clarification_def)

section \<open>Two steps\<close>

lemma pause_step: "reduce asking_state pause_event = Inr paused_state"
proof (rule reduce_eq_InrI [OF asking_state_valid _ _ paused_state_valid])
  show "event_fits asking_state pause_event"
    by (simp add: event_fits_def pause_event_def sample_event_def asking_state_def
        sample_state_def valid_committed_event_envelope_def valid_positive_int_def
        valid_nonnegative_int_def)
  show "apply_payload asking_state (advance asking_state pause_event) pause_event
      = Inr paused_state"
    by (simp add: apply_payload_def pause_event_def sample_event_def red_topic_paused_def
        asking_state_def paused_state_def sample_state_def sample_run_def advance_def
        pause_run_def supersede_work_def)
qed

lemma sample_summary_valid: "valid_topic_summary sample_summary"
  by (simp add: valid_topic_summary_def sample_summary_def)

lemma complete_step: "reduce waiting_state complete_event = Inr completed_state"
proof (rule reduce_ok [OF waiting_state_valid])
  show "event_fits waiting_state complete_event"
    using sample_summary_valid sample_evidence_valid
    by (simp add: event_fits_def complete_event_def sample_event_def waiting_state_def
        sample_state_def valid_committed_event_envelope_def valid_positive_int_def
        valid_nonnegative_int_def valid_evidence_def reply_trigger_def)
  show "apply_payload waiting_state (advance waiting_state complete_event) complete_event
      = Inr completed_state"
    by (simp add: apply_payload_def complete_event_def sample_event_def red_topic_completed_def
        waiting_state_def completed_state_def sample_state_def sample_run_def advance_def
        complete_run_def is_queued_def evidence_differs_def sample_evidence_def
        PUBLISHABLE_EVIDENCE_def evidence_fingerprint_def completion_guard_def has_bridge_def
        confirmed_entries_def sample_gates_def enum_gate_id_def sample_entry_def
        sample_summary_def)
qed (simp_all add: waiting_state_def sample_state_def invariant_gap_def complete_event_def
    sample_event_def)

end
