(* ===== verification/Work.thy ===== *)
theory Work
  imports Phases
begin

text \<open>
  \<open>xsync_v2/work.py\<close>: the projection of a dialogue state to the one work item a host may
  run.  The event that created the trigger (\<open>work_origin\<close>) comes from the log and is only
  accepted where it is the one the state names; the projected work carries its identity
  and a digest of the whole binding, and both are recomputed by whoever receives it.
\<close>

section \<open>Data\<close>

record work_origin =
  wo_trigger_event_id :: pystr
  wo_trigger_event_sequence :: int
  wo_event_trigger :: trigger_binding

record runnable_work =
  rw_session_id :: pystr
  rw_registry_generation :: int
  rw_conversation_version :: int
  rw_observed_sequence :: int
  rw_trigger_event_id :: pystr
  rw_trigger_event_sequence :: int
  rw_topic_run_id :: "pystr option"
  rw_kind :: trigger_kind
  rw_trigger_work_id :: pystr
  rw_work_id :: pystr
  rw_trigger_runtime_epoch :: pystr
  rw_parent_turn_id :: "pystr option"
  rw_contract_digest :: "pystr option"
  rw_input_digest :: pystr
  rw_evidence_digest :: pystr
  rw_binding_digest :: pystr

text \<open>
  The codes of \<open>WorkError\<close>; \<open>WORK_IDENTITY\<close> carries the code of \<open>WorkIdentityError\<close>, and
  \<open>BINDING_NOT_ENCODABLE\<close> is the \<open>UnicodeEncodeError\<close> of a tree that is not UTF-8.
\<close>

datatype work_error =
    STATE_INVALID | WORK_ORIGIN_UNEXPECTED | WORK_ORIGIN_INVALID
  | WORK_ORIGIN_TRIGGER_MISMATCH | RUNNABLE_WORK_INVALID | WORK_IDENTITY code
  | BINDING_NOT_ENCODABLE

section \<open>Identity\<close>

definition origin_is_valid :: "work_origin option \<Rightarrow> int \<Rightarrow> bool" where
  "origin_is_valid origin observed \<longleftrightarrow>
     (case origin of
        None \<Rightarrow> False
      | Some wo \<Rightarrow>
          is_protocol_id (wo_trigger_event_id wo)
          \<and> valid_positive_int (wo_trigger_event_sequence wo)
          \<and> wo_trigger_event_sequence wo \<le> observed
          \<and> is_canonical_trigger_binding (wo_event_trigger wo))"

definition lift_identity :: "code + 'a \<Rightarrow> work_error + 'a" where
  "lift_identity r = (case r of Inl e \<Rightarrow> Inl (WORK_IDENTITY e) | Inr x \<Rightarrow> Inr x)"

definition derive_work_id :: "pystr \<Rightarrow> work_origin \<Rightarrow> trigger_binding \<Rightarrow> work_error + pystr" where
  "derive_work_id sid wo t =
     (if \<not> is_protocol_id sid \<or> \<not> origin_is_valid (Some wo) (wo_trigger_event_sequence wo)
         \<or> \<not> is_canonical_trigger_binding t \<or> wo_event_trigger wo \<noteq> t
      then Inl (WORK_IDENTITY WORK_ID_INPUT_INVALID)
      else lift_identity
             (derive_canonical_work_id sid (wo_trigger_event_id wo) (wo_trigger_event_sequence wo) t))"

text \<open>\<open>_binding_tree\<close>: every field of the work but the observed sequence and the digest.\<close>

definition binding_tree :: "runnable_work \<Rightarrow> json" where
  "binding_tree w = JObj
     [(py ''contract_digest'', optional_str (rw_contract_digest w)),
      (py ''conversation_version'', JInt (rw_conversation_version w)),
      (py ''evidence_digest'', JStr (rw_evidence_digest w)),
      (py ''input_digest'', JStr (rw_input_digest w)),
      (py ''kind'', JStr (trigger_kind_value (rw_kind w))),
      (py ''parent_turn_id'', optional_str (rw_parent_turn_id w)),
      (py ''registry_generation'', JInt (rw_registry_generation w)),
      (py ''session_id'', JStr (rw_session_id w)),
      (py ''topic_run_id'', optional_str (rw_topic_run_id w)),
      (py ''trigger_event_id'', JStr (rw_trigger_event_id w)),
      (py ''trigger_event_sequence'', JInt (rw_trigger_event_sequence w)),
      (py ''trigger_runtime_epoch'', JStr (rw_trigger_runtime_epoch w)),
      (py ''trigger_work_id'', JStr (rw_trigger_work_id w)),
      (py ''work_id'', JStr (rw_work_id w))]"

definition work_binding_digest :: "runnable_work \<Rightarrow> work_error + pystr" where
  "work_binding_digest w =
     (case canonical_json_bytes (binding_tree w) of
        None \<Rightarrow> Inl BINDING_NOT_ENCODABLE
      | Some bs \<Rightarrow> Inr (digest_prefix @ hexdigest bs))"

definition runnable_trigger :: "runnable_work \<Rightarrow> trigger_binding" where
  "runnable_trigger w =
     \<lparr>tb_kind = rw_kind w, tb_work_id = rw_trigger_work_id w,
      tb_runtime_epoch = rw_trigger_runtime_epoch w, tb_parent_turn_id = rw_parent_turn_id w,
      tb_contract_digest = rw_contract_digest w, tb_input_digest = rw_input_digest w,
      tb_evidence_digest = rw_evidence_digest w\<rparr>"

definition runnable_work_id :: "runnable_work \<Rightarrow> work_error + pystr" where
  "runnable_work_id w =
     (case derive_canonical_work_id (rw_session_id w) (rw_trigger_event_id w)
             (rw_trigger_event_sequence w) (runnable_trigger w) of
        Inl _ \<Rightarrow> Inl RUNNABLE_WORK_INVALID
      | Inr wid \<Rightarrow> Inr wid)"

definition runnable_shape :: "runnable_work \<Rightarrow> bool" where
  "runnable_shape w \<longleftrightarrow>
     is_protocol_id (rw_session_id w)
     \<and> valid_positive_int (rw_registry_generation w)
     \<and> valid_nonnegative_int (rw_conversation_version w)
     \<and> valid_positive_int (rw_observed_sequence w)
     \<and> is_protocol_id (rw_trigger_event_id w)
     \<and> valid_positive_int (rw_trigger_event_sequence w)
     \<and> rw_trigger_event_sequence w \<le> rw_observed_sequence w
     \<and> is_optional_protocol_id (rw_topic_run_id w)
     \<and> is_protocol_id (rw_trigger_work_id w)
     \<and> is_protocol_id (rw_work_id w)
     \<and> is_protocol_id (rw_trigger_runtime_epoch w)
     \<and> is_optional_protocol_id (rw_parent_turn_id w)
     \<and> is_optional_sha256_digest (rw_contract_digest w)
     \<and> is_sha256_digest (rw_input_digest w)
     \<and> is_sha256_digest (rw_evidence_digest w)
     \<and> is_sha256_digest (rw_binding_digest w)"

definition validate_runnable_work :: "runnable_work \<Rightarrow> work_error + runnable_work" where
  "validate_runnable_work w =
     (if \<not> runnable_shape w then Inl RUNNABLE_WORK_INVALID
      else andthen (runnable_work_id w) (\<lambda>wid.
             if rw_work_id w \<noteq> wid then Inl RUNNABLE_WORK_INVALID
             else andthen (work_binding_digest w) (\<lambda>d.
                    if d \<noteq> rw_binding_digest w then Inl RUNNABLE_WORK_INVALID else Inr w)))"

section \<open>Projection\<close>

text \<open>The queued work of a state: of the session or of the active topic.\<close>

definition queued_candidates :: "dialogue_state \<Rightarrow> current_work_state list" where
  "queued_candidates s = filter (\<lambda>w. cw_status w = WS_QUEUED) (current_works s)"

definition no_binding :: pystr where
  "no_binding = digest_prefix @ replicate 64 48"

definition provisional_work :: "dialogue_state \<Rightarrow> work_origin \<Rightarrow> trigger_binding \<Rightarrow> pystr \<Rightarrow> runnable_work" where
  "provisional_work s wo t wid =
     \<lparr>rw_session_id = session_id s, rw_registry_generation = registry_generation s,
      rw_conversation_version = conversation_version s, rw_observed_sequence = sequence s,
      rw_trigger_event_id = wo_trigger_event_id wo,
      rw_trigger_event_sequence = wo_trigger_event_sequence wo,
      rw_topic_run_id = map_option tr_topic_run_id (active_topic s),
      rw_kind = tb_kind t, rw_trigger_work_id = tb_work_id t, rw_work_id = wid,
      rw_trigger_runtime_epoch = tb_runtime_epoch t, rw_parent_turn_id = tb_parent_turn_id t,
      rw_contract_digest = tb_contract_digest t, rw_input_digest = tb_input_digest t,
      rw_evidence_digest = tb_evidence_digest t, rw_binding_digest = no_binding\<rparr>"

definition nothing_runnable :: "work_origin option \<Rightarrow> work_error + runnable_work option" where
  "nothing_runnable origin =
     (if origin \<noteq> None then Inl WORK_ORIGIN_UNEXPECTED else Inr None)"

definition project_work ::
  "dialogue_state \<Rightarrow> current_work_state \<Rightarrow> work_origin \<Rightarrow> work_error + runnable_work option" where
  "project_work s current wo =
     (if wo_event_trigger wo \<noteq> cw_trigger current
         \<or> wo_trigger_event_id wo \<noteq> cw_trigger_event_id current
         \<or> wo_trigger_event_sequence wo \<noteq> cw_trigger_event_sequence current
      then Inl WORK_ORIGIN_TRIGGER_MISMATCH
      else andthen (derive_work_id (session_id s) wo (cw_trigger current)) (\<lambda>wid.
             if wid \<noteq> cw_work_id current then Inl STATE_INVALID
             else let p = provisional_work s wo (cw_trigger current) wid
                  in andthen (work_binding_digest p) (\<lambda>d.
                     andthen (validate_runnable_work (p\<lparr>rw_binding_digest := d\<rparr>))
                       (\<lambda>w. Inr (Some w)))))"

definition derive_runnable_work ::
  "dialogue_state \<Rightarrow> work_origin option \<Rightarrow> work_error + runnable_work option" where
  "derive_runnable_work s origin =
     (if \<not> validate_state s then Inl STATE_INVALID
      else if lifecycle s \<noteq> SL_OPEN \<or> phase s \<noteq> WAITING_HOST then nothing_runnable origin
      else case queued_candidates s of
             [] \<Rightarrow> nothing_runnable origin
           | [current] \<Rightarrow>
               (if \<not> origin_is_valid origin (sequence s) then Inl WORK_ORIGIN_INVALID
                else case origin of None \<Rightarrow> Inl WORK_ORIGIN_INVALID
                     | Some wo \<Rightarrow> project_work s current wo)
           | _ \<Rightarrow> Inl STATE_INVALID)"

section \<open>Facts\<close>

lemma ascii_binding_tree: "runnable_shape w \<Longrightarrow> ascii_json (binding_tree w)"
  by (simp add: binding_tree_def runnable_shape_def protocol_id_ascii digest_ascii
      optional_digest_ascii optional_id_ascii ascii_trigger_kind_value)
    (simp add: py_def)

lemma binding_digest_ok:
  assumes "runnable_shape w"
  shows "\<exists>d. work_binding_digest w = Inr d \<and> is_sha256_digest d"
  using canonical_json_bytes_ascii [OF ascii_binding_tree [OF assms]]
  by (auto simp: work_binding_digest_def is_sha256_digest_def digest_prefix_def py_def hexdigest_hex)

text \<open>The digest does not depend on the observed sequence or on itself.\<close>

lemma binding_digest_ignores [simp]:
  "work_binding_digest (w\<lparr>rw_binding_digest := d\<rparr>) = work_binding_digest w"
  "work_binding_digest (w\<lparr>rw_observed_sequence := n\<rparr>) = work_binding_digest w"
  by (simp_all add: work_binding_digest_def binding_tree_def)

lemma runnable_work_id_ignores [simp]:
  "runnable_work_id (w\<lparr>rw_binding_digest := d\<rparr>) = runnable_work_id w"
  "runnable_work_id (w\<lparr>rw_observed_sequence := n\<rparr>) = runnable_work_id w"
  by (simp_all add: runnable_work_id_def runnable_trigger_def)

text \<open>At most one work item is queued, and it is the current one.\<close>

lemma queued_candidates_current:
  assumes v: "validate_state s" and p: "phase s = WAITING_HOST"
  shows "queued_candidates s = [] \<or>
    (\<exists>w. queued_candidates s = [w] \<and> current_nonterminal_work s = Some w)"
proof -
  from v p have "length (current_works s) = 1"
    by (simp add: validate_state_def vs_work_phases_def)
  then obtain w where "current_works s = [w]" unfolding length_one_iff ..
  then show ?thesis by (simp add: queued_candidates_def current_nonterminal_work_def)
qed

text \<open>The origin the state names for a work item.\<close>

definition origin_of :: "current_work_state \<Rightarrow> work_origin" where
  "origin_of w =
     \<lparr>wo_trigger_event_id = cw_trigger_event_id w,
      wo_trigger_event_sequence = cw_trigger_event_sequence w, wo_event_trigger = cw_trigger w\<rparr>"

lemma current_work_valid:
  assumes v: "validate_state s" and w: "current_nonterminal_work s = Some w"
  shows "valid_current_work w (session_id s) (sequence s)" and "lifecycle s = SL_OPEN"
  using waiting_work [OF v w] valid_session_work(1,3) [OF v]
    valid_work_slot(1) valid_active_topic(1,2) [OF v] by blast+

definition projected :: "dialogue_state \<Rightarrow> current_work_state \<Rightarrow> runnable_work" where
  "projected s w = provisional_work s (origin_of w) (cw_trigger w) (cw_work_id w)"

lemma provisional_shape:
  assumes v: "validate_state s" and w: "current_nonterminal_work s = Some w"
  shows "runnable_shape (projected s w)"
proof -
  note c = current_work_valid(1) [OF v w]
  have "is_optional_protocol_id (map_option tr_topic_run_id (active_topic s))"
    using run_id_text(2) [OF valid_active_topic(1) [OF v]]
    by (auto simp: is_optional_protocol_id_def split: option.split)
  moreover have "is_sha256_digest no_binding"
    by (simp add: is_sha256_digest_def no_binding_def digest_prefix_def is_hex_char_def py_def
        list_all_length)
  moreover have "is_protocol_id (session_id s)" "valid_positive_int (registry_generation s)"
    "valid_nonnegative_int (conversation_version s)"
    using v by (simp_all add: validate_state_def vs_fields_def)
  ultimately show ?thesis
    using c by (simp add: projected_def provisional_work_def runnable_shape_def origin_of_def
        valid_current_work_def is_canonical_trigger_binding_def valid_positive_int_def)
qed

text \<open>The queued work of a valid state is always projected, to work that validates.\<close>

lemma project_work_ok:
  assumes v: "validate_state s" and w: "current_nonterminal_work s = Some w"
  shows "\<exists>d. project_work s w (origin_of w) = Inr (Some (projected s w\<lparr>rw_binding_digest := d\<rparr>))
    \<and> validate_runnable_work (projected s w\<lparr>rw_binding_digest := d\<rparr>)
        = Inr (projected s w\<lparr>rw_binding_digest := d\<rparr>)"
proof -
  let ?p = "projected s w"
  note c = current_work_valid(1) [OF v w]
  have shape: "runnable_shape ?p" using v w by (rule provisional_shape)
  then obtain d where d: "work_binding_digest ?p = Inr d" "is_sha256_digest d"
    using binding_digest_ok by blast
  have der: "derive_canonical_work_id (session_id s) (cw_trigger_event_id w)
      (cw_trigger_event_sequence w) (cw_trigger w) = Inr (cw_work_id w)"
    using c by (simp add: valid_current_work_def split: sum.splits)
  have "runnable_trigger ?p = cw_trigger w"
    by (simp add: projected_def provisional_work_def runnable_trigger_def)
  then have "runnable_work_id ?p = Inr (cw_work_id w)"
    using der by (simp add: runnable_work_id_def projected_def provisional_work_def origin_of_def)
  moreover have "runnable_shape (?p\<lparr>rw_binding_digest := d\<rparr>)"
    using shape d(2) by (simp add: runnable_shape_def)
  moreover have "rw_work_id ?p = cw_work_id w" by (simp add: projected_def provisional_work_def)
  ultimately have val: "validate_runnable_work (?p\<lparr>rw_binding_digest := d\<rparr>)
      = Inr (?p\<lparr>rw_binding_digest := d\<rparr>)"
    using d(1) by (simp add: validate_runnable_work_def)
  have "derive_work_id (session_id s) (origin_of w) (cw_trigger w) = Inr (cw_work_id w)"
    using der c v by (simp add: derive_work_id_def origin_of_def origin_is_valid_def lift_identity_def
        valid_current_work_def validate_state_def vs_fields_def)
  with d(1) val show ?thesis
    by (intro exI [of _ d])
      (simp add: project_work_def Let_def projected_def [symmetric], simp add: origin_of_def)
qed

lemma derive_runnable_queued:
  assumes v: "validate_state s" and w: "queued_candidates s = [w]" and p: "phase s = WAITING_HOST"
  shows "derive_runnable_work s (Some (origin_of w)) = project_work s w (origin_of w)"
    and "current_nonterminal_work s = Some w"
proof -
  show c: "current_nonterminal_work s = Some w" using queued_candidates_current [OF v p] w by auto
  from current_work_valid [OF v c] have "origin_is_valid (Some (origin_of w)) (sequence s)"
    and "lifecycle s = SL_OPEN"
    by (simp_all add: origin_is_valid_def origin_of_def valid_current_work_def)
  with v w p show "derive_runnable_work s (Some (origin_of w)) = project_work s w (origin_of w)"
    by (simp add: derive_runnable_work_def)
qed

text \<open>Only the origin the state names is accepted.\<close>

lemma project_work_InrD:
  assumes "project_work s w wo = Inr r"
  shows "wo = origin_of w"
  using assms by (cases wo) (auto simp: project_work_def origin_of_def split: if_splits)

end
