(* ===== verification/Registry.thy ===== *)
theory Registry
  imports Work_Identity Event_Sourcing
begin

text \<open>
  The session registry (\<open>xsync_v2/registry.py\<close>): which session may write, under which
  generation, and the two-step hand-off from one session to the next.  \<open>rg_decide\<close> is
  \<open>decide\<close>, \<open>rg_reduce\<close> is \<open>reduce\<close>; a transaction of one or two events is applied as a
  whole.  \<open>_valid_id\<close> and \<open>_valid_digest\<close> use the patterns of \<open>work_identity.py\<close>.
\<close>

section \<open>Data\<close>

datatype registration_status = RG_CREATED | RG_ACTIVE | RG_DEACTIVATING | RG_DEACTIVATED

datatype activation_kind = AK_INITIAL | AK_HANDOFF

record activate_target =
  tg_session_id :: pystr
  tg_config_digest :: pystr

record registered_dialogue =
  rd_session_id :: pystr
  rd_config_digest :: pystr
  rd_status :: registration_status
  rd_created_sequence :: int
  rd_activated_generation :: "int option"
  rd_deactivated_generation :: "int option"
  rd_deactivation_handoff_id :: "pystr option"

record pending_handoff =
  ph_handoff_id :: pystr
  ph_source_session_id :: pystr
  ph_target :: activate_target
  ph_generation :: int
  ph_started_sequence :: int

record quiesce_proof =
  qp_source_session_id :: pystr
  qp_target :: activate_target
  qp_handoff_id :: pystr
  qp_generation :: int
  qp_last_sequence :: int
  qp_last_event_id :: pystr
  qp_event_digest :: pystr
  qp_transaction_digest :: pystr
  qp_state_digest :: pystr

record command_receipt =
  rc_command_id :: pystr
  rc_body_digest :: pystr
  rc_transaction_id :: pystr
  rc_transaction_digest :: pystr
  rc_first_sequence :: int
  rc_last_sequence :: int
  rc_event_ids :: "pystr list"
  rc_event_digests :: "pystr list"

record registry_state =
  rs_registry_id :: pystr
  rs_sequence :: int
  rs_generation :: int
  rs_current_session_id :: "pystr option"
  rs_dialogues :: "registered_dialogue list"
  rs_pending_handoff :: "pending_handoff option"
  rs_receipts :: "command_receipt list"

text \<open>The fields all three commands share, then the body of each.\<close>

record registry_command_head =
  rh_command_id :: pystr
  rh_body_digest :: pystr
  rh_expected_sequence :: int
  rh_expected_generation :: int

datatype registry_command =
    CreateAndActivateDialogue (rc_head: registry_command_head) activate_target
  | BeginHandoff (rc_head: registry_command_head) pystr pystr activate_target
      \<comment> \<open>handoff id, source session\<close>
  | CompleteHandoff (rc_head: registry_command_head) pystr quiesce_proof

datatype registry_payload =
    DialogueCreated activate_target
  | DeactivationStarted pending_handoff
  | Deactivated quiesce_proof
  | Activated activate_target int activation_kind "pystr option"

record pending_registry_event =
  pr_command_id :: pystr
  pr_body_digest :: pystr
  pr_payload :: registry_payload

record committed_registry_event =
  re_event_id :: pystr
  re_event_digest :: pystr
  re_sequence :: int
  re_generation :: int
  re_command_id :: pystr
  re_body_digest :: pystr
  re_payload :: registry_payload

record registry_transaction =
  tx_transaction_id :: pystr
  tx_transaction_digest :: pystr
  tx_events :: "committed_registry_event list"

datatype registry_code =
    RG_STATE_INVARIANT_VIOLATION | RG_VALIDATION_FAILED | RG_IDEMPOTENCY_CONFLICT
  | REGISTRY_SEQUENCE_CONFLICT | REGISTRY_GENERATION_CONFLICT | REGISTRY_STATE_CONFLICT
  | HANDOFF_IN_PROGRESS | SESSION_NOT_CURRENT | HANDOFF_ID_CONFLICT | TARGET_SESSION_CONFLICT
  | HANDOFF_PROOF_INVALID | INVALID_REGISTRY_ID | INVALID_REGISTRY_EVENT
  | INVALID_REGISTRY_TRANSACTION | REGISTRY_INTEGRITY_ERROR | REGISTRY_SEQUENCE_GAP
  | INVALID_CANONICAL_VALUE | INVALID_REGISTRY_ACCEPTED_BATCH
  | INVALID_COMMITTED_REGISTRY_EVENT | REGISTRY_EVENT_DIGEST_MISMATCH
  | INVALID_COMMITTED_REGISTRY_TRANSACTION | REGISTRY_TRANSACTION_DIGEST_MISMATCH
  | INVALID_STORED_REGISTRY_EVENT | STORED_REGISTRY_EVENT_HASH_MISMATCH
  | INVALID_REGISTRY_TRANSACTION_MARKER | REGISTRY_TRANSACTION_MARKER_HASH_MISMATCH

datatype registry_decision =
    RegistryAccepted "pending_registry_event list"
  | RegistryRejected registry_code
  | RegistryIdempotent command_receipt

section \<open>Validation\<close>

definition rg_valid_target :: "activate_target \<Rightarrow> bool" where
  "rg_valid_target t \<longleftrightarrow> is_protocol_id (tg_session_id t) \<and> is_sha256_digest (tg_config_digest t)"

definition rg_valid_optional_positive :: "int option \<Rightarrow> bool" where
  "rg_valid_optional_positive v = (case v of None \<Rightarrow> True | Some n \<Rightarrow> 1 \<le> n)"

definition rg_valid_registered :: "registered_dialogue \<Rightarrow> registry_state \<Rightarrow> bool" where
  "rg_valid_registered d s \<longleftrightarrow>
     is_protocol_id (rd_session_id d) \<and> is_sha256_digest (rd_config_digest d)
     \<and> 1 \<le> rd_created_sequence d \<and> rd_created_sequence d \<le> rs_sequence s
     \<and> rg_valid_optional_positive (rd_activated_generation d)
     \<and> rg_valid_optional_positive (rd_deactivated_generation d)
     \<and> is_optional_protocol_id (rd_deactivation_handoff_id d)
     \<and> (case rd_status d of
          RG_CREATED \<Rightarrow>
            rd_activated_generation d = None \<and> rd_deactivated_generation d = None
            \<and> rd_deactivation_handoff_id d = None
        | RG_ACTIVE \<Rightarrow>
            (case rd_activated_generation d of None \<Rightarrow> False | Some a \<Rightarrow> a \<le> rs_generation s)
            \<and> rd_deactivated_generation d = None \<and> rd_deactivation_handoff_id d = None
        | RG_DEACTIVATING \<Rightarrow>
            (case rd_activated_generation d of None \<Rightarrow> False | Some a \<Rightarrow> a < rs_generation s)
            \<and> rd_deactivated_generation d = None \<and> rd_deactivation_handoff_id d = None
        | RG_DEACTIVATED \<Rightarrow>
            (case (rd_activated_generation d, rd_deactivated_generation d) of
               (Some a, Some b) \<Rightarrow> a < b \<and> b \<le> rs_generation s
             | _ \<Rightarrow> False)
            \<and> rd_deactivation_handoff_id d \<noteq> None)"

definition rg_valid_pending :: "pending_handoff \<Rightarrow> bool" where
  "rg_valid_pending h \<longleftrightarrow>
     is_protocol_id (ph_handoff_id h) \<and> is_protocol_id (ph_source_session_id h)
     \<and> rg_valid_target (ph_target h) \<and> ph_source_session_id h \<noteq> tg_session_id (ph_target h)
     \<and> 1 \<le> ph_generation h \<and> 1 \<le> ph_started_sequence h"

definition rg_valid_proof :: "quiesce_proof \<Rightarrow> bool" where
  "rg_valid_proof q \<longleftrightarrow>
     is_protocol_id (qp_source_session_id q) \<and> rg_valid_target (qp_target q)
     \<and> qp_source_session_id q \<noteq> tg_session_id (qp_target q)
     \<and> is_protocol_id (qp_handoff_id q) \<and> 1 \<le> qp_generation q \<and> 0 \<le> qp_last_sequence q
     \<and> is_protocol_id (qp_last_event_id q) \<and> is_sha256_digest (qp_event_digest q)
     \<and> is_sha256_digest (qp_transaction_digest q) \<and> is_sha256_digest (qp_state_digest q)"

definition rg_valid_receipt :: "command_receipt \<Rightarrow> bool" where
  "rg_valid_receipt r \<longleftrightarrow>
     is_protocol_id (rc_command_id r) \<and> is_sha256_digest (rc_body_digest r)
     \<and> is_protocol_id (rc_transaction_id r) \<and> is_sha256_digest (rc_transaction_digest r)
     \<and> 1 \<le> rc_first_sequence r \<and> 1 \<le> rc_last_sequence r
     \<and> rc_first_sequence r \<le> rc_last_sequence r
     \<and> list_all is_protocol_id (rc_event_ids r) \<and> list_all is_sha256_digest (rc_event_digests r)
     \<and> int (length (rc_event_ids r)) = rc_last_sequence r - rc_first_sequence r + 1
     \<and> int (length (rc_event_digests r)) = rc_last_sequence r - rc_first_sequence r + 1
     \<and> distinct (rc_event_ids r)"

definition dialogue_by_id :: "registered_dialogue list \<Rightarrow> pystr \<Rightarrow> registered_dialogue option" where
  "dialogue_by_id ds sid = find (\<lambda>d. rd_session_id d = sid) ds"

definition with_status :: "registration_status \<Rightarrow> registry_state \<Rightarrow> registered_dialogue list" where
  "with_status st s = filter (\<lambda>d. rd_status d = st) (rs_dialogues s)"

text \<open>The receipts cover the sequence numbers one after the other, up to the tip.\<close>

fun receipts_chain :: "int \<Rightarrow> int \<Rightarrow> command_receipt list \<Rightarrow> bool" where
  "receipts_chain expected tip [] \<longleftrightarrow> True"
| "receipts_chain expected tip (r # rs) \<longleftrightarrow>
     rc_first_sequence r = expected \<and> rc_last_sequence r \<le> tip
     \<and> receipts_chain (rc_last_sequence r + 1) tip rs"

definition receipt_event_ids :: "registry_state \<Rightarrow> pystr list" where
  "receipt_event_ids s = concat (map rc_event_ids (rs_receipts s))"

text \<open>The clauses of \<open>_validate_state\<close>.\<close>

definition rg_fields :: "registry_state \<Rightarrow> bool" where
  "rg_fields s \<longleftrightarrow>
     is_protocol_id (rs_registry_id s) \<and> 0 \<le> rs_sequence s \<and> 0 \<le> rs_generation s
     \<and> is_optional_protocol_id (rs_current_session_id s)
     \<and> (case rs_pending_handoff s of None \<Rightarrow> True | Some h \<Rightarrow> rg_valid_pending h)
     \<and> list_all (\<lambda>d. rg_valid_registered d s) (rs_dialogues s)
     \<and> list_all rg_valid_receipt (rs_receipts s)"

definition rg_unique :: "registry_state \<Rightarrow> bool" where
  "rg_unique s \<longleftrightarrow>
     distinct (map rd_session_id (rs_dialogues s))
     \<and> distinct (map rc_command_id (rs_receipts s))
     \<and> distinct (map rc_transaction_id (rs_receipts s))
     \<and> distinct (receipt_event_ids s)"

definition rg_receipts :: "registry_state \<Rightarrow> bool" where
  "rg_receipts s \<longleftrightarrow>
     receipts_chain 1 (rs_sequence s) (rs_receipts s)
     \<and> (if rs_receipts s = [] then rs_sequence s = 0
        else rc_last_sequence (last (rs_receipts s)) = rs_sequence s)"

definition rg_authority :: "registry_state \<Rightarrow> bool" where
  "rg_authority s =
     (case rs_pending_handoff s of
        None \<Rightarrow>
          with_status RG_DEACTIVATING s = []
          \<and> (case rs_current_session_id s of
               None \<Rightarrow> with_status RG_ACTIVE s = [] \<and> rs_generation s = 0
             | Some c \<Rightarrow>
                 (case dialogue_by_id (rs_dialogues s) c of
                    None \<Rightarrow> False
                  | Some d \<Rightarrow>
                      rd_status d = RG_ACTIVE \<and> rd_activated_generation d = Some (rs_generation s)
                      \<and> with_status RG_ACTIVE s = [d]))
      | Some h \<Rightarrow>
          rs_current_session_id s = Some (ph_source_session_id h)
          \<and> ph_generation h = rs_generation s
          \<and> ph_started_sequence h \<le> rs_sequence s
          \<and> (case dialogue_by_id (rs_dialogues s) (ph_source_session_id h) of
               None \<Rightarrow> False
             | Some d \<Rightarrow>
                 rd_status d = RG_DEACTIVATING \<and> with_status RG_DEACTIVATING s = [d])
          \<and> (case dialogue_by_id (rs_dialogues s) (tg_session_id (ph_target h)) of
               None \<Rightarrow> False
             | Some d \<Rightarrow>
                 rd_status d = RG_CREATED
                 \<and> rd_config_digest d = tg_config_digest (ph_target h))
          \<and> with_status RG_ACTIVE s = [])"

definition rg_valid :: "registry_state \<Rightarrow> bool" where
  "rg_valid s \<longleftrightarrow> rg_fields s \<and> rg_unique s \<and> rg_receipts s \<and> rg_authority s"

fun rg_valid_command_body :: "registry_command \<Rightarrow> bool" where
  "rg_valid_command_body (CreateAndActivateDialogue _ t) \<longleftrightarrow> rg_valid_target t"
| "rg_valid_command_body (BeginHandoff _ hid src t) \<longleftrightarrow>
     is_protocol_id hid \<and> is_protocol_id src \<and> rg_valid_target t \<and> src \<noteq> tg_session_id t"
| "rg_valid_command_body (CompleteHandoff _ hid q) \<longleftrightarrow> is_protocol_id hid \<and> rg_valid_proof q"

definition rg_valid_command :: "registry_command \<Rightarrow> bool" where
  "rg_valid_command c \<longleftrightarrow>
     is_protocol_id (rh_command_id (rc_head c)) \<and> is_sha256_digest (rh_body_digest (rc_head c))
     \<and> 0 \<le> rh_expected_sequence (rc_head c) \<and> 0 \<le> rh_expected_generation (rc_head c)
     \<and> rg_valid_command_body c"

fun rg_valid_payload :: "registry_payload \<Rightarrow> bool" where
  "rg_valid_payload (DialogueCreated t) \<longleftrightarrow> rg_valid_target t"
| "rg_valid_payload (DeactivationStarted h) \<longleftrightarrow> rg_valid_pending h"
| "rg_valid_payload (Deactivated q) \<longleftrightarrow> rg_valid_proof q"
| "rg_valid_payload (Activated t g k hid) \<longleftrightarrow>
     rg_valid_target t \<and> 1 \<le> g \<and> is_optional_protocol_id hid
     \<and> ((k = AK_INITIAL \<and> hid = None) \<or> (k = AK_HANDOFF \<and> hid \<noteq> None))"

definition receipt_for_command :: "registry_state \<Rightarrow> pystr \<Rightarrow> command_receipt option" where
  "receipt_for_command s cid = find (\<lambda>r. rc_command_id r = cid) (rs_receipts s)"

definition initial_registry_state :: "pystr \<Rightarrow> registry_code + registry_state" where
  "initial_registry_state rid =
     (if \<not> is_protocol_id rid then Inl INVALID_REGISTRY_ID
      else Inr \<lparr>rs_registry_id = rid, rs_sequence = 0, rs_generation = 0,
                rs_current_session_id = None, rs_dialogues = [], rs_pending_handoff = None,
                rs_receipts = []\<rparr>)"

section \<open>Decide\<close>

definition rg_accept :: "registry_command \<Rightarrow> registry_payload list \<Rightarrow> registry_decision" where
  "rg_accept c ps =
     RegistryAccepted
       (map (\<lambda>p. \<lparr>pr_command_id = rh_command_id (rc_head c),
                   pr_body_digest = rh_body_digest (rc_head c), pr_payload = p\<rparr>) ps)"

definition decide_create :: "registry_state \<Rightarrow> registry_command \<Rightarrow> activate_target \<Rightarrow> registry_decision" where
  "decide_create s c t =
     (if rs_current_session_id s \<noteq> None \<or> rs_pending_handoff s \<noteq> None
         \<or> dialogue_by_id (rs_dialogues s) (tg_session_id t) \<noteq> None
      then RegistryRejected REGISTRY_STATE_CONFLICT
      else rg_accept c
             [DialogueCreated t, Activated t (rs_generation s + 1) AK_INITIAL None])"

definition decide_begin ::
  "registry_state \<Rightarrow> registry_command \<Rightarrow> pystr \<Rightarrow> pystr \<Rightarrow> activate_target \<Rightarrow> registry_decision" where
  "decide_begin s c hid src t =
     (if rs_pending_handoff s \<noteq> None then RegistryRejected HANDOFF_IN_PROGRESS
      else if Some src \<noteq> rs_current_session_id s then RegistryRejected SESSION_NOT_CURRENT
      else case dialogue_by_id (rs_dialogues s) src of
             None \<Rightarrow> RegistryRejected REGISTRY_STATE_CONFLICT
           | Some d \<Rightarrow>
               if rd_status d \<noteq> RG_ACTIVE then RegistryRejected REGISTRY_STATE_CONFLICT
               else if list_ex (\<lambda>x. rd_deactivation_handoff_id x = Some hid) (rs_dialogues s)
               then RegistryRejected HANDOFF_ID_CONFLICT
               else (let started = (\<lambda>n. DeactivationStarted
                           \<lparr>ph_handoff_id = hid, ph_source_session_id = src, ph_target = t,
                            ph_generation = rs_generation s + 1,
                            ph_started_sequence = rs_sequence s + n\<rparr>)
                     in case dialogue_by_id (rs_dialogues s) (tg_session_id t) of
                          None \<Rightarrow> rg_accept c [DialogueCreated t, started 2]
                        | Some x \<Rightarrow>
                            if rd_status x = RG_CREATED \<and> rd_config_digest x = tg_config_digest t
                            then rg_accept c [started 1]
                            else RegistryRejected TARGET_SESSION_CONFLICT))"

definition proof_matches_pending :: "quiesce_proof \<Rightarrow> pending_handoff \<Rightarrow> bool" where
  "proof_matches_pending q h \<longleftrightarrow>
     qp_source_session_id q = ph_source_session_id h \<and> qp_target q = ph_target h
     \<and> qp_handoff_id q = ph_handoff_id h \<and> qp_generation q = ph_generation h"

definition decide_complete ::
  "registry_state \<Rightarrow> registry_command \<Rightarrow> pystr \<Rightarrow> quiesce_proof \<Rightarrow> registry_decision" where
  "decide_complete s c hid q =
     (case rs_pending_handoff s of
        None \<Rightarrow> RegistryRejected REGISTRY_STATE_CONFLICT
      | Some h \<Rightarrow>
          if hid \<noteq> ph_handoff_id h then RegistryRejected HANDOFF_PROOF_INVALID
          else if \<not> proof_matches_pending q h then RegistryRejected HANDOFF_PROOF_INVALID
          else rg_accept c
                 [Deactivated q,
                  Activated (ph_target h) (ph_generation h) AK_HANDOFF (Some (ph_handoff_id h))])"

definition rg_decide :: "registry_state \<Rightarrow> registry_command \<Rightarrow> registry_decision" where
  "rg_decide s c =
     (if \<not> rg_valid s then RegistryRejected RG_STATE_INVARIANT_VIOLATION
      else if \<not> rg_valid_command c then RegistryRejected RG_VALIDATION_FAILED
      else case receipt_for_command s (rh_command_id (rc_head c)) of
             Some r \<Rightarrow>
               if rc_body_digest r = rh_body_digest (rc_head c) then RegistryIdempotent r
               else RegistryRejected RG_IDEMPOTENCY_CONFLICT
           | None \<Rightarrow>
               if rh_expected_sequence (rc_head c) \<noteq> rs_sequence s
               then RegistryRejected REGISTRY_SEQUENCE_CONFLICT
               else if rh_expected_generation (rc_head c) \<noteq> rs_generation s
               then RegistryRejected REGISTRY_GENERATION_CONFLICT
               else (case c of
                       CreateAndActivateDialogue _ t \<Rightarrow> decide_create s c t
                     | BeginHandoff _ hid src t \<Rightarrow> decide_begin s c hid src t
                     | CompleteHandoff _ hid q \<Rightarrow> decide_complete s c hid q))"

end
