(* ===== verification/Lease.thy ===== *)
theory Lease
  imports Work Registry
begin

text \<open>
  The records of \<open>xsync_v2/lease_store.py\<close>: requests, leases and the transactions that
  are at once the commit point and the receipt of a lease mutation; their JSON trees and
  hashes.
\<close>

section \<open>Data\<close>

datatype lease_operation = LO_CLAIM | LO_RENEW | LO_RECLAIM

record claim_request =
  cr_session_id :: pystr
  cr_request_id :: pystr
  cr_claim_id :: pystr
  cr_work_id :: pystr
  cr_owner_id :: pystr
  cr_lease_seconds :: int
  cr_max_tenure_seconds :: int

record renew_request =
  nr_session_id :: pystr
  nr_request_id :: pystr
  nr_claim_id :: pystr
  nr_work_id :: pystr
  nr_owner_id :: pystr
  nr_expected_lease_version :: int
  nr_lease_seconds :: int

record reclaim_request =
  qr_session_id :: pystr
  qr_request_id :: pystr
  qr_claim_id :: pystr
  qr_work_id :: pystr
  qr_owner_id :: pystr
  qr_expected_work_attempt :: int
  qr_lease_seconds :: int
  qr_max_tenure_seconds :: int

datatype lease_request = Claim claim_request | Renew renew_request | Reclaim reclaim_request

record publish_fence =
  pf_session_id :: pystr
  pf_claim_id :: pystr
  pf_work_id :: pystr
  pf_owner_id :: pystr
  pf_runtime_epoch :: pystr
  pf_lease_version :: int
  pf_registry_generation :: int

record lease_record =
  lr_session_id :: pystr
  lr_work_id :: pystr
  lr_binding_digest :: pystr
  lr_claim_id :: pystr
  lr_owner_id :: pystr
  lr_runtime_epoch :: pystr
  lr_lease_version :: int
  lr_registry_generation :: int
  lr_acquired_at :: int
  lr_renewed_at :: int
  lr_expires_at :: int
  lr_absolute_expires_at :: int

record lease_transaction =
  lt_sequence :: int
  lt_operation :: lease_operation
  lt_request_id :: pystr
  lt_request_digest :: pystr
  lt_request :: lease_request
  lt_recorded_at :: int
  lt_previous_hash :: "pystr option"
  lt_work :: runnable_work
  lt_lease :: lease_record
  lt_hash :: pystr

text \<open>
  The codes of \<open>LeaseStoreError\<close>; \<open>WORK_PROJECTION\<close> carries the code of \<open>WorkError\<close>,
  \<open>LOCK_FAILURE\<close> that of \<open>LockError\<close> and \<open>STORAGE_FAILURE\<close> that of \<open>SecureFsError\<close>.
\<close>

datatype lease_code =
    INVALID_CLAIM_REQUEST | INVALID_RENEW_REQUEST | INVALID_RECLAIM_REQUEST
  | INVALID_PUBLISH_FENCE | INVALID_SESSION_ID | LEASE_RECORD_INVALID | LEASE_RECORD_TOO_LARGE
  | LEASE_RECORD_NOT_ENCODABLE | LEASE_HISTORY_INVALID | LEASE_EXHAUSTION_PROOF_INVALID
  | LEASE_RECLAIM_NOT_EXHAUSTED | AUTHORITATIVE_WORK_INVALID | AUTHORITATIVE_SNAPSHOT_FAILED
  | AUTHORITATIVE_SNAPSHOT_INVALID | LS_IDEMPOTENCY_CONFLICT | WORK_SUPERSEDED
  | WORK_IDENTITY_CONFLICT | WORK_ALREADY_LEASED | LEASE_RECLAIM_REQUIRED | LEASE_NOT_FOUND
  | LEASE_RENEWAL_LIMIT | LEASE_EPOCH_FENCED | LEASE_FENCED | LEASE_VERSION_CONFLICT
  | CLOCK_ROLLED_BACK | CLOCK_FAILED | CLOCK_INVALID | LEASE_TENURE_EXPIRED | LEASE_EXPIRED
  | LEASE_RENEWAL_NOT_EXTENDED | LEASE_STILL_ACTIVE | CLAIM_ID_REUSED | OWNER_ID_REUSED
  | LS_SESSION_DEACTIVATED | NO_RUNNABLE_WORK | RUNTIME_AUTHORITY_FAILED
  | RUNTIME_AUTHORITY_REJECTED | LEASE_CONCURRENT_MODIFICATION | LOCK_AUTHORITY_REQUIRED
  | LOCK_FAILURE pystr | STORAGE_FAILURE pystr | WORK_PROJECTION work_error

definition MAX_TRANSACTION_BYTES :: nat where "MAX_TRANSACTION_BYTES = 64 * 1024"
definition MAX_LEASE_SECONDS :: int where "MAX_LEASE_SECONDS = 3600"
definition MAX_TENURE_SECONDS :: int where "MAX_TENURE_SECONDS = 24 * 60 * 60"
definition MAX_RENEWALS_PER_TENURE :: nat where "MAX_RENEWALS_PER_TENURE = 256"
definition MAX_RECLAIMS_PER_WORK :: nat where "MAX_RECLAIMS_PER_WORK = 2"

section \<open>Requests\<close>

definition valid_duration :: "int \<Rightarrow> bool" where
  "valid_duration n \<longleftrightarrow> valid_positive_int n \<and> n \<le> MAX_LEASE_SECONDS"

definition valid_tenure :: "int \<Rightarrow> int \<Rightarrow> bool" where
  "valid_tenure n lease_seconds \<longleftrightarrow>
     valid_positive_int n \<and> n \<le> MAX_TENURE_SECONDS \<and> lease_seconds \<le> n"

definition valid_claim_request :: "claim_request \<Rightarrow> bool" where
  "valid_claim_request r \<longleftrightarrow>
     is_protocol_id (cr_session_id r) \<and> is_protocol_id (cr_request_id r)
     \<and> is_protocol_id (cr_claim_id r) \<and> is_protocol_id (cr_work_id r)
     \<and> is_protocol_id (cr_owner_id r) \<and> valid_duration (cr_lease_seconds r)
     \<and> valid_tenure (cr_max_tenure_seconds r) (cr_lease_seconds r)"

definition valid_reclaim_request :: "reclaim_request \<Rightarrow> bool" where
  "valid_reclaim_request r \<longleftrightarrow>
     is_protocol_id (qr_session_id r) \<and> is_protocol_id (qr_request_id r)
     \<and> is_protocol_id (qr_claim_id r) \<and> is_protocol_id (qr_work_id r)
     \<and> is_protocol_id (qr_owner_id r) \<and> valid_positive_int (qr_expected_work_attempt r)
     \<and> valid_duration (qr_lease_seconds r)
     \<and> valid_tenure (qr_max_tenure_seconds r) (qr_lease_seconds r)"

definition valid_renew_request :: "renew_request \<Rightarrow> bool" where
  "valid_renew_request r \<longleftrightarrow>
     is_protocol_id (nr_session_id r) \<and> is_protocol_id (nr_request_id r)
     \<and> is_protocol_id (nr_claim_id r) \<and> is_protocol_id (nr_work_id r)
     \<and> is_protocol_id (nr_owner_id r) \<and> valid_positive_int (nr_expected_lease_version r)
     \<and> valid_duration (nr_lease_seconds r)"

definition valid_publish_fence :: "publish_fence \<Rightarrow> bool" where
  "valid_publish_fence f \<longleftrightarrow>
     is_protocol_id (pf_session_id f) \<and> is_protocol_id (pf_claim_id f)
     \<and> is_protocol_id (pf_work_id f) \<and> is_protocol_id (pf_owner_id f)
     \<and> is_protocol_id (pf_runtime_epoch f) \<and> valid_positive_int (pf_lease_version f)
     \<and> valid_positive_int (pf_registry_generation f)"

text \<open>The fields every request has.\<close>

fun lq_session_id :: "lease_request \<Rightarrow> pystr" where
  "lq_session_id (Claim r) = cr_session_id r"
| "lq_session_id (Renew r) = nr_session_id r"
| "lq_session_id (Reclaim r) = qr_session_id r"

fun lq_request_id :: "lease_request \<Rightarrow> pystr" where
  "lq_request_id (Claim r) = cr_request_id r"
| "lq_request_id (Renew r) = nr_request_id r"
| "lq_request_id (Reclaim r) = qr_request_id r"

fun lq_claim_id :: "lease_request \<Rightarrow> pystr" where
  "lq_claim_id (Claim r) = cr_claim_id r"
| "lq_claim_id (Renew r) = nr_claim_id r"
| "lq_claim_id (Reclaim r) = qr_claim_id r"

fun lq_work_id :: "lease_request \<Rightarrow> pystr" where
  "lq_work_id (Claim r) = cr_work_id r"
| "lq_work_id (Renew r) = nr_work_id r"
| "lq_work_id (Reclaim r) = qr_work_id r"

fun lq_owner_id :: "lease_request \<Rightarrow> pystr" where
  "lq_owner_id (Claim r) = cr_owner_id r"
| "lq_owner_id (Renew r) = nr_owner_id r"
| "lq_owner_id (Reclaim r) = qr_owner_id r"

section \<open>Trees and hashes\<close>

text \<open>\<open>_canonical_bytes\<close> ends the text with a line feed.\<close>

definition record_bytes :: "json \<Rightarrow> lease_code + byte list" where
  "record_bytes tree =
     (case utf8_encode (dumps tree @ [10]) of
        None \<Rightarrow> Inl LEASE_RECORD_NOT_ENCODABLE
      | Some bs \<Rightarrow> Inr bs)"

definition record_hash :: "json \<Rightarrow> lease_code + pystr" where
  "record_hash tree = andthen (record_bytes tree) (\<lambda>bs. Inr (digest_prefix @ hexdigest bs))"

definition named_fields :: "(string \<times> json) list \<Rightarrow> (pystr \<times> json) list" where
  "named_fields fs = map (\<lambda>(k, v). (py k, v)) fs"

fun operation_value :: "lease_operation \<Rightarrow> pystr" where
  "operation_value LO_CLAIM = py ''claim''"
| "operation_value LO_RENEW = py ''renew''"
| "operation_value LO_RECLAIM = py ''reclaim''"

text \<open>A request is only written under its own operation.\<close>

fun request_fields :: "lease_operation \<Rightarrow> lease_request \<Rightarrow> lease_code + (pystr \<times> json) list" where
  "request_fields LO_CLAIM (Claim r) =
     require INVALID_CLAIM_REQUEST (valid_claim_request r)
       (Inr (named_fields
          [(''session_id'', JStr (cr_session_id r)), (''request_id'', JStr (cr_request_id r)),
           (''claim_id'', JStr (cr_claim_id r)), (''work_id'', JStr (cr_work_id r)),
           (''owner_id'', JStr (cr_owner_id r)), (''lease_seconds'', JInt (cr_lease_seconds r)),
           (''max_tenure_seconds'', JInt (cr_max_tenure_seconds r))]))"
| "request_fields LO_RECLAIM (Reclaim r) =
     require INVALID_RECLAIM_REQUEST (valid_reclaim_request r)
       (Inr (named_fields
          [(''session_id'', JStr (qr_session_id r)), (''request_id'', JStr (qr_request_id r)),
           (''claim_id'', JStr (qr_claim_id r)), (''work_id'', JStr (qr_work_id r)),
           (''owner_id'', JStr (qr_owner_id r)),
           (''expected_work_attempt'', JInt (qr_expected_work_attempt r)),
           (''lease_seconds'', JInt (qr_lease_seconds r)),
           (''max_tenure_seconds'', JInt (qr_max_tenure_seconds r))]))"
| "request_fields LO_RENEW (Renew r) =
     require INVALID_RENEW_REQUEST (valid_renew_request r)
       (Inr (named_fields
          [(''session_id'', JStr (nr_session_id r)), (''request_id'', JStr (nr_request_id r)),
           (''claim_id'', JStr (nr_claim_id r)), (''work_id'', JStr (nr_work_id r)),
           (''owner_id'', JStr (nr_owner_id r)),
           (''expected_lease_version'', JInt (nr_expected_lease_version r)),
           (''lease_seconds'', JInt (nr_lease_seconds r))]))"
| "request_fields LO_CLAIM _ = Inl INVALID_CLAIM_REQUEST"
| "request_fields LO_RECLAIM _ = Inl INVALID_RECLAIM_REQUEST"
| "request_fields LO_RENEW _ = Inl INVALID_RENEW_REQUEST"

definition request_digest :: "lease_operation \<Rightarrow> lease_request \<Rightarrow> lease_code + pystr" where
  "request_digest op r =
     andthen (request_fields op r) (\<lambda>fs.
       record_hash (JObj ((py ''operation'', JStr (operation_value op)) # fs)))"

definition work_tree :: "runnable_work \<Rightarrow> lease_code + json" where
  "work_tree w =
     (case validate_runnable_work w of
        Inl e \<Rightarrow> Inl (WORK_PROJECTION e)
      | Inr _ \<Rightarrow> Inr (JObj (named_fields
          [(''session_id'', JStr (rw_session_id w)),
           (''registry_generation'', JInt (rw_registry_generation w)),
           (''conversation_version'', JInt (rw_conversation_version w)),
           (''observed_sequence'', JInt (rw_observed_sequence w)),
           (''trigger_event_id'', JStr (rw_trigger_event_id w)),
           (''trigger_event_sequence'', JInt (rw_trigger_event_sequence w)),
           (''topic_run_id'', optional_str (rw_topic_run_id w)),
           (''kind'', JStr (trigger_kind_value (rw_kind w))),
           (''trigger_work_id'', JStr (rw_trigger_work_id w)),
           (''work_id'', JStr (rw_work_id w)),
           (''trigger_runtime_epoch'', JStr (rw_trigger_runtime_epoch w)),
           (''parent_turn_id'', optional_str (rw_parent_turn_id w)),
           (''contract_digest'', optional_str (rw_contract_digest w)),
           (''input_digest'', JStr (rw_input_digest w)),
           (''evidence_digest'', JStr (rw_evidence_digest w)),
           (''binding_digest'', JStr (rw_binding_digest w))])))"

definition valid_lease :: "lease_record \<Rightarrow> bool" where
  "valid_lease l \<longleftrightarrow>
     is_protocol_id (lr_session_id l) \<and> is_protocol_id (lr_work_id l)
     \<and> is_sha256_digest (lr_binding_digest l) \<and> is_protocol_id (lr_claim_id l)
     \<and> is_protocol_id (lr_owner_id l) \<and> is_protocol_id (lr_runtime_epoch l)
     \<and> valid_positive_int (lr_lease_version l) \<and> valid_positive_int (lr_registry_generation l)
     \<and> valid_nonnegative_int (lr_acquired_at l) \<and> valid_nonnegative_int (lr_renewed_at l)
     \<and> valid_positive_int (lr_expires_at l) \<and> valid_positive_int (lr_absolute_expires_at l)
     \<and> lr_acquired_at l \<le> lr_renewed_at l \<and> lr_renewed_at l < lr_expires_at l
     \<and> lr_expires_at l \<le> lr_absolute_expires_at l"

definition lease_tree :: "lease_record \<Rightarrow> lease_code + json" where
  "lease_tree l =
     require LEASE_RECORD_INVALID (valid_lease l)
       (Inr (JObj (named_fields
          [(''session_id'', JStr (lr_session_id l)), (''work_id'', JStr (lr_work_id l)),
           (''binding_digest'', JStr (lr_binding_digest l)), (''claim_id'', JStr (lr_claim_id l)),
           (''owner_id'', JStr (lr_owner_id l)), (''runtime_epoch'', JStr (lr_runtime_epoch l)),
           (''lease_version'', JInt (lr_lease_version l)),
           (''registry_generation'', JInt (lr_registry_generation l)),
           (''acquired_at'', JInt (lr_acquired_at l)), (''renewed_at'', JInt (lr_renewed_at l)),
           (''expires_at'', JInt (lr_expires_at l)),
           (''absolute_expires_at'', JInt (lr_absolute_expires_at l))])))"

definition record_header :: "string \<Rightarrow> (string \<times> json) list" where
  "record_header kind =
     [(''schema_version'', JInt 2), (''record_type'', JStr (py kind)),
      (''protocol_version'', JStr (py ''x-sync-dialogue/2''))]"

definition lease_transaction_tree :: "lease_transaction \<Rightarrow> bool \<Rightarrow> lease_code + json" where
  "lease_transaction_tree tx include_hash =
     andthen (request_fields (lt_operation tx) (lt_request tx)) (\<lambda>req.
     andthen (work_tree (lt_work tx)) (\<lambda>work.
     andthen (lease_tree (lt_lease tx)) (\<lambda>lease.
       Inr (JObj (named_fields
         (record_header ''lease_transaction'' @
          [(''transaction_sequence'', JInt (lt_sequence tx)),
           (''operation'', JStr (operation_value (lt_operation tx))),
           (''request_id'', JStr (lt_request_id tx)),
           (''request_digest'', JStr (lt_request_digest tx)),
           (''request'', JObj req), (''recorded_at'', JInt (lt_recorded_at tx)),
           (''previous_transaction_hash'', optional_str (lt_previous_hash tx)),
           (''work'', work), (''lease'', lease)] @
          (if include_hash then [(''transaction_hash'', JStr (lt_hash tx))] else [])))))))"

definition lease_transaction_hash :: "lease_transaction \<Rightarrow> lease_code + pystr" where
  "lease_transaction_hash tx = andthen (lease_transaction_tree tx False) record_hash"

text \<open>
  What \<open>_decode_transaction\<close> requires of a stored record.  The parsing of canonical JSON
  back to the record is the standard library's.
\<close>

definition check_transaction :: "lease_transaction \<Rightarrow> lease_code + unit" where
  "check_transaction tx =
     andthen (request_fields (lt_operation tx) (lt_request tx)) (\<lambda>_.
     require LEASE_RECORD_INVALID (is_ok (validate_runnable_work (lt_work tx)) \<and> valid_lease (lt_lease tx))
     (andthen (request_digest (lt_operation tx) (lt_request tx)) (\<lambda>dg.
      andthen (lease_transaction_hash tx) (\<lambda>h.
        require LEASE_RECORD_INVALID
          (valid_positive_int (lt_sequence tx) \<and> is_protocol_id (lt_request_id tx)
           \<and> is_sha256_digest (lt_request_digest tx)
           \<and> lt_request_id tx = lq_request_id (lt_request tx)
           \<and> lt_request_digest tx = dg \<and> valid_nonnegative_int (lt_recorded_at tx)
           \<and> is_optional_sha256_digest (lt_previous_hash tx) \<and> is_sha256_digest (lt_hash tx)
           \<and> h = lt_hash tx)
          (Inr ())))))"

definition encode_transaction :: "lease_transaction \<Rightarrow> lease_code + byte list" where
  "encode_transaction tx =
     andthen (lease_transaction_hash tx) (\<lambda>h.
       if h \<noteq> lt_hash tx then Inl LEASE_RECORD_INVALID
       else andthen (andthen (lease_transaction_tree tx True) record_bytes) (\<lambda>bs.
         if MAX_TRANSACTION_BYTES < length bs then Inl LEASE_RECORD_TOO_LARGE
         else andthen (check_transaction tx) (\<lambda>_. Inr bs)))"

end
