(* ===== verification/Lease_History.thy ===== *)
theory Lease_History
  imports Lease
begin

text \<open>
  \<open>_validate_history\<close> of \<open>xsync_v2/lease_store.py\<close>, the rules every chain of transactions of
  one work obeys, and what follows from them: the chain is numbered without gaps, its length,
  tenures and renewals are bounded, and each transaction either extends the tenure before it
  or starts a tenure of a new claim and a new owner.
\<close>

section \<open>Histories\<close>

definition same_claim :: "lease_record \<Rightarrow> lease_record \<Rightarrow> bool" where
  "same_claim a b \<longleftrightarrow>
     lr_session_id a = lr_session_id b \<and> lr_work_id a = lr_work_id b
     \<and> lr_binding_digest a = lr_binding_digest b \<and> lr_claim_id a = lr_claim_id b
     \<and> lr_owner_id a = lr_owner_id b \<and> lr_runtime_epoch a = lr_runtime_epoch b
     \<and> lr_registry_generation a = lr_registry_generation b
     \<and> lr_acquired_at a = lr_acquired_at b
     \<and> lr_absolute_expires_at a = lr_absolute_expires_at b"

text \<open>The variables of the loop of \<open>_validate_history\<close>, before the transaction \<open>hs_index\<close>.\<close>

record history_scan =
  hs_index :: int
  hs_previous :: "lease_transaction option"
  hs_request_ids :: "pystr list"
  hs_claim_ids :: "pystr list"
  hs_owner_ids :: "pystr list"
  hs_renewals :: nat
  hs_reclaims :: nat

definition initial_scan :: history_scan where
  "initial_scan = \<lparr>hs_index = 1, hs_previous = None, hs_request_ids = [], hs_claim_ids = [],
                   hs_owner_ids = [], hs_renewals = 0, hs_reclaims = 0\<rparr>"

definition own_fields :: "history_scan \<Rightarrow> lease_transaction \<Rightarrow> bool" where
  "own_fields hs tx \<longleftrightarrow>
     (let l = lt_lease tx; r = lt_request tx in
      lt_sequence tx = hs_index hs \<and> lr_lease_version l = hs_index hs
      \<and> lt_request_id tx \<notin> set (hs_request_ids hs)
      \<and> lr_session_id l = rw_session_id (lt_work tx) \<and> lr_work_id l = rw_work_id (lt_work tx)
      \<and> lr_binding_digest l = rw_binding_digest (lt_work tx)
      \<and> lr_registry_generation l = rw_registry_generation (lt_work tx)
      \<and> lq_session_id r = lr_session_id l \<and> lq_work_id r = lr_work_id l
      \<and> lq_claim_id r = lr_claim_id l \<and> lq_owner_id r = lr_owner_id l)"

text \<open>A tenure that starts with the transaction.\<close>

definition fresh_tenure :: "lease_transaction \<Rightarrow> int \<Rightarrow> int \<Rightarrow> bool" where
  "fresh_tenure tx seconds max_tenure \<longleftrightarrow>
     lr_acquired_at (lt_lease tx) = lt_recorded_at tx
     \<and> lr_renewed_at (lt_lease tx) = lt_recorded_at tx
     \<and> lr_expires_at (lt_lease tx) = lt_recorded_at tx + seconds
     \<and> lr_absolute_expires_at (lt_lease tx) = lt_recorded_at tx + max_tenure"

definition first_fields :: "lease_transaction \<Rightarrow> bool" where
  "first_fields tx \<longleftrightarrow>
     lt_operation tx = LO_CLAIM \<and> lt_previous_hash tx = None
     \<and> (case lt_request tx of
          Claim r \<Rightarrow> fresh_tenure tx (cr_lease_seconds r) (cr_max_tenure_seconds r)
        | _ \<Rightarrow> False)"

definition linked :: "lease_transaction \<Rightarrow> lease_transaction \<Rightarrow> bool" where
  "linked p tx \<longleftrightarrow>
     lt_previous_hash tx = Some (lt_hash p)
     \<and> rw_binding_digest (lt_work tx) = rw_binding_digest (lt_work p)
     \<and> rw_observed_sequence (lt_work p) \<le> rw_observed_sequence (lt_work tx)
     \<and> (lt_operation tx \<noteq> LO_RECLAIM \<longrightarrow> lt_recorded_at p \<le> lt_recorded_at tx)
     \<and> (lt_operation tx = LO_RECLAIM \<longrightarrow>
          lr_runtime_epoch (lt_lease tx) = lr_runtime_epoch (lt_lease p) \<longrightarrow>
          lt_recorded_at p \<le> lt_recorded_at tx)"

definition renewal_fields :: "lease_record \<Rightarrow> lease_transaction \<Rightarrow> renew_request \<Rightarrow> bool" where
  "renewal_fields p tx r \<longleftrightarrow>
     (let l = lt_lease tx; now = lt_recorded_at tx in
      same_claim p l \<and> nr_expected_lease_version r = lr_lease_version p
      \<and> now < lr_expires_at p \<and> now < lr_absolute_expires_at p
      \<and> lr_renewed_at l = now \<and> now < lr_expires_at l \<and> lr_expires_at p < lr_expires_at l
      \<and> lr_expires_at l \<le> lr_absolute_expires_at l
      \<and> lr_expires_at l = min (now + nr_lease_seconds r) (lr_absolute_expires_at l))"

definition reclaim_fields ::
  "history_scan \<Rightarrow> lease_record \<Rightarrow> lease_transaction \<Rightarrow> reclaim_request \<Rightarrow> bool" where
  "reclaim_fields hs p tx r \<longleftrightarrow>
     lr_claim_id (lt_lease tx) \<notin> set (hs_claim_ids hs)
     \<and> lr_owner_id (lt_lease tx) \<notin> set (hs_owner_ids hs)
     \<and> fresh_tenure tx (qr_lease_seconds r) (qr_max_tenure_seconds r)
     \<and> \<not> (lt_recorded_at tx < lr_expires_at p
           \<and> lr_runtime_epoch (lt_lease tx) = lr_runtime_epoch p)"

text \<open>One iteration of the loop.\<close>

definition history_step :: "history_scan \<Rightarrow> lease_transaction \<Rightarrow> lease_code + history_scan" where
  "history_step hs tx =
     (let l = lt_lease tx;
          next = hs\<lparr>hs_index := hs_index hs + 1, hs_previous := Some tx,
                    hs_request_ids := lt_request_id tx # hs_request_ids hs\<rparr>;
          owned = next\<lparr>hs_claim_ids := lr_claim_id l # hs_claim_ids hs,
                       hs_owner_ids := lr_owner_id l # hs_owner_ids hs\<rparr> in
      require LEASE_HISTORY_INVALID (own_fields hs tx)
        (case hs_previous hs of
           None \<Rightarrow> require LEASE_HISTORY_INVALID (first_fields tx) (Inr owned)
         | Some p \<Rightarrow>
             require LEASE_HISTORY_INVALID (linked p tx)
               (case (lt_operation tx, lt_request tx) of
                  (LO_RENEW, Renew r) \<Rightarrow>
                    require LEASE_HISTORY_INVALID
                      (hs_renewals hs + 1 \<le> MAX_RENEWALS_PER_TENURE
                       \<and> renewal_fields (lt_lease p) tx r)
                      (Inr (next\<lparr>hs_renewals := hs_renewals hs + 1\<rparr>))
                | (LO_RECLAIM, Reclaim r) \<Rightarrow>
                    require LEASE_HISTORY_INVALID
                      (hs_reclaims hs + 1 \<le> MAX_RECLAIMS_PER_WORK
                       \<and> reclaim_fields hs (lt_lease p) tx r)
                      (Inr (owned\<lparr>hs_renewals := 0, hs_reclaims := hs_reclaims hs + 1\<rparr>))
                | _ \<Rightarrow> Inl LEASE_HISTORY_INVALID)))"

text \<open>\<open>_validate_history\<close>.\<close>

definition scan_history :: "lease_transaction list \<Rightarrow> lease_code + history_scan" where
  "scan_history h = fold_events history_step initial_scan h"

definition valid_history :: "lease_transaction list \<Rightarrow> bool" where
  "valid_history h \<longleftrightarrow> is_ok (scan_history h)"

definition history_digest :: "lease_transaction list \<Rightarrow> lease_code + pystr" where
  "history_digest h =
     require LEASE_HISTORY_INVALID (valid_history h)
       (record_hash (JObj (named_fields
          (record_header ''lease_exhaustion_history'' @
           [(''transaction_hashes'', JList (map (JStr \<circ> lt_hash) h))]))))"

section \<open>The shapes of a step\<close>

definition after_step :: "history_scan \<Rightarrow> lease_transaction \<Rightarrow> history_scan" where
  "after_step hs tx = hs\<lparr>hs_index := hs_index hs + 1, hs_previous := Some tx,
                        hs_request_ids := lt_request_id tx # hs_request_ids hs\<rparr>"

definition after_tenure :: "history_scan \<Rightarrow> lease_transaction \<Rightarrow> history_scan" where
  "after_tenure hs tx =
     (after_step hs tx)\<lparr>hs_claim_ids := lr_claim_id (lt_lease tx) # hs_claim_ids hs,
                       hs_owner_ids := lr_owner_id (lt_lease tx) # hs_owner_ids hs\<rparr>"

lemmas after_defs = after_step_def after_tenure_def

lemma history_step_cases [consumes 1, case_names first renew reclaim]:
  assumes "history_step hs tx = Inr hs'"
  obtains (first) r where "own_fields hs tx" "hs_previous hs = None"
      "lt_operation tx = LO_CLAIM" "lt_previous_hash tx = None" "lt_request tx = Claim r"
      "fresh_tenure tx (cr_lease_seconds r) (cr_max_tenure_seconds r)" "hs' = after_tenure hs tx"
  | (renew) p r where "own_fields hs tx" "hs_previous hs = Some p" "linked p tx"
      "lt_operation tx = LO_RENEW" "lt_request tx = Renew r"
      "hs_renewals hs < MAX_RENEWALS_PER_TENURE" "renewal_fields (lt_lease p) tx r"
      "hs' = (after_step hs tx)\<lparr>hs_renewals := hs_renewals hs + 1\<rparr>"
  | (reclaim) p r where "own_fields hs tx" "hs_previous hs = Some p" "linked p tx"
      "lt_operation tx = LO_RECLAIM" "lt_request tx = Reclaim r"
      "hs_reclaims hs < MAX_RECLAIMS_PER_WORK" "reclaim_fields hs (lt_lease p) tx r"
      "hs' = (after_tenure hs tx)\<lparr>hs_renewals := 0, hs_reclaims := hs_reclaims hs + 1\<rparr>"
proof (cases "hs_previous hs")
  case None
  with assms obtain r where "own_fields hs tx" "lt_operation tx = LO_CLAIM"
    "lt_previous_hash tx = None" "lt_request tx = Claim r"
    "fresh_tenure tx (cr_lease_seconds r) (cr_max_tenure_seconds r)" "hs' = after_tenure hs tx"
    by (auto simp: history_step_def Let_def first_fields_def after_defs split: lease_request.splits)
  with None show ?thesis by (intro first)
next
  case (Some p)
  note step = assms [unfolded history_step_def Let_def Some option.case]
  show ?thesis
  proof (cases "lt_operation tx")
    case LO_CLAIM
    with step show ?thesis by simp
  next
    case LO_RENEW
    with step obtain r where "own_fields hs tx" "linked p tx" "lt_request tx = Renew r"
      "hs_renewals hs < MAX_RENEWALS_PER_TENURE" "renewal_fields (lt_lease p) tx r"
      "hs' = (after_step hs tx)\<lparr>hs_renewals := hs_renewals hs + 1\<rparr>"
      by (auto simp: after_defs split: lease_request.splits)
    with Some LO_RENEW show ?thesis by (intro renew)
  next
    case LO_RECLAIM
    with step obtain r where "own_fields hs tx" "linked p tx" "lt_request tx = Reclaim r"
      "hs_reclaims hs < MAX_RECLAIMS_PER_WORK" "reclaim_fields hs (lt_lease p) tx r"
      "hs' = (after_tenure hs tx)\<lparr>hs_renewals := 0, hs_reclaims := hs_reclaims hs + 1\<rparr>"
      by (auto simp: after_defs split: lease_request.splits)
    with Some LO_RECLAIM show ?thesis by (intro reclaim)
  qed
qed

section \<open>The chain\<close>

text \<open>The transactions are numbered from one without a gap.\<close>

interpretation chain: numbered history_step "\<lambda>hs. hs_index hs - 1" lt_sequence
proof
  fix hs tx hs' assume "history_step hs tx = Inr hs'"
  then show "hs_index hs' - 1 = hs_index hs - 1 + 1 \<and> lt_sequence tx = hs_index hs' - 1"
    by (cases rule: history_step_cases) (auto simp: own_fields_def after_defs Let_def)
qed

text \<open>The counters stay within their bounds, and they bound the length of the chain.\<close>

definition scan_bounded :: "history_scan \<Rightarrow> bool" where
  "scan_bounded hs \<longleftrightarrow>
     hs_renewals hs \<le> MAX_RENEWALS_PER_TENURE \<and> hs_reclaims hs \<le> MAX_RECLAIMS_PER_WORK
     \<and> (if hs_previous hs = None
        then hs_index hs = 1 \<and> hs_claim_ids hs = [] \<and> hs_owner_ids hs = []
        else hs_index hs \<le> 257 * int (hs_reclaims hs) + int (hs_renewals hs) + 2)
     \<and> distinct (hs_request_ids hs) \<and> distinct (hs_claim_ids hs) \<and> distinct (hs_owner_ids hs)"

interpretation bounds: guarded history_step scan_bounded
proof
  fix hs tx hs' assume b: "scan_bounded hs" and "history_step hs tx = Inr hs'"
  from this(2) show "scan_bounded hs'"
  proof (cases rule: history_step_cases)
    case (first r)
    with b show ?thesis by (simp add: scan_bounded_def after_defs own_fields_def Let_def)
  next
    case (renew p r)
    with b show ?thesis by (simp add: scan_bounded_def after_defs own_fields_def Let_def)
  next
    case (reclaim p r)
    with b show ?thesis
      by (simp add: scan_bounded_def after_defs own_fields_def Let_def reclaim_fields_def
          MAX_RENEWALS_PER_TENURE_def)
  qed
qed

lemma initial_scan_bounded: "scan_bounded initial_scan"
  by (simp add: scan_bounded_def initial_scan_def)

section \<open>What the scan has seen\<close>

definition is_renewal :: "lease_transaction \<Rightarrow> bool" where
  "is_renewal tx \<longleftrightarrow> lt_operation tx = LO_RENEW"

definition current_tenure_renewals :: "lease_transaction list \<Rightarrow> nat" where
  "current_tenure_renewals h = length (takeWhile is_renewal (rev h))"

definition reclaim_count :: "lease_transaction list \<Rightarrow> nat" where
  "reclaim_count h = length (filter (\<lambda>tx. lt_operation tx = LO_RECLAIM) h)"

definition seen :: "lease_transaction list \<Rightarrow> history_scan \<Rightarrow> bool" where
  "seen h hs \<longleftrightarrow>
     hs_index hs = int (length h) + 1
     \<and> hs_previous hs = (if h = [] then None else Some (last h))
     \<and> set (hs_request_ids hs) = lt_request_id ` set h
     \<and> set (hs_claim_ids hs) = (lr_claim_id \<circ> lt_lease) ` set h
     \<and> set (hs_owner_ids hs) = (lr_owner_id \<circ> lt_lease) ` set h
     \<and> hs_renewals hs = current_tenure_renewals h \<and> hs_reclaims hs = reclaim_count h"

lemma scan_snoc: "scan_history (h @ [tx]) = andthen (scan_history h) (\<lambda>hs. history_step hs tx)"
  by (cases "scan_history h") (simp_all add: scan_history_def fold_events_append andthen_def
      split: sum.splits)

lemma counters_simps [simp]:
  "current_tenure_renewals [] = 0"
  "reclaim_count [] = 0"
  "current_tenure_renewals (h @ [tx]) = (if is_renewal tx then Suc (current_tenure_renewals h) else 0)"
  "reclaim_count (h @ [tx]) = (if lt_operation tx = LO_RECLAIM then Suc (reclaim_count h) else reclaim_count h)"
  by (simp_all add: current_tenure_renewals_def reclaim_count_def)

lemma seen_step:
  assumes "seen h hs" and "history_step hs tx = Inr hs'"
  shows "seen (h @ [tx]) hs'"
  using assms(2)
proof (cases rule: history_step_cases)
  case (first r)
  with assms(1) show ?thesis
    by (auto simp: seen_def after_defs is_renewal_def split: if_splits)
next
  case (renew p r)
  with assms(1) have p: "h \<noteq> []" "p = last h" by (auto simp: seen_def split: if_splits)
  then have "p \<in> set h" by simp
  moreover from renew(7) have "lr_claim_id (lt_lease tx) = lr_claim_id (lt_lease p)"
    and "lr_owner_id (lt_lease tx) = lr_owner_id (lt_lease p)"
    by (simp_all add: renewal_fields_def same_claim_def Let_def)
  ultimately have "lr_claim_id (lt_lease tx) \<in> (lr_claim_id \<circ> lt_lease) ` set h"
    and "lr_owner_id (lt_lease tx) \<in> (lr_owner_id \<circ> lt_lease) ` set h" by auto
  with renew p assms(1) show ?thesis
    by (simp add: seen_def after_defs is_renewal_def insert_absorb)
next
  case (reclaim p r)
  with assms(1) show ?thesis
    by (auto simp: seen_def after_defs is_renewal_def)
qed

lemma scan_seen: "scan_history h = Inr hs \<Longrightarrow> seen h hs"
proof (induction h arbitrary: hs rule: rev_induct)
  case Nil
  then show ?case
    by (auto simp: scan_history_def initial_scan_def seen_def current_tenure_renewals_def reclaim_count_def)
next
  case (snoc tx h)
  then obtain hs0 where "scan_history h = Inr hs0" "history_step hs0 tx = Inr hs"
    by (auto simp: scan_snoc andthen_eq_Inr_iff)
  with snoc.IH seen_step show ?case by blast
qed

lemma valid_history_scan: "valid_history h \<longleftrightarrow> (\<exists>hs. scan_history h = Inr hs)"
  by (simp add: valid_history_def is_ok_iff)

lemma valid_history_Nil [simp]: "valid_history []"
  by (simp add: valid_history_scan scan_history_def)

lemma valid_history_snoc:
  "valid_history (h @ [tx]) \<longleftrightarrow> (\<exists>hs. scan_history h = Inr hs \<and> (\<exists>hs'. history_step hs tx = Inr hs'))"
  by (auto simp: valid_history_scan scan_snoc andthen_eq_Inr_iff)

lemma valid_history_prefix: "valid_history (h @ g) \<Longrightarrow> valid_history h"
  by (auto simp: valid_history_scan scan_history_def fold_events_append andthen_eq_Inr_iff)

end
