(* ===== verification/Lease_Ports.thy ===== *)
theory Lease_Ports
  imports Lease_History
begin

text \<open>
  What a \<open>LeaseStore\<close> keeps and what it asks of its surroundings.  The state is the last
  clock reading and the transactions on disk, one list for each session and work.  The ports
  (lock authority, snapshot loader, runtime verifier, clock) are code of other components; a
  port is a function of the number of the call, so that its answer may change from one call to
  the next.  \<open>lp_race\<close> is what another writer publishes before a given call, and \<open>lp_storage\<close> the
  code with which the file system refuses a given call of a publication, other than
  \<open>IMMUTABLE_EXISTS\<close>, which is derived from the disk.  Every operation is a function from the state to a result and the state after it, also where it raises.
\<close>

section \<open>State and ports\<close>

record lease_store =
  ls_calls :: nat
  ls_last_clock :: "int option"
  ls_disk :: "pystr \<Rightarrow> pystr \<Rightarrow> lease_transaction list"

record work_snapshot =
  ws_dialogue :: dialogue_state
  ws_registry :: registry_state
  ws_origin :: "work_origin option"

record runtime_check =
  rk_operation :: "lease_operation option"
  rk_epoch :: pystr
  rk_owner_id :: pystr
  rk_prior_epoch :: "pystr option"
  rk_prior_owner_id :: "pystr option"
  rk_prior_must_be_inactive :: bool

text \<open>The identity of a lock authority object.\<close>

type_synonym lock_authority = nat

record lease_ports =
  lp_epoch :: pystr
  lp_authority :: "nat \<Rightarrow> lock_authority \<Rightarrow> pystr \<Rightarrow> lease_code option"
  lp_snapshot :: "nat \<Rightarrow> lock_authority \<Rightarrow> pystr \<Rightarrow> work_snapshot option"
  lp_verifier :: "nat \<Rightarrow> lock_authority \<Rightarrow> runtime_check \<Rightarrow> bool option"
  lp_clock :: "nat \<Rightarrow> int option"
  lp_race :: "nat \<Rightarrow> lease_transaction list"
  lp_storage :: "nat \<Rightarrow> pystr option"

type_synonym 'a lease_op = "lease_store \<Rightarrow> (lease_code + 'a) \<times> lease_store"

section \<open>Sequencing\<close>

definition lpure :: "lease_code + 'a \<Rightarrow> 'a lease_op" where
  "lpure r st = (r, st)"

definition lreturn :: "'a \<Rightarrow> 'a lease_op" where
  "lreturn x = lpure (Inr x)"

definition lraise :: "lease_code \<Rightarrow> 'a lease_op" where
  "lraise e = lpure (Inl e)"

definition lbind :: "'a lease_op \<Rightarrow> ('a \<Rightarrow> 'b lease_op) \<Rightarrow> 'b lease_op" where
  "lbind m k st = (case m st of (Inl e, t) \<Rightarrow> (Inl e, t) | (Inr x, t) \<Rightarrow> k x t)"

definition lrequire :: "lease_code \<Rightarrow> bool \<Rightarrow> 'a lease_op \<Rightarrow> 'a lease_op" where
  "lrequire e b m = (if b then m else lraise e)"

definition ask :: "(nat \<Rightarrow> 'a) \<Rightarrow> 'a lease_op" where
  "ask port st = (Inr (port (ls_calls st)), st\<lparr>ls_calls := Suc (ls_calls st)\<rparr>)"

section \<open>Port calls\<close>

definition assert_authority :: "lease_ports \<Rightarrow> pystr \<Rightarrow> lock_authority \<Rightarrow> unit lease_op" where
  "assert_authority p sid a =
     lbind (ask (\<lambda>n. lp_authority p n a sid)) (\<lambda>answer.
       case answer of Some e \<Rightarrow> lraise e | None \<Rightarrow> lreturn ())"

definition load_snapshot :: "lease_ports \<Rightarrow> pystr \<Rightarrow> lock_authority \<Rightarrow> work_snapshot lease_op" where
  "load_snapshot p sid a =
     lbind (assert_authority p sid a) (\<lambda>_.
     lbind (ask (\<lambda>n. lp_snapshot p n a sid)) (\<lambda>answer.
       case answer of
         None \<Rightarrow> lraise AUTHORITATIVE_SNAPSHOT_FAILED
       | Some snap \<Rightarrow>
           lrequire AUTHORITATIVE_SNAPSHOT_INVALID (session_id (ws_dialogue snap) = sid)
             (lreturn snap)))"

definition verify_runtime :: "lease_ports \<Rightarrow> runtime_check \<Rightarrow> lock_authority \<Rightarrow> unit lease_op" where
  "verify_runtime p check a =
     lbind (ask (\<lambda>n. lp_verifier p n a check)) (\<lambda>answer.
       case answer of
         None \<Rightarrow> lraise RUNTIME_AUTHORITY_FAILED
       | Some accepted \<Rightarrow> lrequire RUNTIME_AUTHORITY_REJECTED accepted (lreturn ()))"

definition keep_reading :: "int \<Rightarrow> int lease_op" where
  "keep_reading v st =
     (case ls_last_clock st of
        Some q \<Rightarrow> if v < q then (Inl CLOCK_ROLLED_BACK, st)
                  else (Inr v, st\<lparr>ls_last_clock := Some v\<rparr>)
      | None \<Rightarrow> (Inr v, st\<lparr>ls_last_clock := Some v\<rparr>))"

definition now :: "lease_ports \<Rightarrow> int lease_op" where
  "now p =
     lbind (ask (lp_clock p)) (\<lambda>answer.
       case answer of
         None \<Rightarrow> lraise CLOCK_FAILED
       | Some v \<Rightarrow> lrequire CLOCK_INVALID (valid_nonnegative_int v) (keep_reading v))"

text \<open>A call of the file system that changes no transaction.\<close>

definition storage :: "lease_ports \<Rightarrow> unit lease_op" where
  "storage p =
     lbind (ask (lp_storage p)) (\<lambda>answer.
       case answer of Some code \<Rightarrow> lraise (STORAGE_FAILURE code) | None \<Rightarrow> lreturn ())"

section \<open>The current work\<close>

definition work_of :: "work_error + 'a \<Rightarrow> lease_code + 'a" where
  "work_of r = (case r of Inl e \<Rightarrow> Inl (WORK_PROJECTION e) | Inr x \<Rightarrow> Inr x)"

text \<open>The session is the active dialogue of the registry, under the generation it knows.\<close>

definition session_is_current :: "pystr \<Rightarrow> work_snapshot \<Rightarrow> bool" where
  "session_is_current sid snap \<longleftrightarrow>
     (let reg = ws_registry snap in
      rs_current_session_id reg = Some sid \<and> rs_pending_handoff reg = None
      \<and> rs_generation reg = registry_generation (ws_dialogue snap)
      \<and> (case find (\<lambda>d. rd_session_id d = sid) (rs_dialogues reg) of
           None \<Rightarrow> False
         | Some d \<Rightarrow> rd_status d = RG_ACTIVE \<and> rd_activated_generation d = Some (rs_generation reg)))"

definition derive_authoritative_work ::
  "pystr \<Rightarrow> work_snapshot \<Rightarrow> bool \<Rightarrow> lease_code + runnable_work option" where
  "derive_authoritative_work sid snap current =
     andthen (work_of (derive_runnable_work (ws_dialogue snap) (ws_origin snap))) (\<lambda>work.
       if \<not> current then Inr work
       else require LS_SESSION_DEACTIVATED (session_is_current sid snap) (Inr work))"

definition canonical_work_attempt :: "dialogue_state \<Rightarrow> runnable_work \<Rightarrow> lease_code + int" where
  "canonical_work_attempt s w =
     (case queued_candidates s of
        [current] \<Rightarrow>
          require AUTHORITATIVE_WORK_INVALID
            (cw_work_id current = rw_work_id w
             \<and> cw_trigger_event_id current = rw_trigger_event_id w
             \<and> cw_trigger_event_sequence current = rw_trigger_event_sequence w)
            (Inr (cw_attempt current))
      | _ \<Rightarrow> Inl AUTHORITATIVE_WORK_INVALID)"

definition load_authoritative_work ::
  "lease_ports \<Rightarrow> pystr \<Rightarrow> lock_authority \<Rightarrow> bool \<Rightarrow> runnable_work option lease_op" where
  "load_authoritative_work p sid a current =
     lbind (load_snapshot p sid a) (\<lambda>snap. lpure (derive_authoritative_work sid snap current))"

definition load_current_work :: "lease_ports \<Rightarrow> pystr \<Rightarrow> lock_authority \<Rightarrow> runnable_work lease_op" where
  "load_current_work p sid a =
     lbind (load_authoritative_work p sid a True) (\<lambda>work.
       case work of None \<Rightarrow> lraise NO_RUNNABLE_WORK | Some w \<Rightarrow> lreturn w)"

record work_observation =
  ob_through_sequence :: int
  ob_current :: "(runnable_work \<times> int) option"

definition observe_current_work :: "lease_ports \<Rightarrow> pystr \<Rightarrow> lock_authority \<Rightarrow> work_observation lease_op" where
  "observe_current_work p sid a =
     lrequire INVALID_SESSION_ID (is_protocol_id sid)
     (lbind (load_snapshot p sid a) (\<lambda>snap.
      lbind (lpure (derive_authoritative_work sid snap True)) (\<lambda>work.
        case work of
          None \<Rightarrow> lreturn \<lparr>ob_through_sequence = sequence (ws_dialogue snap), ob_current = None\<rparr>
        | Some w \<Rightarrow>
            lbind (lpure (canonical_work_attempt (ws_dialogue snap) w)) (\<lambda>attempt.
              lreturn \<lparr>ob_through_sequence = sequence (ws_dialogue snap),
                       ob_current = Some (w, attempt)\<rparr>))))"

definition current_runnable ::
  "lease_ports \<Rightarrow> pystr \<Rightarrow> lock_authority \<Rightarrow> (runnable_work \<times> int) option lease_op" where
  "current_runnable p sid a =
     lbind (observe_current_work p sid a) (\<lambda>ob. lreturn (ob_current ob))"

definition current_work :: "lease_ports \<Rightarrow> pystr \<Rightarrow> lock_authority \<Rightarrow> runnable_work option lease_op" where
  "current_work p sid a =
     lbind (current_runnable p sid a) (\<lambda>current. lreturn (map_option fst current))"

definition load_current_work_with_attempt ::
  "lease_ports \<Rightarrow> pystr \<Rightarrow> lock_authority \<Rightarrow> (runnable_work \<times> int) lease_op" where
  "load_current_work_with_attempt p sid a =
     lbind (current_runnable p sid a) (\<lambda>current.
       case current of None \<Rightarrow> lraise NO_RUNNABLE_WORK | Some wa \<Rightarrow> lreturn wa)"

end
