(* ===== verification/Lease_Store.thy ===== *)
theory Lease_Store
  imports Lease_Ports
begin

text \<open>
  The operations of \<open>LeaseStore\<close>: claim, renew and reclaim a lease, read it, and the two
  guards that run at the commit boundary of the event store, for a publication under a lease
  and for a failure after the last lease.
\<close>

section \<open>Histories on disk\<close>

fun decode_all :: "lease_transaction list \<Rightarrow> lease_code + unit" where
  "decode_all [] = Inr ()"
| "decode_all (tx # txs) = andthen (check_transaction tx) (\<lambda>_. decode_all txs)"

definition read_history :: "pystr \<Rightarrow> pystr \<Rightarrow> lease_transaction list lease_op" where
  "read_history sid wid st =
     (let h = ls_disk st sid wid in
      (andthen (decode_all h) (\<lambda>_. require LEASE_HISTORY_INVALID (valid_history h) (Inr h)), st))"

record mutation_outcome =
  mo_operation :: lease_operation
  mo_lease :: lease_record
  mo_replayed :: bool

definition find_receipt :: "lease_transaction list \<Rightarrow> pystr \<Rightarrow> lease_transaction option" where
  "find_receipt h rid = find (\<lambda>tx. lt_request_id tx = rid) h"

definition replayed_outcome :: "lease_transaction \<Rightarrow> pystr \<Rightarrow> mutation_outcome lease_op" where
  "replayed_outcome tx dg =
     lrequire LS_IDEMPOTENCY_CONFLICT (lt_request_digest tx = dg)
       (lreturn \<lparr>mo_operation = lt_operation tx, mo_lease = lt_lease tx, mo_replayed = True\<rparr>)"

definition replay_receipt ::
  "lease_ports \<Rightarrow> lease_request \<Rightarrow> pystr \<Rightarrow> lock_authority \<Rightarrow> mutation_outcome option lease_op" where
  "replay_receipt p r dg a =
     lbind (assert_authority p (lq_session_id r) a) (\<lambda>_.
     lbind (read_history (lq_session_id r) (lq_work_id r)) (\<lambda>h.
       case find_receipt h (lq_request_id r) of
         None \<Rightarrow> lreturn None
       | Some tx \<Rightarrow> lbind (replayed_outcome tx dg) (\<lambda>mo. lreturn (Some mo))))"

section \<open>The lease at the commit boundary\<close>

definition new_lease ::
  "pystr \<Rightarrow> runnable_work \<Rightarrow> pystr \<Rightarrow> pystr \<Rightarrow> int \<Rightarrow> int \<Rightarrow> int \<Rightarrow> int \<Rightarrow> lease_code + lease_record" where
  "new_lease epoch w claim owner version n seconds max_tenure =
     (let l = \<lparr>lr_session_id = rw_session_id w, lr_work_id = rw_work_id w,
               lr_binding_digest = rw_binding_digest w, lr_claim_id = claim, lr_owner_id = owner,
               lr_runtime_epoch = epoch, lr_lease_version = version,
               lr_registry_generation = rw_registry_generation w, lr_acquired_at = n,
               lr_renewed_at = n, lr_expires_at = n + seconds,
               lr_absolute_expires_at = n + max_tenure\<rparr>
      in require LEASE_RECORD_INVALID (valid_lease l) (Inr l))"

definition lease_is_active :: "lease_record \<Rightarrow> runnable_work \<Rightarrow> int \<Rightarrow> bool" where
  "lease_is_active l w n \<longleftrightarrow>
     lr_registry_generation l = rw_registry_generation w
     \<and> lr_binding_digest l = rw_binding_digest w
     \<and> n < lr_expires_at l \<and> n < lr_absolute_expires_at l"

definition assert_claim_binding ::
  "lease_record \<Rightarrow> runnable_work \<Rightarrow> pystr \<Rightarrow> pystr \<Rightarrow> int \<Rightarrow> lease_code + unit" where
  "assert_claim_binding l w claim owner version =
     require LEASE_FENCED
       (lr_claim_id l = claim \<and> lr_owner_id l = owner
        \<and> lr_registry_generation l = rw_registry_generation w
        \<and> lr_binding_digest l = rw_binding_digest w)
     (require LEASE_VERSION_CONFLICT (lr_lease_version l = version) (Inr ()))"

text \<open>The three readings of the clock every use of a lease compares.\<close>

definition assert_lease_time :: "lease_record \<Rightarrow> int \<Rightarrow> lease_code + unit" where
  "assert_lease_time l n =
     require CLOCK_ROLLED_BACK (lr_renewed_at l \<le> n)
     (require LEASE_TENURE_EXPIRED (n < lr_absolute_expires_at l)
     (require LEASE_EXPIRED (n < lr_expires_at l) (Inr ())))"

definition next_expiry :: "lease_record \<Rightarrow> int \<Rightarrow> int \<Rightarrow> int" where
  "next_expiry l n seconds = min (n + seconds) (lr_absolute_expires_at l)"

definition renewed_lease ::
  "pystr \<Rightarrow> lease_record \<Rightarrow> runnable_work \<Rightarrow> renew_request \<Rightarrow> int \<Rightarrow> lease_code + lease_record" where
  "renewed_lease epoch l w r n =
     require LEASE_EPOCH_FENCED (lr_runtime_epoch l = epoch)
     (andthen (assert_claim_binding l w (nr_claim_id r) (nr_owner_id r) (nr_expected_lease_version r)) (\<lambda>_.
      andthen (assert_lease_time l n) (\<lambda>_.
        let e = next_expiry l n (nr_lease_seconds r) in
        require LEASE_RENEWAL_NOT_EXTENDED (lr_expires_at l < e)
          (Inr (l\<lparr>lr_lease_version := lr_lease_version l + 1, lr_renewed_at := n,
                  lr_expires_at := e\<rparr>)))))"

definition reclaimed_lease ::
  "pystr \<Rightarrow> lease_record \<Rightarrow> runnable_work \<Rightarrow> reclaim_request \<Rightarrow> int \<Rightarrow> lease_code + lease_record" where
  "reclaimed_lease epoch l w r n =
     require CLOCK_ROLLED_BACK (lr_runtime_epoch l = epoch \<longrightarrow> lr_renewed_at l \<le> n)
     (require LEASE_STILL_ACTIVE (lr_runtime_epoch l = epoch \<longrightarrow> lr_expires_at l \<le> n)
        (new_lease epoch w (qr_claim_id r) (qr_owner_id r) (lr_lease_version l + 1) n
           (qr_lease_seconds r) (qr_max_tenure_seconds r)))"

definition lease_at_commit ::
  "pystr \<Rightarrow> lease_operation \<Rightarrow> lease_transaction list \<Rightarrow> runnable_work \<Rightarrow> lease_request \<Rightarrow> int \<Rightarrow>
     lease_code + lease_record" where
  "lease_at_commit epoch op h w r n =
     (case op of
        LO_CLAIM \<Rightarrow>
          (case r of
             Claim c \<Rightarrow> require LEASE_CONCURRENT_MODIFICATION (h = [])
               (new_lease epoch w (cr_claim_id c) (cr_owner_id c) 1 n
                  (cr_lease_seconds c) (cr_max_tenure_seconds c))
           | _ \<Rightarrow> Inl LEASE_CONCURRENT_MODIFICATION)
      | LO_RENEW \<Rightarrow>
          require LEASE_NOT_FOUND (h \<noteq> [])
            (case r of
               Renew c \<Rightarrow> renewed_lease epoch (lt_lease (last h)) w c n
             | _ \<Rightarrow> Inl INVALID_RENEW_REQUEST)
      | LO_RECLAIM \<Rightarrow>
          require LEASE_NOT_FOUND (h \<noteq> [])
            (case r of
               Reclaim c \<Rightarrow> reclaimed_lease epoch (lt_lease (last h)) w c n
             | _ \<Rightarrow> Inl INVALID_RECLAIM_REQUEST))"

definition assert_commit_clock ::
  "lease_operation \<Rightarrow> lease_transaction list \<Rightarrow> lease_record \<Rightarrow> int \<Rightarrow> lease_code + unit" where
  "assert_commit_clock op h l n =
     require CLOCK_ROLLED_BACK (lr_renewed_at l \<le> n)
     (andthen
        (if op = LO_RENEW
         then require LEASE_HISTORY_INVALID (h \<noteq> [])
              (let prev = lt_lease (last h) in
               require LEASE_TENURE_EXPIRED (n < lr_absolute_expires_at prev)
               (require LEASE_EXPIRED (n < lr_expires_at prev) (Inr ())))
         else Inr ())
        (\<lambda>_. require LEASE_TENURE_EXPIRED (n < lr_absolute_expires_at l)
              (require LEASE_EXPIRED (n < lr_expires_at l) (Inr ()))))"

section \<open>Commit\<close>

definition provisional_transaction ::
  "lease_operation \<Rightarrow> lease_transaction list \<Rightarrow> runnable_work \<Rightarrow> lease_request \<Rightarrow> pystr \<Rightarrow> int \<Rightarrow>
     lease_record \<Rightarrow> lease_transaction" where
  "provisional_transaction op h w r dg n l =
     \<lparr>lt_sequence = int (length h) + 1, lt_operation = op, lt_request_id = lq_request_id r,
      lt_request_digest = dg, lt_request = r, lt_recorded_at = n,
      lt_previous_hash = (if h = [] then None else Some (lt_hash (last h))),
      lt_work = w, lt_lease = l, lt_hash = no_binding\<rparr>"

definition sealed_transaction ::
  "lease_operation \<Rightarrow> lease_transaction list \<Rightarrow> runnable_work \<Rightarrow> lease_request \<Rightarrow> pystr \<Rightarrow> int \<Rightarrow>
     lease_record \<Rightarrow> lease_code + lease_transaction" where
  "sealed_transaction op h w r dg n l =
     (let t = provisional_transaction op h w r dg n l in
      andthen (lease_transaction_hash t) (\<lambda>hash.
        let tx = t\<lparr>lt_hash := hash\<rparr> in
        require LEASE_HISTORY_INVALID (valid_history (h @ [tx]))
          (andthen (encode_transaction tx) (\<lambda>_. Inr tx))))"

text \<open>
  The no-replace link: it fails where a file of that number is there, which another writer
  published since the history was read.  Where it succeeds the transaction is published; the
  staged name is then removed and the directory synced, and a failure of these calls is raised
  although the transaction is on disk.
\<close>

definition put_history ::
  "(pystr \<Rightarrow> pystr \<Rightarrow> lease_transaction list) \<Rightarrow> pystr \<Rightarrow> pystr \<Rightarrow> lease_transaction list \<Rightarrow>
     pystr \<Rightarrow> pystr \<Rightarrow> lease_transaction list" where
  "put_history d sid wid h = d(sid := (d sid)(wid := h))"

definition link_transaction ::
  "lease_ports \<Rightarrow> pystr \<Rightarrow> pystr \<Rightarrow> lease_transaction \<Rightarrow> bool lease_op" where
  "link_transaction p sid wid tx st =
     (let found = ls_disk st sid wid @ lp_race p (ls_calls st);
          free = int (length found) < lt_sequence tx;
          after = (\<lambda>h. st\<lparr>ls_calls := Suc (ls_calls st),
                          ls_disk := put_history (ls_disk st) sid wid h\<rparr>) in
      case lp_storage p (ls_calls st) of
        Some code \<Rightarrow> (Inl (STORAGE_FAILURE code), after found)
      | None \<Rightarrow> (Inr free, after (if free then found @ [tx] else found)))"

definition publish :: "lease_ports \<Rightarrow> pystr \<Rightarrow> pystr \<Rightarrow> lease_transaction \<Rightarrow> bool lease_op" where
  "publish p sid wid tx =
     lbind (link_transaction p sid wid tx) (\<lambda>linked.
       if linked then lbind (storage p) (\<lambda>_. lreturn True) else lreturn False)"

definition boundary ::
  "lease_ports \<Rightarrow> pystr \<Rightarrow> runtime_check \<Rightarrow> lock_authority \<Rightarrow> int lease_op" where
  "boundary p sid check a =
     lbind (assert_authority p sid a) (\<lambda>_.
     lbind (verify_runtime p check a) (\<lambda>_. now p))"

text \<open>
  The directory is opened, the record sealed and staged, the boundary checked once more, and the
  transaction published; the three calls of \<open>storage\<close> stand for the opening of the directory,
  the writing of the staged file, and the calls after the link.
\<close>

definition commit ::
  "lease_ports \<Rightarrow> lease_transaction list \<Rightarrow> lease_operation \<Rightarrow> pystr \<Rightarrow> runnable_work \<Rightarrow>
     lease_request \<Rightarrow> runtime_check \<Rightarrow> lock_authority \<Rightarrow> mutation_outcome lease_op" where
  "commit p h op dg w r check a =
     (let sid = lq_session_id r; wid = rw_work_id w in
      lbind (storage p) (\<lambda>_.
      lbind (boundary p sid check a) (\<lambda>recorded_at.
      lbind (lpure (lease_at_commit (lp_epoch p) op h w r recorded_at)) (\<lambda>l.
      lbind (lpure (sealed_transaction op h w r dg recorded_at l)) (\<lambda>tx.
      lbind (storage p) (\<lambda>_.
      lbind (boundary p sid check a) (\<lambda>boundary_now.
      lbind (lpure (assert_commit_clock op h l boundary_now)) (\<lambda>_.
      lbind (publish p sid wid tx) (\<lambda>published.
        if published
        then lreturn \<lparr>mo_operation = op, mo_lease = l, mo_replayed = False\<rparr>
        else lbind (read_history sid wid) (\<lambda>concurrent.
               case find_receipt concurrent (lq_request_id r) of
                 Some receipt \<Rightarrow> replayed_outcome receipt dg
               | None \<Rightarrow> lraise LEASE_CONCURRENT_MODIFICATION))))))))))"

section \<open>Mutations\<close>

definition runtime_query ::
  "lease_operation option \<Rightarrow> pystr \<Rightarrow> pystr \<Rightarrow> lease_record option \<Rightarrow> bool \<Rightarrow> runtime_check" where
  "runtime_query op epoch owner prior inactive =
     \<lparr>rk_operation = op, rk_epoch = epoch, rk_owner_id = owner,
      rk_prior_epoch = map_option lr_runtime_epoch prior,
      rk_prior_owner_id = map_option lr_owner_id prior,
      rk_prior_must_be_inactive = inactive\<rparr>"

text \<open>A committed request is answered with its receipt; the body runs for a new one.\<close>

definition answer_or_run ::
  "lease_ports \<Rightarrow> lease_operation \<Rightarrow> lease_request \<Rightarrow> lock_authority \<Rightarrow> (mutation_outcome \<Rightarrow> 'a) \<Rightarrow>
     (pystr \<Rightarrow> 'a lease_op) \<Rightarrow> 'a lease_op" where
  "answer_or_run p op r a answer body =
     lbind (lpure (request_digest op r)) (\<lambda>dg.
     lbind (replay_receipt p r dg a) (\<lambda>receipt.
       case receipt of Some mo \<Rightarrow> lreturn (answer mo) | None \<Rightarrow> body dg))"

definition claim :: "lease_ports \<Rightarrow> claim_request \<Rightarrow> lock_authority \<Rightarrow> mutation_outcome lease_op" where
  "claim p c a =
     (let r = Claim c in
      lrequire INVALID_CLAIM_REQUEST (valid_claim_request c)
      (answer_or_run p LO_CLAIM r a id (\<lambda>dg.
       lbind (load_current_work p (cr_session_id c) a) (\<lambda>w.
       lrequire WORK_SUPERSEDED (cr_work_id c = rw_work_id w)
       (lbind (read_history (cr_session_id c) (cr_work_id c)) (\<lambda>h.
        lbind (now p) (\<lambda>n.
          if h \<noteq> []
          then lrequire WORK_IDENTITY_CONFLICT
                 (rw_binding_digest (lt_work (last h)) = rw_binding_digest w)
                 (if lease_is_active (lt_lease (last h)) w n then lraise WORK_ALREADY_LEASED
                  else lraise LEASE_RECLAIM_REQUIRED)
          else (let check = runtime_query (Some LO_CLAIM) (lp_epoch p) (cr_owner_id c) None False in
                lbind (verify_runtime p check a) (\<lambda>_. commit p h LO_CLAIM dg w r check a)))))))))"

definition renew :: "lease_ports \<Rightarrow> renew_request \<Rightarrow> lock_authority \<Rightarrow> mutation_outcome lease_op" where
  "renew p c a =
     (let r = Renew c in
      lrequire INVALID_RENEW_REQUEST (valid_renew_request c)
      (answer_or_run p LO_RENEW r a id (\<lambda>dg.
       lbind (load_current_work p (nr_session_id c) a) (\<lambda>w.
       lrequire WORK_SUPERSEDED (nr_work_id c = rw_work_id w)
       (lbind (read_history (nr_session_id c) (nr_work_id c)) (\<lambda>h.
        lrequire LEASE_NOT_FOUND (h \<noteq> [])
        (lrequire LEASE_RENEWAL_LIMIT (current_tenure_renewals h < MAX_RENEWALS_PER_TENURE)
        (let l = lt_lease (last h) in
         lrequire LEASE_EPOCH_FENCED (lr_runtime_epoch l = lp_epoch p)
         (lbind (lpure (assert_claim_binding l w (nr_claim_id c) (nr_owner_id c)
                          (nr_expected_lease_version c))) (\<lambda>_.
          lbind (now p) (\<lambda>n.
          lbind (lpure (assert_lease_time l n)) (\<lambda>_.
            let check = runtime_query (Some LO_RENEW) (lr_runtime_epoch l) (lr_owner_id l) (Some l) False in
            lbind (verify_runtime p check a) (\<lambda>_.
            lrequire LEASE_RENEWAL_NOT_EXTENDED
              (lr_expires_at l < next_expiry l n (nr_lease_seconds c))
              (commit p h LO_RENEW dg w r check a))))))))))))))"

definition assert_reclaim_eligible ::
  "lease_ports \<Rightarrow> reclaim_request \<Rightarrow> runnable_work \<times> int \<Rightarrow> lease_transaction list \<Rightarrow> lock_authority \<Rightarrow>
     runtime_check lease_op" where
  "assert_reclaim_eligible p c wa h a =
     (let l = lt_lease (last h); changed = lr_runtime_epoch l \<noteq> lp_epoch p in
      lrequire WORK_SUPERSEDED (qr_work_id c = rw_work_id (fst wa) \<and> qr_expected_work_attempt c = snd wa)
      (lrequire WORK_IDENTITY_CONFLICT (lr_binding_digest l = rw_binding_digest (fst wa))
      (lbind (now p) (\<lambda>n.
       lrequire CLOCK_ROLLED_BACK (changed \<or> lr_renewed_at l \<le> n)
       (lrequire LEASE_STILL_ACTIVE (changed \<or> lr_expires_at l \<le> n)
       (lrequire CLAIM_ID_REUSED (qr_claim_id c \<notin> (lr_claim_id \<circ> lt_lease) ` set h)
       (lrequire OWNER_ID_REUSED (qr_owner_id c \<notin> (lr_owner_id \<circ> lt_lease) ` set h)
       (let check = runtime_query (Some LO_RECLAIM) (lp_epoch p) (qr_owner_id c) (Some l) changed in
        lbind (verify_runtime p check a) (\<lambda>_. lreturn check)))))))))"

section \<open>Exhaustion\<close>

record exhaustion_proof =
  xp_session_id :: pystr
  xp_work_id :: pystr
  xp_binding_digest :: pystr
  xp_work_attempt :: int
  xp_reclaim_count :: nat
  xp_last_lease_version :: int
  xp_history_digest :: pystr
  xp_requesting_runtime_epoch :: pystr
  xp_requesting_owner_id :: pystr
  xp_reclaim_request_id :: pystr
  xp_reclaim_request_digest :: pystr

definition valid_exhaustion_proof :: "exhaustion_proof \<Rightarrow> bool" where
  "valid_exhaustion_proof x \<longleftrightarrow>
     is_protocol_id (xp_session_id x) \<and> is_protocol_id (xp_work_id x)
     \<and> is_sha256_digest (xp_binding_digest x) \<and> valid_positive_int (xp_work_attempt x)
     \<and> xp_reclaim_count x = MAX_RECLAIMS_PER_WORK
     \<and> valid_positive_int (xp_last_lease_version x) \<and> is_sha256_digest (xp_history_digest x)
     \<and> is_protocol_id (xp_requesting_runtime_epoch x)
     \<and> is_protocol_id (xp_requesting_owner_id x) \<and> is_protocol_id (xp_reclaim_request_id x)
     \<and> is_sha256_digest (xp_reclaim_request_digest x)"

definition exhaustion_proof_digest :: "exhaustion_proof \<Rightarrow> lease_code + pystr" where
  "exhaustion_proof_digest x =
     require LEASE_EXHAUSTION_PROOF_INVALID (valid_exhaustion_proof x)
       (record_hash (JObj (named_fields
          (record_header ''lease_exhaustion_proof'' @
           [(''session_id'', JStr (xp_session_id x)), (''work_id'', JStr (xp_work_id x)),
            (''binding_digest'', JStr (xp_binding_digest x)),
            (''work_attempt'', JInt (xp_work_attempt x)),
            (''reclaim_count'', JInt (int (xp_reclaim_count x))),
            (''last_lease_version'', JInt (xp_last_lease_version x)),
            (''history_digest'', JStr (xp_history_digest x)),
            (''requesting_runtime_epoch'', JStr (xp_requesting_runtime_epoch x)),
            (''requesting_owner_id'', JStr (xp_requesting_owner_id x)),
            (''reclaim_request_id'', JStr (xp_reclaim_request_id x)),
            (''reclaim_request_digest'', JStr (xp_reclaim_request_digest x))]))))"

definition build_exhaustion_proof ::
  "runnable_work \<Rightarrow> int \<Rightarrow> lease_transaction list \<Rightarrow> pystr \<Rightarrow> pystr \<Rightarrow> pystr \<Rightarrow> pystr \<Rightarrow>
     lease_code + exhaustion_proof" where
  "build_exhaustion_proof w attempt h epoch owner rid dg =
     andthen (work_of (validate_runnable_work w)) (\<lambda>_.
     require LEASE_HISTORY_INVALID (valid_history h)
     (require LEASE_NOT_FOUND (h \<noteq> [])
     (let l = lt_lease (last h) in
      require LEASE_RECLAIM_NOT_EXHAUSTED
        (reclaim_count h = MAX_RECLAIMS_PER_WORK \<and> lr_work_id l = rw_work_id w
         \<and> lr_binding_digest l = rw_binding_digest w \<and> is_protocol_id epoch
         \<and> is_protocol_id owner \<and> is_protocol_id rid \<and> is_sha256_digest dg)
      (andthen (history_digest h) (\<lambda>hd.
         let x = \<lparr>xp_session_id = rw_session_id w, xp_work_id = rw_work_id w,
                  xp_binding_digest = rw_binding_digest w, xp_work_attempt = attempt,
                  xp_reclaim_count = reclaim_count h, xp_last_lease_version = lr_lease_version l,
                  xp_history_digest = hd, xp_requesting_runtime_epoch = epoch,
                  xp_requesting_owner_id = owner, xp_reclaim_request_id = rid,
                  xp_reclaim_request_digest = dg\<rparr>
         in require LEASE_EXHAUSTION_PROOF_INVALID (valid_exhaustion_proof x) (Inr x))))))"

datatype reclaim_outcome = Reclaimed mutation_outcome | Exhausted exhaustion_proof

text \<open>
  After the last reclaim a request is answered with the proof, also where the session or the
  work has moved on; \<open>confirm_exhausted\<close> is the body of that branch.
\<close>

definition catch_deactivated ::
  "(runnable_work \<times> int) option lease_op \<Rightarrow> (runnable_work \<times> int) option lease_op" where
  "catch_deactivated m st =
     (case m st of
        (Inl e, t) \<Rightarrow> if e = LS_SESSION_DEACTIVATED then (Inr None, t) else (Inl e, t)
      | rt \<Rightarrow> rt)"

definition confirm_exhausted ::
  "lease_ports \<Rightarrow> reclaim_request \<Rightarrow> lease_transaction list \<Rightarrow> exhaustion_proof \<Rightarrow> lock_authority \<Rightarrow>
     exhaustion_proof lease_op" where
  "confirm_exhausted p c h proof a =
     lbind (catch_deactivated (current_runnable p (qr_session_id c) a)) (\<lambda>current.
       case current of
         None \<Rightarrow> lreturn proof
       | Some wa \<Rightarrow>
           if rw_work_id (fst wa) \<noteq> qr_work_id c then lreturn proof
           else lbind (assert_reclaim_eligible p c wa h a) (\<lambda>_. lreturn proof))"

definition reclaim :: "lease_ports \<Rightarrow> reclaim_request \<Rightarrow> lock_authority \<Rightarrow> reclaim_outcome lease_op" where
  "reclaim p c a =
     (let r = Reclaim c in
      lrequire INVALID_RECLAIM_REQUEST (valid_reclaim_request c)
      (answer_or_run p LO_RECLAIM r a Reclaimed (\<lambda>dg.
       lbind (read_history (qr_session_id c) (qr_work_id c)) (\<lambda>h.
       lrequire LEASE_NOT_FOUND (h \<noteq> [])
       (if MAX_RECLAIMS_PER_WORK \<le> reclaim_count h
        then lbind (lpure (build_exhaustion_proof (lt_work (last h)) (qr_expected_work_attempt c) h
                             (lp_epoch p) (qr_owner_id c) (qr_request_id c) dg)) (\<lambda>proof.
             lbind (confirm_exhausted p c h proof a) (\<lambda>x. lreturn (Exhausted x)))
        else lbind (current_runnable p (qr_session_id c) a) (\<lambda>current.
             case current of
               None \<Rightarrow> lraise WORK_SUPERSEDED
             | Some wa \<Rightarrow>
                 lrequire WORK_SUPERSEDED (rw_work_id (fst wa) = qr_work_id c)
                 (lbind (assert_reclaim_eligible p c wa h a) (\<lambda>check.
                  lbind (commit p h LO_RECLAIM dg (fst wa) r check a) (\<lambda>mo.
                    lreturn (Reclaimed mo))))))))))"

section \<open>The guards of the commit boundary\<close>

definition assert_exhausted_for_work ::
  "lease_ports \<Rightarrow> exhaustion_proof \<Rightarrow> runnable_work \<Rightarrow> int \<Rightarrow> lock_authority \<Rightarrow> lease_record lease_op" where
  "assert_exhausted_for_work p x w attempt a =
     lrequire LEASE_EXHAUSTION_PROOF_INVALID (valid_exhaustion_proof x)
     (lbind (lpure (work_of (validate_runnable_work w))) (\<lambda>_.
      lrequire WORK_SUPERSEDED (xp_session_id x = rw_session_id w \<and> xp_work_id x = rw_work_id w)
      (lbind (assert_authority p (xp_session_id x) a) (\<lambda>_.
       lbind (read_history (xp_session_id x) (xp_work_id x)) (\<lambda>h.
       lbind (lpure (build_exhaustion_proof w attempt h (xp_requesting_runtime_epoch x)
                       (xp_requesting_owner_id x) (xp_reclaim_request_id x)
                       (xp_reclaim_request_digest x))) (\<lambda>expected.
       let l = lt_lease (last h);
           changed = lr_runtime_epoch l \<noteq> xp_requesting_runtime_epoch x in
       lrequire LEASE_EXHAUSTION_PROOF_INVALID
         (x = expected \<and> xp_requesting_runtime_epoch x = lp_epoch p
          \<and> xp_requesting_owner_id x \<notin> (lr_owner_id \<circ> lt_lease) ` set h)
       (lbind (now p) (\<lambda>n.
        lrequire CLOCK_ROLLED_BACK (changed \<or> lr_renewed_at l \<le> n)
        (lrequire LEASE_RECLAIM_NOT_EXHAUSTED (changed \<or> lr_expires_at l \<le> n)
        (lbind (verify_runtime p
                  (runtime_query (Some LO_RECLAIM) (xp_requesting_runtime_epoch x)
                     (xp_requesting_owner_id x) (Some l) changed) a) (\<lambda>_.
         lreturn l)))))))))))"

definition assert_publishable_for_work ::
  "lease_ports \<Rightarrow> publish_fence \<Rightarrow> runnable_work \<Rightarrow> lock_authority \<Rightarrow> lease_record lease_op" where
  "assert_publishable_for_work p f w a =
     lrequire INVALID_PUBLISH_FENCE (valid_publish_fence f)
     (lbind (lpure (work_of (validate_runnable_work w))) (\<lambda>_.
      lrequire WORK_SUPERSEDED (pf_session_id f = rw_session_id w \<and> pf_work_id f = rw_work_id w)
      (lbind (read_history (pf_session_id f) (pf_work_id f)) (\<lambda>h.
       lrequire LEASE_NOT_FOUND (h \<noteq> [])
       (let l = lt_lease (last h) in
        lrequire LEASE_FENCED
          (pf_claim_id f = lr_claim_id l \<and> pf_owner_id f = lr_owner_id l
           \<and> pf_runtime_epoch f = lr_runtime_epoch l \<and> lr_runtime_epoch l = lp_epoch p
           \<and> pf_lease_version f = lr_lease_version l
           \<and> pf_registry_generation f = rw_registry_generation w
           \<and> lr_registry_generation l = rw_registry_generation w
           \<and> lr_binding_digest l = rw_binding_digest w)
        (lbind (now p) (\<lambda>n.
         lbind (lpure (assert_lease_time l n)) (\<lambda>_.
         lbind (assert_authority p (pf_session_id f) a) (\<lambda>_.
         lbind (verify_runtime p
                  (runtime_query None (lr_runtime_epoch l) (lr_owner_id l) (Some l) False) a) (\<lambda>_.
           lreturn l))))))))))"

definition assert_publishable ::
  "lease_ports \<Rightarrow> publish_fence \<Rightarrow> lock_authority \<Rightarrow> lease_record lease_op" where
  "assert_publishable p f a =
     lrequire INVALID_PUBLISH_FENCE (valid_publish_fence f)
     (lbind (load_current_work p (pf_session_id f) a) (\<lambda>w. assert_publishable_for_work p f w a))"

text \<open>
  A guard is built while the event log is readable and keeps the work it was built for; the
  returned function runs just before the commit marker, under the same lock authority.
\<close>

definition boundary_guard ::
  "lock_authority \<Rightarrow> (lock_authority \<Rightarrow> lease_record lease_op) \<Rightarrow> lock_authority \<Rightarrow> lease_record lease_op" where
  "boundary_guard a check b = lrequire LOCK_AUTHORITY_REQUIRED (b = a) (check b)"

definition marker_publication_guard ::
  "lease_ports \<Rightarrow> publish_fence \<Rightarrow> lock_authority \<Rightarrow> (lock_authority \<Rightarrow> lease_record lease_op) lease_op" where
  "marker_publication_guard p f a =
     lrequire INVALID_PUBLISH_FENCE (valid_publish_fence f)
     (lbind (load_current_work p (pf_session_id f) a) (\<lambda>w.
      lbind (assert_publishable_for_work p f w a) (\<lambda>_.
        lreturn (boundary_guard a (assert_publishable_for_work p f w)))))"

definition exhaustion_marker_guard ::
  "lease_ports \<Rightarrow> exhaustion_proof \<Rightarrow> lock_authority \<Rightarrow> (lock_authority \<Rightarrow> lease_record lease_op) lease_op" where
  "exhaustion_marker_guard p x a =
     lrequire LEASE_EXHAUSTION_PROOF_INVALID (valid_exhaustion_proof x)
     (lbind (load_current_work_with_attempt p (xp_session_id x) a) (\<lambda>wa.
      lbind (assert_exhausted_for_work p x (fst wa) (snd wa) a) (\<lambda>_.
        lreturn (boundary_guard a (assert_exhausted_for_work p x (fst wa) (snd wa))))))"

section \<open>Reading\<close>

definition read_lease :: "lease_ports \<Rightarrow> pystr \<Rightarrow> lock_authority \<Rightarrow> lease_record option lease_op" where
  "read_lease p sid a =
     lrequire INVALID_SESSION_ID (is_protocol_id sid)
     (lbind (load_authoritative_work p sid a False) (\<lambda>work.
        case work of
          None \<Rightarrow> lreturn None
        | Some w \<Rightarrow>
            lbind (read_history sid (rw_work_id w)) (\<lambda>h.
              if h = [] then lreturn None
              else lrequire WORK_IDENTITY_CONFLICT
                     (rw_binding_digest (lt_work (last h)) = rw_binding_digest w)
                     (lreturn (Some (lt_lease (last h)))))))"

section \<open>Any mutation\<close>

definition mutate :: "lease_ports \<Rightarrow> lease_request \<Rightarrow> lock_authority \<Rightarrow> reclaim_outcome lease_op" where
  "mutate p r a =
     (case r of
        Claim c \<Rightarrow> lbind (claim p c a) (\<lambda>mo. lreturn (Reclaimed mo))
      | Renew c \<Rightarrow> lbind (renew p c a) (\<lambda>mo. lreturn (Reclaimed mo))
      | Reclaim c \<Rightarrow> reclaim p c a)"

fun operation_of :: "lease_request \<Rightarrow> lease_operation" where
  "operation_of (Claim _) = LO_CLAIM"
| "operation_of (Renew _) = LO_RENEW"
| "operation_of (Reclaim _) = LO_RECLAIM"

end
