(* ===== verification/Lease_Effects.thy ===== *)
theory Lease_Effects
  imports Lease_Store
begin

text \<open>
  What an operation of the lease store does to the transactions on disk.  Most steps only read;
  \<open>effect Q m\<close> says that \<open>Q\<close> relates the disk before, the result and the disk after every run
  of \<open>m\<close>, and the rules below follow the sequencing of the code.  The outcome: a mutation that
  succeeds has its receipt on disk, and writes at most the one transaction it reports; one that
  fails writes nothing, unless the file system fails after the transaction took its name.
\<close>

named_theorems reads_intros \<open>operations that leave the disk as it is\<close>

section \<open>Reading and sequencing\<close>

definition reads :: "'a lease_op \<Rightarrow> bool" where
  "reads m \<longleftrightarrow> (\<forall>st. ls_disk (snd (m st)) = ls_disk st)"

lemma readsD: "reads m \<Longrightarrow> m st = (res, t) \<Longrightarrow> ls_disk t = ls_disk st"
  by (metis reads_def snd_conv)

lemma reads_basic [reads_intros]:
  "reads (lpure r)" "reads (lreturn x)" "reads (lraise e)" "reads (ask port)"
  "reads (keep_reading v)" "reads (read_history sid wid)"
  by (simp_all add: reads_def lpure_def lreturn_def lraise_def ask_def keep_reading_def
      read_history_def Let_def split: option.split)

lemma reads_lbind [reads_intros]:
  assumes "reads m" and "\<And>x. reads (k x)"
  shows "reads (lbind m k)"
proof -
  have "ls_disk (snd (lbind m k st)) = ls_disk st" for st
  proof (cases "m st")
    case (Pair res t)
    with assms(1) have "ls_disk t = ls_disk st" by (rule readsD)
    moreover have "ls_disk (snd (k x t)) = ls_disk t" for x using assms(2) by (simp add: reads_def)
    ultimately show ?thesis using Pair by (simp add: lbind_def split: sum.split)
  qed
  then show ?thesis by (simp add: reads_def)
qed

lemma reads_lrequire [reads_intros]: "reads m \<Longrightarrow> reads (lrequire e b m)"
  by (simp add: lrequire_def reads_basic)

lemma reads_case [reads_intros]:
  "reads m \<Longrightarrow> (\<And>x. reads (k x)) \<Longrightarrow> reads (case v of None \<Rightarrow> m | Some x \<Rightarrow> k x)"
  "reads m \<Longrightarrow> reads n \<Longrightarrow> reads (if b then m else n)"
  "(\<And>x. reads (k x)) \<Longrightarrow> reads (let x = y in k x)"
  by (simp_all split: option.split)

lemmas reads_simp = assert_authority_def load_snapshot_def verify_runtime_def now_def
  load_authoritative_work_def load_current_work_def observe_current_work_def current_runnable_def
  current_work_def load_current_work_with_attempt_def replayed_outcome_def replay_receipt_def
  boundary_def assert_reclaim_eligible_def assert_exhausted_for_work_def
  assert_publishable_for_work_def assert_publishable_def marker_publication_guard_def
  exhaustion_marker_guard_def read_lease_def

lemma reads_ports [reads_intros]:
  "reads (assert_authority p sid a)" "reads (load_snapshot p sid a)"
  "reads (verify_runtime p check a)" "reads (now p)" "reads (storage p)"
  unfolding reads_simp storage_def by (intro reads_intros)+

lemma reads_work [reads_intros]:
  "reads (load_authoritative_work p sid a cur)" "reads (load_current_work p sid a)"
  "reads (observe_current_work p sid a)" "reads (current_runnable p sid a)"
  "reads (current_work p sid a)" "reads (load_current_work_with_attempt p sid a)"
  unfolding reads_simp by (intro reads_intros)+

lemma reads_steps [reads_intros]:
  "reads (replayed_outcome tx dg)" "reads (replay_receipt p r dg a)" "reads (boundary p sid check a)"
  "reads (assert_reclaim_eligible p c wa h a)"
  unfolding replayed_outcome_def replay_receipt_def boundary_def assert_reclaim_eligible_def
  by (intro reads_intros)+

lemma reads_guards [reads_intros]:
  "reads (assert_exhausted_for_work p x w n a)" "reads (assert_publishable_for_work p f w a)"
  "reads (assert_publishable p f a)" "reads (marker_publication_guard p f a)"
  "reads (exhaustion_marker_guard p x a)" "reads (read_lease p sid a)"
  unfolding assert_exhausted_for_work_def assert_publishable_for_work_def assert_publishable_def
    marker_publication_guard_def exhaustion_marker_guard_def read_lease_def
  by (intro reads_intros)+

lemma reads_confirm [reads_intros]: "reads (confirm_exhausted p c h proof a)"
proof -
  have c: "reads (catch_deactivated m)" if "reads m" for m
    using readsD [OF that] by (auto simp: reads_def catch_deactivated_def split: prod.split sum.split)
  then show ?thesis unfolding confirm_exhausted_def by (intro reads_intros c)
qed

section \<open>Effects\<close>

type_synonym disk = "pystr \<Rightarrow> pystr \<Rightarrow> lease_transaction list"

definition effect :: "(disk \<Rightarrow> lease_code + 'a \<Rightarrow> disk \<Rightarrow> bool) \<Rightarrow> 'a lease_op \<Rightarrow> bool" where
  "effect Q m \<longleftrightarrow> (\<forall>st. Q (ls_disk st) (fst (m st)) (ls_disk (snd (m st))))"

lemma effectI: "(\<And>st res st'. m st = (res, st') \<Longrightarrow> Q (ls_disk st) res (ls_disk st')) \<Longrightarrow> effect Q m"
  by (simp add: effect_def)

lemma effectD: "effect Q m \<Longrightarrow> m st = (res, st') \<Longrightarrow> Q (ls_disk st) res (ls_disk st')"
  by (metis effect_def fst_conv snd_conv)

text \<open>A relation an error that leaves the disk alone satisfies.\<close>

definition error_safe :: "(disk \<Rightarrow> lease_code + 'a \<Rightarrow> disk \<Rightarrow> bool) \<Rightarrow> bool" where
  "error_safe Q \<longleftrightarrow> (\<forall>d e. Q d (Inl e) d)"

lemma effect_lraise: "error_safe Q \<Longrightarrow> effect Q (lraise e)"
  by (simp add: effect_def lraise_def lpure_def error_safe_def)

lemma effect_lrequire: "error_safe Q \<Longrightarrow> (b \<Longrightarrow> effect Q m) \<Longrightarrow> effect Q (lrequire e b m)"
  by (simp add: lrequire_def effect_lraise)

text \<open>A step whose values satisfy \<open>P\<close>.\<close>

definition yields :: "'a lease_op \<Rightarrow> ('a \<Rightarrow> bool) \<Rightarrow> bool" where
  "yields m P \<longleftrightarrow> (\<forall>st x t. m st = (Inr x, t) \<longrightarrow> P x)"

lemma effect_yields:
  assumes "error_safe Q" and m: "reads m" and y: "yields m P" and k: "\<And>x. P x \<Longrightarrow> effect Q (k x)"
  shows "effect Q (lbind m k)"
proof (rule effectI)
  fix st res st' assume run: "lbind m k st = (res, st')"
  obtain r t where r: "m st = (r, t)" by (cases "m st")
  with m have d: "ls_disk t = ls_disk st" by (rule readsD)
  show "Q (ls_disk st) res (ls_disk st')"
  proof (cases r)
    case (Inl e)
    with run r d assms(1) show ?thesis by (auto simp: lbind_def error_safe_def)
  next
    case (Inr x)
    with y r have "P x" by (auto simp: yields_def)
    from Inr run r have "k x t = (res, st')" by (simp add: lbind_def)
    with k [OF \<open>P x\<close>] show ?thesis unfolding d [symmetric] by (rule effectD)
  qed
qed

lemma effect_lbind:
  assumes "error_safe Q" and "reads m" and "\<And>x. effect Q (k x)"
  shows "effect Q (lbind m k)"
  by (rule effect_yields [where P = "\<lambda>_. True"]) (use assms in \<open>simp_all add: yields_def\<close>)

definition readable :: "lease_transaction list \<Rightarrow> bool" where
  "readable h \<longleftrightarrow> decode_all h = Inr () \<and> valid_history h"

lemma read_history_eq:
  "read_history sid wid st =
     (if readable (ls_disk st sid wid) then (Inr (ls_disk st sid wid), st)
      else (Inl (case decode_all (ls_disk st sid wid) of Inl e \<Rightarrow> e | Inr _ \<Rightarrow> LEASE_HISTORY_INVALID), st))"
  by (auto simp: read_history_def Let_def readable_def require_def split: sum.split)

text \<open>After a read the rest of the body knows the history.\<close>

lemma effect_read:
  assumes "error_safe Q"
    and k: "\<And>h. readable h \<Longrightarrow> effect (\<lambda>d res d'. d sid wid = h \<longrightarrow> Q d res d') (k h)"
  shows "effect Q (lbind (read_history sid wid) k)"
proof (rule effectI)
  fix st res st' assume run: "lbind (read_history sid wid) k st = (res, st')"
  show "Q (ls_disk st) res (ls_disk st')"
  proof (cases "readable (ls_disk st sid wid)")
    case True
    with run have "k (ls_disk st sid wid) st = (res, st')" by (simp add: lbind_def read_history_eq)
    from effectD [OF k [OF True] this] show ?thesis by simp
  next
    case False
    with run assms(1) show ?thesis by (auto simp: lbind_def read_history_eq error_safe_def)
  qed
qed

lemma effect_map:
  assumes "error_safe Q" and m: "effect (\<lambda>d res d'. Q d (map_sum id f res) d') m"
  shows "effect Q (lbind m (\<lambda>x. lreturn (f x)))"
proof (rule effectI)
  fix st res st' assume run: "lbind m (\<lambda>x. lreturn (f x)) st = (res, st')"
  obtain r t where r: "m st = (r, t)" by (cases "m st")
  from effectD [OF m r] run r show "Q (ls_disk st) res (ls_disk st')"
    by (cases r) (simp_all add: lbind_def lreturn_def lpure_def)
qed

lemma effect_lpure:
  "error_safe Q \<Longrightarrow> (\<And>x. r = Inr x \<Longrightarrow> effect Q (k x)) \<Longrightarrow> effect Q (lbind (lpure r) k)"
  by (cases r) (simp_all add: effect_def lbind_def lpure_def error_safe_def)

section \<open>The effect of a mutation\<close>

lemma put_history_simps [simp]:
  "put_history d sid wid h sid wid = h"
  "put_history d sid wid (d sid wid) = d"
  "put_history (put_history d sid wid h) sid wid g = put_history d sid wid g"
  by (simp_all add: put_history_def)

lemma put_history_other: "(s, w) \<noteq> (sid, wid) \<Longrightarrow> put_history d sid wid h s w = d s w"
  by (auto simp: put_history_def)

text \<open>At most another writer added to the history.\<close>

definition raced :: "lease_ports \<Rightarrow> disk \<Rightarrow> pystr \<Rightarrow> pystr \<Rightarrow> disk \<Rightarrow> bool" where
  "raced p d sid wid d' \<longleftrightarrow>
     d' = d \<or> (\<exists>n. d' = put_history d sid wid (d sid wid @ lp_race p n))"

text \<open>The history holds the receipt of a request with the reported outcome.\<close>

definition has_receipt :: "lease_request \<Rightarrow> mutation_outcome \<Rightarrow> lease_transaction list \<Rightarrow> bool" where
  "has_receipt r mo h \<longleftrightarrow>
     (\<exists>tx. find_receipt h (lq_request_id r) = Some tx
        \<and> request_digest (operation_of r) r = Inr (lt_request_digest tx)
        \<and> lt_operation tx = mo_operation mo \<and> lt_lease tx = mo_lease mo)"

text \<open>A time is a reading of the clock, a work item the current one of a snapshot.\<close>

definition was_read :: "lease_ports \<Rightarrow> int \<Rightarrow> bool" where
  "was_read p v \<longleftrightarrow> (\<exists>n. lp_clock p n = Some v)"

definition was_shown :: "lease_ports \<Rightarrow> lock_authority \<Rightarrow> pystr \<Rightarrow> runnable_work \<Rightarrow> bool" where
  "was_shown p a sid w \<longleftrightarrow>
     (\<exists>n snap. lp_snapshot p n a sid = Some snap
        \<and> derive_authoritative_work sid snap True = Inr (Some w))"

text \<open>A proof of exhaustion is that of the history on disk, after the last reclaim.\<close>

definition proves_exhaustion ::
  "lease_request \<Rightarrow> exhaustion_proof \<Rightarrow> lease_transaction list \<Rightarrow> bool" where
  "proves_exhaustion r x h \<longleftrightarrow>
     readable h \<and> h \<noteq> [] \<and> reclaim_count h = MAX_RECLAIMS_PER_WORK
     \<and> history_digest h = Inr (xp_history_digest x)
     \<and> xp_last_lease_version x = lr_lease_version (lt_lease (last h))
     \<and> xp_work_id x = lr_work_id (lt_lease (last h))
     \<and> xp_requesting_owner_id x = lq_owner_id r \<and> xp_reclaim_request_id x = lq_request_id r
     \<and> request_digest (operation_of r) r = Inr (xp_reclaim_request_digest x)"

text \<open>The request adds one transaction, recorded at a reading of the clock for work it was shown.\<close>

definition adds_transaction ::
  "lease_ports \<Rightarrow> lock_authority \<Rightarrow> lease_request \<Rightarrow> disk \<Rightarrow> lease_transaction \<Rightarrow> disk \<Rightarrow> bool" where
  "adds_transaction p a r d tx d' \<longleftrightarrow>
     d' = put_history d (lq_session_id r) (lq_work_id r) (d (lq_session_id r) (lq_work_id r) @ [tx])
     \<and> lt_request tx = r \<and> lr_runtime_epoch (lt_lease tx) = lp_epoch p
     \<and> was_read p (lt_recorded_at tx) \<and> was_shown p a (lq_session_id r) (lt_work tx)"

text \<open>The outcome a request has when its transaction was committed.\<close>

definition outcome_of :: "lease_request \<Rightarrow> lease_transaction \<Rightarrow> bool \<Rightarrow> mutation_outcome" where
  "outcome_of r tx replayed =
     \<lparr>mo_operation = operation_of r, mo_lease = lt_lease tx, mo_replayed = replayed\<rparr>"

definition mutation_effect ::
  "lease_ports \<Rightarrow> lock_authority \<Rightarrow> lease_request \<Rightarrow> disk \<Rightarrow> lease_code + reclaim_outcome \<Rightarrow>
     disk \<Rightarrow> bool" where
  "mutation_effect p a r d res d' \<longleftrightarrow>
     (let sid = lq_session_id r; wid = lq_work_id r; h = d sid wid; h' = d' sid wid in
      case res of
        Inl e \<Rightarrow>
          raced p d sid wid d'
          \<or> (\<exists>n code tx. e = STORAGE_FAILURE code \<and> lp_storage p n = Some code
               \<and> adds_transaction p a r d tx d' \<and> readable h' \<and> has_receipt r (outcome_of r tx False) h')
      | Inr (Exhausted x) \<Rightarrow> d' = d \<and> proves_exhaustion r x h
      | Inr (Reclaimed mo) \<Rightarrow>
          readable h' \<and> has_receipt r mo h'
          \<and> (if mo_replayed mo then raced p d sid wid d'
             else \<exists>tx. adds_transaction p a r d tx d' \<and> mo = outcome_of r tx False))"

lemma mutation_effect_safe:
  "error_safe (mutation_effect p a r)"
  "error_safe (\<lambda>d res d'. mutation_effect p a r d (map_sum id f res) d')"
  "error_safe (\<lambda>d res d'. P d \<longrightarrow> mutation_effect p a r d (map_sum id f res) d')"
  "error_safe (\<lambda>d res d'. P d \<longrightarrow> mutation_effect p a r d res d')"
  by (simp_all add: error_safe_def mutation_effect_def raced_def Let_def)

lemma decode_all_append: "decode_all (h @ g) = Inr () \<longleftrightarrow> decode_all h = Inr () \<and> decode_all g = Inr ()"
  by (induction h) (auto simp: andthen_eq_Inr_iff)

lemma decode_all_iff: "decode_all h = Inr () \<longleftrightarrow> (\<forall>tx \<in> set h. check_transaction tx = Inr ())"
  by (induction h) (auto simp: andthen_eq_Inr_iff)

lemma sealed_transaction_InrD:
  assumes "sealed_transaction op h w r dg n l = Inr tx" and "decode_all h = Inr ()"
  shows "readable (h @ [tx])"
    and "\<exists>hash. tx = (provisional_transaction op h w r dg n l)\<lparr>lt_hash := hash\<rparr>"
    and "lt_request tx = r" "lt_lease tx = l" "lt_operation tx = op" "lt_request_digest tx = dg"
    "lt_request_id tx = lq_request_id r" "lt_sequence tx = int (length h) + 1"
    "lt_recorded_at tx = n" "lt_work tx = w"
proof -
  from assms(1) obtain hash bs where h: "tx = (provisional_transaction op h w r dg n l)\<lparr>lt_hash := hash\<rparr>"
    "valid_history (h @ [tx])" "encode_transaction tx = Inr bs"
    by (auto simp: sealed_transaction_def Let_def andthen_eq_Inr_iff)
  from h(3) have "check_transaction tx = Inr ()"
    by (auto simp: encode_transaction_def andthen_eq_Inr_iff split: if_splits)
  with assms(2) h(2) show "readable (h @ [tx])"
    by (simp add: readable_def decode_all_append andthen_def)
  from h(1) show "\<exists>hash. tx = (provisional_transaction op h w r dg n l)\<lparr>lt_hash := hash\<rparr>" ..
  from h(1) show "lt_request tx = r" "lt_lease tx = l" "lt_operation tx = op"
    "lt_request_digest tx = dg" "lt_request_id tx = lq_request_id r"
    "lt_sequence tx = int (length h) + 1" "lt_recorded_at tx = n" "lt_work tx = w"
    by (simp_all add: provisional_transaction_def)
qed

text \<open>Request identifiers do not repeat, so the receipt of the last transaction is its own.\<close>

lemma receipt_last:
  assumes "valid_history (h @ [tx])"
  shows "find_receipt (h @ [tx]) (lt_request_id tx) = Some tx"
proof -
  from assms obtain hs hs' where s: "scan_history h = Inr hs" "history_step hs tx = Inr hs'"
    by (auto simp: valid_history_snoc)
  from s(2) have "own_fields hs tx" by (cases rule: history_step_cases) auto
  with scan_seen [OF s(1)] have "lt_request_id tx \<notin> lt_request_id ` set h"
    by (simp add: own_fields_def seen_def Let_def)
  then have "find (\<lambda>t. lt_request_id t = lt_request_id tx) h = None"
    unfolding find_None_iff by (metis imageI)
  then show ?thesis by (simp add: find_receipt_def find_append)
qed

lemma replayed_receipt:
  assumes "replayed_outcome tx dg st = (Inr mo, st')"
  shows "mo = \<lparr>mo_operation = lt_operation tx, mo_lease = lt_lease tx, mo_replayed = True\<rparr>"
    and "lt_request_digest tx = dg" and "st' = st"
  using assms by (auto simp: replayed_outcome_def lrequire_def lreturn_def lraise_def lpure_def split: if_splits)

lemma storage_run:
  "storage p st = (case lp_storage p (ls_calls st) of
       Some code \<Rightarrow> (Inl (STORAGE_FAILURE code), st\<lparr>ls_calls := Suc (ls_calls st)\<rparr>)
     | None \<Rightarrow> (Inr (), st\<lparr>ls_calls := Suc (ls_calls st)\<rparr>))"
  by (simp add: storage_def lbind_def ask_def lraise_def lreturn_def lpure_def split: option.split)

lemma publish_cases:
  assumes "publish p sid wid tx st = (res, st')" and "race = lp_race p (ls_calls st)"
  obtains (refused) code where "res = Inl (STORAGE_FAILURE code)"
      "ls_disk st' = put_history (ls_disk st) sid wid (ls_disk st sid wid @ race)"
  | (taken) "res = Inr False" "\<not> int (length (ls_disk st sid wid @ race)) < lt_sequence tx"
      "ls_disk st' = put_history (ls_disk st) sid wid (ls_disk st sid wid @ race)"
  | (linked) "int (length (ls_disk st sid wid @ race)) < lt_sequence tx"
      "ls_disk st' = put_history (ls_disk st) sid wid ((ls_disk st sid wid @ race) @ [tx])"
      "res = Inr True \<or> (\<exists>n code. res = Inl (STORAGE_FAILURE code) \<and> lp_storage p n = Some code)"
proof (cases "lp_storage p (ls_calls st)")
  case None
  note run = assms(1) [unfolded publish_def lbind_def link_transaction_def Let_def None storage_run]
  show thesis
  proof (cases "int (length (ls_disk st sid wid @ race)) < lt_sequence tx")
    case True
    with run assms(2) have "ls_disk st' = put_history (ls_disk st) sid wid ((ls_disk st sid wid @ race) @ [tx])"
      "res = Inr True \<or> (\<exists>n code. res = Inl (STORAGE_FAILURE code) \<and> lp_storage p n = Some code)"
      by (auto simp: lreturn_def lpure_def split: option.splits)
    with True show ?thesis by (rule linked)
  next
    case False
    with run assms(2) taken show ?thesis by (auto simp: lreturn_def lpure_def)
  qed
next
  case (Some code)
  with assms refused show ?thesis
    by (auto simp: publish_def lbind_def link_transaction_def Let_def)
qed

text \<open>The transaction is linked where no other writer came first.\<close>

lemma publish_effect:
  assumes h: "decode_all h = Inr ()"
    and tx: "sealed_transaction (operation_of r) h w r dg n l = Inr tx"
    and dg: "request_digest (operation_of r) r = Inr dg" and epoch: "lr_runtime_epoch l = lp_epoch p"
    and n: "was_read p n" and w: "was_shown p a (lq_session_id r) w"
  shows "effect (\<lambda>d res d'. d (lq_session_id r) (lq_work_id r) = h \<longrightarrow>
      mutation_effect p a r d (map_sum id Reclaimed res) d')
    (lbind (publish p (lq_session_id r) (lq_work_id r) tx) (\<lambda>published.
        if published
        then lreturn \<lparr>mo_operation = operation_of r, mo_lease = l, mo_replayed = False\<rparr>
        else lbind (read_history (lq_session_id r) (lq_work_id r)) (\<lambda>concurrent.
               case find_receipt concurrent (lq_request_id r) of
                 Some receipt \<Rightarrow> replayed_outcome receipt dg
               | None \<Rightarrow> lraise LEASE_CONCURRENT_MODIFICATION)))"
    (is "effect ?Q (lbind ?m ?k)")
proof (rule effectI, rule impI)
  fix st res st' assume run: "lbind ?m ?k st = (res, st')"
    and d: "ls_disk st (lq_session_id r) (lq_work_id r) = h"
  let ?sid = "lq_session_id r" and ?wid = "lq_work_id r"
  note t = sealed_transaction_InrD [OF tx h]
  define answer where "answer = lbind (read_history ?sid ?wid) (\<lambda>concurrent.
      case find_receipt concurrent (lq_request_id r) of
        Some receipt \<Rightarrow> replayed_outcome receipt dg
      | None \<Rightarrow> lraise LEASE_CONCURRENT_MODIFICATION)"
  have reads: "reads answer" unfolding answer_def by (intro reads_intros)
  obtain r1 t1 where m: "?m st = (r1, t1)" by (cases "?m st")
  define race where "race = lp_race p (ls_calls st)"
  show "mutation_effect p a r (ls_disk st) (map_sum id Reclaimed res) (ls_disk st')"
  proof (cases rule: publish_cases [OF m race_def, unfolded d, case_names refused taken linked])
    case (refused code)
    with run m have "res = Inl (STORAGE_FAILURE code)" "st' = t1" by (simp_all add: lbind_def)
    with refused(2) d show ?thesis by (auto simp: mutation_effect_def Let_def raced_def race_def)
  next
    case linked
    with t(8) have "race = []" by (cases race) simp_all
    with linked(2) have d1: "ls_disk t1 = put_history (ls_disk st) ?sid ?wid (h @ [tx])" by simp
    from t(1) have "find_receipt (h @ [tx]) (lq_request_id r) = Some tx"
      using receipt_last [of h tx] by (simp add: readable_def t(7))
    with t dg epoch n w d d1 have added: "adds_transaction p a r (ls_disk st) tx (ls_disk t1)"
      "readable (ls_disk t1 ?sid ?wid)" "has_receipt r (outcome_of r tx False) (ls_disk t1 ?sid ?wid)"
      by (auto simp: adds_transaction_def has_receipt_def outcome_of_def)
    from linked(3) show ?thesis
    proof (elim disjE exE conjE)
      assume "r1 = Inr True"
      with run m t(4) have "res = Inr (outcome_of r tx False)" "st' = t1"
        by (simp_all add: lbind_def lreturn_def lpure_def outcome_of_def)
      with added show ?thesis by (auto simp: mutation_effect_def Let_def) (simp add: outcome_of_def)
    next
      fix n code assume "r1 = Inl (STORAGE_FAILURE code)" and code: "lp_storage p n = Some code"
      with run m have "res = Inl (STORAGE_FAILURE code)" "st' = t1" by (simp_all add: lbind_def)
      with added code show ?thesis by (auto simp: mutation_effect_def Let_def)
    qed
  next
    case taken
    with d have raced: "raced p (ls_disk st) ?sid ?wid (ls_disk t1)"
      by (auto simp: raced_def race_def)
    from run m taken(1) have run': "answer t1 = (res, st')" by (simp add: lbind_def answer_def)
    from readsD [OF reads this] raced have raced': "raced p (ls_disk st) ?sid ?wid (ls_disk st')"
      by simp
    show ?thesis
    proof (cases res)
      case (Inl e)
      with raced' show ?thesis by (simp add: mutation_effect_def Let_def)
    next
      case (Inr mo)
      with run' have rd: "readable (ls_disk t1 ?sid ?wid)"
        by (auto simp: answer_def lbind_def read_history_eq split: if_splits)
      with run' Inr obtain tx' where tx': "find_receipt (ls_disk t1 ?sid ?wid) (lq_request_id r) = Some tx'"
        and rep: "replayed_outcome tx' dg t1 = (Inr mo, st')"
        by (auto simp: answer_def lbind_def read_history_eq lraise_def lpure_def split: option.splits)
      with replayed_receipt [OF rep] rd raced' dg Inr show ?thesis
        by (auto simp: mutation_effect_def Let_def has_receipt_def)
    qed
  qed
qed

lemma yields_lbind: "(\<And>x. yields (k x) P) \<Longrightarrow> yields (lbind m k) P"
  by (auto simp: yields_def lbind_def split: prod.splits sum.splits)

lemma yields_lrequire: "yields m P \<Longrightarrow> yields (lrequire e b m) P"
  by (simp add: yields_def lrequire_def lraise_def lpure_def)

lemma boundary_yields: "yields (boundary p sid check a) (was_read p)"
  unfolding boundary_def
  by (intro yields_lbind)
    (auto simp: yields_def now_def lbind_def ask_def lraise_def lpure_def lrequire_def
      keep_reading_def was_read_def split: option.splits if_splits)

lemma current_runnable_yields:
  "yields (current_runnable p sid a) (\<lambda>c. \<forall>wa. c = Some wa \<longrightarrow> was_shown p a sid (fst wa))"
  by (auto simp: yields_def current_runnable_def observe_current_work_def load_snapshot_def
      lbind_def ask_def lraise_def lreturn_def lpure_def lrequire_def was_shown_def
      split: option.splits if_splits prod.splits sum.splits)

lemma current_work_yields: "yields (load_current_work p sid a) (was_shown p a sid)"
  by (auto simp: yields_def load_current_work_def load_authoritative_work_def load_snapshot_def
      lbind_def ask_def lraise_def lreturn_def lpure_def lrequire_def was_shown_def
      split: option.splits if_splits prod.splits sum.splits)

lemma lease_at_commit_epoch:
  "lease_at_commit epoch op h w r n = Inr l \<Longrightarrow> lr_runtime_epoch l = epoch"
  by (auto simp: lease_at_commit_def renewed_lease_def reclaimed_lease_def new_lease_def Let_def
      andthen_eq_Inr_iff split: lease_operation.splits lease_request.splits)

lemma commit_effect:
  assumes h: "decode_all h = Inr ()" and dg: "request_digest (operation_of r) r = Inr dg"
    and w: "rw_work_id w = lq_work_id r" and shown: "was_shown p a (lq_session_id r) w"
  shows "effect (\<lambda>d res d'. d (lq_session_id r) (lq_work_id r) = h \<longrightarrow>
      mutation_effect p a r d (map_sum id Reclaimed res) d')
    (commit p h (operation_of r) dg w r check a)"
  unfolding commit_def Let_def w
  by (intro effect_yields [OF _ _ boundary_yields] effect_lpure
      effect_lbind [of _ "boundary p sid check a" for sid] effect_lbind [of _ "storage p"]
      mutation_effect_safe reads_intros publish_effect [OF h _ dg _ _ shown] lease_at_commit_epoch)

section \<open>The operations\<close>

lemma replay_receipt_run:
  assumes "replay_receipt p r dg a st = (Inr (Some mo), st')"
  shows "readable (ls_disk st (lq_session_id r) (lq_work_id r))"
    and "mo_replayed mo" and "ls_disk st' = ls_disk st"
    and "request_digest (operation_of r) r = Inr dg \<Longrightarrow>
      has_receipt r mo (ls_disk st (lq_session_id r) (lq_work_id r))"
proof -
  let ?h = "ls_disk st (lq_session_id r) (lq_work_id r)"
  show d: "ls_disk st' = ls_disk st" using reads_steps(2) assms by (rule readsD)
  obtain u t where t: "assert_authority p (lq_session_id r) a st = (Inr u, t)"
    using assms by (auto simp: replay_receipt_def lbind_def split: prod.splits sum.splits)
  from reads_ports(1) t have dt: "ls_disk t = ls_disk st" by (rule readsD)
  from assms t show r: "readable ?h"
    by (auto simp: replay_receipt_def lbind_def read_history_eq dt split: if_splits)
  with assms t obtain tx where tx: "find_receipt ?h (lq_request_id r) = Some tx"
    and rep: "lbind (replayed_outcome tx dg) (\<lambda>mo. lreturn (Some mo)) t = (Inr (Some mo), st')"
    by (auto simp: replay_receipt_def lbind_def [of "assert_authority _ _ _"]
        lbind_def [of "read_history _ _"] read_history_eq dt lreturn_def [of None] lpure_def
        split: option.splits)
  from rep obtain t' where "replayed_outcome tx dg t = (Inr mo, t')"
    by (auto simp: lbind_def lreturn_def lpure_def split: prod.splits sum.splits)
  from replayed_receipt [OF this] tx show "mo_replayed mo"
    and "request_digest (operation_of r) r = Inr dg \<Longrightarrow> has_receipt r mo ?h"
    by (auto simp: has_receipt_def)
qed

lemma answer_or_run_effect:
  assumes answer: "\<And>mo. f (answer mo) = Reclaimed mo"
    and body: "\<And>dg. request_digest (operation_of r) r = Inr dg \<Longrightarrow>
      effect (\<lambda>d res d'. mutation_effect p a r d (map_sum id f res) d') (body dg)"
  shows "effect (\<lambda>d res d'. mutation_effect p a r d (map_sum id f res) d')
    (answer_or_run p (operation_of r) r a answer body)"
  unfolding answer_or_run_def
proof (intro effect_lpure mutation_effect_safe effectI)
  fix dg st res st'
  assume dg: "request_digest (operation_of r) r = Inr dg"
    and run: "lbind (replay_receipt p r dg a) (\<lambda>receipt.
       case receipt of Some mo \<Rightarrow> lreturn (answer mo) | None \<Rightarrow> body dg) st = (res, st')"
  obtain r1 t where m: "replay_receipt p r dg a st = (r1, t)" by (cases "replay_receipt p r dg a st")
  with reads_steps(2) have d: "ls_disk t = ls_disk st" by (rule readsD)
  show "mutation_effect p a r (ls_disk st) (map_sum id f res) (ls_disk st')"
  proof (cases r1)
    case (Inl e)
    with run m d show ?thesis by (auto simp: lbind_def mutation_effect_def raced_def Let_def)
  next
    case (Inr answered)
    show ?thesis
    proof (cases answered)
      case None
      with run m Inr have "body dg t = (res, st')" by (simp add: lbind_def)
      from effectD [OF body [OF dg] this] show ?thesis by (simp add: d)
    next
      case (Some mo)
      with run m Inr have "res = Inr (answer mo)" "st' = t"
        by (auto simp: lbind_def lreturn_def lpure_def)
      with replay_receipt_run [OF m [unfolded Inr Some]] dg show ?thesis
        by (simp add: mutation_effect_def Let_def answer raced_def)
    qed
  qed
qed

lemma confirm_exhausted_result:
  assumes "confirm_exhausted p c h proof a st = (Inr x, st')"
  shows "x = proof"
proof -
  from assms obtain cur t where "(case cur of None \<Rightarrow> lreturn proof | Some wa \<Rightarrow>
       if rw_work_id (fst wa) \<noteq> qr_work_id c then lreturn proof
       else lbind (assert_reclaim_eligible p c wa h a) (\<lambda>_. lreturn proof)) t = (Inr x, st')"
    by (auto simp: confirm_exhausted_def lbind_def split: prod.splits sum.splits)
  then show ?thesis
    by (auto simp: lbind_def lreturn_def lpure_def split: option.splits if_splits prod.splits sum.splits)
qed

lemma exhausted_effect:
  assumes dg: "request_digest LO_RECLAIM (Reclaim c) = Inr dg" and h: "readable h"
    and x: "build_exhaustion_proof (lt_work (last h)) n h epoch (qr_owner_id c) (qr_request_id c) dg = Inr x"
  shows "effect (\<lambda>d res d'. d (qr_session_id c) (qr_work_id c) = h \<longrightarrow>
      mutation_effect p a (Reclaim c) d (map_sum id id res) d')
    (lbind (confirm_exhausted p c h x a) (\<lambda>x. lreturn (Exhausted x)))"
proof (rule effectI, rule impI)
  fix st res st' assume run: "lbind (confirm_exhausted p c h x a) (\<lambda>x. lreturn (Exhausted x)) st = (res, st')"
    and d: "ls_disk st (qr_session_id c) (qr_work_id c) = h"
  have "reads (lbind (confirm_exhausted p c h x a) (\<lambda>x. lreturn (Exhausted x)))"
    by (intro reads_intros)
  from readsD [OF this run] have d': "ls_disk st' = ls_disk st" .
  from run have res: "(\<exists>e. res = Inl e) \<or> res = Inr (Exhausted x)"
    by (auto simp: lbind_def lreturn_def lpure_def split: prod.splits sum.splits
        dest!: confirm_exhausted_result)
  have "proves_exhaustion (Reclaim c) x h"
    using x dg h by (auto simp: build_exhaustion_proof_def proves_exhaustion_def Let_def
        andthen_eq_Inr_iff)
  with res d d' show "mutation_effect p a (Reclaim c) (ls_disk st) (map_sum id id res) (ls_disk st')"
    by (auto simp: mutation_effect_def raced_def Let_def)
qed

text \<open>The steps of the bodies that read, other than \<open>read_history\<close>, which \<open>effect_read\<close> follows.\<close>

lemmas effect_ports = reads_ports [THEN effect_lbind [rotated]] reads_steps [THEN effect_lbind [rotated]]
  effect_yields [OF _ reads_work(2) current_work_yields]
  effect_yields [OF _ reads_work(4) current_runnable_yields]

lemmas body_effects = effect_ports effect_read effect_lrequire effect_lpure mutation_effect_safe

lemma readable_decode: "readable h \<Longrightarrow> decode_all h = Inr ()"
  by (simp add: readable_def)

lemma claim_effect:
  "effect (\<lambda>d res d'. mutation_effect p a (Claim c) d (map_sum id Reclaimed res) d') (claim p c a)"
proof -
  note answered = answer_or_run_effect [of Reclaimed id "Claim c" p, simplified operation_of.simps]
  show ?thesis
    unfolding claim_def Let_def
    apply (intro effect_lrequire mutation_effect_safe answered, simp)
    apply (intro body_effects)
    subgoal for dg w h n
      using commit_effect [of h "Claim c" dg w p] readable_decode [of h]
      by (auto intro!: body_effects effect_lraise)
    done
qed

lemma renew_effect:
  "effect (\<lambda>d res d'. mutation_effect p a (Renew c) d (map_sum id Reclaimed res) d') (renew p c a)"
proof -
  note answered = answer_or_run_effect [of Reclaimed id "Renew c" p, simplified operation_of.simps]
  show ?thesis
    unfolding renew_def Let_def
    apply (intro effect_lrequire mutation_effect_safe answered, simp)
    apply (intro body_effects)
    subgoal for dg w h u n v x
      using commit_effect [of h "Renew c" dg w p] readable_decode [of h] by auto
    done
qed

lemma reclaim_effect:
  "effect (\<lambda>d res d'. mutation_effect p a (Reclaim c) d (map_sum id id res) d') (reclaim p c a)"
proof -
  note answered = answer_or_run_effect [of id Reclaimed "Reclaim c" p, simplified operation_of.simps]
  have fresh: "effect (\<lambda>d res d'. d (qr_session_id c) (qr_work_id c) = h \<longrightarrow>
      mutation_effect p a (Reclaim c) d (map_sum id id res) d')
    (lbind (commit p h LO_RECLAIM dg w (Reclaim c) check a) (\<lambda>mo. lreturn (Reclaimed mo)))"
    if "request_digest LO_RECLAIM (Reclaim c) = Inr dg" "readable h" "rw_work_id w = qr_work_id c"
      "was_shown p a (qr_session_id c) w"
    for dg h w check
    using commit_effect [of h "Reclaim c" dg w p] readable_decode [OF that(2)] that(1,3,4)
    by (intro effect_map mutation_effect_safe) (simp add: sum.map_id)
  show ?thesis
    unfolding reclaim_def Let_def
    apply (intro effect_lrequire mutation_effect_safe answered, simp)
    apply (intro body_effects)
    subgoal for dg h
      using fresh [of dg h]
      by (auto intro!: body_effects effect_lraise exhausted_effect split: option.split)
    done
qed

text \<open>Every mutation, whatever its ports answer.\<close>

lemma mutate_effect:
  assumes "mutate p r a st = (res, st')"
  shows "mutation_effect p a r (ls_disk st) res (ls_disk st')"
proof -
  have m: "effect (mutation_effect p a r) (lbind m (\<lambda>mo. lreturn (Reclaimed mo)))"
    if "effect (\<lambda>d res d'. mutation_effect p a r d (map_sum id Reclaimed res) d') m" for m
    using that by (intro effect_map mutation_effect_safe)
  have "effect (mutation_effect p a r) (mutate p r a)"
  proof (cases r)
    case (Claim c)
    with m claim_effect show ?thesis by (simp add: mutate_def)
  next
    case (Renew c)
    with m renew_effect show ?thesis by (simp add: mutate_def)
  next
    case (Reclaim c)
    with reclaim_effect show ?thesis by (simp add: mutate_def sum.map_id)
  qed
  from effectD [OF this assms] show ?thesis .
qed

end
