(* ===== verification/Lease_Encoding.thy ===== *)
theory Lease_Encoding
  imports Lease_Effects
begin

text \<open>
  The records of the lease store always encode: their trees are ASCII, so the hashes exist, and
  a transaction with bounded numbers fits the limit of a record.  The bound on the size of a
  tree counts every character as an escape of six.
\<close>

section \<open>The size of a JSON text\<close>

fun json_size :: "json \<Rightarrow> nat" where
  "json_size JNull = 4"
| "json_size (JBool b) = 5"
| "json_size (JInt i) = length (int_str i)"
| "json_size (JStr s) = 6 * length s + 2"
| "json_size (JList xs) = 2 + sum_list (map (\<lambda>x. json_size x + 1) xs)"
| "json_size (JObj kvs) = 2 + sum_list (map (\<lambda>(k, v). 6 * length k + 4 + json_size v) kvs)"

lemma length_escape: "length (escape_char c) \<le> 6"
  by (simp add: escape_char_def)

lemma length_quote: "length (quote_str s) \<le> 6 * length s + 2"
proof (induction s)
  case (Cons c s)
  with length_escape [of c] show ?case by (simp add: quote_str_def)
qed (simp add: quote_str_def)

lemma length_join: "length (join [c] xs) \<le> sum_list (map (\<lambda>x. length x + 1) xs)"
  by (induction "[c]" xs rule: join.induct) auto

lemma sum_list_sort_key:
  fixes f :: "'a \<Rightarrow> nat"
  shows "sum_list (map f (sort_key g xs)) = sum_list (map f xs)"
proof (induction xs)
  case (Cons x xs)
  have "sum_list (map f (insort_key g x ys)) = f x + sum_list (map f ys)" for ys
    by (induction ys) simp_all
  with Cons show ?case by simp
qed simp

lemma length_dumps: "length (dumps j) \<le> json_size j"
proof (induction j)
  case (JStr s)
  show ?case using length_quote [of s] by simp
next
  case (JList xs)
  have "length (join [44] (map dumps xs)) \<le> sum_list (map (\<lambda>x. length (dumps x) + 1) xs)"
    using length_join [of 44 "map dumps xs"] by (simp add: comp_def)
  also have "\<dots> \<le> sum_list (map (\<lambda>x. json_size x + 1) xs)"
    using JList by (intro sum_list_mono) simp
  finally show ?case by simp
next
  case (JObj kvs)
  let ?item = "\<lambda>(k, s). quote_str k @ [58] @ s"
  let ?items = "map (\<lambda>(k, v). (k, dumps v)) kvs"
  have "length (join [44] (map ?item (sort_key fst ?items)))
      \<le> sum_list (map (\<lambda>x. length (?item x) + 1) (sort_key fst ?items))"
    using length_join [of 44 "map ?item (sort_key fst ?items)"] by (simp add: comp_def)
  also have "\<dots> = sum_list (map (\<lambda>x. length (?item x) + 1) ?items)" by (rule sum_list_sort_key)
  also have "\<dots> = sum_list (map (\<lambda>(k, v). length (quote_str k) + length (dumps v) + 2) kvs)"
    by (simp add: comp_def case_prod_unfold)
  also have "\<dots> \<le> sum_list (map (\<lambda>(k, v). 6 * length k + 4 + json_size v) kvs)"
  proof (intro sum_list_mono)
    fix kv assume "kv \<in> set kvs"
    with JObj [of kv "snd kv"] length_quote [of "fst kv"]
    show "(case kv of (k, v) \<Rightarrow> length (quote_str k) + length (dumps v) + 2)
        \<le> (case kv of (k, v) \<Rightarrow> 6 * length k + 4 + json_size v)"
      by (cases kv) (auto simp: snds.simps)
  qed
  finally show ?case by simp
qed simp_all

lemma length_nat_digits:
  assumes "0 < k" and "n < 10 ^ k"
  shows "length (nat_digits n) \<le> k"
  using assms
proof (induction k arbitrary: n)
  case (Suc k)
  show ?case
  proof (cases "n < 10")
    case True
    then show ?thesis by (simp add: nat_digits.simps)
  next
    case False
    with Suc.prems have "0 < k" by (cases k) auto
    moreover from Suc.prems have "n div 10 < 10 ^ k" by (simp add: div_less_iff_less_mult)
    ultimately have "length (nat_digits (n div 10)) \<le> k" by (rule Suc.IH)
    with False show ?thesis by (subst nat_digits.simps) simp
  qed
qed simp

definition small :: "int \<Rightarrow> bool" where
  "small i \<longleftrightarrow> 0 \<le> i \<and> i < 10 ^ 100"

lemma length_int_str: "small i \<Longrightarrow> length (int_str i) \<le> 100"
  by (simp add: small_def int_str_def length_nat_digits nat_less_iff)

lemma record_bytes_ok:
  assumes "ascii_json j"
  shows "\<exists>bs. record_bytes j = Inr bs \<and> length bs \<le> json_size j + 1"
proof -
  from assms have "ascii (dumps j @ [10])" by (simp add: ascii_dumps)
  then obtain bs where "utf8_encode (dumps j @ [10]) = Some bs" "length bs = length (dumps j @ [10])"
    using utf8_encode_ascii_length by blast
  with length_dumps [of j] show ?thesis by (simp add: record_bytes_def)
qed

lemma record_hash_ok:
  assumes "ascii_json j"
  shows "\<exists>d. record_hash j = Inr d \<and> is_sha256_digest d"
  using record_bytes_ok [OF assms]
  by (auto simp: record_hash_def is_sha256_digest_def digest_prefix_def py_def hexdigest_hex)

section \<open>The trees of a transaction\<close>

lemma id_length: "is_protocol_id s \<Longrightarrow> length s \<le> 128"
  by (auto simp: is_protocol_id_def split: list.splits)

lemma digest_length: "is_sha256_digest s \<Longrightarrow> length s = 71"
  by (simp add: is_sha256_digest_def)

lemma optional_size:
  "is_optional_protocol_id v \<Longrightarrow> json_size (optional_str v) \<le> 770"
  "is_optional_sha256_digest w \<Longrightarrow> json_size (optional_str w) \<le> 770"
  using id_length digest_length
  by (auto simp: optional_str_def is_optional_protocol_id_def is_optional_sha256_digest_def
      split: option.splits)

lemma kind_length: "length (trigger_kind_value k) \<le> 100"
  by (cases k) (simp_all add: py_def)

fun valid_request :: "lease_request \<Rightarrow> bool" where
  "valid_request (Claim r) = valid_claim_request r"
| "valid_request (Renew r) = valid_renew_request r"
| "valid_request (Reclaim r) = valid_reclaim_request r"

fun request_numbers :: "lease_request \<Rightarrow> int list" where
  "request_numbers (Claim r) = [cr_lease_seconds r, cr_max_tenure_seconds r]"
| "request_numbers (Renew r) = [nr_expected_lease_version r, nr_lease_seconds r]"
| "request_numbers (Reclaim r) =
     [qr_expected_work_attempt r, qr_lease_seconds r, qr_max_tenure_seconds r]"

lemmas size_facts = id_length digest_length length_int_str optional_size

lemma valid_request_ids:
  "valid_request r \<Longrightarrow> is_protocol_id (lq_session_id r) \<and> is_protocol_id (lq_request_id r)
    \<and> is_protocol_id (lq_claim_id r) \<and> is_protocol_id (lq_work_id r) \<and> is_protocol_id (lq_owner_id r)"
  by (cases r) (simp_all add: valid_claim_request_def valid_renew_request_def valid_reclaim_request_def)

lemma request_fields_ok:
  assumes "valid_request r"
  shows "\<exists>fs. request_fields (operation_of r) r = Inr fs \<and> ascii_json (JObj fs)
    \<and> (list_all small (request_numbers r) \<longrightarrow> json_size (JObj fs) \<le> 5500)"
proof (cases r)
  case (Claim c)
  with assms valid_request_ids [OF assms] show ?thesis
    using length_int_str [of "cr_lease_seconds c"] length_int_str [of "cr_max_tenure_seconds c"]
    by (auto simp: named_fields_def protocol_id_ascii dest!: id_length) (auto simp: py_def)
next
  case (Renew c)
  with assms valid_request_ids [OF assms] show ?thesis
    using length_int_str [of "nr_lease_seconds c"] length_int_str [of "nr_expected_lease_version c"]
    by (auto simp: named_fields_def protocol_id_ascii dest!: id_length) (auto simp: py_def)
next
  case (Reclaim c)
  with assms valid_request_ids [OF assms] show ?thesis
    using length_int_str [of "qr_lease_seconds c"] length_int_str [of "qr_max_tenure_seconds c"]
      length_int_str [of "qr_expected_work_attempt c"]
    by (auto simp: named_fields_def protocol_id_ascii dest!: id_length) (auto simp: py_def)
qed

lemma work_tree_ok:
  assumes "validate_runnable_work w = Inr w"
  shows "\<exists>t. work_tree w = Inr t \<and> ascii_json t
    \<and> (list_all small [rw_registry_generation w, rw_conversation_version w,
                       rw_observed_sequence w, rw_trigger_event_sequence w] \<longrightarrow> json_size t \<le> 13000)"
proof -
  from assms have sh: "runnable_shape w" by (simp add: validate_runnable_work_def split: if_splits)
  note ids = sh [unfolded runnable_shape_def]
  have "json_size (optional_str (rw_topic_run_id w)) \<le> 770"
    "json_size (optional_str (rw_parent_turn_id w)) \<le> 770"
    "json_size (optional_str (rw_contract_digest w)) \<le> 770"
    using ids optional_size by simp_all
  moreover have "length (rw_session_id w) \<le> 128" "length (rw_trigger_event_id w) \<le> 128"
    "length (rw_trigger_work_id w) \<le> 128" "length (rw_work_id w) \<le> 128"
    "length (rw_trigger_runtime_epoch w) \<le> 128" "length (rw_input_digest w) = 71"
    "length (rw_evidence_digest w) = 71" "length (rw_binding_digest w) = 71"
    using ids id_length digest_length by simp_all
  moreover have "ascii_json (optional_str (rw_topic_run_id w))"
    "ascii_json (optional_str (rw_parent_turn_id w))" "ascii_json (optional_str (rw_contract_digest w))"
    using ids optional_id_ascii optional_digest_ascii by simp_all
  ultimately show ?thesis
    using ids length_int_str [of "rw_registry_generation w"]
      length_int_str [of "rw_conversation_version w"] length_int_str [of "rw_observed_sequence w"]
      length_int_str [of "rw_trigger_event_sequence w"] kind_length [of "rw_kind w"]
    by (simp add: work_tree_def assms named_fields_def protocol_id_ascii digest_ascii
        ascii_trigger_kind_value) (auto simp: py_def)
qed

lemma lease_tree_ok:
  assumes "valid_lease l"
  shows "\<exists>t. lease_tree l = Inr t \<and> ascii_json t
    \<and> (list_all small [lr_lease_version l, lr_registry_generation l, lr_acquired_at l,
                       lr_renewed_at l, lr_expires_at l, lr_absolute_expires_at l] \<longrightarrow> json_size t \<le> 8000)"
proof -
  note ids = assms [unfolded valid_lease_def]
  then have "length (lr_session_id l) \<le> 128" "length (lr_work_id l) \<le> 128"
    "length (lr_claim_id l) \<le> 128" "length (lr_owner_id l) \<le> 128"
    "length (lr_runtime_epoch l) \<le> 128" "length (lr_binding_digest l) = 71"
    using id_length digest_length by simp_all
  with ids show ?thesis
    using length_int_str [of "lr_lease_version l"] length_int_str [of "lr_registry_generation l"]
      length_int_str [of "lr_acquired_at l"] length_int_str [of "lr_renewed_at l"]
      length_int_str [of "lr_expires_at l"] length_int_str [of "lr_absolute_expires_at l"]
    by (simp add: lease_tree_def assms named_fields_def protocol_id_ascii digest_ascii)
      (auto simp: py_def)
qed

lemma request_digest_ok:
  assumes "valid_request r"
  shows "\<exists>d. request_digest (operation_of r) r = Inr d \<and> is_sha256_digest d"
proof -
  from request_fields_ok [OF assms] obtain fs where "request_fields (operation_of r) r = Inr fs"
    "ascii_json (JObj fs)" by blast
  moreover have "ascii (operation_value (operation_of r))" by (cases r) (simp_all add: py_def)
  moreover have "ascii (py ''operation'')" by (simp add: py_def)
  ultimately show ?thesis by (simp add: request_digest_def record_hash_ok)
qed

text \<open>The parts of a transaction that are checked one by one.\<close>

definition well_formed_parts :: "lease_transaction \<Rightarrow> bool" where
  "well_formed_parts tx \<longleftrightarrow>
     valid_request (lt_request tx) \<and> lt_operation tx = operation_of (lt_request tx)
     \<and> lt_request_id tx = lq_request_id (lt_request tx)
     \<and> request_digest (lt_operation tx) (lt_request tx) = Inr (lt_request_digest tx)
     \<and> 1 \<le> lt_sequence tx \<and> 0 \<le> lt_recorded_at tx
     \<and> is_optional_sha256_digest (lt_previous_hash tx)
     \<and> validate_runnable_work (lt_work tx) = Inr (lt_work tx) \<and> valid_lease (lt_lease tx)"

definition transaction_numbers :: "lease_transaction \<Rightarrow> int list" where
  "transaction_numbers tx =
     (let w = lt_work tx; l = lt_lease tx in
      [lt_sequence tx, lt_recorded_at tx, rw_registry_generation w, rw_conversation_version w,
       rw_observed_sequence w, rw_trigger_event_sequence w, lr_lease_version l,
       lr_registry_generation l, lr_acquired_at l, lr_renewed_at l, lr_expires_at l,
       lr_absolute_expires_at l] @ request_numbers (lt_request tx))"

lemma transaction_tree_ok:
  assumes "well_formed_parts tx"
  shows "\<exists>t. lease_transaction_tree tx inc = Inr t \<and> (ascii (lt_hash tx) \<longrightarrow> ascii_json t)
    \<and> (\<not> inc \<longrightarrow> ascii_json t)
    \<and> (list_all small (transaction_numbers tx) \<longrightarrow> length (lt_hash tx) = 71 \<longrightarrow> json_size t \<le> 35000)"
proof -
  note w = assms [unfolded well_formed_parts_def]
  from w request_fields_ok [of "lt_request tx"] obtain fs where
    fs: "request_fields (lt_operation tx) (lt_request tx) = Inr fs" "ascii_json (JObj fs)"
      "list_all small (request_numbers (lt_request tx)) \<Longrightarrow> json_size (JObj fs) \<le> 5500" by auto
  from w request_digest_ok [of "lt_request tx"] have dg: "is_sha256_digest (lt_request_digest tx)" by auto
  from w have rid: "is_protocol_id (lt_request_id tx)" using valid_request_ids by auto
  from w work_tree_ok [of "lt_work tx"] obtain tw where tw: "work_tree (lt_work tx) = Inr tw"
    "ascii_json tw" "list_all small [rw_registry_generation (lt_work tx),
       rw_conversation_version (lt_work tx), rw_observed_sequence (lt_work tx),
       rw_trigger_event_sequence (lt_work tx)] \<Longrightarrow> json_size tw \<le> 13000" by auto
  from w lease_tree_ok [of "lt_lease tx"] obtain tl where tl: "lease_tree (lt_lease tx) = Inr tl"
    "ascii_json tl" "list_all small [lr_lease_version (lt_lease tx),
       lr_registry_generation (lt_lease tx), lr_acquired_at (lt_lease tx), lr_renewed_at (lt_lease tx),
       lr_expires_at (lt_lease tx), lr_absolute_expires_at (lt_lease tx)] \<Longrightarrow> json_size tl \<le> 8000" by auto
  have op: "ascii (operation_value o')" "length (operation_value o') \<le> 10" for o'
    by (cases o'; simp add: py_def)+
  note ob = optional_size(2) [of "lt_previous_hash tx"] optional_digest_ascii [of "lt_previous_hash tx"]
  have is2: "length (int_str 2) \<le> 100" by (rule length_int_str) (simp add: small_def)
  show ?thesis
    using w fs tw tl dg rid op [of "lt_operation tx"] ob is2 id_length [OF rid] digest_length [OF dg]
      length_int_str [of "lt_sequence tx"] length_int_str [of "lt_recorded_at tx"]
    by (simp add: lease_transaction_tree_def named_fields_def record_header_def protocol_id_ascii
        digest_ascii transaction_numbers_def Let_def) (auto simp: py_def)
qed

text \<open>A transaction with well-formed parts is sealed, and a small one fits its file.\<close>

lemma transaction_hash_ok:
  assumes "well_formed_parts tx"
  shows "\<exists>d. lease_transaction_hash tx = Inr d \<and> is_sha256_digest d"
proof -
  from transaction_tree_ok [OF assms, of False] obtain t where
    "lease_transaction_tree tx False = Inr t" "ascii_json t" by auto
  then show ?thesis by (simp add: lease_transaction_hash_def record_hash_ok)
qed

lemma lease_hash_ignored [simp]:
  "lease_transaction_tree (tx\<lparr>lt_hash := h\<rparr>) False = lease_transaction_tree tx False"
  "lease_transaction_hash (tx\<lparr>lt_hash := h\<rparr>) = lease_transaction_hash tx"
  "well_formed_parts (tx\<lparr>lt_hash := h\<rparr>) = well_formed_parts tx"
  "transaction_numbers (tx\<lparr>lt_hash := h\<rparr>) = transaction_numbers tx"
  by (simp_all add: lease_transaction_tree_def lease_transaction_hash_def well_formed_parts_def
      transaction_numbers_def)

lemma encode_ok:
  assumes parts: "well_formed_parts tx" and hash: "lease_transaction_hash tx = Inr (lt_hash tx)"
    and small: "list_all small (transaction_numbers tx)"
  shows "\<exists>bs. encode_transaction tx = Inr bs" and "check_transaction tx = Inr ()"
proof -
  from transaction_hash_ok [OF parts] hash have d: "is_sha256_digest (lt_hash tx)" by auto
  note w = parts [unfolded well_formed_parts_def]
  from w request_fields_ok [of "lt_request tx"] obtain fs where
    "request_fields (lt_operation tx) (lt_request tx) = Inr fs" by auto
  moreover from w request_digest_ok [of "lt_request tx"] have "is_sha256_digest (lt_request_digest tx)"
    by auto
  moreover from w have "is_protocol_id (lt_request_id tx)" using valid_request_ids by auto
  ultimately show c: "check_transaction tx = Inr ()"
    using w d hash by (elim conjE) (simp add: check_transaction_def is_ok_iff valid_positive_int_def
        valid_nonnegative_int_def)
  from transaction_tree_ok [OF parts, of True] digest_ascii [OF d] digest_length [OF d] small
  obtain t where t: "lease_transaction_tree tx True = Inr t" "ascii_json t" "json_size t \<le> 35000"
    by auto
  from record_bytes_ok [OF t(2)] t obtain bs where
    "record_bytes t = Inr bs" "length bs \<le> 35001" by force
  with hash t(1) c show "\<exists>bs. encode_transaction tx = Inr bs"
    by (simp add: encode_transaction_def MAX_TRANSACTION_BYTES_def)
qed

end
