(* ===== verification/Log_Example.thy ===== *)
theory Log_Example
  imports Log_Crash Scenario Lease_Encoding
begin

text \<open>
  The first commit of a session, run on the model: the start of a session on an empty disk.  The
  hashes stay symbolic; that every record encodes, that its own hash is the one its validation
  computes and that the batch reduces is what makes the commit succeed.
\<close>

section \<open>The event\<close>

definition start_trigger :: trigger_binding where
  "start_trigger = sample_trigger TK_TOPIC_CANDIDATES (py ''w1'') None None"

definition start_event :: committed_dialogue_event where
  "start_event =
     \<lparr>ce_event_id = py ''event1'', ce_sequence = 1, ce_from_version = 0, ce_to_version = 1,
      ce_command_id = py ''cmd1'', ce_payload = SessionStarted start_trigger\<rparr>"

definition start_work :: "pystr \<Rightarrow> current_work_state" where
  "start_work i =
     \<lparr>cw_work_id = i, cw_trigger_event_id = py ''event1'', cw_trigger_event_sequence = 1,
      cw_trigger = start_trigger, cw_attempt = 1, cw_status = WS_QUEUED, cw_last_failure = None,
      cw_allowed_recovery_actions = []\<rparr>"

definition start_state :: "pystr \<Rightarrow> dialogue_state" where
  "start_state i = new_state\<lparr>sequence := 1, conversation_version := 1, lifecycle := SL_OPEN,
     phase := WAITING_HOST, session_work := Some (start_work i)\<rparr>"

lemma event1_id [simp]: "is_protocol_id (py ''event1'')"
  by (simp add: is_protocol_id_def py_def is_alnum_char_def is_id_char_def)

lemma start_reduces:
  assumes "derive_canonical_work_id (py ''session1'') (py ''event1'') 1 start_trigger = Inr i"
    and "is_protocol_id i"
  shows "reduce new_state start_event = Inr (start_state i)"
proof -
  have k: "tb_kind start_trigger = TK_TOPIC_CANDIDATES" "is_canonical_trigger_binding start_trigger"
    "tb_contract_digest start_trigger = None"
    by (simp_all add: start_trigger_def)
  have w: "fresh_work new_state start_event start_trigger = Inr (start_work i)"
    using assms by (simp add: fresh_work_def queued_work_from_event_def start_event_def new_state_def
        sample_state_def start_work_def)
  have v: "validate_state (start_state i)"
    using assms k
    by (simp add: start_state_def new_state_def sample_state_def state_defs valid_nonnegative_int_def valid_positive_int_def
     valid_current_work_def start_work_def valid_work_status_fields_def MAX_AUTOMATIC_WORK_ATTEMPTS_def valid_trigger_def)
  have n: "new_state\<lparr>sequence := 1, conversation_version := 1\<rparr> = advance new_state start_event"
    by (simp add: advance_def start_event_def)
  show ?thesis
    using new_state_valid k w v
    by (simp add: reduce_def valid_committed_event_envelope_def start_event_def start_state_def
        new_state_def sample_state_def advance_def valid_positive_int_def valid_nonnegative_int_def
        red_session_started_def valid_trigger_def apply_payload_def)
qed

lemma start_timestamp: "valid_timestamp (py ''2024-01-01T00:00:00+00:00'')"
  by code_simp

section \<open>Encoding\<close>

lemma encodes:
  assumes "v = VRec n vs" and "to_tree v (TyRec n) = Inr j" and "canonical_tree_is_valid j"
    and "ascii_json j" and "json_size j \<le> MAX_RECORD_BYTES"
  shows "\<exists>raw. encode_typed v = Inr raw \<and> length raw \<le> MAX_RECORD_BYTES"
proof -
  obtain raw where "canonical_record_bytes j = Inr raw" "length raw = length (dumps j)"
    using ascii_record_bytes [OF assms(3,4)] .
  moreover have "hints_of n \<noteq> None" using assms(2) by (auto split: option.split_asm)
  ultimately show ?thesis
    using assms(1,2,5) length_dumps [of j] by (simp add: encode_typed_def del: to_tree.simps)
qed

definition start_stored :: "pystr \<Rightarrow> stored_event" where
  "start_stored h =
     \<lparr>se_schema_version = SCHEMA_VERSION, se_record_type = py ''dialogue_event'',
      se_protocol_version = PROTOCOL_VERSION, se_session_id = py ''session1'',
      se_registry_generation = 1, se_event_type = py ''session_started'',
      se_occurred_at = py ''2024-01-01T00:00:00+00:00'',
      se_actor = \<lparr>da_kind = AK_RUNTIME, da_actor_id = py ''runtime''\<rparr>, se_causation_id = None,
      se_previous_event_hash = None, se_event = start_event, se_event_hash = h\<rparr>"

definition start_marker :: "pystr \<Rightarrow> pystr \<Rightarrow> pystr \<Rightarrow> transaction_marker" where
  "start_marker e d h =
     \<lparr>tm_schema_version = SCHEMA_VERSION, tm_record_type = py ''dialogue_transaction_marker'',
      tm_session_id = py ''session1'', tm_transaction_id = py ''tx1'', tm_command_id = py ''cmd1'',
      tm_request_digest = sample_digest, tm_registry_generation = 1, tm_from_sequence = 1,
      tm_to_sequence = 1, tm_previous_marker_hash = None, tm_state_digest = d, tm_effect_intents = [],
      tm_events = [\<lparr>me_sequence = 1, me_event_id = py ''event1'', me_event_hash = e\<rparr>],
      tm_marker_hash = h\<rparr>"

lemma ascii_py_lit: "ascii (py s) \<longleftrightarrow> list_all (\<lambda>c. of_char c < (128 :: nat)) s"
  by (simp add: ascii_def py_def list_all_length)

lemma ascii_zeros: "ascii (replicate n 48)"
  by (simp add: ascii_def list_all_iff)

lemma int_str_zero: "int_str 0 = [48]"
  by (simp add: int_str_def nat_digits.simps)

lemmas tree_facts = tagged_def opt_val_def tuple_val_def ascii_py_lit ascii_zeros int_str_zero int_str_small type_key_def
  MAX_JSON_INTEGER_DIGITS_def sample_digest_def digest_prefix_def SCHEMA_VERSION_def PROTOCOL_VERSION_def

lemma start_stored_tree:
  "\<exists>j. to_tree (stored_event_val (start_stored h)) (TyRec ''StoredDialogueEvent'') = Inr j
    \<and> canonical_tree_is_valid j \<and> (ascii h \<longrightarrow> ascii_json j) \<and> json_size j \<le> 6 * length h + 20000"
  by (simp add: tree_facts stored_event_val_def start_stored_def hints_stored_event start_event_def
      dialogue_actor_val_def hints_dialogue_actor committed_dialogue_event_val_def
      hints_committed_dialogue_event start_trigger_def sample_trigger_def actor_kind_val_def
      payload_types_def trigger_binding_val_def hints_trigger_binding hints_session_started
      trigger_kind_val_def)

lemma start_marker_tree:
  "\<exists>j. to_tree (transaction_marker_val (start_marker e d h)) (TyRec ''TransactionMarker'') = Inr j
    \<and> canonical_tree_is_valid j \<and> (ascii e \<and> ascii d \<and> ascii h \<longrightarrow> ascii_json j)
    \<and> json_size j \<le> 6 * length e + 6 * length d + 6 * length h + 20000"
  by (simp add: tree_facts transaction_marker_val_def start_marker_def hints_transaction_marker
      hints_marker_event_ref marker_event_ref_val_def)

lemma start_state_tree:
  "\<exists>j. to_tree (dialogue_state_val (start_state i)) (TyRec ''DialogueState'') = Inr j
    \<and> canonical_tree_is_valid j \<and> (ascii i \<longrightarrow> ascii_json j) \<and> json_size j \<le> 6 * length i + 20000"
  by (simp add: tree_facts dialogue_state_val_def start_state_def new_state_def sample_state_def
      hints_dialogue_state current_work_state_val_def hints_current_work_state start_work_def
      start_trigger_def sample_trigger_def trigger_binding_val_def hints_trigger_binding trigger_kind_val_def
      session_lifecycle_val_def conversation_phase_val_def work_status_val_def)

lemma sha256_of_digest: "is_sha256_digest (sha256_of raw)"
  using hexdigest_hex [of raw] by (simp add: is_sha256_digest_def sha256_of_def digest_prefix_def)

lemma small_encodes:
  assumes "v = VRec n vs"
    and "\<exists>j. to_tree v (TyRec n) = Inr j \<and> canonical_tree_is_valid j \<and> ascii_json j \<and> json_size j \<le> 30000"
  shows "\<exists>raw. encode_typed v = Inr raw \<and> length raw \<le> MAX_RECORD_BYTES"
proof -
  from assms(2) obtain j where j: "to_tree v (TyRec n) = Inr j" "canonical_tree_is_valid j" "ascii_json j"
    "json_size j \<le> 30000" by blast
  have "json_size j \<le> MAX_RECORD_BYTES" using j(4) by (simp add: MAX_RECORD_BYTES_def)
  from encodes [OF assms(1) j(1-3) this] show ?thesis .
qed

lemma start_stored_encodes:
  assumes "h = [] \<or> is_sha256_digest h"
  shows "\<exists>raw. encode_typed (stored_event_val (start_stored h)) = Inr raw \<and> length raw \<le> MAX_RECORD_BYTES"
proof (rule small_encodes [OF stored_event_val_def])
  have "ascii h" "length h \<le> 71" using assms digest_ascii digest_length by (auto simp: ascii_def)
  with start_stored_tree [of h] show "\<exists>j. to_tree (stored_event_val (start_stored h)) (TyRec ''StoredDialogueEvent'') = Inr j
    \<and> canonical_tree_is_valid j \<and> ascii_json j \<and> json_size j \<le> 30000" by force
qed

lemma start_marker_encodes:
  assumes "h = [] \<or> is_sha256_digest h" and "is_sha256_digest e" and "is_sha256_digest d"
  shows "\<exists>raw. encode_typed (transaction_marker_val (start_marker e d h)) = Inr raw
    \<and> length raw \<le> MAX_RECORD_BYTES"
proof (rule small_encodes [OF transaction_marker_val_def])
  have "ascii h" "length h \<le> 71" using assms digest_ascii digest_length by (auto simp: ascii_def)
  moreover have "ascii e" "length e \<le> 71" "ascii d" "length d \<le> 71"
    using assms(2,3) digest_ascii digest_length by auto
  ultimately show "\<exists>j. to_tree (transaction_marker_val (start_marker e d h)) (TyRec ''TransactionMarker'') = Inr j
    \<and> canonical_tree_is_valid j \<and> ascii_json j \<and> json_size j \<le> 30000"
    using start_marker_tree [of e d h] by force
qed

lemma start_state_encodes:
  assumes "is_protocol_id i"
  shows "\<exists>raw. encode_typed (dialogue_state_val (start_state i)) = Inr raw \<and> length raw \<le> MAX_RECORD_BYTES"
proof (rule small_encodes [OF dialogue_state_val_def])
  have "ascii i" "length i \<le> 128" using assms protocol_id_ascii id_length by auto
  with start_state_tree [of i] show "\<exists>j. to_tree (dialogue_state_val (start_state i)) (TyRec ''DialogueState'') = Inr j
    \<and> canonical_tree_is_valid j \<and> ascii_json j \<and> json_size j \<le> 30000" by force
qed

lemmas check_facts = check_field_def ends_with_def opt_val_def tuple_val_def

lemma start_trigger_validates: "validate_domain_identifiers (trigger_binding_val start_trigger) = Inr ()"
proof -
  have "un_trigger_binding (trigger_binding_val start_trigger) = Some start_trigger"
    by (rule represents_inv [OF represents_trigger_binding])
  moreover have "is_canonical_trigger_binding start_trigger" by (simp add: start_trigger_def)
  ultimately show ?thesis
    by (simp add: trigger_binding_val_def hints_trigger_binding check_facts trigger_kind_val_def)
      (simp add: start_trigger_def sample_trigger_def)
qed

lemma start_event_validates: "validate_dialogue_event start_event = Inr ()"
  using start_trigger_validates
  by (simp add: validate_dialogue_event_def start_event_def committed_dialogue_event_val_def
      hints_committed_dialogue_event hints_session_started check_facts trigger_binding_val_def)

lemma start_state_validates:
  assumes "is_protocol_id i"
  shows "validate_domain_identifiers (dialogue_state_val (start_state i)) = Inr ()"
  using start_trigger_validates assms
  by (simp add: dialogue_state_val_def start_state_def new_state_def sample_state_def check_facts
      hints_dialogue_state current_work_state_val_def hints_current_work_state start_work_def
      session_lifecycle_val_def conversation_phase_val_def work_status_val_def trigger_binding_val_def)

section \<open>Records\<close>

abbreviation start_time :: pystr where
  "start_time \<equiv> py ''2024-01-01T00:00:00+00:00''"

definition start_actor :: dialogue_actor where
  "start_actor = \<lparr>da_kind = AK_RUNTIME, da_actor_id = py ''runtime''\<rparr>"

lemma start_actor_validates: "validate_domain_identifiers (dialogue_actor_val start_actor) = Inr ()"
  by (simp add: start_actor_def dialogue_actor_val_def hints_dialogue_actor check_facts
      actor_kind_val_def is_protocol_id_def py_def is_alnum_char_def is_id_char_def)

lemma reraise_Inr [simp]: "reraise e (Inr x) = Inr x"
  by (simp add: reraise_def)

lemma start_names [simp]: "nonblank (py ''session1'')" "nonblank (py ''runtime'')" "nonblank (py ''tx1'')"
  "nonblank (py ''cmd1'')" "nonblank (py ''event1'')"
  by (simp_all add: nonblank_def strip_eq_Nil_iff py_def py_isspace_def)

lemma start_stored_ready:
  "\<exists>h raw. build_stored_event (py ''session1'') start_event None 1 start_time start_actor None
      = Inr (start_stored h)
    \<and> encode_stored_event (start_stored h) = Inr raw \<and> length raw \<le> MAX_RECORD_BYTES \<and> is_sha256_digest h"
proof -
  obtain raw0 where raw0: "encode_typed (stored_event_val (start_stored [])) = Inr raw0"
    using start_stored_encodes [of "[]"] by auto
  define h where "h = sha256_of raw0"
  have d: "is_sha256_digest h" by (simp add: h_def sha256_of_digest)
  obtain raw where raw: "encode_typed (stored_event_val (start_stored h)) = Inr raw"
    "length raw \<le> MAX_RECORD_BYTES" using start_stored_encodes [of h] d by auto
  have u: "unhashed_event (start_stored h) = start_stored []" "se_event_hash (start_stored h) = h"
    "(start_stored [])\<lparr>se_event_hash := h\<rparr> = start_stored h"
    by (simp_all add: unhashed_event_def start_stored_def)
  have f: "stored_event_fields (start_stored h)"
    using d start_timestamp
    by (simp add: stored_event_fields_def start_stored_def start_event_def is_optional_sha256_digest_def)
  have a: "se_actor (start_stored h) = start_actor" "se_event (start_stored h) = start_event"
    by (simp_all add: start_stored_def start_actor_def)
  have v: "validate_stored_event (start_stored h) = Inr ()"
    using f u raw0 start_event_validates start_actor_validates a
    by (simp add: validate_stored_event_def stored_event_digest_def typed_digest_def h_def)
  have "build_stored_event (py ''session1'') start_event None 1 start_time start_actor None
      = Inr (start_stored h)"
    using v raw0 start_event_validates start_actor_validates start_timestamp
    by (simp add: build_stored_event_def typed_digest_def is_optional_sha256_digest_def Let_def h_def)
      (simp add: start_stored_def start_actor_def start_event_def)
  with raw d v show ?thesis by (auto simp: encode_stored_event_def)
qed

lemma start_state_ready:
  assumes "derive_canonical_work_id (py ''session1'') (py ''event1'') 1 start_trigger = Inr i"
    and "is_protocol_id i"
  shows "\<exists>d. dialogue_state_digest (start_state i) = Inr d \<and> is_sha256_digest d"
proof -
  obtain raw where "encode_typed (dialogue_state_val (start_state i)) = Inr raw"
    using start_state_encodes [OF assms(2)] by blast
  moreover have "validate_dialogue_state (start_state i) INVALID_DIALOGUE_STATE = Inr ()"
    using start_state_validates [OF assms(2)] dialogue.step_valid [OF start_reduces [OF assms]]
    by (simp add: validate_dialogue_state_Inr)
  ultimately show ?thesis
    by (auto simp: dialogue_state_digest_def typed_digest_def sha256_of_digest)
qed

lemma start_marker_ready:
  assumes i: "derive_canonical_work_id (py ''session1'') (py ''event1'') 1 start_trigger = Inr i"
    "is_protocol_id i"
    and e: "build_stored_event (py ''session1'') start_event None 1 start_time start_actor None
      = Inr (start_stored e)" "is_sha256_digest e"
    and d: "dialogue_state_digest (start_state i) = Inr d" "is_sha256_digest d"
  shows "\<exists>h raw. build_transaction_marker (py ''session1'') (py ''tx1'') (py ''cmd1'') sample_digest 1 None
      (start_state i) [start_stored e] [] = Inr (start_marker e d h)
    \<and> encode_transaction_marker (start_marker e d h) = Inr raw \<and> length raw \<le> MAX_RECORD_BYTES"
proof -
  obtain raw0 where raw0: "encode_typed (transaction_marker_val (start_marker e d [])) = Inr raw0"
    using start_marker_encodes [of "[]" e d] e(2) d(2) by auto
  define h where "h = sha256_of raw0"
  have hd: "is_sha256_digest h" by (simp add: h_def sha256_of_digest)
  obtain raw where raw: "encode_typed (transaction_marker_val (start_marker e d h)) = Inr raw"
    "length raw \<le> MAX_RECORD_BYTES" using start_marker_encodes [of h e d] hd e(2) d(2) by auto
  have u: "unhashed_marker (start_marker e d h) = start_marker e d []"
    "tm_marker_hash (start_marker e d h) = h" "(start_marker e d [])\<lparr>tm_marker_hash := h\<rparr> = start_marker e d h"
    by (simp_all add: unhashed_marker_def start_marker_def)
  have f: "marker_fields (start_marker e d h)" "marker_references (start_marker e d h)"
    using hd e(2) d(2)
    by (simp_all add: marker_fields_def marker_references_def start_marker_def valid_effect_intents_def
        is_optional_sha256_digest_def)
  have v: "validate_transaction_marker (start_marker e d h) = Inr ()"
    using f u raw0 by (simp add: validate_transaction_marker_def marker_digest_def typed_digest_def h_def)
  have ev: "validate_stored_event (start_stored e) = Inr ()"
    using e(1) by (auto simp: build_stored_event_def andthen_eq_Inr_iff Let_def)
  have st: "validate_dialogue_state (start_state i) INVALID_TRANSACTION_MARKER = Inr ()"
    by (rule dialogue_state_digestD [OF d(1)])
  have b: "marker_binds (py ''session1'') (py ''cmd1'') 1 (start_state i) [start_stored e]"
    by (simp add: marker_binds_def start_stored_def start_event_def start_state_def pairwise_def)
  have r: "event_references [start_stored e]
      = Inr [\<lparr>me_sequence = 1, me_event_id = py ''event1'', me_event_hash = e\<rparr>]"
    using ev by (simp add: build_marker_event_ref_def event_reference_def)
      (simp add: start_stored_def start_event_def)
  have "build_transaction_marker (py ''session1'') (py ''tx1'') (py ''cmd1'') sample_digest 1 None
      (start_state i) [start_stored e] [] = Inr (start_marker e d h)"
    using v raw0 st b r d
    by (simp add: build_transaction_marker_def typed_digest_def is_optional_sha256_digest_def Let_def
        h_def valid_effect_intents_def start_marker_def del: event_references.simps)
      (simp add: start_state_def new_state_def sample_state_def)
  with raw v show ?thesis by (auto simp: encode_transaction_marker_def)
qed

section \<open>The first commit of a session\<close>

definition start_request :: commit_request where
  "start_request =
     \<lparr>cq_session_id = py ''session1'', cq_transaction_id = py ''tx1'', cq_request_digest = sample_digest,
      cq_registry_generation = 1, cq_events = [start_event],
      cq_metadata = [\<lparr>em_occurred_at = start_time, em_actor = start_actor, em_causation_id = None\<rparr>],
      cq_effect_intents = []\<rparr>"

definition open_guards :: commit_guards where
  "open_guards = \<lparr>cg_entry = True, cg_before = True, cg_host = None, cg_after = True\<rparr>"

lemma write_projection_total: "\<exists>s' current. write_projection s = Some (s', Inr current)"
  by (auto simp: write_projection_def follow_def split: sum.split)

lemma write_projection_events:
  "write_projection s = Some (s', r) \<Longrightarrow> ld_events (lg_disk s') = ld_events (lg_disk s)"
  by (auto simp: write_projection_def follow_eq_Some split: sum.split_asm)

lemma start_prepares:
  "\<exists>i e raw d h mraw. prepare_transaction new_state (initial_tip new_state) start_request
     = Inr (start_state i, [(start_stored e, raw)], start_marker e d h, mraw)"
proof -
  have "derivable (py ''session1'') (py ''event1'') 1 start_trigger"
    by (simp add: derivable_def start_trigger_def)
  from derive_ok [OF this] obtain i where
    i: "derive_canonical_work_id (py ''session1'') (py ''event1'') 1 start_trigger = Inr i" "is_protocol_id i"
    by blast
  obtain e raw where e: "build_stored_event (py ''session1'') start_event None 1 start_time start_actor None
      = Inr (start_stored e)" "encode_stored_event (start_stored e) = Inr raw"
      "length raw \<le> MAX_RECORD_BYTES" "is_sha256_digest e" using start_stored_ready by blast
  obtain d where d: "dialogue_state_digest (start_state i) = Inr d" "is_sha256_digest d"
    using start_state_ready [OF i] by blast
  obtain h mraw where m: "build_transaction_marker (py ''session1'') (py ''tx1'') (py ''cmd1'') sample_digest 1
      None (start_state i) [start_stored e] [] = Inr (start_marker e d h)"
      "encode_transaction_marker (start_marker e d h) = Inr mraw" "length mraw \<le> MAX_RECORD_BYTES"
    using start_marker_ready [OF i e(1,4) d] by blast
  have g: "validate_registry_generation new_state 1 [start_event] = Inr ()"
    by (simp add: validate_registry_generation_def start_event_def is_deactivation_def new_state_def
        sample_state_def)
  have c: "ce_command_id start_event = py ''cmd1''" by (simp add: start_event_def)
  have "prepare_transaction new_state (initial_tip new_state) start_request
      = Inr (start_state i, [(start_stored e, raw)], start_marker e d h, mraw)"
    using start_reduces [OF i] e m g c
    by (simp add: prepare_transaction_def start_request_def initial_tip_def)
  then show ?thesis by blast
qed

abbreviation first_log :: dialogue_log where
  "first_log \<equiv> new_log new_state empty_disk"

lemma first_log_simps [simp]:
  "lg_initial first_log = new_state" "lg_tip first_log = initial_tip new_state" "lg_past first_log = []"
  "lg_disk first_log = empty_disk" "\<not> lg_closed first_log" "sequence new_state = 0"
  by (simp_all add: new_log_def new_state_def)

lemma empty_disk_simps [simp]:
  "ld_events empty_disk = []" "ld_transactions empty_disk = []" "ld_quarantine empty_disk = []"
  "ld_session empty_disk = []"
  by (simp_all add: empty_disk_def)

lemma start_request_valid: "validate_request new_state start_request = Inr ()"
  by (simp add: validate_request_def start_request_def new_state_def sample_state_def
      validate_event_batch_shape_def start_event_def failure_batch_def is_work_failure_def)

lemma empty_recovers: "recover_tip new_state empty_disk = Inr (initial_tip new_state)"
proof -
  have "read_marker empty_disk 1 = Inl (Fs FILE_NOT_FOUND)"
    using valid_marker_name [of 1]
    by (simp add: read_marker_def dir_read_def MAX_RECORD_BYTES_def lift_error_def)
  then show ?thesis by (simp add: recover_tip_iff recovered.no_marker) (simp add: initial_tip_def new_state_def)
qed

lemma empty_expected: "reject_unexpected_markers empty_disk tip = Inr ()"
  by (simp add: reject_unexpected_markers_def dir_list_def)

lemma first_commit:
  obtains s' out x where "log_commit open_guards start_request first_log = Some (s', Inr out)"
    "recover_tip new_state (lg_disk s') = Inr (lg_tip s')" "tp_receipts (lg_tip s') = [x]"
    "reject_unexpected_markers (lg_disk s') (lg_tip s') = Inr ()"
    "dr_command_id x = py ''cmd1''" "dr_request_digest x = sample_digest" "\<not> co_replayed out"
    "co_receipt out = x" "length (ld_events (lg_disk s')) = 1" "length (ld_transactions (lg_disk s')) = 1"
proof -
  obtain i e raw d h mraw where p: "prepare_transaction new_state (initial_tip new_state) start_request
     = Inr (start_state i, [(start_stored e, raw)], start_marker e d h, mraw)" using start_prepares by blast
  let ?m = "start_marker e d h"
  have m: "tm_from_sequence ?m = 1" "tm_command_id ?m = py ''cmd1''" "tm_request_digest ?m = sample_digest"
    by (simp_all add: start_marker_def)
  have n: "valid_component (event_name 1)" "valid_component (marker_name 1)"
    using valid_marker_name [of 1] valid_event_name [of 1] by simp_all
  have rc: "receipt_from_marker ?m = Inr (marker_receipt ?m)"
    using p by (elim prepare_transactionE) (auto simp: receipt_from_marker_Inr dest: build_transaction_markerD(1))
  define d1 where "d1 = empty_disk\<lparr>ld_events := [(event_name 1, raw)]\<rparr>"
  define t1 where "t1 = first_log\<lparr>lg_disk := d1, lg_past := [empty_disk]\<rparr>"
  define t2 where "t2 = t1\<lparr>lg_disk := d1\<lparr>ld_transactions := [(marker_name 1, mraw)]\<rparr>, lg_past := [d1, empty_disk],
     lg_tip := committed_tip (initial_tip new_state) (start_state i) [(start_stored e, raw)] ?m (marker_receipt ?m)\<rparr>"
  obtain s' current where w: "write_projection t2 = Some (s', Inr current)"
    using write_projection_total by blast
  define out where "out = \<lparr>co_receipt = marker_receipt ?m, co_state = start_state i,
     co_events = cq_events start_request, co_replayed = False, co_projection_current = current\<rparr>"
  have ev: "publish_event (start_stored e) raw first_log = Some (t1, Inr ())"
    using n(1) by (simp add: publish_event_def dir_write_def t1_def d1_def start_stored_def
        start_event_def Let_def)
  have mk: "publish_marker open_guards ?m mraw t1 = Some (t1\<lparr>lg_disk := d1\<lparr>ld_transactions := [(marker_name 1, mraw)]\<rparr>,
      lg_past := [d1, empty_disk]\<rparr>, Inr ())"
    using n(2) m(1)
    by (simp add: publish_marker_def guard_marker_publication_def open_guards_def dir_write_def t1_def d1_def Let_def)
  have pt: "publish_transaction open_guards start_request (start_state i) [(start_stored e, raw)] ?m mraw first_log
      = Some (s', Inr out)"
    using w ev mk rc by (simp add: publish_transaction_def follow_def t2_def t1_def out_def)
  have ids: "reject_identity_reuse start_request first_log = Some (first_log, Inr ())"
    by (simp add: reject_identity_reuse_def follow_def follow_markers_def each_marker.simps
        reject_event_reuse_def start_request_def initial_tip_def)
  have app: "append_commit open_guards start_request first_log = Some (s', Inr out)"
    using ids p pt by (simp add: append_commit_def follow_def require_active_def initial_tip_def)
  have log: "first_log\<lparr>lg_tip := initial_tip new_state\<rparr> = first_log" by (simp add: new_log_def)
  have run: "log_commit open_guards start_request first_log = Some (s', Inr out)"
    using app start_request_valid
    by (simp add: log_commit_def follow_def require_open_def require_authority_def open_guards_def
        full_recover_False empty_recovers empty_expected log)
      (simp add: initial_tip_def)
  have "all_or_nothing first_log s' (Inr out)"
  proof (rule append_commit_crash [OF app])
    show "fresh_marker_hash first_log start_request"
      by (simp add: fresh_marker_hash_def empty_recovers p) (simp add: initial_tip_def)
  qed (simp_all add: empty_recovers empty_expected start_request_valid, simp_all add: initial_tip_def start_request_def)
  then have rec: "recover_tip new_state (lg_disk s') = Inr (lg_tip s')"
    by (simp add: all_or_nothing_def)
  note proj = write_projection_run [OF w]
  then have tip: "lg_tip s' = lg_tip t2" and trans: "ld_transactions (lg_disk s') = [(marker_name 1, mraw)]"
    by (simp_all add: run_touches_def touches_def t2_def)
  have evs: "ld_events (lg_disk s') = [(event_name 1, raw)]"
    using write_projection_events [OF w] by (simp add: t2_def d1_def)
  have "tp_receipts (lg_tip s') = [marker_receipt ?m]"
    by (simp add: tip t2_def committed_tip_def) (simp add: initial_tip_def)
  moreover from this have "reject_unexpected_markers (lg_disk s') (lg_tip s') = Inr ()"
    using n(2) m(1) by (simp add: reject_unexpected_markers_def dir_list_def trans used_markers_def marker_receipt_def)
  ultimately show thesis
    using that [OF run rec] m trans evs by (simp add: out_def marker_receipt_def)
qed

lemma first_commit_fresh:
  "fresh_marker_hash first_log start_request" 
  using start_prepares
  by (auto simp: fresh_marker_hash_def empty_recovers initial_tip_def split: sum.split)

section \<open>A disk with an orphan\<close>

definition orphan_disk :: log_disk where
  "orphan_disk = empty_disk\<lparr>ld_events := [(event_name 1, [])]\<rparr>"

lemma valid_orphan_name: "valid_component (orphan_name raw)"
proof (rule valid_component_ascii)
  have hex: "is_hex_char c" if "c \<in> set (hexdigest raw)" for c
    using that hexdigest_hex [of raw] by (simp add: list_all_iff)
  have "list_all (\<lambda>c. 32 \<le> c \<and> c \<noteq> 127 \<and> c \<noteq> 47 \<and> c \<noteq> 92 \<and> c < 128) (hexdigest raw)"
    unfolding list_all_iff by (auto dest!: hex simp: is_hex_char_def)
  then show "list_all (\<lambda>c. 32 \<le> c \<and> c \<noteq> 127 \<and> c \<noteq> 47 \<and> c \<noteq> 92) (orphan_name raw)"
    and "ascii (orphan_name raw)"
    by (simp_all add: orphan_name_def ascii_def list_all_iff py_def)
qed (simp_all add: orphan_name_def MAX_COMPONENT_BYTES_def)

lemma orphan_disk_opens:
  "\<exists>s'. open_log True False (new_log new_state orphan_disk) = Some (s', Inr ())
     \<and> ld_quarantine (lg_disk s') \<noteq> []"
proof -
  let ?s = "new_log new_state orphan_disk"
  have s: "lg_initial ?s = new_state" "lg_disk ?s = orphan_disk" by (simp_all add: new_log_def)
  have d: "ld_events orphan_disk = [(event_name 1, [])]" "ld_quarantine orphan_disk = []"
    "ld_transactions orphan_disk = []" by (simp_all add: orphan_disk_def)
  have t: "touches {event_name 1} empty_disk orphan_disk" by (simp add: touches_def orphan_disk_def)
  have rec: "recover_tip new_state orphan_disk = Inr (initial_tip new_state)"
    by (rule recover_tip_touches [OF empty_recovers _ t]) (simp_all add: initial_tip_def)
  have exp: "reject_unexpected_markers orphan_disk (initial_tip new_state) = Inr ()"
    by (simp add: reject_unexpected_markers_def dir_list_def d)
  have used: "used_events (initial_tip new_state) = []" by (simp add: used_events_def initial_tip_def)
  define t1 where "t1 = ?s\<lparr>lg_disk := orphan_disk\<lparr>ld_events := [], ld_quarantine := [(orphan_name [], [])]\<rparr>,
    lg_past := [orphan_disk]\<rparr>"
  have q: "quarantine_orphan_events (initial_tip new_state) ?s = Some (t1, Inr ())"
    using valid_event_name [of 1] valid_orphan_name [of "[]"]
    by (simp add: quarantine_orphan_events_def follow_def dir_list_def s d used quarantine_orphan_def
        dir_read_def dir_quarantine_def dir_remove_def MAX_RECORD_BYTES_def t1_def Let_def)
      (simp add: new_log_def)
  obtain s' current where w: "write_projection (t1\<lparr>lg_tip := initial_tip new_state\<rparr>) = Some (s', Inr current)"
    using write_projection_total by blast
  have "ld_quarantine (lg_disk s') = [(orphan_name [], [])]"
    using w by (auto simp: write_projection_def follow_eq_Some t1_def split: sum.split_asm)
  moreover have "open_log True False ?s = Some (s', Inr ())"
    using w q rec exp new_state_valid
    by (simp add: open_log_def follow_def require_authority_def full_recover_def s)
  ultimately show ?thesis by auto
qed

end
