(* ===== verification/Log_Properties.thy ===== *)
theory Log_Properties
  imports Log_Example
begin

text \<open>The properties of the transaction log, and the runs of a whole commit they rest on.\<close>

section \<open>Loops over the markers\<close>

lemma recovered_next:
  assumes "recovered initial d tip" and "recovered initial d t"
    and "sequence (tp_state t) < sequence (tp_state tip)"
  shows "\<exists>m t'. read_marker d (sequence (tp_state t) + 1) = Inr m \<and> apply_marker initial d t m = Inr t'
    \<and> sequence (tp_state t') \<le> sequence (tp_state tip)"
proof -
  let ?n = "sequence (tp_state tip)"
  have "tip_at initial d ?n t = Inr tip"
    using recovered_tip_at [OF assms(2), of ?n] tip_at_recovered [OF assms(1)] assms(3) by simp
  with assms(3) obtain m t' where m: "read_marker d (sequence (tp_state t) + 1) = Inr m"
    "tm_to_sequence m \<le> ?n" "apply_marker initial d t m = Inr t'"
    by (subst (asm) tip_at.simps) (auto simp: andthen_eq_Inr_iff)
  with apply_marker_sequence(4) [OF m(3)] show ?thesis by auto
qed

lemma each_marker_returns:
  assumes "recovered initial d tip" and "recovered initial d t"
    and "sequence (tp_state t) \<le> sequence (tp_state tip)"
  shows "\<exists>r. each_marker f d (sequence (tp_state tip)) (sequence (tp_state t) + 1) = Some r"
  using assms(2,3)
proof (induction "nat (sequence (tp_state tip) - sequence (tp_state t))" arbitrary: t rule: less_induct)
  case less
  show ?case
  proof (cases "sequence (tp_state t) < sequence (tp_state tip)")
    case False
    then show ?thesis by (subst each_marker.simps) simp
  next
    case True
    from recovered_next [OF assms(1) less.prems(1) True] obtain m t' where
      m: "read_marker d (sequence (tp_state t) + 1) = Inr m" "apply_marker initial d t m = Inr t'"
        "sequence (tp_state t') \<le> sequence (tp_state tip)" by blast
    note s = apply_marker_sequence [OF m(2)]
    from less.hyps [OF _ recovered.marker [OF less.prems(1) m(1,2)] m(3)] s(2,4) m(3)
    have "\<exists>r. each_marker f d (sequence (tp_state tip)) (tm_to_sequence m + 1) = Some r" by simp
    with m(1) show ?thesis by (subst each_marker.simps) (cases "f m"; auto)
  qed
qed

lemma each_marker_total:
  assumes "recovered initial d tip" and "sequence initial = 0"
  shows "\<exists>r. each_marker f d (sequence (tp_state tip)) 1 = Some r"
  using each_marker_returns [OF assms(1) recovered.no_marker] recovered_sequence [OF assms] assms(2)
  by (simp add: initial_tip_def)

section \<open>Operations that return\<close>

definition returns :: "'a log_op \<Rightarrow> dialogue_log \<Rightarrow> bool" where
  "returns f s \<longleftrightarrow> f s \<noteq> None"

lemma returns_follow:
  assumes "returns f s" and "\<And>t x. f s = Some (t, Inr x) \<Longrightarrow> returns (k x) t"
  shows "returns (follow f k) s"
  using assms by (fastforce simp: returns_def follow_def split: option.split sum.split)

lemma returns_simple [simp]:
  "returns (give r) s" "returns (asks f) s" "returns (set_tip t) s" "returns (write_disk d) s"
  "returns (\<lambda>s. Some (h s, w)) s" "returns write_projection s" "returns (publish_event e raw) s" "returns (publish_marker g m raw) s"
  by (simp_all add: returns_def write_projection_def publish_event_def publish_marker_def follow_def Let_def
      split: sum.split)

lemma returns_publish_events: "returns (publish_events rs) s"
proof (induction rs arbitrary: s)
  case (Cons x rs)
  then show ?case by (cases x) (auto intro!: returns_follow)
qed simp

lemma returns_publish: "returns (publish_transaction g q state rs m raw) s"
  unfolding publish_transaction_def
  by (intro returns_follow returns_publish_events) simp_all

lemma returns_append_commit:
  assumes "recovered (lg_initial s) (lg_disk s) (lg_tip s)" and "sequence (lg_initial s) = 0"
  shows "returns (append_commit g q) s"
proof -
  have "returns (reject_identity_reuse q) s"
    using each_marker_total [OF assms]
    by (auto simp: reject_identity_reuse_def returns_def follow_def follow_markers_def
        split: option.split sum.split)
  then show ?thesis
    unfolding append_commit_def
    by (intro returns_follow) (auto simp: returns_publish require_active_def split: prod.split)
qed

lemma returns_answer_again: "returns (answer_again q r) s"
  unfolding answer_again_def by (intro returns_follow) (auto split: prod.split intro!: returns_follow)

lemma log_commit_returns: "sequence (lg_initial s) = 0 \<Longrightarrow> returns (log_commit g q) s"
  unfolding log_commit_def
  by (intro returns_follow)
    (auto simp: require_open_def require_authority_def full_recover_False returns_answer_again
      recover_tip_iff returns_append_commit returns_def [of "full_recover False"]
      split: option.split sum.split sum.split_asm)

section \<open>The run of a commit\<close>

text \<open>What a commit does once its request is accepted and the log is replayed.\<close>

lemma log_commit_run:
  assumes "log_commit g q s = Some (s', r)"
  obtains e where "s' = s" "r = Inl e"
    | tip where "recover_tip (lg_initial s) (lg_disk s) = Inr tip"
        "reject_unexpected_markers (lg_disk s) tip = Inr ()" "validate_request (lg_initial s) q = Inr ()"
        "(case find (\<lambda>r. dr_command_id r = ce_command_id (hd (cq_events q))) (tp_receipts tip) of
            Some x \<Rightarrow> answer_again q x
          | None \<Rightarrow> append_commit g q) (s\<lparr>lg_tip := tip\<rparr>) = Some (s', r)"
  using assms
  unfolding log_commit_def require_open_def require_authority_def full_recover_False follow_def
  by (auto simp: full_recover_False split: sum.split_asm option.split_asm if_split_asm intro: that)

lemma answer_again_run:
  assumes "answer_again q x s = Some (s', r)" and "original_commit (lg_initial s) (lg_disk s) q x = Inr (state, evs)"
  shows "run_touches {} s s' \<and> (\<exists>current. r = Inr \<lparr>co_receipt = x, co_state = state, co_events = evs,
    co_replayed = True, co_projection_current = current\<rparr>)"
  using assms
  by (auto simp: answer_again_def follow_eq_Some dest: write_projection_run)

lemma answer_again_kept:
  assumes "answer_again q x s = Some (s', r)"
  shows "run_touches {} s s' \<and> (\<forall>out. r = Inr out \<longrightarrow> co_receipt out = x \<and> co_replayed out)"
proof (cases "original_commit (lg_initial s) (lg_disk s) q x")
  case (Inl e)
  with assms show ?thesis by (auto simp: answer_again_def follow_eq_Some)
next
  case (Inr y)
  then obtain state evs where "original_commit (lg_initial s) (lg_disk s) q x = Inr (state, evs)"
    by (cases y) simp
  from answer_again_run [OF assms this] show ?thesis by auto
qed

text \<open>The names of the files of the next transaction fit the directory.\<close>

definition within_name_bound :: "dialogue_log \<Rightarrow> commit_request \<Rightarrow> bool" where
  "within_name_bound s q =
     (case recover_tip (lg_initial s) (lg_disk s) of
        Inl _ \<Rightarrow> True
      | Inr tip \<Rightarrow> sequence (tp_state tip) + int (length (cq_events q)) < 10 ^ 199)"

section \<open>Properties\<close>

text \<open>
  C7. Recovery computes what the log means: if the replay of the markers of a disk succeeds, the
  event files are numbered from one to the sequence of the tip without a gap, they are the events
  the receipts name, in order, and the state of the tip is their replay from the initial state.
\<close>

theorem recovery_refines_replay:
  assumes "recover_tip initial d = Inr tip" and "sequence initial = 0"
  shows "\<exists>evs. events_between d 1 (sequence (tp_state tip)) = Inr evs
    \<and> replay initial evs = Inr (tp_state tip)
    \<and> map ce_sequence evs = [1 .. sequence (tp_state tip)]
    \<and> map ce_event_id evs = concat (map dr_event_ids (tp_receipts tip))"
proof -
  have "recovered initial d tip" using assms(1) by (simp add: recover_tip_iff)
  from recovered_events [OF this assms(2)] obtain evs where
    e: "events_between d 1 (sequence (tp_state tip)) = Inr evs" "replay initial evs = Inr (tp_state tip)"
      "map ce_event_id evs = concat (map dr_event_ids (tp_receipts tip))" by blast
  note fold = e(2) [unfolded replay_fold]
  from dialogue.fold_numbers [OF fold] dialogue.fold_position [OF fold] assms(2)
  have "map ce_sequence evs = [1 .. sequence (tp_state tip)]" by simp
  with e show ?thesis by blast
qed

lemma recovery_refines_replay_witness:
  "\<exists>d tip evs. recover_tip new_state d = Inr tip \<and> length (tp_receipts tip) = 1
    \<and> events_between d 1 (sequence (tp_state tip)) = Inr evs
    \<and> replay new_state evs = Inr (tp_state tip)"
proof -
  obtain s' :: dialogue_log and x where r: "recover_tip new_state (lg_disk s') = Inr (lg_tip s')" "tp_receipts (lg_tip s') = [x]"
    by (rule first_commit) blast
  from recovery_refines_replay [OF r(1)] r show ?thesis
    by (intro exI [of _ "lg_disk s'"] exI [of _ "lg_tip s'"]) auto
qed

text \<open>
  C6. A commit is all or nothing, whatever the disk holds and wherever the process dies.  If it
  fails, every disk it leaves on its way recovers as the first one did.  If it succeeds, the last
  disk recovers to the tip the log now has, which holds the receipt; every disk on the way
  recovers as before or to that tip; and a new commit returns the recovered state.
\<close>

theorem commit_is_all_or_nothing:
  assumes "log_commit g q s = Some (s', r)" and "lg_past s = []" and "sequence (lg_initial s) = 0"
    and "fresh_marker_hash s q" and "within_name_bound s q"
  shows "case r of
      Inl e \<Rightarrow> \<forall>d \<in> visited s'. recover_tip (lg_initial s) d = recover_tip (lg_initial s) (lg_disk s)
    | Inr out \<Rightarrow> recover_tip (lg_initial s) (lg_disk s') = Inr (lg_tip s')
        \<and> co_receipt out \<in> set (tp_receipts (lg_tip s'))
        \<and> (\<forall>d \<in> visited s'. recover_tip (lg_initial s) d
              \<in> {recover_tip (lg_initial s) (lg_disk s), Inr (lg_tip s')})
        \<and> (co_replayed out \<or> co_state out = tp_state (lg_tip s'))"
  using assms(1)
proof (cases rule: log_commit_run)
  case (1 e)
  with assms(2) show ?thesis by (simp add: visited_def)
next
  case (2 tip)
  let ?t = "s\<lparr>lg_tip := tip\<rparr>"
  have rec: "recover_tip (lg_initial ?t) (lg_disk ?t) = Inr (lg_tip ?t)" using 2(1) by simp
  show ?thesis
  proof (cases "find (\<lambda>r. dr_command_id r = ce_command_id (hd (cq_events q))) (tp_receipts tip)")
    case (Some x)
    then have x: "x \<in> set (tp_receipts tip)" by (auto simp: find_Some_iff)
    from Some 2(4) have run: "answer_again q x ?t = Some (s', r)" by simp
    note kept = answer_again_kept [OF run]
    have old: "recover_tip (lg_initial s) d = Inr tip" if "d \<in> visited s'" for d
      using run_touches_recovers [OF conjunct1 [OF kept] _ rec _ _ that] assms(2,3) by simp
    with kept x 2(1) show ?thesis by (auto simp: visited_def run_touches_def split: sum.split)
  next
    case None
    then have cmd: "dr_command_id x \<noteq> ce_command_id (hd (cq_events q))"
      if "x \<in> set (tp_receipts tip)" for x using that by (auto simp: find_None_iff)
    from None 2(4) have run: "append_commit g q ?t = Some (s', r)" by simp
    have "all_or_nothing ?t s' r"
      by (rule append_commit_crash [OF run _ rec _ _ _ cmd])
        (use 2 assms in \<open>simp_all add: fresh_marker_hash_def within_name_bound_def\<close>)
    with 2(1) show ?thesis by (auto simp: all_or_nothing_def split: sum.split_asm)
  qed
qed

lemma commit_is_all_or_nothing_witness:
  "\<exists>s' out. log_commit open_guards start_request first_log = Some (s', Inr out)
    \<and> recover_tip new_state (lg_disk s') = Inr (lg_tip s')
    \<and> co_receipt out \<in> set (tp_receipts (lg_tip s')) \<and> \<not> co_replayed out"
proof -
  obtain s' out where c: "log_commit open_guards start_request first_log = Some (s', Inr out)"
    "\<not> co_replayed out" by (rule first_commit) blast
  have "within_name_bound first_log start_request"
    by (simp add: within_name_bound_def empty_recovers) (simp add: initial_tip_def start_request_def)
  with commit_is_all_or_nothing [OF c(1) _ _ first_commit_fresh] c show ?thesis by auto
qed

text \<open>
  C26. A commit returns, on every disk: the loop that follows the markers, which may run for ever
  on a directory whose files were exchanged, runs only after the replay has accepted them.
\<close>

theorem commit_always_returns:
  assumes "sequence (lg_initial s) = 0"
  shows "\<exists>s' r. log_commit g q s = Some (s', r)"
  using log_commit_returns [OF assms, of g q] by (auto simp: returns_def)


lemma commit_always_returns_witness:
  "\<exists>s' r. log_commit open_guards start_request first_log = Some (s', r)"
  by (rule commit_always_returns) simp

lemma check_receipts_commands:
  "check_receipts n cs ts hs is rs = Inr k \<Longrightarrow>
     distinct (map dr_command_id rs) \<and> set cs \<inter> set (map dr_command_id rs) = {}"
  by (induction n cs ts hs "is" rs rule: check_receipts.induct) auto

lemma find_command:
  assumes "recovered initial d tip" and "sequence initial = 0" and "x \<in> set (tp_receipts tip)"
    and "dr_command_id x = c"
  shows "find (\<lambda>r. dr_command_id r = c) (tp_receipts tip) = Some x"
proof -
  have dist: "distinct (map dr_command_id (tp_receipts tip))"
    using check_receipts_commands [OF recovered_check_receipts [OF assms(1,2)]] by simp
  obtain y where y: "find (\<lambda>r. dr_command_id r = c) (tp_receipts tip) = Some y"
    using assms(3,4) by (cases "find (\<lambda>r. dr_command_id r = c) (tp_receipts tip)") (auto simp: find_None_iff)
  then have "y \<in> set (tp_receipts tip)" "dr_command_id y = c" by (auto simp: find_Some_iff)
  with dist assms(3,4) have "y = x" by (auto simp: distinct_map inj_on_def)
  with y show ?thesis by simp
qed

lemma log_commit_known:
  assumes "\<not> lg_closed s" and "cg_entry g" and "validate_request (lg_initial s) q = Inr ()"
    and "recover_tip (lg_initial s) (lg_disk s) = Inr tip"
    and "reject_unexpected_markers (lg_disk s) tip = Inr ()"
    and "find (\<lambda>r. dr_command_id r = ce_command_id (hd (cq_events q))) (tp_receipts tip) = Some x"
  shows "log_commit g q s = answer_again q x (s\<lparr>lg_tip := tip\<rparr>)"
  using assms
  by (simp add: log_commit_def require_open_def require_authority_def full_recover_False follow_def)

text \<open>
  C8. A command that is committed is not committed again.  On a log that recovers, a request with
  the command of a receipt and another digest is refused and nothing is written; with the same
  digest it is answered, once more and for ever, with that receipt, the events of that
  transaction as they stand in the files, and the state the session had right after it; and every
  disk on the way recovers as before.
\<close>

theorem repeated_command_is_answered:
  assumes "\<not> lg_closed s" and "cg_entry g" and "sequence (lg_initial s) = 0" and "lg_past s = []"
    and "validate_request (lg_initial s) q = Inr ()"
    and "recover_tip (lg_initial s) (lg_disk s) = Inr tip"
    and "reject_unexpected_markers (lg_disk s) tip = Inr ()"
    and "x \<in> set (tp_receipts tip)" and "dr_command_id x = ce_command_id (hd (cq_events q))"
  shows "if dr_request_digest x \<noteq> cq_request_digest q
    then log_commit g q s = Some (s\<lparr>lg_tip := tip\<rparr>, Inl (Kernel IDEMPOTENCY_CONFLICT))
    else \<exists>s' out before. log_commit g q s = Some (s', Inr out)
      \<and> co_receipt out = x \<and> co_replayed out
      \<and> events_between (lg_disk s) 1 (dr_to_sequence x) = Inr (before @ co_events out)
      \<and> map ce_sequence (co_events out) = [dr_from_sequence x .. dr_to_sequence x]
      \<and> replay (lg_initial s) (before @ co_events out) = Inr (co_state out)
      \<and> (\<forall>d \<in> visited s'. recover_tip (lg_initial s) d = Inr tip)"
proof -
  let ?t = "s\<lparr>lg_tip := tip\<rparr>"
  have rec: "recovered (lg_initial s) (lg_disk s) tip" using assms(6) by (simp add: recover_tip_iff)
  have known: "log_commit g q s = answer_again q x ?t"
    using log_commit_known [OF assms(1,2,5-7) find_command [OF rec assms(3,8,9)]] .
  show ?thesis
  proof (cases "dr_request_digest x = cq_request_digest q")
    case False
    then have "original_commit (lg_initial s) (lg_disk s) q x = Inl (Kernel IDEMPOTENCY_CONFLICT)"
      by (simp add: original_commit_def require_def)
    with known False show ?thesis by (simp add: answer_again_def follow_def)
  next
    case True
    from original_commit_answers [OF rec assms(3,8) True] obtain evs before state where
      o: "original_commit (lg_initial s) (lg_disk s) q x = Inr (state, evs)"
        "events_between (lg_disk s) 1 (dr_to_sequence x) = Inr (before @ evs)"
        "replay (lg_initial s) (before @ evs) = Inr state"
        "map ce_sequence evs = [dr_from_sequence x .. dr_to_sequence x]" by blast
    obtain s' r where run: "answer_again q x ?t = Some (s', r)"
      using returns_answer_again [of q x ?t] by (auto simp: returns_def)
    from answer_again_run [OF run] o(1) obtain current where
      r: "run_touches {} ?t s'" "r = Inr \<lparr>co_receipt = x, co_state = state, co_events = evs,
         co_replayed = True, co_projection_current = current\<rparr>" by auto
    have "\<forall>d \<in> visited s'. recover_tip (lg_initial s) d = Inr tip"
      using run_touches_recovers [OF r(1)] assms(3,4,6) by auto
    with True known run r o show ?thesis by auto
  qed
qed

lemma repeated_command_is_answered_witness:
  "\<exists>d s' out. length (ld_transactions d) = 1
    \<and> log_commit open_guards start_request (new_log new_state d) = Some (s', Inr out) \<and> co_replayed out"
proof -
  obtain s1 :: dialogue_log and x where c: "recover_tip new_state (lg_disk s1) = Inr (lg_tip s1)" "tp_receipts (lg_tip s1) = [x]"
    "reject_unexpected_markers (lg_disk s1) (lg_tip s1) = Inr ()" "dr_command_id x = py ''cmd1''"
    "dr_request_digest x = sample_digest" "length (ld_transactions (lg_disk s1)) = 1"
    by (rule first_commit) blast
  have q: "ce_command_id (hd (cq_events start_request)) = py ''cmd1''"
    "cq_request_digest start_request = sample_digest"
    by (simp_all add: start_request_def start_event_def)
  have "\<exists>s' out. log_commit open_guards start_request (new_log new_state (lg_disk s1)) = Some (s', Inr out)
      \<and> co_replayed out"
    using repeated_command_is_answered [of "new_log new_state (lg_disk s1)" open_guards start_request
        "lg_tip s1" x] c q start_request_valid
    by (auto simp: new_log_def open_guards_def)
  with c(6) show ?thesis by blast
qed

section \<open>The hash chain\<close>

text \<open>The byte strings whose hashes the records of a disk carry.\<close>

definition event_preimages :: "log_disk \<Rightarrow> byte list list" where
  "event_preimages d = concat (map (\<lambda>(_, raw).
     case andthen (decode_stored_event raw) (\<lambda>r. encode_typed (stored_event_val (unhashed_event r))) of
       Inl _ \<Rightarrow> [] | Inr b \<Rightarrow> [b]) (ld_events d))"

definition marker_preimages :: "log_disk \<Rightarrow> byte list list" where
  "marker_preimages d = concat (map (\<lambda>(_, raw).
     case andthen (decode_transaction_marker raw)
            (\<lambda>m. encode_typed (transaction_marker_val (unhashed_marker m))) of
       Inl _ \<Rightarrow> [] | Inr b \<Rightarrow> [b]) (ld_transactions d))"

text \<open>SHA-256 does not collide on the records of two disks.\<close>

definition collision_free :: "log_disk \<Rightarrow> log_disk \<Rightarrow> bool" where
  "collision_free d d' \<longleftrightarrow>
     inj_on sha256_of (set (event_preimages d) \<union> set (event_preimages d'))
     \<and> inj_on sha256_of (set (marker_preimages d) \<union> set (marker_preimages d'))"

text \<open>One record of each kind cannot collide.\<close>

lemma collision_free_single:
  assumes "length (ld_events d) = 1" and "length (ld_transactions d) = 1"
    and "ld_events d' = ld_events d" and "ld_transactions d' = ld_transactions d"
  shows "collision_free d d'"
proof -
  have one: "\<exists>b. set (concat (map f xs)) \<subseteq> {b}"
    if "length xs = 1" "\<And>x. length (f x) \<le> 1" for f :: "'a \<Rightarrow> byte list list" and xs
  proof -
    from that(1) obtain x where "xs = [x]" unfolding length_one_iff by blast
    with that(2) [of x] show ?thesis by (cases "f x") auto
  qed
  have e: "\<exists>b. set (event_preimages d) \<subseteq> {b}" and m: "\<exists>b. set (marker_preimages d) \<subseteq> {b}"
    unfolding event_preimages_def marker_preimages_def
    by (rule one, rule assms, simp split: prod.split sum.split)+
  have inj: "\<exists>b. A \<subseteq> {b} \<Longrightarrow> inj_on sha256_of A" for A by (auto simp: inj_on_def)
  from inj [OF e] inj [OF m]
  have "inj_on sha256_of (set (event_preimages d))" "inj_on sha256_of (set (marker_preimages d))" .
  with assms(3,4) show ?thesis by (simp add: collision_free_def event_preimages_def marker_preimages_def)
qed

lemma read_eventD:
  assumes "read_event d n = Inr r"
  obtains b where "b \<in> set (event_preimages d)" and "se_event_hash r = sha256_of b"
    and "encode_typed (stored_event_val (unhashed_event r)) = Inr b"
proof -
  from assms obtain raw where raw: "map_of (ld_events d) (event_name n) = Some raw"
    "decode_stored_event raw = Inr r"
    by (auto simp: read_event_def andthen_eq_Inr_iff dest: dir_read_InrD)
  from raw(2) have "stored_event_digest r = Inr (se_event_hash r)"
    by (auto simp: decode_stored_event_def andthen_eq_Inr_iff split: option.split_asm
        dest: validate_stored_eventD(2))
  then obtain b where b: "encode_typed (stored_event_val (unhashed_event r)) = Inr b"
    "se_event_hash r = sha256_of b"
    unfolding stored_event_digest_def by (auto dest: typed_digest_InrD)
  with raw map_of_SomeD [OF raw(1)] have "b \<in> set (event_preimages d)"
    unfolding event_preimages_def by (force intro!: bexI [of _ "(event_name n, raw)"])
  with b that show thesis by blast
qed

lemma read_markerD_hash:
  assumes "read_marker d n = Inr m"
  obtains b where "b \<in> set (marker_preimages d)" and "tm_marker_hash m = sha256_of b"
    and "encode_typed (transaction_marker_val (unhashed_marker m)) = Inr b"
proof -
  from read_markerD [OF assms] obtain raw where raw:
    "map_of (ld_transactions d) (marker_name n) = Some raw" "decode_transaction_marker raw = Inr m" by blast
  from raw(2) have "marker_digest m = Inr (tm_marker_hash m)"
    by (auto simp: decode_transaction_marker_def andthen_eq_Inr_iff split: option.split_asm
        dest: validate_transaction_markerD(3))
  then obtain b where b: "encode_typed (transaction_marker_val (unhashed_marker m)) = Inr b"
    "tm_marker_hash m = sha256_of b"
    unfolding marker_digest_def by (auto dest: typed_digest_InrD)
  with raw map_of_SomeD [OF raw(1)] have "b \<in> set (marker_preimages d)"
    unfolding marker_preimages_def by (force intro!: bexI [of _ "(marker_name n, raw)"])
  with b that show thesis by blast
qed

lemma unhashed_event_eq: "\<lbrakk>unhashed_event r = unhashed_event r'; se_event_hash r = se_event_hash r'\<rbrakk> \<Longrightarrow> r = r'"
  by (cases r; cases r') (simp add: unhashed_event_def)

lemma unhashed_marker_eq: "\<lbrakk>unhashed_marker m = unhashed_marker m'; tm_marker_hash m = tm_marker_hash m'\<rbrakk> \<Longrightarrow> m = m'"
  by (cases m; cases m') (simp add: unhashed_marker_def)

lemma same_event_hash:
  assumes "read_event d n = Inr r" and "read_event d' n' = Inr r'" and "collision_free d d'"
    and "se_event_hash r = se_event_hash r'"
  shows "r = r'"
proof -
  from read_eventD [OF assms(1)] obtain b where b: "b \<in> set (event_preimages d)"
    "se_event_hash r = sha256_of b" "encode_typed (stored_event_val (unhashed_event r)) = Inr b" .
  from read_eventD [OF assms(2)] obtain b' where b': "b' \<in> set (event_preimages d')"
    "se_event_hash r' = sha256_of b'" "encode_typed (stored_event_val (unhashed_event r')) = Inr b'" .
  have "b = b'" using assms(3,4) b b' by (auto simp: collision_free_def inj_on_def)
  then have "stored_event_val (unhashed_event r) = stored_event_val (unhashed_event r')"
    using b(3) b'(3) encode_typed_inj represents_python [OF represents_stored_event] by blast
  then have "unhashed_event r = unhashed_event r'" by (simp add: represents_inj [OF represents_stored_event])
  with assms(4) show ?thesis by (rule unhashed_event_eq [rotated])
qed

lemma same_marker_hash:
  assumes "read_marker d n = Inr m" and "read_marker d' n' = Inr m'" and "collision_free d d'"
    and "tm_marker_hash m = tm_marker_hash m'"
  shows "m = m'"
proof -
  from read_markerD_hash [OF assms(1)] obtain b where b: "b \<in> set (marker_preimages d)"
    "tm_marker_hash m = sha256_of b" "encode_typed (transaction_marker_val (unhashed_marker m)) = Inr b" .
  from read_markerD_hash [OF assms(2)] obtain b' where b': "b' \<in> set (marker_preimages d')"
    "tm_marker_hash m' = sha256_of b'" "encode_typed (transaction_marker_val (unhashed_marker m')) = Inr b'" .
  have "b = b'" using assms(3,4) b b' by (auto simp: collision_free_def inj_on_def)
  then have "transaction_marker_val (unhashed_marker m) = transaction_marker_val (unhashed_marker m')"
    using b(3) b'(3) encode_typed_inj represents_python [OF represents_transaction_marker] by blast
  then have "unhashed_marker m = unhashed_marker m'"
    by (simp add: represents_inj [OF represents_transaction_marker])
  with assms(4) show ?thesis by (rule unhashed_marker_eq [rotated])
qed

lemma same_records:
  assumes "read_records initial d m h es = Inr rs" and "read_records initial d' m h es = Inr rs'"
    and "collision_free d d'"
  shows "rs = rs'"
  using assms(1,2)
proof (induction es arbitrary: h rs rs')
  case (Cons e es)
  then obtain r r' xs xs' where r: "read_event d (me_sequence e) = Inr r" "read_event d' (me_sequence e) = Inr r'"
    "match_reference r e" "match_reference r' e" "rs = r # xs" "rs' = r' # xs'"
    "read_records initial d m (Some (se_event_hash r)) es = Inr xs"
    "read_records initial d' m (Some (se_event_hash r')) es = Inr xs'"
    by (auto simp: andthen_eq_Inr_iff)
  then have "r = r'" using same_event_hash [OF r(1,2) assms(3)] by (simp add: match_reference_def)
  with r Cons.IH show ?case by blast
qed simp

lemma recovered_cases:
  assumes "recovered initial d tip"
  obtains "tip = initial_tip initial" "tp_last_marker_hash tip = None"
    | t m where "recovered initial d t" "read_marker d (sequence (tp_state t) + 1) = Inr m"
        "apply_marker initial d t m = Inr tip" "tp_last_marker_hash tip = Some (tm_marker_hash m)"
  using assms
proof cases
  case no_marker
  with that(1) show thesis by (simp add: initial_tip_def)
next
  case (marker t m)
  from marker(3) have "tp_last_marker_hash tip = Some (tm_marker_hash m)" by (elim apply_markerE) blast
  with marker that(2) show thesis by blast
qed

lemma last_marker_hash_determines:
  assumes "recovered initial d tip" and "recovered initial d' tip'" and "collision_free d d'"
    and "sequence initial = 0" and "tp_last_marker_hash tip = tp_last_marker_hash tip'"
  shows "tip = tip' \<and> events_between d 1 (sequence (tp_state tip))
    = events_between d' 1 (sequence (tp_state tip))"
  using assms(1,2,5)
proof (induction arbitrary: tip')
  case no_marker
  from no_marker.prems(1) have "tip' = initial_tip initial"
    by (rule recovered_cases) (use no_marker.prems(2) in \<open>simp_all add: initial_tip_def\<close>)
  then show ?case using assms(4) by (simp add: initial_tip_def events_between_def)
next
  case (marker t m tip)
  from marker.hyps(3) obtain rs where
    a: "tp_last_marker_hash tip = Some (tm_marker_hash m)" "tm_previous_marker_hash m = tp_last_marker_hash t"
      "read_records initial d m (tp_last_event_hash t) (tm_events m) = Inr rs"
      "validate_transaction_marker m = Inr ()"
    by (elim apply_markerE) blast
  from marker.prems(1) show ?case
  proof (cases rule: recovered_cases)
    case 1
    with marker.prems(2) a(1) show ?thesis by simp
  next
    case (2 t' m')
    then have m: "m = m'"
      using same_marker_hash [OF marker.hyps(2) 2(2) assms(3)] marker.prems(2) a(1) by simp
    from 2(3) m obtain rs' where
      b: "tm_previous_marker_hash m = tp_last_marker_hash t'"
        "read_records initial d' m (tp_last_event_hash t') (tm_events m) = Inr rs'"
      by (elim apply_markerE) blast
    from marker.IH [OF 2(1)] a(2) b(1) have t: "t = t'"
      "events_between d 1 (sequence (tp_state t)) = events_between d' 1 (sequence (tp_state t))" by auto
    with same_records [OF a(3)] b(2) assms(3) have rs: "rs = rs'" by blast
    have "apply_marker initial d' t m = apply_marker initial d t m"
      using a(3) b(2) t(1) rs by (simp add: apply_marker_def)
    with 2(3) m t(1) marker.hyps(3) have "tip = tip'" by simp
    moreover have "events_between d 1 (sequence (tp_state tip)) = events_between d' 1 (sequence (tp_state tip))"
    proof -
      note s = apply_marker_sequence [OF marker.hyps(3)]
      have "[1 .. sequence (tp_state tip)]
          = [1 .. sequence (tp_state t)] @ [tm_from_sequence m .. tm_to_sequence m]"
        unfolding s(3,4) using recovered_sequence [OF marker.hyps(1) assms(4)] s(2)
        by (intro upto_join) simp_all
      with t(2) read_records_events [OF a(3)] read_records_events [OF b(2)] rs show ?thesis
        by (simp add: events_between_def events_at_append validate_transaction_marker_range(1) [OF a(4)])
    qed
    ultimately show ?thesis by blast
  qed
qed

text \<open>
  C9. The history cannot be rewritten behind the last marker hash: two disks of one session that
  both replay and end in markers of the same hash have the same tip and the same events, unless
  SHA-256 collides on records they hold.
\<close>

theorem last_hash_fixes_history:
  assumes "recover_tip initial d = Inr tip" and "recover_tip initial d' = Inr tip'"
    and "sequence initial = 0" and "collision_free d d'"
    and "tp_last_marker_hash tip = tp_last_marker_hash tip'"
  shows "tip = tip' \<and> events_between d 1 (sequence (tp_state tip))
    = events_between d' 1 (sequence (tp_state tip))"
  using assms last_marker_hash_determines [of initial d tip d' tip'] unfolding recover_tip_iff by blast

lemma last_hash_fixes_history_witness:
  "\<exists>d d' tip. d \<noteq> d' \<and> length (ld_transactions d) = 1 \<and> recover_tip new_state d = Inr tip
    \<and> recover_tip new_state d' = Inr tip
    \<and> events_between d 1 (sequence (tp_state tip)) = events_between d' 1 (sequence (tp_state tip))"
proof -
  obtain s1 :: dialogue_log where c: "recover_tip new_state (lg_disk s1) = Inr (lg_tip s1)"
    "length (ld_events (lg_disk s1)) = 1" "length (ld_transactions (lg_disk s1)) = 1"
    by (rule first_commit) blast
  let ?d = "lg_disk s1"
  define d' where "d' = ?d\<lparr>ld_session := (py ''x'', []) # ld_session ?d\<rparr>"
  have t: "touches {} ?d d'" "d' \<noteq> ?d" by (cases ?d; simp add: touches_def d'_def)+
  have r: "recover_tip new_state d' = Inr (lg_tip s1)"
    by (rule recover_tip_touches [OF c(1) _ t(1)]) simp_all
  have "collision_free ?d d'" by (rule collision_free_single [OF c(2,3)]) (simp_all add: d'_def)
  from last_hash_fixes_history [OF c(1) r _ this] t(2) c r show ?thesis
    by (intro exI [of _ ?d] exI [of _ d'] exI [of _ "lg_tip s1"]) auto
qed

section \<open>Opening\<close>

lemma used_events_names:
  assumes "recovered initial d tip" and "sequence initial = 0"
  shows "set (used_events tip) = event_name ` {1 .. sequence (tp_state tip)}"
proof -
  have "set (used_events tip) = event_name ` set (concat (map (\<lambda>r. [dr_from_sequence r .. dr_to_sequence r])
      (tp_receipts tip)))"
    by (auto simp: used_events_def)
  then show ?thesis unfolding conjunct1 [OF recovered_ranges [OF assms]] by simp
qed

lemma quarantine_orphan_run:
  assumes "quarantine_orphan n s = Some (s', r)"
  shows "run_touches {n} s s' \<and> (r = Inr u \<longrightarrow> ld_events (lg_disk s') = dir_remove (ld_events (lg_disk s)) n)"
proof (cases "andthen (lift_error Fs (dir_read (ld_events (lg_disk s)) n MAX_RECORD_BYTES)) (\<lambda>raw.
    lift_error Fs (dir_quarantine (ld_events (lg_disk s)) n (ld_quarantine (lg_disk s)) (orphan_name raw)))")
  case (Inl e)
  with assms show ?thesis by (auto simp: quarantine_orphan_def Let_def)
next
  case (Inr moved)
  obtain es qs where m: "moved = (es, qs)" by (cases moved)
  with Inr obtain raw where q: "dir_quarantine (ld_events (lg_disk s)) n (ld_quarantine (lg_disk s))
      (orphan_name raw) = Inr (es, qs)" by (auto simp: andthen_eq_Inr_iff)
  from Inr m assms have s': "s' = s\<lparr>lg_disk := (lg_disk s)\<lparr>ld_events := es, ld_quarantine := qs\<rparr>,
      lg_past := lg_disk s # lg_past s\<rparr>" by (auto simp: quarantine_orphan_def Let_def)
  show ?thesis
    unfolding s' using run_touches_write [OF dir_quarantine_events [OF q]] dir_quarantine_InrD(2) [OF q] by simp
qed

lemma quarantine_orphans_run:
  assumes "quarantine_orphans used ns s = Some (s', r)"
  shows "run_touches (- set used) s s'
    \<and> (r = Inr u \<longrightarrow> fst ` set (ld_events (lg_disk s'))
         = fst ` set (ld_events (lg_disk s)) - (set ns - set used))"
  using assms
proof (induction used ns arbitrary: s rule: quarantine_orphans.induct)
  case (2 used n ns)
  show ?case
  proof (cases "n \<in> set used")
    case True
    with 2 show ?thesis by auto
  next
    case False
    with "2.prems" have "follow (quarantine_orphan n) (\<lambda>_. quarantine_orphans used ns) s = Some (s', r)" by simp
    then show ?thesis
    proof (cases rule: followE)
      case (1 e)
      with quarantine_orphan_run [OF 1(1)] False show ?thesis
        by (auto simp: run_touches_def intro: touches_mono)
    next
      case (2 t x)
      note one = quarantine_orphan_run [OF 2(1), of x]
      note more = "2.IH"(2) [OF False 2(2)]
      have "run_touches ({n} \<union> - set used) s s'"
        using run_touches_trans [OF conjunct1 [OF one] conjunct1 [OF more]] .
      moreover have "{n} \<union> - set used = - set used" using False by blast
      ultimately show ?thesis using one more False by (auto simp: dir_remove_def)
    qed
  qed
qed simp

lemma quarantine_orphan_events_run:
  assumes "quarantine_orphan_events tip s = Some (s', r)"
  shows "run_touches (- set (used_events tip)) s s'
    \<and> (r = Inr u \<longrightarrow> fst ` set (ld_events (lg_disk s'))
         = fst ` set (ld_events (lg_disk s)) \<inter> set (used_events tip))"
  using assms unfolding quarantine_orphan_events_def
proof (cases rule: followE)
  case (2 t names)
  then have t: "t = s" "dir_list (ld_events (lg_disk s)) = Inr names" by auto
  have "set names = fst ` set (ld_events (lg_disk s))" using dir_list_names [OF t(2)] by simp
  with quarantine_orphans_run [OF 2(2), of u] t(1) show ?thesis by auto
qed simp

lemma events_at_member: "\<lbrakk>events_at d ns = Inr evs; n \<in> set ns\<rbrakk> \<Longrightarrow> \<exists>r. read_event d n = Inr r"
  by (induction ns arbitrary: evs) (auto simp: andthen_eq_Inr_iff)

lemma opened:
  assumes "open_log held False s = Some (s', Inr u)"
  obtains tip t v current where "sequence (lg_initial s) = 0" "held"
    "recover_tip (lg_initial s) (lg_disk s) = Inr tip" "quarantine_orphan_events tip s = Some (t, Inr v)"
    "write_projection (t\<lparr>lg_tip := tip\<rparr>) = Some (s', Inr current)"
  using assms
  by (auto simp: open_log_def require_authority_def full_recover_def follow_eq_Some)

text \<open>
  C28. Opening a session repairs it: when the constructor returns, the event directory holds the
  committed events and no others, the tip is the one the disk recovered to, and every disk the
  repair went through recovers to it as well.
\<close>

theorem opening_leaves_the_committed_events:
  assumes "open_log held False (new_log initial d) = Some (s', Inr ())"
  shows "\<exists>tip. recover_tip initial d = Inr tip \<and> lg_tip s' = tip \<and> held
    \<and> fst ` set (ld_events (lg_disk s')) = event_name ` {1 .. sequence (tp_state tip)}
    \<and> (\<forall>d' \<in> visited s'. recover_tip initial d' = Inr tip)"
proof -
  let ?s = "new_log initial d"
  have init: "lg_initial ?s = initial" "lg_disk ?s = d" "lg_past ?s = []" by (simp_all add: new_log_def)
  from assms obtain tip t v current where zero: "sequence initial = 0" and held: "held"
    and rec: "recover_tip initial d = Inr tip"
    and q: "quarantine_orphan_events tip ?s = Some (t, Inr v)"
    and w: "write_projection (t\<lparr>lg_tip := tip\<rparr>) = Some (s', Inr current)"
    by (elim opened) (simp add: init)
  have r: "recovered initial d tip" using rec by (simp add: recover_tip_iff)
  note one = quarantine_orphan_events_run [OF q, of v] and two = write_projection_run [OF w]
  note names = used_events_names [OF r zero]
  have keep: "event_name n \<notin> - set (used_events tip)" if "1 \<le> n" "n \<le> sequence (tp_state tip)" for n
    using that unfolding names by simp
  have mid: "recover_tip initial d' = Inr tip" if "d' \<in> visited t" for d'
    using run_touches_recovers [OF conjunct1 [OF one] init(3) _ _ keep that] rec zero init by simp
  have all: "recover_tip initial d' = Inr tip" if "d' \<in> visited s'" for d'
  proof -
    from two that have "d' \<in> visited t \<or> touches {} (lg_disk t) d'"
      by (auto simp: run_touches_def visited_def)
    moreover have "recover_tip initial (lg_disk t) = Inr tip" by (rule mid) (simp add: visited_def)
    ultimately show ?thesis using mid recover_tip_touches [OF _ zero, of "lg_disk t" tip "{}" d'] by blast
  qed
  have tip: "lg_tip s' = tip" using two by (auto simp: run_touches_def)
  have "fst ` set (ld_events (lg_disk s')) = fst ` set (ld_events (lg_disk t))"
    using two by (auto simp: run_touches_def touches_def fun_eq_iff simp flip: dom_map_of_conv_image_fst)
  also have "\<dots> = fst ` set (ld_events d) \<inter> event_name ` {1 .. sequence (tp_state tip)}"
    using one names init by simp
  also have "\<dots> = event_name ` {1 .. sequence (tp_state tip)}"
  proof -
    obtain evs where evs: "events_at d [1 .. sequence (tp_state tip)] = Inr evs"
      using recovered_events [OF r zero] by (auto simp: events_between_def)
    have "event_name n \<in> fst ` set (ld_events d)" if "1 \<le> n" "n \<le> sequence (tp_state tip)" for n
    proof -
      from events_at_member [OF evs, of n] that obtain e where "read_event d n = Inr e" by auto
      then have "event_name n \<in> dom (map_of (ld_events d))"
        by (auto simp: read_event_def andthen_eq_Inr_iff dest!: dir_read_InrD(1))
      then show ?thesis by (simp add: dom_map_of_conv_image_fst)
    qed
    then have "event_name ` {1 .. sequence (tp_state tip)} \<subseteq> fst ` set (ld_events d)" by fastforce
    then show ?thesis by (rule Int_absorb1)
  qed
  finally have "fst ` set (ld_events (lg_disk s')) = event_name ` {1 .. sequence (tp_state tip)}" .
  with rec tip held all show ?thesis by (intro exI [of _ tip]) simp
qed

lemma opening_leaves_the_committed_events_witness:
  "\<exists>s'. open_log True False (new_log new_state orphan_disk) = Some (s', Inr ())
    \<and> ld_quarantine (lg_disk s') \<noteq> [] \<and> recover_tip new_state orphan_disk = Inr (lg_tip s')"
  using orphan_disk_opens opening_leaves_the_committed_events [of True new_state orphan_disk] by fastforce

end
