(* ===== verification/Decision_Properties.thy ===== *)
theory Decision_Properties
  imports Scenario
begin

text \<open>
  The properties of decisions: what is accepted commits and replays, the three places
  where it does not, fencing, quiescing and recovery.
\<close>

section \<open>What is accepted replays\<close>

text \<open>
  C1.  What the kernel accepts the kernel can replay: for every accepted decision the
  coordinator's numbering succeeds, the reducer applies the numbered events one after the other
  from the very state the decision was taken in, and the result is a valid aggregate.  The
  exceptions are the situations \<open>invariant_gap\<close> names.  Nothing is said here of the event
  codec and the size limits of the log, which refuse some of these events when they are written
  to disk, for instance identifiers the kernel takes for text.
\<close>

theorem accepted_decision_commits:
  assumes "decide s cmd ctx = Accepted ps" and "is_sha256_digest dg"
    and "\<forall>p \<in> set ps. \<not> invariant_gap s (pe_payload p)"
  shows "\<exists>evs s'. commit_events s dg ps = Inr evs \<and> replay s evs = Inr s' \<and> validate_state s'"
  using decide_commits [OF assms] by (simp add: commits_def)

lemma start_accepted:
  "decide new_state (StartSession (py ''cmd1''))
     (sample_context (Some (sample_trigger TK_TOPIC_CANDIDATES (py ''w1'') None None)))
   = Accepted [\<lparr>pe_command_id = py ''cmd1'', pe_payload =
       SessionStarted (sample_trigger TK_TOPIC_CANDIDATES (py ''w1'') None None)\<rparr>]"
  using new_state_valid
  by (simp add: decide_def start_session_def matching_trigger_def valid_trigger_def
      valid_decision_context_def sample_context_def valid_positive_int_def)
    (simp add: new_state_def sample_state_def sample_evidence_def accept_def)

theorem accepted_decision_commits_witness:
  "\<exists>evs s'. commit_events new_state sample_digest [\<lparr>pe_command_id = py ''cmd1'', pe_payload =
       SessionStarted (sample_trigger TK_TOPIC_CANDIDATES (py ''w1'') None None)\<rparr>] = Inr evs
     \<and> replay new_state evs = Inr s' \<and> validate_state s'"
  using accepted_decision_commits [OF start_accepted sample_digest_ok(1)]
  by (simp add: invariant_gap_def)

text \<open>
  C2.  The validation at the end of \<open>reduce\<close> is redundant outside the gaps: on a valid
  state that has not ended, an event whose envelope fits is applied exactly when the guards
  of its own branch hold, because those guards preserve the whole aggregate invariant.
\<close>

theorem guards_preserve_invariant:
  assumes "validate_state s" and "event_fits s ev" and "lifecycle s \<noteq> SL_ENDED"
    and "\<not> invariant_gap s (ce_payload ev)"
  shows "reduce s ev = apply_payload s (advance s ev) ev
    \<and> (\<forall>s'. apply_payload s (advance s ev) ev = Inr s' \<longrightarrow> validate_state s')"
  using reduce_iff_guards [OF assms] apply_payload_valid [OF assms] by blast

theorem guards_preserve_invariant_witness:
  "reduce asking_state pause_event
    = apply_payload asking_state (advance asking_state pause_event) pause_event"
proof -
  have "event_fits asking_state pause_event" using reduce_eq_InrD(2) [OF pause_step] .
  moreover have "lifecycle asking_state \<noteq> SL_ENDED"
    by (simp add: asking_state_def sample_state_def)
  moreover have "\<not> invariant_gap asking_state (ce_payload pause_event)"
    by (simp add: invariant_gap_def pause_event_def sample_event_def)
  ultimately show ?thesis using guards_preserve_invariant [OF asking_state_valid] by blast
qed

section \<open>The gaps are real\<close>

text \<open>An event that fits and applies, but whose result is not valid, is refused for that.\<close>

lemma reduce_invalid:
  assumes "validate_state s" and "event_fits s ev"
    and "apply_payload s (advance s ev) ev = Inr s'" and "\<not> validate_state s'"
  shows "reduce s ev = Inl STATE_INVARIANT_VIOLATION"
  using assms by (simp add: reduce_def event_fits_def)

text \<open>Numbering an applicable payload that the final validation refuses.\<close>

lemma commit_refused:
  assumes v: "validate_state s" and a: "applicable s p" and c: "is_protocol_id cid"
    and d: "is_sha256_digest dg"
    and bad: "\<And>ev s'. \<lbrakk>event_fits s ev; ce_payload ev = p;
        apply_payload s (advance s ev) ev = Inr s'\<rbrakk> \<Longrightarrow> \<not> validate_state s'"
  shows "\<exists>evs. commit_events s dg [\<lparr>pe_command_id = cid, pe_payload = p\<rparr>] = Inr evs
    \<and> replay s evs = Inl STATE_INVARIANT_VIOLATION"
proof -
  obtain ev where e: "ce_payload ev = p" "event_fits s ev"
    and n: "\<And>ps. number_events dg 1 (sequence s) (conversation_version s)
          (\<lparr>pe_command_id = cid, pe_payload = p\<rparr> # ps)
        = andthen (number_events dg (1 + 1) (sequence s + 1)
            (conversation_version s + conversation_version_delta p) ps) (\<lambda>evs. Inr (ev # evs))"
    by (rule number_fits [OF v _ c d, of p 1]) (use a in \<open>simp_all add: applicable_def\<close>)
  from a e obtain s' where "apply_payload s (advance s ev) ev = Inr s'"
    by (auto simp: applicable_def)
  from reduce_invalid [OF v e(2) this bad [OF e(2,1) this]] show ?thesis
    by (simp add: commit_events_def n del: number_events.simps(2))
qed

text \<open>
  C37.  Finding: \<open>PresentCandidates\<close> does not check which work it answers.  While the host
  still owes the contract of a selected candidate, the command is accepted, and its event can
  never be reduced: the coordinator's transaction fails with \<open>STATE_INVARIANT_VIOLATION\<close>
  although the decision was positive.
\<close>

theorem candidates_over_selection_fail:
  assumes "decide s (PresentCandidates cid cs) ctx = Accepted ps" and "is_sha256_digest dg"
    and "selected_candidate s \<noteq> None"
  shows "\<exists>evs. commit_events s dg ps = Inr evs \<and> replay s evs = Inl STATE_INVARIANT_VIOLATION"
proof -
  note d = decide_AcceptedD [OF assms(1)]
  from d(6) present_candidates_applicable [OF d(1,2), of cid cs ps] obtain p
    where ps: "ps = [\<lparr>pe_command_id = cid, pe_payload = p\<rparr>]" and a: "applicable s p" by auto
  from d(6) ps obtain t where p: "p = CandidatesPresented cs t"
    by (auto simp: present_candidates_def split: if_splits option.splits)
  from assms(3) obtain c where c: "selected_candidate s = Some c" by blast
  with d(1) have "valid_text c" by (simp add: validate_state_def vs_fields_def)
  then have "c \<noteq> []" by (auto simp: valid_text_def strip_eq_Nil_iff)
  show ?thesis unfolding ps
  proof (rule commit_refused [OF d(1) a _ assms(2)])
    show "is_protocol_id cid" using d(4) by simp
    fix ev s' assume "ce_payload ev = p" "apply_payload s (advance s ev) ev = Inr s'"
    with p c \<open>c \<noteq> []\<close> show "\<not> validate_state s'"
      by (auto simp: apply_payload_def red_candidates_presented_def validate_state_def
          vs_idle_phases_def)
  qed
qed

lemma candidates_over_selection_accepted:
  "decide (selecting_state None) (PresentCandidates (py ''cmd1'') [py ''Exports''])
     (sample_context (Some selection_trigger))
   = Accepted [\<lparr>pe_command_id = py ''cmd1'',
       pe_payload = CandidatesPresented [py ''Exports''] selection_trigger\<rparr>]"
proof -
  have "is_canonical_trigger_binding selection_trigger" by (simp add: selection_trigger_def)
  then show ?thesis
    using selecting_state_valid [of None]
    by (simp add: decide_def valid_decision_context_def sample_context_def valid_positive_int_def)
      (simp add: selecting_state_def sample_state_def present_candidates_def is_queued_def
        valid_candidates_def valid_candidates_shape_def session_unresolved_trigger_def accept_def)
qed

theorem candidates_over_selection_fail_witness:
  "\<exists>evs. commit_events (selecting_state None) sample_digest [\<lparr>pe_command_id = py ''cmd1'',
       pe_payload = CandidatesPresented [py ''Exports''] selection_trigger\<rparr>] = Inr evs
     \<and> replay (selecting_state None) evs = Inl STATE_INVARIANT_VIOLATION"
  using candidates_over_selection_fail [OF candidates_over_selection_accepted sample_digest_ok(1)]
  by (simp add: selecting_state_def)

text \<open>
  C38.  Finding: \<open>StartTopic\<close> does not compare the contract's topic run id with the runs the
  session already has.  A contract that reuses the id of a paused or completed run is
  accepted and then fails in the reducer.
\<close>

theorem reused_topic_run_fails:
  assumes "decide s (StartTopic cid contract sel) ctx = Accepted ps" and "is_sha256_digest dg"
    and "tc_topic_run_id contract \<in> tr_topic_run_id ` set (paused_topics s @ completed_topics s)"
  shows "\<exists>evs. commit_events s dg ps = Inr evs \<and> replay s evs = Inl STATE_INVARIANT_VIOLATION"
proof -
  note d = decide_AcceptedD [OF assms(1)]
  from d(6) start_topic_applicable [OF d(1,2), of cid contract sel ps] obtain p
    where ps: "ps = [\<lparr>pe_command_id = cid, pe_payload = p\<rparr>]" and a: "applicable s p" by auto
  from d(6) ps obtain e t st where p: "p = TopicStarted contract e t sel st"
    unfolding handle.simps start_topic_def by (auto split: if_split_asm option.splits)
  show ?thesis unfolding ps
  proof (rule commit_refused [OF d(1) a _ assms(2)])
    show "is_protocol_id cid" using d(4) by simp
    fix ev s' assume "ce_payload ev = p" "apply_payload s (advance s ev) ev = Inr s'"
    with p have "\<exists>w. active_topic s' = Some (new_topic_run contract e w)
        \<and> paused_topics s' = paused_topics s \<and> completed_topics s' = completed_topics s"
      by (auto simp: apply_payload_def red_topic_started_def andthen_eq_Inr_iff)
    with assms(3) have "\<not> distinct (all_topic_ids s')" by (auto simp: all_topic_ids_def)
    then show "\<not> validate_state s'" by (simp add: validate_state_def vs_topic_ids_def)
  qed
qed

definition rechoosing_state :: dialogue_state where
  "rechoosing_state = choosing_state\<lparr>paused_topics := paused_topics paused_state\<rparr>"

lemma rechoosing_state_valid: "validate_state rechoosing_state"
  using choosing_state_valid sample_run_valid [of "Some sample_turn" None TL_PAUSED 9]
  by (simp add: state_defs rechoosing_state_def choosing_state_def paused_state_def
      sample_state_def vt_work_def) (simp add: sample_run_def)

lemma reused_topic_run_accepted:
  "\<exists>ps. decide rechoosing_state (StartTopic (py ''cmd1'') sample_contract None)
     (sample_context (Some (sample_trigger TK_INITIAL_TURN (py ''w1'') None (Some sample_digest))))
   = Accepted ps"
proof -
  have "tc_contract_digest sample_contract = sample_digest" by (simp add: sample_contract_def)
  then show ?thesis
    using rechoosing_state_valid
    by (simp add: decide_def valid_decision_context_def sample_context_def valid_positive_int_def)
      (simp add: rechoosing_state_def choosing_state_def sample_state_def start_topic_def
        legacy_selection_def durable_selection_def matching_trigger_def valid_trigger_def
        initial_kind_def PUBLISHABLE_EVIDENCE_def sample_evidence_def accept_def
        sample_evidence_valid(1) [unfolded sample_evidence_def])
qed

theorem reused_topic_run_fails_witness:
  "\<exists>ps evs. decide rechoosing_state (StartTopic (py ''cmd1'') sample_contract None)
       (sample_context (Some (sample_trigger TK_INITIAL_TURN (py ''w1'') None (Some sample_digest))))
     = Accepted ps
     \<and> commit_events rechoosing_state sample_digest ps = Inr evs
     \<and> replay rechoosing_state evs = Inl STATE_INVARIANT_VIOLATION"
proof -
  have "tc_topic_run_id sample_contract
      \<in> tr_topic_run_id ` set (paused_topics rechoosing_state @ completed_topics rechoosing_state)"
    by (simp add: rechoosing_state_def paused_state_def sample_run_def sample_contract_def)
  with reused_topic_run_accepted reused_topic_run_fails [OF _ sample_digest_ok(1)]
  show ?thesis by blast
qed

text \<open>
  C39.  Finding: a permanent failure of the contract work after an answered clarification
  cannot be recorded.  \<open>ReportWorkFailure\<close> accepts it with two events, the failure of the
  outstanding work item and its dead letter.  The first one reduces, and leaves the session
  waiting for the host with the clarification still set.  The second one would lead to
  \<open>RECOVERABLE_ERROR\<close> in that state, which \<open>validate_state\<close> forbids: it is refused with
  \<open>STATE_INVARIANT_VIOLATION\<close>, and with it the transaction the coordinator numbers.
\<close>

theorem dead_letter_after_clarification_fails:
  assumes "decide s (ReportWorkFailure cid wid f) ctx = Accepted ps" and "is_sha256_digest dg"
    and "topic_clarification s \<noteq> None" and "wf_category f = WF_HOST_PERMANENT"
  shows "\<exists>ev ev2 s1 w. commit_events s dg ps = Inr [ev, ev2]
    \<and> current_nonterminal_work s = Some w
    \<and> ce_payload ev = WorkFailed (cw_work_id w) (cw_trigger w) (cw_attempt w) f
    \<and> ce_payload ev2 = WorkDeadLettered (cw_work_id w) (cw_trigger w) (cw_attempt w) f
        (allowed_recovery_actions s)
    \<and> reduce s ev = Inr s1 \<and> phase s1 = WAITING_HOST \<and> topic_clarification s1 \<noteq> None
    \<and> reduce s1 ev2 = Inl STATE_INVARIANT_VIOLATION
    \<and> replay s [ev, ev2] = Inl STATE_INVARIANT_VIOLATION"
proof -
  note d = decide_AcceptedD [OF assms(1)]
  from d(6) obtain w where w: "current_nonterminal_work s = Some w"
    and g: "phase s = WAITING_HOST" "cw_status w = WS_QUEUED" "valid_work_failure f"
    by (auto simp: report_work_failure_def split: option.splits if_splits)
  let ?p = "WorkFailed (cw_work_id w) (cw_trigger w) (cw_attempt w) f"
  let ?q = "WorkDeadLettered (cw_work_id w) (cw_trigger w) (cw_attempt w) f
      (allowed_recovery_actions s)"
  from d(6) w g assms(4) have ps: "ps = [\<lparr>pe_command_id = cid, pe_payload = ?p\<rparr>,
      \<lparr>pe_command_id = cid, pe_payload = ?q\<rparr>]"
    by (auto simp: report_work_failure_def RETRYABLE_WORK_FAILURES_def split: if_splits)
  from d(4) have cid: "is_protocol_id cid" by simp
  obtain ev s1 where e: "ce_payload ev = ?p" "apply_payload s (advance s ev) ev = Inr s1"
    and red: "reduce s ev = Inr s1"
    and n: "\<And>ps. number_events dg 1 (sequence s) (conversation_version s)
          (\<lparr>pe_command_id = cid, pe_payload = ?p\<rparr> # ps)
        = andthen (number_events dg (1 + 1) (sequence s1) (conversation_version s1) ps)
            (\<lambda>evs. Inr (ev # evs))"
    by (rule number_step [OF d(1) work_failed_ready [OF d(1) w g] cid assms(2), of 1]) auto
  note v1 = reduce_eq_InrD(4) [OF red]
  let ?w = "w\<lparr>cw_status := WS_FAILED, cw_last_failure := Some f\<rparr>"
  from e work_failed_result [OF d(1) w] have s1: "current_nonterminal_work s1 = Some ?w"
    "phase s1 = WAITING_HOST" "topic_clarification s1 \<noteq> None"
    "allowed_recovery_actions s1 = allowed_recovery_actions s"
    using assms(3) by (simp_all add: apply_payload_def)
  note wv = nonterminal_work_valid [OF v1 s1(1)]
  have q: "valid_event_payload_shape ?q"
    using wv g by (simp add: valid_current_work_def allowed_recovery_actions_def)
  obtain ev2 where e2: "ce_payload ev2 = ?q" "event_fits s1 ev2"
    and n2: "\<And>ps. number_events dg 2 (sequence s1) (conversation_version s1)
          (\<lparr>pe_command_id = cid, pe_payload = ?q\<rparr> # ps)
        = andthen (number_events dg (2 + 1) (sequence s1 + 1)
            (conversation_version s1 + conversation_version_delta ?q) ps) (\<lambda>evs. Inr (ev2 # evs))"
    by (rule number_fits [OF v1 q cid assms(2), of 2]) auto
  obtain n' where n': "replace_work (advance s1 ev2) ?w
      (?w\<lparr>cw_status := WS_DEAD_LETTER, cw_allowed_recovery_actions := allowed_recovery_actions s\<rparr>)
      = Inr n'"
    using replace_nonterminal_ok [OF v1 s1(1)] by blast
  have "apply_payload s1 (advance s1 ev2) ev2 = Inr (n'\<lparr>phase := RECOVERABLE_ERROR\<rparr>)"
    using e2 s1 n' assms(4)
    by (simp add: apply_payload_def red_work_dead_lettered_def automatic_retry_allowed_def
        RETRYABLE_WORK_FAILURES_def)
  moreover have "topic_clarification n' \<noteq> None"
    using n' s1(3) by (auto simp: replace_work_def split: if_splits)
  then have "\<not> validate_state (n'\<lparr>phase := RECOVERABLE_ERROR\<rparr>)"
    by (auto simp: validate_state_def vs_clarification_def)
  ultimately have "reduce s1 ev2 = Inl STATE_INVARIANT_VIOLATION"
    by (rule reduce_invalid [OF v1 e2(2)])
  moreover from this red have "replay s [ev, ev2] = Inl STATE_INVARIANT_VIOLATION" by simp
  moreover have "commit_events s dg ps = Inr [ev, ev2]"
    by (simp add: ps commit_events_def n n2 del: number_events.simps(2))
  ultimately show ?thesis using w e(1) e2(1) red s1(2,3) by blast
qed

lemma dead_letter_after_clarification_accepted:
  "\<exists>ps. decide (selecting_state (Some answered_clarification))
     (ReportWorkFailure (py ''cmd1'') (cw_work_id (sample_work selection_trigger)) permanent_failure)
     (sample_context None) = Accepted ps"
proof -
  let ?s = "selecting_state (Some answered_clarification)"
  have v: "validate_state ?s" by (simp add: selecting_state_valid)
  have "current_nonterminal_work ?s = Some (sample_work selection_trigger)"
    by (simp add: selecting_state_def sample_state_def current_nonterminal_work_def
        current_works_def active_work_def List.map_filter_simps)
  moreover have "is_protocol_id (cw_work_id (sample_work selection_trigger))"
    using sample_work_valid(1) [of selection_trigger 5]
    by (simp add: valid_current_work_def selection_trigger_def)
  ultimately show ?thesis
    using v
    by (simp add: decide_def valid_decision_context_def sample_context_def valid_positive_int_def
        report_work_failure_def permanent_failure_def RETRYABLE_WORK_FAILURES_def
        sample_failure_valid(2) [unfolded permanent_failure_def])
      (simp add: selecting_state_def sample_state_def sample_evidence_def selection_trigger_def)
qed

theorem dead_letter_after_clarification_fails_witness:
  "\<exists>ps ev ev2 s1. decide (selecting_state (Some answered_clarification))
       (ReportWorkFailure (py ''cmd1'') (cw_work_id (sample_work selection_trigger)) permanent_failure)
       (sample_context None) = Accepted ps
     \<and> commit_events (selecting_state (Some answered_clarification)) sample_digest ps = Inr [ev, ev2]
     \<and> reduce (selecting_state (Some answered_clarification)) ev = Inr s1
     \<and> reduce s1 ev2 = Inl STATE_INVARIANT_VIOLATION"
proof -
  have "topic_clarification (selecting_state (Some answered_clarification)) \<noteq> None"
    "wf_category permanent_failure = WF_HOST_PERMANENT"
    by (simp_all add: selecting_state_def permanent_failure_def)
  with dead_letter_after_clarification_accepted
    dead_letter_after_clarification_fails [OF _ sample_digest_ok(1)]
  show ?thesis by blast
qed

section \<open>Versions\<close>

lemma number_events_payloads:
  "number_events dg i n v ps = Inr evs \<Longrightarrow> map ce_payload evs = map pe_payload ps"
proof (induction ps arbitrary: i n v evs)
  case (Cons p ps)
  then show ?case by (auto simp: andthen_eq_Inr_iff Let_def)
qed simp

lemma replay_version:
  "replay s evs = Inr s' \<Longrightarrow> conversation_version s' =
     conversation_version s + sum_list (map (conversation_version_delta \<circ> ce_payload) evs)"
proof (induction evs arbitrary: s)
  case (Cons ev evs)
  then obtain t where t: "reduce s ev = Inr t" "replay t evs = Inr s'"
    by (auto simp: andthen_eq_Inr_iff)
  from Cons.IH [OF t(2)] reduce_frame(4) [OF t(1)] show ?case by simp
qed simp

lemma accepted_delta:
  assumes "decide s cmd ctx = Accepted ps"
  shows "sum_list (map (conversation_version_delta \<circ> pe_payload) ps) \<in> {0, 1}"
proof (cases "\<exists>cid wid f. cmd = ReportWorkFailure cid wid f")
  case True
  with decide_AcceptedD(6) [OF assms] show ?thesis
    by (auto simp: report_work_failure_def split: option.splits if_splits)
next
  case False
  note d = decide_AcceptedD [OF assms]
  from handle_single [OF d(1,2,5) False d(6)] obtain p
    where "ps = [\<lparr>pe_command_id = command_id cmd, pe_payload = p\<rparr>]" by blast
  moreover have "conversation_version_delta p \<in> {0, 1}" by (cases p) simp_all
  ultimately show ?thesis by simp
qed

text \<open>
  One semantic command advances the conversation version at most once, whatever
  number of events its decision has, and never turns it back.
\<close>

lemma command_advances_version_at_most_once:
  assumes "decide s cmd ctx = Accepted ps" and "commit_events s dg ps = Inr evs"
    and "replay s evs = Inr s'"
  shows "conversation_version s' \<in> {conversation_version s, conversation_version s + 1}
    \<and> sequence s' = sequence s + int (length ps)"
proof -
  from assms(2) have p: "map ce_payload evs = map pe_payload ps"
    by (auto simp: commit_events_def dest: number_events_payloads)
  then have "map (conversation_version_delta \<circ> ce_payload) evs
      = map (conversation_version_delta \<circ> pe_payload) ps"
    by (metis list.map_comp)
  moreover from p have "length evs = length ps" by (metis length_map)
  ultimately show ?thesis
    using replay_version [OF assms(3)] accepted_delta [OF assms(1)]
      dialogue.fold_position [OF assms(3) [unfolded replay_fold]] by auto
qed

section \<open>Fencing and quiescing\<close>

text \<open>
  C17.  A generation fences its predecessors for good: along any log of a session of
  generation \<open>g\<close>, a command decided under another generation is never accepted.
\<close>

theorem other_generation_never_accepted:
  assumes "replay s evs = Inr s'" and "dc_registry_generation ctx \<noteq> registry_generation s"
  shows "\<nexists>ps. decide s' cmd ctx = Accepted ps"
proof -
  have "registry_generation s' = registry_generation s"
    using assms(1) unfolding replay_fold
    by (rule dialogue.fold_related [where R = "\<lambda>a b. registry_generation b = registry_generation a",
        rotated 3]) (simp_all add: reduce_frame(2))
  with assms(2) show ?thesis using decide_AcceptedD(3) [of s' cmd ctx] by auto
qed

theorem other_generation_never_accepted_witness:
  "\<nexists>ps. decide paused_state (ExploreTopics (py ''cmd1''))
     ((sample_context None)\<lparr>dc_registry_generation := 2\<rparr>) = Accepted ps"
proof -
  have "replay asking_state [pause_event] = Inr paused_state" by (simp add: pause_step)
  moreover have "dc_registry_generation ((sample_context None)\<lparr>dc_registry_generation := 2\<rparr>)
      \<noteq> registry_generation asking_state"
    by (simp add: asking_state_def sample_state_def)
  ultimately show ?thesis by (rule other_generation_never_accepted)
qed

text \<open>A valid state with no phase is idle: nothing active, no work anywhere.\<close>

definition quiescent :: "dialogue_state \<Rightarrow> bool" where
  "quiescent s \<longleftrightarrow>
     phase s = PHASE_NONE \<and> active_topic s = None \<and> session_work s = None
     \<and> current_nonterminal_work s = None"

lemma phase_none_quiescent:
  assumes v: "validate_state s" and p: "phase s = PHASE_NONE"
  shows "quiescent s"
  using v p working_iff [OF v]
  by (simp add: quiescent_def validate_state_def vs_idle_phases_def vs_work_phases_def)

lemma pause_for_deactivation_ready:
  assumes v: "validate_state s" and t: "active_topic s = Some t" and "valid_text h"
    and l: "lifecycle s \<noteq> SL_ENDED"
  shows "step_ready s (TopicPaused (tr_topic_run_id t) PC_SESSION_DEACTIVATION (Some h)
    (Some (registry_generation s + 1)))" (is "step_ready s ?p")
proof -
  have g: "1 \<le> registry_generation s"
    using v by (simp add: validate_state_def vs_fields_def valid_positive_int_def)
  have "applicable s ?p"
    using assms g run_id_text(1) [OF valid_active_topic(1) [OF v t]]
    by (intro applicableI)
      (simp_all add: valid_positive_int_def apply_payload_def red_topic_paused_def)
  with l show ?thesis by (simp add: step_ready_def invariant_gap_def)
qed

lemma deactivation_ready:
  assumes v: "validate_state s" and "active_topic s = None" and "valid_text h"
    and l: "(lifecycle s = SL_NEW \<and> phase s = PHASE_NONE)
      \<or> (lifecycle s = SL_OPEN \<and> phase s \<noteq> PHASE_NONE)"
    and st: "st = session_unresolved_trigger s"
  shows "step_ready s (SessionDeactivationPrepared h (registry_generation s + 1) st)"
    (is "step_ready s ?p")
proof -
  have g: "1 \<le> registry_generation s"
    using v by (simp add: validate_state_def vs_fields_def valid_positive_int_def)
  have "lifecycle s = SL_NEW \<Longrightarrow> session_work s = None"
    using v by (simp add: validate_state_def vs_lifecycle_def)
  moreover have "absent_or is_canonical_trigger_binding st"
    using v st valid_current_work_trigger by (cases "session_work s")
      (auto simp: validate_state_def vs_fields_def session_unresolved_trigger_def)
  ultimately have "applicable s ?p"
    using assms g
    by (intro applicableI)
      (auto simp: valid_positive_int_def apply_payload_def red_session_deactivation_prepared_def)
  with l show ?thesis by (auto simp: step_ready_def invariant_gap_def)
qed

lemma commits_to_phase:
  assumes v: "validate_state s" and r: "step_ready s p" and c: "is_protocol_id cid"
    and d: "is_sha256_digest dg"
  shows "\<exists>evs s'. commit_events s dg [\<lparr>pe_command_id = cid, pe_payload = p\<rparr>] = Inr evs
    \<and> replay s evs = Inr s' \<and> validate_state s' \<and> phase_edge p (phase s) (phase s')"
proof -
  obtain ev s' where e: "ce_payload ev = p" and red: "reduce s ev = Inr s'"
    and n: "\<And>ps. number_events dg 1 (sequence s) (conversation_version s)
          (\<lparr>pe_command_id = cid, pe_payload = p\<rparr> # ps)
        = andthen (number_events dg (1 + 1) (sequence s') (conversation_version s') ps)
            (\<lambda>evs. Inr (ev # evs))"
    by (rule number_step [OF v r c d, of 1]) auto
  with reduce_eq_InrD(4) [OF red] reduce_phase_edge [OF red] show ?thesis
    by (simp add: commit_events_def n del: number_events.simps(2))
qed

text \<open>
  C20.  Quiescing is complete: when the fence of a handoff is decided under a well-formed
  command id, its events commit and replay, and the session they leave is idle, with no
  active topic and no outstanding work, and with every topic run it had.
\<close>

theorem fenced_quiesce_commits:
  assumes "decide_fenced_quiesce s cid fq = Accepted ps" and "is_protocol_id cid"
    and "is_sha256_digest dg"
  shows "\<exists>evs s'. commit_events s dg ps = Inr evs \<and> replay s evs = Inr s'
    \<and> quiescent s' \<and> runs_kept s s'"
proof -
  from assms(1) have v: "validate_state s" and l: "lifecycle s \<in> {SL_NEW, SL_OPEN}"
    and h: "valid_text (fq_handoff_id fq)" and f: "fq_fence_generation fq = registry_generation s + 1"
    by (auto simp: decide_fenced_quiesce_def split: if_splits)
  have *: "\<exists>evs s'. commit_events s dg ps = Inr evs \<and> replay s evs = Inr s'
      \<and> validate_state s' \<and> phase s' = PHASE_NONE"
  proof (cases "active_topic s")
    case (Some t)
    have "lifecycle s \<noteq> SL_NEW"
      using valid_active_topic(2) [OF v Some] by simp
    with assms(1) Some f have ps: "ps = [\<lparr>pe_command_id = cid, pe_payload =
        TopicPaused (tr_topic_run_id t) PC_SESSION_DEACTIVATION (Some (fq_handoff_id fq))
          (Some (registry_generation s + 1))\<rparr>]"
      by (auto simp: decide_fenced_quiesce_def split: if_split_asm)
    have "lifecycle s \<noteq> SL_ENDED" using l by auto
    from commits_to_phase [OF v pause_for_deactivation_ready [OF v Some h this] assms(2,3)]
    show ?thesis unfolding ps by auto
  next
    case None
    show ?thesis
    proof (cases "lifecycle s = SL_OPEN \<and> phase s = PHASE_NONE")
      case True
      with assms(1) None have "ps = []"
        by (auto simp: decide_fenced_quiesce_def split: if_split_asm)
      with v True show ?thesis by (simp add: commit_events_def)
    next
      case False
      with l have "(lifecycle s = SL_NEW \<and> phase s = PHASE_NONE)
          \<or> (lifecycle s = SL_OPEN \<and> phase s \<noteq> PHASE_NONE)"
        using v by (auto simp: validate_state_def vs_lifecycle_def)
      note ready = deactivation_ready [OF v None h this refl]
      have "lifecycle s = SL_NEW \<Longrightarrow> session_unresolved_trigger s = None"
        using v by (simp add: validate_state_def vs_lifecycle_def session_unresolved_trigger_def)
      with assms(1) None False f have ps: "ps = [\<lparr>pe_command_id = cid, pe_payload =
          SessionDeactivationPrepared (fq_handoff_id fq) (registry_generation s + 1)
            (session_unresolved_trigger s)\<rparr>]"
        by (auto simp: decide_fenced_quiesce_def split: if_split_asm)
      from commits_to_phase [OF v ready assms(2,3)] show ?thesis unfolding ps by auto
    qed
  qed
  then show ?thesis using phase_none_quiescent replay_runs_kept by blast
qed

definition sample_fence :: fenced_quiesce_context where
  "sample_fence =
     \<lparr>fq_handoff_id = py ''run1'', fq_source_session_id = py ''session1'',
      fq_source_generation = 1, fq_fence_generation = 2\<rparr>"

lemma sample_fence_accepted:
  "valid_text cid \<Longrightarrow> decide_fenced_quiesce asking_state cid sample_fence = Accepted
     [\<lparr>pe_command_id = cid, pe_payload =
       TopicPaused (py ''run1'') PC_SESSION_DEACTIVATION (Some (py ''run1'')) (Some 2)\<rparr>]"
  using asking_state_valid
  by (simp add: decide_fenced_quiesce_def sample_fence_def valid_positive_int_def)
    (simp add: asking_state_def sample_state_def sample_run_def)

theorem fenced_quiesce_commits_witness:
  "\<exists>evs s'. commit_events asking_state sample_digest [\<lparr>pe_command_id = py ''cmd1'', pe_payload =
       TopicPaused (py ''run1'') PC_SESSION_DEACTIVATION (Some (py ''run1'')) (Some 2)\<rparr>] = Inr evs
     \<and> replay asking_state evs = Inr s' \<and> quiescent s' \<and> runs_kept asking_state s'"
  by (rule fenced_quiesce_commits [OF sample_fence_accepted]) simp_all

text \<open>
  C40.  Finding: the fenced quiesce only asks for a non-blank command id, but the envelope
  of an event needs a protocol id.  A fence decided under any other non-blank text is
  accepted, and its event is then refused as malformed.
\<close>

theorem fenced_quiesce_id_unchecked:
  assumes "decide_fenced_quiesce s cid fq = Accepted ps" and "ps \<noteq> []"
    and "\<not> is_protocol_id cid" and "commit_events s dg ps = Inr evs"
  shows "replay s evs = Inl INVALID_EVENT_ENVELOPE"
proof -
  from assms(1) have v: "validate_state s"
    by (auto simp: decide_fenced_quiesce_def split: if_splits)
  from assms(1,2) obtain p where ps: "ps = [\<lparr>pe_command_id = cid, pe_payload = p\<rparr>]"
    by (auto simp: decide_fenced_quiesce_def split: if_split_asm option.splits)
  with assms(4) obtain ev where "evs = [ev]" "ce_command_id ev = cid"
    by (auto simp: commit_events_def andthen_eq_Inr_iff Let_def)
  with v assms(3) show ?thesis
    by (simp add: reduce_def valid_committed_event_envelope_def)
qed

theorem fenced_quiesce_id_unchecked_witness:
  "\<exists>evs. commit_events asking_state sample_digest [\<lparr>pe_command_id = py ''Why?'', pe_payload =
       TopicPaused (py ''run1'') PC_SESSION_DEACTIVATION (Some (py ''run1'')) (Some 2)\<rparr>] = Inr evs
     \<and> replay asking_state evs = Inl INVALID_EVENT_ENVELOPE"
proof -
  have n: "\<not> is_protocol_id (py ''Why?'')"
    by (simp add: is_protocol_id_def py_def is_alnum_char_def is_id_char_def)
  obtain eid where "stable_id (py ''dlg.event'') sample_digest (Some 1) = Inr eid"
    using stable_id_ok [OF sample_digest_ok(1), of 1] by auto
  then obtain evs where c: "commit_events asking_state sample_digest
      [\<lparr>pe_command_id = py ''Why?'', pe_payload =
       TopicPaused (py ''run1'') PC_SESSION_DEACTIVATION (Some (py ''run1'')) (Some 2)\<rparr>] = Inr evs"
    by (auto simp: commit_events_def Let_def)
  from fenced_quiesce_id_unchecked [OF sample_fence_accepted [OF sample_texts(1)] _ n c] c
  show ?thesis by simp
qed

end
