(* ===== verification/Session_Properties.thy ===== *)
theory Session_Properties
  imports Scenario
begin

text \<open>
  The properties of sessions: what every log of accepted events keeps, what each phase
  holds, and how topics, questions, evidence and work items move.
\<close>

section \<open>The log\<close>

text \<open>
  The store's log is gap-free and replays once: the sequence numbers of a log that
  replays are consecutive from the tip it started at, they are distinct, and none of its
  events can be applied a second time on top of it.
\<close>

lemma log_is_gap_free:
  assumes "replay s evs = Inr s'"
  shows "map ce_sequence evs = [sequence s + 1 .. sequence s + int (length evs)]
    \<and> distinct (map ce_sequence evs)
    \<and> (\<forall>ev \<in> set evs. \<exists>e. reduce s' ev = Inl e)"
  using dialogue.fold_numbers dialogue.fold_distinct dialogue.old_event_refused
    assms [unfolded replay_fold] by blast

lemma pause_replay: "replay asking_state [pause_event] = Inr paused_state"
  by (simp add: pause_step)

text \<open>
  A log can be replayed in parts: any prefix leads to a state from which the rest
  gives the same result, so a snapshot taken at any point is as good as the whole log.
\<close>

lemma replay_from_snapshot:
  "replay s (xs @ ys) = (case replay s xs of Inl e \<Rightarrow> Inl e | Inr m \<Rightarrow> replay m ys)"
  unfolding replay_fold fold_events_append by (simp add: andthen_def split: sum.split)

section \<open>Topics\<close>

text \<open>
  C18.  A log keeps the turns and the insights of a topic run.  Whatever its events do -- pause
  the run, resume it, reground it, recover its work, complete it -- the session still holds a run
  of the same id and contract afterwards.  The ids of its learner turns extend the earlier ones in
  order, and each earlier entry of the learner model is still there with its kind, its statement,
  all its source turns and all its evidence, said by the same party or by now jointly confirmed;
  only its status may have changed otherwise.
\<close>

theorem learner_input_never_lost:
  assumes "replay s evs = Inr s'" and "t \<in> runs s"
  shows "\<exists>t' \<in> runs s'. tr_topic_run_id t' = tr_topic_run_id t \<and> tr_contract t' = tr_contract t
    \<and> take (length (tr_learner_turn_ids t)) (tr_learner_turn_ids t') = tr_learner_turn_ids t
    \<and> (\<forall>m \<in> set (tr_learner_model t). \<exists>m' \<in> set (tr_learner_model t').
          lm_entry_id m' = lm_entry_id m \<and> lm_kind m' = lm_kind m
          \<and> lm_statement m' = lm_statement m
          \<and> set (lm_source_turn_ids m) \<subseteq> set (lm_source_turn_ids m')
          \<and> set (lm_evidence_refs m) \<subseteq> set (lm_evidence_refs m')
          \<and> (lm_provenance m' = lm_provenance m \<or> lm_provenance m' = IP_JOINTLY_CONFIRMED))"
proof -
  from replay_runs_kept [OF assms(1)] assms(2) obtain t' where t': "t' \<in> runs s'" "continues t t'"
    by (auto simp: runs_kept_def)
  then have "take (length (tr_learner_turn_ids t)) (tr_learner_turn_ids t') = tr_learner_turn_ids t"
    by (auto simp: continues_def)
  with t' show ?thesis
    unfolding continues_def entry_kept_def by (intro bexI [OF _ t'(1)]) simp
qed

theorem learner_input_never_lost_witness:
  "\<exists>t' \<in> runs paused_state. take 1 (tr_learner_turn_ids t') = [py ''turn1'']"
  using learner_input_never_lost [OF pause_replay, of "sample_run TL_ACTIVE (Some sample_turn) None"]
  by (auto simp: runs_def asking_state_def sample_run_def)

text \<open>
  C19.  Completed topics are final and earned: a log only appends to them, and if the ones it
  starts with were, all of them end with every gate supported, a confirmed bridge between
  business and technology, and a summary that cites confirmed entries of the learner model.
\<close>

theorem completion_is_final_and_earned:
  assumes "replay s evs = Inr s'" and "list_all mastered (completed_topics s)"
  shows "take (length (completed_topics s)) (completed_topics s') = completed_topics s
    \<and> list_all mastered (completed_topics s')"
  using replay_completed_kept [OF assms(1)] replay_mastered [OF assms]
  by (auto simp: completed_kept_def)

theorem completion_is_final_and_earned_witness:
  "list_all mastered (completed_topics completed_state) \<and> completed_topics completed_state \<noteq> []"
proof -
  have "replay waiting_state [complete_event] = Inr completed_state" by (simp add: complete_step)
  moreover have "list_all mastered (completed_topics waiting_state)"
    by (simp add: waiting_state_def sample_state_def)
  ultimately have "list_all mastered (completed_topics completed_state)"
    using completion_is_final_and_earned by blast
  then show ?thesis by (simp add: completed_state_def)
qed

text \<open>
  C29.  The reducer refines the ledger of topic statuses: each event keeps it or changes one
  topic's status along absent or paused to active (only while none is active), active to
  paused, active to completed.
\<close>

theorem reduce_refines_ledger:
  assumes "reduce s ev = Inr s'"
  shows "ledger_step (ledger_of s) (ledger_of s')"
  using assms by (rule reduce_ledger_step)

theorem reduce_refines_ledger_witness: "ledger_step (ledger_of asking_state) (ledger_of paused_state)"
  using reduce_refines_ledger [OF pause_step] .

section \<open>Phases\<close>

text \<open>
  C25.  The reducer refines the phase machine: an event is only applied in a phase that has
  an edge for it, and leads to the phase at the end of that edge.
\<close>

theorem reduce_refines_phases:
  assumes "reduce s ev = Inr s'"
  shows "phase_edge (ce_payload ev) (phase s) (phase s')"
  using assms by (rule reduce_phase_edge)

theorem reduce_refines_phases_witness:
  "phase_edge (TopicPaused (py ''run1'') PC_USER None None) AWAITING_USER PHASE_NONE"
  using reduce_refines_phases [OF pause_step]
  by (simp add: pause_event_def sample_event_def asking_state_def paused_state_def sample_state_def)

text \<open>The events that may leave the error phase.\<close>

fun leaves_error :: "dialogue_event_payload \<Rightarrow> bool" where
  "leaves_error (WorkRecoveryRequested _ _ _ _) = True"
| "leaves_error (TopicPaused _ _ _ _) = True"
| "leaves_error (TopicSwitchRequested _ _) = True"
| "leaves_error (SessionDeactivationPrepared _ _ _) = True"
| "leaves_error _ = False"

text \<open>
  The host never retries dead work by itself: from \<open>RECOVERABLE_ERROR\<close> an event either
  leaves the phase where it is, and then it is an export fact, or it is an explicit
  recovery, a pause, a switch of topic or the deactivation of the session.
\<close>

lemma error_left_only_explicitly:
  assumes "reduce s ev = Inr s'" and "phase s = RECOVERABLE_ERROR"
  shows "if phase s' = RECOVERABLE_ERROR then export_payload (ce_payload ev)
    else leaves_error (ce_payload ev)"
  using reduce_phase_edge [OF assms(1)] assms(2)
  by (cases "ce_payload ev") (auto simp: export_payload_def)

lemma error_pause_step: "\<exists>s'. reduce error_state pause_event = Inr s'"
proof -
  have f: "event_fits error_state pause_event"
    by (simp add: event_fits_def pause_event_def sample_event_def error_state_def
        sample_state_def valid_committed_event_envelope_def valid_positive_int_def
        valid_nonnegative_int_def)
  have "\<exists>s'. apply_payload error_state (advance error_state pause_event) pause_event = Inr s'"
    by (simp add: apply_payload_def pause_event_def sample_event_def red_topic_paused_def
        error_state_def sample_run_def)
  then obtain s' where
    "apply_payload error_state (advance error_state pause_event) pause_event = Inr s'" ..
  then have "reduce error_state pause_event = Inr s'"
    by (intro reduce_ok [OF error_state_valid f])
      (simp_all add: error_state_def sample_state_def invariant_gap_def pause_event_def
        sample_event_def)
  then show ?thesis ..
qed

text \<open>
  In a valid state the phase says exactly what is outstanding: \<open>AWAITING_USER\<close> holds
  exactly when the active topic shows a question, \<open>WAITING_HOST\<close> exactly when there is one
  live work item, \<open>RECOVERABLE_ERROR\<close> exactly when there is one dead work item; and never
  are a question and a work item outstanding together.
\<close>

lemma phase_says_what_is_outstanding:
  assumes "validate_state s"
  shows "(phase s = AWAITING_USER \<longleftrightarrow> present (\<lambda>t. open_question_id t \<noteq> None) (active_topic s))
    \<and> (phase s = WAITING_HOST \<longleftrightarrow>
         present (\<lambda>w. cw_status w \<in> {WS_QUEUED, WS_FAILED}) (current_nonterminal_work s))
    \<and> (phase s = RECOVERABLE_ERROR \<longleftrightarrow>
         present (\<lambda>w. cw_status w = WS_DEAD_LETTER) (current_nonterminal_work s))
    \<and> \<not> (present (\<lambda>t. open_question_id t \<noteq> None) (active_topic s)
         \<and> current_nonterminal_work s \<noteq> None)"
proof -
  note a = awaiting_iff [OF assms] and w = working_iff [OF assms]
    and st = working_status [OF assms]
  show ?thesis
    using a w st
    by (cases "current_nonterminal_work s"; cases "active_topic s"; cases "phase s") auto
qed

text \<open>
  No log ends a session: from the initial state of a session, every state any log of
  events leads to is valid, and its lifecycle is never \<open>ENDED\<close>.
\<close>

lemma no_session_ends:
  assumes "session_state sid gen s" and "is_protocol_id sid"
  shows "validate_state s \<and> lifecycle s \<noteq> SL_ENDED"
  using assms
proof (induction rule: session_state.induct)
  case (opened s)
  then show ?case
    using initial_valid by (auto simp: initial_dialogue_state_def split: if_splits)
next
  case (stepped s ev s')
  with reduce_eq_InrD(4) [OF stepped(2)] reduce_lifecycle [OF stepped(2)] show ?case by auto
qed

section \<open>Questions and work\<close>

text \<open>
  The host asks no more than it was asked for: along any log, the agent turns
  committed are at most the events that created work, plus the work item that may have been
  outstanding at the start.  One learner turn gets at most one next question.
\<close>

lemma agent_turns_bounded_by_work:
  assumes "replay s evs = Inr s'"
  shows "length (filter (is_agent_turn \<circ> ce_payload) evs) + pending s'
    \<le> length (filter (creates_work \<circ> ce_payload) evs) + pending s"
  using replay_pending [OF assms] by simp

end
