(* ===== verification/Topic_Properties.thy ===== *)
theory Topic_Properties
  imports Scenario
begin

text \<open>
  The properties of single operations on topics, learner models, work and exports, each on
  the branch of the reducer that carries it out.
\<close>

section \<open>The learner model\<close>

lemma find_map_key:
  assumes "\<And>x. f (g x) = f x"
  shows "find (\<lambda>x. f x = i) (map g xs) = map_option g (find (\<lambda>x. f x = i) xs)"
  using assms by (induction xs) auto

lemma find_filter_key: "(\<And>x. P x \<Longrightarrow> Q x) \<Longrightarrow> find P (filter Q xs) = find P xs"
  by (induction xs) auto

lemma merge_lookup:
  "entry_by_id (apply_model_updates cur ups) i =
     (case entry_by_id ups i of None \<Rightarrow> entry_by_id cur i | Some u \<Rightarrow> Some u)"
proof (cases "i \<in> lm_entry_id ` set cur")
  case True
  let ?new = "filter (\<lambda>u. lm_entry_id u \<notin> lm_entry_id ` set cur) ups"
  let ?g = "\<lambda>e. case entry_by_id ups (lm_entry_id e) of None \<Rightarrow> e | Some u \<Rightarrow> u"
  have g: "lm_entry_id (?g e) = lm_entry_id e" for e
    by (auto dest: entry_by_id_SomeD split: option.split)
  have "find (\<lambda>e. lm_entry_id e = i) (rev ?new) = None"
    using True by (auto simp: find_None_iff)
  then have "entry_by_id (apply_model_updates cur ups) i
      = find (\<lambda>e. lm_entry_id e = i) (map ?g (rev cur))"
    by (simp add: entry_by_id_def [of _ i] apply_model_updates_def find_append rev_map)
  also have "\<dots> = map_option ?g (find (\<lambda>e. lm_entry_id e = i) (rev cur))"
    by (rule find_map_key [where f = lm_entry_id and g = ?g, OF g])
  also have "find (\<lambda>e. lm_entry_id e = i) (rev cur) = entry_by_id cur i"
    by (simp add: entry_by_id_def)
  finally show ?thesis
    using True entry_by_id_None_iff [of cur i] entry_by_id_SomeD [of cur i]
    by (cases "entry_by_id cur i") (auto split: option.split)
next
  case False
  let ?new = "filter (\<lambda>u. lm_entry_id u \<notin> lm_entry_id ` set cur) ups"
  have "find (\<lambda>e. lm_entry_id e = i) (rev ?new) = find (\<lambda>e. lm_entry_id e = i) (rev ups)"
    unfolding rev_filter using False by (intro find_filter_key) auto
  moreover have "entry_by_id cur i = None" using False by (simp add: entry_by_id_None_iff)
  moreover have "find (\<lambda>e. lm_entry_id e = i)
      (rev (map (\<lambda>e. case entry_by_id ups (lm_entry_id e) of None \<Rightarrow> e | Some u \<Rightarrow> u) cur)) = None"
    using False by (auto simp: find_None_iff dest: entry_by_id_SomeD split: option.splits)
  ultimately show ?thesis
    by (simp add: entry_by_id_def [of _ i] apply_model_updates_def find_append split: option.split)
qed

text \<open>
  Merging a learner model delta is a map override: after the merge an entry id denotes
  the delta's entry where the delta has one, and the earlier entry otherwise.
\<close>

lemma model_merge_is_override:
  "entry_by_id (apply_model_updates cur ups) i =
     (case entry_by_id ups i of None \<Rightarrow> entry_by_id cur i | Some u \<Rightarrow> Some u)"
  by (rule merge_lookup)

text \<open>
  A confirmed insight is never silently taken back: if a valid delta touches a confirmed
  entry, the merged model still has an entry of that id with the same kind and statement and
  all its sources and evidence, and it is confirmed, stale or disputed -- never again a
  working model or an open question.
\<close>

lemma confirmed_never_silently_withdrawn:
  assumes "valid_model_updates cur ups" and "entry_by_id cur i = Some e"
    and "lm_status e = IS_CONFIRMED"
  shows "\<exists>e'. entry_by_id (apply_model_updates cur ups) i = Some e'
    \<and> lm_kind e' = lm_kind e \<and> lm_statement e' = lm_statement e
    \<and> set (lm_source_turn_ids e) \<subseteq> set (lm_source_turn_ids e')
    \<and> set (lm_evidence_refs e) \<subseteq> set (lm_evidence_refs e')
    \<and> lm_status e' \<in> {IS_CONFIRMED, IS_STALE, IS_DISPUTED}"
proof (cases "entry_by_id ups i")
  case None
  with assms merge_lookup [of cur ups i] show ?thesis by simp
next
  case (Some u)
  then have u: "u \<in> set ups" "lm_entry_id u = i" using entry_by_id_SomeD by blast+
  with assms(1,2) have "valid_model_update e u"
    by (auto simp: valid_model_updates_def list_all_iff)
  with assms(3) Some merge_lookup [of cur ups i] show ?thesis
    by (auto simp: valid_model_update_def)
qed

section \<open>Evidence\<close>

text \<open>
  C30.  Nothing is published on stale evidence: an agent turn is only committed for the exact
  evidence its topic rests on, that evidence is publishable, and the turn answers the work
  item that is outstanding; afterwards the turn's question is shown and no work is left.
\<close>

theorem agent_turn_rests_on_current_evidence:
  assumes "reduce s ev = Inr s'" and "ce_payload ev = AgentTurnCommitted r t e"
  shows "\<exists>topic w topic'. active_topic s = Some topic \<and> tr_work topic = Some w
    \<and> cw_status w = WS_QUEUED \<and> cw_trigger w = t
    \<and> e = topic_evidence topic \<and> ec_health e \<in> PUBLISHABLE_EVIDENCE
    \<and> active_topic s' = Some topic' \<and> topic_evidence topic' = e
    \<and> open_question_id topic' = Some (at_question_id r) \<and> tr_work topic' = None"
proof -
  from reduce_eq_InrD(3) [OF assms(1)] assms(2) obtain topic
    where t: "active_topic s = Some topic" and "is_queued (tr_work topic)"
      "map_option cw_trigger (tr_work topic) = Some t" "\<not> evidence_differs e topic"
      "tr_evidence_health topic \<in> PUBLISHABLE_EVIDENCE"
    and s': "active_topic s' = Some (commit_run topic r)"
    by (auto simp: apply_payload_def red_agent_turn_committed_def split: option.splits)
  then obtain w where "tr_work topic = Some w" "cw_status w = WS_QUEUED" "cw_trigger w = t"
    by (cases "tr_work topic") (auto simp: is_queued_def)
  moreover have "e = topic_evidence topic"
    using \<open>\<not> evidence_differs e topic\<close> by (simp add: topic_evidence_eq_iff)
  ultimately show ?thesis
    using t s' \<open>tr_evidence_health topic \<in> PUBLISHABLE_EVIDENCE\<close>
    by (simp add: commit_run_def topic_evidence_def open_question_id_def)
qed

definition turn_event :: committed_dialogue_event where
  "turn_event = sample_event (AgentTurnCommitted sample_turn reply_trigger sample_evidence)"

lemma turn_step: "reduce waiting_state turn_event = Inr
  (asking_state\<lparr>sequence := 10, conversation_version := 9\<rparr>)"
proof (rule reduce_ok [OF waiting_state_valid])
  have "valid_agent_turn_shape sample_turn" using sample_turn_valid by (simp add: valid_agent_turn_def)
  then show "event_fits waiting_state turn_event"
    using sample_evidence_valid
    by (simp add: event_fits_def turn_event_def sample_event_def waiting_state_def
        sample_state_def valid_committed_event_envelope_def valid_positive_int_def
        valid_nonnegative_int_def valid_evidence_def reply_trigger_def)
  show "apply_payload waiting_state (advance waiting_state turn_event) turn_event
      = Inr (asking_state\<lparr>sequence := 10, conversation_version := 9\<rparr>)"
    using sample_turn_valid sample_evidence_valid
    by (simp add: apply_payload_def turn_event_def sample_event_def red_agent_turn_committed_def
        waiting_state_def asking_state_def sample_state_def sample_run_def advance_def
        is_queued_def evidence_differs_def PUBLISHABLE_EVIDENCE_def valid_model_updates_def)
      (simp add: sample_evidence_def sample_turn_def commit_run_def apply_model_updates_def
        entry_by_id_def)
qed (simp_all add: waiting_state_def sample_state_def invariant_gap_def turn_event_def
    sample_event_def)

theorem agent_turn_rests_on_current_evidence_witness:
  "\<exists>topic. active_topic waiting_state = Some topic \<and> sample_evidence = topic_evidence topic"
proof -
  have "ce_payload turn_event = AgentTurnCommitted sample_turn reply_trigger sample_evidence"
    by (simp add: turn_event_def sample_event_def)
  from agent_turn_rests_on_current_evidence [OF turn_step this] show ?thesis by blast
qed

lemma downgraded:
  assumes "exactly_required_gates (map ga_gate_id (tr_gates t))"
  shows "list_all (\<lambda>g. ga_status g \<noteq> GS_SUPPORTED) (tr_gates (downgrade t))"
    and "list_all (\<lambda>m. lm_status m \<noteq> IS_CONFIRMED) (tr_learner_model (downgrade t))"
    and "\<not> completion_guard (downgrade t) u"
  by (auto simp: list_all_iff downgrade_def stale_gate_def stale_entry_def completion_guard_def
      has_bridge_def list_ex_iff)

text \<open>
  C31.  Regrounding withdraws what rested on the old evidence: when a topic is resumed with
  evidence that changed or is not current, no gate of it is supported and no entry of its
  model confirmed, so no summary completes it, and the host gets work of kind \<open>REGROUND\<close>.
\<close>

theorem reground_withdraws_progress:
  assumes "reduce s ev = Inr s'" and "ce_payload ev = TopicResumed trid rr t e"
    and "p \<in> set (paused_topics s)" and "tr_topic_run_id p = trid" and "requires_reground e p"
  shows "\<exists>a w. active_topic s' = Some a \<and> tr_topic_run_id a = trid
    \<and> tr_work a = Some w \<and> tb_kind (cw_trigger w) = TK_REGROUND
    \<and> list_all (\<lambda>g. ga_status g \<noteq> GS_SUPPORTED) (tr_gates a)
    \<and> list_all (\<lambda>m. lm_status m \<noteq> IS_CONFIRMED) (tr_learner_model a)
    \<and> (\<forall>u. \<not> completion_guard a u)"
proof -
  note r = reduce_eq_InrD [OF assms(1)]
  from r(3) assms(2) obtain q a ph
    where q: "filter (\<lambda>x. tr_topic_run_id x = trid) (paused_topics s) = [q]"
      and a: "resume_active s ev q t e = Inr (a, ph)" and s': "active_topic s' = Some a"
    by (auto simp: apply_payload_def red_topic_resumed_def andthen_eq_Inr_iff split: list.splits)
  from q paused_match [OF r(1) assms(3)] assms(4) have "q = p" by simp
  with a assms(5) obtain rt w where t: "fresh_work s ev rt = Inr w" "tb_kind rt = TK_REGROUND"
    and a': "a = downgrade (requeue_run (resumed_run p e) w)"
    by (auto simp: resume_active_def Let_def andthen_eq_Inr_iff valid_trigger_def
        split: option.splits)
  have "exactly_required_gates (map ga_gate_id (tr_gates (requeue_run (resumed_run p e) w)))"
    using r(1) assms(3)
    by (auto simp: validate_state_def vs_topics_def list_all_iff valid_topic_state_def vt_model_def
        requeue_run_def resumed_run_def with_evidence_def)
  note down = downgraded [OF this]
  have "tr_work a = Some w" "tr_topic_run_id a = trid"
    using assms(4) by (simp_all add: a' downgrade_def requeue_run_def resumed_run_def
        with_evidence_def)
  with s' t fresh_work_InrD(2) [OF t(1)] down show ?thesis unfolding a' by blast
qed

definition reground_trigger :: trigger_binding where
  "reground_trigger =
     (sample_trigger TK_REGROUND (py ''w2'') None (Some sample_digest))
       \<lparr>tb_evidence_digest := other_digest\<rparr>"

definition resume_event :: "bool \<Rightarrow> trigger_binding option \<Rightarrow> evidence_check \<Rightarrow> committed_dialogue_event" where
  "resume_event rr t e =
     (sample_event (TopicResumed (py ''run1'') rr t e))
       \<lparr>ce_sequence := 11, ce_from_version := 9, ce_to_version := 10\<rparr>"

lemma resume_fits:
  assumes "absent_or is_canonical_trigger_binding t" and "valid_evidence e"
  shows "event_fits paused_state (resume_event rr t e)"
  using assms
  by (simp add: event_fits_def resume_event_def sample_event_def paused_state_def sample_state_def
      valid_committed_event_envelope_def valid_positive_int_def valid_nonnegative_int_def
      valid_evidence_def)

lemma reground_step:
  "\<exists>s'. reduce paused_state (resume_event True (Some reground_trigger) stale_evidence) = Inr s'"
proof -
  let ?ev = "resume_event True (Some reground_trigger) stale_evidence"
  have t: "is_canonical_trigger_binding reground_trigger"
    by (simp add: reground_trigger_def is_canonical_trigger_binding_def sample_trigger_def)
  have f: "event_fits paused_state ?ev" using t by (intro resume_fits) simp_all
  from fresh_work_ok [OF paused_state_valid f t] obtain w
    where w: "fresh_work paused_state ?ev reground_trigger = Inr w" ..
  have g: "requires_reground stale_evidence (sample_run TL_PAUSED (Some sample_turn) None)"
    by (simp add: requires_reground_def stale_evidence_def)
  have v: "valid_trigger reground_trigger TK_REGROUND
      (Some (tc_contract_digest (tr_contract (sample_run TL_PAUSED (Some sample_turn) None))))
      (ec_evidence_digest stale_evidence)"
    using t by (simp add: valid_trigger_def reground_trigger_def stale_evidence_def sample_run_def
        sample_contract_def)
  have "paused_topics paused_state = [sample_run TL_PAUSED (Some sample_turn) None]"
    "phase paused_state = PHASE_NONE" "active_topic paused_state = None"
    by (simp_all add: paused_state_def sample_state_def)
  moreover have "tr_topic_run_id (sample_run TL_PAUSED (Some sample_turn) None) = py ''run1''"
    by (simp add: sample_run_def)
  ultimately have "\<exists>s'. apply_payload paused_state (advance paused_state ?ev) ?ev = Inr s'"
    using w g v
    by (simp add: apply_payload_def resume_event_def sample_event_def red_topic_resumed_def
        resume_active_def)
  then obtain s' where "apply_payload paused_state (advance paused_state ?ev) ?ev = Inr s'" ..
  then have "reduce paused_state ?ev = Inr s'"
    by (intro reduce_ok [OF paused_state_valid f])
      (simp_all add: paused_state_def sample_state_def invariant_gap_def resume_event_def
        sample_event_def)
  then show ?thesis ..
qed

theorem reground_withdraws_progress_witness:
  "\<exists>s' a. reduce paused_state (resume_event True (Some reground_trigger) stale_evidence) = Inr s'
    \<and> active_topic s' = Some a \<and> (\<forall>u. \<not> completion_guard a u)"
proof -
  from reground_step obtain s'
    where r: "reduce paused_state (resume_event True (Some reground_trigger) stale_evidence) = Inr s'" ..
  have "ce_payload (resume_event True (Some reground_trigger) stale_evidence)
      = TopicResumed (py ''run1'') True (Some reground_trigger) stale_evidence"
    by (simp add: resume_event_def sample_event_def)
  moreover have "sample_run TL_PAUSED (Some sample_turn) None \<in> set (paused_topics paused_state)"
    by (simp add: paused_state_def)
  moreover have "tr_topic_run_id (sample_run TL_PAUSED (Some sample_turn) None) = py ''run1''"
    "requires_reground stale_evidence (sample_run TL_PAUSED (Some sample_turn) None)"
    by (simp_all add: sample_run_def requires_reground_def stale_evidence_def)
  ultimately show ?thesis
    using reground_withdraws_progress [OF r] r by blast
qed

section \<open>Pausing and resuming\<close>

text \<open>
  C32.  Pausing loses nothing: when a topic that shows a question is paused, by the learner or
  by a hand-off, and the next event resumes it under the evidence it rested on, the same run
  with the same visible question is active again, the other topics are what they were, and
  the event can neither claim a regrounding nor carry a trigger.
\<close>

theorem pause_resume_round_trip:
  assumes "phase s = AWAITING_USER" and "active_topic s = Some t"
    and "reduce s ev1 = Inr s1" and "ce_payload ev1 = TopicPaused i cause h g"
    and "reduce s1 ev2 = Inr s2" and "ce_payload ev2 = TopicResumed i rr tr (topic_evidence t)"
  shows "active_topic s2 = Some t \<and> phase s2 = AWAITING_USER
    \<and> paused_topics s2 = paused_topics s \<and> completed_topics s2 = completed_topics s
    \<and> \<not> rr \<and> tr = None"
proof -
  note r1 = reduce_eq_InrD [OF assms(3)] and r2 = reduce_eq_InrD [OF assms(5)]
  from r1(3) assms(2,4) have i: "i = tr_topic_run_id t"
    and s1: "paused_topics s1 = paused_topics s @ [pause_run t]"
      "completed_topics s1 = completed_topics s"
    by (auto simp: apply_payload_def red_topic_paused_def)
  have q: "tr_current_agent_turn t \<noteq> None" "tr_work t = None"
    "tr_evidence_health t \<in> PUBLISHABLE_EVIDENCE"
    using r1(1) assms(1,2) by (auto simp: validate_state_def vs_awaiting_user_def)
  have lc: "tr_lifecycle t = TL_ACTIVE"
    using valid_active_topic(1) [OF r1(1) assms(2)]
    by (simp add: valid_topic_state_def vt_shape_def)
  have ids: "tr_topic_run_id t \<notin> tr_topic_run_id ` set (paused_topics s)"
    using r1(1) assms(2) by (auto simp: validate_state_def vs_topic_ids_def all_topic_ids_def)
  let ?p = "pause_run t"
  have f: "filter (\<lambda>x. tr_topic_run_id x = i) (paused_topics s1) = [?p]"
    "filter (\<lambda>x. tr_topic_run_id x \<noteq> i) (paused_topics s1) = paused_topics s"
    using ids by (auto simp: s1 i filter_empty_conv filter_id_conv) (metis imageI)+
  have g: "\<not> requires_reground (topic_evidence t) ?p"
    using q(3) by (auto simp: requires_reground_def evidence_differs_def topic_evidence_def
        pause_run_def PUBLISHABLE_EVIDENCE_def)
  have same: "resumed_run ?p (topic_evidence t) = t"
    using q(2) lc by (simp add: resumed_run_def with_evidence_def topic_evidence_def pause_run_def
        supersede_work_def)
  have "resume_active s1 ev2 ?p tr (topic_evidence t)
      = (if tr = None then Inr (t, AWAITING_USER) else Inl ILLEGAL_EVENT_TRANSITION)"
    using g q by (simp add: resume_active_def same require_def)
  with r2(3) assms(6) f g s1(2) show ?thesis
    by (auto simp: apply_payload_def red_topic_resumed_def split: if_splits)
qed

lemma resume_step: "\<exists>s2. reduce paused_state (resume_event False None sample_evidence) = Inr s2"
proof -
  let ?ev = "resume_event False None sample_evidence"
  let ?p = "sample_run TL_PAUSED (Some sample_turn) None"
  have f: "event_fits paused_state ?ev" by (intro resume_fits) simp_all
  have g: "\<not> requires_reground sample_evidence ?p"
    by (simp add: requires_reground_def sample_evidence_def evidence_differs_def sample_run_def)
  have "paused_topics paused_state = [?p]" "phase paused_state = PHASE_NONE"
    "active_topic paused_state = None"
    by (simp_all add: paused_state_def sample_state_def)
  moreover have "tr_topic_run_id ?p = py ''run1''" "tr_current_agent_turn ?p = Some sample_turn"
    "tr_work ?p = None" by (simp_all add: sample_run_def)
  ultimately have "\<exists>s'. apply_payload paused_state (advance paused_state ?ev) ?ev = Inr s'"
    using g by (simp add: apply_payload_def resume_event_def sample_event_def
        red_topic_resumed_def resume_active_def)
  then obtain s' where "apply_payload paused_state (advance paused_state ?ev) ?ev = Inr s'" ..
  then have "reduce paused_state ?ev = Inr s'"
    by (intro reduce_ok [OF paused_state_valid f])
      (simp_all add: paused_state_def sample_state_def invariant_gap_def resume_event_def
        sample_event_def)
  then show ?thesis ..
qed

theorem pause_resume_round_trip_witness:
  "\<exists>s2. reduce paused_state (resume_event False None sample_evidence) = Inr s2
    \<and> active_topic s2 = Some (sample_run TL_ACTIVE (Some sample_turn) None)
    \<and> phase s2 = AWAITING_USER"
proof -
  from resume_step obtain s2
    where r: "reduce paused_state (resume_event False None sample_evidence) = Inr s2" ..
  have t: "phase asking_state = AWAITING_USER"
    "active_topic asking_state = Some (sample_run TL_ACTIVE (Some sample_turn) None)"
    by (simp_all add: asking_state_def)
  have e: "topic_evidence (sample_run TL_ACTIVE (Some sample_turn) None) = sample_evidence"
    by (simp add: topic_evidence_def sample_run_def sample_evidence_def)
  have p: "ce_payload pause_event = TopicPaused (py ''run1'') PC_USER None None"
    "ce_payload (resume_event False None sample_evidence)
      = TopicResumed (py ''run1'') False None sample_evidence"
    by (simp_all add: pause_event_def resume_event_def sample_event_def)
  from pause_resume_round_trip [OF t pause_step p(1) r, unfolded e, OF p(2)] r show ?thesis
    by blast
qed

section \<open>Exports\<close>

text \<open>An export record as it can still change: its identity is fixed, a completed one is final.\<close>

definition same_export :: "export_record \<Rightarrow> export_record \<Rightarrow> bool" where
  "same_export x y \<longleftrightarrow>
     ex_export_id y = ex_export_id x \<and> ex_export_sequence y = ex_export_sequence x
     \<and> ex_intent_id y = ex_intent_id x
     \<and> ex_as_of_event_sequence y = ex_as_of_event_sequence x
     \<and> ex_payload_digest y = ex_payload_digest x
     \<and> (ex_status x = ES_COMPLETED \<longrightarrow> y = x)"

definition exports_kept :: "dialogue_state \<Rightarrow> dialogue_state \<Rightarrow> bool" where
  "exports_kept s s' \<longleftrightarrow> (\<exists>new. list_all2 same_export (exports s) (take (length (exports s)) (exports s'))
     \<and> exports s' = take (length (exports s)) (exports s') @ new)"

lemma same_export_refl [simp]: "same_export x x"
  by (simp add: same_export_def)

lemma same_export_trans: "same_export x y \<Longrightarrow> same_export y z \<Longrightarrow> same_export x z"
  by (auto simp: same_export_def)

lemma exports_keptI: "list_all2 same_export (exports s) xs \<Longrightarrow> exports s' = xs @ ys \<Longrightarrow> exports_kept s s'"
  using list_all2_lengthD [of same_export "exports s" xs] by (simp add: exports_kept_def)

lemma exports_keptE:
  assumes "exports_kept s s'"
  obtains xs ys where "list_all2 same_export (exports s) xs" "exports s' = xs @ ys"
  using assms unfolding exports_kept_def by blast

lemma exports_kept_refl: "exports_kept s s"
  by (rule exports_keptI [where ys = "[]"]) (simp_all add: list_all2_refl)

lemma exports_kept_trans:
  assumes "exports_kept a b" and "exports_kept b c"
  shows "exports_kept a c"
proof -
  from assms obtain xs ys us vs where x: "list_all2 same_export (exports a) xs" "exports b = xs @ ys"
    and u: "list_all2 same_export (exports b) us" "exports c = us @ vs"
    by (auto elim!: exports_keptE)
  from u(1) x(2) obtain us1 us2 where us: "us = us1 @ us2" "list_all2 same_export xs us1"
    by (auto simp: list_all2_append1)
  have "list_all2 same_export (exports a) us1"
    using x(1) us(2) by (rule list_all2_trans [rotated]) (rule same_export_trans)
  with u(2) us(1) show ?thesis by (auto intro!: exports_keptI)
qed

lemma replace_work_exports: "replace_work n w w' = Inr s' \<Longrightarrow> exports s' = exports n"
  by (auto simp: replace_work_def split: if_splits)

lemma exports_kept_same: "exports s' = exports s \<Longrightarrow> exports_kept s s'"
  by (rule exports_keptI [where xs = "exports s" and ys = "[]"]) (simp_all add: list_all2_refl)

lemma reduce_exports_kept:
  assumes "reduce s ev = Inr s'"
  shows "exports_kept s s'"
proof -
  note r = reduce_eq_InrD [OF assms]
  show ?thesis
  proof (cases "ce_payload ev")
    case (ExportRequested xid k iid asof at dg)
    with r(3) have "exports s' = exports s @ [new_export xid k iid asof at dg]"
      by (auto simp: apply_payload_def red_export_requested_def)
    then show ?thesis by (intro exports_keptI) (simp_all add: list_all2_refl)
  next
    case (ExportCompleted xid k iid at jp jd mp md fd)
    let ?g = "\<lambda>x. if ex_export_id x = xid then finish_export at jp jd mp md fd x else x"
    from r(3) ExportCompleted obtain x where x: "filter (\<lambda>r. ex_export_id r = xid) (exports s) = [x]"
      "ex_status x = ES_REQUESTED" and s': "exports s' = map ?g (exports s)"
      by (auto simp: apply_payload_def red_export_completed_def split: list.splits)
    have "same_export y (?g y)" if "y \<in> set (exports s)" for y
    proof (cases "ex_export_id y = xid")
      case True
      with that have "y \<in> set (filter (\<lambda>r. ex_export_id r = xid) (exports s))" by simp
      with x have "ex_status y = ES_REQUESTED" by simp
      then show ?thesis by (simp add: same_export_def finish_export_def)
    qed simp
    then have "list_all2 same_export (exports s) (map ?g (exports s))"
      by (simp add: list_all2_conv_all_nth)
    with s' show ?thesis by (intro exports_keptI [where ys = "[]"]) simp_all
  next
    case (WorkRecoveryRequested wid a t e)
    with r(3) have "red_work_recovery_requested s (advance s ev) ev wid a t e = Inr s'"
      by (simp add: apply_payload_def)
    then show ?thesis
      by (cases rule: red_work_recovery_requested_InrD) (simp_all add: exports_kept_same)
  next
    case (WorkFailed wid t k f)
    with r(3) show ?thesis
      by (auto simp: apply_payload_def red_work_failed_def split: option.splits
          dest!: replace_work_exports intro: exports_kept_same)
  next
    case (WorkRequeued wid t k f t' k')
    with r(3) show ?thesis
      by (auto simp: apply_payload_def red_work_requeued_def andthen_eq_Inr_iff
          split: option.splits dest!: replace_work_exports intro: exports_kept_same)
  next
    case (WorkDeadLettered wid t k f acts)
    with r(3) show ?thesis
      by (auto simp: apply_payload_def red_work_dead_lettered_def andthen_eq_Inr_iff
          split: option.splits dest!: replace_work_exports intro: exports_kept_same)
  qed (use r in \<open>auto simp: apply_payload_def branch_defs andthen_eq_Inr_iff
        split: option.splits list.splits intro: exports_kept_same\<close>)
qed

text \<open>
  Export records are durable: a log never drops or reorders them, never changes what
  an export was requested for, and never touches a completed one; and in the end they are
  numbered 1, 2, 3 without gap, each under an id and an intent of its own.
\<close>

lemma exports_are_durable:
  assumes "replay s evs = Inr s'" and "validate_state s"
  shows "list_all2 same_export (exports s) (take (length (exports s)) (exports s'))
    \<and> map ex_export_sequence (exports s') = map int [1..<Suc (length (exports s'))]
    \<and> distinct (map ex_export_id (exports s')) \<and> distinct (map ex_intent_id (exports s'))"
proof -
  have "exports_kept s s'"
    using assms(1) unfolding replay_fold
    by (rule dialogue.fold_related [where R = exports_kept, rotated 3])
      (blast intro: exports_kept_refl exports_kept_trans reduce_exports_kept)+
  moreover have "validate_state s'"
    using dialogue.fold_valid assms [unfolded replay_fold] by blast
  ultimately show ?thesis by (auto simp: exports_kept_def validate_state_def vs_exports_def)
qed

end
