(* ===== verification/Work_Properties.thy ===== *)
theory Work_Properties
  imports Decision_Properties Topic_Properties
begin

text \<open>
  The properties of the host's work: its identity, what a reported failure leads to, and
  that dead work always has a way back.
\<close>

section \<open>Identity\<close>

text \<open>
  Work identity is total and cannot be chosen by a caller: the derivation returns
  exactly on canonical inputs, its result is a protocol id of 69 characters, and two
  bindings that differ only in work id, runtime epoch and parent turn have the same one.
\<close>

lemma work_identity_is_derived:
  "(is_ok (derive_canonical_work_id sid eid n t) \<longleftrightarrow>
      is_protocol_id sid \<and> is_protocol_id eid \<and> 1 \<le> n \<and> is_canonical_trigger_binding t)
   \<and> (\<forall>w. derive_canonical_work_id sid eid n t = Inr w \<longrightarrow> is_protocol_id w \<and> length w = 69)
   \<and> (is_protocol_id w' \<longrightarrow> is_protocol_id e' \<longrightarrow> is_optional_protocol_id p' \<longrightarrow>
        is_canonical_trigger_binding t \<longrightarrow>
        derive_canonical_work_id sid eid n
          (t\<lparr>tb_work_id := w', tb_runtime_epoch := e', tb_parent_turn_id := p'\<rparr>)
        = derive_canonical_work_id sid eid n t)"
proof (intro conjI impI allI)
  show "is_ok (derive_canonical_work_id sid eid n t) \<longleftrightarrow>
      is_protocol_id sid \<and> is_protocol_id eid \<and> 1 \<le> n \<and> is_canonical_trigger_binding t"
    using derive_ok [of sid eid n t] derive_InrD [of sid eid n t]
    unfolding is_ok_iff derivable_def by blast
next
  fix w assume w: "derive_canonical_work_id sid eid n t = Inr w"
  then show "is_protocol_id w" using derive_InrD by blast
  from w show "length w = 69"
    by (auto simp: derive_canonical_work_id_def work_prefix_def split: if_splits option.splits)
next
  assume "is_protocol_id w'" "is_protocol_id e'" "is_optional_protocol_id p'"
    "is_canonical_trigger_binding t"
  then show "derive_canonical_work_id sid eid n
      (t\<lparr>tb_work_id := w', tb_runtime_epoch := e', tb_parent_turn_id := p'\<rparr>)
    = derive_canonical_work_id sid eid n t"
    by (intro derive_ignores_chosen_identity) (simp_all add: is_canonical_trigger_binding_def)
qed

section \<open>Failures\<close>

text \<open>What the two events of a failure report leave as the work item and the phase.\<close>

lemma replaced_nonterminal:
  assumes v: "validate_state s" and w: "current_nonterminal_work s = Some w"
    and st: "cw_status w' \<in> {WS_QUEUED, WS_FAILED, WS_DEAD_LETTER}"
    and r: "replace_work (advance s ev) w w' = Inr s'"
  shows "current_nonterminal_work s' = Some w'"
  using waiting_work [OF v w] r st
  by (auto simp: replace_session_work replace_topic_work current_nonterminal_work_def
      current_works_def active_work_def List.map_filter_simps)

lemma current_nonterminal_work_phase [simp]:
  "current_nonterminal_work (s\<lparr>phase := p\<rparr>) = current_nonterminal_work s"
  by (simp add: current_nonterminal_work_def current_works_def active_work_def)

lemma work_requeued_result:
  assumes r: "reduce s ev = Inr s'" and p: "ce_payload ev = WorkRequeued wid t k f t' k'"
    and w: "current_nonterminal_work s = Some w"
  shows "phase s' = WAITING_HOST \<and> present (\<lambda>w'. cw_status w' = WS_QUEUED
    \<and> cw_attempt w' = cw_attempt w + 1 \<and> cw_trigger w' = t') (current_nonterminal_work s')"
proof -
  note d = reduce_eq_InrD [OF r]
  from d(3) p w obtain w' where n: "queued_work_from_event (session_id s) ev t' k' (Some f) = Inr w'"
    and k: "k' = cw_attempt w + 1" and s': "replace_work (advance s ev) w w' = Inr s'"
    by (auto simp: apply_payload_def red_work_requeued_def andthen_eq_Inr_iff)
  from reduce_phase_edge [OF r] p queued_work_InrD [OF n] k
    replaced_nonterminal [OF d(1) w _ s'] show ?thesis by simp
qed

lemma work_dead_lettered_result:
  assumes r: "reduce s ev = Inr s'" and p: "ce_payload ev = WorkDeadLettered wid t k f acts"
    and w: "current_nonterminal_work s = Some w"
  shows "phase s' = RECOVERABLE_ERROR \<and> present (\<lambda>w'. cw_status w' = WS_DEAD_LETTER
    \<and> cw_attempt w' = cw_attempt w \<and> cw_trigger w' = cw_trigger w) (current_nonterminal_work s')"
proof -
  note d = reduce_eq_InrD [OF r]
  let ?w = "w\<lparr>cw_status := WS_DEAD_LETTER, cw_allowed_recovery_actions := acts\<rparr>"
  from d(3) p w obtain n' where n: "replace_work (advance s ev) w ?w = Inr n'"
    and s': "s' = n'\<lparr>phase := RECOVERABLE_ERROR\<rparr>"
    by (auto simp: apply_payload_def red_work_dead_lettered_def andthen_eq_Inr_iff)
  from replaced_nonterminal [OF d(1) w _ n] s' show ?thesis by simp
qed


lemma waiting_work_item: "current_nonterminal_work waiting_state = Some (sample_work reply_trigger)"
  by (simp add: waiting_state_def sample_state_def sample_run_def current_nonterminal_work_def
      current_works_def active_work_def List.map_filter_simps)

lemma reply_trigger_canonical [simp]: "is_canonical_trigger_binding reply_trigger"
  by (simp add: reply_trigger_def)

lemma permanent_failure_accepted:
  "\<exists>ps. decide waiting_state (ReportWorkFailure (py ''cmd1'')
     (cw_work_id (sample_work reply_trigger)) permanent_failure) (sample_context None) = Accepted ps"
proof -
  have "is_protocol_id (cw_work_id (sample_work reply_trigger))"
    using sample_work_valid(1) [of reply_trigger 5] by (simp add: valid_current_work_def)
  then show ?thesis
    using waiting_state_valid waiting_work_item
    by (simp add: decide_def valid_decision_context_def sample_context_def valid_positive_int_def
        report_work_failure_def permanent_failure_def RETRYABLE_WORK_FAILURES_def
        sample_failure_valid(2) [unfolded permanent_failure_def])
      (simp add: waiting_state_def sample_state_def sample_evidence_def reply_trigger_def)
qed


section \<open>Recovery\<close>

text \<open>The dead work of a session in error is the target of its own recovery, and may be retried.\<close>

lemma dead_work_is_target:
  assumes v: "validate_state s" and p: "phase s = RECOVERABLE_ERROR"
    and w: "current_nonterminal_work s = Some w"
  shows "\<exists>target. dead_work_target s (cw_work_id w) = Some (w, target, False)
    \<and> RA_RETRY \<in> set (cw_allowed_recovery_actions w)"
proof -
  have dead: "cw_status w = WS_DEAD_LETTER" using working_status(2) [OF v w p] .
  from waiting_work [OF v w] show ?thesis
  proof (elim disjE exE conjE)
    assume sw: "session_work s = Some w"
    with v dead have "cw_allowed_recovery_actions w = [RA_RETRY]"
      by (simp add: validate_state_def vs_dead_session_work_def)
    with sw dead show ?thesis by (simp add: dead_work_target_def is_dead_work_def)
  next
    fix t assume t: "active_topic s = Some t" "tr_work t = Some w" "session_work s = None"
    with valid_active_topic(1) [OF v t(1)] dead
    have "cw_allowed_recovery_actions w = [RA_RETRY, RA_REGROUND]"
      by (simp add: valid_topic_state_def vt_work_def)
    with t dead show ?thesis
      by (simp add: dead_work_target_def is_dead_work_def active_work_def)
  qed
qed

lemma recovered_work_current:
  assumes v: "validate_state s" and p: "phase s = RECOVERABLE_ERROR"
    and r: "apply_payload s (advance s ev) ev = Inr s'"
    and e: "ce_payload ev = WorkRecoveryRequested wid a t e"
  shows "present (\<lambda>w. cw_status w = WS_QUEUED \<and> cw_attempt w = 1 \<and> cw_trigger w = t)
    (current_nonterminal_work s')"
proof -
  from r e have "red_work_recovery_requested s (advance s ev) ev wid a t e = Inr s'"
    by (simp add: apply_payload_def)
  then show ?thesis
  proof (cases rule: red_work_recovery_requested_InrD)
    case (session dead w)
    from valid_session_work(2) [OF v session(3)] session(5) fresh_work_InrD [OF session(4)]
    show ?thesis by (simp add: current_nonterminal_work_def current_works_def active_work_def
        List.map_filter_simps)
  next
    case (active dead topic w)
    from valid_active_topic(5) [OF v active(3)] active(5) fresh_work_InrD [OF active(4)]
    show ?thesis by (simp add: current_nonterminal_work_def current_works_def active_work_def
        List.map_filter_simps recovered_run_def requeue_run_def downgrade_def Let_def)
  next
    case paused
    with p show ?thesis by simp
  qed
qed

text \<open>
  No session is stuck in error: whatever dead work it holds, retrying it with a fresh
  trigger for the same task and evidence is accepted, commits, and puts that work in front
  of the host again as a first attempt.
\<close>

lemma dead_work_can_be_retried:
  assumes "validate_state s" and "phase s = RECOVERABLE_ERROR"
    and "current_nonterminal_work s = Some w"
    and "valid_decision_context ctx" and "dc_registry_generation ctx = registry_generation s"
    and "dc_trigger ctx = Some t" and "retry_trigger_matches (cw_trigger w) t"
    and "ec_evidence_digest (dc_evidence ctx) = tb_evidence_digest (cw_trigger w)"
    and "is_protocol_id cid" and "is_sha256_digest dg"
  shows "\<exists>ps evs s'. decide s (RecoverWork cid (cw_work_id w) RA_RETRY) ctx = Accepted ps
    \<and> commit_events s dg ps = Inr evs \<and> replay s evs = Inr s' \<and> phase s' = WAITING_HOST
    \<and> present (\<lambda>w'. cw_status w' = WS_QUEUED \<and> cw_attempt w' = 1 \<and> cw_trigger w' = t)
        (current_nonterminal_work s')"
proof -
  let ?p = "WorkRecoveryRequested (cw_work_id w) RA_RETRY t (dc_evidence ctx)"
  from dead_work_is_target [OF assms(1-3)] obtain target
    where tg: "dead_work_target s (cw_work_id w) = Some (w, target, False)"
      "RA_RETRY \<in> set (cw_allowed_recovery_actions w)" by blast
  have open_session: "lifecycle s = SL_OPEN"
    using assms(1,2) by (cases "lifecycle s") (auto simp: validate_state_def vs_lifecycle_def)
  have "is_protocol_id (cw_work_id w)"
    using nonterminal_work_valid [OF assms(1,3)] by (simp add: valid_current_work_def)
  then have h: "recover_work s cid (cw_work_id w) RA_RETRY ctx
      = Accepted [\<lparr>pe_command_id = cid, pe_payload = ?p\<rparr>]"
    using tg assms(2,6-9) by (simp add: recover_work_def recovery_allowed_def)
  then have d: "decide s (RecoverWork cid (cw_work_id w) RA_RETRY) ctx
      = Accepted [\<lparr>pe_command_id = cid, pe_payload = ?p\<rparr>]"
    using assms(1,4,5,9) open_session by (simp add: decide_def)
  from recover_work_applicable [OF assms(1,4) h] open_session
  have ready: "step_ready s ?p" by (auto simp: step_ready_def invariant_gap_def)
  obtain ev s' where e: "ce_payload ev = ?p" and red: "reduce s ev = Inr s'"
    and a: "apply_payload s (advance s ev) ev = Inr s'"
    and n: "\<And>ps. number_events dg 1 (sequence s) (conversation_version s)
          (\<lparr>pe_command_id = cid, pe_payload = ?p\<rparr> # ps)
        = andthen (number_events dg (1 + 1) (sequence s') (conversation_version s') ps)
            (\<lambda>evs. Inr (ev # evs))"
    by (rule number_step [OF assms(1) ready assms(9,10), of 1]) auto
  have c: "commit_events s dg [\<lparr>pe_command_id = cid, pe_payload = ?p\<rparr>] = Inr [ev]"
    by (simp add: commit_events_def n del: number_events.simps(2))
  from recovered_work_current [OF assms(1,2) a e] reduce_phase_edge [OF red] e red
  show ?thesis by (intro exI [of _ "[\<lparr>pe_command_id = cid, pe_payload = ?p\<rparr>]"] exI [of _ "[ev]"]
      exI [of _ s'] conjI d c) simp_all
qed

section \<open>Questions\<close>

text \<open>The events after which a question is shown.\<close>

fun shows_question :: "dialogue_event_payload \<Rightarrow> bool" where
  "shows_question (AgentTurnCommitted _ _ _) = True"
| "shows_question (TopicResumed _ _ t _) = (t = None)"
| "shows_question _ = False"

lemma question_needs_event:
  "\<lbrakk>replay s evs = Inr s'; phase s \<noteq> AWAITING_USER; phase s' = AWAITING_USER\<rbrakk>
    \<Longrightarrow> \<exists>ev \<in> set evs. shows_question (ce_payload ev)"
proof (induction evs arbitrary: s)
  case (Cons ev evs)
  then obtain t where t: "reduce s ev = Inr t" "replay t evs = Inr s'"
    by (auto simp: andthen_eq_Inr_iff)
  show ?case
  proof (cases "phase t = AWAITING_USER")
    case True
    with reduce_phase_edge [OF t(1)] Cons.prems(2) have "shows_question (ce_payload ev)"
      by (cases "ce_payload ev") (auto split: if_splits)
    then show ?thesis by simp
  next
    case False
    with Cons.IH t(2) Cons.prems(3) show ?thesis by simp
  qed
qed simp

text \<open>
  A question is only ever put to the learner by a committed agent turn: if a log
  leads from a state that shows none to one that does, it holds an agent turn, or the
  resumption of a topic whose question was already committed when the topic was paused.
\<close>

lemma questions_come_from_agent_turns:
  assumes "replay s evs = Inr s'" and "present (\<lambda>t. open_question_id t \<noteq> None) (active_topic s')"
    and "\<not> present (\<lambda>t. open_question_id t \<noteq> None) (active_topic s)" and "evs \<noteq> []"
  shows "\<exists>ev \<in> set evs. shows_question (ce_payload ev)"
proof -
  from assms(1,4) obtain ev evs' t where "reduce s ev = Inr t" by (cases evs) (auto simp: andthen_eq_Inr_iff)
  from reduce_eq_InrD(1) [OF this] have v: "validate_state s" .
  then have v': "validate_state s'"
    using dialogue.fold_valid assms(1) [unfolded replay_fold] by blast
  from awaiting_iff [OF v'] assms(2) have "phase s' = AWAITING_USER"
    by (cases "active_topic s'") auto
  moreover from awaiting_iff [OF v] assms(3) have "phase s \<noteq> AWAITING_USER" by auto
  ultimately show ?thesis using question_needs_event [OF assms(1)] by blast
qed

end
