(* ===== verification/Registry_Reduce.thy ===== *)
theory Registry_Reduce
  imports Registry
begin

text \<open>
  The reducing half of \<open>xsync_v2/registry.py\<close>: the validation of a whole transaction, the
  effect of each event and \<open>rg_reduce\<close>.
\<close>

section \<open>Validation of a transaction\<close>

definition rg_valid_envelope :: "committed_registry_event \<Rightarrow> bool" where
  "rg_valid_envelope e \<longleftrightarrow>
     is_protocol_id (re_event_id e) \<and> is_sha256_digest (re_event_digest e)
     \<and> 1 \<le> re_sequence e \<and> 0 \<le> re_generation e
     \<and> is_protocol_id (re_command_id e) \<and> is_sha256_digest (re_body_digest e)
     \<and> rg_valid_payload (re_payload e)"

definition exact_receipt_match :: "command_receipt \<Rightarrow> registry_transaction \<Rightarrow> bool" where
  "exact_receipt_match r tx \<longleftrightarrow>
     rc_transaction_id r = tx_transaction_id tx
     \<and> rc_transaction_digest r = tx_transaction_digest tx
     \<and> rc_first_sequence r = re_sequence (hd (tx_events tx))
     \<and> rc_last_sequence r = re_sequence (last (tx_events tx))
     \<and> rc_event_ids r = map re_event_id (tx_events tx)
     \<and> rc_event_digests r = map re_event_digest (tx_events tx)"

definition is_replay :: "registry_state \<Rightarrow> registry_transaction \<Rightarrow> registry_code + bool" where
  "is_replay s tx =
     (let first = hd (tx_events tx) in
      case receipt_for_command s (re_command_id first) of
        Some r \<Rightarrow>
          if rc_body_digest r \<noteq> re_body_digest first then Inl RG_IDEMPOTENCY_CONFLICT
          else if exact_receipt_match r tx then Inr True
          else Inl REGISTRY_INTEGRITY_ERROR
      | None \<Rightarrow>
          if list_ex (\<lambda>r. rc_transaction_id r = tx_transaction_id tx
                          \<or> rc_transaction_digest r = tx_transaction_digest tx) (rs_receipts s)
          then Inl REGISTRY_INTEGRITY_ERROR
          else Inr False)"

text \<open>The generation an event must carry, \<open>None\<close> where its payload conflicts with the state.\<close>

fun expected_generation :: "registry_state \<Rightarrow> registry_payload \<Rightarrow> int option" where
  "expected_generation s (DialogueCreated _) = Some (rs_generation s)"
| "expected_generation s (DeactivationStarted h) =
     (if ph_generation h = rs_generation s + 1 then Some (ph_generation h) else None)"
| "expected_generation s (Deactivated q) =
     (if qp_generation q = rs_generation s then Some (qp_generation q) else None)"
| "expected_generation s (Activated _ g k _) =
     (if g = (if k = AK_INITIAL then rs_generation s + 1 else rs_generation s)
      then Some g else None)"

definition valid_event_generation :: "registry_state \<Rightarrow> committed_registry_event \<Rightarrow> bool" where
  "valid_event_generation s e \<longleftrightarrow> expected_generation s (re_payload e) = Some (re_generation e)"

definition valid_begin_context :: "registry_state \<Rightarrow> pending_handoff \<Rightarrow> bool" where
  "valid_begin_context s h \<longleftrightarrow>
     rs_pending_handoff s = None \<and> rs_current_session_id s = Some (ph_source_session_id h)
     \<and> (case dialogue_by_id (rs_dialogues s) (ph_source_session_id h) of
          None \<Rightarrow> False | Some d \<Rightarrow> rd_status d = RG_ACTIVE)
     \<and> ph_generation h = rs_generation s + 1"

text \<open>The four shapes of a transaction, by the payloads of its events.\<close>

definition valid_transaction_shape :: "registry_state \<Rightarrow> committed_registry_event list \<Rightarrow> bool" where
  "valid_transaction_shape s es =
     (case map re_payload es of
        [DialogueCreated t, Activated t' g k hid] \<Rightarrow>
          k = AK_INITIAL \<and> t' = t \<and> g = rs_generation s + 1
          \<and> rs_current_session_id s = None \<and> rs_pending_handoff s = None
          \<and> dialogue_by_id (rs_dialogues s) (tg_session_id t) = None
      | [DialogueCreated t, DeactivationStarted h] \<Rightarrow>
          t = ph_target h \<and> ph_started_sequence h = re_sequence (last es)
          \<and> dialogue_by_id (rs_dialogues s) (tg_session_id t) = None
          \<and> valid_begin_context s h
      | [DeactivationStarted h] \<Rightarrow>
          ph_started_sequence h = re_sequence (hd es)
          \<and> (case dialogue_by_id (rs_dialogues s) (tg_session_id (ph_target h)) of
               None \<Rightarrow> False
             | Some d \<Rightarrow> rd_status d = RG_CREATED
                         \<and> rd_config_digest d = tg_config_digest (ph_target h))
          \<and> valid_begin_context s h
      | [Deactivated q, Activated t g k hid] \<Rightarrow>
          (case rs_pending_handoff s of
             None \<Rightarrow> False
           | Some h \<Rightarrow>
               proof_matches_pending q h \<and> k = AK_HANDOFF \<and> t = ph_target h
               \<and> g = ph_generation h \<and> hid = Some (ph_handoff_id h))
      | _ \<Rightarrow> False)"

text \<open>\<open>validate_transaction\<close>: \<open>Inr True\<close> for an exact replay, \<open>Inr False\<close> for a new one.\<close>

definition validate_transaction :: "registry_state \<Rightarrow> registry_transaction \<Rightarrow> registry_code + bool" where
  "validate_transaction s tx =
     (let es = tx_events tx; first = hd es in
      if \<not> rg_valid s then Inl RG_STATE_INVARIANT_VIOLATION
      else if \<not> is_protocol_id (tx_transaction_id tx)
              \<or> \<not> is_sha256_digest (tx_transaction_digest tx)
              \<or> \<not> (1 \<le> length es \<and> length es \<le> 2)
      then Inl INVALID_REGISTRY_TRANSACTION
      else if \<not> list_all rg_valid_envelope es then Inl INVALID_REGISTRY_EVENT
      else if receipt_for_command s (re_command_id first) = None
              \<and> map re_sequence es
                  \<noteq> [rs_sequence s + 1 .. rs_sequence s + int (length es)]
      then Inl REGISTRY_SEQUENCE_GAP
      else if \<not> list_all (\<lambda>e. re_command_id e = re_command_id first
                              \<and> re_body_digest e = re_body_digest first) es
      then Inl INVALID_REGISTRY_TRANSACTION
      else if \<not> distinct (map re_event_id es) then Inl REGISTRY_INTEGRITY_ERROR
      else andthen (is_replay s tx) (\<lambda>again.
             if again then Inr True
             else if list_ex (\<lambda>e. re_event_id e \<in> set (receipt_event_ids s)) es
             then Inl REGISTRY_INTEGRITY_ERROR
             else if \<not> list_all (valid_event_generation s) es
             then Inl REGISTRY_GENERATION_CONFLICT
             else if \<not> valid_transaction_shape s es then Inl INVALID_REGISTRY_TRANSACTION
             else Inr False))"

section \<open>Reduce\<close>

definition replace_dialogue ::
  "registered_dialogue list \<Rightarrow> registered_dialogue \<Rightarrow> registered_dialogue list" where
  "replace_dialogue ds u = map (\<lambda>d. if rd_session_id d = rd_session_id u then u else d) ds"

definition apply_registry_event ::
  "registry_state \<Rightarrow> committed_registry_event \<Rightarrow> registry_code + registry_state" where
  "apply_registry_event s e =
     (case re_payload e of
        DialogueCreated t \<Rightarrow>
          Inr (s\<lparr>rs_sequence := re_sequence e,
                 rs_dialogues := rs_dialogues s @
                   [\<lparr>rd_session_id = tg_session_id t, rd_config_digest = tg_config_digest t,
                     rd_status = RG_CREATED, rd_created_sequence = re_sequence e,
                     rd_activated_generation = None, rd_deactivated_generation = None,
                     rd_deactivation_handoff_id = None\<rparr>]\<rparr>)
      | DeactivationStarted h \<Rightarrow>
          (case dialogue_by_id (rs_dialogues s) (ph_source_session_id h) of
             None \<Rightarrow> Inl INVALID_REGISTRY_TRANSACTION
           | Some d \<Rightarrow>
               Inr (s\<lparr>rs_sequence := re_sequence e, rs_generation := ph_generation h,
                      rs_dialogues :=
                        replace_dialogue (rs_dialogues s) (d\<lparr>rd_status := RG_DEACTIVATING\<rparr>),
                      rs_pending_handoff := Some h\<rparr>))
      | Deactivated q \<Rightarrow>
          (case dialogue_by_id (rs_dialogues s) (qp_source_session_id q) of
             None \<Rightarrow> Inl INVALID_REGISTRY_TRANSACTION
           | Some d \<Rightarrow>
               Inr (s\<lparr>rs_sequence := re_sequence e, rs_current_session_id := None,
                      rs_dialogues := replace_dialogue (rs_dialogues s)
                        (d\<lparr>rd_status := RG_DEACTIVATED,
                           rd_deactivated_generation := Some (qp_generation q),
                           rd_deactivation_handoff_id := Some (qp_handoff_id q)\<rparr>)\<rparr>))
      | Activated t g k hid \<Rightarrow>
          (case dialogue_by_id (rs_dialogues s) (tg_session_id t) of
             None \<Rightarrow> Inl INVALID_REGISTRY_TRANSACTION
           | Some d \<Rightarrow>
               Inr (s\<lparr>rs_sequence := re_sequence e, rs_generation := g,
                      rs_current_session_id := Some (tg_session_id t),
                      rs_dialogues := replace_dialogue (rs_dialogues s)
                        (d\<lparr>rd_status := RG_ACTIVE, rd_activated_generation := Some g\<rparr>),
                      rs_pending_handoff := None\<rparr>)))"

definition receipt_of :: "registry_transaction \<Rightarrow> command_receipt" where
  "receipt_of tx =
     (let es = tx_events tx; first = hd es in
      \<lparr>rc_command_id = re_command_id first, rc_body_digest = re_body_digest first,
       rc_transaction_id = tx_transaction_id tx,
       rc_transaction_digest = tx_transaction_digest tx,
       rc_first_sequence = re_sequence first, rc_last_sequence = re_sequence (last es),
       rc_event_ids = map re_event_id es, rc_event_digests = map re_event_digest es\<rparr>)"

definition rg_reduce :: "registry_state \<Rightarrow> registry_transaction \<Rightarrow> registry_code + registry_state" where
  "rg_reduce s tx =
     andthen (validate_transaction s tx) (\<lambda>_.
       if receipt_for_command s (re_command_id (hd (tx_events tx))) \<noteq> None then Inr s
       else andthen (fold_events apply_registry_event s (tx_events tx)) (\<lambda>r.
              let r' = r\<lparr>rs_receipts := rs_receipts r @ [receipt_of tx]\<rparr>
              in if rg_valid r' then Inr r' else Inl RG_STATE_INVARIANT_VIOLATION))"

end
