(* ===== verification/Registry_Codec.thy ===== *)
theory Registry_Codec
  imports Registry_Reduce
begin

text \<open>
  The records of the registry stream (\<open>xsync_v2/registry_codec.py\<close>): the JSON tree of each
  record, as \<open>_to_tree\<close> builds it from the fields of the data class, the digests taken of
  its canonical bytes, and the building and checking of transactions, stored events and
  markers.  \<open>_is_exact_typed\<close> holds of every typed value and has no counterpart.
\<close>

section \<open>Trees\<close>

definition record_tree :: "string \<Rightarrow> (string \<times> json) list \<Rightarrow> json" where
  "record_tree name fs = JObj ((py ''$type'', JStr (py name)) # map (\<lambda>(k, v). (py k, v)) fs)"

definition optional_int :: "int option \<Rightarrow> json" where
  "optional_int v = (case v of None \<Rightarrow> JNull | Some i \<Rightarrow> JInt i)"

fun registration_status_value :: "registration_status \<Rightarrow> pystr" where
  "registration_status_value RG_CREATED = py ''created''"
| "registration_status_value RG_ACTIVE = py ''active''"
| "registration_status_value RG_DEACTIVATING = py ''deactivating''"
| "registration_status_value RG_DEACTIVATED = py ''deactivated''"

fun activation_kind_value :: "activation_kind \<Rightarrow> pystr" where
  "activation_kind_value AK_INITIAL = py ''initial''"
| "activation_kind_value AK_HANDOFF = py ''handoff''"

definition target_tree :: "activate_target \<Rightarrow> json" where
  "target_tree t = record_tree ''ActivateTarget''
     [(''session_id'', JStr (tg_session_id t)), (''config_digest'', JStr (tg_config_digest t))]"

definition registered_tree :: "registered_dialogue \<Rightarrow> json" where
  "registered_tree d = record_tree ''RegisteredDialogue''
     [(''session_id'', JStr (rd_session_id d)), (''config_digest'', JStr (rd_config_digest d)),
      (''status'', JStr (registration_status_value (rd_status d))),
      (''created_registry_sequence'', JInt (rd_created_sequence d)),
      (''activated_generation'', optional_int (rd_activated_generation d)),
      (''deactivated_generation'', optional_int (rd_deactivated_generation d)),
      (''deactivation_handoff_id'', optional_str (rd_deactivation_handoff_id d))]"

definition handoff_tree :: "pending_handoff \<Rightarrow> json" where
  "handoff_tree h = record_tree ''PendingHandoff''
     [(''handoff_id'', JStr (ph_handoff_id h)),
      (''source_session_id'', JStr (ph_source_session_id h)),
      (''target'', target_tree (ph_target h)), (''generation'', JInt (ph_generation h)),
      (''started_registry_sequence'', JInt (ph_started_sequence h))]"

definition proof_tree :: "quiesce_proof \<Rightarrow> json" where
  "proof_tree q = record_tree ''QuiesceProof''
     [(''source_session_id'', JStr (qp_source_session_id q)),
      (''target'', target_tree (qp_target q)), (''handoff_id'', JStr (qp_handoff_id q)),
      (''generation'', JInt (qp_generation q)),
      (''dialogue_last_sequence'', JInt (qp_last_sequence q)),
      (''dialogue_last_event_id'', JStr (qp_last_event_id q)),
      (''dialogue_event_digest'', JStr (qp_event_digest q)),
      (''dialogue_transaction_digest'', JStr (qp_transaction_digest q)),
      (''dialogue_state_digest'', JStr (qp_state_digest q))]"

definition receipt_tree :: "command_receipt \<Rightarrow> json" where
  "receipt_tree r = record_tree ''CommandReceipt''
     [(''command_id'', JStr (rc_command_id r)), (''body_digest'', JStr (rc_body_digest r)),
      (''transaction_id'', JStr (rc_transaction_id r)),
      (''transaction_digest'', JStr (rc_transaction_digest r)),
      (''first_registry_sequence'', JInt (rc_first_sequence r)),
      (''last_registry_sequence'', JInt (rc_last_sequence r)),
      (''event_ids'', JList (map JStr (rc_event_ids r))),
      (''event_digests'', JList (map JStr (rc_event_digests r)))]"

definition registry_state_tree :: "registry_state \<Rightarrow> json" where
  "registry_state_tree s = record_tree ''RegistryState''
     [(''registry_id'', JStr (rs_registry_id s)), (''registry_sequence'', JInt (rs_sequence s)),
      (''generation'', JInt (rs_generation s)),
      (''current_session_id'', optional_str (rs_current_session_id s)),
      (''dialogues'', JList (map registered_tree (rs_dialogues s))),
      (''pending_handoff'', case rs_pending_handoff s of None \<Rightarrow> JNull | Some h \<Rightarrow> handoff_tree h),
      (''receipts'', JList (map receipt_tree (rs_receipts s)))]"

fun payload_tree :: "registry_payload \<Rightarrow> json" where
  "payload_tree (DialogueCreated t) = record_tree ''DialogueCreated'' [(''target'', target_tree t)]"
| "payload_tree (DeactivationStarted h) =
     record_tree ''DeactivationStarted'' [(''handoff'', handoff_tree h)]"
| "payload_tree (Deactivated q) = record_tree ''Deactivated'' [(''proof'', proof_tree q)]"
| "payload_tree (Activated t g k hid) = record_tree ''Activated''
     [(''target'', target_tree t), (''generation'', JInt g),
      (''activation_kind'', JStr (activation_kind_value k)), (''handoff_id'', optional_str hid)]"

definition event_tree :: "committed_registry_event \<Rightarrow> json" where
  "event_tree e = record_tree ''CommittedRegistryEvent''
     [(''event_id'', JStr (re_event_id e)), (''event_digest'', JStr (re_event_digest e)),
      (''registry_sequence'', JInt (re_sequence e)), (''generation'', JInt (re_generation e)),
      (''command_id'', JStr (re_command_id e)), (''body_digest'', JStr (re_body_digest e)),
      (''payload'', payload_tree (re_payload e))]"

definition transaction_tree :: "registry_transaction \<Rightarrow> json" where
  "transaction_tree tx = record_tree ''CommittedRegistryTransaction''
     [(''transaction_id'', JStr (tx_transaction_id tx)),
      (''transaction_digest'', JStr (tx_transaction_digest tx)),
      (''events'', JList (map event_tree (tx_events tx)))]"

section \<open>Digests\<close>

definition tree_digest :: "json \<Rightarrow> registry_code + pystr" where
  "tree_digest j =
     (case canonical_json_bytes j of
        None \<Rightarrow> Inl INVALID_CANONICAL_VALUE
      | Some bs \<Rightarrow> Inr (digest_prefix @ hexdigest bs))"

definition registry_state_digest :: "registry_state \<Rightarrow> registry_code + pystr" where
  "registry_state_digest s = tree_digest (registry_state_tree s)"

definition event_digest :: "committed_registry_event \<Rightarrow> registry_code + pystr" where
  "event_digest e = tree_digest (event_tree (e\<lparr>re_event_digest := []\<rparr>))"

definition transaction_digest :: "registry_transaction \<Rightarrow> registry_code + pystr" where
  "transaction_digest tx = tree_digest (transaction_tree (tx\<lparr>tx_transaction_digest := []\<rparr>))"

definition validate_committed_event :: "committed_registry_event \<Rightarrow> registry_code + unit" where
  "validate_committed_event e =
     (if \<not> is_protocol_id (re_event_id e) \<or> \<not> is_sha256_digest (re_event_digest e)
         \<or> re_sequence e < 1 \<or> re_generation e < 0
         \<or> \<not> is_protocol_id (re_command_id e) \<or> \<not> is_sha256_digest (re_body_digest e)
      then Inl INVALID_COMMITTED_REGISTRY_EVENT
      else andthen (event_digest e) (\<lambda>d.
             if d \<noteq> re_event_digest e then Inl REGISTRY_EVENT_DIGEST_MISMATCH else Inr ()))"

fun validate_all :: "('a \<Rightarrow> 'e + unit) \<Rightarrow> 'a list \<Rightarrow> 'e + unit" where
  "validate_all f [] = Inr ()"
| "validate_all f (x # xs) = andthen (f x) (\<lambda>_. validate_all f xs)"

definition same_command :: "committed_registry_event list \<Rightarrow> bool" where
  "same_command es \<longleftrightarrow>
     list_all (\<lambda>e. re_command_id e = re_command_id (hd es)
                   \<and> re_body_digest e = re_body_digest (hd es)) es"

definition validate_committed_registry_transaction ::
  "registry_transaction \<Rightarrow> registry_code + unit" where
  "validate_committed_registry_transaction tx =
     (let es = tx_events tx in
      if \<not> is_protocol_id (tx_transaction_id tx) \<or> \<not> is_sha256_digest (tx_transaction_digest tx)
         \<or> \<not> (1 \<le> length es \<and> length es \<le> 2)
      then Inl INVALID_COMMITTED_REGISTRY_TRANSACTION
      else andthen (validate_all validate_committed_event es) (\<lambda>_.
             if map re_sequence es
                  \<noteq> [re_sequence (hd es) .. re_sequence (hd es) + int (length es) - 1]
                \<or> \<not> distinct (map re_event_id es) \<or> \<not> same_command es
             then Inl INVALID_COMMITTED_REGISTRY_TRANSACTION
             else andthen (transaction_digest tx) (\<lambda>d.
                    if d \<noteq> tx_transaction_digest tx
                    then Inl REGISTRY_TRANSACTION_DIGEST_MISMATCH else Inr ())))"

section \<open>Building a transaction\<close>

fun payload_generation :: "registry_state \<Rightarrow> registry_payload \<Rightarrow> int" where
  "payload_generation s (DialogueCreated _) = rs_generation s"
| "payload_generation s (DeactivationStarted h) = ph_generation h"
| "payload_generation s (Deactivated q) = qp_generation q"
| "payload_generation s (Activated _ g _ _) = g"

definition draft_event ::
  "registry_state \<Rightarrow> int \<Rightarrow> pystr \<Rightarrow> pending_registry_event \<Rightarrow> committed_registry_event" where
  "draft_event s n eid p =
     \<lparr>re_event_id = eid, re_event_digest = [], re_sequence = n,
      re_generation = payload_generation s (pr_payload p), re_command_id = pr_command_id p,
      re_body_digest = pr_body_digest p, re_payload = pr_payload p\<rparr>"

definition sign_event :: "committed_registry_event \<Rightarrow> registry_code + committed_registry_event" where
  "sign_event e = andthen (event_digest e) (\<lambda>d. Inr (e\<lparr>re_event_digest := d\<rparr>))"

fun number_batch ::
  "registry_state \<Rightarrow> int \<Rightarrow> pystr list \<Rightarrow> pending_registry_event list
    \<Rightarrow> registry_code + committed_registry_event list" where
  "number_batch s n (eid # ids) (p # ps) =
     andthen (sign_event (draft_event s n eid p)) (\<lambda>e.
       andthen (number_batch s (n + 1) ids ps) (\<lambda>es. Inr (e # es)))"
| "number_batch s n _ _ = Inr []"

definition sign_transaction :: "registry_transaction \<Rightarrow> registry_code + registry_transaction" where
  "sign_transaction tx =
     andthen (transaction_digest tx) (\<lambda>d. Inr (tx\<lparr>tx_transaction_digest := d\<rparr>))"

definition build_committed_registry_transaction ::
  "registry_state \<Rightarrow> pending_registry_event list \<Rightarrow> pystr \<Rightarrow> pystr list
    \<Rightarrow> registry_code + registry_transaction" where
  "build_committed_registry_transaction s ps tid ids =
     (if ps = [] \<or> 2 < length ps \<or> \<not> is_protocol_id tid \<or> length ids \<noteq> length ps
         \<or> \<not> list_all is_protocol_id ids \<or> \<not> distinct ids
         \<or> \<not> is_protocol_id (pr_command_id (hd ps)) \<or> \<not> is_sha256_digest (pr_body_digest (hd ps))
         \<or> \<not> list_all (\<lambda>p. pr_command_id p = pr_command_id (hd ps)
                           \<and> pr_body_digest p = pr_body_digest (hd ps)) ps
      then Inl INVALID_REGISTRY_ACCEPTED_BATCH
      else andthen (number_batch s (rs_sequence s + 1) ids ps) (\<lambda>es.
           andthen (sign_transaction \<lparr>tx_transaction_id = tid, tx_transaction_digest = [],
                                      tx_events = es\<rparr>) (\<lambda>tx.
           andthen (validate_committed_registry_transaction tx) (\<lambda>_.
           andthen (validate_transaction s tx) (\<lambda>_. Inr tx)))))"

end
