(* ===== verification/Registry_Facts.thy ===== *)
theory Registry_Facts
  imports Registry_Codec
begin

text \<open>
  What the registry's definitions say about the set of registered dialogues.  The
  invariant is restated without lists, the effect of every event on that set is
  computed, and an applied transaction is taken apart into the four hand-off moves
  (\<open>registry_move\<close>).
\<close>

section \<open>The dialogues as a set\<close>

abbreviation ids_distinct :: "registered_dialogue list \<Rightarrow> bool" where
  "ids_distinct ds \<equiv> distinct (map rd_session_id ds)"

lemma dialogue_by_id_iff:
  "ids_distinct ds \<Longrightarrow> dialogue_by_id ds c = Some d \<longleftrightarrow> d \<in> set ds \<and> rd_session_id d = c"
  unfolding dialogue_by_id_def
  using find_distinct_key [of rd_session_id ds d] find_Some_mem [of _ ds d] by blast

lemma dialogue_by_id_None: "dialogue_by_id ds c = None \<longleftrightarrow> c \<notin> rd_session_id ` set ds"
  by (auto simp: dialogue_by_id_def find_None_iff)

lemma same_id_same:
  "ids_distinct ds \<Longrightarrow> d \<in> set ds \<Longrightarrow> x \<in> set ds \<Longrightarrow> rd_session_id x = rd_session_id d \<Longrightarrow> x = d"
  by (simp add: distinct_map inj_on_def)

lemma with_status_Nil: "with_status st s = [] \<longleftrightarrow> (\<forall>d \<in> set (rs_dialogues s). rd_status d \<noteq> st)"
  by (simp add: with_status_def filter_empty_conv)

lemma with_status_single:
  assumes "ids_distinct (rs_dialogues s)"
  shows "with_status st s = [d] \<longleftrightarrow>
    d \<in> set (rs_dialogues s) \<and> (\<forall>x \<in> set (rs_dialogues s). rd_status x = st \<longleftrightarrow> x = d)"
  unfolding with_status_def using assms by (intro filter_single_iff) (simp add: distinct_map)

lemma replace_ids [simp]: "map rd_session_id (replace_dialogue ds u) = map rd_session_id ds"
  by (auto simp: replace_dialogue_def)

lemma set_replace:
  assumes "ids_distinct ds" and "d \<in> set ds" and "rd_session_id u = rd_session_id d"
  shows "set (replace_dialogue ds u) = insert u (set ds - {d})"
  using assms same_id_same [OF assms(1,2)] by (auto simp: replace_dialogue_def)

section \<open>The invariant on sets\<close>

definition authority :: "registry_state \<Rightarrow> bool" where
  "authority s =
     (case rs_pending_handoff s of
        None \<Rightarrow>
          (\<forall>d \<in> set (rs_dialogues s). rd_status d \<noteq> RG_DEACTIVATING)
          \<and> (case rs_current_session_id s of
               None \<Rightarrow> (\<forall>d \<in> set (rs_dialogues s). rd_status d \<noteq> RG_ACTIVE) \<and> rs_generation s = 0
             | Some c \<Rightarrow>
                 (\<exists>d \<in> set (rs_dialogues s). rd_session_id d = c \<and> rd_status d = RG_ACTIVE
                    \<and> rd_activated_generation d = Some (rs_generation s)
                    \<and> (\<forall>x \<in> set (rs_dialogues s). rd_status x = RG_ACTIVE \<longrightarrow> x = d)))
      | Some h \<Rightarrow>
          rs_current_session_id s = Some (ph_source_session_id h)
          \<and> ph_generation h = rs_generation s \<and> ph_started_sequence h \<le> rs_sequence s
          \<and> (\<exists>d \<in> set (rs_dialogues s). rd_session_id d = ph_source_session_id h
               \<and> rd_status d = RG_DEACTIVATING
               \<and> (\<forall>x \<in> set (rs_dialogues s). rd_status x = RG_DEACTIVATING \<longrightarrow> x = d))
          \<and> (\<exists>d \<in> set (rs_dialogues s). rd_session_id d = tg_session_id (ph_target h)
               \<and> rd_status d = RG_CREATED \<and> rd_config_digest d = tg_config_digest (ph_target h))
          \<and> (\<forall>d \<in> set (rs_dialogues s). rd_status d \<noteq> RG_ACTIVE))"

lemma authority_pending:
  "rs_pending_handoff s = Some h \<Longrightarrow> authority s \<longleftrightarrow>
     rs_current_session_id s = Some (ph_source_session_id h)
     \<and> ph_generation h = rs_generation s \<and> ph_started_sequence h \<le> rs_sequence s
     \<and> (\<exists>d \<in> set (rs_dialogues s). rd_session_id d = ph_source_session_id h
          \<and> rd_status d = RG_DEACTIVATING
          \<and> (\<forall>x \<in> set (rs_dialogues s). rd_status x = RG_DEACTIVATING \<longrightarrow> x = d))
     \<and> (\<exists>d \<in> set (rs_dialogues s). rd_session_id d = tg_session_id (ph_target h)
          \<and> rd_status d = RG_CREATED \<and> rd_config_digest d = tg_config_digest (ph_target h))
     \<and> (\<forall>d \<in> set (rs_dialogues s). rd_status d \<noteq> RG_ACTIVE)"
  by (simp add: authority_def)

lemma authority_writer:
  "rs_pending_handoff s = None \<Longrightarrow> rs_current_session_id s = Some c \<Longrightarrow> authority s \<longleftrightarrow>
     (\<forall>d \<in> set (rs_dialogues s). rd_status d \<noteq> RG_DEACTIVATING)
     \<and> (\<exists>d \<in> set (rs_dialogues s). rd_session_id d = c \<and> rd_status d = RG_ACTIVE
          \<and> rd_activated_generation d = Some (rs_generation s)
          \<and> (\<forall>x \<in> set (rs_dialogues s). rd_status x = RG_ACTIVE \<longrightarrow> x = d))"
  by (simp add: authority_def)

lemma authority_nobody:
  "rs_pending_handoff s = None \<Longrightarrow> rs_current_session_id s = None \<Longrightarrow> authority s \<longleftrightarrow>
     (\<forall>d \<in> set (rs_dialogues s). rd_status d \<noteq> RG_DEACTIVATING \<and> rd_status d \<noteq> RG_ACTIVE)
     \<and> rs_generation s = 0"
  by (auto simp: authority_def)

lemma by_id_case:
  assumes "ids_distinct ds"
  shows "(case dialogue_by_id ds c of None \<Rightarrow> False | Some d \<Rightarrow> P d) \<longleftrightarrow>
    (\<exists>d \<in> set ds. rd_session_id d = c \<and> P d)"
proof (cases "dialogue_by_id ds c")
  case None
  then have "c \<notin> rd_session_id ` set ds" by (rule dialogue_by_id_None [THEN iffD1])
  then have "\<not> (\<exists>d \<in> set ds. rd_session_id d = c \<and> P d)" by blast
  with None show ?thesis by (simp only: option.case)
next
  case (Some d)
  then have d: "d \<in> set ds" "rd_session_id d = c" by (simp_all add: dialogue_by_id_iff [OF assms])
  then have "x = d" if "x \<in> set ds" "rd_session_id x = c" for x
    using same_id_same [OF assms d(1) that(1)] that(2) by simp
  with d have "(\<exists>x \<in> set ds. rd_session_id x = c \<and> P x) \<longleftrightarrow> P d" by blast
  with Some show ?thesis by (simp only: option.case)
qed

lemma rg_authority_iff:
  assumes "ids_distinct (rs_dialogues s)"
  shows "rg_authority s \<longleftrightarrow> authority s"
proof (cases "rs_pending_handoff s")
  case None
  then show ?thesis
    unfolding rg_authority_def authority_def
    by (auto simp: by_id_case [OF assms] with_status_Nil with_status_single [OF assms]
          split: option.split)
next
  case (Some h)
  then show ?thesis
    unfolding rg_authority_def authority_def
    by (auto simp: by_id_case [OF assms] with_status_Nil with_status_single [OF assms])
qed

lemma rg_valid_distinct: "rg_valid s \<Longrightarrow> ids_distinct (rs_dialogues s)"
  by (simp add: rg_valid_def rg_unique_def)

lemma rg_valid_authority: "rg_valid s \<Longrightarrow> authority s"
  using rg_authority_iff rg_valid_distinct by (simp add: rg_valid_def) blast

section \<open>The four transactions\<close>

definition fresh_dialogue :: "activate_target \<Rightarrow> int \<Rightarrow> registered_dialogue" where
  "fresh_dialogue t n =
     \<lparr>rd_session_id = tg_session_id t, rd_config_digest = tg_config_digest t,
      rd_status = RG_CREATED, rd_created_sequence = n, rd_activated_generation = None,
      rd_deactivated_generation = None, rd_deactivation_handoff_id = None\<rparr>"

definition activated_at :: "int \<Rightarrow> registered_dialogue \<Rightarrow> registered_dialogue" where
  "activated_at g d = d\<lparr>rd_status := RG_ACTIVE, rd_activated_generation := Some g\<rparr>"

definition deactivated_by :: "quiesce_proof \<Rightarrow> registered_dialogue \<Rightarrow> registered_dialogue" where
  "deactivated_by q d =
     d\<lparr>rd_status := RG_DEACTIVATED, rd_deactivated_generation := Some (qp_generation q),
       rd_deactivation_handoff_id := Some (qp_handoff_id q)\<rparr>"

lemma fresh_dialogue_simps [simp]:
  "rd_session_id (fresh_dialogue t n) = tg_session_id t"
  "rd_config_digest (fresh_dialogue t n) = tg_config_digest t"
  "rd_status (fresh_dialogue t n) = RG_CREATED"
  "rd_created_sequence (fresh_dialogue t n) = n"
  "rd_activated_generation (fresh_dialogue t n) = None"
  "rd_deactivated_generation (fresh_dialogue t n) = None"
  "rd_deactivation_handoff_id (fresh_dialogue t n) = None"
  by (simp_all add: fresh_dialogue_def)

lemma activated_at_simps [simp]:
  "rd_session_id (activated_at g d) = rd_session_id d"
  "rd_config_digest (activated_at g d) = rd_config_digest d"
  "rd_status (activated_at g d) = RG_ACTIVE"
  "rd_created_sequence (activated_at g d) = rd_created_sequence d"
  "rd_activated_generation (activated_at g d) = Some g"
  "rd_deactivated_generation (activated_at g d) = rd_deactivated_generation d"
  "rd_deactivation_handoff_id (activated_at g d) = rd_deactivation_handoff_id d"
  by (simp_all add: activated_at_def)

lemma deactivated_by_simps [simp]:
  "rd_session_id (deactivated_by q d) = rd_session_id d"
  "rd_config_digest (deactivated_by q d) = rd_config_digest d"
  "rd_status (deactivated_by q d) = RG_DEACTIVATED"
  "rd_created_sequence (deactivated_by q d) = rd_created_sequence d"
  "rd_activated_generation (deactivated_by q d) = rd_activated_generation d"
  "rd_deactivated_generation (deactivated_by q d) = Some (qp_generation q)"
  "rd_deactivation_handoff_id (deactivated_by q d) = Some (qp_handoff_id q)"
  by (simp_all add: deactivated_by_def)

text \<open>
  A transaction of one of the four shapes, with what its events carry and what it needs
  of the state.
\<close>

inductive registry_move :: "registry_state \<Rightarrow> committed_registry_event list \<Rightarrow> bool" for s where
  first_dialogue:
    "\<lbrakk>re_payload a = DialogueCreated t;
      re_payload b = Activated t (rs_generation s + 1) AK_INITIAL hid;
      rs_current_session_id s = None; rs_pending_handoff s = None;
      tg_session_id t \<notin> rd_session_id ` set (rs_dialogues s)\<rbrakk>
     \<Longrightarrow> registry_move s [a, b]"
| begin_with_new:
    "\<lbrakk>re_payload a = DialogueCreated (ph_target h); re_payload b = DeactivationStarted h;
      ph_started_sequence h = re_sequence b;
      tg_session_id (ph_target h) \<notin> rd_session_id ` set (rs_dialogues s);
      rs_pending_handoff s = None; rs_current_session_id s = Some (ph_source_session_id h);
      d \<in> set (rs_dialogues s); rd_session_id d = ph_source_session_id h; rd_status d = RG_ACTIVE;
      ph_generation h = rs_generation s + 1\<rbrakk>
     \<Longrightarrow> registry_move s [a, b]"
| begin_with_known:
    "\<lbrakk>re_payload a = DeactivationStarted h; ph_started_sequence h = re_sequence a;
      x \<in> set (rs_dialogues s); rd_session_id x = tg_session_id (ph_target h);
      rd_status x = RG_CREATED; rd_config_digest x = tg_config_digest (ph_target h);
      rs_pending_handoff s = None; rs_current_session_id s = Some (ph_source_session_id h);
      d \<in> set (rs_dialogues s); rd_session_id d = ph_source_session_id h; rd_status d = RG_ACTIVE;
      ph_generation h = rs_generation s + 1\<rbrakk>
     \<Longrightarrow> registry_move s [a]"
| complete_pending:
    "\<lbrakk>re_payload a = Deactivated q;
      re_payload b = Activated (ph_target h) (ph_generation h) AK_HANDOFF (Some (ph_handoff_id h));
      rs_pending_handoff s = Some h; proof_matches_pending q h\<rbrakk>
     \<Longrightarrow> registry_move s [a, b]"

lemma shape_move:
  assumes "ids_distinct (rs_dialogues s)"
  shows "valid_transaction_shape s es \<longleftrightarrow> registry_move s es"
proof
  assume v: "valid_transaction_shape s es"
  have "\<not> valid_transaction_shape s (a # b # c # xs)" for a b c xs
    by (auto simp: valid_transaction_shape_def split: registry_payload.splits)
  moreover from v have "es \<noteq> []" by (auto simp: valid_transaction_shape_def)
  ultimately consider a b where "es = [a, b]" | a where "es = [a]"
    using v by (cases es; cases "tl es"; cases "tl (tl es)") auto
  then show "registry_move s es"
  proof cases
    case 1
    with v show ?thesis
      by (auto simp: valid_transaction_shape_def valid_begin_context_def by_id_case [OF assms]
            dialogue_by_id_None
            intro: first_dialogue begin_with_new complete_pending
            split: registry_payload.splits option.splits)
  next
    case 2
    with v show ?thesis
      by (auto simp: valid_transaction_shape_def valid_begin_context_def by_id_case [OF assms]
            intro: begin_with_known split: registry_payload.splits)
  qed
next
  assume "registry_move s es"
  then show "valid_transaction_shape s es"
    by cases
      (auto simp: valid_transaction_shape_def valid_begin_context_def by_id_case [OF assms]
        dialogue_by_id_None)
qed

section \<open>The state after a transaction\<close>

text \<open>
  What the four moves do to the state: the set of dialogues, who is current, what is
  pending and the generation.
\<close>

lemma apply_created:
  "re_payload e = DialogueCreated t \<Longrightarrow>
     apply_registry_event s e =
       Inr (s\<lparr>rs_sequence := re_sequence e,
              rs_dialogues := rs_dialogues s @ [fresh_dialogue t (re_sequence e)]\<rparr>)"
  by (simp add: apply_registry_event_def fresh_dialogue_def)

lemma apply_started:
  assumes "ids_distinct (rs_dialogues s)" and "re_payload e = DeactivationStarted h"
    and "d \<in> set (rs_dialogues s)" and "rd_session_id d = ph_source_session_id h"
  shows "apply_registry_event s e =
    Inr (s\<lparr>rs_sequence := re_sequence e, rs_generation := ph_generation h,
           rs_dialogues := replace_dialogue (rs_dialogues s) (d\<lparr>rd_status := RG_DEACTIVATING\<rparr>),
           rs_pending_handoff := Some h\<rparr>)"
proof -
  have "dialogue_by_id (rs_dialogues s) (ph_source_session_id h) = Some d"
    using assms by (simp add: dialogue_by_id_iff)
  with assms(2) show ?thesis by (simp add: apply_registry_event_def)
qed

lemma apply_deactivated:
  assumes "ids_distinct (rs_dialogues s)" and "re_payload e = Deactivated q"
    and "d \<in> set (rs_dialogues s)" and "rd_session_id d = qp_source_session_id q"
  shows "apply_registry_event s e =
    Inr (s\<lparr>rs_sequence := re_sequence e, rs_current_session_id := None,
           rs_dialogues := replace_dialogue (rs_dialogues s) (deactivated_by q d)\<rparr>)"
proof -
  have "dialogue_by_id (rs_dialogues s) (qp_source_session_id q) = Some d"
    using assms by (simp add: dialogue_by_id_iff)
  with assms(2) show ?thesis by (simp add: apply_registry_event_def deactivated_by_def)
qed

lemma apply_activated:
  assumes "ids_distinct (rs_dialogues s)" and "re_payload e = Activated t g k hid"
    and "d \<in> set (rs_dialogues s)" and "rd_session_id d = tg_session_id t"
  shows "apply_registry_event s e =
    Inr (s\<lparr>rs_sequence := re_sequence e, rs_generation := g,
           rs_current_session_id := Some (tg_session_id t),
           rs_dialogues := replace_dialogue (rs_dialogues s) (activated_at g d),
           rs_pending_handoff := None\<rparr>)"
proof -
  have "dialogue_by_id (rs_dialogues s) (tg_session_id t) = Some d"
    using assms by (simp add: dialogue_by_id_iff)
  with assms(2) show ?thesis by (simp add: apply_registry_event_def activated_at_def)
qed

text \<open>The fields no event touches, and the fields a move leaves the transaction with.\<close>

definition kept_fields :: "registry_state \<Rightarrow> registry_state \<Rightarrow> bool" where
  "kept_fields s r \<longleftrightarrow>
     rs_registry_id r = rs_registry_id s \<and> rs_receipts r = rs_receipts s
     \<and> ids_distinct (rs_dialogues r)"

lemma move_first:
  assumes "ids_distinct (rs_dialogues s)" and "re_payload a = DialogueCreated t"
    and "re_payload b = Activated t g k hid"
    and "tg_session_id t \<notin> rd_session_id ` set (rs_dialogues s)"
  shows "\<exists>r. fold_events apply_registry_event s [a, b] = Inr r \<and> kept_fields s r
    \<and> rs_sequence r = re_sequence b \<and> rs_generation r = g
    \<and> rs_current_session_id r = Some (tg_session_id t) \<and> rs_pending_handoff r = None
    \<and> set (rs_dialogues r)
        = insert (activated_at g (fresh_dialogue t (re_sequence a))) (set (rs_dialogues s))"
proof -
  let ?n = "fresh_dialogue t (re_sequence a)"
  let ?s = "s\<lparr>rs_sequence := re_sequence a, rs_dialogues := rs_dialogues s @ [?n]\<rparr>"
  have d: "ids_distinct (rs_dialogues ?s)" using assms(1,4) by auto
  have b: "apply_registry_event ?s b = Inr (?s\<lparr>rs_sequence := re_sequence b, rs_generation := g,
      rs_current_session_id := Some (tg_session_id t),
      rs_dialogues := replace_dialogue (rs_dialogues ?s) (activated_at g ?n),
      rs_pending_handoff := None\<rparr>)"
    by (rule apply_activated [OF d assms(3)]) simp_all
  have "set (replace_dialogue (rs_dialogues ?s) (activated_at g ?n))
      = insert (activated_at g ?n) (set (rs_dialogues ?s) - {?n})"
    by (rule set_replace [OF d]) simp_all
  moreover have "?n \<notin> set (rs_dialogues s)" using assms(4) by force
  ultimately show ?thesis
    using d by (simp add: apply_created [OF assms(2)] b kept_fields_def)
qed

lemma move_begin_new:
  assumes "ids_distinct (rs_dialogues s)" and "re_payload a = DialogueCreated (ph_target h)"
    and "re_payload b = DeactivationStarted h"
    and "tg_session_id (ph_target h) \<notin> rd_session_id ` set (rs_dialogues s)"
    and d: "d \<in> set (rs_dialogues s)" "rd_session_id d = ph_source_session_id h"
  shows "\<exists>r. fold_events apply_registry_event s [a, b] = Inr r \<and> kept_fields s r
    \<and> rs_sequence r = re_sequence b \<and> rs_generation r = ph_generation h
    \<and> rs_current_session_id r = rs_current_session_id s \<and> rs_pending_handoff r = Some h
    \<and> set (rs_dialogues r) = insert (d\<lparr>rd_status := RG_DEACTIVATING\<rparr>)
        (insert (fresh_dialogue (ph_target h) (re_sequence a)) (set (rs_dialogues s) - {d}))"
proof -
  let ?n = "fresh_dialogue (ph_target h) (re_sequence a)"
  let ?s = "s\<lparr>rs_sequence := re_sequence a, rs_dialogues := rs_dialogues s @ [?n]\<rparr>"
  have i: "ids_distinct (rs_dialogues ?s)" using assms(1,4) by auto
  have m: "d \<in> set (rs_dialogues ?s)" using d by simp
  have "set (replace_dialogue (rs_dialogues ?s) (d\<lparr>rd_status := RG_DEACTIVATING\<rparr>))
      = insert (d\<lparr>rd_status := RG_DEACTIVATING\<rparr>) (set (rs_dialogues ?s) - {d})"
    by (rule set_replace [OF i m]) simp
  moreover have "?n \<noteq> d" using assms(4) d by force
  ultimately show ?thesis
    using i by (auto simp: apply_created [OF assms(2)] apply_started [OF i assms(3) m d(2)]
                  kept_fields_def)
qed

lemma move_begin_known:
  assumes "ids_distinct (rs_dialogues s)" and "re_payload a = DeactivationStarted h"
    and d: "d \<in> set (rs_dialogues s)" "rd_session_id d = ph_source_session_id h"
  shows "\<exists>r. fold_events apply_registry_event s [a] = Inr r \<and> kept_fields s r
    \<and> rs_sequence r = re_sequence a \<and> rs_generation r = ph_generation h
    \<and> rs_current_session_id r = rs_current_session_id s \<and> rs_pending_handoff r = Some h
    \<and> set (rs_dialogues r)
        = insert (d\<lparr>rd_status := RG_DEACTIVATING\<rparr>) (set (rs_dialogues s) - {d})"
proof -
  have "set (replace_dialogue (rs_dialogues s) (d\<lparr>rd_status := RG_DEACTIVATING\<rparr>))
      = insert (d\<lparr>rd_status := RG_DEACTIVATING\<rparr>) (set (rs_dialogues s) - {d})"
    by (rule set_replace [OF assms(1) d(1)]) simp
  then show ?thesis
    using assms(1) by (simp add: apply_started [OF assms(1,2) d] kept_fields_def)
qed

lemma move_complete:
  assumes "ids_distinct (rs_dialogues s)" and "re_payload a = Deactivated q"
    and "re_payload b = Activated t g k hid"
    and d: "d \<in> set (rs_dialogues s)" "rd_session_id d = qp_source_session_id q"
    and x: "x \<in> set (rs_dialogues s)" "rd_session_id x = tg_session_id t" "x \<noteq> d"
  shows "\<exists>r. fold_events apply_registry_event s [a, b] = Inr r \<and> kept_fields s r
    \<and> rs_sequence r = re_sequence b \<and> rs_generation r = g
    \<and> rs_current_session_id r = Some (tg_session_id t) \<and> rs_pending_handoff r = None
    \<and> set (rs_dialogues r) = insert (activated_at g x)
        (insert (deactivated_by q d) (set (rs_dialogues s) - {d}) - {x})"
proof -
  let ?s = "s\<lparr>rs_sequence := re_sequence a, rs_current_session_id := None,
              rs_dialogues := replace_dialogue (rs_dialogues s) (deactivated_by q d)\<rparr>"
  have i: "ids_distinct (rs_dialogues ?s)" using assms(1) by simp
  have s: "set (rs_dialogues ?s) = insert (deactivated_by q d) (set (rs_dialogues s) - {d})"
    using set_replace [OF assms(1) d(1), of "deactivated_by q d"] by simp
  have m: "x \<in> set (rs_dialogues ?s)" unfolding s using x by blast
  have "set (replace_dialogue (rs_dialogues ?s) (activated_at g x))
      = insert (activated_at g x) (set (rs_dialogues ?s) - {x})"
    by (rule set_replace [OF i m]) simp
  then show ?thesis
    using i by (simp add: apply_deactivated [OF assms(1,2) d] apply_activated [OF i assms(3) m x(2)]
                  kept_fields_def s [simplified])
qed

end
