(* ===== verification/Registry_Moves.thy ===== *)
theory Registry_Moves
  imports Registry_Facts
begin

text \<open>
  The registry as an aggregate.  Every transaction it applies is a step of a three-state
  hand-off protocol (\<open>authority_step\<close>): nobody writes, one session writes, one session
  hands over to another.  The contract of \<open>Event_Sourcing\<close> lifts what a step keeps to
  every log.
\<close>

section \<open>Applying a transaction\<close>

definition well_formed_transaction :: "registry_state \<Rightarrow> registry_transaction \<Rightarrow> bool" where
  "well_formed_transaction s tx \<longleftrightarrow>
     is_protocol_id (tx_transaction_id tx) \<and> is_sha256_digest (tx_transaction_digest tx)
     \<and> 1 \<le> length (tx_events tx) \<and> length (tx_events tx) \<le> 2
     \<and> list_all rg_valid_envelope (tx_events tx)
     \<and> (receipt_for_command s (re_command_id (hd (tx_events tx))) = None \<longrightarrow>
          map re_sequence (tx_events tx) = [rs_sequence s + 1 .. rs_sequence s + int (length (tx_events tx))])
     \<and> list_all (\<lambda>e. re_command_id e = re_command_id (hd (tx_events tx))
                    \<and> re_body_digest e = re_body_digest (hd (tx_events tx))) (tx_events tx)
     \<and> distinct (map re_event_id (tx_events tx))"

definition applicable_transaction :: "registry_state \<Rightarrow> registry_transaction \<Rightarrow> bool" where
  "applicable_transaction s tx \<longleftrightarrow>
     list_all (\<lambda>e. re_event_id e \<notin> set (receipt_event_ids s)) (tx_events tx)
     \<and> list_all (valid_event_generation s) (tx_events tx)
     \<and> valid_transaction_shape s (tx_events tx)"

lemma validate_transaction_iff:
  "validate_transaction s tx = Inr b \<longleftrightarrow>
     rg_valid s \<and> well_formed_transaction s tx \<and> is_replay s tx = Inr b
     \<and> (\<not> b \<longrightarrow> applicable_transaction s tx)"
proof -
  have e: "list_ex P xs \<longleftrightarrow> \<not> list_all (\<lambda>x. \<not> P x) xs" for P and xs :: "committed_registry_event list"
    by (simp add: list_all_iff list_ex_iff)
  have tail: "(if b' then Inr True else if e1 then Inl x else if e2 then Inl y
      else if e3 then Inl z else Inr False) = Inr b \<longleftrightarrow> b' = b \<and> (\<not> b \<longrightarrow> \<not> e1 \<and> \<not> e2 \<and> \<not> e3)"
    for b' e1 e2 e3 and x y z :: registry_code by auto
  show ?thesis
    unfolding validate_transaction_def Let_def well_formed_transaction_def
      applicable_transaction_def e unless_error andthen_eq_Inr_iff tail
    by (simp only: not_not de_Morgan_disj de_Morgan_conj imp_conv_disj conj_assoc) blast
qed

lemma rg_reduce_InrD:
  assumes "rg_reduce s tx = Inr s'"
  shows "rg_valid s \<and>
    (s' = s \<and> receipt_for_command s (re_command_id (hd (tx_events tx))) \<noteq> None
     \<or> registry_move s (tx_events tx)
       \<and> (\<exists>r. fold_events apply_registry_event s (tx_events tx) = Inr r
              \<and> s' = r\<lparr>rs_receipts := rs_receipts r @ [receipt_of tx]\<rparr> \<and> rg_valid s'))"
proof -
  from assms obtain b where v: "validate_transaction s tx = Inr b"
    by (auto simp: rg_reduce_def andthen_eq_Inr_iff)
  then have valid: "rg_valid s" by (simp add: validate_transaction_iff)
  show ?thesis
  proof (cases "receipt_for_command s (re_command_id (hd (tx_events tx)))")
    case (Some r)
    with assms v valid show ?thesis by (simp add: rg_reduce_def)
  next
    case None
    then have "is_replay s tx \<noteq> Inr True" by (simp add: is_replay_def)
    with v have "valid_transaction_shape s (tx_events tx)"
      by (auto simp: validate_transaction_iff applicable_transaction_def)
    then have "registry_move s (tx_events tx)"
      using shape_move rg_valid_distinct valid by blast
    with None assms v valid show ?thesis
      by (auto simp: rg_reduce_def andthen_eq_Inr_iff Let_def split: if_splits)
  qed
qed

interpretation registry: aggregate rg_reduce rg_valid
  by unfold_locales (use rg_reduce_InrD in blast)

section \<open>The hand-off protocol\<close>

datatype writer = Nobody | Writer pystr | HandingOver pystr pystr pystr
  \<comment> \<open>hand-off, source, target\<close>

type_synonym authority_view = "int \<times> writer \<times> pystr set"

definition writer_of :: "registry_state \<Rightarrow> writer" where
  "writer_of s =
     (case rs_pending_handoff s of
        Some h \<Rightarrow>
          HandingOver (ph_handoff_id h) (ph_source_session_id h) (tg_session_id (ph_target h))
      | None \<Rightarrow> (case rs_current_session_id s of None \<Rightarrow> Nobody | Some c \<Rightarrow> Writer c))"

definition retired :: "registry_state \<Rightarrow> pystr set" where
  "retired s = rd_session_id ` {d \<in> set (rs_dialogues s). rd_status d = RG_DEACTIVATED}"

definition authority_of :: "registry_state \<Rightarrow> authority_view" where
  "authority_of s = (rs_generation s, writer_of s, retired s)"

text \<open>The generation, who writes, and the sessions that wrote before.\<close>

inductive authority_step :: "authority_view \<Rightarrow> authority_view \<Rightarrow> bool" where
  appoint: "t \<notin> R \<Longrightarrow> authority_step (0, Nobody, R) (1, Writer t, R)"
| hand_over: "\<lbrakk>src \<noteq> t; t \<notin> R\<rbrakk> \<Longrightarrow> authority_step (g, Writer src, R) (g + 1, HandingOver hid src t, R)"
| take_over: "authority_step (g, HandingOver hid src t, R) (g, Writer t, insert src R)"

inductive_cases authority_stepE: "authority_step (g, w, R) v"
inductive_simps from_nobody: "authority_step (g, Nobody, R) v"
  and from_writer: "authority_step (g, Writer c, R) v"
  and from_handing_over: "authority_step (g, HandingOver hid src t, R) v"

lemma valid_pending:
  "rg_valid s \<Longrightarrow> rs_pending_handoff s = Some h \<Longrightarrow> rg_valid_pending h"
  by (simp add: rg_valid_def rg_fields_def)

lemma valid_registered:
  "rg_valid s \<Longrightarrow> d \<in> set (rs_dialogues s) \<Longrightarrow> rg_valid_registered d s"
  by (simp add: rg_valid_def rg_fields_def list_all_iff)

lemma pending_source:
  assumes "rg_valid s" and "rs_pending_handoff s = Some h"
  obtains d x where
    "d \<in> set (rs_dialogues s)" "rd_session_id d = ph_source_session_id h"
    "rd_status d = RG_DEACTIVATING"
    "x \<in> set (rs_dialogues s)" "rd_session_id x = tg_session_id (ph_target h)"
    "rd_status x = RG_CREATED" "rd_config_digest x = tg_config_digest (ph_target h)"
    "rs_current_session_id s = Some (ph_source_session_id h)" "ph_generation h = rs_generation s"
    "\<forall>y \<in> set (rs_dialogues s). rd_status y \<noteq> RG_ACTIVE"
    "\<forall>y \<in> set (rs_dialogues s). rd_status y = RG_DEACTIVATING \<longrightarrow> y = d"
proof -
  have "authority s" using assms(1) by (rule rg_valid_authority)
  then show thesis
    unfolding authority_pending [OF assms(2)] using that by blast
qed

text \<open>The one dialogue that writes, where nothing is pending.\<close>

lemma current_active:
  assumes "rg_valid s" and "rs_pending_handoff s = None" and "rs_current_session_id s = Some c"
  obtains d where "d \<in> set (rs_dialogues s)" "rd_session_id d = c" "rd_status d = RG_ACTIVE"
    "rd_activated_generation d = Some (rs_generation s)"
    "\<forall>y \<in> set (rs_dialogues s). rd_status y = RG_ACTIVE \<longrightarrow> y = d"
    "\<forall>y \<in> set (rs_dialogues s). rd_status y \<noteq> RG_DEACTIVATING"
proof -
  have "authority s" using assms(1) by (rule rg_valid_authority)
  then show thesis
    unfolding authority_writer [OF assms(2,3)] using that by blast
qed

text \<open>The state an applied transaction leads to, by the move it makes.\<close>

lemma rg_reduce_cases:
  assumes "rg_reduce s tx = Inr s'"
  obtains (replay) "s' = s" "receipt_for_command s (re_command_id (hd (tx_events tx))) \<noteq> None"
  | (first) t n where
      "rs_current_session_id s = None" "rs_pending_handoff s = None"
      "tg_session_id t \<notin> rd_session_id ` set (rs_dialogues s)"
      "rs_generation s' = rs_generation s + 1" "rs_pending_handoff s' = None"
      "rs_current_session_id s' = Some (tg_session_id t)"
      "set (rs_dialogues s')
         = insert (activated_at (rs_generation s + 1) (fresh_dialogue t n)) (set (rs_dialogues s))"
  | (started) h d new n where
      "rs_current_session_id s = Some (ph_source_session_id h)" "rs_pending_handoff s = None"
      "d \<in> set (rs_dialogues s)" "rd_session_id d = ph_source_session_id h"
      "rd_status d = RG_ACTIVE"
      "new = {fresh_dialogue (ph_target h) n}
         \<and> tg_session_id (ph_target h) \<notin> rd_session_id ` set (rs_dialogues s) \<or> new = {}"
      "rs_generation s' = rs_generation s + 1" "rs_pending_handoff s' = Some h"
      "rs_current_session_id s' = rs_current_session_id s"
      "set (rs_dialogues s')
         = insert (d\<lparr>rd_status := RG_DEACTIVATING\<rparr>) (new \<union> (set (rs_dialogues s) - {d}))"
  | (complete) h q d x where
      "rs_pending_handoff s = Some h" "proof_matches_pending q h"
      "d \<in> set (rs_dialogues s)" "rd_session_id d = ph_source_session_id h"
      "rd_status d = RG_DEACTIVATING"
      "x \<in> set (rs_dialogues s)" "rd_session_id x = tg_session_id (ph_target h)"
      "rd_status x = RG_CREATED"
      "rs_generation s' = rs_generation s" "rs_pending_handoff s' = None"
      "rs_current_session_id s' = Some (tg_session_id (ph_target h))"
      "set (rs_dialogues s') = insert (activated_at (rs_generation s) x)
         (insert (deactivated_by q d) (set (rs_dialogues s) - {d, x}))"
proof -
  from rg_reduce_InrD [OF assms] have valid: "rg_valid s" by blast
  note d = rg_valid_distinct [OF valid]
  from rg_reduce_InrD [OF assms] consider "s' = s"
      "receipt_for_command s (re_command_id (hd (tx_events tx))) \<noteq> None"
    | r where "registry_move s (tx_events tx)"
      "fold_events apply_registry_event s (tx_events tx) = Inr r"
      "s' = r\<lparr>rs_receipts := rs_receipts r @ [receipt_of tx]\<rparr>" by blast
  then show thesis
  proof cases
    case 1
    then show ?thesis by (rule replay)
  next
    case 2
    from 2(1) show ?thesis
    proof cases
      case (first_dialogue a t b hid)
      from move_first [OF d first_dialogue(2,3,6)] 2(2,3) first_dialogue show ?thesis
        by (intro first [of t "re_sequence a"]) auto
    next
      case (begin_with_new a h b x)
      from move_begin_new [OF d begin_with_new(2,3,5,8,9)] 2(2,3) begin_with_new show ?thesis
        by (intro started [of h x "{fresh_dialogue (ph_target h) (re_sequence a)}" "re_sequence a"])
          auto
    next
      case (begin_with_known a h x y)
      from move_begin_known [OF d begin_with_known(2,10,11)] 2(2,3) begin_with_known show ?thesis
        by (intro started [of h y "{}" 0]) auto
    next
      case (complete_pending a q b h)
      from valid complete_pending(4) show ?thesis
      proof (rule pending_source)
        fix y x
        assume p: "y \<in> set (rs_dialogues s)" "rd_session_id y = ph_source_session_id h"
          "rd_status y = RG_DEACTIVATING" "x \<in> set (rs_dialogues s)"
          "rd_session_id x = tg_session_id (ph_target h)" "rd_status x = RG_CREATED"
          "ph_generation h = rs_generation s"
        from p complete_pending(5) have q: "rd_session_id y = qp_source_session_id q" "x \<noteq> y"
          by (auto simp: proof_matches_pending_def)
        have "set (rs_dialogues s) - {y, x} = set (rs_dialogues s) - {y} - {x}" by blast
        moreover have "deactivated_by q y \<noteq> x"
          using p(6) by (metis deactivated_by_simps(3) registration_status.distinct(5))
        ultimately show ?thesis
          using move_complete [OF d complete_pending(2,3) p(1) q(1) p(4,5) q(2)] 2(2,3)
            complete_pending p
          by (intro complete [of h q y x]) (auto simp: insert_Diff_if)
      qed
    qed
  qed
qed

section \<open>Refinement of the protocol\<close>

lemma retired_iff:
  "c \<in> retired s \<longleftrightarrow> (\<exists>d \<in> set (rs_dialogues s). rd_session_id d = c \<and> rd_status d = RG_DEACTIVATED)"
  by (auto simp: retired_def)

lemma writing_not_retired:
  assumes "rg_valid s" and "d \<in> set (rs_dialogues s)" and "rd_status d \<noteq> RG_DEACTIVATED"
  shows "rd_session_id d \<notin> retired s"
  using assms same_id_same [OF rg_valid_distinct [OF assms(1)] assms(2)] by (auto simp: retired_iff)

lemma rg_reduce_authority:
  assumes "rg_reduce s tx = Inr s'"
  shows "s' = s \<or> authority_step (authority_of s) (authority_of s')"
proof -
  from rg_reduce_InrD [OF assms] have valid: "rg_valid s" by blast
  from registry.step_valid [OF assms] have valid': "rg_valid s'" .
  note a = rg_valid_authority [OF valid]
  from assms show ?thesis
  proof (cases rule: rg_reduce_cases)
    case replay
    then show ?thesis by simp
  next
    case (first t n)
    have "rs_generation s = 0" using a authority_nobody first(1,2) by blast
    moreover have "retired s' = retired s" unfolding retired_def first(7) by auto
    moreover have "tg_session_id t \<notin> retired s" using first(3) by (force simp: retired_iff)
    ultimately show ?thesis
      using first by (simp add: authority_of_def writer_of_def from_nobody)
  next
    case (started h d new n)
    have "retired s' = retired s" unfolding retired_def started(10) using started(5,6) by auto
    moreover have "tg_session_id (ph_target h) \<notin> retired s'"
      using valid' started(8) writing_not_retired [OF valid'] by (metis pending_source registration_status.distinct(5))
    moreover have "ph_source_session_id h \<noteq> tg_session_id (ph_target h)"
      using valid_pending [OF valid' started(8)] by (simp add: rg_valid_pending_def)
    ultimately show ?thesis
      using started by (simp add: authority_of_def writer_of_def from_writer)
  next
    case (complete h q d x)
    have "retired s' = insert (ph_source_session_id h) (retired s)"
      unfolding set_eq_iff insert_iff retired_iff complete(12) using complete(4,5,8) by auto
    then show ?thesis
      using complete by (simp add: authority_of_def writer_of_def from_handing_over)
  qed
qed

end
