(* ===== verification/Registry_History.thy ===== *)
theory Registry_History
  imports Registry_Moves
begin

text \<open>
  What a registry log keeps: dialogues are never forgotten and only move forward through
  their statuses, receipts are only appended, the generation never decreases, and no two
  dialogues are activated under one generation.  A transaction that was applied once is
  recognised ever after.
\<close>

section \<open>Growth\<close>

fun status_rank :: "registration_status \<Rightarrow> nat" where
  "status_rank RG_CREATED = 0"
| "status_rank RG_ACTIVE = 1"
| "status_rank RG_DEACTIVATING = 2"
| "status_rank RG_DEACTIVATED = 3"

definition dialogue_grows :: "registered_dialogue \<Rightarrow> registered_dialogue \<Rightarrow> bool" where
  "dialogue_grows d d' \<longleftrightarrow>
     rd_session_id d' = rd_session_id d \<and> rd_config_digest d' = rd_config_digest d
     \<and> rd_created_sequence d' = rd_created_sequence d
     \<and> status_rank (rd_status d) \<le> status_rank (rd_status d')
     \<and> (status_rank (rd_status d) = 0 \<or> rd_activated_generation d' = rd_activated_generation d)
     \<and> (rd_status d = RG_DEACTIVATED \<longrightarrow> d' = d)"

definition registry_grows :: "registry_state \<Rightarrow> registry_state \<Rightarrow> bool" where
  "registry_grows s s' \<longleftrightarrow>
     rs_generation s \<le> rs_generation s'
     \<and> (\<forall>d \<in> set (rs_dialogues s). \<exists>d' \<in> set (rs_dialogues s'). dialogue_grows d d')
     \<and> (\<exists>more. rs_receipts s' = rs_receipts s @ more)"

lemma dialogue_grows_refl [simp]: "dialogue_grows d d"
  by (simp add: dialogue_grows_def)

lemma status_rank_3: "3 \<le> status_rank st \<longleftrightarrow> st = RG_DEACTIVATED"
  by (cases st) simp_all

lemma dialogue_grows_trans: "dialogue_grows a b \<Longrightarrow> dialogue_grows b c \<Longrightarrow> dialogue_grows a c"
  unfolding dialogue_grows_def by auto

lemma registry_grows_refl: "registry_grows s s"
  by (auto simp: registry_grows_def intro: dialogue_grows_refl)

lemma registry_grows_trans:
  assumes "registry_grows a b" and "registry_grows b c"
  shows "registry_grows a c"
proof -
  have "\<exists>d' \<in> set (rs_dialogues c). dialogue_grows d d'" if d: "d \<in> set (rs_dialogues a)" for d
  proof -
    from assms(1) d obtain e where "e \<in> set (rs_dialogues b)" "dialogue_grows d e"
      by (auto simp: registry_grows_def)
    with assms(2) dialogue_grows_trans show ?thesis by (fastforce simp: registry_grows_def)
  qed
  with assms show ?thesis by (auto simp: registry_grows_def)
qed

lemma apply_keeps_receipts:
  "fold_events apply_registry_event s es = Inr r \<Longrightarrow> rs_receipts r = rs_receipts s"
proof (induction es arbitrary: s)
  case (Cons e es)
  then obtain u where "apply_registry_event s e = Inr u" "fold_events apply_registry_event u es = Inr r"
    by (auto simp: andthen_eq_Inr_iff)
  moreover from this(1) have "rs_receipts u = rs_receipts s"
    by (auto simp: apply_registry_event_def split: registry_payload.splits option.splits)
  ultimately show ?case using Cons.IH by simp
qed simp

lemma rg_reduce_new:
  "rg_reduce s tx = Inr s' \<Longrightarrow> receipt_for_command s (re_command_id (hd (tx_events tx))) = None \<Longrightarrow>
     rs_receipts s' = rs_receipts s @ [receipt_of tx]"
  by (auto simp: rg_reduce_def andthen_eq_Inr_iff Let_def apply_keeps_receipts split: if_splits)

lemma rg_reduce_receipts:
  assumes "rg_reduce s tx = Inr s'"
  shows "s' = s \<or> rs_receipts s' = rs_receipts s @ [receipt_of tx]"
  using rg_reduce_InrD [OF assms] apply_keeps_receipts by auto

lemma rg_reduce_grows:
  assumes "rg_reduce s tx = Inr s'"
  shows "registry_grows s s'"
proof -
  have receipts: "\<exists>more. rs_receipts s' = rs_receipts s @ more"
    using rg_reduce_receipts [OF assms] by auto
  have others: "\<exists>d' \<in> set (rs_dialogues s'). dialogue_grows d d'"
    if "d \<in> set (rs_dialogues s')" for d
    using that by (intro bexI [of _ d]) simp_all
  from assms show ?thesis
  proof (cases rule: rg_reduce_cases)
    case replay
    then show ?thesis by (simp add: registry_grows_refl)
  next
    case (first t n)
    with receipts others show ?thesis by (simp add: registry_grows_def)
  next
    case (started h d new n)
    have "dialogue_grows d (d\<lparr>rd_status := RG_DEACTIVATING\<rparr>)"
      using started(5) by (simp add: dialogue_grows_def)
    then have "\<exists>d' \<in> set (rs_dialogues s'). dialogue_grows y d'" if "y \<in> set (rs_dialogues s)" for y
      using that others [of y] unfolding started(10) by (cases "y = d") auto
    with receipts started(7) show ?thesis by (simp add: registry_grows_def)
  next
    case (complete h q d x)
    have "dialogue_grows d (deactivated_by q d)" "dialogue_grows x (activated_at (rs_generation s) x)"
      using complete(5,8) by (simp_all add: dialogue_grows_def)
    then have "\<exists>d' \<in> set (rs_dialogues s'). dialogue_grows y d'" if "y \<in> set (rs_dialogues s)" for y
      using that others [of y] unfolding complete(12) by (cases "y = d"; cases "y = x") auto
    with receipts complete(9) show ?thesis by (simp add: registry_grows_def)
  qed
qed

lemma registry_log_grows:
  "fold_events rg_reduce s txs = Inr s' \<Longrightarrow> registry_grows s s'"
  by (rule registry.fold_related [of registry_grows])
    (auto intro: registry_grows_refl registry_grows_trans rg_reduce_grows)

section \<open>Generations fence\<close>

text \<open>No two dialogues are activated under the same generation.\<close>

definition fenced :: "registered_dialogue set \<Rightarrow> bool" where
  "fenced A \<longleftrightarrow>
     (\<forall>d \<in> A. \<forall>e \<in> A. rd_activated_generation d \<noteq> None \<longrightarrow>
        rd_activated_generation d = rd_activated_generation e \<longrightarrow> d = e)"

abbreviation generations_distinct :: "registry_state \<Rightarrow> bool" where
  "generations_distinct s \<equiv> fenced (set (rs_dialogues s))"

lemma fencedD:
  "fenced A \<Longrightarrow> d \<in> A \<Longrightarrow> e \<in> A \<Longrightarrow> rd_activated_generation d = rd_activated_generation e \<Longrightarrow>
     rd_activated_generation d \<noteq> None \<Longrightarrow> d = e"
  unfolding fenced_def by blast

lemma fenced_subset: "fenced A \<Longrightarrow> B \<subseteq> A \<Longrightarrow> fenced B"
  unfolding fenced_def by blast

lemma fenced_insert:
  assumes "fenced A" and "\<And>e. e \<in> A \<Longrightarrow> rd_activated_generation e \<noteq> rd_activated_generation d"
  shows "fenced (insert d A)"
  unfolding fenced_def
proof (intro ballI impI)
  fix x y
  assume "x \<in> insert d A" "y \<in> insert d A" "rd_activated_generation x \<noteq> None"
    "rd_activated_generation x = rd_activated_generation y"
  then show "x = y"
    using assms(2) [of x] assms(2) [of y] fencedD [OF assms(1), of x y]
    by (cases "x = d"; cases "y = d") auto
qed

lemma fenced_insert_None:
  assumes "fenced A" and "rd_activated_generation d = None"
  shows "fenced (insert d A)"
  unfolding fenced_def
proof (intro ballI impI)
  fix x y
  assume "x \<in> insert d A" "y \<in> insert d A" "rd_activated_generation x \<noteq> None"
    "rd_activated_generation x = rd_activated_generation y"
  then show "x = y"
    using assms(2) fencedD [OF assms(1), of x y] by (cases "x = d"; cases "y = d") auto
qed

lemma fenced_replace:
  assumes "fenced A" and "d \<in> A" and "rd_activated_generation d' = rd_activated_generation d"
  shows "fenced (insert d' (A - {d}))"
proof (cases "rd_activated_generation d = None")
  case True
  with assms show ?thesis by (simp add: fenced_insert_None fenced_subset)
next
  case False
  show ?thesis
  proof (rule fenced_insert)
    show "fenced (A - {d})" using assms(1) by (rule fenced_subset) blast
    show "rd_activated_generation e \<noteq> rd_activated_generation d'" if "e \<in> A - {d}" for e
      using fencedD [OF assms(1,2), of e] that False assms(3) by auto
  qed
qed

lemma activated_bounds:
  assumes "rg_valid s" and "d \<in> set (rs_dialogues s)" and "rd_activated_generation d = Some a"
  shows "1 \<le> a \<and> a \<le> rs_generation s \<and> (a = rs_generation s \<longrightarrow> rd_status d = RG_ACTIVE)"
  using valid_registered [OF assms(1,2)] assms(3)
  by (auto simp: rg_valid_registered_def rg_valid_optional_positive_def
        split: registration_status.splits option.splits)

lemma rg_reduce_generations:
  assumes "generations_distinct s" and "rg_reduce s tx = Inr s'"
  shows "generations_distinct s'"
proof -
  from rg_reduce_InrD [OF assms(2)] have valid: "rg_valid s" by blast
  from assms(2) show ?thesis
  proof (cases rule: rg_reduce_cases)
    case replay
    with assms(1) show ?thesis by simp
  next
    case (first t n)
    have "rd_activated_generation e \<noteq> Some (rs_generation s + 1)"
      if "e \<in> set (rs_dialogues s)" for e
      using activated_bounds [OF valid that] by force
    with assms(1) show ?thesis unfolding first(7) by (intro fenced_insert) simp_all
  next
    case (started h d new n)
    have "fenced (insert (d\<lparr>rd_status := RG_DEACTIVATING\<rparr>) (set (rs_dialogues s) - {d}))"
      using assms(1) started(3) by (rule fenced_replace) simp
    moreover from started(6) have "set (rs_dialogues s') \<subseteq>
        insert (fresh_dialogue (ph_target h) n)
          (insert (d\<lparr>rd_status := RG_DEACTIVATING\<rparr>) (set (rs_dialogues s) - {d}))"
      unfolding started(10) by auto
    ultimately show ?thesis
      by (rule fenced_subset [OF fenced_insert_None [OF _ fresh_dialogue_simps(5)]])
  next
    case (complete h q d x)
    let ?D = "insert (deactivated_by q d) (set (rs_dialogues s) - {d})"
    have D: "fenced ?D" using assms(1) complete(3) by (rule fenced_replace) simp
    have "rd_activated_generation y \<noteq> Some (rs_generation s)" if y: "y \<in> set (rs_dialogues s)" for y
    proof
      assume "rd_activated_generation y = Some (rs_generation s)"
      with activated_bounds [OF valid y] have "rd_status y = RG_ACTIVE" by blast
      with pending_source [OF valid complete(1)] y show False by metis
    qed
    with complete(3) have "rd_activated_generation y \<noteq> Some (rs_generation s)" if "y \<in> ?D" for y
      using that by auto
    then have "fenced (insert (activated_at (rs_generation s) x) ?D)"
      by (intro fenced_insert [OF D]) (simp only: activated_at_simps not_False_eq_True)
    then show ?thesis by (rule fenced_subset) (auto simp: complete(12))
  qed
qed

lemma registry_log_generations:
  "generations_distinct s \<Longrightarrow> fold_events rg_reduce s txs = Inr s' \<Longrightarrow> generations_distinct s'"
  by (rule registry.fold_invariant [of generations_distinct]) (auto intro: rg_reduce_generations)

section \<open>A transaction is applied once\<close>

text \<open>The receipt that a state holds for a transaction.\<close>

definition receipt_held :: "registry_state \<Rightarrow> registry_transaction \<Rightarrow> bool" where
  "receipt_held s tx \<longleftrightarrow>
     (\<exists>r. receipt_for_command s (re_command_id (hd (tx_events tx))) = Some r
        \<and> rc_body_digest r = re_body_digest (hd (tx_events tx)) \<and> exact_receipt_match r tx)"

lemma receipt_kept:
  "receipt_for_command s c = Some r \<Longrightarrow> registry_grows s s' \<Longrightarrow> receipt_for_command s' c = Some r"
  by (auto simp: registry_grows_def receipt_for_command_def find_append)

lemma receipt_held_grows: "receipt_held s tx \<Longrightarrow> registry_grows s s' \<Longrightarrow> receipt_held s' tx"
  unfolding receipt_held_def using receipt_kept by blast

lemma rg_reduce_held:
  assumes "rg_reduce s tx = Inr s'"
  shows "receipt_held s' tx"
proof (cases "receipt_for_command s (re_command_id (hd (tx_events tx)))")
  case None
  then have "rs_receipts s' = rs_receipts s @ [receipt_of tx]"
    using rg_reduce_new [OF assms] by simp
  with None show ?thesis
    by (auto simp: receipt_held_def receipt_for_command_def find_append receipt_of_def Let_def
          exact_receipt_match_def)
next
  case (Some r)
  from assms obtain b where "is_replay s tx = Inr b" and s: "s' = s"
    using Some by (auto simp: rg_reduce_def andthen_eq_Inr_iff validate_transaction_iff)
  with Some show ?thesis by (auto simp: receipt_held_def is_replay_def Let_def split: if_splits)
qed

lemma rg_reduce_again:
  assumes "rg_reduce s tx = Inr s'" and "receipt_held t tx" and "rg_valid t"
  shows "rg_reduce t tx = Inr t"
proof -
  from assms(1) have "well_formed_transaction s tx"
    by (auto simp: rg_reduce_def andthen_eq_Inr_iff validate_transaction_iff)
  moreover from assms(2) obtain r
    where "receipt_for_command t (re_command_id (hd (tx_events tx))) = Some r"
      "rc_body_digest r = re_body_digest (hd (tx_events tx))" "exact_receipt_match r tx"
    by (auto simp: receipt_held_def)
  ultimately have "validate_transaction t tx = Inr True"
    using assms(3) by (simp add: validate_transaction_iff well_formed_transaction_def is_replay_def)
  with \<open>receipt_for_command t _ = Some r\<close> show ?thesis by (simp add: rg_reduce_def)
qed

text \<open>The command that led to a transaction is answered with its receipt.\<close>

lemma command_answered:
  assumes "receipt_held s tx" and "rg_valid s" and "rg_valid_command c"
    and "rh_command_id (rc_head c) = re_command_id (hd (tx_events tx))"
    and "rh_body_digest (rc_head c) = re_body_digest (hd (tx_events tx))"
  shows "\<exists>r. rg_decide s c = RegistryIdempotent r \<and> exact_receipt_match r tx"
  using assms by (auto simp: receipt_held_def rg_decide_def)

end
