(* ===== verification/Registry_Commit.thy ===== *)
theory Registry_Commit
  imports Registry_History
begin

text \<open>
  What the registry decides, it can commit: the batch of an accepted decision is numbered,
  digested and validated, and the state it leads to is valid.
\<close>

section \<open>Records have digests\<close>

lemma ascii_record_tree:
  "ascii_json (record_tree name fs) \<longleftrightarrow>
     ascii (py name) \<and> list_all (\<lambda>(k, v). ascii (py k) \<and> ascii_json v) fs"
  by (auto simp: record_tree_def list_all_iff py_def)

lemma ascii_optional_int [simp]: "ascii_json (optional_int v)"
  by (simp add: optional_int_def split: option.split)

lemma ascii_activation_kind [simp]: "ascii (activation_kind_value k)"
  by (cases k) (simp_all add: py_def)

lemma ascii_target: "rg_valid_target t \<Longrightarrow> ascii_json (target_tree t)"
  by (simp add: target_tree_def ascii_record_tree rg_valid_target_def protocol_id_ascii digest_ascii
        py_def)

lemma ascii_handoff: "rg_valid_pending h \<Longrightarrow> ascii_json (handoff_tree h)"
  by (simp add: handoff_tree_def ascii_record_tree rg_valid_pending_def protocol_id_ascii
        ascii_target py_def)

lemma ascii_proof: "rg_valid_proof q \<Longrightarrow> ascii_json (proof_tree q)"
  by (simp add: proof_tree_def ascii_record_tree rg_valid_proof_def protocol_id_ascii digest_ascii
        ascii_target py_def)

lemma ascii_payload: "rg_valid_payload p \<Longrightarrow> ascii_json (payload_tree p)"
  by (cases p)
    (simp_all add: ascii_record_tree ascii_target ascii_handoff ascii_proof optional_id_ascii py_def)

lemma tree_digest_ok: "ascii_json j \<Longrightarrow> \<exists>d. tree_digest j = Inr d \<and> is_sha256_digest d"
  using canonical_json_bytes_ascii [of j]
  by (auto simp: tree_digest_def is_sha256_digest_def digest_prefix_def py_def hexdigest_hex)

text \<open>The fields of an event that make it valid, apart from its digest.\<close>

definition signable :: "committed_registry_event \<Rightarrow> bool" where
  "signable e \<longleftrightarrow>
     is_protocol_id (re_event_id e) \<and> 1 \<le> re_sequence e \<and> 0 \<le> re_generation e
     \<and> is_protocol_id (re_command_id e) \<and> is_sha256_digest (re_body_digest e)
     \<and> rg_valid_payload (re_payload e)"

lemma sign_event_ok:
  assumes "signable e"
  shows "\<exists>d. sign_event e = Inr (e\<lparr>re_event_digest := d\<rparr>)
    \<and> rg_valid_envelope (e\<lparr>re_event_digest := d\<rparr>)
    \<and> validate_committed_event (e\<lparr>re_event_digest := d\<rparr>) = Inr ()"
proof -
  have "ascii_json (event_tree (e\<lparr>re_event_digest := []\<rparr>))"
    using assms by (simp add: event_tree_def ascii_record_tree signable_def protocol_id_ascii
        digest_ascii ascii_payload py_def)
  then obtain d where d: "event_digest e = Inr d" "is_sha256_digest d"
    using tree_digest_ok unfolding event_digest_def by blast
  moreover have "event_digest (e\<lparr>re_event_digest := d\<rparr>) = Inr d"
    using d(1) by (simp add: event_digest_def)
  ultimately show ?thesis
    using assms by (intro exI [of _ d])
      (simp add: sign_event_def rg_valid_envelope_def validate_committed_event_def signable_def)
qed

lemma number_batch_ok:
  assumes "length ids = length ps" and "1 \<le> n"
    and "list_all is_protocol_id ids"
    and "list_all (\<lambda>p. rg_valid_payload (pr_payload p) \<and> 0 \<le> payload_generation s (pr_payload p)
           \<and> is_protocol_id (pr_command_id p) \<and> is_sha256_digest (pr_body_digest p)) ps"
  shows "\<exists>es. number_batch s n ids ps = Inr es \<and> map re_event_id es = ids
    \<and> map re_payload es = map pr_payload ps
    \<and> map re_sequence es = [n .. n + int (length ps) - 1]
    \<and> map re_generation es = map (\<lambda>p. payload_generation s (pr_payload p)) ps
    \<and> map re_command_id es = map pr_command_id ps \<and> map re_body_digest es = map pr_body_digest ps
    \<and> list_all rg_valid_envelope es \<and> validate_all validate_committed_event es = Inr ()"
  using assms
proof (induction ids ps arbitrary: n rule: list_induct2)
  case Nil
  then show ?case by simp
next
  case (Cons i ids p ps)
  have "signable (draft_event s n i p)" using Cons.prems by (simp add: signable_def draft_event_def)
  then obtain d where d: "sign_event (draft_event s n i p) = Inr (draft_event s n i p\<lparr>re_event_digest := d\<rparr>)"
    "rg_valid_envelope (draft_event s n i p\<lparr>re_event_digest := d\<rparr>)"
    "validate_committed_event (draft_event s n i p\<lparr>re_event_digest := d\<rparr>) = Inr ()"
    using sign_event_ok by blast
  from Cons.IH [of "n + 1"] Cons.prems obtain es where es: "number_batch s (n + 1) ids ps = Inr es"
    "map re_event_id es = ids" "map re_payload es = map pr_payload ps"
    "map re_sequence es = [n + 1 .. n + 1 + int (length ps) - 1]"
    "map re_generation es = map (\<lambda>p. payload_generation s (pr_payload p)) ps"
    "map re_command_id es = map pr_command_id ps" "map re_body_digest es = map pr_body_digest ps"
    "list_all rg_valid_envelope es" "validate_all validate_committed_event es = Inr ()"
    by auto
  then show ?case
    using d by (intro exI [of _ "draft_event s n i p\<lparr>re_event_digest := d\<rparr> # es"])
      (simp add: upto_rec1 [of n] draft_event_def)
qed

lemma sign_transaction_ok:
  assumes "is_protocol_id tid" and "list_all rg_valid_envelope es"
  shows "\<exists>d. sign_transaction \<lparr>tx_transaction_id = tid, tx_transaction_digest = [], tx_events = es\<rparr>
      = Inr \<lparr>tx_transaction_id = tid, tx_transaction_digest = d, tx_events = es\<rparr>
    \<and> is_sha256_digest d
    \<and> transaction_digest \<lparr>tx_transaction_id = tid, tx_transaction_digest = d, tx_events = es\<rparr> = Inr d"
proof -
  have "list_all ascii_json (map event_tree es)"
    using assms(2) by (auto simp: list_all_iff event_tree_def ascii_record_tree rg_valid_envelope_def
        protocol_id_ascii digest_ascii ascii_payload py_def)
  then have "ascii_json (transaction_tree
      \<lparr>tx_transaction_id = tid, tx_transaction_digest = [], tx_events = es\<rparr>)"
    using assms(1) by (simp add: transaction_tree_def ascii_record_tree protocol_id_ascii py_def)
  then obtain d where "tree_digest (transaction_tree
      \<lparr>tx_transaction_id = tid, tx_transaction_digest = [], tx_events = es\<rparr>) = Inr d" "is_sha256_digest d"
    using tree_digest_ok by blast
  then show ?thesis by (intro exI [of _ d]) (simp add: sign_transaction_def transaction_digest_def)
qed

section \<open>The next state is valid\<close>

lemma registered_later:
  "rg_valid_registered d s \<Longrightarrow> rs_sequence s \<le> rs_sequence u \<Longrightarrow> rs_generation s \<le> rs_generation u \<Longrightarrow>
     rg_valid_registered d u"
  by (auto simp: rg_valid_registered_def split: registration_status.splits option.splits)

lemma receipts_chain_snoc:
  "receipts_chain e tip rs \<Longrightarrow> tip \<le> tip' \<Longrightarrow> rc_last_sequence r \<le> tip' \<Longrightarrow>
     rc_first_sequence r = (if rs = [] then e else rc_last_sequence (last rs) + 1) \<Longrightarrow>
     receipts_chain e tip' (rs @ [r])"
  by (induction rs arbitrary: e) auto

lemma authority_receipts [simp]: "authority (s\<lparr>rs_receipts := rs\<rparr>) = authority s"
  by (simp add: authority_def cong: option.case_cong)

lemma registered_receipts [simp]: "rg_valid_registered d (s\<lparr>rs_receipts := rs\<rparr>) = rg_valid_registered d s"
  by (simp add: rg_valid_registered_def cong: option.case_cong registration_status.case_cong)

text \<open>A transaction that is new to a state: its ids are unused there.\<close>

definition new_to :: "registry_state \<Rightarrow> registry_transaction \<Rightarrow> bool" where
  "new_to s tx \<longleftrightarrow>
     receipt_for_command s (re_command_id (hd (tx_events tx))) = None
     \<and> (\<forall>r \<in> set (rs_receipts s). rc_transaction_id r \<noteq> tx_transaction_id tx)
     \<and> set (map re_event_id (tx_events tx)) \<inter> set (receipt_event_ids s) = {}"

lemma receipt_of_valid:
  assumes "well_formed_transaction s tx" and "new_to s tx" and "0 \<le> rs_sequence s"
  shows "rg_valid_receipt (receipt_of tx) \<and> rc_first_sequence (receipt_of tx) = rs_sequence s + 1
    \<and> rc_last_sequence (receipt_of tx) = rs_sequence s + int (length (tx_events tx))"
proof -
  let ?es = "tx_events tx"
  have l: "1 \<le> length ?es" "length ?es \<le> 2" and e: "list_all rg_valid_envelope ?es"
    and q: "map re_sequence ?es = [rs_sequence s + 1 .. rs_sequence s + int (length ?es)]"
    and t: "is_protocol_id (tx_transaction_id tx)" "is_sha256_digest (tx_transaction_digest tx)"
      "distinct (map re_event_id ?es)"
    using assms(1,2) by (simp_all add: well_formed_transaction_def new_to_def)
  from l consider a where "?es = [a]" | a b where "?es = [a, b]"
    by (cases ?es; cases "tl ?es"; cases "tl (tl ?es)") auto
  then show ?thesis
  proof cases
    case 1
    with e q t assms(3) show ?thesis
      by (simp add: rg_valid_receipt_def receipt_of_def Let_def rg_valid_envelope_def)
  next
    case 2
    with q have "re_sequence a = rs_sequence s + 1" "re_sequence b = rs_sequence s + 2"
      by (simp_all add: upto_rec1)
    with 2 e t assms(3) show ?thesis
      by (simp add: rg_valid_receipt_def receipt_of_def Let_def rg_valid_envelope_def)
  qed
qed

lemma rg_valid_extend:
  assumes valid: "rg_valid s" and wf: "well_formed_transaction s tx" and new: "new_to s tx"
    and kept: "kept_fields s u"
    and seq: "rs_sequence u = rs_sequence s + int (length (tx_events tx))"
    and gen: "rs_generation s \<le> rs_generation u"
    and current: "is_optional_protocol_id (rs_current_session_id u)"
    and pending: "\<And>h. rs_pending_handoff u = Some h \<Longrightarrow> rg_valid_pending h"
    and dialogues: "\<And>d. d \<in> set (rs_dialogues u) \<Longrightarrow> rg_valid_registered d u"
    and auth: "authority u"
  shows "rg_valid (u\<lparr>rs_receipts := rs_receipts u @ [receipt_of tx]\<rparr>)" (is "rg_valid ?v")
proof -
  note v = valid [unfolded rg_valid_def rg_fields_def rg_unique_def rg_receipts_def]
  have rc: "rg_valid_receipt (receipt_of tx)" "rc_first_sequence (receipt_of tx) = rs_sequence s + 1"
    "rc_last_sequence (receipt_of tx) = rs_sequence s + int (length (tx_events tx))"
    using receipt_of_valid [OF wf new] v by auto
  have k: "rs_receipts u = rs_receipts s" "rs_registry_id u = rs_registry_id s"
    "ids_distinct (rs_dialogues u)"
    using kept by (simp_all add: kept_fields_def)
  have "rg_fields ?v"
    using v rc(1) k seq gen current pending dialogues
    by (auto simp: rg_fields_def list_all_iff split: option.split)
  moreover have "rg_unique ?v"
  proof -
    have "re_command_id (hd (tx_events tx)) \<notin> rc_command_id ` set (rs_receipts s)"
      using new by (auto simp: new_to_def receipt_for_command_def find_None_iff)
    moreover have "tx_transaction_id tx \<notin> rc_transaction_id ` set (rs_receipts s)"
      using new by (auto simp: new_to_def)
    moreover have "set (map re_event_id (tx_events tx)) \<inter> set (receipt_event_ids s) = {}"
      using new by (simp add: new_to_def)
    moreover have "distinct (map re_event_id (tx_events tx))"
      using wf by (simp add: well_formed_transaction_def)
    ultimately show ?thesis
      using v k by (simp add: rg_unique_def receipt_of_def receipt_event_ids_def Let_def Int_commute)
  qed
  moreover have "rg_receipts ?v"
  proof -
    have "rc_first_sequence (receipt_of tx)
        = (if rs_receipts s = [] then 1 else rc_last_sequence (last (rs_receipts s)) + 1)"
      using v rc(2) by (simp split: if_splits)
    then have "receipts_chain 1 (rs_sequence u) (rs_receipts s @ [receipt_of tx])"
      using v seq rc(3) by (intro receipts_chain_snoc [of 1 "rs_sequence s"]) simp_all
    then show ?thesis using k seq rc(3) by (simp add: rg_receipts_def)
  qed
  moreover have "rg_authority ?v" using k(3) auth by (simp add: rg_authority_iff)
  ultimately show ?thesis by (simp add: rg_valid_def)
qed

end
