(* ===== verification/Registry_Decide.thy ===== *)
theory Registry_Decide
  imports Registry_Commit
begin

text \<open>
  Validation is enough: a transaction \<open>validate_transaction\<close> lets through is applied, so the
  check of the resulting state at the end of \<open>reduce\<close> never fails.  And every decision is
  validated: the batch of an accepted command makes one of the four moves.
\<close>

section \<open>A validated transaction is applied\<close>

lemma envelope_parts:
  "rg_valid_envelope e \<Longrightarrow> rg_valid_payload (re_payload e)"
  by (simp add: rg_valid_envelope_def)

lemma wf_sequences:
  assumes "well_formed_transaction s tx" and "new_to s tx"
  shows "map re_sequence (tx_events tx) = [rs_sequence s + 1 .. rs_sequence s + int (length (tx_events tx))]"
    and "list_all rg_valid_envelope (tx_events tx)"
  using assms by (simp_all add: well_formed_transaction_def new_to_def)

lemma upto_two: "[n + 1 .. n + 2] = [n + 1, n + 2]" for n :: int
  by (simp add: upto_rec1)

lemma pair_sequences:
  assumes "well_formed_transaction s tx" and "new_to s tx" and "tx_events tx = [a, b]"
  shows "re_sequence a = rs_sequence s + 1" and "re_sequence b = rs_sequence s + 2"
    and "rg_valid_payload (re_payload a)" and "rg_valid_payload (re_payload b)"
  using wf_sequences [OF assms(1,2)] assms(3) by (simp_all add: upto_two envelope_parts)

lemma single_sequence:
  assumes "well_formed_transaction s tx" and "new_to s tx" and "tx_events tx = [a]"
  shows "re_sequence a = rs_sequence s + 1" and "rg_valid_payload (re_payload a)"
  using wf_sequences [OF assms(1,2)] assms(3) by (simp_all add: envelope_parts)

lemma valid_optional_current:
  "rg_valid s \<Longrightarrow> is_optional_protocol_id (rs_current_session_id s)"
  by (simp add: rg_valid_def rg_fields_def)

lemma valid_sequence: "rg_valid s \<Longrightarrow> 0 \<le> rs_sequence s \<and> 0 \<le> rs_generation s"
  by (simp add: rg_valid_def rg_fields_def)

definition next_valid :: "registry_state \<Rightarrow> registry_transaction \<Rightarrow> bool" where
  "next_valid s tx \<longleftrightarrow>
     (\<exists>r. fold_events apply_registry_event s (tx_events tx) = Inr r
        \<and> rg_valid (r\<lparr>rs_receipts := rs_receipts r @ [receipt_of tx]\<rparr>))"

lemma first_valid:
  assumes valid: "rg_valid s" and wf: "well_formed_transaction s tx" and new: "new_to s tx"
    and es: "tx_events tx = [a, b]" and a: "re_payload a = DialogueCreated t"
    and b: "re_payload b = Activated t (rs_generation s + 1) AK_INITIAL hid"
    and none: "rs_current_session_id s = None" "rs_pending_handoff s = None"
    and fresh: "tg_session_id t \<notin> rd_session_id ` set (rs_dialogues s)"
  shows "next_valid s tx"
proof -
  note d = rg_valid_distinct [OF valid]
  note p = pair_sequences [OF wf new es]
  note z = valid_sequence [OF valid]
  let ?n = "activated_at (rs_generation s + 1) (fresh_dialogue t (re_sequence a))"
  from move_first [OF d a b fresh] obtain r where
      r: "fold_events apply_registry_event s [a, b] = Inr r" "kept_fields s r"
      "rs_sequence r = re_sequence b" "rs_generation r = rs_generation s + 1"
      "rs_current_session_id r = Some (tg_session_id t)" "rs_pending_handoff r = None"
      "set (rs_dialogues r) = insert ?n (set (rs_dialogues s))" by blast
  have t: "rg_valid_target t" using p(3) a by simp
  have idle: "rd_status y \<noteq> RG_DEACTIVATING \<and> rd_status y \<noteq> RG_ACTIVE"
    if "y \<in> set (rs_dialogues s)" for y
    using rg_valid_authority [OF valid] that by (simp add: authority_nobody [OF none(2,1)])
  have "rg_valid (r\<lparr>rs_receipts := rs_receipts r @ [receipt_of tx]\<rparr>)"
  proof (rule rg_valid_extend [OF valid wf new r(2)])
    show "rs_sequence r = rs_sequence s + int (length (tx_events tx))" using r(3) p es by simp
    show "is_optional_protocol_id (rs_current_session_id r)"
      using t r(5) by (simp add: is_optional_protocol_id_def rg_valid_target_def)
    show "rg_valid_registered y r" if "y \<in> set (rs_dialogues r)" for y
      using that t z p r registered_later [OF valid_registered [OF valid], of y r]
      by (auto simp: rg_valid_registered_def rg_valid_target_def rg_valid_optional_positive_def
            is_optional_protocol_id_def)
    show "authority r"
      unfolding authority_writer [OF r(6,5)] r(7) using idle r(4) by auto
  qed (use r in simp_all)
  with r(1) es show ?thesis by (auto simp: next_valid_def)
qed

text \<open>The dialogue that stops writing, and everything around it, stays valid.\<close>

lemma started_valid:
  assumes valid: "rg_valid s" and wf: "well_formed_transaction s tx" and new: "new_to s tx"
    and h: "rg_valid_pending h" "ph_generation h = rs_generation s + 1"
      "ph_started_sequence h \<le> rs_sequence r"
    and cur: "rs_pending_handoff s = None" "rs_current_session_id s = Some (ph_source_session_id h)"
    and d: "d \<in> set (rs_dialogues s)" "rd_session_id d = ph_source_session_id h" "rd_status d = RG_ACTIVE"
    and fold: "fold_events apply_registry_event s (tx_events tx) = Inr r"
    and kept: "kept_fields s r"
    and seq: "rs_sequence r = rs_sequence s + int (length (tx_events tx))"
    and r: "rs_generation r = ph_generation h" "rs_current_session_id r = rs_current_session_id s"
      "rs_pending_handoff r = Some h"
      "set (rs_dialogues r) = insert (d\<lparr>rd_status := RG_DEACTIVATING\<rparr>) (N \<union> (set (rs_dialogues s) - {d}))"
    and N: "\<And>y. y \<in> N \<Longrightarrow> rd_status y = RG_CREATED \<and> rg_valid_registered y r"
    and x: "x \<in> N \<union> set (rs_dialogues s)" "rd_session_id x = tg_session_id (ph_target h)"
      "rd_status x = RG_CREATED" "rd_config_digest x = tg_config_digest (ph_target h)"
  shows "next_valid s tx"
proof -
  obtain e where e: "e \<in> set (rs_dialogues s)" "rd_session_id e = ph_source_session_id h"
      "rd_status e = RG_ACTIVE" "rd_activated_generation e = Some (rs_generation s)"
      "\<forall>y \<in> set (rs_dialogues s). rd_status y = RG_ACTIVE \<longrightarrow> y = e"
      "\<forall>y \<in> set (rs_dialogues s). rd_status y \<noteq> RG_DEACTIVATING"
    by (rule current_active [OF valid cur]) (rule that)
  have "d = e" using e(5) d(1,3) by blast
  note e = e(4-6) [folded this]
  have "rg_valid (r\<lparr>rs_receipts := rs_receipts r @ [receipt_of tx]\<rparr>)"
  proof (rule rg_valid_extend [OF valid wf new kept seq])
    show "is_optional_protocol_id (rs_current_session_id r)"
      using r(2) valid_optional_current [OF valid] by simp
    have "rg_valid_registered (d\<lparr>rd_status := RG_DEACTIVATING\<rparr>) r"
      using valid_registered [OF valid d(1)] d(3) e(1) h(2) r(1) seq
      by (auto simp: rg_valid_registered_def)
    moreover have "rg_valid_registered y r" if "y \<in> set (rs_dialogues s)" for y
      using registered_later [OF valid_registered [OF valid that], of r] r(1) h(2) seq by simp
    ultimately show "rg_valid_registered y r" if "y \<in> set (rs_dialogues r)" for y
      using that N unfolding r(4) by blast
    have "x \<noteq> d" using x(3) d(3) by auto
    show "authority r"
      unfolding authority_pending [OF r(3)] r(4)
    proof (intro conjI)
      show "\<exists>y \<in> insert (d\<lparr>rd_status := RG_DEACTIVATING\<rparr>) (N \<union> (set (rs_dialogues s) - {d})).
          rd_session_id y = ph_source_session_id h \<and> rd_status y = RG_DEACTIVATING
          \<and> (\<forall>z \<in> insert (d\<lparr>rd_status := RG_DEACTIVATING\<rparr>) (N \<union> (set (rs_dialogues s) - {d})).
               rd_status z = RG_DEACTIVATING \<longrightarrow> z = y)"
      proof (intro bexI [of _ "d\<lparr>rd_status := RG_DEACTIVATING\<rparr>"] conjI ballI impI)
        fix z
        assume "z \<in> insert (d\<lparr>rd_status := RG_DEACTIVATING\<rparr>) (N \<union> (set (rs_dialogues s) - {d}))"
          "rd_status z = RG_DEACTIVATING"
        with e(3) N [of z] show "z = d\<lparr>rd_status := RG_DEACTIVATING\<rparr>" by auto
      qed (use d in simp_all)
      show "\<exists>y \<in> insert (d\<lparr>rd_status := RG_DEACTIVATING\<rparr>) (N \<union> (set (rs_dialogues s) - {d})).
          rd_session_id y = tg_session_id (ph_target h) \<and> rd_status y = RG_CREATED
          \<and> rd_config_digest y = tg_config_digest (ph_target h)"
        using x \<open>x \<noteq> d\<close> by (intro bexI [of _ x]) auto
      show "\<forall>y \<in> insert (d\<lparr>rd_status := RG_DEACTIVATING\<rparr>) (N \<union> (set (rs_dialogues s) - {d})).
          rd_status y \<noteq> RG_ACTIVE"
        using e(2) N by fastforce
    qed (use r(1,2) h(2,3) cur(2) in simp_all)
  qed (use r(1,3) h(1,2) in simp_all)
  with fold show ?thesis by (auto simp: next_valid_def)
qed

lemma registered_deactivated:
  assumes "rg_valid_registered d s" and "rd_status d = RG_DEACTIVATING"
    and "is_protocol_id (qp_handoff_id q)" and "qp_generation q = rs_generation s"
    and "rs_sequence s \<le> rs_sequence r" and "rs_generation r = rs_generation s"
    and "1 \<le> qp_generation q"
  shows "rg_valid_registered (deactivated_by q d) r"
proof -
  from assms(1,2) obtain a where "rd_activated_generation d = Some a" "a < rs_generation s"
    by (auto simp: rg_valid_registered_def split: option.splits)
  with assms show ?thesis
    by (simp add: rg_valid_registered_def rg_valid_optional_positive_def is_optional_protocol_id_def)
qed

lemma completed_valid:
  assumes valid: "rg_valid s" and wf: "well_formed_transaction s tx" and new: "new_to s tx"
    and es: "tx_events tx = [a, b]" and a: "re_payload a = Deactivated q"
    and b: "re_payload b = Activated (ph_target h) (ph_generation h) AK_HANDOFF (Some (ph_handoff_id h))"
    and pend: "rs_pending_handoff s = Some h" and match: "proof_matches_pending q h"
  shows "next_valid s tx"
proof -
  note dist = rg_valid_distinct [OF valid]
  note p = pair_sequences [OF wf new es]
  obtain d x where
      d: "d \<in> set (rs_dialogues s)" "rd_session_id d = ph_source_session_id h" "rd_status d = RG_DEACTIVATING"
    and x: "x \<in> set (rs_dialogues s)" "rd_session_id x = tg_session_id (ph_target h)" "rd_status x = RG_CREATED"
      "rd_config_digest x = tg_config_digest (ph_target h)"
    and cur: "rs_current_session_id s = Some (ph_source_session_id h)"
    and g: "ph_generation h = rs_generation s"
    and idle: "\<forall>y \<in> set (rs_dialogues s). rd_status y \<noteq> RG_ACTIVE"
      "\<forall>y \<in> set (rs_dialogues s). rd_status y = RG_DEACTIVATING \<longrightarrow> y = d"
    by (rule pending_source [OF valid pend]) (rule that)
  have q: "rd_session_id d = qp_source_session_id q" "qp_generation q = rs_generation s" "x \<noteq> d"
    using d(2,3) x(3) g match by (auto simp: proof_matches_pending_def)
  from move_complete [OF dist a b d(1) q(1) x(1,2) q(3)] obtain r where
      r: "fold_events apply_registry_event s [a, b] = Inr r" "kept_fields s r"
      "rs_sequence r = re_sequence b" "rs_generation r = ph_generation h"
      "rs_current_session_id r = Some (tg_session_id (ph_target h))" "rs_pending_handoff r = None"
      "set (rs_dialogues r) = insert (activated_at (ph_generation h) x)
         (insert (deactivated_by q d) (set (rs_dialogues s) - {d}) - {x})"
    by (elim exE conjE) (rule that)
  have h: "rg_valid_pending h" using valid pend by (rule valid_pending)
  have "rg_valid (r\<lparr>rs_receipts := rs_receipts r @ [receipt_of tx]\<rparr>)"
  proof (rule rg_valid_extend [OF valid wf new r(2)])
    show "rs_sequence r = rs_sequence s + int (length (tx_events tx))" using r(3) p es by simp
    show "is_optional_protocol_id (rs_current_session_id r)"
      using h r(5) by (simp add: is_optional_protocol_id_def rg_valid_pending_def rg_valid_target_def)
    have "rg_valid_registered (activated_at (ph_generation h) x) r"
      using valid_registered [OF valid x(1)] x(3) h r(3,4) p(2)
      by (auto simp: rg_valid_registered_def rg_valid_optional_positive_def rg_valid_pending_def)
    moreover have "rg_valid_registered (deactivated_by q d) r"
    proof (rule registered_deactivated [OF valid_registered [OF valid d(1)] d(3) _ q(2)])
      show "is_protocol_id (qp_handoff_id q)" "1 \<le> qp_generation q"
        using p(3) a by (simp_all add: rg_valid_proof_def)
    qed (use r(3,4) p(2) g in simp_all)
    moreover have "rg_valid_registered y r" if "y \<in> set (rs_dialogues s)" for y
      using registered_later [OF valid_registered [OF valid that], of r] r(3,4) g p(2) by simp
    ultimately show "rg_valid_registered y r" if "y \<in> set (rs_dialogues r)" for y
      using that unfolding r(7) by blast
    have other: "rd_status y \<noteq> RG_DEACTIVATING \<and> rd_status y \<noteq> RG_ACTIVE"
      if "y \<in> insert (deactivated_by q d) (set (rs_dialogues s) - {d}) - {x}" for y
      using that idle by auto
    show "authority r"
      unfolding authority_writer [OF r(6,5)] r(7)
    proof (intro conjI ballI bexI [of _ "activated_at (ph_generation h) x"] impI)
      fix z
      assume "z \<in> insert (activated_at (ph_generation h) x)
          (insert (deactivated_by q d) (set (rs_dialogues s) - {d}) - {x})"
      with other [of z] show "rd_status z \<noteq> RG_DEACTIVATING"
        and "rd_status z = RG_ACTIVE \<Longrightarrow> z = activated_at (ph_generation h) x" by auto
    qed (use x r(4) in simp_all)
  qed (use r(4,6) g in simp_all)
  with r(1) es show ?thesis by (auto simp: next_valid_def)
qed

lemma begin_new_valid:
  assumes valid: "rg_valid s" and wf: "well_formed_transaction s tx" and new: "new_to s tx"
    and es: "tx_events tx = [a, b]" and a: "re_payload a = DialogueCreated (ph_target h)"
    and b: "re_payload b = DeactivationStarted h" and st: "ph_started_sequence h = re_sequence b"
    and fresh: "tg_session_id (ph_target h) \<notin> rd_session_id ` set (rs_dialogues s)"
    and cur: "rs_pending_handoff s = None" "rs_current_session_id s = Some (ph_source_session_id h)"
    and d: "d \<in> set (rs_dialogues s)" "rd_session_id d = ph_source_session_id h" "rd_status d = RG_ACTIVE"
    and gen: "ph_generation h = rs_generation s + 1"
  shows "next_valid s tx"
proof -
  note p = pair_sequences [OF wf new es]
  let ?n = "fresh_dialogue (ph_target h) (re_sequence a)"
  from move_begin_new [OF rg_valid_distinct [OF valid] a b fresh d(1,2)] obtain r where
      r: "fold_events apply_registry_event s [a, b] = Inr r" "kept_fields s r"
      "rs_sequence r = re_sequence b" "rs_generation r = ph_generation h"
      "rs_current_session_id r = rs_current_session_id s" "rs_pending_handoff r = Some h"
      "set (rs_dialogues r) = insert (d\<lparr>rd_status := RG_DEACTIVATING\<rparr>)
         (insert ?n (set (rs_dialogues s) - {d}))"
    by (elim exE conjE) (rule that)
  have h: "rg_valid_pending h" using p(4) b by simp
  have n: "rg_valid_registered ?n r"
    using p h r(3) valid_sequence [OF valid]
    by (simp add: rg_valid_registered_def rg_valid_optional_positive_def is_optional_protocol_id_def
        rg_valid_pending_def rg_valid_target_def)
  show ?thesis
  proof (rule started_valid [OF valid wf new h gen _ cur d, where r = r and N = "{?n}" and x = ?n])
    show "set (rs_dialogues r) = insert (d\<lparr>rd_status := RG_DEACTIVATING\<rparr>)
         ({?n} \<union> (set (rs_dialogues s) - {d}))" using r(7) by simp
  qed (use r(1-6) es st p n in simp_all)
qed

lemma begin_known_valid:
  assumes valid: "rg_valid s" and wf: "well_formed_transaction s tx" and new: "new_to s tx"
    and es: "tx_events tx = [a]" and a: "re_payload a = DeactivationStarted h"
    and st: "ph_started_sequence h = re_sequence a"
    and x: "x \<in> set (rs_dialogues s)" "rd_session_id x = tg_session_id (ph_target h)"
      "rd_status x = RG_CREATED" "rd_config_digest x = tg_config_digest (ph_target h)"
    and cur: "rs_pending_handoff s = None" "rs_current_session_id s = Some (ph_source_session_id h)"
    and d: "d \<in> set (rs_dialogues s)" "rd_session_id d = ph_source_session_id h" "rd_status d = RG_ACTIVE"
    and gen: "ph_generation h = rs_generation s + 1"
  shows "next_valid s tx"
proof -
  note p = single_sequence [OF wf new es]
  from move_begin_known [OF rg_valid_distinct [OF valid] a d(1,2)] obtain r where
      r: "fold_events apply_registry_event s [a] = Inr r" "kept_fields s r"
      "rs_sequence r = re_sequence a" "rs_generation r = ph_generation h"
      "rs_current_session_id r = rs_current_session_id s" "rs_pending_handoff r = Some h"
      "set (rs_dialogues r) = insert (d\<lparr>rd_status := RG_DEACTIVATING\<rparr>) (set (rs_dialogues s) - {d})"
    by (elim exE conjE) (rule that)
  have h: "rg_valid_pending h" using p(2) a by simp
  show ?thesis
  proof (rule started_valid [OF valid wf new h gen _ cur d, where r = r and N = "{}" and x = x])
    show "set (rs_dialogues r) = insert (d\<lparr>rd_status := RG_DEACTIVATING\<rparr>)
         ({} \<union> (set (rs_dialogues s) - {d}))" using r(7) by simp
  qed (use r(1-6) es st p(1) x in simp_all)
qed

text \<open>Each of the four moves leads to a valid state.\<close>

lemma move_valid:
  assumes valid: "rg_valid s" and wf: "well_formed_transaction s tx" and new: "new_to s tx"
    and move: "registry_move s (tx_events tx)"
  shows "next_valid s tx"
  using move
proof (cases rule: registry_move.cases)
  case (first_dialogue a t b hid)
  then show ?thesis by (rule first_valid [OF valid wf new])
next
  case (begin_with_new a h b d)
  then show ?thesis by (rule begin_new_valid [OF valid wf new])
next
  case (begin_with_known a h x d)
  then show ?thesis by (rule begin_known_valid [OF valid wf new])
next
  case (complete_pending a q b h)
  then show ?thesis by (rule completed_valid [OF valid wf new])
qed

lemma replay_false_new:
  assumes "is_replay s tx = Inr False"
  shows "receipt_for_command s (re_command_id (hd (tx_events tx))) = None"
    and "\<forall>r \<in> set (rs_receipts s). rc_transaction_id r \<noteq> tx_transaction_id tx"
  using assms
  by (auto simp: is_replay_def Let_def list_ex_iff split: option.splits if_splits)

text \<open>The final check of \<open>reduce\<close> never fails.\<close>

lemma validated_is_applied:
  assumes "validate_transaction s tx = Inr b"
  shows "\<exists>s'. rg_reduce s tx = Inr s' \<and> (b \<longrightarrow> s' = s)"
proof (cases b)
  case True
  with assms have "receipt_for_command s (re_command_id (hd (tx_events tx))) \<noteq> None"
    by (auto simp: validate_transaction_iff is_replay_def Let_def split: option.splits if_splits)
  with assms show ?thesis by (simp add: rg_reduce_def)
next
  case False
  with assms have v: "rg_valid s" "well_formed_transaction s tx" "is_replay s tx = Inr False"
    "applicable_transaction s tx" by (simp_all add: validate_transaction_iff)
  note n = replay_false_new [OF v(3)]
  have new: "new_to s tx" using n v(4) by (auto simp: new_to_def applicable_transaction_def list_all_iff)
  have "registry_move s (tx_events tx)"
    using v(4) shape_move [OF rg_valid_distinct [OF v(1)]] by (simp add: applicable_transaction_def)
  from move_valid [OF v(1,2) new this] show ?thesis
    using assms n(1) False by (auto simp: rg_reduce_def next_valid_def Let_def)
qed

section \<open>A decision is validated\<close>

definition pending_of :: "registry_command \<Rightarrow> registry_payload \<Rightarrow> pending_registry_event" where
  "pending_of c p =
     \<lparr>pr_command_id = rh_command_id (rc_head c), pr_body_digest = rh_body_digest (rc_head c),
      pr_payload = p\<rparr>"

text \<open>What the payloads of an accepted command satisfy, once numbered.\<close>

definition payloads_fit :: "registry_state \<Rightarrow> registry_payload list \<Rightarrow> bool" where
  "payloads_fit s qs \<longleftrightarrow>
     qs \<noteq> [] \<and> length qs \<le> 2 \<and> list_all rg_valid_payload qs
     \<and> list_all (\<lambda>q. 0 \<le> payload_generation s q
                     \<and> expected_generation s q = Some (payload_generation s q)) qs
     \<and> (\<forall>es. map re_payload es = qs \<and> map re_sequence es = [rs_sequence s + 1 .. rs_sequence s + int (length qs)]
          \<longrightarrow> valid_transaction_shape s es)"

lemma payloads_fit_single:
  assumes "rg_valid_payload p" and "0 \<le> payload_generation s p"
    and "expected_generation s p = Some (payload_generation s p)"
    and "\<And>a. \<lbrakk>re_payload a = p; re_sequence a = rs_sequence s + 1\<rbrakk> \<Longrightarrow> valid_transaction_shape s [a]"
  shows "payloads_fit s [p]"
  using assms by (auto simp: payloads_fit_def)

lemma payloads_fit_pair:
  assumes "rg_valid_payload p" and "0 \<le> payload_generation s p"
    and "expected_generation s p = Some (payload_generation s p)"
    and "rg_valid_payload q" and "0 \<le> payload_generation s q"
    and "expected_generation s q = Some (payload_generation s q)"
    and "\<And>a b. \<lbrakk>re_payload a = p; re_payload b = q; re_sequence b = rs_sequence s + 2\<rbrakk>
           \<Longrightarrow> valid_transaction_shape s [a, b]"
  shows "payloads_fit s [p, q]"
  using assms by (auto simp: payloads_fit_def upto_two)

lemma accept_create:
  assumes valid: "rg_valid s" and t: "rg_valid_target t"
    and d: "decide_create s c t = RegistryAccepted ps"
  shows "\<exists>qs. ps = map (pending_of c) qs \<and> payloads_fit s qs"
proof -
  let ?a = "Activated t (rs_generation s + 1) AK_INITIAL None"
  from d have ps: "ps = map (pending_of c) [DialogueCreated t, ?a]"
    and n: "rs_current_session_id s = None" "rs_pending_handoff s = None"
      "dialogue_by_id (rs_dialogues s) (tg_session_id t) = None"
    by (auto simp: decide_create_def rg_accept_def pending_of_def split: if_splits)
  have "payloads_fit s [DialogueCreated t, ?a]"
    using t n valid_sequence [OF valid]
    by (intro payloads_fit_pair)
      (auto simp: valid_transaction_shape_def is_optional_protocol_id_def)
  with ps show ?thesis by blast
qed

lemma accept_begin:
  assumes valid: "rg_valid s" and v: "rg_valid_command_body (BeginHandoff hd' hid src t)"
    and d: "decide_begin s c hid src t = RegistryAccepted ps"
  shows "\<exists>qs. ps = map (pending_of c) qs \<and> payloads_fit s qs"
proof -
  define h where "h = (\<lambda>n. \<lparr>ph_handoff_id = hid, ph_source_session_id = src, ph_target = t,
      ph_generation = rs_generation s + 1, ph_started_sequence = rs_sequence s + n\<rparr>)"
  have g: "0 \<le> rs_generation s" "0 \<le> rs_sequence s" using valid_sequence [OF valid] by simp_all
  have vh: "rg_valid_pending (h n)" if "1 \<le> n" for n
    using v g that by (simp add: h_def rg_valid_pending_def)
  from d obtain x where cur: "rs_pending_handoff s = None" "rs_current_session_id s = Some src"
      "dialogue_by_id (rs_dialogues s) src = Some x" "rd_status x = RG_ACTIVE"
    by (auto simp: decide_begin_def split: if_splits option.splits)
  then have b: "valid_begin_context s (h n)" for n by (simp add: valid_begin_context_def h_def)
  show ?thesis
  proof (cases "dialogue_by_id (rs_dialogues s) (tg_session_id t)")
    case None
    with d cur have ps: "ps = map (pending_of c) [DialogueCreated t, DeactivationStarted (h 2)]"
      by (auto simp: decide_begin_def rg_accept_def pending_of_def h_def Let_def split: if_splits)
    have "payloads_fit s [DialogueCreated t, DeactivationStarted (h 2)]"
      using v g None b [of 2] vh [of 2]
      by (intro payloads_fit_pair) (auto simp: valid_transaction_shape_def h_def)
    with ps show ?thesis by blast
  next
    case (Some y)
    with d cur have ps: "ps = map (pending_of c) [DeactivationStarted (h 1)]"
      and y: "rd_status y = RG_CREATED" "rd_config_digest y = tg_config_digest t"
      by (auto simp: decide_begin_def rg_accept_def pending_of_def h_def Let_def split: if_splits)
    have "payloads_fit s [DeactivationStarted (h 1)]"
      using v g Some y b [of 1] vh [of 1]
      by (intro payloads_fit_single) (auto simp: valid_transaction_shape_def h_def)
    with ps show ?thesis by blast
  qed
qed

lemma accept_complete:
  assumes valid: "rg_valid s" and v: "rg_valid_command_body (CompleteHandoff hd' hid q)"
    and d: "decide_complete s c hid q = RegistryAccepted ps"
  shows "\<exists>qs. ps = map (pending_of c) qs \<and> payloads_fit s qs"
proof -
  from d obtain h where h: "rs_pending_handoff s = Some h" "proof_matches_pending q h"
      "ps = map (pending_of c) [Deactivated q,
         Activated (ph_target h) (ph_generation h) AK_HANDOFF (Some (ph_handoff_id h))]"
    by (auto simp: decide_complete_def rg_accept_def pending_of_def split: if_splits option.splits)
  have g: "ph_generation h = rs_generation s" "0 \<le> rs_generation s"
    using rg_valid_authority [OF valid] valid_sequence [OF valid] h(1)
    by (simp_all add: authority_pending)
  have "rg_valid_pending h" using valid h(1) by (rule valid_pending)
  then have "payloads_fit s [Deactivated q,
      Activated (ph_target h) (ph_generation h) AK_HANDOFF (Some (ph_handoff_id h))]"
    using h v g
    by (intro payloads_fit_pair)
      (auto simp: valid_transaction_shape_def proof_matches_pending_def rg_valid_pending_def
        is_optional_protocol_id_def)
  with h(3) show ?thesis by blast
qed

lemma rg_decide_AcceptedD:
  assumes "rg_decide s c = RegistryAccepted ps"
  shows "rg_valid s \<and> rg_valid_command c
    \<and> receipt_for_command s (rh_command_id (rc_head c)) = None
    \<and> rh_expected_sequence (rc_head c) = rs_sequence s
    \<and> rh_expected_generation (rc_head c) = rs_generation s
    \<and> (\<exists>qs. ps = map (pending_of c) qs \<and> payloads_fit s qs)"
proof -
  have a: "rg_valid s" "rg_valid_command c"
    "receipt_for_command s (rh_command_id (rc_head c)) = None"
    "rh_expected_sequence (rc_head c) = rs_sequence s"
    "rh_expected_generation (rc_head c) = rs_generation s"
    using assms by (auto simp: rg_decide_def split: if_splits option.splits)
  then have b: "rg_valid_command_body c" by (simp add: rg_valid_command_def)
  have "\<exists>qs. ps = map (pending_of c) qs \<and> payloads_fit s qs"
  proof (cases c)
    case (CreateAndActivateDialogue k t)
    with assms a b show ?thesis by (intro accept_create [of s t]) (simp_all add: rg_decide_def)
  next
    case (BeginHandoff k hid src t)
    with assms a b show ?thesis
      by (intro accept_begin [of s k hid src t]) (simp_all add: rg_decide_def)
  next
    case (CompleteHandoff k hid q)
    with assms a b show ?thesis
      by (intro accept_complete [of s k hid q]) (simp_all add: rg_decide_def)
  qed
  with a show ?thesis by blast
qed

section \<open>A decision commits\<close>

text \<open>
  The ids a coordinator draws for a batch are fresh, and the digest of the numbered
  transaction is none of an earlier one (which a collision-free hash guarantees).
\<close>

definition digest_unused ::
  "registry_state \<Rightarrow> pystr \<Rightarrow> pystr list \<Rightarrow> pending_registry_event list \<Rightarrow> bool" where
  "digest_unused s tid ids ps =
     (case number_batch s (rs_sequence s + 1) ids ps of
        Inl _ \<Rightarrow> True
      | Inr es \<Rightarrow>
          (case transaction_digest \<lparr>tx_transaction_id = tid, tx_transaction_digest = [],
                                    tx_events = es\<rparr> of
             Inl _ \<Rightarrow> True
           | Inr d \<Rightarrow> list_all (\<lambda>r. rc_transaction_digest r \<noteq> d) (rs_receipts s)))"

definition fresh_ids :: "registry_state \<Rightarrow> pystr \<Rightarrow> pystr list \<Rightarrow> bool" where
  "fresh_ids s tid ids \<longleftrightarrow>
     is_protocol_id tid \<and> list_all is_protocol_id ids \<and> distinct ids
     \<and> list_all (\<lambda>r. rc_transaction_id r \<noteq> tid) (rs_receipts s)
     \<and> list_all (\<lambda>i. i \<notin> set (receipt_event_ids s)) ids"

text \<open>What numbering and digesting a decided batch gives.\<close>

definition numbered ::
  "registry_state \<Rightarrow> registry_command \<Rightarrow> pystr list \<Rightarrow> registry_payload list
    \<Rightarrow> committed_registry_event list \<Rightarrow> bool" where
  "numbered s c ids qs es \<longleftrightarrow>
     map re_event_id es = ids \<and> map re_payload es = qs \<and> length es = length qs
     \<and> map re_sequence es = [rs_sequence s + 1 .. rs_sequence s + int (length qs)]
     \<and> map re_generation es = map (payload_generation s) qs
     \<and> list_all (\<lambda>e. re_command_id e = rh_command_id (rc_head c)
                     \<and> re_body_digest e = rh_body_digest (rc_head c)) es
     \<and> list_all rg_valid_envelope es \<and> validate_all validate_committed_event es = Inr ()"

lemma decision_numbers:
  assumes "rg_valid_command c" and "payloads_fit s qs" and "length ids = length qs"
    and "list_all is_protocol_id ids" and "0 \<le> rs_sequence s"
  shows "\<exists>es. number_batch s (rs_sequence s + 1) ids (map (pending_of c) qs) = Inr es
    \<and> numbered s c ids qs es"
proof -
  have "list_all (\<lambda>p. rg_valid_payload (pr_payload p) \<and> 0 \<le> payload_generation s (pr_payload p)
      \<and> is_protocol_id (pr_command_id p) \<and> is_sha256_digest (pr_body_digest p)) (map (pending_of c) qs)"
    using assms(1,2) by (auto simp: payloads_fit_def list_all_iff pending_of_def rg_valid_command_def)
  moreover have "length ids = length (map (pending_of c) qs)" "1 \<le> rs_sequence s + 1"
    using assms(3,5) by simp_all
  ultimately have "\<exists>es. number_batch s (rs_sequence s + 1) ids (map (pending_of c) qs) = Inr es
      \<and> map re_event_id es = ids \<and> map re_payload es = map pr_payload (map (pending_of c) qs)
      \<and> map re_sequence es
         = [rs_sequence s + 1 .. rs_sequence s + 1 + int (length (map (pending_of c) qs)) - 1]
      \<and> map re_generation es = map (\<lambda>p. payload_generation s (pr_payload p)) (map (pending_of c) qs)
      \<and> map re_command_id es = map pr_command_id (map (pending_of c) qs)
      \<and> map re_body_digest es = map pr_body_digest (map (pending_of c) qs)
      \<and> list_all rg_valid_envelope es \<and> validate_all validate_committed_event es = Inr ()"
    using assms(4) by (intro number_batch_ok)
  then obtain es where es: "number_batch s (rs_sequence s + 1) ids (map (pending_of c) qs) = Inr es"
      "map re_event_id es = ids" "map re_payload es = map pr_payload (map (pending_of c) qs)"
      "map re_sequence es
         = [rs_sequence s + 1 .. rs_sequence s + 1 + int (length (map (pending_of c) qs)) - 1]"
      "map re_generation es = map (\<lambda>p. payload_generation s (pr_payload p)) (map (pending_of c) qs)"
      "map re_command_id es = map pr_command_id (map (pending_of c) qs)"
      "map re_body_digest es = map pr_body_digest (map (pending_of c) qs)"
      "list_all rg_valid_envelope es" "validate_all validate_committed_event es = Inr ()"
    by (elim exE conjE) (rule that)
  have "list_all (\<lambda>e. re_command_id e = rh_command_id (rc_head c)) es"
    by (rule map_const [OF es(6)]) (auto simp: pending_of_def)
  moreover have "list_all (\<lambda>e. re_body_digest e = rh_body_digest (rc_head c)) es"
    by (rule map_const [OF es(7)]) (auto simp: pending_of_def)
  moreover have "length es = length qs" using es(3) by (metis length_map)
  moreover have "map re_payload es = qs" "map re_generation es = map (payload_generation s) qs"
    using es(3,5) by (simp_all add: pending_of_def comp_def)
  moreover have "map re_sequence es = [rs_sequence s + 1 .. rs_sequence s + int (length qs)]"
    unfolding es(4) by (simp only: length_map add.commute add.left_commute add_diff_cancel_left')
  ultimately have "numbered s c ids qs es"
    unfolding numbered_def list_all_conj using es(2,8,9) by blast
  with es(1) show ?thesis by blast
qed

lemma numbered_head:
  assumes "numbered s c ids qs es" and "qs \<noteq> []"
  shows "re_command_id (hd es) = rh_command_id (rc_head c)"
    and "re_body_digest (hd es) = rh_body_digest (rc_head c)"
    and "re_sequence (hd es) = rs_sequence s + 1"
    and "same_command es"
proof -
  have n: "map re_sequence es = [rs_sequence s + 1 .. rs_sequence s + int (length qs)]"
    "list_all (\<lambda>e. re_command_id e = rh_command_id (rc_head c)
                   \<and> re_body_digest e = rh_body_digest (rc_head c)) es"
    "length es = length qs"
    using assms(1) unfolding numbered_def by blast+
  have e: "es \<noteq> []" using n(3) assms(2) by (metis length_0_conv)
  from list_all_head [OF n(2) e] show k: "re_command_id (hd es) = rh_command_id (rc_head c)"
    "re_body_digest (hd es) = rh_body_digest (rc_head c)" by blast+
  then show "same_command es" using n(2) by (simp add: same_command_def)
  have "\<exists>rest. [rs_sequence s + 1 .. rs_sequence s + int (length qs)] = (rs_sequence s + 1) # rest"
    using assms(2) by (subst upto_rec1) (simp_all add: Suc_le_eq)
  with n(1) e show "re_sequence (hd es) = rs_sequence s + 1" by (cases es) auto
qed

lemma numbered_applicable:
  assumes "numbered s c ids qs es" and "payloads_fit s qs"
    and "list_all (\<lambda>i. i \<notin> set (receipt_event_ids s)) ids"
  shows "applicable_transaction s \<lparr>tx_transaction_id = tid, tx_transaction_digest = d, tx_events = es\<rparr>"
proof -
  have "expected_generation s (re_payload e) = Some (re_generation e)" if e: "e \<in> set es" for e
  proof -
    obtain i where i: "i < length es" "e = es ! i" using e by (auto simp: in_set_conv_nth)
    have "re_payload e = qs ! i" "re_generation e = payload_generation s (qs ! i)" "i < length qs"
      using assms(1) i by (metis (no_types, lifting) length_map nth_map numbered_def)+
    with assms(2) show ?thesis by (simp add: payloads_fit_def list_all_length)
  qed
  moreover have "valid_transaction_shape s es"
    using assms(1,2) by (simp add: payloads_fit_def numbered_def)
  moreover have "list_all (\<lambda>e. re_event_id e \<notin> set (receipt_event_ids s)) es"
    using assms(1,3) by (auto simp: numbered_def list_all_iff)
  ultimately show ?thesis
    by (simp add: applicable_transaction_def list_all_iff valid_event_generation_def)
qed

lemma numbered_valid:
  assumes "numbered s c ids qs es" and "payloads_fit s qs" and "fresh_ids s tid ids"
    and "is_sha256_digest d"
    and "transaction_digest \<lparr>tx_transaction_id = tid, tx_transaction_digest = d, tx_events = es\<rparr> = Inr d"
  shows "validate_committed_registry_transaction
      \<lparr>tx_transaction_id = tid, tx_transaction_digest = d, tx_events = es\<rparr> = Inr ()"
    and "well_formed_transaction s \<lparr>tx_transaction_id = tid, tx_transaction_digest = d, tx_events = es\<rparr>"
proof -
  have q: "qs \<noteq> []" "length qs \<le> 2" using assms(2) by (simp_all add: payloads_fit_def)
  note h = numbered_head [OF assms(1) q(1)]
  have n: "length es = length qs" "1 \<le> length es" "map re_event_id es = ids"
    "map re_sequence es = [rs_sequence s + 1 .. rs_sequence s + int (length es)]"
    "list_all rg_valid_envelope es" "validate_all validate_committed_event es = Inr ()"
    using assms(1) q by (simp_all add: numbered_def Suc_le_eq)
  have f: "is_protocol_id tid" "distinct ids" using assms(3) by (simp_all add: fresh_ids_def)
  show "validate_committed_registry_transaction
      \<lparr>tx_transaction_id = tid, tx_transaction_digest = d, tx_events = es\<rparr> = Inr ()"
    unfolding validate_committed_registry_transaction_def Let_def registry_transaction.simps
    using f n q(2) h(3,4) assms(4,5) by simp
  show "well_formed_transaction s \<lparr>tx_transaction_id = tid, tx_transaction_digest = d, tx_events = es\<rparr>"
    using f n q(2) h(4) assms(4) by (simp add: well_formed_transaction_def same_command_def)
qed

lemma decision_builds:
  assumes "rg_decide s c = RegistryAccepted ps" and "length ids = length ps"
    and fresh: "fresh_ids s tid ids" and unused: "digest_unused s tid ids ps"
  shows "\<exists>tx. build_committed_registry_transaction s ps tid ids = Inr tx
    \<and> validate_transaction s tx = Inr False
    \<and> re_command_id (hd (tx_events tx)) = rh_command_id (rc_head c)
    \<and> re_body_digest (hd (tx_events tx)) = rh_body_digest (rc_head c)"
proof -
  from rg_decide_AcceptedD [OF assms(1)] obtain qs where
      s: "rg_valid s" "rg_valid_command c"
      "receipt_for_command s (rh_command_id (rc_head c)) = None"
    and qs: "ps = map (pending_of c) qs" "payloads_fit s qs" by blast
  have f: "is_protocol_id tid" "list_all is_protocol_id ids" "distinct ids"
    "list_all (\<lambda>r. rc_transaction_id r \<noteq> tid) (rs_receipts s)"
    "list_all (\<lambda>i. i \<notin> set (receipt_event_ids s)) ids"
    using fresh by (simp_all add: fresh_ids_def)
  have q: "qs \<noteq> []" "length qs \<le> 2" "length ids = length qs"
    using qs assms(2) by (simp_all add: payloads_fit_def)
  from decision_numbers [OF s(2) qs(2) q(3) f(2)] valid_sequence [OF s(1)] obtain es where
      es: "number_batch s (rs_sequence s + 1) ids ps = Inr es" "numbered s c ids qs es"
    using qs(1) by blast
  let ?tx = "\<lambda>d. \<lparr>tx_transaction_id = tid, tx_transaction_digest = d, tx_events = es\<rparr>"
  from es(2) have "list_all rg_valid_envelope es" by (simp add: numbered_def)
  from sign_transaction_ok [OF f(1) this] obtain d where
      d: "sign_transaction (?tx []) = Inr (?tx d)" "is_sha256_digest d"
      "transaction_digest (?tx d) = Inr d" by blast
  note v = numbered_valid [OF es(2) qs(2) fresh d(2,3)]
  note h = numbered_head [OF es(2) q(1)]
  have "transaction_digest (?tx []) = Inr d" using d(3) by (simp add: transaction_digest_def)
  then have "list_all (\<lambda>r. rc_transaction_digest r \<noteq> d) (rs_receipts s)"
    using unused es(1) by (simp add: digest_unused_def)
  then have "is_replay s (?tx d) = Inr False"
    using s(3) h(1) f(4) by (auto simp: is_replay_def list_ex_iff list_all_iff)
  with s(1) v(2) numbered_applicable [OF es(2) qs(2) f(5)]
  have t: "validate_transaction s (?tx d) = Inr False" by (simp add: validate_transaction_iff)
  have b: "list_all (\<lambda>p. pr_command_id p = pr_command_id (hd ps)
      \<and> pr_body_digest p = pr_body_digest (hd ps)) ps"
    "is_protocol_id (pr_command_id (hd ps))" "is_sha256_digest (pr_body_digest (hd ps))"
    "ps \<noteq> []" "\<not> 2 < length ps"
    using qs(1) q s(2) by (auto simp: list_all_iff pending_of_def hd_map rg_valid_command_def)
  have "build_committed_registry_transaction s ps tid ids = Inr (?tx d)"
    unfolding build_committed_registry_transaction_def
    by (simp only: b f assms(2) es(1) d(1) v(1) t not_True_eq_False simp_thms if_False andthen_simps)
  with t h(1,2) show ?thesis by (intro exI [of _ "?tx d"]) simp
qed

end
