(* ===== verification/Registry_Properties.thy ===== *)
theory Registry_Properties
  imports Registry_Decide "HOL-Library.Sublist"
begin

text \<open>
  The properties of the session registry, over a small history: a first session, the start
  of its hand-off to a second one, and its completion.
\<close>

section \<open>A sample history\<close>

definition rg_digest :: pystr where
  "rg_digest = py ''sha256:'' @ replicate 64 48"

definition sample_target :: "pystr \<Rightarrow> activate_target" where
  "sample_target sid = \<lparr>tg_session_id = sid, tg_config_digest = rg_digest\<rparr>"

definition sample_handoff :: pending_handoff where
  "sample_handoff =
     \<lparr>ph_handoff_id = py ''handoff1'', ph_source_session_id = py ''session1'',
      ph_target = sample_target (py ''session2''), ph_generation = 2, ph_started_sequence = 4\<rparr>"

definition sample_proof :: quiesce_proof where
  "sample_proof =
     \<lparr>qp_source_session_id = py ''session1'', qp_target = sample_target (py ''session2''),
      qp_handoff_id = py ''handoff1'', qp_generation = 2, qp_last_sequence = 1,
      qp_last_event_id = py ''event1'', qp_event_digest = rg_digest,
      qp_transaction_digest = rg_digest, qp_state_digest = rg_digest\<rparr>"

definition registry_event ::
  "pystr \<Rightarrow> pystr \<Rightarrow> int \<Rightarrow> int \<Rightarrow> registry_payload \<Rightarrow> committed_registry_event" where
  "registry_event eid cid n g p =
     \<lparr>re_event_id = eid, re_event_digest = rg_digest, re_sequence = n, re_generation = g,
      re_command_id = cid, re_body_digest = rg_digest, re_payload = p\<rparr>"

definition digest_of :: "nat \<Rightarrow> pystr" where
  "digest_of c = py ''sha256:'' @ replicate 64 c"

definition create_transaction :: registry_transaction where
  "create_transaction =
     \<lparr>tx_transaction_id = py ''tx1'', tx_transaction_digest = digest_of 49, tx_events =
        [registry_event (py ''e1'') (py ''cmd1'') 1 0 (DialogueCreated (sample_target (py ''session1''))),
         registry_event (py ''e2'') (py ''cmd1'') 2 1
           (Activated (sample_target (py ''session1'')) 1 AK_INITIAL None)]\<rparr>"

definition begin_transaction :: registry_transaction where
  "begin_transaction =
     \<lparr>tx_transaction_id = py ''tx2'', tx_transaction_digest = digest_of 50, tx_events =
        [registry_event (py ''e3'') (py ''cmd2'') 3 1 (DialogueCreated (sample_target (py ''session2''))),
         registry_event (py ''e4'') (py ''cmd2'') 4 2 (DeactivationStarted sample_handoff)]\<rparr>"

definition complete_transaction :: registry_transaction where
  "complete_transaction =
     \<lparr>tx_transaction_id = py ''tx3'', tx_transaction_digest = digest_of 51, tx_events =
        [registry_event (py ''e5'') (py ''cmd3'') 5 2 (Deactivated sample_proof),
         registry_event (py ''e6'') (py ''cmd3'') 6 2
           (Activated (sample_target (py ''session2'')) 2 AK_HANDOFF (Some (py ''handoff1'')))]\<rparr>"

definition registered_session ::
  "pystr \<Rightarrow> registration_status \<Rightarrow> int \<Rightarrow> int option \<Rightarrow> registered_dialogue" where
  "registered_session sid st n a =
     \<lparr>rd_session_id = sid, rd_config_digest = rg_digest, rd_status = st,
      rd_created_sequence = n, rd_activated_generation = a, rd_deactivated_generation = None,
      rd_deactivation_handoff_id = None\<rparr>"

definition empty_registry :: registry_state where
  "empty_registry =
     \<lparr>rs_registry_id = py ''registry1'', rs_sequence = 0, rs_generation = 0,
      rs_current_session_id = None, rs_dialogues = [], rs_pending_handoff = None,
      rs_receipts = []\<rparr>"

definition active_registry :: registry_state where
  "active_registry = empty_registry\<lparr>rs_sequence := 2, rs_generation := 1,
     rs_current_session_id := Some (py ''session1''),
     rs_dialogues := [registered_session (py ''session1'') RG_ACTIVE 1 (Some 1)],
     rs_receipts := [receipt_of create_transaction]\<rparr>"

definition handing_registry :: registry_state where
  "handing_registry = active_registry\<lparr>rs_sequence := 4, rs_generation := 2,
     rs_dialogues := [registered_session (py ''session1'') RG_DEACTIVATING 1 (Some 1),
                      registered_session (py ''session2'') RG_CREATED 3 None],
     rs_pending_handoff := Some sample_handoff,
     rs_receipts := [receipt_of create_transaction, receipt_of begin_transaction]\<rparr>"

definition handed_registry :: registry_state where
  "handed_registry = handing_registry\<lparr>rs_sequence := 6,
     rs_current_session_id := Some (py ''session2''),
     rs_dialogues := [deactivated_by sample_proof
                        (registered_session (py ''session1'') RG_DEACTIVATING 1 (Some 1)),
                      registered_session (py ''session2'') RG_ACTIVE 3 (Some 2)],
     rs_pending_handoff := None,
     rs_receipts := [receipt_of create_transaction, receipt_of begin_transaction,
                     receipt_of complete_transaction]\<rparr>"

lemma registry_create_step: "rg_reduce empty_registry create_transaction = Inr active_registry"
  by code_simp

lemma registry_begin_step: "rg_reduce active_registry begin_transaction = Inr handing_registry"
  by code_simp

lemma registry_complete_step: "rg_reduce handing_registry complete_transaction = Inr handed_registry"
  by code_simp

lemma sample_log:
  "fold_events rg_reduce empty_registry [create_transaction, begin_transaction, complete_transaction]
     = Inr handed_registry"
  by (simp add: registry_create_step registry_begin_step registry_complete_step)

lemma empty_registry_initial: "initial_registry_state (py ''registry1'') = Inr empty_registry"
  by code_simp

lemma empty_registry_valid: "rg_valid empty_registry"
  by code_simp

section \<open>Decisions and transactions\<close>

text \<open>
  C21.  A registry command that is accepted takes effect exactly once: under fresh ids its
  events can be numbered, digested and built into a transaction, the registry applies that
  transaction and reaches a valid state, and from then on, whatever else is applied, the
  same command is answered with the receipt of that transaction.
\<close>

theorem registry_decision_commits:
  assumes "rg_decide s c = RegistryAccepted ps" and "length ids = length ps"
    and "fresh_ids s tid ids" and "digest_unused s tid ids ps"
  shows "\<exists>tx s'. build_committed_registry_transaction s ps tid ids = Inr tx
    \<and> rg_reduce s tx = Inr s' \<and> rg_valid s'
    \<and> (\<forall>txs t. fold_events rg_reduce s' txs = Inr t \<longrightarrow>
         (\<exists>r. rg_decide t c = RegistryIdempotent r \<and> exact_receipt_match r tx))"
proof -
  from decision_builds [OF assms] obtain tx where
      tx: "build_committed_registry_transaction s ps tid ids = Inr tx"
      "validate_transaction s tx = Inr False"
      "re_command_id (hd (tx_events tx)) = rh_command_id (rc_head c)"
      "re_body_digest (hd (tx_events tx)) = rh_body_digest (rc_head c)" by blast
  from validated_is_applied [OF tx(2)] obtain s' where s': "rg_reduce s tx = Inr s'" by blast
  have "\<exists>r. rg_decide t c = RegistryIdempotent r \<and> exact_receipt_match r tx"
    if t: "fold_events rg_reduce s' txs = Inr t" for txs t
  proof (rule command_answered)
    show "receipt_held t tx"
      using rg_reduce_held [OF s'] registry_log_grows [OF t] by (rule receipt_held_grows)
    show "rg_valid t" using registry.step_valid [OF s'] t by (rule registry.fold_valid)
    show "rg_valid_command c" using rg_decide_AcceptedD [OF assms(1)] by blast
  qed (simp_all add: tx)
  with tx(1) s' registry.step_valid [OF s'] show ?thesis by blast
qed

definition create_command :: registry_command where
  "create_command = CreateAndActivateDialogue
     \<lparr>rh_command_id = py ''cmd1'', rh_body_digest = rg_digest, rh_expected_sequence = 0,
      rh_expected_generation = 0\<rparr> (sample_target (py ''session1''))"

definition create_batch :: "pending_registry_event list" where
  "create_batch = map (pending_of create_command)
     [DialogueCreated (sample_target (py ''session1'')),
      Activated (sample_target (py ''session1'')) 1 AK_INITIAL None]"

theorem registry_decision_commits_witness:
  "\<exists>tx s'. build_committed_registry_transaction empty_registry create_batch (py ''tx1'')
        [py ''e1'', py ''e2''] = Inr tx
    \<and> rg_reduce empty_registry tx = Inr s' \<and> rg_valid s'
    \<and> (\<forall>txs t. fold_events rg_reduce s' txs = Inr t \<longrightarrow>
         (\<exists>r. rg_decide t create_command = RegistryIdempotent r \<and> exact_receipt_match r tx))"
proof (rule registry_decision_commits)
  show "rg_decide empty_registry create_command = RegistryAccepted create_batch" by code_simp
  show "fresh_ids empty_registry (py ''tx1'') [py ''e1'', py ''e2'']" by code_simp
  show "digest_unused empty_registry (py ''tx1'') [py ''e1'', py ''e2''] create_batch"
    by (simp add: digest_unused_def empty_registry_def split: sum.split)
qed (simp add: create_batch_def)

text \<open>
  C22.  The validation of a transaction is complete: the registry applies a transaction
  exactly when the validation lets it through, so the check of the resulting state, which
  comes after the effects, never fails.
\<close>

theorem registry_validation_is_complete:
  "(\<exists>s'. rg_reduce s tx = Inr s') \<longleftrightarrow> (\<exists>b. validate_transaction s tx = Inr b)"
proof
  assume "\<exists>s'. rg_reduce s tx = Inr s'"
  then show "\<exists>b. validate_transaction s tx = Inr b"
    by (auto simp: rg_reduce_def andthen_eq_Inr_iff)
next
  assume "\<exists>b. validate_transaction s tx = Inr b"
  then show "\<exists>s'. rg_reduce s tx = Inr s'" using validated_is_applied by blast
qed

text \<open>
  C16.  One writer at a time, one generation each: along any log of a registry at most one
  dialogue is active or being deactivated, it is the current session, and no two dialogues
  are ever activated under the same generation.
\<close>

theorem one_writer_per_generation:
  assumes "initial_registry_state rid = Inr s0" and "fold_events rg_reduce s0 txs = Inr s"
    and "d \<in> set (rs_dialogues s)" and "e \<in> set (rs_dialogues s)"
  shows "(rd_status d \<in> {RG_ACTIVE, RG_DEACTIVATING} \<longrightarrow>
           rs_current_session_id s = Some (rd_session_id d))
    \<and> (rd_status d \<in> {RG_ACTIVE, RG_DEACTIVATING} \<longrightarrow>
         rd_status e \<in> {RG_ACTIVE, RG_DEACTIVATING} \<longrightarrow> d = e)
    \<and> (rd_activated_generation d \<noteq> None \<longrightarrow>
         rd_activated_generation d = rd_activated_generation e \<longrightarrow> d = e)"
proof -
  from assms(1) have s0: "rg_valid s0" "generations_distinct s0"
    by (auto simp: initial_registry_state_def rg_valid_def rg_fields_def rg_unique_def
        rg_receipts_def rg_authority_def with_status_def receipt_event_ids_def fenced_def
        is_optional_protocol_id_def split: if_splits)
  have v: "rg_valid s" using s0(1) assms(2) by (rule registry.fold_valid)
  have g: "generations_distinct s" using s0(2) assms(2) by (rule registry_log_generations)
  have one: "rs_current_session_id s = Some (rd_session_id x)"
    if "x \<in> set (rs_dialogues s)" "rd_status x \<in> {RG_ACTIVE, RG_DEACTIVATING}" for x
    using rg_valid_authority [OF v] that
    by (cases "rs_pending_handoff s"; cases "rs_current_session_id s")
      (auto simp: authority_pending authority_writer authority_nobody)
  show ?thesis
    using one [OF assms(3)] one [OF assms(4)] fencedD [OF g assms(3,4)]
      same_id_same [OF rg_valid_distinct [OF v] assms(4,3)] by auto
qed

theorem one_writer_per_generation_witness:
  "let d = registered_session (py ''session2'') RG_ACTIVE 3 (Some 2) in
     rs_current_session_id handed_registry = Some (rd_session_id d)
     \<and> d \<in> set (rs_dialogues handed_registry)"
proof -
  have d: "registered_session (py ''session2'') RG_ACTIVE 3 (Some 2) \<in> set (rs_dialogues handed_registry)"
    by (simp add: handed_registry_def)
  from one_writer_per_generation [OF empty_registry_initial sample_log d d] d show ?thesis
    by (simp add: registered_session_def)
qed

text \<open>
  C15.  The registry refines the hand-off protocol: every transaction it applies leaves it
  as it was or appoints a first writer, opens the hand-off from the writer to a session
  that never wrote, or lets that session take over.
\<close>

theorem registry_refines_handoff:
  assumes "rg_reduce s tx = Inr s'"
  shows "s' = s \<or> authority_step (authority_of s) (authority_of s')"
  using assms by (rule rg_reduce_authority)

theorem registry_refines_handoff_witness:
  "authority_step (2, HandingOver (py ''handoff1'') (py ''session1'') (py ''session2''), {})
     (2, Writer (py ''session2''), {py ''session1''})"
proof -
  have "rs_sequence handed_registry \<noteq> rs_sequence handing_registry"
    by (simp add: handed_registry_def handing_registry_def)
  with registry_refines_handoff [OF registry_complete_step]
  have "authority_step (authority_of handing_registry) (authority_of handed_registry)" by metis
  moreover have "authority_of handing_registry
      = (2, HandingOver (py ''handoff1'') (py ''session1'') (py ''session2''), {})"
    by (auto simp: authority_of_def writer_of_def retired_iff handing_registry_def
        sample_handoff_def sample_target_def registered_session_def)
  moreover have "authority_of handed_registry = (2, Writer (py ''session2''), {py ''session1''})"
    by (auto simp: authority_of_def writer_of_def retired_iff handed_registry_def
        handing_registry_def registered_session_def)
  ultimately show ?thesis by simp
qed

section \<open>History\<close>

text \<open>
  A hand-off is final: a dialogue that was deactivated stays registered unchanged
  along every log, and is never again the current session nor the target of a hand-off.
\<close>

lemma deactivated_never_returns:
  assumes "fold_events rg_reduce s txs = Inr t" and "rg_valid s"
    and "d \<in> set (rs_dialogues s)" and "rd_status d = RG_DEACTIVATED"
  shows "d \<in> set (rs_dialogues t) \<and> rs_current_session_id t \<noteq> Some (rd_session_id d)
    \<and> (\<forall>h. rs_pending_handoff t = Some h \<longrightarrow>
         ph_source_session_id h \<noteq> rd_session_id d \<and> tg_session_id (ph_target h) \<noteq> rd_session_id d)"
proof -
  from registry_log_grows [OF assms(1)] assms(3,4) have d: "d \<in> set (rs_dialogues t)"
    by (auto simp: registry_grows_def dialogue_grows_def)
  have v: "rg_valid t" using assms(2,1) by (rule registry.fold_valid)
  have other: "rd_session_id x \<noteq> rd_session_id d"
    if "x \<in> set (rs_dialogues t)" "rd_status x \<noteq> RG_DEACTIVATED" for x
    using same_id_same [OF rg_valid_distinct [OF v] d that(1)] that(2) assms(4) by auto
  show ?thesis
  proof (cases "rs_pending_handoff t")
    case None
    have "rs_current_session_id t \<noteq> Some (rd_session_id d)"
    proof
      assume c: "rs_current_session_id t = Some (rd_session_id d)"
      obtain x where "x \<in> set (rs_dialogues t)" "rd_session_id x = rd_session_id d" "rd_status x = RG_ACTIVE"
        by (rule current_active [OF v None c])
      with other [of x] show False by simp
    qed
    with d None show ?thesis by simp
  next
    case (Some h)
    obtain x y where "x \<in> set (rs_dialogues t)" "rd_session_id x = ph_source_session_id h"
        "rd_status x = RG_DEACTIVATING" "y \<in> set (rs_dialogues t)"
        "rd_session_id y = tg_session_id (ph_target h)" "rd_status y = RG_CREATED"
        "rs_current_session_id t = Some (ph_source_session_id h)"
      by (rule pending_source [OF v Some])
    with other [of x] other [of y] d Some show ?thesis by simp
  qed
qed

text \<open>
  A registry log only grows: the generation never decreases, no receipt is lost, and
  a registered dialogue keeps its identity, its configuration digest and, once activated,
  its generation, while its status only moves forward from created over active and
  deactivating to deactivated.
\<close>

lemma registry_log_only_grows:
  assumes "fold_events rg_reduce s txs = Inr t"
  shows "rs_generation s \<le> rs_generation t \<and> prefix (rs_receipts s) (rs_receipts t)
    \<and> (\<forall>d \<in> set (rs_dialogues s). \<exists>e \<in> set (rs_dialogues t).
         rd_session_id e = rd_session_id d \<and> rd_config_digest e = rd_config_digest d
         \<and> status_rank (rd_status d) \<le> status_rank (rd_status e)
         \<and> (status_rank (rd_status d) = 0
              \<or> rd_activated_generation e = rd_activated_generation d))"
proof -
  from registry_log_grows [OF assms] have g: "rs_generation s \<le> rs_generation t"
    "\<exists>more. rs_receipts t = rs_receipts s @ more"
    "\<forall>d \<in> set (rs_dialogues s). \<exists>e \<in> set (rs_dialogues t). dialogue_grows d e"
    by (simp_all add: registry_grows_def)
  from g(3) have "\<forall>d \<in> set (rs_dialogues s). \<exists>e \<in> set (rs_dialogues t).
         rd_session_id e = rd_session_id d \<and> rd_config_digest e = rd_config_digest d
         \<and> status_rank (rd_status d) \<le> status_rank (rd_status e)
         \<and> (status_rank (rd_status d) = 0
              \<or> rd_activated_generation e = rd_activated_generation d)"
    unfolding dialogue_grows_def by blast
  with g(1,2) show ?thesis by (auto simp: prefix_def)
qed

text \<open>
  C35.  A transaction is applied at most once: applying it again, at once or after any
  further transactions, succeeds and changes nothing.
\<close>

theorem transaction_applied_once:
  assumes "rg_reduce s tx = Inr s'" and "fold_events rg_reduce s' txs = Inr t"
  shows "rg_reduce t tx = Inr t"
proof (rule rg_reduce_again [OF assms(1)])
  show "receipt_held t tx"
    using rg_reduce_held [OF assms(1)] registry_log_grows [OF assms(2)] by (rule receipt_held_grows)
  show "rg_valid t" using registry.step_valid [OF assms(1)] assms(2) by (rule registry.fold_valid)
qed

theorem transaction_applied_once_witness:
  "rg_reduce handed_registry create_transaction = Inr handed_registry"
proof (rule transaction_applied_once [OF registry_create_step])
  show "fold_events rg_reduce active_registry [begin_transaction, complete_transaction]
      = Inr handed_registry"
    by (simp add: registry_begin_step registry_complete_step)
qed

end
