(* ===== verification/Lease_Facts.thy ===== *)
theory Lease_Facts
  imports Lease_Encoding
begin

text \<open>
  Facts about readable histories: the last lease, the bounds on a whole history, the relation of
  neighbouring tenures, and the main one, that the transaction an operation seals after its
  checks is always one the history takes.
\<close>

section \<open>The last transaction\<close>

lemma snoc_step:
  assumes "valid_history (h @ [tx])"
  obtains hs hs' where "scan_history h = Inr hs" "seen h hs" "history_step hs tx = Inr hs'"
  using assms scan_seen by (auto simp: valid_history_snoc)

lemma last_transaction:
  assumes "valid_history h" and "h \<noteq> []"
  shows "lr_lease_version (lt_lease (last h)) = int (length h)"
    and "lr_renewed_at (lt_lease (last h)) = lt_recorded_at (last h)"
    and "lr_binding_digest (lt_lease (last h)) = rw_binding_digest (lt_work (last h))"
proof -
  from assms(2) obtain g tx where h: "h = g @ [tx]" by (cases h rule: rev_exhaust) auto
  from assms(1) [unfolded h] obtain hs hs' where s: "seen g hs" "history_step hs tx = Inr hs'"
    by (rule snoc_step)
  from s(2) have "own_fields hs tx \<and> lr_renewed_at (lt_lease tx) = lt_recorded_at tx"
    by (cases rule: history_step_cases)
      (auto simp: fresh_tenure_def renewal_fields_def reclaim_fields_def Let_def)
  with s(1) show "lr_lease_version (lt_lease (last h)) = int (length h)"
    and "lr_renewed_at (lt_lease (last h)) = lt_recorded_at (last h)"
    and "lr_binding_digest (lt_lease (last h)) = rw_binding_digest (lt_work (last h))"
    by (auto simp: h own_fields_def seen_def Let_def)
qed

lemma check_transaction_InrD:
  assumes "check_transaction tx = Inr ()"
  shows "valid_lease (lt_lease tx)" and "is_ok (validate_runnable_work (lt_work tx))"
    and "0 \<le> lt_recorded_at tx" and "is_sha256_digest (lt_hash tx)"
    and "lt_request_id tx = lq_request_id (lt_request tx)"
    and "request_digest (lt_operation tx) (lt_request tx) = Inr (lt_request_digest tx)"
    and "\<exists>fs. request_fields (lt_operation tx) (lt_request tx) = Inr fs"
  using assms by (auto simp: check_transaction_def andthen_eq_Inr_iff valid_nonnegative_int_def)

lemma request_fields_InrD:
  "request_fields op r = Inr fs \<Longrightarrow> op = operation_of r \<and> valid_request r"
  by (induction op r rule: request_fields.induct) auto

lemma readable_transaction:
  "readable h \<Longrightarrow> tx \<in> set h \<Longrightarrow> check_transaction tx = Inr ()"
  by (simp add: readable_def decode_all_iff)

lemma readable_prefix: "readable (h @ g) \<Longrightarrow> readable h"
  by (auto simp: readable_def decode_all_append dest: valid_history_prefix)

section \<open>Bounds\<close>

lemma history_bounds:
  assumes "valid_history h"
  shows "length h \<le> 771" and "reclaim_count h \<le> 2" and "current_tenure_renewals h \<le> 256"
    and "map lt_sequence h = [1 .. int (length h)]" and "distinct (map lt_sequence h)"
proof -
  from assms obtain hs where hs: "scan_history h = Inr hs" by (auto simp: valid_history_scan)
  from bounds.fold_valid [OF initial_scan_bounded] hs have b: "scan_bounded hs"
    by (simp add: scan_history_def)
  note s = scan_seen [OF hs]
  from b s show "reclaim_count h \<le> 2" "current_tenure_renewals h \<le> 256"
    by (auto simp: scan_bounded_def seen_def MAX_RENEWALS_PER_TENURE_def MAX_RECLAIMS_PER_WORK_def)
  with b s show "length h \<le> 771" by (auto simp: scan_bounded_def seen_def split: if_splits)
  note f = chain.fold_numbers [OF hs [unfolded scan_history_def]]
  from f show "map lt_sequence h = [1 .. int (length h)]" by (simp add: initial_scan_def)
  from chain.fold_distinct [OF hs [unfolded scan_history_def]] show "distinct (map lt_sequence h)" .
qed

text \<open>The duration of a tenure is that of the request that started it.\<close>

definition tenure_length :: "lease_record \<Rightarrow> int" where
  "tenure_length l = lr_absolute_expires_at l - lr_acquired_at l"

lemma tenure_bounded:
  "readable h \<Longrightarrow> tx \<in> set h \<Longrightarrow> tenure_length (lt_lease tx) \<le> MAX_TENURE_SECONDS"
proof (induction h arbitrary: tx rule: rev_induct)
  case (snoc t h)
  then have c: "check_transaction t = Inr ()" and r: "readable h" and v: "valid_history (h @ [t])"
    by (auto simp: readable_def decode_all_append decode_all_iff dest: valid_history_prefix)
  from v obtain hs hs' where s: "seen h hs" "history_step hs t = Inr hs'" by (rule snoc_step)
  from c obtain fs where "request_fields (lt_operation t) (lt_request t) = Inr fs"
    by (auto dest: check_transaction_InrD(7))
  then have vr: "valid_request (lt_request t)" by (auto dest: request_fields_InrD)
  from s(2) have "tenure_length (lt_lease t) \<le> MAX_TENURE_SECONDS"
  proof (cases rule: history_step_cases)
    case (first q)
    with vr show ?thesis
      by (simp add: fresh_tenure_def tenure_length_def valid_claim_request_def valid_tenure_def)
  next
    case (renew p q)
    with s(1) have "p \<in> set h" by (auto simp: seen_def split: if_splits)
    with snoc.IH [OF r] have "tenure_length (lt_lease p) \<le> MAX_TENURE_SECONDS" by simp
    with renew show ?thesis
      by (simp add: renewal_fields_def same_claim_def tenure_length_def Let_def)
  next
    case (reclaim p q)
    with vr show ?thesis
      by (simp add: reclaim_fields_def fresh_tenure_def tenure_length_def valid_reclaim_request_def
          valid_tenure_def)
  qed
  with snoc r show ?case by auto
qed simp

section \<open>Neighbouring transactions\<close>

text \<open>A tenure of another owner under the same epoch starts after the lease before it ends.\<close>

definition takes_over :: "lease_record \<Rightarrow> lease_record \<Rightarrow> bool" where
  "takes_over l l' \<longleftrightarrow>
     lr_claim_id l' \<noteq> lr_claim_id l \<and> lr_owner_id l' \<noteq> lr_owner_id l
     \<and> (lr_runtime_epoch l' = lr_runtime_epoch l \<longrightarrow> lr_expires_at l \<le> lr_acquired_at l')"

definition extends :: "lease_record \<Rightarrow> lease_record \<Rightarrow> bool" where
  "extends l l' \<longleftrightarrow>
     same_claim l l' \<and> lr_renewed_at l' < lr_expires_at l \<and> lr_expires_at l < lr_expires_at l'
     \<and> lr_expires_at l' \<le> lr_absolute_expires_at l"

lemma neighbours:
  assumes "valid_history (h @ [p, tx] @ g)"
  shows "if lt_operation tx = LO_RENEW then extends (lt_lease p) (lt_lease tx)
    else lt_operation tx = LO_RECLAIM \<and> takes_over (lt_lease p) (lt_lease tx)"
proof -
  have "valid_history ((h @ [p]) @ [tx])"
    using valid_history_prefix [of "(h @ [p]) @ [tx]" g] assms by simp
  then obtain hs hs' where s: "seen (h @ [p]) hs" "history_step hs tx = Inr hs'" by (rule snoc_step)
  from s(2) show ?thesis
  proof (cases rule: history_step_cases)
    case (first r)
    with s(1) show ?thesis by (simp add: seen_def)
  next
    case (renew q r)
    with s(1) show ?thesis
      by (auto simp: seen_def extends_def renewal_fields_def Let_def same_claim_def)
  next
    case (reclaim q r)
    with s(1) show ?thesis
      by (auto simp: seen_def takes_over_def reclaim_fields_def fresh_tenure_def)
  qed
qed

text \<open>Under one runtime epoch a lease and a later one are of one tenure, or do not overlap.\<close>

definition succeeds_to :: "lease_record \<Rightarrow> lease_record \<Rightarrow> bool" where
  "succeeds_to l l' \<longleftrightarrow>
     (same_claim l l' \<and> lr_expires_at l \<le> lr_expires_at l') \<or> lr_expires_at l \<le> lr_acquired_at l'"

lemma succeeds_to_next:
  assumes "succeeds_to l p" and "extends p l' \<or> takes_over p l'"
    and "lr_runtime_epoch l' = lr_runtime_epoch p" and "lr_acquired_at p \<le> lr_expires_at p"
  shows "succeeds_to l l'"
  using assms by (auto simp: succeeds_to_def extends_def takes_over_def same_claim_def)

lemma leases_in_order:
  "readable h \<Longrightarrow> \<forall>tx \<in> set h. lr_runtime_epoch (lt_lease tx) = e \<Longrightarrow> i < j \<Longrightarrow> j < length h \<Longrightarrow>
     succeeds_to (lt_lease (h ! i)) (lt_lease (h ! j))"
proof (induction h arbitrary: i j rule: rev_induct)
  case (snoc tx h)
  then have r: "readable h" using readable_prefix by blast
  show ?case
  proof (cases "j < length h")
    case True
    with snoc.IH [OF r _ snoc.prems(3)] snoc.prems show ?thesis by (simp add: nth_append)
  next
    case False
    with snoc.prems have j: "j = length h" and "h \<noteq> []" by auto
    then obtain g p where h: "h = g @ [p]" by (cases h rule: rev_exhaust) auto
    have nx: "extends (lt_lease p) (lt_lease tx) \<or> takes_over (lt_lease p) (lt_lease tx)"
      using neighbours [of g p tx "[]"] snoc.prems(1) h by (auto simp: readable_def split: if_splits)
    have ep: "lr_runtime_epoch (lt_lease tx) = lr_runtime_epoch (lt_lease p)"
      using snoc.prems(2) h by simp
    have "check_transaction p = Inr ()" using r h by (intro readable_transaction [of h]) simp_all
    then have le: "lr_acquired_at (lt_lease p) \<le> lr_expires_at (lt_lease p)"
      using check_transaction_InrD(1) [of p] by (simp add: valid_lease_def)
    have "succeeds_to (lt_lease (h ! i)) (lt_lease p)"
    proof (cases "i = length g")
      case True
      then show ?thesis by (simp add: h succeeds_to_def same_claim_def)
    next
      case False
      with snoc.prems(3) j h have "i < length g" by simp
      with snoc.IH [OF r _ this] snoc.prems(2) h show ?thesis by simp
    qed
    then have "succeeds_to (lt_lease (h ! i)) (lt_lease tx)" using nx ep le by (rule succeeds_to_next)
    with snoc.prems(3) j show ?thesis by (simp add: nth_append)
  qed
qed simp

section \<open>Sealing\<close>

text \<open>The transactions of a history are those of its session and work.\<close>

definition filed :: "pystr \<Rightarrow> pystr \<Rightarrow> lease_transaction list \<Rightarrow> bool" where
  "filed sid wid h \<longleftrightarrow>
     (\<forall>tx \<in> set h. lr_session_id (lt_lease tx) = sid \<and> lr_work_id (lt_lease tx) = wid)"

text \<open>What an operation has checked before it commits.\<close>

definition ready ::
  "lease_transaction list \<Rightarrow> runnable_work \<Rightarrow> lease_request \<Rightarrow> bool" where
  "ready h w r \<longleftrightarrow>
     readable h \<and> filed (rw_session_id w) (rw_work_id w) h
     \<and> valid_request r \<and> lq_session_id r = rw_session_id w \<and> lq_work_id r = rw_work_id w
     \<and> validate_runnable_work w = Inr w
     \<and> find_receipt h (lq_request_id r) = None
     \<and> (h \<noteq> [] \<longrightarrow> rw_observed_sequence (lt_work (last h)) \<le> rw_observed_sequence w)
     \<and> (case r of
          Claim _ \<Rightarrow> True
        | Renew _ \<Rightarrow> current_tenure_renewals h < MAX_RENEWALS_PER_TENURE
        | Reclaim c \<Rightarrow>
            lr_binding_digest (lt_lease (last h)) = rw_binding_digest w
            \<and> reclaim_count h < MAX_RECLAIMS_PER_WORK
            \<and> qr_claim_id c \<notin> (lr_claim_id \<circ> lt_lease) ` set h
            \<and> qr_owner_id c \<notin> (lr_owner_id \<circ> lt_lease) ` set h)"

lemma find_receipt_None: "find_receipt h rid = None \<longleftrightarrow> rid \<notin> lt_request_id ` set h"
  by (auto simp: find_receipt_def find_None_iff)

lemma readable_scan:
  assumes "readable h"
  obtains hs where "scan_history h = Inr hs" "seen h hs"
  using assms scan_seen by (auto simp: readable_def valid_history_scan)

lemma new_lease_InrD:
  assumes "new_lease epoch w cid owner version n seconds max_tenure = Inr l"
  shows "l = \<lparr>lr_session_id = rw_session_id w, lr_work_id = rw_work_id w,
              lr_binding_digest = rw_binding_digest w, lr_claim_id = cid, lr_owner_id = owner,
              lr_runtime_epoch = epoch, lr_lease_version = version,
              lr_registry_generation = rw_registry_generation w, lr_acquired_at = n,
              lr_renewed_at = n, lr_expires_at = n + seconds,
              lr_absolute_expires_at = n + max_tenure\<rparr>"
    and "valid_lease l"
  using assms by (auto simp: new_lease_def Let_def)

lemma renewed_lease_InrD:
  assumes "renewed_lease epoch p w c n = Inr l"
  shows "l = p\<lparr>lr_lease_version := lr_lease_version p + 1, lr_renewed_at := n,
      lr_expires_at := next_expiry p n (nr_lease_seconds c)\<rparr>"
    and "lr_claim_id p = nr_claim_id c" "lr_owner_id p = nr_owner_id c"
      "lr_registry_generation p = rw_registry_generation w"
      "lr_binding_digest p = rw_binding_digest w"
      "lr_lease_version p = nr_expected_lease_version c" "lr_runtime_epoch p = epoch"
    and "lr_renewed_at p \<le> n" "n < lr_absolute_expires_at p" "n < lr_expires_at p"
      "lr_expires_at p < next_expiry p n (nr_lease_seconds c)"
  using assms by (auto simp: renewed_lease_def andthen_eq_Inr_iff assert_claim_binding_def
      assert_lease_time_def Let_def)

lemma reclaimed_lease_InrD:
  assumes "reclaimed_lease epoch p w c n = Inr l"
  shows "new_lease epoch w (qr_claim_id c) (qr_owner_id c) (lr_lease_version p + 1) n
      (qr_lease_seconds c) (qr_max_tenure_seconds c) = Inr l"
    and "lr_runtime_epoch p = epoch \<longrightarrow> lr_renewed_at p \<le> n"
    and "lr_runtime_epoch p = epoch \<longrightarrow> lr_expires_at p \<le> n"
  using assms by (simp_all add: reclaimed_lease_def)

text \<open>The lease of a commit, by operation.\<close>

lemma lease_at_commit_cases [consumes 1, case_names claimed renewed reclaimed]:
  assumes "lease_at_commit epoch (operation_of r) h w r n = Inr l"
  obtains (claimed) c where "r = Claim c" "h = []"
      "new_lease epoch w (cr_claim_id c) (cr_owner_id c) 1 n
         (cr_lease_seconds c) (cr_max_tenure_seconds c) = Inr l"
  | (renewed) c where "r = Renew c" "h \<noteq> []" "renewed_lease epoch (lt_lease (last h)) w c n = Inr l"
  | (reclaimed) c where "r = Reclaim c" "h \<noteq> []"
      "reclaimed_lease epoch (lt_lease (last h)) w c n = Inr l"
  using assms by (cases r) (simp_all add: lease_at_commit_def)

lemma lease_at_commit_time:
  assumes "lease_at_commit epoch (operation_of r) h w r n = Inr l"
  shows "lr_renewed_at l = n \<and> n < lr_expires_at l \<and> lr_expires_at l \<le> lr_absolute_expires_at l"
  using assms
proof (cases rule: lease_at_commit_cases)
  case (claimed c)
  with new_lease_InrD [OF claimed(3)] show ?thesis by (simp add: valid_lease_def)
next
  case (renewed c)
  from renewed_lease_InrD [OF renewed(3)] show ?thesis by (simp add: next_expiry_def)
next
  case (reclaimed c)
  from new_lease_InrD [OF reclaimed_lease_InrD(1) [OF reclaimed(3)]] show ?thesis
    by (simp add: valid_lease_def)
qed

text \<open>The parts of a sealed transaction, one operation at a time.\<close>

lemma sealed_claim:
  assumes "ready h w (Claim c)" and "lease_at_commit epoch LO_CLAIM h w (Claim c) n = Inr l"
    and "seen h hs"
  shows "\<exists>hs'. history_step hs
    ((provisional_transaction LO_CLAIM h w (Claim c) dg n l)\<lparr>lt_hash := x\<rparr>) = Inr hs'"
    (is "\<exists>hs'. history_step hs ?tx = Inr hs'")
proof -
  from assms(2) have h: "h = []" and l: "new_lease epoch w (cr_claim_id c) (cr_owner_id c) 1 n
      (cr_lease_seconds c) (cr_max_tenure_seconds c) = Inr l"
    by (simp_all add: lease_at_commit_def)
  from assms(3) h have s: "hs_previous hs = None" "hs_index hs = 1" "hs_request_ids hs = []"
    by (simp_all add: seen_def)
  have "own_fields hs ?tx" "first_fields ?tx"
    using assms(1) s h
    by (simp_all add: own_fields_def first_fields_def fresh_tenure_def provisional_transaction_def
        new_lease_InrD(1) [OF l] ready_def Let_def)
  with s show ?thesis by (simp add: history_step_def Let_def)
qed

lemma ready_last:
  assumes "ready h w r" and "h \<noteq> []"
  shows "lr_lease_version (lt_lease (last h)) = int (length h)"
    and "lr_renewed_at (lt_lease (last h)) = lt_recorded_at (last h)"
    and "lr_binding_digest (lt_lease (last h)) = rw_binding_digest (lt_work (last h))"
    and "lr_session_id (lt_lease (last h)) = rw_session_id w"
    and "lr_work_id (lt_lease (last h)) = rw_work_id w"
    and "rw_observed_sequence (lt_work (last h)) \<le> rw_observed_sequence w"
    and "lq_session_id r = rw_session_id w" "lq_work_id r = rw_work_id w"
    and "lq_request_id r \<notin> lt_request_id ` set h"
  using assms last_transaction [of h]
  by (auto simp: ready_def readable_def filed_def find_receipt_None)

lemma seen_last:
  assumes "seen h hs" and "h \<noteq> []"
  shows "hs_previous hs = Some (last h)" and "hs_index hs = int (length h) + 1"
    and "set (hs_request_ids hs) = lt_request_id ` set h"
  using assms by (simp_all add: seen_def)

lemma sealed_renew:
  assumes "ready h w (Renew c)" and "lease_at_commit epoch LO_RENEW h w (Renew c) n = Inr l"
    and "seen h hs"
  shows "\<exists>hs'. history_step hs
    ((provisional_transaction LO_RENEW h w (Renew c) dg n l)\<lparr>lt_hash := x\<rparr>) = Inr hs'"
    (is "\<exists>hs'. history_step hs ?tx = Inr hs'")
proof -
  let ?p = "lt_lease (last h)"
  from assms(2) have h: "h \<noteq> []" and r: "renewed_lease epoch ?p w c n = Inr l"
    by (simp_all add: lease_at_commit_def)
  note rl = ready_last [OF assms(1) h] and sl = seen_last [OF assms(3) h]
  note l = renewed_lease_InrD(1) [OF r] and b = renewed_lease_InrD(2-7) [OF r]
    and t = renewed_lease_InrD(8-11) [OF r]
  have "own_fields hs ?tx"
    using rl sl b by (simp add: own_fields_def provisional_transaction_def l Let_def)
  moreover have "linked (last h) ?tx"
    using rl b t h by (simp add: linked_def provisional_transaction_def)
  moreover have "renewal_fields ?p ?tx c"
    using rl b t by (auto simp: renewal_fields_def provisional_transaction_def l Let_def
        same_claim_def next_expiry_def)
  moreover have "hs_renewals hs + 1 \<le> MAX_RENEWALS_PER_TENURE"
    using assms(1,3) by (simp add: ready_def seen_def)
  ultimately show ?thesis
    using sl by (simp add: history_step_def Let_def) (simp add: provisional_transaction_def)
qed

lemma sealed_reclaim:
  assumes "ready h w (Reclaim c)" and "lease_at_commit epoch LO_RECLAIM h w (Reclaim c) n = Inr l"
    and "seen h hs"
  shows "\<exists>hs'. history_step hs
    ((provisional_transaction LO_RECLAIM h w (Reclaim c) dg n l)\<lparr>lt_hash := x\<rparr>) = Inr hs'"
    (is "\<exists>hs'. history_step hs ?tx = Inr hs'")
proof -
  let ?p = "lt_lease (last h)"
  from assms(2) have h: "h \<noteq> []" and r: "reclaimed_lease epoch ?p w c n = Inr l"
    by (simp_all add: lease_at_commit_def)
  note rl = ready_last [OF assms(1) h] and sl = seen_last [OF assms(3) h]
  note l = new_lease_InrD(1) [OF reclaimed_lease_InrD(1) [OF r]] and t = reclaimed_lease_InrD(2,3) [OF r]
  from assms(1) have b: "lr_binding_digest ?p = rw_binding_digest w"
    "qr_claim_id c \<notin> (lr_claim_id \<circ> lt_lease) ` set h"
    "qr_owner_id c \<notin> (lr_owner_id \<circ> lt_lease) ` set h" by (simp_all add: ready_def)
  have "own_fields hs ?tx"
    using rl sl by (simp add: own_fields_def provisional_transaction_def l Let_def)
  moreover have "linked (last h) ?tx"
    using rl b t h by (simp add: linked_def provisional_transaction_def l)
  moreover have "reclaim_fields hs ?p ?tx c"
    using b t assms(3)
    by (auto simp: reclaim_fields_def provisional_transaction_def l fresh_tenure_def seen_def)
  moreover have "hs_reclaims hs + 1 \<le> MAX_RECLAIMS_PER_WORK"
    using assms(1,3) by (simp add: ready_def seen_def)
  ultimately show ?thesis
    using sl by (simp add: history_step_def Let_def) (simp add: provisional_transaction_def)
qed

lemma sealed_history:
  assumes ready: "ready h w r" and l: "lease_at_commit epoch (operation_of r) h w r n = Inr l"
  shows "valid_history (h @ [(provisional_transaction (operation_of r) h w r dg n l)\<lparr>lt_hash := x\<rparr>])"
proof -
  from ready obtain hs where hs: "scan_history h = Inr hs" "seen h hs"
    by (auto simp: ready_def elim: readable_scan)
  have "\<exists>hs'. history_step hs
      ((provisional_transaction (operation_of r) h w r dg n l)\<lparr>lt_hash := x\<rparr>) = Inr hs'"
    using ready l hs(2) sealed_claim sealed_renew sealed_reclaim by (cases r) simp_all
  with hs(1) show ?thesis by (simp add: valid_history_snoc)
qed

lemma ready_lease_valid:
  assumes ready: "ready h w r" and l: "lease_at_commit epoch (operation_of r) h w r n = Inr l"
    and n: "0 \<le> n"
  shows "valid_lease l"
  using l
proof (cases rule: lease_at_commit_cases)
  case (claimed c)
  with new_lease_InrD [OF claimed(3)] show ?thesis by simp
next
  case (renewed c)
  let ?p = "lt_lease (last h)"
  from ready renewed(2) have "check_transaction (last h) = Inr ()"
    by (intro readable_transaction [of h]) (simp_all add: ready_def)
  then have "valid_lease ?p" by (rule check_transaction_InrD(1))
  with renewed_lease_InrD [OF renewed(3)] n show ?thesis
    by (auto simp: valid_lease_def valid_positive_int_def valid_nonnegative_int_def next_expiry_def)
next
  case (reclaimed c)
  from new_lease_InrD [OF reclaimed_lease_InrD(1) [OF reclaimed(3)]] show ?thesis by simp
qed

text \<open>Numbers that are written into a transaction, other than the clock's, stay small.\<close>

definition small_work :: "runnable_work \<Rightarrow> lease_request \<Rightarrow> bool" where
  "small_work w r \<longleftrightarrow>
     list_all small ([rw_registry_generation w, rw_conversation_version w, rw_observed_sequence w,
                      rw_trigger_event_sequence w] @ request_numbers r)"

lemma small_between: "0 \<le> i \<Longrightarrow> i \<le> j \<Longrightarrow> small j \<Longrightarrow> small i"
  by (simp add: small_def)

lemma commit_small:
  assumes ready: "ready h w r" and l: "lease_at_commit epoch (operation_of r) h w r n = Inr l"
    and n: "0 \<le> n" "small (n + 100000)" and w: "small_work w r"
  shows "list_all small (transaction_numbers (provisional_transaction (operation_of r) h w r dg n l))"
proof -
  have hist: "valid_history h" using ready by (simp add: ready_def readable_def)
  have len: "int (length h) + 1 \<le> 100000" using history_bounds(1) [OF hist] by simp
  have v: "valid_lease l" using ready l n(1) by (rule ready_lease_valid)
  have le: "lr_lease_version l = int (length h) + 1 \<and> lr_registry_generation l = rw_registry_generation w
    \<and> lr_absolute_expires_at l \<le> n + 100000"
    using l
  proof (cases rule: lease_at_commit_cases)
    case (claimed c)
    with new_lease_InrD(1) [OF claimed(3)] ready show ?thesis
      by (simp add: ready_def valid_claim_request_def valid_tenure_def MAX_TENURE_SECONDS_def)
  next
    case (renewed c)
    let ?p = "lt_lease (last h)"
    note d = renewed_lease_InrD [OF renewed(3)]
    have r: "readable h" "last h \<in> set h" using ready renewed(2) by (simp_all add: ready_def)
    have "tenure_length ?p \<le> MAX_TENURE_SECONDS" using r by (rule tenure_bounded)
    moreover have "lr_acquired_at ?p \<le> lr_renewed_at ?p"
      using check_transaction_InrD(1) [OF readable_transaction [OF r]] by (simp add: valid_lease_def)
    ultimately show ?thesis
      using d ready_last(1) [OF ready renewed(2)]
      by (auto simp: tenure_length_def MAX_TENURE_SECONDS_def)
  next
    case (reclaimed c)
    with new_lease_InrD(1) [OF reclaimed_lease_InrD(1) [OF reclaimed(3)]] ready
      ready_last(1) [OF ready reclaimed(2)] show ?thesis
      by (simp add: ready_def valid_reclaim_request_def valid_tenure_def MAX_TENURE_SECONDS_def)
  qed
  have "small (int (length h) + 1)" "small n" "small (lr_absolute_expires_at l)"
    "small (lr_expires_at l)" "small (lr_renewed_at l)" "small (lr_acquired_at l)"
    using n v le len
    by (auto intro!: small_between [OF _ _ n(2)]
        simp: valid_lease_def valid_positive_int_def valid_nonnegative_int_def)
  with w le show ?thesis
    by (simp add: transaction_numbers_def provisional_transaction_def Let_def small_work_def)
qed

lemma seal_ok:
  assumes ready: "ready h w r" and dg: "request_digest (operation_of r) r = Inr dg"
    and l: "lease_at_commit epoch (operation_of r) h w r n = Inr l"
    and n: "0 \<le> n" "small (n + 100000)" and w: "small_work w r"
  shows "\<exists>hash. sealed_transaction (operation_of r) h w r dg n l
    = Inr ((provisional_transaction (operation_of r) h w r dg n l)\<lparr>lt_hash := hash\<rparr>)"
proof -
  let ?t = "provisional_transaction (operation_of r) h w r dg n l"
  have "is_optional_sha256_digest (lt_previous_hash ?t)"
  proof (cases "h = []")
    case False
    with ready have "check_transaction (last h) = Inr ()"
      by (intro readable_transaction [of h]) (simp_all add: ready_def)
    from check_transaction_InrD(4) [OF this] False show ?thesis
      by (simp add: provisional_transaction_def is_optional_sha256_digest_def)
  qed (simp add: provisional_transaction_def is_optional_sha256_digest_def)
  with ready dg n(1) ready_lease_valid [OF ready l n(1)] have parts: "well_formed_parts ?t"
    by (simp add: well_formed_parts_def ready_def) (simp add: provisional_transaction_def)
  then obtain hash where hash: "lease_transaction_hash ?t = Inr hash"
    using transaction_hash_ok by blast
  have "list_all small (transaction_numbers (?t\<lparr>lt_hash := hash\<rparr>))"
    using commit_small [OF ready l n w, of dg] by simp
  with parts hash obtain bs where "encode_transaction (?t\<lparr>lt_hash := hash\<rparr>) = Inr bs"
    using encode_ok(1) [of "?t\<lparr>lt_hash := hash\<rparr>"] by auto
  with hash sealed_history [OF ready l, of hash dg] have
    "sealed_transaction (operation_of r) h w r dg n l = Inr (?t\<lparr>lt_hash := hash\<rparr>)"
    by (simp add: sealed_transaction_def Let_def)
  then show ?thesis ..
qed

end
