(* ===== verification/Lease_Runs.thy ===== *)
theory Lease_Runs
  imports Lease_Facts
begin

text \<open>
  When an operation succeeds.  \<open>succeeds m Q st\<close> says that \<open>m\<close> returns from \<open>st\<close> with a value
  and a state that satisfy \<open>Q\<close>; the rules follow the code.  Under ports that answer (the lock
  is held, the verifier accepts, the snapshot is current, the clock moves on within a window, the
  file system does not fail and no other writer comes first) the only ways an operation fails are its own checks.
\<close>

section \<open>Success\<close>

definition succeeds :: "'a lease_op \<Rightarrow> ('a \<Rightarrow> lease_store \<Rightarrow> bool) \<Rightarrow> lease_store \<Rightarrow> bool" where
  "succeeds m Q st \<longleftrightarrow> (case m st of (Inl _, _) \<Rightarrow> False | (Inr x, t) \<Rightarrow> Q x t)"

lemma succeeds_iff: "succeeds m Q st \<longleftrightarrow> (\<exists>x t. m st = (Inr x, t) \<and> Q x t)"
  by (auto simp: succeeds_def split: prod.split sum.split)

lemma succeeds_lbind: "succeeds (lbind m k) Q st = succeeds m (\<lambda>x. succeeds (k x) Q) st"
  by (simp add: succeeds_def lbind_def split: prod.split sum.split)

lemma succeeds_simps [simp]:
  "succeeds (lreturn x) Q st = Q x st"
  "succeeds (lraise e) Q st = False"
  "succeeds (lrequire e b m) Q st \<longleftrightarrow> b \<and> succeeds m Q st"
  "succeeds (lpure (Inr x)) Q st = Q x st"
  "succeeds (ask port) Q st = Q (port (ls_calls st)) (st\<lparr>ls_calls := Suc (ls_calls st)\<rparr>)"
  by (simp_all add: succeeds_def lreturn_def lraise_def lrequire_def lpure_def ask_def)

lemma succeeds_mono: "succeeds m P st \<Longrightarrow> (\<And>x t. P x t \<Longrightarrow> Q x t) \<Longrightarrow> succeeds m Q st"
  by (auto simp: succeeds_iff)

lemma succeeds_read:
  "readable (ls_disk st sid wid) \<Longrightarrow> succeeds (read_history sid wid) Q st = Q (ls_disk st sid wid) st"
  by (simp add: succeeds_def read_history_eq)

section \<open>Ports that answer\<close>

text \<open>The clock answers within the window and does not run backwards.\<close>

definition granting ::
  "lease_ports \<Rightarrow> lock_authority \<Rightarrow> pystr \<Rightarrow> work_snapshot \<Rightarrow> (nat \<Rightarrow> int) \<Rightarrow> bool" where
  "granting p a sid snap clock \<longleftrightarrow>
     mono clock
     \<and> (\<forall>n. lp_authority p n a sid = None \<and> lp_snapshot p n a sid = Some snap
         \<and> (\<forall>k. lp_verifier p n a k = Some True) \<and> lp_clock p n = Some (clock n)
         \<and> lp_race p n = [] \<and> lp_storage p n = None)"

text \<open>The last reading is not ahead of the next.\<close>

definition in_time :: "(nat \<Rightarrow> int) \<Rightarrow> lease_store \<Rightarrow> bool" where
  "in_time clock st \<longleftrightarrow> (case ls_last_clock st of None \<Rightarrow> True | Some q \<Rightarrow> q \<le> clock (ls_calls st))"

text \<open>A state that only differs by port calls and readings.\<close>

definition later :: "(nat \<Rightarrow> int) \<Rightarrow> lease_store \<Rightarrow> lease_store \<Rightarrow> bool" where
  "later clock st t \<longleftrightarrow>
     in_time clock t \<and> ls_disk t = ls_disk st \<and> ls_calls st \<le> ls_calls t"

lemma later_refl: "in_time clock st \<Longrightarrow> later clock st st"
  by (simp add: later_def)

lemma later_trans: "later clock st t \<Longrightarrow> later clock t u \<Longrightarrow> later clock st u"
  by (simp add: later_def)

lemma in_time_call:
  assumes "mono clock" and "in_time clock st"
  shows "in_time clock (st\<lparr>ls_calls := Suc (ls_calls st)\<rparr>)"
  using assms(2) monoD [OF assms(1), of "ls_calls st" "Suc (ls_calls st)"]
  by (simp add: in_time_def split: option.splits)

lemma later_call: "mono clock \<Longrightarrow> in_time clock st \<Longrightarrow> later clock st (st\<lparr>ls_calls := Suc (ls_calls st)\<rparr>)"
  by (simp add: later_def in_time_call)

lemma authority_granted:
  assumes "granting p a sid snap clock" and "in_time clock st"
  shows "succeeds (assert_authority p sid a) (\<lambda>_ t. later clock st t) st"
  using assms by (simp add: assert_authority_def granting_def later_call succeeds_lbind)

lemma runtime_granted:
  assumes "granting p a sid snap clock" and "in_time clock st"
  shows "succeeds (verify_runtime p check a) (\<lambda>_ t. later clock st t) st"
  using assms by (simp add: verify_runtime_def granting_def later_call succeeds_lbind)

lemma now_granted:
  assumes "granting p a sid snap clock" and "in_time clock st" and "0 \<le> clock 0"
  shows "succeeds (now p) (\<lambda>v t. later clock st t \<and> v = clock (ls_calls st)) st"
proof -
  let ?v = "clock (ls_calls st)"
  have m: "clock 0 \<le> ?v" "?v \<le> clock (Suc (ls_calls st))"
    using assms(1) monoD [of clock] by (simp_all add: granting_def)
  have "succeeds (keep_reading ?v) (\<lambda>v t. later clock st t \<and> v = ?v) (st\<lparr>ls_calls := Suc (ls_calls st)\<rparr>)"
    using assms(2) m(2) by (auto simp: succeeds_def keep_reading_def later_def in_time_def
        split: option.splits)
  with assms(1,3) m(1) show ?thesis
    by (simp add: now_def granting_def valid_nonnegative_int_def succeeds_lbind)
qed

lemma storage_granted:
  assumes "granting p a sid snap clock" and "in_time clock st"
  shows "succeeds (storage p) (\<lambda>_ t. later clock st t) st"
  using assms by (simp add: storage_def granting_def later_call succeeds_lbind)

text \<open>The snapshot shows the session current, with the work it may run.\<close>

definition shows_work :: "pystr \<Rightarrow> work_snapshot \<Rightarrow> runnable_work \<Rightarrow> int \<Rightarrow> bool" where
  "shows_work sid snap w attempt \<longleftrightarrow>
     is_protocol_id sid \<and> session_id (ws_dialogue snap) = sid
     \<and> derive_authoritative_work sid snap True = Inr (Some w)
     \<and> canonical_work_attempt (ws_dialogue snap) w = Inr attempt"

lemma snapshot_granted:
  assumes "granting p a sid snap clock" and "in_time clock st"
    and "session_id (ws_dialogue snap) = sid"
  shows "succeeds (load_snapshot p sid a) (\<lambda>s t. s = snap \<and> later clock st t) st"
proof -
  note auth = authority_granted [OF assms(1,2)]
  have m: "mono clock" using assms(1) by (simp add: granting_def)
  show ?thesis
    unfolding load_snapshot_def succeeds_lbind
    using auth
  proof (rule succeeds_mono)
    fix u t assume t: "later clock st t"
    then have "later clock t (t\<lparr>ls_calls := Suc (ls_calls t)\<rparr>)"
      using m by (intro later_call) (simp_all add: later_def)
    with t have "later clock st (t\<lparr>ls_calls := Suc (ls_calls t)\<rparr>)" by (rule later_trans)
    with assms show "succeeds (ask (\<lambda>n. lp_snapshot p n a sid)) (\<lambda>x. succeeds
        (case x of None \<Rightarrow> lraise AUTHORITATIVE_SNAPSHOT_FAILED
         | Some snap \<Rightarrow> lrequire AUTHORITATIVE_SNAPSHOT_INVALID
             (session_id (ws_dialogue snap) = sid) (lreturn snap))
        (\<lambda>s t. s = snap \<and> later clock st t)) t"
      by (simp add: granting_def)
  qed
qed

lemma work_granted:
  assumes "granting p a sid snap clock" and "in_time clock st" and "shows_work sid snap w attempt"
  shows "succeeds (load_current_work p sid a) (\<lambda>w' t. w' = w \<and> later clock st t) st"
    and "succeeds (current_runnable p sid a) (\<lambda>c t. c = Some (w, attempt) \<and> later clock st t) st"
proof -
  have "session_id (ws_dialogue snap) = sid" using assms(3) by (simp add: shows_work_def)
  note s = snapshot_granted [OF assms(1,2) this]
  show "succeeds (load_current_work p sid a) (\<lambda>w' t. w' = w \<and> later clock st t) st"
    unfolding load_current_work_def load_authoritative_work_def succeeds_lbind
    using s by (rule succeeds_mono) (use assms(3) in \<open>simp add: shows_work_def\<close>)
  show "succeeds (current_runnable p sid a) (\<lambda>c t. c = Some (w, attempt) \<and> later clock st t) st"
    unfolding current_runnable_def observe_current_work_def succeeds_lbind succeeds_simps
    using assms(3) s by (auto simp: shows_work_def succeeds_lbind elim!: succeeds_mono)
qed

lemma boundary_granted:
  assumes "granting p a sid snap clock" and "in_time clock st" and "0 \<le> clock 0"
  shows "succeeds (boundary p sid check a)
    (\<lambda>v t. later clock st t \<and> (\<exists>n \<ge> ls_calls st. v = clock n \<and> n \<le> ls_calls t)) st"
  unfolding boundary_def succeeds_lbind
proof (rule succeeds_mono [OF authority_granted [OF assms(1,2)]])
  fix u t assume t: "later clock st t"
  then have "in_time clock t" by (simp add: later_def)
  show "succeeds (verify_runtime p check a) (\<lambda>x. succeeds (now p)
      (\<lambda>v t. later clock st t \<and> (\<exists>n \<ge> ls_calls st. v = clock n \<and> n \<le> ls_calls t))) t"
  proof (rule succeeds_mono [OF runtime_granted [OF assms(1) \<open>in_time clock t\<close>]])
    fix u' t' assume t': "later clock t t'"
    then have "in_time clock t'" by (simp add: later_def)
    from now_granted [OF assms(1) this assms(3)] show "succeeds (now p)
        (\<lambda>v t. later clock st t \<and> (\<exists>n \<ge> ls_calls st. v = clock n \<and> n \<le> ls_calls t)) t'"
      by (rule succeeds_mono) (use t t' in \<open>auto simp: later_def intro!: exI [of _ "ls_calls t'"]\<close>)
  qed
qed

section \<open>The commit\<close>

lemma publish_granted:
  assumes "granting p a sid snap clock" and "lt_sequence tx = int (length (ls_disk st sid wid)) + 1"
  shows "succeeds (publish p sid wid tx) (\<lambda>x t. x) st"
  using assms by (simp add: publish_def link_transaction_def lbind_def storage_run lreturn_def
      lpure_def succeeds_def granting_def Let_def)

text \<open>The lease the commit makes is in time at every reading from then on.\<close>

definition holds_in_time ::
  "lease_ports \<Rightarrow> (nat \<Rightarrow> int) \<Rightarrow> lease_transaction list \<Rightarrow> runnable_work \<Rightarrow> lease_request \<Rightarrow> nat \<Rightarrow> bool" where
  "holds_in_time p clock h w r n \<longleftrightarrow>
     (\<exists>l. lease_at_commit (lp_epoch p) (operation_of r) h w r (clock n) = Inr l
        \<and> (\<forall>m \<ge> n. assert_commit_clock (operation_of r) h l (clock m) = Inr ()))"

lemma succeeds_lpure_iff: "succeeds (lpure r) Q st \<longleftrightarrow> (\<exists>x. r = Inr x \<and> Q x st)"
  by (cases r) (simp_all add: succeeds_def lpure_def)

text \<open>The steps of the commit: each leaves the disk, and the readings come in the order of the calls.\<close>

lemma run_storage:
  assumes "granting p a sid snap clock" and "later clock st t"
    and k: "\<And>t'. later clock st t' \<Longrightarrow> ls_calls t \<le> ls_calls t' \<Longrightarrow> succeeds (k ()) Q t'"
  shows "succeeds (lbind (storage p) k) Q t"
proof -
  have "in_time clock t" using assms(2) by (simp add: later_def)
  from storage_granted [OF assms(1) this] show ?thesis
    unfolding succeeds_lbind
    by (rule succeeds_mono) (use k later_trans [OF assms(2)] in \<open>simp add: later_def\<close>)
qed

lemma run_boundary:
  assumes "granting p a sid snap clock" and "later clock st t" and "0 \<le> clock 0"
    and k: "\<And>n t'. later clock st t' \<Longrightarrow> ls_calls t \<le> n \<Longrightarrow> n \<le> ls_calls t' \<Longrightarrow>
      succeeds (k (clock n)) Q t'"
  shows "succeeds (lbind (boundary p sid check a) k) Q t"
proof -
  have "in_time clock t" using assms(2) by (simp add: later_def)
  from boundary_granted [OF assms(1) this assms(3)] show ?thesis
    unfolding succeeds_lbind
    by (rule succeeds_mono) (use k later_trans [OF assms(2)] in blast)
qed

lemma commit_granted:
  assumes g: "granting p a sid snap clock" and t: "in_time clock st" and z: "0 \<le> clock 0"
    and small: "\<forall>n. small (clock n + 100000)" and w: "small_work w r"
    and h: "h = ls_disk st sid wid" and r: "lq_session_id r = sid" "rw_work_id w = wid"
    and ready: "ready h w r" and dg: "request_digest (operation_of r) r = Inr dg"
    and lease: "\<forall>n \<ge> ls_calls st. holds_in_time p clock h w r n"
  shows "succeeds (commit p h (operation_of r) dg w r check a) (\<lambda>mo t. \<not> mo_replayed mo) st"
  unfolding commit_def Let_def r
proof (rule run_storage [OF g later_refl [OF t]], rule run_boundary [OF g _ z], assumption)
  fix t0 t1 n
  assume calls: "ls_calls st \<le> ls_calls t0" "ls_calls t0 \<le> n" "n \<le> ls_calls t1"
    and t1: "later clock st t1"
  from lease calls(1,2) obtain l where l: "lease_at_commit (lp_epoch p) (operation_of r) h w r (clock n) = Inr l"
    and held: "\<And>m. n \<le> m \<Longrightarrow> assert_commit_clock (operation_of r) h l (clock m) = Inr ()"
    by (auto simp: holds_in_time_def dest: order_trans)
  have z': "0 \<le> clock n" using z g monoD [of clock 0 n] by (auto simp: granting_def)
  from seal_ok [OF ready dg l z' _ w] small obtain tx where
    tx: "sealed_transaction (operation_of r) h w r dg (clock n) l = Inr tx"
      "lt_sequence tx = int (length h) + 1"
    by (auto simp: provisional_transaction_def)
  have published: "succeeds (lbind (publish p sid wid tx) (\<lambda>published.
        if published then lreturn \<lparr>mo_operation = operation_of r, mo_lease = l, mo_replayed = False\<rparr>
        else lbind (read_history sid wid) (\<lambda>concurrent.
               case find_receipt concurrent (lq_request_id r) of
                 None \<Rightarrow> lraise LEASE_CONCURRENT_MODIFICATION
               | Some receipt \<Rightarrow> replayed_outcome receipt dg))) (\<lambda>mo t. \<not> mo_replayed mo) t3"
    if "later clock st t3" for t3
  proof -
    have "ls_disk t3 sid wid = h" using that by (simp add: later_def h)
    with tx(2) have "succeeds (publish p sid wid tx) (\<lambda>x t. x) t3" by (intro publish_granted [OF g]) simp
    then show ?thesis unfolding succeeds_lbind by (rule succeeds_mono) simp
  qed
  show "succeeds (lbind (lpure (lease_at_commit (lp_epoch p) (operation_of r) h w r (clock n))) (\<lambda>l.
     lbind (lpure (sealed_transaction (operation_of r) h w r dg (clock n) l)) (\<lambda>tx.
     lbind (storage p) (\<lambda>_.
     lbind (boundary p sid check a) (\<lambda>boundary_now.
     lbind (lpure (assert_commit_clock (operation_of r) h l boundary_now)) (\<lambda>_.
     lbind (publish p sid wid tx) (\<lambda>published.
        if published then lreturn \<lparr>mo_operation = operation_of r, mo_lease = l, mo_replayed = False\<rparr>
        else lbind (read_history sid wid) (\<lambda>concurrent.
               case find_receipt concurrent (lq_request_id r) of
                 None \<Rightarrow> lraise LEASE_CONCURRENT_MODIFICATION
               | Some receipt \<Rightarrow> replayed_outcome receipt dg))))))))
     (\<lambda>mo t. \<not> mo_replayed mo) t1"
    unfolding succeeds_lbind [of "lpure _"] l tx(1) succeeds_simps
  proof (rule run_storage [OF g t1], rule run_boundary [OF g _ z], assumption)
    fix t2 t3 m assume "ls_calls t1 \<le> ls_calls t2" "ls_calls t2 \<le> m" and t3: "later clock st t3"
    with calls(3) have "n \<le> m" by simp
    from held [OF this] published [OF t3]
    show "succeeds (lbind (lpure (assert_commit_clock (operation_of r) h l (clock m))) (\<lambda>_.
       lbind (publish p sid wid tx) (\<lambda>published.
        if published then lreturn \<lparr>mo_operation = operation_of r, mo_lease = l, mo_replayed = False\<rparr>
        else lbind (read_history sid wid) (\<lambda>concurrent.
               case find_receipt concurrent (lq_request_id r) of
                 None \<Rightarrow> lraise LEASE_CONCURRENT_MODIFICATION
               | Some receipt \<Rightarrow> replayed_outcome receipt dg)))) (\<lambda>mo t. \<not> mo_replayed mo) t3"
      by (simp add: succeeds_lbind [of "lpure _"])
  qed
qed

section \<open>The operations\<close>

lemma new_request_granted:
  assumes g: "granting p a (lq_session_id r) snap clock" and t: "in_time clock st"
    and valid: "valid_request r" and read: "readable (ls_disk st (lq_session_id r) (lq_work_id r))"
    and new: "find_receipt (ls_disk st (lq_session_id r) (lq_work_id r)) (lq_request_id r) = None"
    and body: "\<And>dg t. request_digest (operation_of r) r = Inr dg \<Longrightarrow> later clock st t \<Longrightarrow>
      succeeds (body dg) Q t"
  shows "succeeds (answer_or_run p (operation_of r) r a answer body) Q st"
proof -
  from request_digest_ok [OF valid] obtain dg where dg: "request_digest (operation_of r) r = Inr dg"
    by blast
  show ?thesis
    unfolding answer_or_run_def replay_receipt_def succeeds_lbind dg succeeds_simps
  proof (rule succeeds_mono [OF authority_granted [OF g t]])
    fix u t assume t: "later clock st t"
    then have "ls_disk t = ls_disk st" by (simp add: later_def)
    with read new body [OF dg t] show "succeeds (read_history (lq_session_id r) (lq_work_id r)) (\<lambda>h.
        succeeds (case find_receipt h (lq_request_id r) of None \<Rightarrow> lreturn None
          | Some tx \<Rightarrow> lbind (replayed_outcome tx dg) (\<lambda>mo. lreturn (Some mo)))
        (\<lambda>x. succeeds (case x of None \<Rightarrow> body dg | Some mo \<Rightarrow> lreturn (answer mo)) Q)) t"
      by (simp add: succeeds_read)
  qed
qed

fun requested_seconds :: "lease_request \<Rightarrow> int" where
  "requested_seconds (Claim c) = cr_lease_seconds c"
| "requested_seconds (Renew c) = nr_lease_seconds c"
| "requested_seconds (Reclaim c) = qr_lease_seconds c"

text \<open>
  When the rules of the store allow a request: a first claim, a renewal of the current claim
  before it expires, a reclaim after it has expired or under a new epoch.
\<close>

definition admissible ::
  "pystr \<Rightarrow> (nat \<Rightarrow> int) \<Rightarrow> lease_transaction list \<Rightarrow> runnable_work \<Rightarrow> int \<Rightarrow> lease_request \<Rightarrow> bool" where
  "admissible epoch clock h w attempt r \<longleftrightarrow>
     is_protocol_id epoch \<and> (\<forall>n. clock n < clock 0 + requested_seconds r)
     \<and> (let l = lt_lease (last h) in
        case r of
          Claim c \<Rightarrow> h = []
        | Renew c \<Rightarrow>
            h \<noteq> [] \<and> lr_runtime_epoch l = epoch
            \<and> assert_claim_binding l w (nr_claim_id c) (nr_owner_id c) (nr_expected_lease_version c) = Inr ()
            \<and> lr_renewed_at l \<le> clock 0 \<and> (\<forall>n. clock n < lr_expires_at l)
            \<and> lr_expires_at l < next_expiry l (clock 0) (nr_lease_seconds c)
        | Reclaim c \<Rightarrow>
            h \<noteq> [] \<and> qr_expected_work_attempt c = attempt
            \<and> (lr_runtime_epoch l = epoch \<longrightarrow> lr_expires_at l \<le> clock 0))"

lemma new_lease_ok:
  assumes "validate_runnable_work w = Inr w" and "is_protocol_id epoch" "is_protocol_id cid"
    and "is_protocol_id owner" and "1 \<le> version" "0 \<le> n" "1 \<le> seconds" "seconds \<le> tenure"
  shows "\<exists>l. new_lease epoch w cid owner version n seconds tenure = Inr l"
proof -
  from assms(1) have "runnable_shape w" by (simp add: validate_runnable_work_def split: if_splits)
  with assms show ?thesis
    by (simp add: new_lease_def Let_def valid_lease_def runnable_shape_def valid_positive_int_def
        valid_nonnegative_int_def)
qed

lemma fresh_lease_in_time:
  assumes "new_lease epoch w cid owner version n seconds tenure = Inr l"
    and "n \<le> m" "m < n + seconds" "op \<noteq> LO_RENEW"
  shows "assert_commit_clock op h l m = Inr ()"
  using new_lease_InrD [OF assms(1)] assms(2-4)
  by (simp add: assert_commit_clock_def valid_lease_def)

lemma renewed_in_time:
  assumes "renewed_lease epoch p w c n = Inr l" "lr_expires_at p \<le> lr_absolute_expires_at p"
    and "n \<le> m" "m < lr_expires_at p" "h \<noteq> []" "p = lt_lease (last h)"
  shows "assert_commit_clock LO_RENEW h l m = Inr ()"
  using renewed_lease_InrD [OF assms(1)] assms(2-6)
  by (simp add: assert_commit_clock_def Let_def)

lemma admissible_in_time:
  assumes ready: "ready h w r" and ad: "admissible (lp_epoch p) clock h w attempt r"
    and m: "mono clock" and z: "0 \<le> clock 0"
  shows "holds_in_time p clock h w r n"
proof -
  have c0: "clock 0 \<le> clock n" using m by (simp add: monoD)
  have cm: "clock n \<le> clock k" if "n \<le> k" for k using m that by (rule monoD)
  have w: "validate_runnable_work w = Inr w" and v: "valid_request r" using ready by (simp_all add: ready_def)
  have win: "clock k < clock n + requested_seconds r" for k
    using ad c0 by (auto simp: admissible_def intro: less_le_trans)
  have valid_last: "valid_lease (lt_lease (last h))" if "h \<noteq> []"
    using ready that by (intro check_transaction_InrD(1) readable_transaction [of h])
      (simp_all add: ready_def)
  show ?thesis
  proof (cases r)
    case (Claim c)
    with v ad have "\<exists>l. new_lease (lp_epoch p) w (cr_claim_id c) (cr_owner_id c) 1 (clock n)
        (cr_lease_seconds c) (cr_max_tenure_seconds c) = Inr l"
      using z c0 by (intro new_lease_ok [OF w])
        (simp_all add: admissible_def valid_claim_request_def valid_duration_def valid_tenure_def
          valid_positive_int_def)
    then obtain l where l: "new_lease (lp_epoch p) w (cr_claim_id c) (cr_owner_id c) 1 (clock n)
        (cr_lease_seconds c) (cr_max_tenure_seconds c) = Inr l" ..
    from Claim ad have "h = []" by (simp add: admissible_def)
    with Claim l cm win fresh_lease_in_time [OF l] show ?thesis
      by (simp add: holds_in_time_def lease_at_commit_def)
  next
    case (Renew c)
    let ?p = "lt_lease (last h)"
    from Renew ad have h: "h \<noteq> []" and b: "lr_runtime_epoch ?p = lp_epoch p"
      "assert_claim_binding ?p w (nr_claim_id c) (nr_owner_id c) (nr_expected_lease_version c) = Inr ()"
      and t: "lr_renewed_at ?p \<le> clock 0" "\<And>k. clock k < lr_expires_at ?p"
      "lr_expires_at ?p < next_expiry ?p (clock 0) (nr_lease_seconds c)"
      by (simp_all add: admissible_def Let_def)
    from t(3) c0 have "lr_expires_at ?p < next_expiry ?p (clock n) (nr_lease_seconds c)"
      by (simp add: next_expiry_def)
    moreover have "lr_expires_at ?p \<le> lr_absolute_expires_at ?p"
      using valid_last [OF h] by (simp add: valid_lease_def)
    moreover from this have "clock n < lr_absolute_expires_at ?p" using t(2) [of n] by simp
    ultimately obtain l where l: "renewed_lease (lp_epoch p) ?p w c (clock n) = Inr l"
      using b t(1,2) c0 by (auto simp: renewed_lease_def assert_lease_time_def Let_def
          require_def split: if_splits)
    with Renew h t(2) cm \<open>lr_expires_at ?p \<le> lr_absolute_expires_at ?p\<close> renewed_in_time [OF l] show ?thesis
      by (simp add: holds_in_time_def lease_at_commit_def)
  next
    case (Reclaim c)
    let ?p = "lt_lease (last h)"
    from Reclaim ad have h: "h \<noteq> []" and e: "lr_runtime_epoch ?p = lp_epoch p \<longrightarrow> lr_expires_at ?p \<le> clock n"
      using c0 by (auto simp: admissible_def Let_def)
    have lv: "1 \<le> lr_lease_version ?p" "lr_renewed_at ?p < lr_expires_at ?p"
      using valid_last [OF h] by (simp_all add: valid_lease_def valid_positive_int_def)
    with Reclaim v ad have "\<exists>l. new_lease (lp_epoch p) w (qr_claim_id c) (qr_owner_id c)
        (lr_lease_version ?p + 1) (clock n) (qr_lease_seconds c) (qr_max_tenure_seconds c) = Inr l"
      using z c0 by (intro new_lease_ok [OF w])
        (simp_all add: admissible_def valid_reclaim_request_def valid_duration_def valid_tenure_def
          valid_positive_int_def)
    then obtain l where l: "new_lease (lp_epoch p) w (qr_claim_id c) (qr_owner_id c)
        (lr_lease_version ?p + 1) (clock n) (qr_lease_seconds c) (qr_max_tenure_seconds c) = Inr l" ..
    with e lv have "reclaimed_lease (lp_epoch p) ?p w c (clock n) = Inr l"
      by (auto simp: reclaimed_lease_def)
    with Reclaim h cm win fresh_lease_in_time [OF l] show ?thesis
      by (simp add: holds_in_time_def lease_at_commit_def)
  qed
qed

text \<open>Everything a request needs of its surroundings.\<close>

definition favourable ::
  "lease_ports \<Rightarrow> lock_authority \<Rightarrow> work_snapshot \<Rightarrow> (nat \<Rightarrow> int) \<Rightarrow> lease_store \<Rightarrow> runnable_work \<Rightarrow>
     int \<Rightarrow> lease_request \<Rightarrow> bool" where
  "favourable p a snap clock st w attempt r \<longleftrightarrow>
     granting p a (lq_session_id r) snap clock \<and> in_time clock st
     \<and> 0 \<le> clock 0 \<and> (\<forall>n. small (clock n + 100000)) \<and> small_work w r
     \<and> shows_work (lq_session_id r) snap w attempt
     \<and> ready (ls_disk st (lq_session_id r) (lq_work_id r)) w r
     \<and> admissible (lp_epoch p) clock (ls_disk st (lq_session_id r) (lq_work_id r)) w attempt r"

lemma favourable_commit:
  assumes f: "favourable p a snap clock st w attempt r" and t: "later clock st t"
    and dg: "request_digest (operation_of r) r = Inr dg"
    and h: "h = ls_disk st (lq_session_id r) (lq_work_id r)"
  shows "succeeds (commit p h (operation_of r) dg w r check a) (\<lambda>mo t. \<not> mo_replayed mo) t"
proof (rule commit_granted)
  note f' = f [unfolded favourable_def]
  show "granting p a (lq_session_id r) snap clock" "0 \<le> clock 0" "\<forall>n. small (clock n + 100000)"
    "small_work w r" "ready h w r" using f' h by simp_all
  show "in_time clock t" "h = ls_disk t (lq_session_id r) (lq_work_id r)"
    using t h by (simp_all add: later_def)
  show "lq_session_id r = lq_session_id r" ..
  show "rw_work_id w = lq_work_id r" using f' by (simp add: ready_def)
  show "request_digest (operation_of r) r = Inr dg" by fact
  show "\<forall>n \<ge> ls_calls t. holds_in_time p clock h w r n"
    using f' h by (auto intro: admissible_in_time simp: granting_def)
qed

lemma lbind_simps:
  "lbind (lbind m k) j = lbind m (\<lambda>x. lbind (k x) j)"
  "lbind (lrequire e b m) k = lrequire e b (lbind m k)"
  "lbind (lreturn x) k = k x"
  by (auto simp: fun_eq_iff lbind_def lrequire_def lraise_def lreturn_def lpure_def
      split: prod.split sum.split)

text \<open>The steps of a body under favourable ports, one rule for each.\<close>

lemma run_read:
  "later clock st t \<Longrightarrow> readable (ls_disk st sid wid) \<Longrightarrow>
     (succeeds (k (ls_disk st sid wid)) Q t) \<Longrightarrow> succeeds (lbind (read_history sid wid) k) Q t"
  by (simp add: succeeds_lbind succeeds_read later_def)

lemma run_step:
  assumes "succeeds m (\<lambda>x t'. P x \<and> later clock t t') t" and "later clock st t"
    and "\<And>x t'. P x \<Longrightarrow> later clock st t' \<Longrightarrow> succeeds (k x) Q t'"
  shows "succeeds (lbind m k) Q t"
  unfolding succeeds_lbind using assms(1)
  by (rule succeeds_mono) (use assms(2,3) later_trans in blast)

lemma run_now:
  assumes f: "favourable p a snap clock st w attempt r" and t: "later clock st t"
    and k: "\<And>n t'. later clock st t' \<Longrightarrow> succeeds (k (clock n)) Q t'"
  shows "succeeds (lbind (now p) k) Q t"
proof (rule run_step [OF _ t])
  have "in_time clock t" using t by (simp add: later_def)
  with f show "succeeds (now p) (\<lambda>x t'. (\<exists>n. x = clock n) \<and> later clock t t') t"
    by (auto simp: favourable_def intro: succeeds_mono [OF now_granted])
qed (use k in blast)

lemma run_verify:
  assumes f: "favourable p a snap clock st w attempt r" and t: "later clock st t"
    and k: "\<And>t'. later clock st t' \<Longrightarrow> succeeds (k ()) Q t'"
  shows "succeeds (lbind (verify_runtime p check a) k) Q t"
proof (rule run_step [OF _ t])
  have "in_time clock t" using t by (simp add: later_def)
  with f show "succeeds (verify_runtime p check a) (\<lambda>x t'. True \<and> later clock t t') t"
    by (auto simp: favourable_def intro: succeeds_mono [OF runtime_granted])
qed (use k in simp)

lemma run_work:
  assumes f: "favourable p a snap clock st w attempt r" and t: "later clock st t"
    and k: "\<And>t'. later clock st t' \<Longrightarrow> succeeds (k w) Q t'"
  shows "succeeds (lbind (load_current_work p (lq_session_id r) a) k) Q t"
proof (rule run_step [OF _ t])
  have "in_time clock t" using t by (simp add: later_def)
  with f show "succeeds (load_current_work p (lq_session_id r) a)
      (\<lambda>x t'. x = w \<and> later clock t t') t"
    unfolding favourable_def by (elim conjE) (rule work_granted(1))
qed (use k in simp)

lemma run_current:
  assumes f: "favourable p a snap clock st w attempt r" and t: "later clock st t"
    and k: "\<And>t'. later clock st t' \<Longrightarrow> succeeds (k (Some (w, attempt))) Q t'"
  shows "succeeds (lbind (current_runnable p (lq_session_id r) a) k) Q t"
proof (rule run_step [OF _ t])
  have "in_time clock t" using t by (simp add: later_def)
  with f show "succeeds (current_runnable p (lq_session_id r) a)
      (\<lambda>x t'. x = Some (w, attempt) \<and> later clock t t') t"
    unfolding favourable_def by (elim conjE) (rule work_granted(2))
qed (use k in simp)

lemma run_request:
  assumes f: "favourable p a snap clock st w attempt r"
    and body: "\<And>dg t. request_digest (operation_of r) r = Inr dg \<Longrightarrow> later clock st t \<Longrightarrow>
      succeeds (body dg) Q t"
  shows "succeeds (answer_or_run p (operation_of r) r a answer body) Q st"
proof (rule new_request_granted)
  note f' = f [unfolded favourable_def ready_def]
  show "granting p a (lq_session_id r) snap clock" "in_time clock st" "valid_request r"
    "readable (ls_disk st (lq_session_id r) (lq_work_id r))"
    "find_receipt (ls_disk st (lq_session_id r) (lq_work_id r)) (lq_request_id r) = None"
    using f' by blast+
qed (rule body)

lemma favourable_facts:
  assumes "favourable p a snap clock st w attempt r"
  shows "readable (ls_disk st (lq_session_id r) (lq_work_id r))" and "valid_request r"
    and "lq_work_id r = rw_work_id w" and "mono clock"
    and "admissible (lp_epoch p) clock (ls_disk st (lq_session_id r) (lq_work_id r)) w attempt r"
    and "ready (ls_disk st (lq_session_id r) (lq_work_id r)) w r"
  using assms unfolding favourable_def ready_def granting_def by blast+

lemma claim_runs:
  assumes f: "favourable p a snap clock st w attempt (Claim c)"
  shows "succeeds (claim p c a) (\<lambda>mo t. \<not> mo_replayed mo) st"
proof -
  let ?h = "ls_disk st (cr_session_id c) (cr_work_id c)"
  note ff = favourable_facts [OF f, unfolded lq_session_id.simps lq_work_id.simps valid_request.simps]
  note runs = run_request [OF f, unfolded operation_of.simps] run_work [OF f, unfolded lq_session_id.simps]
    run_now [OF f] run_verify [OF f] run_read [where clock = clock and st = st]
  note v = ff(2) and wid = ff(3)
  from ff(5) have h: "?h = []" by (simp add: admissible_def)
  have commit: "succeeds (commit p [] LO_CLAIM dg w (Claim c) check a) (\<lambda>mo t. \<not> mo_replayed mo) t"
    if "request_digest LO_CLAIM (Claim c) = Inr dg" "later clock st t" for dg check t
    using favourable_commit [OF f that(2)] that(1) h by simp
  show ?thesis
    unfolding claim_def Let_def succeeds_simps
    using v by (auto intro!: runs ff(1) commit simp: wid [symmetric] h)
qed

lemma renew_runs:
  assumes f: "favourable p a snap clock st w attempt (Renew c)"
  shows "succeeds (renew p c a) (\<lambda>mo t. \<not> mo_replayed mo) st"
proof -
  let ?h = "ls_disk st (nr_session_id c) (nr_work_id c)"
  let ?l = "lt_lease (last ?h)"
  note ff = favourable_facts [OF f, unfolded lq_session_id.simps lq_work_id.simps valid_request.simps]
  note runs = run_request [OF f, unfolded operation_of.simps] run_work [OF f, unfolded lq_session_id.simps]
    run_now [OF f] run_verify [OF f] run_read [where clock = clock and st = st]
  note v = ff(2) and wid = ff(3) and m = ff(4)
  from ff(5) have "?h \<noteq> []" and e: "lr_runtime_epoch ?l = lp_epoch p"
    and b: "assert_claim_binding ?l w (nr_claim_id c) (nr_owner_id c) (nr_expected_lease_version c) = Inr ()"
    and t: "lr_renewed_at ?l \<le> clock 0" "\<And>k. clock k < lr_expires_at ?l"
      "lr_expires_at ?l < next_expiry ?l (clock 0) (nr_lease_seconds c)"
    by (simp_all add: admissible_def Let_def)
  note h = this(1) ff(1)
  from ff(6) have n: "current_tenure_renewals ?h < MAX_RENEWALS_PER_TENURE"
    unfolding ready_def lease_request.case by blast
  have c0: "clock 0 \<le> clock k" for k using m by (simp add: monoD)
  have "valid_lease ?l"
    using h by (intro check_transaction_InrD(1) readable_transaction [of ?h]) simp_all
  then have abs: "clock k < lr_absolute_expires_at ?l" for k
    using t(2) [of k] by (simp add: valid_lease_def)
  have time: "assert_lease_time ?l (clock k) = Inr ()"
    and ext: "lr_expires_at ?l < next_expiry ?l (clock k) (nr_lease_seconds c)" for k
    using t abs [of k] c0 [of k] by (auto simp: assert_lease_time_def next_expiry_def)
  have commit: "succeeds (commit p ?h LO_RENEW dg w (Renew c) check a) (\<lambda>mo t. \<not> mo_replayed mo) t"
    if "request_digest LO_RENEW (Renew c) = Inr dg" "later clock st t" for dg check t
    using favourable_commit [OF f that(2)] that(1) by simp
  show ?thesis
    unfolding renew_def Let_def succeeds_simps
  proof (rule conjI [OF v], rule runs(1))
    fix dg t assume dg: "request_digest LO_RENEW (Renew c) = Inr dg" and t: "later clock st t"
    show "succeeds (lbind (load_current_work p (nr_session_id c) a) (\<lambda>w.
       lrequire WORK_SUPERSEDED (nr_work_id c = rw_work_id w)
       (lbind (read_history (nr_session_id c) (nr_work_id c)) (\<lambda>h.
        lrequire LEASE_NOT_FOUND (h \<noteq> [])
        (lrequire LEASE_RENEWAL_LIMIT (current_tenure_renewals h < MAX_RENEWALS_PER_TENURE)
         (lrequire LEASE_EPOCH_FENCED (lr_runtime_epoch (lt_lease (last h)) = lp_epoch p)
         (lbind (lpure (assert_claim_binding (lt_lease (last h)) w (nr_claim_id c) (nr_owner_id c)
                          (nr_expected_lease_version c))) (\<lambda>_.
          lbind (now p) (\<lambda>n.
          lbind (lpure (assert_lease_time (lt_lease (last h)) n)) (\<lambda>_.
            lbind (verify_runtime p (runtime_query (Some LO_RENEW) (lr_runtime_epoch (lt_lease (last h)))
                (lr_owner_id (lt_lease (last h))) (Some (lt_lease (last h))) False) a) (\<lambda>_.
            lrequire LEASE_RENEWAL_NOT_EXTENDED
              (lr_expires_at (lt_lease (last h)) < next_expiry (lt_lease (last h)) n (nr_lease_seconds c))
              (commit p h LO_RENEW dg w (Renew c) (runtime_query (Some LO_RENEW)
                (lr_runtime_epoch (lt_lease (last h))) (lr_owner_id (lt_lease (last h)))
                (Some (lt_lease (last h))) False) a)))))))))))) (\<lambda>mo t. \<not> mo_replayed mo) t"
      using t by (auto intro!: runs(2-5) h commit [OF dg] simp: wid [symmetric] n e b time ext
          succeeds_lbind [of "lpure _"] succeeds_lpure_iff)
  qed
qed

lemma reclaim_runs:
  assumes f: "favourable p a snap clock st w attempt (Reclaim c)"
  shows "succeeds (reclaim p c a) (\<lambda>out t. \<exists>mo. out = Reclaimed mo \<and> \<not> mo_replayed mo) st"
proof -
  let ?h = "ls_disk st (qr_session_id c) (qr_work_id c)"
  let ?l = "lt_lease (last ?h)"
  note ff = favourable_facts [OF f, unfolded lq_session_id.simps lq_work_id.simps valid_request.simps]
  note runs = run_request [OF f, unfolded operation_of.simps] run_current [OF f, unfolded lq_session_id.simps]
    run_now [OF f] run_verify [OF f] run_read [where clock = clock and st = st]
  note v = ff(2) and wid = ff(3) and m = ff(4)
  from ff(5) have "?h \<noteq> []" and e: "lr_runtime_epoch ?l = lp_epoch p \<longrightarrow> lr_expires_at ?l \<le> clock 0"
    and at: "qr_expected_work_attempt c = attempt"
    by (simp_all add: admissible_def Let_def)
  note h = this(1) ff(1)
  have c0: "clock 0 \<le> clock k" for k using m by (simp add: monoD)
  have "valid_lease ?l"
    using h by (intro check_transaction_InrD(1) readable_transaction [of ?h]) simp_all
  then have time: "lr_runtime_epoch ?l = lp_epoch p \<Longrightarrow> lr_renewed_at ?l \<le> clock k"
    "lr_runtime_epoch ?l = lp_epoch p \<Longrightarrow> lr_expires_at ?l \<le> clock k" for k
    using e c0 [of k] by (auto simp: valid_lease_def)
  from ff(6) have n: "\<not> MAX_RECLAIMS_PER_WORK \<le> reclaim_count ?h"
    and b: "lr_binding_digest ?l = rw_binding_digest w"
    and fresh: "qr_claim_id c \<notin> (lr_claim_id \<circ> lt_lease) ` set ?h"
      "qr_owner_id c \<notin> (lr_owner_id \<circ> lt_lease) ` set ?h"
    unfolding ready_def lease_request.case not_le by blast+
  have commit: "succeeds (commit p ?h LO_RECLAIM dg w (Reclaim c) check a) (\<lambda>mo t. \<not> mo_replayed mo) t"
    if "request_digest LO_RECLAIM (Reclaim c) = Inr dg" "later clock st t" for dg check t
    using favourable_commit [OF f that(2)] that(1) by simp
  have eligible: "succeeds (lbind (assert_reclaim_eligible p c (w, attempt) ?h a) k) Q t"
    if "later clock st t" "\<And>check t'. later clock st t' \<Longrightarrow> succeeds (k check) Q t'" for t k Q
    unfolding assert_reclaim_eligible_def Let_def lbind_simps succeeds_simps fst_conv snd_conv
    using that fresh by (auto intro!: runs(3,4) simp: wid [symmetric] at b time)
  show ?thesis
    unfolding reclaim_def Let_def succeeds_simps
  proof (rule conjI [OF v], rule runs(1))
    fix dg t assume dg: "request_digest LO_RECLAIM (Reclaim c) = Inr dg" and t: "later clock st t"
    have finish: "succeeds (lbind (commit p ?h LO_RECLAIM dg w (Reclaim c) check a)
        (\<lambda>mo. lreturn (Reclaimed mo))) (\<lambda>out t. \<exists>mo. out = Reclaimed mo \<and> \<not> mo_replayed mo) t'"
      if "later clock st t'" for check t'
      unfolding succeeds_lbind using commit [OF dg that] by (rule succeeds_mono) simp
    have "succeeds (lbind (current_runnable p (qr_session_id c) a) (\<lambda>current.
             case current of
               None \<Rightarrow> lraise WORK_SUPERSEDED
             | Some wa \<Rightarrow>
                 lrequire WORK_SUPERSEDED (rw_work_id (fst wa) = qr_work_id c)
                 (lbind (assert_reclaim_eligible p c wa ?h a) (\<lambda>check.
                  lbind (commit p ?h LO_RECLAIM dg (fst wa) (Reclaim c) check a) (\<lambda>mo.
                    lreturn (Reclaimed mo))))))
        (\<lambda>out t. \<exists>mo. out = Reclaimed mo \<and> \<not> mo_replayed mo) t"
      using t by (auto intro!: runs(2) eligible finish simp: wid [symmetric])
    with t h n show "succeeds (lbind (read_history (qr_session_id c) (qr_work_id c)) (\<lambda>h.
       lrequire LEASE_NOT_FOUND (h \<noteq> [])
       (if MAX_RECLAIMS_PER_WORK \<le> reclaim_count h
        then lbind (lpure (build_exhaustion_proof (lt_work (last h)) (qr_expected_work_attempt c) h
                             (lp_epoch p) (qr_owner_id c) (qr_request_id c) dg)) (\<lambda>proof.
             lbind (confirm_exhausted p c h proof a) (\<lambda>x. lreturn (Exhausted x)))
        else lbind (current_runnable p (qr_session_id c) a) (\<lambda>current.
             case current of
               None \<Rightarrow> lraise WORK_SUPERSEDED
             | Some wa \<Rightarrow>
                 lrequire WORK_SUPERSEDED (rw_work_id (fst wa) = qr_work_id c)
                 (lbind (assert_reclaim_eligible p c wa h a) (\<lambda>check.
                  lbind (commit p h LO_RECLAIM dg (fst wa) (Reclaim c) check a) (\<lambda>mo.
                    lreturn (Reclaimed mo))))))))
        (\<lambda>out t. \<exists>mo. out = Reclaimed mo \<and> \<not> mo_replayed mo) t"
      by (intro runs(5)) simp_all
  qed
qed

lemma mutate_runs:
  assumes "favourable p a snap clock st w attempt r"
  shows "succeeds (mutate p r a) (\<lambda>out t. \<exists>mo. out = Reclaimed mo \<and> \<not> mo_replayed mo) st"
proof -
  have fresh: "succeeds (lbind m (\<lambda>mo. lreturn (Reclaimed mo)))
      (\<lambda>out t. \<exists>mo. out = Reclaimed mo \<and> \<not> mo_replayed mo) st"
    if "succeeds m (\<lambda>mo t. \<not> mo_replayed mo) st" for m
    unfolding succeeds_lbind using that by (rule succeeds_mono) simp
  show ?thesis
    using assms fresh [OF claim_runs] fresh [OF renew_runs] reclaim_runs
    by (cases r) (auto simp: mutate_def)
qed

end
