(* ===== verification/Lease_Properties.thy ===== *)
theory Lease_Properties
  imports Lease_Runs Work_Properties Registry_Properties
begin

text \<open>
  The properties of the work projection and of the lease store, over a sample claim of the work
  a waiting dialogue owes.
\<close>

section \<open>A sample claim\<close>

definition leased_work :: runnable_work where
  "leased_work =
     (case derive_runnable_work waiting_state (Some (origin_of (sample_work reply_trigger))) of
        Inr (Some w) \<Rightarrow> w
      | _ \<Rightarrow> projected waiting_state (sample_work reply_trigger))"

lemma waiting_queued:
  "queued_candidates waiting_state = [sample_work reply_trigger]" "phase waiting_state = WAITING_HOST"
  by (simp_all add: queued_candidates_def current_works_def waiting_state_def sample_state_def
      sample_run_def sample_work_def active_work_def List.map_filter_simps)

lemma leased_work_facts:
  shows "derive_runnable_work waiting_state (Some (origin_of (sample_work reply_trigger)))
      = Inr (Some leased_work)"
    and "validate_runnable_work leased_work = Inr leased_work"
    and "\<exists>d. leased_work = (projected waiting_state (sample_work reply_trigger))\<lparr>rw_binding_digest := d\<rparr>"
proof -
  note q = derive_runnable_queued [OF waiting_state_valid waiting_queued]
  from project_work_ok [OF waiting_state_valid q(2)] q(1) obtain d where d:
    "derive_runnable_work waiting_state (Some (origin_of (sample_work reply_trigger)))
      = Inr (Some ((projected waiting_state (sample_work reply_trigger))\<lparr>rw_binding_digest := d\<rparr>))"
    "validate_runnable_work ((projected waiting_state (sample_work reply_trigger))\<lparr>rw_binding_digest := d\<rparr>)
      = Inr ((projected waiting_state (sample_work reply_trigger))\<lparr>rw_binding_digest := d\<rparr>)" by auto
  then have w: "leased_work = (projected waiting_state (sample_work reply_trigger))\<lparr>rw_binding_digest := d\<rparr>"
    by (simp add: leased_work_def)
  with d show "derive_runnable_work waiting_state (Some (origin_of (sample_work reply_trigger)))
      = Inr (Some leased_work)"
    and "validate_runnable_work leased_work = Inr leased_work" by simp_all
  from w show "\<exists>d. leased_work = (projected waiting_state (sample_work reply_trigger))\<lparr>rw_binding_digest := d\<rparr>" ..
qed

lemma leased_work_simps [simp]:
  "rw_session_id leased_work = py ''session1''"
  "rw_registry_generation leased_work = 1"
  "rw_conversation_version leased_work = 8" "rw_observed_sequence leased_work = 9"
  "rw_trigger_event_sequence leased_work = 5" "rw_trigger_event_id leased_work = py ''event5''"
  "rw_work_id leased_work = cw_work_id (sample_work reply_trigger)"
proof -
  from leased_work_facts(3) obtain d where
    d: "leased_work = (projected waiting_state (sample_work reply_trigger))\<lparr>rw_binding_digest := d\<rparr>" ..
  show "rw_session_id leased_work = py ''session1''" "rw_registry_generation leased_work = 1"
    "rw_conversation_version leased_work = 8" "rw_observed_sequence leased_work = 9"
    "rw_trigger_event_sequence leased_work = 5" "rw_trigger_event_id leased_work = py ''event5''"
    "rw_work_id leased_work = cw_work_id (sample_work reply_trigger)"
    unfolding d by (simp_all add: projected_def provisional_work_def waiting_state_def
        sample_state_def origin_of_def sample_work_def)
qed

definition sample_registry :: registry_state where
  "sample_registry =
     \<lparr>rs_registry_id = py ''registry1'', rs_sequence = 2, rs_generation = 1,
      rs_current_session_id = Some (py ''session1''),
      rs_dialogues = [registered_session (py ''session1'') RG_ACTIVE 1 (Some 1)],
      rs_pending_handoff = None, rs_receipts = []\<rparr>"

definition sample_snapshot :: work_snapshot where
  "sample_snapshot = \<lparr>ws_dialogue = waiting_state, ws_registry = sample_registry,
                      ws_origin = Some (origin_of (sample_work reply_trigger))\<rparr>"

definition sample_ports :: lease_ports where
  "sample_ports =
     \<lparr>lp_epoch = py ''epoch1'', lp_authority = (\<lambda>_ _ _. None),
      lp_snapshot = (\<lambda>_ _ _. Some sample_snapshot), lp_verifier = (\<lambda>_ _ _. Some True),
      lp_clock = (\<lambda>_. Some 100), lp_race = (\<lambda>_. []),
      lp_storage = (\<lambda>_. None)\<rparr>"

definition sample_claim :: claim_request where
  "sample_claim =
     \<lparr>cr_session_id = py ''session1'', cr_request_id = py ''request1'', cr_claim_id = py ''claim1'',
      cr_work_id = cw_work_id (sample_work reply_trigger), cr_owner_id = py ''owner1'',
      cr_lease_seconds = 60, cr_max_tenure_seconds = 600\<rparr>"

definition empty_store :: lease_store where
  "empty_store = \<lparr>ls_calls = 0, ls_last_clock = None, ls_disk = (\<lambda>_ _. [])\<rparr>"

lemma sample_work_id: "is_protocol_id (cw_work_id (sample_work reply_trigger))"
  using sample_work_valid(1) [of reply_trigger 5] by (simp add: valid_current_work_def)

lemma sample_shows_work: "shows_work (py ''session1'') sample_snapshot leased_work 1"
proof -
  have "session_is_current (py ''session1'') sample_snapshot"
    by (simp add: session_is_current_def sample_snapshot_def sample_registry_def
        registered_session_def waiting_state_def sample_state_def)
  moreover have "canonical_work_attempt waiting_state leased_work = Inr 1"
    by (simp add: canonical_work_attempt_def waiting_queued) (simp add: sample_work_def)
  moreover have "is_protocol_id (py ''session1'')" by code_simp
  ultimately show ?thesis
    using leased_work_facts(1)
    by (simp add: shows_work_def derive_authoritative_work_def work_of_def sample_snapshot_def)
      (simp add: waiting_state_def sample_state_def)
qed

lemma sample_claim_valid: "valid_claim_request sample_claim"
proof -
  have "is_protocol_id (py ''session1'')" "is_protocol_id (py ''request1'')"
    "is_protocol_id (py ''claim1'')" "is_protocol_id (py ''owner1'')" by code_simp+
  with sample_work_id show ?thesis
    by (simp add: valid_claim_request_def sample_claim_def valid_duration_def valid_tenure_def
        valid_positive_int_def MAX_LEASE_SECONDS_def MAX_TENURE_SECONDS_def)
qed

lemma sample_favourable:
  "favourable sample_ports a sample_snapshot (\<lambda>_. 100) empty_store leased_work 1 (Claim sample_claim)"
proof -
  have "granting sample_ports a (py ''session1'') sample_snapshot (\<lambda>_. 100)"
    by (simp add: granting_def sample_ports_def mono_def)
  moreover have "is_protocol_id (py ''epoch1'')" by code_simp
  moreover have "ready [] leased_work (Claim sample_claim)"
    using sample_claim_valid leased_work_facts(2)
    by (simp add: ready_def readable_def filed_def find_receipt_def) (simp add: sample_claim_def)
  ultimately show ?thesis
    using sample_shows_work
    by (simp add: favourable_def in_time_def empty_store_def small_def small_work_def
        admissible_def sample_claim_def sample_ports_def)
qed

section \<open>The work a host may run\<close>

text \<open>
  C33.  The projection of a valid dialogue state is total and determined by the state: when the
  host owes work, the one queued item is projected exactly under the origin the state names, to
  work that carries its identifier, the current sequence and an identity and a digest that
  validate; when it owes none, nothing is projected and any origin is refused.
\<close>

theorem runnable_work_projection:
  assumes "validate_state s"
  shows "case (if phase s = WAITING_HOST then queued_candidates s else []) of
      [] \<Rightarrow> derive_runnable_work s None = Inr None
           \<and> (\<forall>wo. derive_runnable_work s (Some wo) = Inl WORK_ORIGIN_UNEXPECTED)
    | [w] \<Rightarrow> (\<exists>r. derive_runnable_work s (Some (origin_of w)) = Inr (Some r)
              \<and> validate_runnable_work r = Inr r \<and> rw_work_id r = cw_work_id w
              \<and> rw_observed_sequence r = sequence s)
           \<and> (\<forall>wo r. derive_runnable_work s wo = Inr r \<longrightarrow> wo = Some (origin_of w))
    | _ \<Rightarrow> False"
proof (cases "phase s = WAITING_HOST \<and> queued_candidates s \<noteq> []")
  case False
  with assms show ?thesis
    by (auto simp: derive_runnable_work_def nothing_runnable_def)
next
  case True
  with queued_candidates_current [OF assms] obtain w where
    q: "queued_candidates s = [w]" and p: "phase s = WAITING_HOST" by auto
  note d = derive_runnable_queued [OF assms q p]
  from project_work_ok [OF assms d(2)] d(1) have "\<exists>r. derive_runnable_work s (Some (origin_of w)) = Inr (Some r)
      \<and> validate_runnable_work r = Inr r \<and> rw_work_id r = cw_work_id w \<and> rw_observed_sequence r = sequence s"
    by (auto simp: projected_def provisional_work_def)
  moreover have "wo = Some (origin_of w)" if "derive_runnable_work s wo = Inr r" for wo r
    using that current_work_valid(2) [OF assms d(2)] p q
    by (auto simp: derive_runnable_work_def dest!: project_work_InrD split: if_splits option.splits)
  ultimately show ?thesis using p q by simp
qed

theorem runnable_work_projection_witness:
  "\<exists>r. derive_runnable_work waiting_state (Some (origin_of (sample_work reply_trigger))) = Inr (Some r)
     \<and> validate_runnable_work r = Inr r \<and> rw_work_id r = cw_work_id (sample_work reply_trigger)
     \<and> rw_observed_sequence r = 9"
  using runnable_work_projection [OF waiting_state_valid]
  by (simp add: waiting_queued) (simp add: waiting_state_def sample_state_def)

section \<open>Mutations of a lease\<close>

text \<open>
  C24.  What a lease mutation does to the disk, whatever its ports answer and whoever else
  writes.  A request that succeeds has its receipt, with the reported lease and the digest of the
  request, in a history that is readable afterwards; it adds exactly the one transaction it
  reports, for its own epoch, work it was shown and a time it read, or nothing where it replays a
  receipt.  A proof of exhaustion adds nothing and is that of a history with its two reclaims
  spent.  A request that fails adds nothing, with one exception: where the file system reports a
  failure after the transaction took its name, the request fails with that code, and its one
  transaction is on disk with a receipt, as if it had succeeded.
\<close>

theorem lease_mutation_effect:
  "case mutate p r a st of (res, st') \<Rightarrow> mutation_effect p a r (ls_disk st) res (ls_disk st')"
  using mutate_effect by (auto split: prod.split)

text \<open>
  C5.  A request every check of which is met commits a new lease, and exactly its one transaction
  is added.  What it needs of its surroundings: the lock is held, the supervisor accepts, the
  snapshot shows the session current with this work and attempt, the file system does not fail,
  nobody else writes, and the clock never runs back, starts no earlier than the store's last
  reading and stays below the first reading plus the requested seconds; the numbers are below
  \<open>10 ^ 100\<close>.  Of the request: it is valid, and names the session and the work.  Of the
  history: it is readable, of this session and work, knows no request of this id, and its last
  work was not observed later.  A claim needs an empty history.  A renewal needs the current claim,
  owner, version, generation and binding under the same epoch, fewer than 256 renewals in the
  tenure, a clock that has not reached the expiry, and a later expiry than the current one within
  the tenure.  A reclaim needs the current attempt and binding, fewer than two reclaims, a claim
  id and an owner id the history has not seen, and a lease that is expired or of another epoch.
  The checks the commit repeats on its own record, hash, size and history then never refuse it.
\<close>

theorem favourable_request_commits:
  assumes "granting p a (lq_session_id r) snap clock" and "in_time clock st" and "0 \<le> clock 0"
    and "\<forall>n. clock n < clock 0 + requested_seconds r"
    and "\<forall>n. small (clock n + 100000)" and "small_work w r"
    and "shows_work (lq_session_id r) snap w attempt" and "validate_runnable_work w = Inr w"
    and "is_protocol_id (lp_epoch p)"
    and "valid_request r" and "lq_session_id r = rw_session_id w" and "lq_work_id r = rw_work_id w"
    and "h = ls_disk st (lq_session_id r) (lq_work_id r)"
    and "readable h" and "filed (rw_session_id w) (rw_work_id w) h"
    and "lq_request_id r \<notin> lt_request_id ` set h"
    and "h \<noteq> [] \<longrightarrow> rw_observed_sequence (lt_work (last h)) \<le> rw_observed_sequence w"
    and "case r of
        Claim c \<Rightarrow> h = []
      | Renew c \<Rightarrow> h \<noteq> [] \<and> current_tenure_renewals h < 256
          \<and> (let l = lt_lease (last h) in
             lr_runtime_epoch l = lp_epoch p \<and> lr_claim_id l = nr_claim_id c
             \<and> lr_owner_id l = nr_owner_id c \<and> lr_lease_version l = nr_expected_lease_version c
             \<and> lr_registry_generation l = rw_registry_generation w
             \<and> lr_binding_digest l = rw_binding_digest w
             \<and> lr_renewed_at l \<le> clock 0 \<and> (\<forall>n. clock n < lr_expires_at l)
             \<and> lr_expires_at l < min (clock 0 + nr_lease_seconds c) (lr_absolute_expires_at l))
      | Reclaim c \<Rightarrow> h \<noteq> [] \<and> reclaim_count h < 2 \<and> qr_expected_work_attempt c = attempt
          \<and> qr_claim_id c \<notin> (lr_claim_id \<circ> lt_lease) ` set h
          \<and> qr_owner_id c \<notin> (lr_owner_id \<circ> lt_lease) ` set h
          \<and> (let l = lt_lease (last h) in
             lr_binding_digest l = rw_binding_digest w
             \<and> (lr_runtime_epoch l = lp_epoch p \<longrightarrow> lr_expires_at l \<le> clock 0))"
  shows "\<exists>mo st'. mutate p r a st = (Inr (Reclaimed mo), st') \<and> \<not> mo_replayed mo
    \<and> (\<exists>tx. ls_disk st' (lq_session_id r) (lq_work_id r)
          = ls_disk st (lq_session_id r) (lq_work_id r) @ [tx]
        \<and> lt_request tx = r \<and> lt_lease tx = mo_lease mo)"
proof -
  have "ready h w r"
    using assms by (cases r) (simp_all add: ready_def find_receipt_None Let_def
        MAX_RENEWALS_PER_TENURE_def MAX_RECLAIMS_PER_WORK_def)
  moreover have "admissible (lp_epoch p) clock h w attempt r"
    using assms by (cases r) (simp_all add: admissible_def Let_def assert_claim_binding_def
        next_expiry_def)
  ultimately have "favourable p a snap clock st w attempt r"
    using assms(1-7,13) by (simp add: favourable_def)
  from mutate_runs [OF this] obtain mo st' where
    m: "mutate p r a st = (Inr (Reclaimed mo), st')" "\<not> mo_replayed mo"
    by (auto simp: succeeds_iff)
  from mutate_effect [OF m(1)] m show ?thesis
    by (auto simp: mutation_effect_def Let_def adds_transaction_def outcome_of_def)
qed

theorem favourable_request_commits_witness:
  "\<exists>mo st'. mutate sample_ports (Claim sample_claim) 0 empty_store = (Inr (Reclaimed mo), st')
     \<and> \<not> mo_replayed mo
     \<and> (\<exists>tx. ls_disk st' (cr_session_id sample_claim) (cr_work_id sample_claim) = [tx]
         \<and> lt_request tx = Claim sample_claim \<and> lt_lease tx = mo_lease mo)"
proof -
  note f = sample_favourable [of 0, unfolded favourable_def ready_def admissible_def]
  have sid: "cr_session_id sample_claim = py ''session1''" by (simp add: sample_claim_def)
  have "\<exists>mo st'. mutate sample_ports (Claim sample_claim) 0 empty_store = (Inr (Reclaimed mo), st')
      \<and> \<not> mo_replayed mo
      \<and> (\<exists>tx. ls_disk st' (lq_session_id (Claim sample_claim)) (lq_work_id (Claim sample_claim))
          = ls_disk empty_store (lq_session_id (Claim sample_claim)) (lq_work_id (Claim sample_claim)) @ [tx]
        \<and> lt_request tx = Claim sample_claim \<and> lt_lease tx = mo_lease mo)"
    by (rule favourable_request_commits [where snap = sample_snapshot and clock = "\<lambda>_. 100"
          and w = leased_work and attempt = 1 and h = "[]"])
      (use f in \<open>simp_all add: empty_store_def sid\<close>)
  then show ?thesis by (simp add: empty_store_def)
qed

text \<open>A receipt on disk answers its request, also later, and under any store that holds the lock.\<close>

lemma receipt_replays:
  assumes "has_receipt r mo h"
    and "ls_disk st (lq_session_id r) (lq_work_id r) = h @ rest"
    and "readable (ls_disk st (lq_session_id r) (lq_work_id r))"
    and "lp_authority q (ls_calls st) b (lq_session_id r) = None"
  shows "mutate q r b st = (Inr (Reclaimed (mo\<lparr>mo_replayed := True\<rparr>)), st\<lparr>ls_calls := Suc (ls_calls st)\<rparr>)"
proof -
  from assms(1) obtain tx where tx: "find_receipt (ls_disk st (lq_session_id r) (lq_work_id r)) (lq_request_id r) = Some tx"
    "request_digest (operation_of r) r = Inr (lt_request_digest tx)"
    "lt_operation tx = mo_operation mo" "lt_lease tx = mo_lease mo"
    by (auto simp: has_receipt_def assms(2) find_receipt_def find_append)
  from tx(2) have v: "valid_request r"
    by (auto simp: request_digest_def andthen_eq_Inr_iff dest: request_fields_InrD)
  have run: "answer_or_run q (operation_of r) r b answer body st
      = (Inr (answer (mo\<lparr>mo_replayed := True\<rparr>)), st\<lparr>ls_calls := Suc (ls_calls st)\<rparr>)"
    for answer :: "mutation_outcome \<Rightarrow> 'b" and body
    using assms(3,4) tx
    by (cases mo) (simp add: answer_or_run_def replay_receipt_def assert_authority_def
        replayed_outcome_def lbind_def lpure_def lreturn_def lrequire_def ask_def read_history_eq)
  show ?thesis
    using v run [of id] run [of Reclaimed]
    by (cases r) (simp_all add: mutate_def claim_def renew_def reclaim_def lrequire_def Let_def
        lbind_def lreturn_def lpure_def)
qed

text \<open>
  C23.  A request that committed is answered the same for ever: in any later state of its
  history that is still readable, and under any store that holds the lock, the same request
  returns the committed lease again, marked as a replay, and changes nothing; also where the
  lease has expired, the work is superseded or another epoch runs.
\<close>

theorem committed_request_is_replayed:
  assumes "mutate p r a st = (Inr (Reclaimed mo), st1)"
    and "ls_disk st2 (lq_session_id r) (lq_work_id r)
      = ls_disk st1 (lq_session_id r) (lq_work_id r) @ rest"
    and "readable (ls_disk st2 (lq_session_id r) (lq_work_id r))"
    and "lp_authority q (ls_calls st2) b (lq_session_id r) = None"
  shows "mutate q r b st2
    = (Inr (Reclaimed (mo\<lparr>mo_replayed := True\<rparr>)), st2\<lparr>ls_calls := Suc (ls_calls st2)\<rparr>)"
proof (rule receipt_replays [OF _ assms(2-4)])
  from mutate_effect [OF assms(1)]
  show "has_receipt r mo (ls_disk st1 (lq_session_id r) (lq_work_id r))"
    by (simp add: mutation_effect_def Let_def)
qed

theorem committed_request_is_replayed_witness:
  "\<exists>mo st. mutate sample_ports (Claim sample_claim) 0 st
     = (Inr (Reclaimed (mo\<lparr>mo_replayed := True\<rparr>)), st\<lparr>ls_calls := Suc (ls_calls st)\<rparr>)"
proof -
  from mutate_runs [OF sample_favourable [of 0]] obtain mo st1 where
    m: "mutate sample_ports (Claim sample_claim) 0 empty_store = (Inr (Reclaimed mo), st1)"
    by (auto simp: succeeds_iff)
  from mutate_effect [OF m] have
    "readable (ls_disk st1 (lq_session_id (Claim sample_claim)) (lq_work_id (Claim sample_claim)))"
    by (simp add: mutation_effect_def Let_def)
  from committed_request_is_replayed [OF m _ this, of "[]" sample_ports 0]
  show ?thesis by (auto simp: sample_ports_def)
qed

text \<open>
  C27.  A lost response is recovered by asking again.  Where a request fails and its history has
  changed, although nobody else writes, the failure is one the file system reported: the history
  gained the transaction of this very request, and in any later state of the history that is
  readable the same request, under any store that holds the lock, is answered with the lease of
  that transaction, marked as a replay, and nothing changes.
\<close>

theorem lost_response_is_replayed:
  assumes "mutate p r a st = (Inl e, st1)"
    and "ls_disk st1 (lq_session_id r) (lq_work_id r) \<noteq> ls_disk st (lq_session_id r) (lq_work_id r)"
    and "\<forall>n. lp_race p n = []"
    and "ls_disk st2 (lq_session_id r) (lq_work_id r)
      = ls_disk st1 (lq_session_id r) (lq_work_id r) @ rest"
    and "readable (ls_disk st2 (lq_session_id r) (lq_work_id r))"
    and "lp_authority q (ls_calls st2) b (lq_session_id r) = None"
  shows "\<exists>tx code. e = STORAGE_FAILURE code
    \<and> ls_disk st1 (lq_session_id r) (lq_work_id r)
      = ls_disk st (lq_session_id r) (lq_work_id r) @ [tx]
    \<and> lt_request tx = r
    \<and> mutate q r b st2
      = (Inr (Reclaimed \<lparr>mo_operation = operation_of r, mo_lease = lt_lease tx, mo_replayed = True\<rparr>),
         st2\<lparr>ls_calls := Suc (ls_calls st2)\<rparr>)"
proof -
  have "\<not> raced p (ls_disk st) (lq_session_id r) (lq_work_id r) (ls_disk st1)"
    using assms(2,3) by (auto simp: raced_def)
  with mutate_effect [OF assms(1)] obtain n code tx where e: "e = STORAGE_FAILURE code"
    and tx: "adds_transaction p a r (ls_disk st) tx (ls_disk st1)"
    and receipt: "has_receipt r (outcome_of r tx False) (ls_disk st1 (lq_session_id r) (lq_work_id r))"
    by (auto simp: mutation_effect_def Let_def)
  from receipt_replays [OF receipt assms(4-6)] e tx show ?thesis
    by (auto simp: adds_transaction_def outcome_of_def)
qed

text \<open>The sample claim, on a directory that cannot be synced after the link.\<close>

definition unsynced_ports :: lease_ports where
  "unsynced_ports =
     sample_ports\<lparr>lp_storage := \<lambda>n. if n = 14 then Some (py ''FS_DURABILITY_FAILED'') else None\<rparr>"

lemma unsynced_claim:
  obtains tx st1 where
    "mutate unsynced_ports (Claim sample_claim) 0 empty_store
      = (Inl (STORAGE_FAILURE (py ''FS_DURABILITY_FAILED'')), st1)"
    "ls_disk st1 (py ''session1'') (cr_work_id sample_claim) = [tx]" "readable [tx]"
proof -
  let ?r = "Claim sample_claim" and ?h = "[] :: lease_transaction list"
  note f = sample_favourable [of 0, unfolded favourable_def]
  have id: "cr_session_id sample_claim = py ''session1''" "cr_work_id sample_claim = rw_work_id leased_work"
    by (simp_all add: sample_claim_def)
  have ready: "ready [] leased_work ?r" using f by (simp add: empty_store_def)
  have shown: "session_id (ws_dialogue sample_snapshot) = py ''session1''"
    "derive_authoritative_work (py ''session1'') sample_snapshot True = Inr (Some leased_work)"
    using sample_shows_work by (simp_all add: shows_work_def)
  have readable_nil: "readable []" using ready by (simp add: ready_def)
  obtain dg where dg: "request_digest LO_CLAIM ?r = Inr dg"
    using request_digest_ok [of ?r] sample_claim_valid by auto
  have "holds_in_time sample_ports (\<lambda>_. 100) [] leased_work ?r 0"
    using f by (intro admissible_in_time [OF ready, where attempt = 1]) (simp_all add: empty_store_def mono_def)
  then obtain l where l: "lease_at_commit (py ''epoch1'') LO_CLAIM [] leased_work ?r 100 = Inr l"
    "assert_commit_clock LO_CLAIM [] l 100 = Inr ()"
    by (auto simp: holds_in_time_def sample_ports_def)
  obtain tx where tx: "sealed_transaction LO_CLAIM [] leased_work ?r dg 100 l = Inr tx"
    "lt_sequence tx = 1"
    using seal_ok [OF ready _ _ _ _ , of dg "py ''epoch1''" 100 l] dg l(1) f
    by (auto simp: provisional_transaction_def)
  have "mutate unsynced_ports ?r 0 empty_store
    = (Inl (STORAGE_FAILURE (py ''FS_DURABILITY_FAILED'')),
       \<lparr>ls_calls = 15, ls_last_clock = Some 100,
        ls_disk = put_history (\<lambda>_ _. []) (py ''session1'') (cr_work_id sample_claim) [tx]\<rparr>)"
    using sample_claim_valid dg shown l tx id
    by (simp add: mutate_def claim_def answer_or_run_def replay_receipt_def Let_def lbind_def
        lpure_def lreturn_def lraise_def lrequire_def ask_def assert_authority_def load_snapshot_def
        load_current_work_def load_authoritative_work_def verify_runtime_def now_def keep_reading_def
        valid_nonnegative_int_def read_history_eq readable_nil find_receipt_def commit_def
        boundary_def storage_def publish_def link_transaction_def empty_store_def
        unsynced_ports_def sample_ports_def)
  moreover have "readable [tx]"
    using sealed_transaction_InrD(1) [OF tx(1)] readable_nil by (simp add: readable_def)
  ultimately show ?thesis using that by simp
qed

theorem lost_response_is_replayed_witness:
  "\<exists>tx st1. mutate unsynced_ports (Claim sample_claim) 0 empty_store
      = (Inl (STORAGE_FAILURE (py ''FS_DURABILITY_FAILED'')), st1)
    \<and> ls_disk st1 (py ''session1'') (cr_work_id sample_claim) = [tx]
    \<and> mutate sample_ports (Claim sample_claim) 0 st1
      = (Inr (Reclaimed \<lparr>mo_operation = LO_CLAIM, mo_lease = lt_lease tx, mo_replayed = True\<rparr>),
         st1\<lparr>ls_calls := Suc (ls_calls st1)\<rparr>)"
proof -
  obtain tx st1 where r: "mutate unsynced_ports (Claim sample_claim) 0 empty_store
      = (Inl (STORAGE_FAILURE (py ''FS_DURABILITY_FAILED'')), st1)"
    and d: "ls_disk st1 (py ''session1'') (cr_work_id sample_claim) = [tx]" and "readable [tx]"
    by (rule unsynced_claim)
  moreover have "cr_session_id sample_claim = py ''session1''" by (simp add: sample_claim_def)
  ultimately show ?thesis
    using lost_response_is_replayed [OF r, of st1 "[]" sample_ports 0]
    by (simp add: unsynced_ports_def) (simp add: sample_ports_def empty_store_def)
qed

section \<open>Fences and histories\<close>

lemma publishable_InrD:
  assumes "assert_publishable_for_work p f w a st = (Inr l, st')"
  shows "ls_disk st (pf_session_id f) (pf_work_id f) \<noteq> []"
    and "l = lt_lease (last (ls_disk st (pf_session_id f) (pf_work_id f)))"
    and "readable (ls_disk st (pf_session_id f) (pf_work_id f))"
    and "pf_claim_id f = lr_claim_id l" "pf_owner_id f = lr_owner_id l"
    and "pf_runtime_epoch f = lr_runtime_epoch l" "pf_lease_version f = lr_lease_version l"
    and "pf_registry_generation f = lr_registry_generation l"
  using assms
  by (auto simp: assert_publishable_for_work_def lrequire_def lraise_def lreturn_def lpure_def
      lbind_def read_history_eq Let_def split: if_splits prod.splits sum.splits)

text \<open>
  C3.  At most one fence is publishable at a time, and none for ever: of two fences for one
  work that pass the check, under any ports and at any times, the second is the first exactly
  where no transaction was added in between; once a lease is renewed or reclaimed, what held
  the old one is refused for good.
\<close>

theorem one_publishable_fence:
  assumes "assert_publishable_for_work p f w a st = (Inr l, st1)"
    and "assert_publishable_for_work p' f' w' a' st2 = (Inr l', st3)"
    and "pf_session_id f' = pf_session_id f" and "pf_work_id f' = pf_work_id f"
    and "ls_disk st2 (pf_session_id f) (pf_work_id f) = ls_disk st (pf_session_id f) (pf_work_id f) @ rest"
  shows "f' = f \<longleftrightarrow> rest = []"
proof -
  note one = publishable_InrD [OF assms(1)] and two = publishable_InrD [OF assms(2)]
  let ?h = "ls_disk st (pf_session_id f) (pf_work_id f)"
  have v: "pf_lease_version f = int (length ?h)"
    using one last_transaction(1) [of ?h] by (simp add: readable_def)
  have v': "pf_lease_version f' = int (length (?h @ rest))"
    using two last_transaction(1) [of "?h @ rest"] by (simp add: readable_def assms(3-5))
  show ?thesis
  proof
    assume "f' = f"
    with v v' show "rest = []" by simp
  next
    assume "rest = []"
    with one(2) two(2) assms(3-5) have "l' = l" by simp
    with one two assms(3,4) show "f' = f" by (cases f; cases f') simp
  qed
qed

lemma publish_runs:
  assumes g: "granting p a (pf_session_id f) snap clock" and t: "in_time clock st" "0 \<le> clock 0"
    and f: "valid_publish_fence f" and w: "validate_runnable_work w = Inr w"
    and id: "pf_session_id f = rw_session_id w" "pf_work_id f = rw_work_id w"
    and h: "readable (ls_disk st (pf_session_id f) (pf_work_id f))"
      "ls_disk st (pf_session_id f) (pf_work_id f) \<noteq> []"
      "lt_lease (last (ls_disk st (pf_session_id f) (pf_work_id f))) = l"
    and m: "pf_claim_id f = lr_claim_id l" "pf_owner_id f = lr_owner_id l"
      "pf_runtime_epoch f = lr_runtime_epoch l" "lr_runtime_epoch l = lp_epoch p"
      "pf_lease_version f = lr_lease_version l" "pf_registry_generation f = rw_registry_generation w"
      "lr_registry_generation l = rw_registry_generation w"
      "lr_binding_digest l = rw_binding_digest w"
    and c: "\<And>n. assert_lease_time l (clock n) = Inr ()"
  shows "succeeds (assert_publishable_for_work p f w a) (\<lambda>l' t. l' = l) st"
proof -
  have now: "succeeds (lbind (now p) k) Q st'"
    if "in_time clock st'" "\<And>n t'. in_time clock t' \<Longrightarrow> succeeds (k (clock n)) Q t'" for k Q st'
    unfolding succeeds_lbind using now_granted [OF g that(1) t(2)]
    by (rule succeeds_mono) (use that(2) in \<open>auto simp: later_def\<close>)
  have auth: "succeeds (lbind (assert_authority p (pf_session_id f) a) k) Q st'"
    if "in_time clock st'" "\<And>t'. in_time clock t' \<Longrightarrow> succeeds (k ()) Q t'" for k Q st'
    unfolding succeeds_lbind using authority_granted [OF g that(1)]
    by (rule succeeds_mono) (use that(2) in \<open>auto simp: later_def\<close>)
  have verify: "succeeds (lbind (verify_runtime p k' a) k) Q st'"
    if "in_time clock st'" "\<And>t'. in_time clock t' \<Longrightarrow> succeeds (k ()) Q t'" for k k' Q st'
    unfolding succeeds_lbind using runtime_granted [OF g that(1)]
    by (rule succeeds_mono) (use that(2) in \<open>auto simp: later_def\<close>)
  show ?thesis
    using f id h m c t(1)
    by (simp add: assert_publishable_for_work_def Let_def w work_of_def
        succeeds_lbind [of "lpure _"] succeeds_lbind [of "read_history _ _"] succeeds_read)
      (auto intro!: now auth [unfolded id(1)] verify simp: succeeds_lbind [of "lpure _"])
qed

text \<open>The committed sample claim, and ports under which its lease can be published.\<close>

lemma sample_committed:
  obtains tx and st1 :: lease_store
  where "ls_disk st1 (py ''session1'') (cr_work_id sample_claim) = [tx]"
    and "readable [tx]" and "lt_request tx = Claim sample_claim" and "lt_recorded_at tx = 100"
    and "lt_work tx = leased_work" and "lr_runtime_epoch (lt_lease tx) = py ''epoch1''"
proof -
  from mutate_runs [OF sample_favourable [of 0]] obtain mo st1 where
    m: "mutate sample_ports (Claim sample_claim) 0 empty_store = (Inr (Reclaimed mo), st1)"
    and f: "\<not> mo_replayed mo"
    by (auto simp: succeeds_iff)
  note e = mutate_effect [OF m, unfolded mutation_effect_def Let_def, simplified]
  from e [unfolded adds_transaction_def outcome_of_def] f obtain tx where tx: "ls_disk st1 = put_history (ls_disk empty_store) (cr_session_id sample_claim)
      (cr_work_id sample_claim) (ls_disk empty_store (cr_session_id sample_claim) (cr_work_id sample_claim) @ [tx])"
    "lt_request tx = Claim sample_claim" "lt_lease tx = mo_lease mo"
    "lr_runtime_epoch (lt_lease tx) = lp_epoch sample_ports" "was_read sample_ports (lt_recorded_at tx)"
    "was_shown sample_ports 0 (cr_session_id sample_claim) (lt_work tx)" by auto
  have sid: "cr_session_id sample_claim = py ''session1''" by (simp add: sample_claim_def)
  have d: "ls_disk st1 (py ''session1'') (cr_work_id sample_claim) = [tx]"
    by (simp add: tx(1) sid empty_store_def)
  have r: "readable [tx]" using e d by (simp add: sid)
  have "lt_recorded_at tx = 100" using tx(5) by (simp add: was_read_def sample_ports_def)
  moreover have "lt_work tx = leased_work"
    using tx(6) sample_shows_work by (simp add: was_shown_def sample_ports_def shows_work_def sid)
  moreover have "lr_runtime_epoch (lt_lease tx) = py ''epoch1''"
    using tx(4) by (simp add: sample_ports_def)
  ultimately show ?thesis using that d r tx(2) by blast
qed

lemma sample_transaction:
  assumes "readable [tx]" and "lt_request tx = Claim sample_claim"
  shows "own_fields initial_scan tx" and "0 \<le> lt_recorded_at tx"
    and "fresh_tenure tx 60 600" and "is_protocol_id (lr_runtime_epoch (lt_lease tx))"
    and "validate_runnable_work (lt_work tx) = Inr (lt_work tx)"
    and "1 \<le> lr_registry_generation (lt_lease tx)"
proof -
  have c: "check_transaction tx = Inr ()" using assms(1) by (rule readable_transaction) simp
  from check_transaction_InrD [OF c] show "0 \<le> lt_recorded_at tx"
    "is_protocol_id (lr_runtime_epoch (lt_lease tx))" "1 \<le> lr_registry_generation (lt_lease tx)"
    by (simp_all add: valid_lease_def valid_positive_int_def)
  from check_transaction_InrD(2) [OF c] show "validate_runnable_work (lt_work tx) = Inr (lt_work tx)"
    by (auto simp: is_ok_iff validate_runnable_work_def andthen_eq_Inr_iff split: if_splits)
  from assms(1) obtain hs' where "history_step initial_scan tx = Inr hs'"
    using valid_history_snoc [of "[]" tx] by (auto simp: readable_def scan_history_def)
  then show "own_fields initial_scan tx" "fresh_tenure tx 60 600"
    using assms(2) by (cases rule: history_step_cases; simp add: initial_scan_def sample_claim_def)+
qed

theorem one_publishable_fence_witness:
  "\<exists>p f w a st l st1. assert_publishable_for_work p f w a st = (Inr l, st1)
     \<and> (\<forall>rest st2 st3 l'.
           ls_disk st2 (pf_session_id f) (pf_work_id f)
             = ls_disk st (pf_session_id f) (pf_work_id f) @ rest \<and> rest \<noteq> []
           \<longrightarrow> assert_publishable_for_work p f w a st2 \<noteq> (Inr l', st3))"
proof -
  obtain tx and st :: lease_store
    where d: "ls_disk st (py ''session1'') (cr_work_id sample_claim) = [tx]"
    and r: "readable [tx]" and req: "lt_request tx = Claim sample_claim"
    by (rule sample_committed)
  note t = sample_transaction [OF r req]
  let ?l = "lt_lease tx" and ?w = "lt_work tx"
  let ?clock = "\<lambda>_. lt_recorded_at tx"
  let ?p = "sample_ports\<lparr>lp_epoch := lr_runtime_epoch ?l, lp_clock := \<lambda>n. Some (?clock n)\<rparr>"
  let ?f = "\<lparr>pf_session_id = py ''session1'', pf_claim_id = py ''claim1'',
    pf_work_id = cr_work_id sample_claim, pf_owner_id = py ''owner1'',
    pf_runtime_epoch = lr_runtime_epoch ?l, pf_lease_version = 1,
    pf_registry_generation = lr_registry_generation ?l\<rparr>"
  let ?st = "empty_store\<lparr>ls_disk := ls_disk st\<rparr>"
  have l: "lr_claim_id ?l = py ''claim1''" "lr_owner_id ?l = py ''owner1''" "lr_lease_version ?l = 1"
    "rw_session_id ?w = py ''session1''" "rw_work_id ?w = cr_work_id sample_claim"
    "lr_binding_digest ?l = rw_binding_digest ?w" "lr_registry_generation ?l = rw_registry_generation ?w"
    using t(1) req by (simp_all add: own_fields_def initial_scan_def Let_def sample_claim_def)
  have f: "valid_publish_fence ?f"
  proof -
    have "is_protocol_id (py ''session1'')" "is_protocol_id (py ''claim1'')"
      "is_protocol_id (py ''owner1'')" by code_simp+
    with t(4,6) sample_work_id show ?thesis
      by (simp add: valid_publish_fence_def sample_claim_def valid_positive_int_def)
  qed
  have "succeeds (assert_publishable_for_work ?p ?f ?w 0) (\<lambda>l' t. l' = ?l) ?st"
  proof (rule publish_runs)
    show "granting ?p 0 (pf_session_id ?f) sample_snapshot ?clock"
      by (simp add: granting_def sample_ports_def mono_def)
    show "in_time ?clock ?st" by (simp add: in_time_def empty_store_def)
    show "assert_lease_time ?l (?clock n) = Inr ()" for n
      using t(3) by (simp add: assert_lease_time_def fresh_tenure_def)
  qed (use f l t(2,5) r d in \<open>simp_all\<close>)
  then obtain st1 where one: "assert_publishable_for_work ?p ?f ?w 0 ?st = (Inr ?l, st1)"
    by (auto simp: succeeds_iff)
  have "\<forall>rest st2 st3 l'. ls_disk st2 (pf_session_id ?f) (pf_work_id ?f)
        = ls_disk ?st (pf_session_id ?f) (pf_work_id ?f) @ rest \<and> rest \<noteq> []
      \<longrightarrow> assert_publishable_for_work ?p ?f ?w 0 st2 \<noteq> (Inr l', st3)"
    using one_publishable_fence [OF one _ refl refl] by blast
  with one show ?thesis by blast
qed

text \<open>
  C34.  A lease history is bounded, so a work item is leased finitely often: a readable history
  has at most 771 transactions, two of them reclaims and 256 renewals in the last tenure,
  numbered from one; every lease in it is in order, and no tenure is longer than a day.
\<close>

theorem lease_history_bounded:
  assumes "readable h"
  shows "length h \<le> 771 \<and> reclaim_count h \<le> 2 \<and> current_tenure_renewals h \<le> 256
    \<and> map lt_sequence h = [1 .. int (length h)]
    \<and> (\<forall>tx \<in> set h. lr_acquired_at (lt_lease tx) \<le> lr_renewed_at (lt_lease tx)
         \<and> lr_renewed_at (lt_lease tx) < lr_expires_at (lt_lease tx)
         \<and> lr_expires_at (lt_lease tx) \<le> lr_absolute_expires_at (lt_lease tx)
         \<and> tenure_length (lt_lease tx) \<le> 24 * 60 * 60)"
proof -
  have v: "valid_history h" using assms by (simp add: readable_def)
  have "valid_lease (lt_lease tx)" if "tx \<in> set h" for tx
    using assms that by (intro check_transaction_InrD(1) readable_transaction)
  then show ?thesis
    using history_bounds [OF v] tenure_bounded [OF assms]
    by (auto simp: valid_lease_def MAX_TENURE_SECONDS_def)
qed

theorem lease_history_bounded_witness:
  "\<exists>tx. readable [tx] \<and> lt_request tx = Claim sample_claim
     \<and> tenure_length (lt_lease tx) \<le> 24 * 60 * 60 \<and> lt_sequence tx = 1"
proof -
  obtain tx where r: "readable [tx]" and req: "lt_request tx = Claim sample_claim"
    by (rule sample_committed)
  with lease_history_bounded [OF r] show ?thesis by auto
qed


text \<open>The sample claim, renewed ten seconds later.\<close>

definition sample_renew :: renew_request where
  "sample_renew =
     \<lparr>nr_session_id = py ''session1'', nr_request_id = py ''request2'', nr_claim_id = py ''claim1'',
      nr_work_id = cr_work_id sample_claim, nr_owner_id = py ''owner1'',
      nr_expected_lease_version = 1, nr_lease_seconds = 60\<rparr>"

lemma sample_renew_favourable:
  assumes r: "readable [tx]" and req: "lt_request tx = Claim sample_claim"
    and t: "lt_recorded_at tx = 100" and w: "lt_work tx = leased_work"
    and e: "lr_runtime_epoch (lt_lease tx) = py ''epoch1''"
  shows "favourable (sample_ports\<lparr>lp_clock := \<lambda>_. Some 110\<rparr>) 0 sample_snapshot (\<lambda>_. 110)
    (empty_store\<lparr>ls_disk := put_history (\<lambda>_ _. []) (py ''session1'') (cr_work_id sample_claim) [tx]\<rparr>)
    leased_work 1 (Renew sample_renew)"
proof -
  note st = sample_transaction [OF r req]
  have sc: "cr_session_id sample_claim = py ''session1''" "cr_claim_id sample_claim = py ''claim1''"
    "cr_owner_id sample_claim = py ''owner1''" by (simp_all add: sample_claim_def)
  have l: "lr_claim_id (lt_lease tx) = py ''claim1''" "lr_owner_id (lt_lease tx) = py ''owner1''"
    "lr_lease_version (lt_lease tx) = 1" "lr_session_id (lt_lease tx) = py ''session1''"
    "lr_work_id (lt_lease tx) = cr_work_id sample_claim"
    "lr_binding_digest (lt_lease tx) = rw_binding_digest leased_work"
    "lr_registry_generation (lt_lease tx) = 1"
  proof -
    note o = st(1) [unfolded own_fields_def Let_def req w lq_claim_id.simps
        lq_owner_id.simps lq_session_id.simps lq_work_id.simps leased_work_simps(2)]
    from o sc show "lr_claim_id (lt_lease tx) = py ''claim1''" "lr_owner_id (lt_lease tx) = py ''owner1''"
      "lr_session_id (lt_lease tx) = py ''session1''"
      "lr_work_id (lt_lease tx) = cr_work_id sample_claim"
      "lr_binding_digest (lt_lease tx) = rw_binding_digest leased_work"
      "lr_registry_generation (lt_lease tx) = 1"
      by metis+
    from o show "lr_lease_version (lt_lease tx) = 1" by (simp add: initial_scan_def)
  qed
  have ft: "lr_renewed_at (lt_lease tx) = 100" "lr_expires_at (lt_lease tx) = 160"
    "lr_absolute_expires_at (lt_lease tx) = 700"
    using st(3) t by (simp_all add: fresh_tenure_def)
  have c: "check_transaction tx = Inr ()" using r by (rule readable_transaction) simp
  from check_transaction_InrD(5) [OF c] req have rid: "lt_request_id tx = py ''request1''"
    by (simp add: sample_claim_def)
  from check_transaction_InrD(7) [OF c] req have op: "lt_operation tx = LO_CLAIM"
    by (auto dest: request_fields_InrD)
  have ids: "is_protocol_id (py ''session1'')" "is_protocol_id (py ''request2'')"
    "is_protocol_id (py ''claim1'')" "is_protocol_id (py ''owner1'')" "is_protocol_id (py ''epoch1'')"
    by code_simp+
  have wid: "rw_work_id leased_work = cr_work_id sample_claim" by (simp add: sample_claim_def)
  have v: "valid_renew_request sample_renew"
    using ids sample_work_id by (simp add: valid_renew_request_def sample_renew_def valid_duration_def
        valid_positive_int_def MAX_LEASE_SECONDS_def sample_claim_def)
  have "ready [tx] leased_work (Renew sample_renew)"
    using r v l w rid op leased_work_facts(2) wid
    by (simp add: ready_def filed_def find_receipt_def current_tenure_renewals_def is_renewal_def
        MAX_RENEWALS_PER_TENURE_def) (simp add: sample_renew_def)
  moreover have "admissible (py ''epoch1'') (\<lambda>_. 110) [tx] leased_work 1 (Renew sample_renew)"
    using l e ft ids by (simp add: admissible_def assert_claim_binding_def next_expiry_def sample_renew_def)
  moreover have "granting (sample_ports\<lparr>lp_clock := \<lambda>_. Some 110\<rparr>) 0 (py ''session1'')
      sample_snapshot (\<lambda>_. 110)"
    by (simp add: granting_def sample_ports_def mono_def)
  moreover have "nr_session_id sample_renew = py ''session1''" "nr_work_id sample_renew = cr_work_id sample_claim"
    "nr_expected_lease_version sample_renew = 1" "nr_lease_seconds sample_renew = 60"
    "lp_epoch sample_ports = py ''epoch1''"
    by (simp_all add: sample_renew_def sample_ports_def)
  ultimately show ?thesis
    using sample_shows_work
    by (simp add: favourable_def in_time_def empty_store_def small_def small_work_def)
qed

lemma sample_renewed:
  obtains tx1 tx2 where "readable [tx1, tx2]" "lr_runtime_epoch (lt_lease tx1) = py ''epoch1''"
    "lr_runtime_epoch (lt_lease tx2) = py ''epoch1''"
proof -
  obtain tx and st :: lease_store
    where r: "readable [tx]" and req: "lt_request tx = Claim sample_claim"
    and t: "lt_recorded_at tx = 100" and w: "lt_work tx = leased_work"
    and e: "lr_runtime_epoch (lt_lease tx) = py ''epoch1''"
    by (rule sample_committed)
  from mutate_runs [OF sample_renew_favourable [OF r req t w e]] obtain mo st1 where
    m: "mutate (sample_ports\<lparr>lp_clock := \<lambda>_. Some 110\<rparr>) (Renew sample_renew) 0
      (empty_store\<lparr>ls_disk := put_history (\<lambda>_ _. []) (py ''session1'') (cr_work_id sample_claim) [tx]\<rparr>)
      = (Inr (Reclaimed mo), st1)" and f: "\<not> mo_replayed mo"
    by (auto simp: succeeds_iff)
  have id: "nr_session_id sample_renew = py ''session1''" "nr_work_id sample_renew = cr_work_id sample_claim"
    by (simp_all add: sample_renew_def)
  from mutate_effect [OF m] f obtain tx2 where "readable [tx, tx2]" "lt_lease tx2 = mo_lease mo"
    "lr_runtime_epoch (mo_lease mo) = py ''epoch1''"
    by (auto simp: mutation_effect_def adds_transaction_def outcome_of_def Let_def id sample_ports_def)
  with e that show ?thesis by simp
qed


end
