(* ===== verification/Secure_Fs.thy ===== *)
theory Secure_Fs
  imports Directory
begin

text \<open>
  The private directories of \<open>xsync_v2/secure_fs.py\<close> down to names, hard links and inodes.  An
  operation is the sequence of the system calls the code makes: it returns the volumes it leaves
  after each of them, so that a crash is one of these volumes, and its result.  A name is looked
  up without following links; owner and permission bits, link counts and kinds are what \<open>fstat\<close>
  shows.  The process works alone in its directories, as the session lock ensures, and effects
  reach the disk in the order of the calls, which is what the \<open>fsync\<close> calls are for.
\<close>

section \<open>Volumes\<close>

datatype file_kind = Regular_File | Directory_File | Symlink_File | Special_File

record inode =
  nd_kind :: file_kind
  nd_owned :: bool
  nd_mode :: int
  nd_bytes :: "byte list"

type_synonym entries = "(pystr \<times> nat) list"

text \<open>Directories are numbered; the next inode number is fresh.\<close>

record volume =
  vl_nodes :: "(nat \<times> inode) list"
  vl_dirs :: "(nat \<times> entries) list"
  vl_next :: nat

definition FILE_MODE :: int where
  "FILE_MODE = 384"

definition entries_of :: "volume \<Rightarrow> nat \<Rightarrow> entries" where
  "entries_of v d = (case map_of (vl_dirs v) d of None \<Rightarrow> [] | Some es \<Rightarrow> es)"

definition link_count :: "entries \<Rightarrow> nat \<Rightarrow> nat" where
  "link_count es i = length (filter (\<lambda>(_, j). j = i) es)"

definition links :: "volume \<Rightarrow> nat \<Rightarrow> nat" where
  "links v i = sum_list (map (\<lambda>(_, es). link_count es i) (vl_dirs v))"

record file_stat =
  fs_kind :: file_kind
  fs_owned :: bool
  fs_mode :: int
  fs_nlink :: nat
  fs_size :: nat
  fs_inode :: nat

section \<open>System calls\<close>

definition stat_name :: "volume \<Rightarrow> nat \<Rightarrow> pystr \<Rightarrow> fs_code + file_stat" where
  "stat_name v d name =
     (case map_of (entries_of v d) name of
        None \<Rightarrow> Inl FILE_NOT_FOUND
      | Some i \<Rightarrow>
          (case map_of (vl_nodes v) i of
             None \<Rightarrow> Inl FILESYSTEM_ERROR
           | Some n \<Rightarrow>
               Inr \<lparr>fs_kind = nd_kind n, fs_owned = nd_owned n, fs_mode = nd_mode n,
                    fs_nlink = links v i, fs_size = length (nd_bytes n), fs_inode = i\<rparr>))"

definition update_dir :: "nat \<Rightarrow> (entries \<Rightarrow> entries) \<Rightarrow> volume \<Rightarrow> volume" where
  "update_dir d f v = v\<lparr>vl_dirs := map (\<lambda>(k, es). (k, if k = d then f es else es)) (vl_dirs v)\<rparr>"

definition sys_link :: "nat \<Rightarrow> pystr \<Rightarrow> nat \<Rightarrow> volume \<Rightarrow> volume" where
  "sys_link d name i = update_dir d (\<lambda>es. (name, i) # es)"

definition sys_unlink :: "nat \<Rightarrow> pystr \<Rightarrow> volume \<Rightarrow> volume" where
  "sys_unlink d name = update_dir d (filter (\<lambda>(n, _). n \<noteq> name))"

definition sys_rename :: "nat \<Rightarrow> pystr \<Rightarrow> pystr \<Rightarrow> nat \<Rightarrow> volume \<Rightarrow> volume" where
  "sys_rename d old new i = update_dir d (\<lambda>es. (new, i) # filter (\<lambda>(n, _). n \<noteq> old \<and> n \<noteq> new) es)"

definition sys_create :: "nat \<Rightarrow> pystr \<Rightarrow> int \<Rightarrow> volume \<Rightarrow> volume" where
  "sys_create d name mode v =
     sys_link d name (vl_next v)
       (v\<lparr>vl_nodes := (vl_next v, \<lparr>nd_kind = Regular_File, nd_owned = True, nd_mode = mode,
            nd_bytes = []\<rparr>) # vl_nodes v, vl_next := vl_next v + 1\<rparr>)"

definition sys_fill :: "nat \<Rightarrow> (inode \<Rightarrow> inode) \<Rightarrow> volume \<Rightarrow> volume" where
  "sys_fill i f v = v\<lparr>vl_nodes := map (\<lambda>(k, n). (k, if k = i then f n else n)) (vl_nodes v)\<rparr>"

section \<open>Operations\<close>

type_synonym 'a fs_op = "volume \<Rightarrow> volume list \<times> (fs_code + 'a)"

definition reached :: "volume \<Rightarrow> volume list \<Rightarrow> volume" where
  "reached v tr = last (v # tr)"

definition call :: "(volume \<Rightarrow> volume) \<Rightarrow> unit fs_op" where
  "call f = (\<lambda>v. ([f v], Inr ()))"

definition looks :: "(volume \<Rightarrow> fs_code + 'a) \<Rightarrow> 'a fs_op" where
  "looks f = (\<lambda>v. ([], f v))"

definition next_call :: "'a fs_op \<Rightarrow> ('a \<Rightarrow> 'b fs_op) \<Rightarrow> 'b fs_op" where
  "next_call f k = (\<lambda>v. case f v of
     (tr, Inl e) \<Rightarrow> (tr, Inl e)
   | (tr, Inr x) \<Rightarrow> (case k x (reached v tr) of (tr', r) \<Rightarrow> (tr @ tr', r)))"

text \<open>The \<open>except\<close> and \<open>finally\<close> clauses: what is done when the body raises.\<close>

definition on_error :: "'a fs_op \<Rightarrow> (volume \<Rightarrow> volume) \<Rightarrow> 'a fs_op" where
  "on_error f g = (\<lambda>v. case f v of
     (tr, Inl e) \<Rightarrow> (tr @ [g (reached v tr)], Inl e)
   | (tr, Inr x) \<Rightarrow> (tr, Inr x))"

section \<open>Checks\<close>

definition regular_is_safe :: "file_stat \<Rightarrow> bool" where
  "regular_is_safe st \<longleftrightarrow>
     fs_kind st = Regular_File \<and> fs_owned st \<and> fs_mode st = FILE_MODE \<and> fs_nlink st = 1"

definition DIRECTORY_MODE :: int where
  "DIRECTORY_MODE = 448"

definition directory_is_safe :: "file_stat \<Rightarrow> bool" where
  "directory_is_safe st \<longleftrightarrow>
     fs_kind st = Directory_File \<and> fs_owned st \<and> fs_mode st = DIRECTORY_MODE"

definition is_temporary :: "pystr \<Rightarrow> bool" where
  "is_temporary name \<longleftrightarrow>
     take 4 name = py ''tmp-'' \<and> length name = 36 \<and> list_all is_hex_char (drop 4 name)"

section \<open>Writing\<close>

text \<open>
  What the environment decides about a write: the random tokens, the mode a new file gets under
  the umask, and how many bytes each call of \<open>os.write\<close> takes (all the rest, when there are no
  more numbers).
\<close>

record write_env =
  we_tokens :: "pystr list"
  we_mode :: int
  we_counts :: "nat list"

definition temporary_name :: "pystr \<Rightarrow> pystr" where
  "temporary_name token = py ''tmp-'' @ token"

fun write_all :: "nat \<Rightarrow> byte list \<Rightarrow> nat \<Rightarrow> nat list \<Rightarrow> unit fs_op" where
  "write_all i data written [] =
     (if written < length data then call (sys_fill i (\<lambda>n. n\<lparr>nd_bytes := data\<rparr>))
      else looks (\<lambda>_. Inr ()))"
| "write_all i data written (c # cs) =
     (if written < length data then
        if c = 0 then looks (\<lambda>_. Inl FILESYSTEM_ERROR)
        else next_call (call (sys_fill i (\<lambda>n. n\<lparr>nd_bytes := take (written + c) data\<rparr>)))
               (\<lambda>_. write_all i data (written + c) cs)
      else looks (\<lambda>_. Inr ()))"

definition write_temporary :: "write_env \<Rightarrow> nat \<Rightarrow> byte list \<Rightarrow> pystr fs_op" where
  "write_temporary env d data = (\<lambda>v.
     case find (\<lambda>n. map_of (entries_of v d) n = None) (map temporary_name (take 8 (we_tokens env))) of
       None \<Rightarrow> ([], Inl TEMPORARY_NAME_EXHAUSTED)
     | Some tmp \<Rightarrow>
         next_call (call (sys_create d tmp (we_mode env))) (\<lambda>_.
         on_error
           (next_call (call (sys_fill (vl_next v) (\<lambda>n. n\<lparr>nd_mode := FILE_MODE\<rparr>))) (\<lambda>_.
            next_call (write_all (vl_next v) data 0 (we_counts env)) (\<lambda>_.
            looks (\<lambda>v'. andthen (stat_name v' d tmp) (\<lambda>st.
              require UNSAFE_FILE_TYPE (regular_is_safe st) (Inr tmp))))))
           (sys_unlink d tmp)) v)"

text \<open>The guard is answered by an optional exception.\<close>

definition link_temporary :: "nat \<Rightarrow> pystr \<Rightarrow> pystr \<Rightarrow> fs_code option \<Rightarrow> unit fs_op" where
  "link_temporary d tmp name guard =
     next_call
       (on_error
         (looks (\<lambda>v. case guard of
            Some e \<Rightarrow> Inl e
          | None \<Rightarrow>
              if map_of (entries_of v d) name \<noteq> None then Inl IMMUTABLE_EXISTS
              else andthen (stat_name v d tmp) (\<lambda>st. Inr (fs_inode st))))
         (sys_unlink d tmp))
       (\<lambda>i. next_call (call (sys_link d name i)) (\<lambda>_. call (sys_unlink d tmp)))"

definition write_immutable_guarded ::
  "write_env \<Rightarrow> nat \<Rightarrow> pystr \<Rightarrow> byte list \<Rightarrow> fs_code option \<Rightarrow> unit fs_op" where
  "write_immutable_guarded env d name data guard =
     next_call (looks (\<lambda>_. require INVALID_COMPONENT (valid_component name) (Inr ()))) (\<lambda>_.
     next_call (write_temporary env d data) (\<lambda>tmp. link_temporary d tmp name guard))"

definition write_immutable :: "write_env \<Rightarrow> nat \<Rightarrow> pystr \<Rightarrow> byte list \<Rightarrow> unit fs_op" where
  "write_immutable env d name data = write_immutable_guarded env d name data None"

text \<open>A projection is replaced by renaming a temporary over it.\<close>

definition check_derived :: "nat \<Rightarrow> pystr \<Rightarrow> volume \<Rightarrow> fs_code + unit" where
  "check_derived d name v =
     (case stat_name v d name of
        Inl e \<Rightarrow> if e = FILE_NOT_FOUND then Inr () else Inl e
      | Inr st \<Rightarrow>
          require UNSAFE_PATH (fs_kind st \<noteq> Symlink_File)
            (if regular_is_safe st then Inr ()
             else if fs_kind st = Regular_File then Inl INSECURE_PERMISSIONS
             else Inl UNSAFE_FILE_TYPE))"

definition replace_derived :: "write_env \<Rightarrow> nat \<Rightarrow> pystr \<Rightarrow> byte list \<Rightarrow> unit fs_op" where
  "replace_derived env d name data =
     next_call (looks (\<lambda>_. require INVALID_COMPONENT (valid_component name) (Inr ()))) (\<lambda>_.
     next_call (looks (check_derived d name)) (\<lambda>_.
     next_call (write_temporary env d data) (\<lambda>tmp.
     next_call (looks (\<lambda>v. andthen (stat_name v d tmp) (\<lambda>st. Inr (fs_inode st)))) (\<lambda>i.
       call (sys_rename d tmp name i)))))"

section \<open>Reading\<close>

definition read_bytes :: "nat \<Rightarrow> pystr \<Rightarrow> nat \<Rightarrow> volume \<Rightarrow> fs_code + byte list" where
  "read_bytes d name limit v =
     require INVALID_COMPONENT (valid_component name)
    (require INVALID_READ_LIMIT (1 \<le> limit)
      (andthen (stat_name v d name) (\<lambda>st.
       require UNSAFE_PATH (fs_kind st \<noteq> Symlink_File)
      (require UNSAFE_FILE_TYPE (fs_kind st = Regular_File)
      (require INSECURE_PERMISSIONS (regular_is_safe st)
      (require FILE_TOO_LARGE (fs_size st \<le> limit)
        (case map_of (vl_nodes v) (fs_inode st) of
           None \<Rightarrow> Inl FILESYSTEM_ERROR
         | Some n \<Rightarrow> Inr (nd_bytes n))))))))"

definition list_entries :: "nat \<Rightarrow> volume \<Rightarrow> fs_code + pystr list" where
  "list_entries d v =
     require INVALID_COMPONENT (list_all (valid_component \<circ> fst) (entries_of v d))
       (Inr (sort (map fst (entries_of v d))))"

definition stat_entry :: "nat \<Rightarrow> pystr \<Rightarrow> volume \<Rightarrow> fs_code + file_stat" where
  "stat_entry d name v =
     require INVALID_COMPONENT (valid_component name)
      (andthen (stat_name v d name) (\<lambda>st.
        case fs_kind st of
          Symlink_File \<Rightarrow> Inl UNSAFE_PATH
        | Regular_File \<Rightarrow> require INSECURE_PERMISSIONS (regular_is_safe st) (Inr st)
        | Directory_File \<Rightarrow> require INSECURE_PERMISSIONS (directory_is_safe st) (Inr st)
        | Special_File \<Rightarrow> Inl UNSAFE_FILE_TYPE))"

section \<open>Recovery of interrupted writes\<close>

text \<open>
  Among the names, how many are links to the inode; each of them must be a private file of two
  links.
\<close>

fun count_peers :: "fs_code \<Rightarrow> nat \<Rightarrow> nat \<Rightarrow> pystr list \<Rightarrow> volume \<Rightarrow> fs_code + nat" where
  "count_peers code d i [] v = Inr 0"
| "count_peers code d i (c # cs) v =
     andthen (stat_name v d c) (\<lambda>st.
       if fs_inode st = i then
         require code (fs_kind st = Regular_File \<and> fs_owned st \<and> fs_mode st = FILE_MODE \<and> fs_nlink st = 2)
           (andthen (count_peers code d i cs v) (\<lambda>n. Inr (n + 1)))
       else count_peers code d i cs v)"

definition removable_temporary :: "nat \<Rightarrow> pystr list \<Rightarrow> pystr \<Rightarrow> volume \<Rightarrow> fs_code + unit" where
  "removable_temporary d names tmp v =
     andthen (stat_name v d tmp) (\<lambda>st.
       require UNSAFE_TEMPORARY_FILE
         (fs_kind st = Regular_File \<and> fs_owned st \<and> fs_mode st = FILE_MODE \<and> fs_nlink st \<in> {1, 2})
         (if fs_nlink st = 2 then
            andthen (count_peers UNSAFE_TEMPORARY_FILE d (fs_inode st)
                      (filter (\<lambda>n. \<not> is_temporary n) names) v)
              (\<lambda>n. require UNSAFE_TEMPORARY_FILE (n = 1) (Inr ()))
          else Inr ()))"

fun remove_temporaries :: "nat \<Rightarrow> pystr list \<Rightarrow> pystr list \<Rightarrow> unit fs_op" where
  "remove_temporaries d names [] = looks (\<lambda>_. Inr ())"
| "remove_temporaries d names (n # ns) =
     (if is_temporary n then
        next_call (looks (removable_temporary d names n)) (\<lambda>_.
        next_call (call (sys_unlink d n)) (\<lambda>_. remove_temporaries d names ns))
      else remove_temporaries d names ns)"

definition recover_temporary_writes :: "nat \<Rightarrow> unit fs_op" where
  "recover_temporary_writes d =
     next_call (looks (list_entries d)) (\<lambda>names. remove_temporaries d names names)"

section \<open>Moves to quarantine\<close>

text \<open>An existing destination must hold the same bytes; then the source is only removed.\<close>

definition same_contents :: "nat \<Rightarrow> pystr \<Rightarrow> nat \<Rightarrow> pystr \<Rightarrow> nat \<Rightarrow> volume \<Rightarrow> fs_code + unit" where
  "same_contents d name t target sz v =
     (let limit = max 1 sz in
      andthen (read_bytes d name limit v) (\<lambda>a.
      andthen (read_bytes t target limit v) (\<lambda>b.
      require IMMUTABLE_EXISTS (a = b) (Inr ()))))"

definition check_linked :: "nat \<Rightarrow> pystr \<Rightarrow> nat \<Rightarrow> volume \<Rightarrow> fs_code + unit" where
  "check_linked t target i v =
     (case stat_name v t target of
        Inl _ \<Rightarrow> Inl FILE_CHANGED_DURING_MOVE
      | Inr st \<Rightarrow>
          require FILE_CHANGED_DURING_MOVE
            (fs_kind st = Regular_File \<and> fs_owned st \<and> fs_mode st = FILE_MODE \<and> fs_nlink st = 2
             \<and> fs_inode st = i) (Inr ()))"

definition move_link :: "nat \<Rightarrow> pystr \<Rightarrow> nat \<Rightarrow> pystr \<Rightarrow> nat \<Rightarrow> unit fs_op" where
  "move_link d name t target i =
     next_call (call (sys_link t target i)) (\<lambda>_.
       on_error
         (next_call (looks (check_linked t target i)) (\<lambda>_. call (sys_unlink d name)))
         (sys_unlink t target))"

definition look_at :: "nat \<Rightarrow> pystr \<Rightarrow> nat \<Rightarrow> pystr \<Rightarrow> volume \<Rightarrow> fs_code + file_stat" where
  "look_at d name t target v =
     require INVALID_COMPONENT (valid_component name)
    (require INVALID_COMPONENT (valid_component target)
    (require INVALID_QUARANTINE_TARGET (\<not> (d = t \<and> name = target))
    (andthen (stat_entry d name v) (\<lambda>st.
      require UNSAFE_FILE_TYPE (fs_kind st = Regular_File) (Inr st)))))"

definition quarantine :: "nat \<Rightarrow> pystr \<Rightarrow> nat \<Rightarrow> pystr \<Rightarrow> unit fs_op" where
  "quarantine d name t target =
     next_call (looks (look_at d name t target)) (\<lambda>st v.
       if map_of (entries_of v t) target = None then move_link d name t target (fs_inode st) v
       else next_call (looks (same_contents d name t target (fs_size st)))
              (\<lambda>_. call (sys_unlink d name)) v)"

text \<open>A source with two links must have exactly one peer among the destinations.\<close>

definition finished_move :: "nat \<Rightarrow> pystr list \<Rightarrow> file_stat \<Rightarrow> volume \<Rightarrow> fs_code + unit" where
  "finished_move t targets st v =
     require UNSAFE_QUARANTINE_MOVE (fs_owned st \<and> fs_mode st = FILE_MODE \<and> fs_nlink st = 2)
       (andthen (count_peers UNSAFE_QUARANTINE_MOVE t (fs_inode st) targets v)
         (\<lambda>n. require UNSAFE_QUARANTINE_MOVE (n = 1) (Inr ())))"

fun finish_moves :: "nat \<Rightarrow> nat \<Rightarrow> pystr list \<Rightarrow> pystr list \<Rightarrow> unit fs_op" where
  "finish_moves d t targets [] = looks (\<lambda>_. Inr ())"
| "finish_moves d t targets (n # ns) =
     next_call (looks (\<lambda>v. stat_name v d n)) (\<lambda>st.
       if fs_kind st \<noteq> Regular_File \<or> fs_nlink st = 1 then finish_moves d t targets ns
       else
         next_call (looks (finished_move t targets st)) (\<lambda>_.
         next_call (call (sys_unlink d n)) (\<lambda>_. finish_moves d t targets ns)))"

definition recover_quarantine_moves :: "nat \<Rightarrow> nat \<Rightarrow> unit fs_op" where
  "recover_quarantine_moves d t =
     next_call (looks (list_entries d)) (\<lambda>names.
     next_call (looks (list_entries t)) (\<lambda>targets. finish_moves d t targets names))"

section \<open>Directories\<close>

text \<open>A directory has the number of its inode; a new one gets its mode under the umask.\<close>

definition sys_mkdir :: "nat \<Rightarrow> pystr \<Rightarrow> int \<Rightarrow> volume \<Rightarrow> volume" where
  "sys_mkdir d name mode v =
     sys_link d name (vl_next v)
       (v\<lparr>vl_nodes := (vl_next v, \<lparr>nd_kind = Directory_File, nd_owned = True, nd_mode = mode,
            nd_bytes = []\<rparr>) # vl_nodes v,
          vl_dirs := (vl_next v, []) # vl_dirs v, vl_next := vl_next v + 1\<rparr>)"

text \<open>\<open>os.open\<close> of a directory, without following a link.\<close>

definition open_entry :: "fs_code \<Rightarrow> nat \<Rightarrow> pystr \<Rightarrow> volume \<Rightarrow> fs_code + file_stat" where
  "open_entry missing d name v =
     (case stat_name v d name of
        Inl e \<Rightarrow> Inl (if e = FILE_NOT_FOUND then missing else e)
      | Inr st \<Rightarrow> require UNSAFE_PATH (fs_kind st = Directory_File) (Inr st))"

definition open_directory :: "nat \<Rightarrow> pystr \<Rightarrow> volume \<Rightarrow> fs_code + nat" where
  "open_directory d name v =
     require INVALID_COMPONENT (valid_component name)
       (andthen (open_entry DIRECTORY_NOT_FOUND d name v) (\<lambda>st.
        require INSECURE_PERMISSIONS (directory_is_safe st) (Inr (fs_inode st))))"

definition ensure_directory :: "int \<Rightarrow> nat \<Rightarrow> pystr \<Rightarrow> nat fs_op" where
  "ensure_directory mode d name =
     next_call (looks (\<lambda>v. require INVALID_COMPONENT (valid_component name)
                             (Inr (map_of (entries_of v d) name = None)))) (\<lambda>created.
     next_call (if created then call (sys_mkdir d name mode) else looks (\<lambda>_. Inr ())) (\<lambda>_.
     next_call (looks (open_entry UNSAFE_PATH d name)) (\<lambda>st.
     next_call (if created then call (sys_fill (fs_inode st) (\<lambda>n. n\<lparr>nd_mode := DIRECTORY_MODE\<rparr>))
                else looks (\<lambda>_. Inr ())) (\<lambda>_.
     looks (\<lambda>v. andthen (stat_name v d name) (\<lambda>st.
       require INSECURE_PERMISSIONS (directory_is_safe st) (Inr (fs_inode st))))))))"

text \<open>An anchor is reached component by component from the root or the working directory.\<close>

fun split_slash :: "pystr \<Rightarrow> pystr list" where
  "split_slash [] = [[]]"
| "split_slash (c # cs) =
     (if c = 47 then [] # split_slash cs
      else (case split_slash cs of [] \<Rightarrow> [[c]] | p # ps \<Rightarrow> (c # p) # ps))"

fun walk :: "pystr list \<Rightarrow> nat \<Rightarrow> volume \<Rightarrow> fs_code + nat" where
  "walk [] d v = Inr d"
| "walk (p # ps) d v =
     require INVALID_COMPONENT (valid_component p)
       (andthen (open_entry UNSAFE_PATH d p v) (\<lambda>st. walk ps (fs_inode st) v))"

definition open_anchor :: "nat \<Rightarrow> nat \<Rightarrow> pystr \<Rightarrow> volume \<Rightarrow> fs_code + nat" where
  "open_anchor root cwd raw v =
     require UNSAFE_PATH (raw \<noteq> [] \<and> 0 \<notin> set raw \<and> 92 \<notin> set raw)
      (let absolute = hd raw = 47;
           parts = (if absolute then tl (split_slash raw) else split_slash raw) in
       require UNSAFE_PATH (list_all (\<lambda>p. p \<noteq> [] \<and> p \<noteq> py ''.'' \<and> p \<noteq> py ''..'') parts)
        (andthen (walk parts (if absolute then root else cwd) v) (\<lambda>d.
           case map_of (vl_nodes v) d of
             None \<Rightarrow> Inl FILESYSTEM_ERROR
           | Some n \<Rightarrow> require UNSAFE_PATH (nd_kind n = Directory_File \<and> nd_owned n) (Inr d))))"

text \<open>
  What the stores do before they read: remnants are removed in each directory, then the moves from
  the first of the pair to the second are finished.
\<close>

fun recover_directories :: "nat list \<Rightarrow> unit fs_op" where
  "recover_directories [] = looks (\<lambda>_. Inr ())"
| "recover_directories (d # ds) =
     next_call (recover_temporary_writes d) (\<lambda>_. recover_directories ds)"

definition recover_session :: "nat list \<Rightarrow> nat \<Rightarrow> nat \<Rightarrow> unit fs_op" where
  "recover_session ds d t =
     next_call (recover_directories ds) (\<lambda>_. recover_quarantine_moves d t)"

end
