(* ===== verification/Secure_Fs_Facts.thy ===== *)
theory Secure_Fs_Facts
  imports Secure_Fs
begin

text \<open>
  What the operations of the file system do, one volume at a time.  Every volume a write passes
  through is the old one with one new inode and one directory replaced; recovery brings each of
  them back to a tidy volume, whose directories are the old ones or the new ones.
\<close>

section \<open>Replacing a directory\<close>

definition put_dir :: "nat \<Rightarrow> entries \<Rightarrow> volume \<Rightarrow> volume" where
  "put_dir d es = update_dir d (\<lambda>_. es)"

definition add_node :: "inode \<Rightarrow> volume \<Rightarrow> volume" where
  "add_node n v = v\<lparr>vl_nodes := (vl_next v, n) # vl_nodes v, vl_next := vl_next v + 1\<rparr>"

definition has_dir :: "volume \<Rightarrow> nat \<Rightarrow> bool" where
  "has_dir v d \<longleftrightarrow> distinct (map fst (vl_dirs v)) \<and> d \<in> set (map fst (vl_dirs v))"

lemma update_dir_fields [simp]:
  "vl_nodes (update_dir d f v) = vl_nodes v"
  "vl_next (update_dir d f v) = vl_next v"
  by (simp_all add: update_dir_def)

lemma put_dir_fields [simp]:
  "vl_nodes (put_dir d es v) = vl_nodes v"
  "vl_next (put_dir d es v) = vl_next v"
  by (simp_all add: put_dir_def)

lemma add_node_fields [simp]:
  "vl_nodes (add_node n v) = (vl_next v, n) # vl_nodes v"
  "vl_next (add_node n v) = vl_next v + 1"
  "vl_dirs (add_node n v) = vl_dirs v"
  "entries_of (add_node n v) d = entries_of v d"
  "links (add_node n v) i = links v i"
  "has_dir (add_node n v) d \<longleftrightarrow> has_dir v d"
  by (simp_all add: add_node_def entries_of_def links_def has_dir_def)

lemma update_dir_dirs: "map fst (vl_dirs (update_dir d f v)) = map fst (vl_dirs v)"
  by (simp add: update_dir_def comp_def case_prod_unfold)

lemma has_dir_put [simp]: "has_dir (put_dir d es v) k \<longleftrightarrow> has_dir v k"
  by (simp add: has_dir_def put_dir_def update_dir_dirs del: set_map)

lemma map_of_update: "map_of (map (\<lambda>(k, es). (k, if k = d then f es else es)) ds) k
    = (if k = d then map_option f (map_of ds k) else map_of ds k)"
  by (induction ds) auto

lemma entries_put: "has_dir v d \<Longrightarrow> entries_of (put_dir d es v) k = (if k = d then es else entries_of v k)"
  by (cases "map_of (vl_dirs v) d")
     (auto simp: put_dir_def update_dir_def entries_of_def map_of_update has_dir_def map_of_eq_None_iff
       split: option.splits)

lemma put_dir_twice [simp]: "put_dir d es (put_dir d es' v) = put_dir d es v"
  by (cases v) (simp add: put_dir_def update_dir_def comp_def case_prod_unfold)

lemma update_is_put: "has_dir v d \<Longrightarrow> update_dir d f v = put_dir d (f (entries_of v d)) v"
  unfolding put_dir_def update_dir_def
  by (cases v) (auto simp: has_dir_def entries_of_def intro!: map_cong dest: eq_key_imp_eq_value)

lemma put_same: "has_dir v d \<Longrightarrow> put_dir d (entries_of v d) v = v"
  unfolding put_dir_def update_dir_def
  by (cases v) (auto simp: has_dir_def entries_of_def intro!: map_idI dest: eq_key_imp_eq_value)

lemma sum_links_update:
  "\<lbrakk>distinct (map fst ds); map_of ds d = Some old\<rbrakk> \<Longrightarrow>
     sum_list (map (\<lambda>(_, es). link_count es i) (map (\<lambda>(k, es). (k, if k = d then new else es)) ds))
       + link_count old i
     = sum_list (map (\<lambda>(_, es). link_count es i) ds) + link_count new i"
proof (induction ds)
  case (Cons p ds)
  obtain k es where p: "p = (k, es)" by (cases p)
  show ?case
  proof (cases "k = d")
    case True
    with Cons.prems p have "old = es" and "d \<notin> fst ` set ds" by auto
    then have same: "map (\<lambda>(k, es). (k, if k = d then new else es)) ds = ds"
      by (force intro!: map_idI)
    with True p \<open>old = es\<close> show ?thesis by (simp add: comp_def)
  next
    case False
    with Cons p show ?thesis by (auto simp: comp_def)
  qed
qed simp

lemma links_put:
  assumes "has_dir v d"
  shows "links (put_dir d es v) i + link_count (entries_of v d) i = links v i + link_count es i"
proof -
  obtain old where "map_of (vl_dirs v) d = Some old" using assms
    by (cases "map_of (vl_dirs v) d") (auto simp: has_dir_def map_of_eq_None_iff)
  then show ?thesis
    using sum_links_update [of "vl_dirs v" d old i es] assms
    by (simp add: has_dir_def links_def put_dir_def update_dir_def entries_of_def)
qed

lemma link_count_simps [simp]:
  "link_count [] i = 0"
  "link_count ((n, j) # es) i = (if j = i then 1 else 0) + link_count es i"
  by (simp_all add: link_count_def)

lemma links_ge:
  assumes "distinct (map fst (vl_dirs v))"
  shows "link_count (entries_of v d) i \<le> links v i"
proof (cases "map_of (vl_dirs v) d")
  case None
  then show ?thesis by (simp add: entries_of_def)
next
  case (Some es)
  then have "has_dir v d" using assms by (force simp: has_dir_def dest: map_of_SomeD)
  from links_put [OF this, of "[]" i] show ?thesis by simp
qed

lemma link_count_pos: "(n, i) \<in> set es \<Longrightarrow> 0 < link_count es i"
  by (induction es) auto

lemma link_count_zero: "i \<notin> snd ` set es \<Longrightarrow> link_count es i = 0"
  by (induction es) auto

section \<open>Tidy volumes\<close>

text \<open>
  Between two operations every file of the directories is private and has one name, no name is a
  temporary one, and the reserved names are those of subdirectories.
\<close>

definition private_file :: "inode \<Rightarrow> bool" where
  "private_file n \<longleftrightarrow> nd_kind n = Regular_File \<and> nd_owned n \<and> nd_mode n = FILE_MODE"

definition tidy_name :: "pystr list \<Rightarrow> volume \<Rightarrow> pystr \<Rightarrow> nat \<Rightarrow> bool" where
  "tidy_name rs v n i \<longleftrightarrow>
     valid_component n \<and> \<not> is_temporary n
     \<and> (case map_of (vl_nodes v) i of
          None \<Rightarrow> False
        | Some nd \<Rightarrow> if n \<in> set rs then nd_kind nd = Directory_File else private_file nd \<and> links v i = 1)"

definition tidy :: "pystr list \<Rightarrow> volume \<Rightarrow> bool" where
  "tidy rs v \<longleftrightarrow>
     list_all (\<lambda>(i, _). i < vl_next v) (vl_nodes v) \<and> distinct (map fst (vl_dirs v))
     \<and> list_all (\<lambda>(_, es). distinct (map fst es) \<and> list_all (\<lambda>(n, i). tidy_name rs v n i) es) (vl_dirs v)"

definition bytes_of :: "volume \<Rightarrow> nat \<Rightarrow> byte list" where
  "bytes_of v i = (case map_of (vl_nodes v) i of None \<Rightarrow> [] | Some n \<Rightarrow> nd_bytes n)"

text \<open>The directories as their clients see them.\<close>

definition view :: "pystr list \<Rightarrow> volume \<Rightarrow> nat \<Rightarrow> dir" where
  "view rs v d = map (\<lambda>(n, i). (n, bytes_of v i)) (filter (\<lambda>(n, _). n \<notin> set rs) (entries_of v d))"

lemma entries_in_dirs: "(n, i) \<in> set (entries_of v d) \<Longrightarrow> \<exists>es. (d, es) \<in> set (vl_dirs v) \<and> es = entries_of v d"
  by (auto simp: entries_of_def dest: map_of_SomeD split: option.splits)

lemma tidy_distinct: "tidy rs v \<Longrightarrow> distinct (map fst (entries_of v d))"
  by (auto simp: tidy_def entries_of_def list_all_iff dest!: map_of_SomeD split: option.splits)

lemma tidy_entry:
  assumes "tidy rs v" and "(n, i) \<in> set (entries_of v d)"
  shows "tidy_name rs v n i"
proof -
  have "(d, entries_of v d) \<in> set (vl_dirs v)" using entries_in_dirs [OF assms(2)] by simp
  with assms(1) have "list_all (\<lambda>(n, i). tidy_name rs v n i) (entries_of v d)"
    by (auto simp: tidy_def list_all_iff)
  with assms(2) show ?thesis by (auto simp: list_all_iff)
qed

lemma tidyI:
  assumes "\<And>i nd. (i, nd) \<in> set (vl_nodes v) \<Longrightarrow> i < vl_next v" and "distinct (map fst (vl_dirs v))"
    and "\<And>d. distinct (map fst (entries_of v d))"
    and "\<And>d n i. (n, i) \<in> set (entries_of v d) \<Longrightarrow> tidy_name rs v n i"
  shows "tidy rs v"
proof -
  have "distinct (map fst es) \<and> list_all (\<lambda>(n, i). tidy_name rs v n i) es" if "(d, es) \<in> set (vl_dirs v)" for d es
  proof -
    have "entries_of v d = es" using that assms(2) by (simp add: entries_of_def)
    with assms(3) [of d] assms(4) [of _ _ d] show ?thesis by (auto simp: list_all_iff)
  qed
  then have "\<forall>p \<in> set (vl_dirs v). case p of (_, es) \<Rightarrow>
      distinct (map fst es) \<and> list_all (\<lambda>(n, i). tidy_name rs v n i) es" by blast
  moreover have "\<forall>p \<in> set (vl_nodes v). case p of (i, _) \<Rightarrow> i < vl_next v" using assms(1) by blast
  ultimately show ?thesis unfolding tidy_def list_all_iff [of _ "vl_dirs v"] list_all_iff [of _ "vl_nodes v"]
    using assms(2) by blast
qed

lemma tidy_keys: "tidy rs v \<Longrightarrow> distinct (map fst (vl_dirs v))"
  by (simp add: tidy_def)

lemma tidy_node: "tidy rs v \<Longrightarrow> (i, nd) \<in> set (vl_nodes v) \<Longrightarrow> i < vl_next v"
  by (auto simp: tidy_def list_all_iff)

lemma tidy_fresh: "tidy rs v \<Longrightarrow> map_of (vl_nodes v) (vl_next v) = None"
  by (auto simp: map_of_eq_None_iff dest: tidy_node)

lemma tidy_inode:
  assumes "tidy rs v" and "(n, i) \<in> set (entries_of v d)"
  shows "i < vl_next v"
  using tidy_entry [OF assms] tidy_node [OF assms(1)]
  by (auto simp: tidy_name_def dest!: map_of_SomeD split: option.splits)

lemma tidy_no_new: "tidy rs v \<Longrightarrow> link_count (entries_of v d) (vl_next v) = 0"
  by (rule link_count_zero) (auto dest: tidy_inode)

lemma links_new:
  assumes tidy: "tidy rs v"
  shows "links v (vl_next v) = 0"
proof -
  have "link_count es (vl_next v) = 0" if "(d, es) \<in> set (vl_dirs v)" for d es
    using tidy_no_new [OF tidy, of d] that tidy_keys [OF tidy] by (simp add: entries_of_def)
  then show ?thesis by (auto simp: links_def sum_list_eq_0_iff)
qed

lemma tidy_not_temporary: "tidy rs v \<Longrightarrow> (n, i) \<in> set (entries_of v d) \<Longrightarrow> \<not> is_temporary n"
  by (drule (1) tidy_entry) (simp add: tidy_name_def)

lemma tidy_stat:
  assumes "tidy rs v" and "map_of (entries_of v d) n = Some i"
  shows "\<exists>nd. map_of (vl_nodes v) i = Some nd
           \<and> stat_name v d n = Inr \<lparr>fs_kind = nd_kind nd, fs_owned = nd_owned nd, fs_mode = nd_mode nd,
                fs_nlink = links v i, fs_size = length (nd_bytes nd), fs_inode = i\<rparr>
           \<and> (if n \<in> set rs then nd_kind nd = Directory_File else private_file nd \<and> links v i = 1)"
  using tidy_entry [OF assms(1) map_of_SomeD [OF assms(2)]] assms(2)
  by (auto simp: stat_name_def tidy_name_def split: option.splits)

section \<open>A volume with a new inode\<close>

lemma tidy_put:
  assumes tidy: "tidy rs v" and d: "has_dir v d" and nd: "private_file nd"
    and distinct: "distinct (map fst es)"
    and names: "\<And>n i. (n, i) \<in> set es \<Longrightarrow>
      i = vl_next v \<and> valid_component n \<and> \<not> is_temporary n \<and> n \<notin> set rs \<or> (n, i) \<in> set (entries_of v d)"
    and new: "link_count es (vl_next v) \<le> 1"
    and old: "\<And>i. i \<noteq> vl_next v \<Longrightarrow> link_count es i \<le> link_count (entries_of v d) i"
  shows "tidy rs (put_dir d es (add_node nd v))" (is "tidy rs ?w")
proof (rule tidyI)
  show "distinct (map fst (vl_dirs ?w))" using d by (simp add: has_dir_def put_dir_def update_dir_dirs)
next
  fix i n assume "(i, n) \<in> set (vl_nodes ?w)"
  then show "i < vl_next ?w" by (auto dest: tidy_node [OF tidy])
next
  fix k show "distinct (map fst (entries_of ?w k))"
    using distinct tidy_distinct [OF tidy] d by (simp add: entries_put)
next
  fix k n i assume mem: "(n, i) \<in> set (entries_of ?w k)"
  then have here: "(n, i) \<in> set es \<and> k = d \<or> (n, i) \<in> set (entries_of v k) \<and> k \<noteq> d"
    using d by (auto simp: entries_put split: if_splits)
  have count: "links ?w i + link_count (entries_of v d) i = links v i + link_count es i"
    using links_put [of "add_node nd v" d es i] d by simp
  show "tidy_name rs ?w n i"
  proof (cases "i = vl_next v")
    case True
    with here names have n: "valid_component n" "\<not> is_temporary n" "n \<notin> set rs" and "(n, i) \<in> set es"
      using tidy_inode [OF tidy] by blast+
    then have "links ?w i = 1"
      using count True new link_count_pos [of n i es] links_new [OF tidy] tidy_no_new [OF tidy]
      by (simp add: Suc_le_eq le_antisym)
    with True n nd show ?thesis by (simp add: tidy_name_def)
  next
    case False
    with here names obtain k' where "(n, i) \<in> set (entries_of v k')" by blast
    then have "tidy_name rs v n i" by (rule tidy_entry [OF tidy])
    moreover have "0 < links ?w i"
      using links_ge [of ?w k i] link_count_pos [OF mem] d
      by (simp add: has_dir_def put_dir_def update_dir_dirs)
    moreover have "links ?w i \<le> links v i" using count old [OF False] by linarith
    ultimately show ?thesis using False
      by (auto simp: tidy_name_def split: option.splits if_splits)
  qed
qed

lemma bytes_of_old: "i \<noteq> vl_next v \<Longrightarrow> bytes_of (put_dir d es (add_node nd v)) i = bytes_of v i"
  by (simp add: bytes_of_def)

lemma bytes_of_new: "bytes_of (put_dir d es (add_node nd v)) (vl_next v) = nd_bytes nd"
  by (simp add: bytes_of_def)

end
