(* ===== verification/Secure_Fs_Runs.thy ===== *)
theory Secure_Fs_Runs
  imports Secure_Fs_Facts
begin

text \<open>
  The runs of the writing operations on a tidy volume: the volumes they may leave behind when they
  are interrupted, the result, and the volume at the end.  \<open>goes f v M r w\<close> says that \<open>f\<close> run on
  \<open>v\<close> returns \<open>r\<close> and leaves \<open>w\<close>, and that the volumes after its calls are among \<open>M\<close>.
\<close>

definition goes :: "'a fs_op \<Rightarrow> volume \<Rightarrow> volume set \<Rightarrow> fs_code + 'a \<Rightarrow> volume \<Rightarrow> bool" where
  "goes f v M r w \<longleftrightarrow> set (fst (f v)) \<subseteq> M \<and> snd (f v) = r \<and> reached v (fst (f v)) = w"

lemma reached_append: "reached v (tr @ tr') = reached (reached v tr) tr'"
  by (simp add: reached_def)

lemma goes_looks: "f v = r \<Longrightarrow> goes (looks f) v M r v"
  by (simp add: goes_def looks_def reached_def)

lemma goes_call: "f v = w \<Longrightarrow> w \<in> M \<Longrightarrow> goes (call f) v M (Inr ()) w"
  by (simp add: goes_def call_def reached_def)

lemma goes_next:
  "goes f v M (Inr x) u \<Longrightarrow> goes (k x) u M r w \<Longrightarrow> goes (next_call f k) v M r w"
  by (auto simp: goes_def next_call_def reached_append split: prod.splits sum.splits)

lemma goes_next_error: "goes f v M (Inl e) w \<Longrightarrow> goes (next_call f k) v M (Inl e) w"
  by (auto simp: goes_def next_call_def split: prod.splits sum.splits)

lemma goes_on_error: "goes f v M (Inr x) w \<Longrightarrow> goes (on_error f g) v M (Inr x) w"
  by (auto simp: goes_def on_error_def split: prod.splits sum.splits)

lemma goes_on_error_Inl:
  "goes f v M (Inl e) w \<Longrightarrow> g w = u \<Longrightarrow> u \<in> M \<Longrightarrow> goes (on_error f g) v M (Inl e) u"
  by (auto simp: goes_def on_error_def reached_append split: prod.splits sum.splits)
     (simp add: reached_def)

lemma goes_mono: "goes f v M r w \<Longrightarrow> M \<subseteq> N \<Longrightarrow> goes f v N r w"
  by (auto simp: goes_def)

lemma goes_reaches: "goes f v M r w \<Longrightarrow> w = v \<or> w \<in> M"
  using last_in_set [of "fst (f v)"] by (cases "fst (f v) = []") (auto simp: goes_def reached_def)

section \<open>Calls on a volume with a new inode\<close>

abbreviation with_new :: "nat \<Rightarrow> entries \<Rightarrow> inode \<Rightarrow> volume \<Rightarrow> volume" where
  "with_new d es nd v \<equiv> put_dir d es (add_node nd v)"

definition file_of :: "byte list \<Rightarrow> inode" where
  "file_of bs = \<lparr>nd_kind = Regular_File, nd_owned = True, nd_mode = FILE_MODE, nd_bytes = bs\<rparr>"

lemma file_of_fields [simp]:
  "nd_kind (file_of bs) = Regular_File" "nd_owned (file_of bs)" "nd_mode (file_of bs) = FILE_MODE"
  "nd_bytes (file_of bs) = bs" "private_file (file_of bs)"
  "file_of bs\<lparr>nd_mode := FILE_MODE\<rparr> = file_of bs" "file_of bs\<lparr>nd_bytes := bs'\<rparr> = file_of bs'"
  by (simp_all add: file_of_def private_file_def)

lemma create_with_new:
  assumes "has_dir v d"
  shows "sys_create d tmp FILE_MODE v = with_new d ((tmp, vl_next v) # entries_of v d) (file_of []) v"
proof -
  have "sys_create d tmp FILE_MODE v = sys_link d tmp (vl_next v) (add_node (file_of []) v)"
    by (simp add: sys_create_def add_node_def file_of_def)
  then show ?thesis using assms by (simp add: sys_link_def update_is_put)
qed

lemma sys_fill_put: "sys_fill i f (put_dir d es v) = put_dir d es (sys_fill i f v)"
  by (simp add: sys_fill_def put_dir_def update_dir_def)

lemma fill_with_new:
  assumes "tidy rs v"
  shows "sys_fill (vl_next v) f (with_new d es nd v) = with_new d es (f nd) v"
proof -
  have "map (\<lambda>(k, n). (k, if k = vl_next v then f n else n)) (vl_nodes v) = vl_nodes v"
    by (rule map_idI) (auto dest: tidy_node [OF assms])
  then have "sys_fill (vl_next v) f (add_node nd v) = add_node (f nd) v"
    by (simp add: sys_fill_def add_node_def)
  then show ?thesis by (simp add: sys_fill_put)
qed

lemma unlink_with_new:
  "has_dir v d \<Longrightarrow> sys_unlink d n (with_new d es nd v) = with_new d (filter (\<lambda>(m, _). m \<noteq> n) es) nd v"
  by (simp add: sys_unlink_def update_is_put entries_put)

lemma link_with_new:
  "has_dir v d \<Longrightarrow> sys_link d n i (with_new d es nd v) = with_new d ((n, i) # es) nd v"
  by (simp add: sys_link_def update_is_put entries_put)

lemma rename_with_new:
  "has_dir v d \<Longrightarrow> sys_rename d old n i (with_new d es nd v)
     = with_new d ((n, i) # filter (\<lambda>(m, _). m \<noteq> old \<and> m \<noteq> n) es) nd v"
  by (simp add: sys_rename_def update_is_put entries_put)

lemma links_with_new:
  assumes "tidy rs v" and "has_dir v d"
  shows "links (with_new d es nd v) (vl_next v) = link_count es (vl_next v)"
  using links_put [of "add_node nd v" d es "vl_next v"] assms
  by (simp add: links_new [OF assms(1)] tidy_no_new [OF assms(1)])

lemma stat_with_new:
  assumes "tidy rs v" and "has_dir v d" and "map_of es n = Some (vl_next v)"
  shows "stat_name (with_new d es (file_of bs) v) d n = Inr \<lparr>fs_kind = Regular_File, fs_owned = True,
    fs_mode = FILE_MODE, fs_nlink = link_count es (vl_next v), fs_size = length bs, fs_inode = vl_next v\<rparr>"
  using assms by (simp add: stat_name_def entries_put links_with_new [OF assms(1,2)])

lemma stat_with_old:
  assumes "tidy rs v" and "has_dir v d" and "map_of es n = Some i" and "map_of (entries_of v d) n = Some i"
  shows "\<exists>st. stat_name (with_new d es nd v) d n = Inr st \<and> fs_inode st = i \<and> i \<noteq> vl_next v"
proof -
  from tidy_stat [OF assms(1,4)] obtain nd' where "map_of (vl_nodes v) i = Some nd'" by blast
  moreover have "i \<noteq> vl_next v" using tidy_inode [OF assms(1) map_of_SomeD [OF assms(4)]] by simp
  ultimately show ?thesis using assms(2,3) by (simp add: stat_name_def entries_put)
qed

section \<open>Temporary files\<close>

definition good_env :: "write_env \<Rightarrow> bool" where
  "good_env env \<longleftrightarrow>
     we_tokens env \<noteq> [] \<and> list_all (\<lambda>t. length t = 32 \<and> list_all is_hex_char t) (we_tokens env)
     \<and> we_mode env = FILE_MODE \<and> list_all (\<lambda>c. 0 < c) (we_counts env)"

definition temporary :: "write_env \<Rightarrow> pystr" where
  "temporary env = temporary_name (hd (we_tokens env))"

lemma temporary_shape:
  assumes "good_env env"
  shows "is_temporary (temporary env)" and "valid_component (temporary env)"
proof -
  obtain t where t: "hd (we_tokens env) = t" "length t = 32" "list_all is_hex_char t"
    using assms by (cases "we_tokens env") (auto simp: good_env_def)
  then show "is_temporary (temporary env)"
    by (simp add: is_temporary_def temporary_def temporary_name_def)
  have c: "list_all (\<lambda>c. 48 \<le> c \<and> c \<le> 102 \<and> c \<noteq> 92) t"
    using t(3) by (auto simp: list_all_iff is_hex_char_def)
  show "valid_component (temporary env)"
    unfolding temporary_def t(1) temporary_name_def
  proof (rule valid_component_ascii)
    show "ascii (py ''tmp-'' @ t)" using c by (auto simp: ascii_def py_def list_all_iff)
    show "list_all (\<lambda>c. 32 \<le> c \<and> c \<noteq> 127 \<and> c \<noteq> 47 \<and> c \<noteq> 92) (py ''tmp-'' @ t)"
      using c by (auto simp: py_def list_all_iff)
  qed (simp_all add: t(2) MAX_COMPONENT_BYTES_def)
qed

lemma temporary_fresh:
  assumes "tidy rs v" and "is_temporary n"
  shows "map_of (entries_of v d) n = None"
  using tidy_not_temporary [OF assms(1)] assms(2) by (cases "map_of (entries_of v d) n") (auto dest!: map_of_SomeD)

definition staged :: "nat \<Rightarrow> pystr \<Rightarrow> byte list \<Rightarrow> volume \<Rightarrow> volume" where
  "staged d tmp bs v = with_new d ((tmp, vl_next v) # entries_of v d) (file_of bs) v"

lemma write_all_goes:
  assumes tidy: "tidy rs v" and M: "\<And>bs. staged d tmp bs v \<in> M"
    and "list_all (\<lambda>c. 0 < c) cs"
  shows "goes (write_all (vl_next v) data written cs) (staged d tmp (take written data) v) M
           (Inr ()) (staged d tmp data v)"
  using assms(3)
proof (induction cs arbitrary: written)
  case Nil
  show ?case using M by (auto simp: staged_def fill_with_new [OF tidy] intro!: goes_call goes_looks)
next
  case (Cons c cs)
  then have "goes (write_all (vl_next v) data (written + c) cs)
      (staged d tmp (take (written + c) data) v) M (Inr ()) (staged d tmp data v)" by simp
  moreover have "goes (call (sys_fill (vl_next v) (\<lambda>n. n\<lparr>nd_bytes := take (written + c) data\<rparr>)))
      (staged d tmp (take written data) v) M (Inr ()) (staged d tmp (take (written + c) data) v)"
    using M by (auto simp: staged_def fill_with_new [OF tidy] intro!: goes_call)
  ultimately show ?case using Cons.prems by (auto intro!: goes_looks goes_next)
qed

lemma write_temporary_goes:
  assumes tidy: "tidy rs v" and d: "has_dir v d" and env: "good_env env"
    and M: "\<And>bs. staged d (temporary env) bs v \<in> M"
  shows "goes (write_temporary env d data) v M (Inr (temporary env)) (staged d (temporary env) data v)"
proof -
  let ?tmp = "temporary env" and ?i = "vl_next v"
  let ?body = "next_call (call (sys_fill ?i (\<lambda>n. n\<lparr>nd_mode := FILE_MODE\<rparr>))) (\<lambda>_.
            next_call (write_all ?i data 0 (we_counts env)) (\<lambda>_.
            looks (\<lambda>v'. andthen (stat_name v' d ?tmp) (\<lambda>st.
              require UNSAFE_FILE_TYPE (regular_is_safe st) (Inr ?tmp)))))"
  have "map_of (entries_of v d) ?tmp = None"
    by (rule temporary_fresh [OF tidy temporary_shape(1) [OF env]])
  then have found: "find (\<lambda>n. map_of (entries_of v d) n = None)
      (map temporary_name (take 8 (we_tokens env))) = Some ?tmp"
    using env by (cases "we_tokens env") (simp_all add: good_env_def temporary_def)
  have create: "goes (call (sys_create d ?tmp (we_mode env))) v M (Inr ()) (staged d ?tmp [] v)"
    using env by (intro goes_call M) (simp add: good_env_def create_with_new [OF d] staged_def)
  have mode: "goes (call (sys_fill ?i (\<lambda>n. n\<lparr>nd_mode := FILE_MODE\<rparr>))) (staged d ?tmp [] v) M (Inr ())
      (staged d ?tmp [] v)"
    by (intro goes_call M) (simp add: staged_def fill_with_new [OF tidy])
  have fill: "goes (write_all ?i data 0 (we_counts env)) (staged d ?tmp [] v) M (Inr ()) (staged d ?tmp data v)"
    using write_all_goes [OF tidy, of d ?tmp M "we_counts env" data 0] M env by (simp add: good_env_def)
  have check: "goes (looks (\<lambda>v'. andthen (stat_name v' d ?tmp) (\<lambda>st.
        require UNSAFE_FILE_TYPE (regular_is_safe st) (Inr ?tmp)))) (staged d ?tmp data v) M (Inr ?tmp)
      (staged d ?tmp data v)"
    unfolding staged_def
    by (intro goes_looks, subst stat_with_new [OF tidy d])
       (simp_all add: regular_is_safe_def tidy_no_new [OF tidy])
  have "goes (next_call (call (sys_create d ?tmp (we_mode env))) (\<lambda>_. on_error ?body (sys_unlink d ?tmp)))
      v M (Inr ?tmp) (staged d ?tmp data v)"
    by (rule goes_next [OF create], rule goes_on_error, rule goes_next [OF mode],
        rule goes_next [OF fill], rule check)
  then show ?thesis by (simp add: goes_def write_temporary_def found)
qed

section \<open>Publication\<close>

definition twice_linked :: "nat \<Rightarrow> pystr \<Rightarrow> pystr \<Rightarrow> byte list \<Rightarrow> volume \<Rightarrow> volume" where
  "twice_linked d tmp name bs v =
     with_new d ((name, vl_next v) # (tmp, vl_next v) # entries_of v d) (file_of bs) v"

definition newly_published :: "nat \<Rightarrow> pystr \<Rightarrow> byte list \<Rightarrow> volume \<Rightarrow> volume" where
  "newly_published d name bs v = with_new d ((name, vl_next v) # entries_of v d) (file_of bs) v"

definition aborted :: "nat \<Rightarrow> byte list \<Rightarrow> volume \<Rightarrow> volume" where
  "aborted d bs v = with_new d (entries_of v d) (file_of bs) v"

definition replaced :: "nat \<Rightarrow> pystr \<Rightarrow> byte list \<Rightarrow> volume \<Rightarrow> volume" where
  "replaced d name bs v =
     with_new d ((name, vl_next v) # filter (\<lambda>(m, _). m \<noteq> name) (entries_of v d)) (file_of bs) v"

lemma filter_fresh: "map_of es n = None \<Longrightarrow> filter (\<lambda>(m, _). m \<noteq> n) es = es"
  by (induction es) (auto split: if_split_asm)

definition publishing ::
  "nat \<Rightarrow> pystr \<Rightarrow> pystr \<Rightarrow> byte list \<Rightarrow> fs_code + unit \<Rightarrow> volume \<Rightarrow> volume set" where
  "publishing d tmp name data r v =
     range (\<lambda>bs. staged d tmp bs v)
     \<union> (if r = Inr () then {twice_linked d tmp name data v, newly_published d name data v} else {aborted d data v})"

definition publish_result :: "entries \<Rightarrow> pystr \<Rightarrow> fs_code option \<Rightarrow> fs_code + unit" where
  "publish_result es name guard =
     (case guard of
        Some e \<Rightarrow> Inl e
      | None \<Rightarrow> require IMMUTABLE_EXISTS (map_of es name = None) (Inr ()))"

lemma link_temporary_goes:
  assumes tidy: "tidy rs v" and d: "has_dir v d" and tmp: "is_temporary tmp" and name: "\<not> is_temporary name"
    and r: "publish_result (entries_of v d) name guard = r"
  shows "goes (link_temporary d tmp name guard) (staged d tmp data v) (publishing d tmp name data r v) r
           (if r = Inr () then newly_published d name data v else aborted d data v)"
proof -
  note fresh = temporary_fresh [OF tidy tmp, of d]
  have other: "name \<noteq> tmp" using tmp name by auto
  have es: "map_of (entries_of (staged d tmp data v) d) name = map_of (entries_of v d) name"
    using other d by (simp add: staged_def entries_put)
  have undone: "sys_unlink d tmp (staged d tmp data v) = aborted d data v"
    by (simp add: staged_def aborted_def unlink_with_new [OF d] filter_fresh [OF fresh])
  show ?thesis
  proof (cases r)
    case (Inl e)
    then have mem: "aborted d data v \<in> publishing d tmp name data r v" by (simp add: publishing_def)
    have "goes (link_temporary d tmp name guard) (staged d tmp data v) (publishing d tmp name data r v)
        (Inl e) (aborted d data v)"
      unfolding link_temporary_def
      by (rule goes_next_error, rule goes_on_error_Inl [where g = "sys_unlink d tmp", OF _ undone mem],
          rule goes_looks)
         (use r Inl in \<open>auto simp: publish_result_def es require_def split: option.splits if_splits\<close>)
    with Inl show ?thesis by simp
  next
    case (Inr u)
    then have free: "map_of (entries_of v d) name = None" and g: "guard = None"
      using r by (auto simp: publish_result_def require_def split: option.splits if_splits)
    let ?M = "publishing d tmp name data r v"
    have check: "goes (looks (\<lambda>v. case guard of
            Some e \<Rightarrow> Inl e
          | None \<Rightarrow>
              if map_of (entries_of v d) name \<noteq> None then Inl IMMUTABLE_EXISTS
              else andthen (stat_name v d tmp) (\<lambda>st. Inr (fs_inode st))))
        (staged d tmp data v) ?M (Inr (vl_next v)) (staged d tmp data v)"
      using es g free by (intro goes_looks) (simp add: staged_def stat_with_new [OF tidy d])
    have link: "goes (call (sys_link d name (vl_next v))) (staged d tmp data v) ?M (Inr ()) (twice_linked d tmp name data v)"
      using Inr by (intro goes_call)
        (simp_all add: staged_def twice_linked_def link_with_new [OF d] publishing_def)
    have unlink: "goes (call (sys_unlink d tmp)) (twice_linked d tmp name data v) ?M (Inr ()) (newly_published d name data v)"
      using Inr other by (intro goes_call)
        (simp_all add: twice_linked_def newly_published_def unlink_with_new [OF d] filter_fresh [OF fresh] publishing_def)
    have "goes (link_temporary d tmp name guard) (staged d tmp data v) ?M (Inr ()) (newly_published d name data v)"
      unfolding link_temporary_def
      by (rule goes_next, rule goes_on_error [OF check], rule goes_next [OF link], rule unlink)
    with Inr show ?thesis by simp
  qed
qed

lemma write_immutable_guarded_goes:
  assumes tidy: "tidy rs v" and d: "has_dir v d" and env: "good_env env"
    and name: "valid_component name" "\<not> is_temporary name"
    and r: "publish_result (entries_of v d) name guard = r"
  shows "goes (write_immutable_guarded env d name data guard) v
           (publishing d (temporary env) name data r v) r
           (if r = Inr () then newly_published d name data v else aborted d data v)"
  unfolding write_immutable_guarded_def
  by (rule goes_next [OF goes_looks], use name in simp,
      rule goes_next [OF write_temporary_goes [OF tidy d env]], simp add: publishing_def,
      rule link_temporary_goes [OF tidy d temporary_shape(1) [OF env] name(2) r])

lemma invalid_name_goes:
  "\<not> valid_component name \<Longrightarrow>
     goes (write_immutable_guarded env d name data guard) v M (Inl INVALID_COMPONENT) v"
  "\<not> valid_component name \<Longrightarrow> goes (replace_derived env d name data) v M (Inl INVALID_COMPONENT) v"
  unfolding write_immutable_guarded_def replace_derived_def
  by (simp_all add: goes_next_error [OF goes_looks])

section \<open>Replacement\<close>

lemma replace_derived_goes:
  assumes tidy: "tidy rs v" and d: "has_dir v d" and env: "good_env env"
    and name: "valid_component name" "\<not> is_temporary name" "name \<notin> set rs"
  shows "goes (replace_derived env d name data) v
           (range (\<lambda>bs. staged d (temporary env) bs v) \<union> {replaced d name data v}) (Inr ())
           (replaced d name data v)"
proof -
  let ?tmp = "temporary env"
  note fresh = temporary_fresh [OF tidy temporary_shape(1) [OF env], of d]
  have other: "?tmp \<noteq> name" using temporary_shape(1) [OF env] name(2) by auto
  have checked: "check_derived d name v = Inr ()"
  proof (cases "map_of (entries_of v d) name")
    case None
    then show ?thesis by (simp add: check_derived_def stat_name_def)
  next
    case (Some i)
    from tidy_stat [OF tidy this] name(3) show ?thesis
      by (auto simp: check_derived_def private_file_def regular_is_safe_def)
  qed
  let ?M = "range (\<lambda>bs. staged d ?tmp bs v) \<union> {replaced d name data v}"
  have stage: "goes (write_temporary env d data) v ?M (Inr ?tmp) (staged d ?tmp data v)"
    by (rule write_temporary_goes [OF tidy d env]) simp
  have look: "goes (looks (\<lambda>v. andthen (stat_name v d ?tmp) (\<lambda>st. Inr (fs_inode st))))
      (staged d ?tmp data v) ?M (Inr (vl_next v)) (staged d ?tmp data v)"
    by (intro goes_looks) (simp add: staged_def stat_with_new [OF tidy d])
  have "filter (\<lambda>(m, _). m \<noteq> ?tmp \<and> m \<noteq> name) (entries_of v d)
      = filter (\<lambda>(m, _). m \<noteq> name) (filter (\<lambda>(m, _). m \<noteq> ?tmp) (entries_of v d))"
    by (simp add: case_prod_unfold conj_commute)
  then have rename: "goes (call (sys_rename d ?tmp name (vl_next v))) (staged d ?tmp data v) ?M (Inr ())
      (replaced d name data v)"
    using other by (intro goes_call)
      (simp_all add: staged_def replaced_def rename_with_new [OF d] filter_fresh [OF fresh])
  show ?thesis
    unfolding replace_derived_def
    by (rule goes_next [OF goes_looks], use name(1) in simp, rule goes_next [OF goes_looks],
        rule checked, rule goes_next [OF stage], rule goes_next [OF look], rule rename)
qed

end
