(* ===== verification/Secure_Fs_Recovery.thy ===== *)
theory Secure_Fs_Recovery
  imports Secure_Fs_Runs
begin

text \<open>
  What clients see of a run.  On a tidy volume a read is a read of the directory the volume stands
  for, a publication, a replacement or a move does to the directories what \<open>Directory\<close> says, and
  every volume an interrupted run leaves is brought back by the recovery to a tidy one that stands
  for the directories before the operation or after it.
\<close>

section \<open>Views\<close>

lemma map_of_view: "n \<notin> set rs \<Longrightarrow> map_of (view rs v d) n = map_option (bytes_of v) (map_of (entries_of v d) n)"
proof -
  assume n: "n \<notin> set rs"
  have "map_of (map (\<lambda>(n, i). (n, bytes_of v i)) (filter (\<lambda>(n, _). n \<notin> set rs) es)) n
      = map_option (bytes_of v) (map_of es n)" for es
    using n by (induction es) auto
  then show ?thesis by (simp add: view_def)
qed

lemma bytes_of_put [simp]: "bytes_of (put_dir d es v) = bytes_of v"
  by (rule ext) (simp add: bytes_of_def)

lemma view_put:
  "has_dir v d \<Longrightarrow> view rs (put_dir d es v) k =
     (if k = d then map (\<lambda>(n, i). (n, bytes_of v i)) (filter (\<lambda>(n, _). n \<notin> set rs) es) else view rs v k)"
  by (simp add: view_def entries_put)

lemma view_add_node:
  assumes "tidy rs v"
  shows "view rs (add_node nd v) k = view rs v k"
proof -
  have "bytes_of (add_node nd v) i = bytes_of v i" if "(n, i) \<in> set (entries_of v k)" for n i
    using tidy_inode [OF assms that] by (simp add: bytes_of_def)
  then show ?thesis by (auto simp: view_def)
qed

lemma view_put_Cons:
  assumes "has_dir v d" and "n \<notin> set rs"
  shows "view rs (put_dir d ((n, i) # es) v) = (view rs (put_dir d es v))(d := (n, bytes_of v i) # view rs (put_dir d es v) d)"
  using assms by (auto simp: view_put)

lemma view_put_filter:
  assumes "has_dir v d"
  shows "view rs (put_dir d (filter (\<lambda>(m, _). m \<noteq> n) (entries_of v d)) v) = (view rs v)(d := dir_remove (view rs v d) n)"
proof -
  have "map (\<lambda>(n, i). (n, bytes_of v i)) (filter (\<lambda>(n, _). n \<notin> set rs) (filter (\<lambda>(m, _). m \<noteq> n) es))
      = filter (\<lambda>(k, _). k \<noteq> n) (map (\<lambda>(n, i). (n, bytes_of v i)) (filter (\<lambda>(n, _). n \<notin> set rs) es))" for es
    by (induction es) auto
  then show ?thesis using assms by (intro ext) (simp add: view_def entries_put dir_remove_def del: filter_filter)
qed

lemma view_aborted:
  assumes "tidy rs v" and "has_dir v d"
  shows "view rs (aborted d bs v) = view rs v"
proof -
  have "aborted d bs v = add_node (file_of bs) v"
    using put_same [of "add_node (file_of bs) v" d] assms(2) by (simp add: aborted_def)
  then show ?thesis by (auto simp: view_add_node [OF assms(1)])
qed

lemma bytes_of_added [simp]: "bytes_of (add_node nd v) (vl_next v) = nd_bytes nd"
  by (simp add: bytes_of_def)

lemma view_published:
  assumes "tidy rs v" and "has_dir v d" and "name \<notin> set rs"
  shows "view rs (newly_published d name bs v) = (view rs v)(d := (name, bs) # view rs v d)"
  using assms view_put_Cons [of "add_node (file_of bs) v" d name rs "vl_next v" "entries_of v d"]
    view_aborted [OF assms(1,2), of bs]
  by (simp add: newly_published_def aborted_def)

lemma view_replaced:
  assumes "tidy rs v" and "has_dir v d" and "name \<notin> set rs"
  shows "view rs (replaced d name bs v) = (view rs v)(d := (name, bs) # dir_remove (view rs v d) name)"
  using assms view_put_Cons [of "add_node (file_of bs) v" d name rs "vl_next v"
      "filter (\<lambda>(m, _). m \<noteq> name) (entries_of v d)"]
    view_put_filter [of "add_node (file_of bs) v" d rs name]
  by (auto simp: replaced_def view_add_node)

section \<open>Reading\<close>

lemma read_refines:
  assumes "tidy rs v" and "n \<notin> set rs"
  shows "read_bytes d n limit v = dir_read (view rs v d) n limit"
proof (cases "map_of (entries_of v d) n")
  case None
  then show ?thesis using assms(2) by (simp add: read_bytes_def dir_read_def map_of_view stat_name_def)
next
  case (Some i)
  from tidy_stat [OF assms(1) Some] Some assms(2) show ?thesis
    by (auto simp: read_bytes_def dir_read_def map_of_view bytes_of_def private_file_def regular_is_safe_def)
qed

lemma list_refines:
  assumes "tidy [] v"
  shows "list_entries d v = dir_list (view [] v d)"
  by (simp add: list_entries_def dir_list_def view_def list_all_iff comp_def case_prod_unfold)

section \<open>What stays tidy\<close>

lemma tidy_published:
  assumes "tidy rs v" and "has_dir v d" and "valid_component name" "\<not> is_temporary name" "name \<notin> set rs"
    and "map_of (entries_of v d) name = None"
  shows "tidy rs (newly_published d name bs v)"
  unfolding newly_published_def
  by (rule tidy_put [OF assms(1,2)])
     (use assms tidy_distinct [OF assms(1), of d] tidy_no_new [OF assms(1), of d] in
       \<open>auto simp: map_of_eq_None_iff\<close>)

lemma tidy_aborted:
  assumes "tidy rs v" and "has_dir v d"
  shows "tidy rs (aborted d bs v)"
  unfolding aborted_def
  by (rule tidy_put [OF assms])
     (use tidy_distinct [OF assms(1), of d] tidy_no_new [OF assms(1), of d] in auto)

lemma link_count_filter: "link_count (filter P es) i \<le> link_count es i"
  by (induction es) auto

lemma distinct_fst_filter: "distinct (map fst es) \<Longrightarrow> distinct (map fst (filter P es))"
  by (rule distinct_map_filterI)

lemma tidy_replaced:
  assumes "tidy rs v" and "has_dir v d" and "valid_component name" "\<not> is_temporary name" "name \<notin> set rs"
  shows "tidy rs (replaced d name bs v)"
proof -
  let ?rest = "filter (\<lambda>(m, _). m \<noteq> name) (entries_of v d)"
  have "link_count ?rest (vl_next v) = 0"
    using link_count_filter [of "\<lambda>(m, _). m \<noteq> name" "entries_of v d" "vl_next v"]
    by (simp add: tidy_no_new [OF assms(1)])
  moreover have "name \<notin> set (map fst ?rest)" by auto
  ultimately show ?thesis
    unfolding replaced_def
    by (intro tidy_put [OF assms(1,2)])
       (use assms(3-5) distinct_fst_filter [OF tidy_distinct [OF assms(1)]] link_count_filter in auto)
qed

lemma tidy_same_nodes:
  assumes tidy: "tidy rs v" and same: "vl_nodes w = vl_nodes v" "vl_next w = vl_next v"
    and keys: "distinct (map fst (vl_dirs w))" and names: "\<And>k. distinct (map fst (entries_of w k))"
    and entry: "\<And>k n i. (n, i) \<in> set (entries_of w k) \<Longrightarrow> links w i \<le> links v i
      \<and> (\<exists>k' m. (m, i) \<in> set (entries_of v k')
           \<and> (n = m \<or> n \<notin> set rs \<and> m \<notin> set rs \<and> valid_component n \<and> \<not> is_temporary n))"
  shows "tidy rs w"
proof (rule tidyI [OF _ keys names])
  fix i nd assume "(i, nd) \<in> set (vl_nodes w)"
  then show "i < vl_next w" using tidy_node [OF tidy] same by simp
next
  fix k n i assume mem: "(n, i) \<in> set (entries_of w k)"
  then obtain k' m where le: "links w i \<le> links v i" and old: "(m, i) \<in> set (entries_of v k')"
    and m: "n = m \<or> n \<notin> set rs \<and> m \<notin> set rs \<and> valid_component n \<and> \<not> is_temporary n"
    using entry by blast
  have "0 < links w i" using links_ge [OF keys, of k i] link_count_pos [OF mem] by simp
  with le m tidy_entry [OF tidy old] show "tidy_name rs w n i"
    by (auto simp: tidy_name_def same split: option.splits if_split_asm)
qed

section \<open>Recovery of temporary files\<close>

definition undisturbed :: "volume \<Rightarrow> nat \<Rightarrow> bool" where
  "undisturbed v d \<longleftrightarrow> (\<forall>(n, _) \<in> set (entries_of v d). valid_component n \<and> \<not> is_temporary n)"

lemma tidy_undisturbed: "tidy rs v \<Longrightarrow> undisturbed v d"
  by (auto simp: undisturbed_def tidy_name_def dest: tidy_entry)

lemma list_entries_ok:
  "(\<And>n i. (n, i) \<in> set (entries_of v d) \<Longrightarrow> valid_component n) \<Longrightarrow>
     list_entries d v = Inr (sort (map fst (entries_of v d)))"
  by (auto simp: list_entries_def list_all_iff require_def)

lemma no_temporaries_goes:
  "(\<And>n. n \<in> set ns \<Longrightarrow> \<not> is_temporary n) \<Longrightarrow> goes (remove_temporaries d names ns) v M (Inr ()) v"
  by (induction ns) (auto intro: goes_looks)

lemma undisturbed_goes:
  assumes "undisturbed v d"
  shows "goes (recover_temporary_writes d) v M (Inr ()) v"
  unfolding recover_temporary_writes_def
  using assms by (intro goes_next [OF goes_looks [OF list_entries_ok]] no_temporaries_goes)
    (auto simp: undisturbed_def)

lemma one_temporary_goes:
  assumes "distinct ns" and "tmp \<in> set ns" and "\<And>n. n \<in> set ns \<Longrightarrow> is_temporary n \<longleftrightarrow> n = tmp"
    and "removable_temporary d names tmp v = Inr ()" and "sys_unlink d tmp v = w"
  shows "goes (remove_temporaries d names ns) v {w} (Inr ()) w"
  using assms(1-3)
proof (induction ns)
  case (Cons n ns)
  show ?case
  proof (cases "n = tmp")
    case True
    with Cons.prems have "goes (remove_temporaries d names ns) w {w} (Inr ()) w"
      by (intro no_temporaries_goes) auto
    with True Cons.prems(3) assms(4,5) show ?thesis
      by (auto intro!: goes_next [OF goes_looks] goes_next [OF goes_call])
  next
    case False
    with Cons show ?thesis by auto
  qed
qed simp

text \<open>The links to an inode among names with different inodes but one.\<close>

lemma count_one_peer:
  assumes "distinct cs"
    and "\<And>c. c \<in> set cs \<Longrightarrow> c \<noteq> name \<Longrightarrow> \<exists>st. stat_name v d c = Inr st \<and> fs_inode st \<noteq> i"
    and "stat_name v d name = Inr st" "fs_inode st = i" "fs_kind st = Regular_File" "fs_owned st"
      "fs_mode st = FILE_MODE" "fs_nlink st = 2"
  shows "count_peers code d i cs v = Inr (if name \<in> set cs then 1 else 0)"
  using assms(1,2)
proof (induction cs)
  case (Cons c cs)
  show ?case
  proof (cases "c = name")
    case True
    with Cons assms(3-) show ?thesis by simp
  next
    case False
    with Cons.prems(2) [of c] obtain st' where "stat_name v d c = Inr st'" "fs_inode st' \<noteq> i" by auto
    with Cons False show ?thesis by auto
  qed
qed simp

lemma staged_removable:
  assumes tidy: "tidy rs v" and d: "has_dir v d"
  shows "removable_temporary d names tmp (staged d tmp bs v) = Inr ()"
  unfolding removable_temporary_def staged_def
  by (subst stat_with_new [OF tidy d]) (simp_all add: tidy_no_new [OF tidy])

lemma linked_removable:
  assumes tidy: "tidy rs v" and d: "has_dir v d" and tmp: "is_temporary tmp" and name: "\<not> is_temporary name"
    and free: "map_of (entries_of v d) name = None"
    and names: "distinct names" "set names = fst ` set (entries_of (twice_linked d tmp name bs v) d)"
  shows "removable_temporary d names tmp (twice_linked d tmp name bs v) = Inr ()"
proof -
  let ?es = "(name, vl_next v) # (tmp, vl_next v) # entries_of v d"
  have other: "name \<noteq> tmp" using tmp name by auto
  have es: "entries_of (twice_linked d tmp name bs v) d = ?es" using d by (simp add: twice_linked_def entries_put)
  have count: "link_count ?es (vl_next v) = 2" by (simp add: tidy_no_new [OF tidy])
  have tmp_stat: "stat_name (twice_linked d tmp name bs v) d tmp = Inr \<lparr>fs_kind = Regular_File, fs_owned = True,
      fs_mode = FILE_MODE, fs_nlink = 2, fs_size = length bs, fs_inode = vl_next v\<rparr>"
    unfolding twice_linked_def using stat_with_new [OF tidy d, of ?es tmp bs] other count by simp
  have name_stat: "stat_name (twice_linked d tmp name bs v) d name = Inr \<lparr>fs_kind = Regular_File, fs_owned = True,
      fs_mode = FILE_MODE, fs_nlink = 2, fs_size = length bs, fs_inode = vl_next v\<rparr>"
    unfolding twice_linked_def using stat_with_new [OF tidy d, of ?es name bs] count by simp
  have rest: "\<exists>st. stat_name (twice_linked d tmp name bs v) d c = Inr st \<and> fs_inode st \<noteq> vl_next v"
    if c: "c \<in> set (filter (\<lambda>n. \<not> is_temporary n) names)" "c \<noteq> name" for c
  proof -
    have ne: "c \<noteq> tmp" and "c \<in> fst ` set (entries_of v d)" using c tmp names(2) es by auto
    then obtain i where i: "map_of (entries_of v d) c = Some i"
      by (metis not_None_eq map_of_eq_None_iff)
    have "map_of ?es c = Some i" using ne c(2) i by simp
    from stat_with_old [OF tidy d this i, of "file_of bs"] show ?thesis unfolding twice_linked_def by auto
  qed
  have "count_peers UNSAFE_TEMPORARY_FILE d (vl_next v) (filter (\<lambda>n. \<not> is_temporary n) names)
      (twice_linked d tmp name bs v) = Inr (if name \<in> set (filter (\<lambda>n. \<not> is_temporary n) names) then 1 else 0)"
    by (rule count_one_peer [OF _ rest name_stat]) (simp_all add: names(1))
  moreover have "name \<in> set names" using names(2) es by simp
  ultimately show ?thesis using name by (simp add: removable_temporary_def tmp_stat)
qed

lemma recover_one_goes:
  assumes d: "has_dir v d" and es: "distinct (map fst es)" "\<And>n i. (n, i) \<in> set es \<Longrightarrow> valid_component n"
    and tmp: "tmp \<in> fst ` set es" "\<And>n i. (n, i) \<in> set es \<Longrightarrow> is_temporary n \<longleftrightarrow> n = tmp"
    and removable: "\<And>names. \<lbrakk>distinct names; set names = fst ` set es\<rbrakk> \<Longrightarrow>
        removable_temporary d names tmp (with_new d es nd v) = Inr ()"
    and u: "with_new d (filter (\<lambda>(m, _). m \<noteq> tmp) es) nd v = u"
  shows "goes (recover_temporary_writes d) (with_new d es nd v) {u} (Inr ()) u"
proof -
  have entries: "entries_of (with_new d es nd v) d = es" using d by (simp add: entries_put)
  have list: "goes (looks (list_entries d)) (with_new d es nd v) {u} (Inr (sort (map fst es))) (with_new d es nd v)"
    by (rule goes_looks, subst list_entries_ok) (auto simp: entries intro: es(2))
  show ?thesis
    unfolding recover_temporary_writes_def
    by (rule goes_next [OF list], rule one_temporary_goes [OF _ _ _ removable])
       (use es(1) tmp u in \<open>auto simp: unlink_with_new [OF d]\<close>)
qed

lemma undisturbed_with_new:
  "\<lbrakk>tidy rs v; has_dir v d; k \<noteq> d\<rbrakk> \<Longrightarrow> undisturbed (with_new d es nd v) k"
  using tidy_undisturbed [of rs v k] by (simp add: undisturbed_def entries_put)

lemma recover_directories_goes:
  assumes "\<And>k. k \<noteq> d \<Longrightarrow> undisturbed w k" and "\<And>k. undisturbed u k"
    and "goes (recover_temporary_writes d) w {u} (Inr ()) u"
  shows "goes (recover_directories ds) w {u} (Inr ()) (if d \<in> set ds then u else w)"
proof -
  have after: "goes (recover_directories es) u {u} (Inr ()) u" for es
    by (induction es) (auto intro: goes_looks goes_next [OF undisturbed_goes [OF assms(2)]])
  show ?thesis
  proof (induction ds)
    case (Cons k ds)
    show ?case
    proof (cases "k = d")
      case True
      then show ?thesis using goes_next [OF assms(3) after [of ds]] by simp
    next
      case False
      then show ?thesis using goes_next [OF undisturbed_goes [OF assms(1)] Cons.IH] by simp
    qed
  qed (simp add: goes_looks)
qed

lemma undisturbed_directories_goes:
  "(\<And>k. undisturbed v k) \<Longrightarrow> goes (recover_directories ds) v M (Inr ()) v"
  by (induction ds) (auto intro: goes_looks goes_next [OF undisturbed_goes])

end
