(* ===== verification/Secure_Fs_Moves.thy ===== *)
theory Secure_Fs_Moves
  imports Secure_Fs_Recovery
begin

text \<open>
  Moves to quarantine on a tidy volume: the link at the destination comes first, then the source is
  removed; a move that was interrupted in between is finished by the recovery.
\<close>

section \<open>Removing a name\<close>

definition removed :: "nat \<Rightarrow> pystr \<Rightarrow> volume \<Rightarrow> volume" where
  "removed d n v = put_dir d (filter (\<lambda>(m, _). m \<noteq> n) (entries_of v d)) v"

definition between :: "nat \<Rightarrow> pystr \<Rightarrow> nat \<Rightarrow> volume \<Rightarrow> volume" where
  "between t target i v = put_dir t ((target, i) # entries_of v t) v"

lemma between_fields [simp]:
  "vl_nodes (between t target i v) = vl_nodes v" "vl_next (between t target i v) = vl_next v"
  "has_dir (between t target i v) k \<longleftrightarrow> has_dir v k"
  by (simp_all add: between_def)

lemma removed_fields [simp]:
  "vl_nodes (removed d n v) = vl_nodes v" "vl_next (removed d n v) = vl_next v"
  "has_dir (removed d n v) k \<longleftrightarrow> has_dir v k"
  by (simp_all add: removed_def)

lemma entries_between:
  "has_dir v t \<Longrightarrow> entries_of (between t target i v) k = (if k = t then (target, i) # entries_of v t else entries_of v k)"
  by (simp add: between_def entries_put)

lemma entries_removed:
  "has_dir v d \<Longrightarrow> entries_of (removed d n v) k
     = (if k = d then filter (\<lambda>(m, _). m \<noteq> n) (entries_of v d) else entries_of v k)"
  by (simp add: removed_def entries_put)

lemma links_between: "has_dir v t \<Longrightarrow> links (between t target i v) j = links v j + (if j = i then 1 else 0)"
  using links_put [of v t "(target, i) # entries_of v t" j] by (simp add: between_def)

lemma link_count_remove:
  "\<lbrakk>distinct (map fst es); map_of es n = Some i\<rbrakk> \<Longrightarrow>
     link_count es j = link_count (filter (\<lambda>(m, _). m \<noteq> n) es) j + (if j = i then 1 else 0)"
proof (induction es)
  case (Cons p es)
  obtain m k where p: "p = (m, k)" by (cases p)
  show ?case
  proof (cases "m = n")
    case True
    with Cons.prems p have "map_of es n = None" by (auto simp: map_of_eq_None_iff)
    with True Cons.prems p show ?thesis by (simp add: filter_fresh)
  next
    case False
    with Cons p show ?thesis by (auto split: if_split_asm)
  qed
qed simp

lemma links_removed:
  assumes "has_dir v d" and "distinct (map fst (entries_of v d))" and "map_of (entries_of v d) n = Some i"
  shows "links (removed d n v) j + (if j = i then 1 else 0) = links v j"
  using links_put [OF assms(1), of "filter (\<lambda>(m, _). m \<noteq> n) (entries_of v d)" j]
    link_count_remove [OF assms(2,3), of j]
  by (simp add: removed_def)

lemma unlink_is_removed: "has_dir v d \<Longrightarrow> sys_unlink d n v = removed d n v"
  by (simp add: sys_unlink_def removed_def update_is_put)

lemma link_is_between: "has_dir v t \<Longrightarrow> sys_link t target i v = between t target i v"
  by (simp add: sys_link_def between_def update_is_put)

lemma view_removed: "has_dir v d \<Longrightarrow> view rs (removed d n v) = (view rs v)(d := dir_remove (view rs v d) n)"
  unfolding removed_def by (rule view_put_filter)

lemma view_between:
  "\<lbrakk>has_dir v t; target \<notin> set rs\<rbrakk> \<Longrightarrow>
     view rs (between t target i v) = (view rs v)(t := (target, bytes_of v i) # view rs v t)"
  using view_put_Cons [of v t target rs i "entries_of v t"] by (simp add: between_def put_same)

lemma bytes_of_between [simp]: "bytes_of (between t target i v) = bytes_of v"
  by (simp add: between_def)

lemma tidy_removed:
  assumes tidy: "tidy rs v" and d: "has_dir v d" and n: "map_of (entries_of v d) n = Some i"
  shows "tidy rs (removed d n v)"
proof (rule tidy_same_nodes [OF tidy])
  show "distinct (map fst (vl_dirs (removed d n v)))"
    using tidy_keys [OF tidy] by (simp add: removed_def put_dir_def update_dir_dirs)
  show "distinct (map fst (entries_of (removed d n v) k))" for k
    using tidy_distinct [OF tidy] by (simp add: entries_removed [OF d] distinct_fst_filter)
  show "links (removed d n v) j \<le> links v j \<and> (\<exists>k' m'. (m', j) \<in> set (entries_of v k')
      \<and> (m = m' \<or> m \<notin> set rs \<and> m' \<notin> set rs \<and> valid_component m \<and> \<not> is_temporary m))"
    if "(m, j) \<in> set (entries_of (removed d n v) k)" for k m j
    using that links_removed [OF d tidy_distinct [OF tidy] n, of j]
    by (auto simp: entries_removed [OF d] split: if_split_asm)
qed simp_all

section \<open>A move\<close>

definition movable :: "pystr list \<Rightarrow> volume \<Rightarrow> nat \<Rightarrow> pystr \<Rightarrow> nat \<Rightarrow> pystr \<Rightarrow> nat \<Rightarrow> bool" where
  "movable rs v d name t target i \<longleftrightarrow>
     tidy rs v \<and> has_dir v d \<and> has_dir v t \<and> d \<noteq> t
     \<and> map_of (entries_of v d) name = Some i \<and> name \<notin> set rs
     \<and> map_of (entries_of v t) target = None \<and> target \<notin> set rs
     \<and> valid_component target \<and> \<not> is_temporary target"

definition moved :: "nat \<Rightarrow> pystr \<Rightarrow> nat \<Rightarrow> pystr \<Rightarrow> nat \<Rightarrow> volume \<Rightarrow> volume" where
  "moved d name t target i v = removed d name (between t target i v)"

lemma movable_file:
  assumes "movable rs v d name t target i"
  shows "\<exists>nd. map_of (vl_nodes v) i = Some nd \<and> private_file nd \<and> links v i = 1"
  using tidy_stat [of rs v d name i] assms by (auto simp: movable_def)

lemma other_inode:
  assumes m: "movable rs v d name t target i" and n: "(n, j) \<in> set (entries_of v k)" "k = d \<Longrightarrow> n \<noteq> name"
  shows "j \<noteq> i"
proof
  assume "j = i"
  have tidy: "tidy rs v" and d: "has_dir v d" and name: "map_of (entries_of v d) name = Some i"
    using m by (simp_all add: movable_def)
  have "links (removed d name v) i = 0"
    using links_removed [OF d tidy_distinct [OF tidy] name, of i] movable_file [OF m] by auto
  moreover have "(n, i) \<in> set (entries_of (removed d name v) k)"
    using n \<open>j = i\<close> by (auto simp: entries_removed [OF d])
  moreover have "distinct (map fst (vl_dirs (removed d name v)))"
    using tidy_keys [OF tidy] by (simp add: removed_def put_dir_def update_dir_dirs)
  ultimately show False using links_ge [of "removed d name v" k i] link_count_pos by fastforce
qed

lemma between_stat:
  assumes m: "movable rs v d name t target i" and n: "(n, j) \<in> set (entries_of v k)" "k = d \<Longrightarrow> n \<noteq> name"
  shows "\<exists>st. stat_name (between t target i v) k n = Inr st \<and> fs_inode st = j \<and> j \<noteq> i
           \<and> (fs_kind st = Regular_File \<longrightarrow> fs_nlink st = 1)"
proof -
  have tidy: "tidy rs v" and t: "has_dir v t" and free: "map_of (entries_of v t) target = None"
    using m by (simp_all add: movable_def)
  have j: "j \<noteq> i" by (rule other_inode [OF m n])
  have at: "map_of (entries_of v k) n = Some j" using n(1) tidy_distinct [OF tidy, of k] by simp
  moreover have "k = t \<Longrightarrow> n \<noteq> target" using at free by auto
  ultimately have "map_of (entries_of (between t target i v) k) n = Some j"
    by (auto simp: entries_between [OF t])
  with tidy_stat [OF tidy at] j show ?thesis
    by (auto simp: stat_name_def links_between [OF t] split: if_split_asm)
qed

lemma between_moving_stat:
  assumes m: "movable rs v d name t target i" and "k = d \<and> n = name \<or> k = t \<and> n = target"
  shows "\<exists>st. stat_name (between t target i v) k n = Inr st \<and> fs_inode st = i \<and> fs_kind st = Regular_File
           \<and> fs_owned st \<and> fs_mode st = FILE_MODE \<and> fs_nlink st = 2"
proof -
  have t: "has_dir v t" using m by (simp add: movable_def)
  have "map_of (entries_of (between t target i v) k) n = Some i"
    using assms by (auto simp: entries_between [OF t] movable_def)
  with movable_file [OF m] show ?thesis
    by (auto simp: stat_name_def links_between [OF t] private_file_def)
qed

lemma tidy_moved:
  assumes m: "movable rs v d name t target i"
  shows "tidy rs (moved d name t target i v)"
proof -
  let ?m = "between t target i v"
  have tidy: "tidy rs v" and d: "has_dir v d" "has_dir ?m d" and t: "has_dir v t" and apart: "d \<noteq> t"
    and name: "map_of (entries_of v d) name = Some i" "name \<notin> set rs"
    and target: "map_of (entries_of v t) target = None" "target \<notin> set rs" "valid_component target"
      "\<not> is_temporary target"
    using m by (simp_all add: movable_def)
  have old: "entries_of ?m d = entries_of v d" using apart by (simp add: entries_between [OF t])
  have links: "links (removed d name ?m) j \<le> links v j" for j
    using links_removed [OF d(2), of name i j] old name tidy_distinct [OF tidy, of d]
    by (simp add: links_between [OF t] split: if_split_asm)
  show ?thesis
    unfolding moved_def
  proof (rule tidy_same_nodes [OF tidy])
    show "distinct (map fst (vl_dirs (removed d name ?m)))"
      using tidy_keys [OF tidy] by (simp add: removed_def between_def put_dir_def update_dir_dirs)
    show "distinct (map fst (entries_of (removed d name ?m) k))" for k
      using tidy_distinct [OF tidy, of k] target(1) apart
      by (auto simp: entries_removed [OF d(2)] entries_between [OF t] distinct_fst_filter map_of_eq_None_iff)
    show "links (removed d name ?m) j \<le> links v j \<and> (\<exists>k' m'. (m', j) \<in> set (entries_of v k')
        \<and> (n = m' \<or> n \<notin> set rs \<and> m' \<notin> set rs \<and> valid_component n \<and> \<not> is_temporary n))"
      if mem: "(n, j) \<in> set (entries_of (removed d name ?m) k)" for k n j
    proof -
      have "(n, j) \<in> set (entries_of v k) \<or> n = target \<and> j = i"
        using mem by (auto simp: entries_removed [OF d(2)] entries_between [OF t] split: if_split_asm)
      moreover have "(name, i) \<in> set (entries_of v d)" using name(1) by (rule map_of_SomeD)
      ultimately show ?thesis using links target name(2) by blast
    qed
  qed simp_all
qed

section \<open>Finishing moves\<close>

lemma skipping_goes:
  "(\<And>n. n \<in> set ns \<Longrightarrow> \<exists>st. stat_name v d n = Inr st \<and> (fs_kind st = Regular_File \<longrightarrow> fs_nlink st = 1)) \<Longrightarrow>
     goes (finish_moves d t targets ns) v M (Inr ()) v"
proof (induction ns)
  case (Cons n ns)
  then obtain st where "stat_name v d n = Inr st" "fs_kind st = Regular_File \<longrightarrow> fs_nlink st = 1" by force
  with Cons show ?case by (auto intro!: goes_next [OF goes_looks])
qed (simp add: goes_looks)

lemma one_move_goes:
  assumes "distinct ns" and "name \<in> set ns"
    and before: "\<And>n. \<lbrakk>n \<in> set ns; n \<noteq> name\<rbrakk> \<Longrightarrow>
      \<exists>st. stat_name v d n = Inr st \<and> (fs_kind st = Regular_File \<longrightarrow> fs_nlink st = 1)"
    and afterwards: "\<And>n. \<lbrakk>n \<in> set ns; n \<noteq> name\<rbrakk> \<Longrightarrow>
      \<exists>st. stat_name w d n = Inr st \<and> (fs_kind st = Regular_File \<longrightarrow> fs_nlink st = 1)"
    and st: "stat_name v d name = Inr st" "fs_kind st = Regular_File" "fs_nlink st \<noteq> 1"
    and peer: "finished_move t targets st v = Inr ()" and w: "sys_unlink d name v = w"
  shows "goes (finish_moves d t targets ns) v {w} (Inr ()) w"
  using assms(1-4)
proof (induction ns)
  case (Cons n ns)
  show ?case
  proof (cases "n = name")
    case True
    with Cons.prems have "goes (finish_moves d t targets ns) w {w} (Inr ()) w"
      by (intro skipping_goes) auto
    with True st peer w show ?thesis
      by (auto intro!: goes_next [OF goes_looks] goes_next [OF goes_call])
  next
    case False
    with Cons.prems(3) [of n] obtain st' where "stat_name v d n = Inr st'"
      "fs_kind st' = Regular_File \<longrightarrow> fs_nlink st' = 1" by auto
    with Cons False show ?thesis by (auto intro!: goes_next [OF goes_looks])
  qed
qed simp

lemma tidy_skips:
  assumes "tidy rs v" and "n \<in> fst ` set (entries_of v d)"
  shows "\<exists>st. stat_name v d n = Inr st \<and> (fs_kind st = Regular_File \<longrightarrow> fs_nlink st = 1)"
proof -
  obtain i where i: "map_of (entries_of v d) n = Some i"
    using assms(2) by (metis map_of_eq_None_iff not_None_eq)
  from tidy_stat [OF assms(1) i] show ?thesis by (auto split: if_split_asm)
qed

lemma undisturbed_list: "undisturbed v d \<Longrightarrow> list_entries d v = Inr (sort (map fst (entries_of v d)))"
  by (rule list_entries_ok) (auto simp: undisturbed_def)

lemma tidy_moves_goes:
  assumes "tidy rs v"
  shows "goes (recover_quarantine_moves d t) v M (Inr ()) v"
  unfolding recover_quarantine_moves_def
  by (rule goes_next [OF goes_looks], rule undisturbed_list [OF tidy_undisturbed [OF assms]],
      rule goes_next [OF goes_looks], rule undisturbed_list [OF tidy_undisturbed [OF assms]],
      rule skipping_goes, rule tidy_skips [OF assms], simp)

lemma tidy_session_goes:
  assumes "tidy rs v"
  shows "goes (recover_session ds d t) v M (Inr ()) v"
  unfolding recover_session_def
  by (rule goes_next [OF undisturbed_directories_goes [OF tidy_undisturbed [OF assms]] tidy_moves_goes [OF assms]])

text \<open>A move that was interrupted after the link is finished.\<close>

lemma between_undisturbed:
  assumes "movable rs v d name t target i"
  shows "undisturbed (between t target i v) k"
  using assms tidy_undisturbed [of rs v k]
  by (auto simp: undisturbed_def movable_def entries_between)

lemma between_peer:
  assumes m: "movable rs v d name t target i" and st: "fs_inode st = i" "fs_owned st" "fs_mode st = FILE_MODE"
      "fs_nlink st = 2"
    and ns: "distinct ns" "set ns = fst ` set (entries_of (between t target i v) t)"
  shows "finished_move t ns st (between t target i v) = Inr ()"
proof -
  have t: "has_dir v t" and apart: "d \<noteq> t" using m by (simp_all add: movable_def)
  obtain st' where st': "stat_name (between t target i v) t target = Inr st'" "fs_inode st' = i"
      "fs_kind st' = Regular_File" "fs_owned st'" "fs_mode st' = FILE_MODE" "fs_nlink st' = 2"
    using between_moving_stat [OF m, of t target] by auto
  have "count_peers UNSAFE_QUARANTINE_MOVE t i ns (between t target i v) = Inr (if target \<in> set ns then 1 else 0)"
  proof (rule count_one_peer [OF ns(1) _ st'])
    fix c assume "c \<in> set ns" and "c \<noteq> target"
    then obtain j where "(c, j) \<in> set (entries_of v t)"
      unfolding ns(2) by (auto simp: entries_between [OF t])
    from between_stat [OF m this] apart
    show "\<exists>st. stat_name (between t target i v) t c = Inr st \<and> fs_inode st \<noteq> i" by auto
  qed
  moreover have "target \<in> set ns" unfolding ns(2) by (simp add: entries_between [OF t])
  ultimately show ?thesis using st by (simp add: finished_move_def)
qed

lemma between_session_goes:
  assumes m: "movable rs v d name t target i"
  shows "goes (recover_session ds d t) (between t target i v) {moved d name t target i v} (Inr ())
           (moved d name t target i v)"
proof -
  let ?m = "between t target i v" and ?w = "moved d name t target i v"
  let ?ns = "sort (map fst (entries_of ?m d))" and ?ts = "sort (map fst (entries_of ?m t))"
  have tidy: "tidy rs v" and d: "has_dir v d" and t: "has_dir v t" and apart: "d \<noteq> t"
    and name: "map_of (entries_of v d) name = Some i" and free: "map_of (entries_of v t) target = None"
    using m by (simp_all add: movable_def)
  have names: "entries_of ?m d = entries_of v d" using apart by (simp add: entries_between [OF t])
  have w: "entries_of ?w d = filter (\<lambda>(n, _). n \<noteq> name) (entries_of v d)"
    using d by (simp add: moved_def entries_removed names)
  obtain st where st: "stat_name ?m d name = Inr st" "fs_inode st = i" "fs_kind st = Regular_File"
      "fs_owned st" "fs_mode st = FILE_MODE" "fs_nlink st = 2"
    using between_moving_stat [OF m, of d name] by auto
  have "distinct (map fst (entries_of ?m t))"
    using tidy_distinct [OF tidy, of t] free by (auto simp: entries_between [OF t] map_of_eq_None_iff)
  then have peer: "finished_move t ?ts st ?m = Inr ()"
    by (intro between_peer [OF m st(2,4,5,6)]) (simp_all only: distinct_sort set_sort set_map)
  have finish: "goes (finish_moves d t ?ts ?ns) ?m {?w} (Inr ()) ?w"
  proof (rule one_move_goes [OF _ _ _ _ st(1,3) _ peer])
    show "distinct ?ns" using tidy_distinct [OF tidy] by (simp add: names)
    show "name \<in> set ?ns" using map_of_SomeD [OF name] by (force simp: names)
    show "\<exists>st. stat_name ?m d n = Inr st \<and> (fs_kind st = Regular_File \<longrightarrow> fs_nlink st = 1)"
      if n: "n \<in> set ?ns" "n \<noteq> name" for n
    proof -
      obtain j where "(n, j) \<in> set (entries_of v d)" using n(1) by (auto simp: names)
      from between_stat [OF m this] n(2) show ?thesis by auto
    qed
    show "\<exists>st. stat_name ?w d n = Inr st \<and> (fs_kind st = Regular_File \<longrightarrow> fs_nlink st = 1)"
      if n: "n \<in> set ?ns" "n \<noteq> name" for n
      by (rule tidy_skips [OF tidy_moved [OF m]]) (use n in \<open>force simp: w names\<close>)
    show "sys_unlink d name ?m = ?w" using d by (simp add: unlink_is_removed moved_def)
  qed (simp add: st(6))
  show ?thesis
    unfolding recover_session_def recover_quarantine_moves_def
    by (rule goes_next [OF undisturbed_directories_goes [OF between_undisturbed [OF m]]],
        rule goes_next [OF goes_looks], rule undisturbed_list [OF between_undisturbed [OF m]],
        rule goes_next [OF goes_looks], rule undisturbed_list [OF between_undisturbed [OF m]], rule finish)
qed

section \<open>The run of a move\<close>

lemma tidy_file_stat:
  assumes "tidy rs v" and "map_of (entries_of v d) n = Some i" and "n \<notin> set rs" and "valid_component n"
  shows "\<exists>st. stat_entry d n v = Inr st \<and> fs_kind st = Regular_File \<and> fs_inode st = i
           \<and> fs_size st = length (bytes_of v i)"
  using tidy_stat [OF assms(1,2)] assms(3,4)
  by (auto simp: stat_entry_def private_file_def regular_is_safe_def bytes_of_def)

lemma same_contents_refines:
  assumes "tidy rs v" and "name \<notin> set rs" "target \<notin> set rs" and "valid_component name" "valid_component target"
    and "map_of (entries_of v d) name = Some i" and "map_of (entries_of v t) target = Some j"
  shows "same_contents d name t target (length (bytes_of v i)) v =
           (let limit = max 1 (length (bytes_of v i)) in
            require FILE_TOO_LARGE (length (bytes_of v j) \<le> limit)
              (require IMMUTABLE_EXISTS (bytes_of v i = bytes_of v j) (Inr ())))"
  using assms by (simp add: same_contents_def read_refines dir_read_def map_of_view Let_def require_def)

text \<open>The volumes a move may leave behind: after the link, and at the end.\<close>

definition quarantining :: "nat \<Rightarrow> pystr \<Rightarrow> nat \<Rightarrow> pystr \<Rightarrow> volume \<Rightarrow> volume set" where
  "quarantining d name t target v =
     (case map_of (entries_of v d) name of
        None \<Rightarrow> {}
      | Some i \<Rightarrow>
          if map_of (entries_of v t) target = None then
            {between t target i v, moved d name t target i v}
          else {removed d name v})"

lemma look_at_file:
  assumes "tidy rs v" and "map_of (entries_of v d) name = Some i" and "name \<notin> set rs"
    and "valid_component name" "valid_component target" and "d \<noteq> t"
  shows "\<exists>st. look_at d name t target v = Inr st \<and> fs_inode st = i \<and> fs_size st = length (bytes_of v i)"
  using tidy_file_stat [OF assms(1-4)] assms(4-6) by (auto simp: look_at_def)

lemma free_move_goes:
  assumes m: "movable rs v d name t target i" and valid: "valid_component name"
  shows "goes (quarantine d name t target) v (quarantining d name t target v) (Inr ()) (moved d name t target i v)"
proof -
  let ?M = "quarantining d name t target v"
  have tidy: "tidy rs v" and d: "has_dir v d" and t: "has_dir v t" and apart: "d \<noteq> t"
    and free: "map_of (entries_of v t) target = None" and name: "map_of (entries_of v d) name = Some i"
    and M: "?M = {between t target i v, moved d name t target i v}"
    using m by (simp_all add: movable_def quarantining_def)
  obtain st where st: "look_at d name t target v = Inr st" "fs_inode st = i"
    using look_at_file [OF tidy name, of target t] m valid by (auto simp: movable_def)
  obtain st' where st': "stat_name (between t target i v) t target = Inr st'" "fs_inode st' = i"
      "fs_kind st' = Regular_File" "fs_owned st'" "fs_mode st' = FILE_MODE" "fs_nlink st' = 2"
    using between_moving_stat [OF m, of t target] by auto
  have link: "goes (call (sys_link t target i)) v ?M (Inr ()) (between t target i v)"
    by (intro goes_call) (simp_all add: M link_is_between [OF t])
  have check: "goes (looks (check_linked t target i)) (between t target i v) ?M (Inr ()) (between t target i v)"
    by (intro goes_looks) (simp add: check_linked_def st')
  have unlink: "goes (call (sys_unlink d name)) (between t target i v) ?M (Inr ()) (moved d name t target i v)"
    using d by (intro goes_call) (simp_all add: M unlink_is_removed moved_def)
  have "goes (move_link d name t target i) v ?M (Inr ()) (moved d name t target i v)"
    unfolding move_link_def
    by (rule goes_next [OF link], rule goes_on_error, rule goes_next [OF check], rule unlink)
  then have step: "goes (\<lambda>v. if map_of (entries_of v t) target = None then move_link d name t target (fs_inode st) v
      else next_call (looks (same_contents d name t target (fs_size st))) (\<lambda>_. call (sys_unlink d name)) v)
      v ?M (Inr ()) (moved d name t target i v)"
    using free st(2) by (simp add: goes_def)
  show ?thesis unfolding quarantine_def by (rule goes_next [OF goes_looks], rule st(1), rule step)
qed

lemma conflict_goes:
  assumes tidy: "tidy rs v" and d: "has_dir v d" and apart: "d \<noteq> t"
    and names: "name \<notin> set rs" "target \<notin> set rs" "valid_component name" "valid_component target"
    and there: "map_of (entries_of v d) name = Some i" "map_of (entries_of v t) target = Some j"
    and r: "same_contents d name t target (length (bytes_of v i)) v = r"
  shows "goes (quarantine d name t target) v (if r = Inr () then {removed d name v} else {}) r
           (if r = Inr () then removed d name v else v)"
proof -
  obtain st where st: "look_at d name t target v = Inr st" "fs_size st = length (bytes_of v i)"
    using look_at_file [OF tidy there(1), of target t] names apart by auto
  let ?k = "next_call (looks (same_contents d name t target (fs_size st))) (\<lambda>_. call (sys_unlink d name))"
  have "goes ?k v (if r = Inr () then {removed d name v} else {}) r (if r = Inr () then removed d name v else v)"
  proof (cases r)
    case (Inl e)
    then have "goes ?k v {} (Inl e) v" using r st(2) by (intro goes_next_error goes_looks) simp
    with Inl show ?thesis by simp
  next
    case (Inr u)
    then have "goes ?k v {removed d name v} (Inr ()) (removed d name v)"
      using r st(2) by (intro goes_next [OF goes_looks] goes_call) (simp_all add: unlink_is_removed [OF d])
    with Inr show ?thesis by simp
  qed
  then have step: "goes (\<lambda>v. if map_of (entries_of v t) target = None then move_link d name t target (fs_inode st) v
      else ?k v) v (if r = Inr () then {removed d name v} else {}) r (if r = Inr () then removed d name v else v)"
    using there(2) by (simp add: goes_def)
  show ?thesis unfolding quarantine_def by (rule goes_next [OF goes_looks], rule st(1), rule step)
qed

lemma quarantine_goes:
  assumes tidy: "tidy rs v" and d: "has_dir v d" and t: "has_dir v t" and apart: "d \<noteq> t"
    and names: "name \<notin> set rs" "target \<notin> set rs" "\<not> is_temporary target"
  shows "case dir_quarantine (view rs v d) name (view rs v t) target of
           Inl e \<Rightarrow> goes (quarantine d name t target) v {} (Inl e) v
         | Inr (s', t') \<Rightarrow>
             (\<exists>w. goes (quarantine d name t target) v (quarantining d name t target v) (Inr ()) w
                \<and> tidy rs w \<and> view rs w = (view rs v)(d := s', t := t'))"
proof (cases "valid_component name \<and> valid_component target")
  case False
  then have "look_at d name t target v = Inl INVALID_COMPONENT"
    by (auto simp: look_at_def require_def)
  then have "goes (quarantine d name t target) v {} (Inl INVALID_COMPONENT) v"
    unfolding quarantine_def by (intro goes_next_error goes_looks)
  with False show ?thesis by (auto simp: dir_quarantine_def require_def)
next
  case valid: True
  show ?thesis
  proof (cases "map_of (entries_of v d) name")
    case None
    then have "look_at d name t target v = Inl FILE_NOT_FOUND"
      using valid apart by (simp add: look_at_def stat_entry_def stat_name_def)
    then have "goes (quarantine d name t target) v {} (Inl FILE_NOT_FOUND) v"
      unfolding quarantine_def by (intro goes_next_error goes_looks)
    with None valid names show ?thesis by (simp add: dir_quarantine_def map_of_view)
  next
    case (Some i)
    show ?thesis
    proof (cases "map_of (entries_of v t) target")
      case None
      then have m: "movable rs v d name t target i"
        using tidy d t apart names valid Some by (simp add: movable_def)
      have "view rs (moved d name t target i v) =
          (view rs v)(d := dir_remove (view rs v d) name, t := (target, bytes_of v i) # view rs v t)"
        using d t apart names by (auto simp: moved_def view_removed view_between fun_upd_twist)
      then show ?thesis
        using free_move_goes [OF m] tidy_moved [OF m] None Some names valid
        by (auto simp: dir_quarantine_def map_of_view)
    next
      case other: (Some j)
      define r where "r = same_contents d name t target (length (bytes_of v i)) v"
      have goes: "goes (quarantine d name t target) v (if r = Inr () then {removed d name v} else {}) r
          (if r = Inr () then removed d name v else v)"
        using names valid Some other by (intro conflict_goes [OF tidy d apart]) (auto simp: r_def)
      have spec: "dir_quarantine (view rs v d) name (view rs v t) target =
          andthen r (\<lambda>_. Inr (dir_remove (view rs v d) name, view rs v t))"
        using names valid Some other
        by (simp add: dir_quarantine_def map_of_view r_def same_contents_refines [OF tidy] Let_def require_def)
      have "view rs (removed d name v) = (view rs v)(d := dir_remove (view rs v d) name, t := view rs v t)"
        using d apart by (auto simp: view_removed)
      then show ?thesis using goes tidy_removed [OF tidy d Some] Some other
        by (cases r) (auto simp: spec quarantining_def)
    qed
  qed
qed

end
