(* ===== verification/Crash_Contract.thy ===== *)
theory Crash_Contract
  imports Prelude
begin

text \<open>
  The contract of durable storage.  An operation passes through a sequence of stored states and
  returns a result; a crash leaves one of these states, and recovery runs before the storage is
  used again and may itself be interrupted.  An implementation is recoverable when a completed
  operation does what the specification says and an interrupted one, once recovered, did it wholly
  or not at all.  Then every history of operations and crashes is one of the specification.
\<close>

type_synonym ('v, 'e) stored_op = "'v \<Rightarrow> 'v list \<times> ('e + unit)"

text \<open>Recovery, with the attempts that were interrupted.\<close>

inductive recovers :: "('v, 'e) stored_op \<Rightarrow> 'v \<Rightarrow> 'v \<Rightarrow> bool" for recover where
  returns: "recover w = (tr, Inr ()) \<Longrightarrow> recovers recover w (last (w # tr))"
| interrupted: "\<lbrakk>x \<in> set (w # fst (recover w)); recovers recover x u\<rbrakk> \<Longrightarrow> recovers recover w u"

text \<open>A history: each command with whether it returned or was cut off by a crash.\<close>

inductive lives :: "('c \<Rightarrow> ('v, 'e) stored_op) \<Rightarrow> ('v, 'e) stored_op \<Rightarrow> 'v \<Rightarrow> ('c \<times> bool) list \<Rightarrow> 'v \<Rightarrow> bool"
  for run recover where
  stays: "lives run recover v [] v"
| completes: "lives run recover (last (v # fst (run c v))) cs w \<Longrightarrow> lives run recover v ((c, True) # cs) w"
| crashes: "\<lbrakk>x \<in> set (v # fst (run c v)); recovers recover x u; lives run recover u cs w\<rbrakk> \<Longrightarrow>
    lives run recover v ((c, False) # cs) w"

definition command_effect :: "('c \<Rightarrow> 'a \<Rightarrow> 'e + 'a) \<Rightarrow> 'c \<Rightarrow> 'a \<Rightarrow> 'a" where
  "command_effect spec c a = (case spec c a of Inl _ \<Rightarrow> a | Inr b \<Rightarrow> b)"

text \<open>A command that returned had its effect; one that was cut off had it or had none.\<close>

fun outcomes :: "('c \<Rightarrow> 'a \<Rightarrow> 'e + 'a) \<Rightarrow> ('c \<times> bool) list \<Rightarrow> 'a \<Rightarrow> 'a set" where
  "outcomes spec [] a = {a}"
| "outcomes spec ((c, returned) # cs) a =
     outcomes spec cs (command_effect spec c a) \<union> (if returned then {} else outcomes spec cs a)"

locale recoverable =
  fixes good :: "'v \<Rightarrow> bool" and allowed :: "'c \<Rightarrow> bool"
    and run :: "'c \<Rightarrow> ('v, 'e) stored_op" and recover :: "('v, 'e) stored_op"
    and view_of :: "'v \<Rightarrow> 'a" and spec :: "'c \<Rightarrow> 'a \<Rightarrow> 'e + 'a"
  assumes run_completes: "\<lbrakk>good v; allowed c; run c v = (tr, r)\<rbrakk> \<Longrightarrow>
      good (last (v # tr)) \<and> view_of (last (v # tr)) = command_effect spec c (view_of v)
      \<and> r = andthen (spec c (view_of v)) (\<lambda>_. Inr ())"
    and run_interrupted: "\<lbrakk>good v; allowed c; x \<in> set (fst (run c v))\<rbrakk> \<Longrightarrow>
      \<exists>u tr. good u \<and> view_of u \<in> {view_of v, command_effect spec c (view_of v)}
        \<and> recover x = (tr, Inr ()) \<and> set tr \<subseteq> {u} \<and> last (x # tr) = u"
    and recover_good: "good v \<Longrightarrow> recover v = ([], Inr ())"
begin

lemma recovers_good:
  assumes "recovers recover v u" and "good v"
  shows "u = v"
  using assms by (induction rule: recovers.induct) (auto simp: recover_good)

lemma recovers_interrupted:
  assumes "recovers recover x w" and "good v" "allowed c" "x \<in> set (fst (run c v))"
  shows "good w \<and> view_of w \<in> {view_of v, command_effect spec c (view_of v)}"
  using assms
proof (induction rule: recovers.induct)
  case (returns x tr)
  with run_interrupted [of v c x] show ?case by fastforce
next
  case (interrupted y x w)
  obtain u tr where u: "good u" "view_of u \<in> {view_of v, command_effect spec c (view_of v)}"
    and r: "recover x = (tr, Inr ())" "set tr \<subseteq> {u}"
    using run_interrupted [OF interrupted.prems(1,2,3)] by blast
  show ?case
  proof (cases "y = x")
    case True
    with interrupted show ?thesis by blast
  next
    case False
    with interrupted.hyps(1) r have "y = u" by auto
    with recovers_good interrupted.hyps(2) u show ?thesis by blast
  qed
qed

lemma recovery_succeeds:
  assumes "good v" and "allowed c" and "x \<in> set (v # fst (run c v))"
  shows "\<exists>tr. recover x = (tr, Inr ())"
  using assms recover_good run_interrupted [of v c x] by auto

theorem history_is_specified:
  assumes "lives run recover v cs w" and "good v" and "list_all (allowed \<circ> fst) cs"
  shows "good w" and "view_of w \<in> outcomes spec cs (view_of v)"
proof -
  have "good w \<and> view_of w \<in> outcomes spec cs (view_of v)"
    using assms
  proof (induction rule: lives.induct)
    case (completes v c cs w)
    from completes.prems run_completes [of v c] completes.IH show ?case
      by (cases "run c v") auto
  next
    case (crashes x v c u cs w)
    have "good u \<and> view_of u \<in> {view_of v, command_effect spec c (view_of v)}"
    proof (cases "x = v")
      case True
      with recovers_good crashes.hyps(2) crashes.prems(1) show ?thesis by blast
    next
      case False
      with crashes.hyps(1) have "x \<in> set (fst (run c v))" by simp
      with recovers_interrupted crashes.hyps(2) crashes.prems show ?thesis by auto
    qed
    with crashes.IH crashes.prems(2) show ?case by auto
  qed simp
  then show "good w" and "view_of w \<in> outcomes spec cs (view_of v)" by simp_all
qed

end

end
