(* ===== verification/Secure_Fs_Session.thy ===== *)
theory Secure_Fs_Session
  imports Secure_Fs_Moves Crash_Contract
begin

text \<open>
  The directories of a session under their operations.  The contract of durable storage is
  interpreted on the volumes: completed operations do what \<open>Directory\<close> says, and the recovery a
  store runs when it opens turns what a crash left into the directories before the operation or
  after it.
\<close>

section \<open>Commands\<close>

text \<open>
  Publication with its guard, replacement of a projection, and a move from the first to the second
  directory of the pair whose moves the recovery finishes.
\<close>

datatype fs_command =
    Publish write_env nat pystr "byte list" "fs_code option"
  | Replace write_env nat pystr "byte list"
  | Quarantine pystr pystr

fun run_command :: "nat \<Rightarrow> nat \<Rightarrow> fs_command \<Rightarrow> unit fs_op" where
  "run_command d t (Publish env k name data guard) = write_immutable_guarded env k name data guard"
| "run_command d t (Replace env k name data) = replace_derived env k name data"
| "run_command d t (Quarantine name target) = quarantine d name t target"

text \<open>The same on the directories as their clients see them.\<close>

fun command_spec :: "nat \<Rightarrow> nat \<Rightarrow> fs_command \<Rightarrow> (nat \<Rightarrow> dir) \<Rightarrow> fs_code + (nat \<Rightarrow> dir)" where
  "command_spec d t (Publish env k name data guard) w =
     require INVALID_COMPONENT (valid_component name)
       (case guard of
          Some e \<Rightarrow> Inl e
        | None \<Rightarrow> andthen (dir_write (w k) name data) (\<lambda>x. Inr (w(k := x))))"
| "command_spec d t (Replace env k name data) w =
     andthen (dir_replace (w k) name data) (\<lambda>x. Inr (w(k := x)))"
| "command_spec d t (Quarantine name target) w =
     andthen (dir_quarantine (w d) name (w t) target) (\<lambda>(s', t'). Inr (w(d := s', t := t')))"

text \<open>
  Files do not take the names of subdirectories or the shape of temporary names, and directories
  are among those the recovery visits.
\<close>

fun allowed :: "pystr list \<Rightarrow> nat list \<Rightarrow> nat \<Rightarrow> nat \<Rightarrow> fs_command \<Rightarrow> bool" where
  "allowed rs ds d t (Publish env k name data guard) \<longleftrightarrow>
     good_env env \<and> k \<in> set ds \<and> \<not> is_temporary name \<and> name \<notin> set rs"
| "allowed rs ds d t (Replace env k name data) \<longleftrightarrow>
     good_env env \<and> k \<in> set ds \<and> \<not> is_temporary name \<and> name \<notin> set rs"
| "allowed rs ds d t (Quarantine name target) \<longleftrightarrow>
     d \<in> set ds \<and> t \<in> set ds \<and> d \<noteq> t \<and> name \<notin> set rs \<and> target \<notin> set rs \<and> \<not> is_temporary target"

definition good_volume :: "pystr list \<Rightarrow> nat list \<Rightarrow> volume \<Rightarrow> bool" where
  "good_volume rs ds v \<longleftrightarrow> tidy rs v \<and> list_all (has_dir v) ds"

lemma good_volume_dir: "good_volume rs ds v \<Longrightarrow> k \<in> set ds \<Longrightarrow> has_dir v k"
  by (simp add: good_volume_def list_all_iff)

section \<open>Recovery of what a write leaves\<close>

text \<open>A volume settles as \<open>u\<close> when the recovery leaves \<open>u\<close> after passing through nothing else.\<close>

definition settles :: "nat list \<Rightarrow> nat \<Rightarrow> nat \<Rightarrow> volume \<Rightarrow> volume \<Rightarrow> bool" where
  "settles ds d t x u \<longleftrightarrow> goes (recover_session ds d t) x {u} (Inr ()) u"

lemma settles_run:
  "settles ds d t x u \<Longrightarrow> \<exists>tr. recover_session ds d t x = (tr, Inr ()) \<and> set tr \<subseteq> {u} \<and> last (x # tr) = u"
  by (cases "recover_session ds d t x") (auto simp: settles_def goes_def reached_def)

lemma tidy_settles: "tidy rs v \<Longrightarrow> settles ds d t v v"
  unfolding settles_def by (rule tidy_session_goes)

lemma one_temporary_settles:
  assumes tidy: "tidy rs v" and k: "has_dir v k" "k \<in> set ds"
    and one: "goes (recover_temporary_writes k) (with_new k es nd v) {u} (Inr ()) u" and u: "tidy rs u"
  shows "settles ds d t (with_new k es nd v) u"
proof -
  have "goes (recover_directories ds) (with_new k es nd v) {u} (Inr ()) u"
    using recover_directories_goes [OF undisturbed_with_new [OF tidy k(1)] tidy_undisturbed [OF u] one, of ds] k(2)
    by simp
  then show ?thesis
    unfolding settles_def recover_session_def by (rule goes_next [OF _ tidy_moves_goes [OF u]])
qed

lemma staged_settles:
  assumes tidy: "tidy rs v" and k: "has_dir v k" "k \<in> set ds" and env: "good_env env"
  shows "settles ds d t (staged k (temporary env) bs v) (aborted k bs v)"
proof -
  let ?tmp = "temporary env"
  note shape = temporary_shape [OF env]
  note fresh = temporary_fresh [OF tidy shape(1), of k]
  show ?thesis
    unfolding staged_def
  proof (rule one_temporary_settles [OF tidy k recover_one_goes [OF k(1), where tmp = ?tmp] tidy_aborted [OF tidy k(1)]])
    show "distinct (map fst ((?tmp, vl_next v) # entries_of v k))"
      using tidy_distinct [OF tidy, of k] fresh by (auto simp: map_of_eq_None_iff)
    show "removable_temporary k names ?tmp (with_new k ((?tmp, vl_next v) # entries_of v k) (file_of bs) v) = Inr ()"
      for names using staged_removable [OF tidy k(1)] by (simp add: staged_def)
    show "with_new k (filter (\<lambda>(m, _). m \<noteq> ?tmp) ((?tmp, vl_next v) # entries_of v k)) (file_of bs) v = aborted k bs v"
      by (simp add: aborted_def filter_fresh [OF fresh])
  qed (use shape tidy_entry [OF tidy, of _ _ k] in \<open>auto simp: tidy_name_def\<close>)
qed

lemma linked_settles:
  assumes tidy: "tidy rs v" and k: "has_dir v k" "k \<in> set ds" and env: "good_env env"
    and name: "valid_component name" "\<not> is_temporary name" "name \<notin> set rs" "map_of (entries_of v k) name = None"
  shows "settles ds d t (twice_linked k (temporary env) name bs v) (newly_published k name bs v)"
proof -
  let ?tmp = "temporary env" and ?es = "(name, vl_next v) # (temporary env, vl_next v) # entries_of v k"
  note shape = temporary_shape [OF env]
  note fresh = temporary_fresh [OF tidy shape(1), of k]
  have other: "name \<noteq> ?tmp" using shape(1) name(2) by auto
  show ?thesis
    unfolding twice_linked_def
  proof (rule one_temporary_settles [OF tidy k recover_one_goes [OF k(1), where tmp = ?tmp]])
    show "tidy rs (newly_published k name bs v)" by (rule tidy_published [OF tidy k(1) name])
    show "distinct (map fst ?es)"
      using tidy_distinct [OF tidy, of k] fresh name(4) other by (auto simp: map_of_eq_None_iff)
    show "removable_temporary k names ?tmp (with_new k ?es (file_of bs) v) = Inr ()"
      if "distinct names" "set names = fst ` set ?es" for names
      using linked_removable [OF tidy k(1) shape(1) name(2,4) that(1)] that(2) k(1)
      by (simp add: twice_linked_def entries_put)
    show "with_new k (filter (\<lambda>(m, _). m \<noteq> ?tmp) ?es) (file_of bs) v = newly_published k name bs v"
      using other by (simp add: newly_published_def filter_fresh [OF fresh])
  qed (use shape name tidy_entry [OF tidy, of _ _ k] in \<open>auto simp: tidy_name_def\<close>)
qed

section \<open>The contract on volumes\<close>

text \<open>A run that does what the specification says, and settles so wherever it is cut off.\<close>

definition performs :: "pystr list \<Rightarrow> nat list \<Rightarrow> nat \<Rightarrow> nat \<Rightarrow> fs_command \<Rightarrow> volume \<Rightarrow> bool" where
  "performs rs ds d t c v \<longleftrightarrow>
     (\<exists>M w. goes (run_command d t c) v M (andthen (command_spec d t c (view rs v)) (\<lambda>_. Inr ())) w
       \<and> good_volume rs ds w \<and> view rs w = command_effect (command_spec d t) c (view rs v)
       \<and> (\<forall>x \<in> M. \<exists>u. settles ds d t x u \<and> good_volume rs ds u
            \<and> view rs u \<in> {view rs v, command_effect (command_spec d t) c (view rs v)}))"

lemma performsI:
  assumes "goes (run_command d t c) v M (andthen (command_spec d t c (view rs v)) (\<lambda>_. Inr ())) w"
    and "good_volume rs ds w" and "view rs w = command_effect (command_spec d t) c (view rs v)"
    and "\<And>x. x \<in> M \<Longrightarrow> \<exists>u. settles ds d t x u \<and> good_volume rs ds u
            \<and> view rs u \<in> {view rs v, command_effect (command_spec d t) c (view rs v)}"
  shows "performs rs ds d t c v"
  using assms unfolding performs_def by blast

lemma performs_error:
  assumes "goes (run_command d t c) v {} (Inl e) v" and "command_spec d t c (view rs v) = Inl e"
    and "good_volume rs ds v"
  shows "performs rs ds d t c v"
  using assms by (intro performsI [where M = "{}" and w = v]) (simp_all add: command_effect_def)

lemma good_aborted: "good_volume rs ds v \<Longrightarrow> k \<in> set ds \<Longrightarrow> good_volume rs ds (aborted k bs v)"
  using tidy_aborted by (auto simp: good_volume_def list_all_iff aborted_def)

lemma good_published:
  "\<lbrakk>good_volume rs ds v; k \<in> set ds; valid_component name; \<not> is_temporary name; name \<notin> set rs;
    map_of (entries_of v k) name = None\<rbrakk> \<Longrightarrow> good_volume rs ds (newly_published k name bs v)"
  using tidy_published by (auto simp: good_volume_def list_all_iff newly_published_def)

lemma good_replaced:
  "\<lbrakk>good_volume rs ds v; k \<in> set ds; valid_component name; \<not> is_temporary name; name \<notin> set rs\<rbrakk> \<Longrightarrow>
     good_volume rs ds (replaced k name bs v)"
  using tidy_replaced by (auto simp: good_volume_def list_all_iff replaced_def)

lemma publish_spec:
  assumes "valid_component name" and "name \<notin> set rs"
  shows "command_spec d t (Publish env k name data guard) (view rs v) =
           andthen (publish_result (entries_of v k) name guard)
             (\<lambda>_. Inr ((view rs v)(k := (name, data) # view rs v k)))"
  using assms by (auto simp: publish_result_def dir_write_def map_of_view require_def split: option.splits)

lemma publish_free: "publish_result es name guard = Inr () \<Longrightarrow> map_of es name = None"
  by (auto simp: publish_result_def require_def split: option.splits if_splits)

lemma publish_performs:
  assumes good: "good_volume rs ds v" and ok: "allowed rs ds d t (Publish env k name data guard)"
  shows "performs rs ds d t (Publish env k name data guard) v"
proof (cases "valid_component name")
  case False
  then show ?thesis using good
    by (intro performs_error [where e = INVALID_COMPONENT]) (simp_all add: invalid_name_goes)
next
  case valid: True
  let ?c = "Publish env k name data guard" and ?tmp = "temporary env"
  have tidy: "tidy rs v" and k: "has_dir v k" "k \<in> set ds" and env: "good_env env"
    and name: "\<not> is_temporary name" "name \<notin> set rs"
    using good ok by (simp_all add: good_volume_def list_all_iff)
  define r where "r = publish_result (entries_of v k) name guard"
  have spec: "command_spec d t ?c (view rs v) = andthen r (\<lambda>_. Inr ((view rs v)(k := (name, data) # view rs v k)))"
    unfolding r_def by (rule publish_spec [OF valid name(2)])
  have run: "goes (run_command d t ?c) v (publishing k ?tmp name data r v) r
      (if r = Inr () then newly_published k name data v else aborted k data v)"
    using write_immutable_guarded_goes [OF tidy k(1) env valid name(1) r_def [symmetric]] by simp
  have before: "view rs (aborted k bs v) = view rs v" and good': "good_volume rs ds (aborted k bs v)" for bs
    by (rule view_aborted [OF tidy k(1)], rule good_aborted [OF good k(2)])
  have staged: "\<exists>u. settles ds d t (staged k ?tmp bs v) u \<and> good_volume rs ds u \<and> view rs u = view rs v" for bs
    using staged_settles [OF tidy k env] before good' by blast
  show ?thesis
  proof (cases r)
    case (Inl e)
    have "settles ds d t (aborted k data v) (aborted k data v)"
      by (rule tidy_settles [OF tidy_aborted [OF tidy k(1)]])
    with Inl run spec staged before good' show ?thesis
      by (intro performsI [where w = "aborted k data v"]) (auto simp: publishing_def command_effect_def)
  next
    case (Inr u)
    then have r: "r = Inr ()" by simp
    then have free: "map_of (entries_of v k) name = None" unfolding r_def by (rule publish_free)
    note full = valid name free
    have view: "view rs (newly_published k name data v) = command_effect (command_spec d t) ?c (view rs v)"
      by (simp only: command_effect_def spec r view_published [OF tidy k(1) name(2)] andthen_simps sum.case)
    have pub: "good_volume rs ds (newly_published k name data v)" by (rule good_published [OF good k(2) full])
    have "settles ds d t (twice_linked k ?tmp name data v) (newly_published k name data v)"
      by (rule linked_settles [OF tidy k env full])
    moreover have "settles ds d t (newly_published k name data v) (newly_published k name data v)"
      by (rule tidy_settles [OF tidy_published [OF tidy k(1) full]])
    ultimately show ?thesis
      using run view pub staged r spec
      by (intro performsI [where w = "newly_published k name data v"]) (auto simp: publishing_def)
  qed
qed

lemma replace_performs:
  assumes good: "good_volume rs ds v" and ok: "allowed rs ds d t (Replace env k name data)"
  shows "performs rs ds d t (Replace env k name data) v"
proof (cases "valid_component name")
  case False
  then show ?thesis using good
    by (intro performs_error [where e = INVALID_COMPONENT]) (simp_all add: invalid_name_goes dir_replace_def)
next
  case valid: True
  let ?c = "Replace env k name data" and ?tmp = "temporary env"
  have tidy: "tidy rs v" and k: "has_dir v k" "k \<in> set ds" and env: "good_env env"
    and name: "\<not> is_temporary name" "name \<notin> set rs"
    using good ok by (simp_all add: good_volume_def list_all_iff)
  have spec: "command_spec d t ?c (view rs v) = Inr ((view rs v)(k := (name, data) # dir_remove (view rs v k) name))"
    using valid by (simp add: dir_replace_def)
  have view: "view rs (replaced k name data v) = command_effect (command_spec d t) ?c (view rs v)"
    by (simp only: command_effect_def spec view_replaced [OF tidy k(1) name(2)] sum.case)
  have "\<exists>u. settles ds d t (staged k ?tmp bs v) u \<and> good_volume rs ds u \<and> view rs u = view rs v" for bs
    using staged_settles [OF tidy k env] view_aborted [OF tidy k(1)] good_aborted [OF good k(2)] by blast
  moreover have "settles ds d t (replaced k name data v) (replaced k name data v)"
    by (rule tidy_settles [OF tidy_replaced [OF tidy k(1) valid name]])
  ultimately show ?thesis
    using replace_derived_goes [OF tidy k(1) env valid name, of data] view spec
      good_replaced [OF good k(2) valid name]
    by (intro performsI [where w = "replaced k name data v"
          and M = "range (\<lambda>bs. staged k ?tmp bs v) \<union> {replaced k name data v}"]) auto
qed

lemma goes_unique: "goes f v M r w \<Longrightarrow> goes f v N q u \<Longrightarrow> w = u"
  by (simp add: goes_def)

lemma goes_result: "goes f v M r w \<Longrightarrow> goes f v N q u \<Longrightarrow> r = q"
  by (simp add: goes_def)

lemma good_moves:
  assumes "good_volume rs ds v"
  shows "movable rs v d name t target i \<Longrightarrow> good_volume rs ds (moved d name t target i v)"
    and "\<lbrakk>d \<in> set ds; map_of (entries_of v d) name = Some i\<rbrakk> \<Longrightarrow> good_volume rs ds (removed d name v)"
  using assms tidy_moved tidy_removed [of rs v d name i]
  by (auto simp: good_volume_def list_all_iff moved_def)

lemma quarantine_performs:
  assumes good: "good_volume rs ds v" and ok: "allowed rs ds d t (Quarantine name target)"
  shows "performs rs ds d t (Quarantine name target) v"
proof -
  let ?c = "Quarantine name target" and ?q = "dir_quarantine (view rs v d) name (view rs v t) target"
  have tidy: "tidy rs v" and dirs: "has_dir v d" "has_dir v t" "d \<in> set ds" and apart: "d \<noteq> t"
    and names: "name \<notin> set rs" "target \<notin> set rs" "\<not> is_temporary target"
    using good ok by (simp_all add: good_volume_def list_all_iff)
  note run = quarantine_goes [OF tidy dirs(1,2) apart names]
  show ?thesis
  proof (cases ?q)
    case (Inl e)
    with run good show ?thesis by (intro performs_error) simp_all
  next
    case (Inr p)
    obtain s' t' where q: "?q = Inr (s', t')" using Inr by (cases p) simp
    then obtain w where w: "goes (quarantine d name t target) v (quarantining d name t target v) (Inr ()) w"
        "tidy rs w" "view rs w = (view rs v)(d := s', t := t')"
      using run by auto
    have effect: "command_effect (command_spec d t) ?c (view rs v) = (view rs v)(d := s', t := t')"
      by (simp add: command_effect_def q)
    have valid: "valid_component name" "valid_component target" using q by (auto simp: dir_quarantine_def)
    obtain i where i: "map_of (entries_of v d) name = Some i"
      using q names(1) by (cases "map_of (entries_of v d) name") (auto simp: dir_quarantine_def map_of_view)
    have "settles ds d t w w" by (rule tidy_settles [OF w(2)])
    moreover have "good_volume rs ds w \<and> (\<forall>x \<in> quarantining d name t target v. settles ds d t x w)"
    proof (cases "map_of (entries_of v t) target")
      case None
      then have m: "movable rs v d name t target i"
        using tidy dirs apart names valid i by (simp add: movable_def)
      have "w = moved d name t target i v" by (rule goes_unique [OF w(1) free_move_goes [OF m valid(1)]])
      with between_session_goes [OF m] \<open>settles ds d t w w\<close> good_moves(1) [OF good m] None i show ?thesis
        by (auto simp: quarantining_def settles_def)
    next
      case (Some j)
      then have "w = removed d name v"
        using conflict_goes [OF tidy dirs(1) apart names(1,2) valid i Some refl] w(1)
        by (auto dest: goes_unique goes_result split: if_split_asm)
      with \<open>settles ds d t w w\<close> good_moves(2) [OF good dirs(3) i] i Some show ?thesis
        by (auto simp: quarantining_def)
    qed
    ultimately show ?thesis using w effect q
      by (intro performsI [where w = w]) auto
  qed
qed

lemma command_performs: "good_volume rs ds v \<Longrightarrow> allowed rs ds d t c \<Longrightarrow> performs rs ds d t c v"
  by (cases c) (simp_all only: publish_performs replace_performs quarantine_performs)

end
