(* ===== verification/Secure_Fs_Properties.thy ===== *)
theory Secure_Fs_Properties
  imports Secure_Fs_Session
begin

text \<open>
  The properties of the file system: operations refine the directories their clients see, whatever
  the crashes; the recovery cannot fail on what they leave; and the effect of the umask on it.
\<close>

interpretation session_fs: recoverable "good_volume rs ds" "allowed rs ds d t" "run_command d t"
    "recover_session ds d t" "view rs" "command_spec d t" for rs ds d t
proof
  fix v c and tr :: "volume list" and r
  assume good: "good_volume rs ds v" and ok: "allowed rs ds d t c" and run: "run_command d t c v = (tr, r)"
  have "performs rs ds d t c v" by (rule command_performs [OF good ok])
  then show "good_volume rs ds (last (v # tr))
      \<and> view rs (last (v # tr)) = command_effect (command_spec d t) c (view rs v)
      \<and> r = andthen (command_spec d t c (view rs v)) (\<lambda>_. Inr ())"
    using run by (auto simp: performs_def goes_def reached_def)
next
  fix v c x
  assume good: "good_volume rs ds v" and ok: "allowed rs ds d t c" and x: "x \<in> set (fst (run_command d t c v))"
  have "performs rs ds d t c v" by (rule command_performs [OF good ok])
  then obtain u where "settles ds d t x u" "good_volume rs ds u"
      "view rs u \<in> {view rs v, command_effect (command_spec d t) c (view rs v)}"
    using x by (auto simp: performs_def goes_def)
  with settles_run show "\<exists>u tr. good_volume rs ds u
      \<and> view rs u \<in> {view rs v, command_effect (command_spec d t) c (view rs v)}
      \<and> recover_session ds d t x = (tr, Inr ()) \<and> set tr \<subseteq> {u} \<and> last (x # tr) = u"
    by blast
next
  fix v assume "good_volume rs ds v"
  then have "goes (recover_session ds d t) v {} (Inr ()) v"
    by (intro tidy_session_goes [of rs]) (simp add: good_volume_def)
  then show "recover_session ds d t v = ([], Inr ())"
    by (cases "recover_session ds d t v") (simp add: goes_def)
qed

section \<open>Directories\<close>


section \<open>The umask\<close>

text \<open>
  A temporary file is created with the mode the umask leaves of 0600 and set to 0600 by a second
  call.  Under a umask that takes owner bits, a crash between the two leaves a file that the
  recovery refuses, and with it every later opening of the directory.
\<close>

lemma first_temporary_fails:
  assumes "tmp \<in> set ns" and "\<And>n. n \<in> set ns \<Longrightarrow> is_temporary n \<longleftrightarrow> n = tmp"
    and "removable_temporary d names tmp v = Inl e"
  shows "remove_temporaries d names ns v = ([], Inl e)"
  using assms(1,2)
proof (induction ns)
  case (Cons n ns)
  then show ?case using assms(3) by (cases "n = tmp") (simp_all add: next_call_def looks_def)
qed simp

lemma masked_temporary_blocks_recovery:
  assumes tidy: "tidy rs v" and d: "has_dir v d" and tmp: "is_temporary tmp" "valid_component tmp"
    and mode: "mode \<noteq> FILE_MODE"
  shows "recover_temporary_writes d (sys_create d tmp mode v) = ([], Inl UNSAFE_TEMPORARY_FILE)"
proof -
  let ?w = "sys_create d tmp mode v" and ?es = "(tmp, vl_next v) # entries_of v d"
  let ?nd = "\<lparr>nd_kind = Regular_File, nd_owned = True, nd_mode = mode, nd_bytes = []\<rparr>"
  have "?w = sys_link d tmp (vl_next v) (add_node ?nd v)" by (simp add: sys_create_def add_node_def)
  then have w: "?w = with_new d ?es ?nd v" using d by (simp add: sys_link_def update_is_put)
  then have es: "entries_of ?w d = ?es" using d by (simp add: entries_put)
  have list: "list_entries d ?w = Inr (sort (map fst ?es))"
    using tmp(2) tidy_entry [OF tidy, of _ _ d]
    by (subst list_entries_ok) (auto simp: es tidy_name_def)
  have "removable_temporary d names tmp ?w = Inl UNSAFE_TEMPORARY_FILE" for names
    using mode by (simp add: removable_temporary_def stat_name_def es) (simp add: w)
  then have "remove_temporaries d (sort (map fst ?es)) (sort (map fst ?es)) ?w = ([], Inl UNSAFE_TEMPORARY_FILE)"
    using tmp tidy_not_temporary [OF tidy, of _ _ d]
    by (intro first_temporary_fails [of tmp]) (auto simp only: set_sort set_map list.set image_iff, auto)
  then show ?thesis
    by (simp add: recover_temporary_writes_def next_call_def looks_def reached_def list del: list.map)
qed

section \<open>Subdirectories\<close>

text \<open>A subdirectory that is created is found again, empty and private, under every umask.\<close>

lemma mkdir_run:
  assumes d: "has_dir v d" and fresh: "vl_next v \<notin> set (map fst (vl_dirs v))"
  shows "entries_of (sys_mkdir d name mode v) k =
           (if k = d then (name, vl_next v) # entries_of v d else if k = vl_next v then [] else entries_of v k)"
    and "vl_nodes (sys_mkdir d name mode v) = (vl_next v, \<lparr>nd_kind = Directory_File, nd_owned = True,
           nd_mode = mode, nd_bytes = []\<rparr>) # vl_nodes v"
proof -
  let ?v = "v\<lparr>vl_nodes := (vl_next v, \<lparr>nd_kind = Directory_File, nd_owned = True, nd_mode = mode,
            nd_bytes = []\<rparr>) # vl_nodes v, vl_dirs := (vl_next v, []) # vl_dirs v, vl_next := vl_next v + 1\<rparr>"
  have ne: "d \<noteq> vl_next v" using d fresh unfolding has_dir_def by metis
  have v: "has_dir ?v d" using d fresh by (auto simp: has_dir_def)
  have mk: "sys_mkdir d name mode v = put_dir d ((name, vl_next v) # entries_of ?v d) ?v"
    using v by (simp add: sys_mkdir_def sys_link_def update_is_put)
  have "entries_of ?v j = (if j = vl_next v then [] else entries_of v j)" for j
    by (simp add: entries_of_def)
  then show "entries_of (sys_mkdir d name mode v) k =
      (if k = d then (name, vl_next v) # entries_of v d else if k = vl_next v then [] else entries_of v k)"
    using v ne by (simp add: mk entries_put)
  show "vl_nodes (sys_mkdir d name mode v) = (vl_next v, \<lparr>nd_kind = Directory_File, nd_owned = True,
      nd_mode = mode, nd_bytes = []\<rparr>) # vl_nodes v"
    by (simp add: mk)
qed

lemma ensured_directory_opens:
  assumes d: "has_dir v d" and fresh: "vl_next v \<notin> set (map fst (vl_dirs v))"
    and name: "valid_component name" "map_of (entries_of v d) name = None"
  shows "snd (ensure_directory mode d name v) = Inr (vl_next v)"
    and "open_directory d name (reached v (fst (ensure_directory mode d name v))) = Inr (vl_next v)"
    and "list_entries (vl_next v) (reached v (fst (ensure_directory mode d name v))) = Inr []"
proof -
  let ?u = "sys_mkdir d name mode v" and ?i = "vl_next v"
  let ?w = "sys_fill ?i (\<lambda>n. n\<lparr>nd_mode := DIRECTORY_MODE\<rparr>) ?u"
  note mk = mkdir_run [OF d fresh, of name mode]
  have ne: "d \<noteq> ?i" using d fresh unfolding has_dir_def by metis
  have w: "entries_of ?w k = entries_of ?u k" for k by (simp add: sys_fill_def entries_of_def)
  have made: "\<exists>st. stat_name ?u d name = Inr st \<and> fs_kind st = Directory_File \<and> fs_inode st = ?i"
    by (simp add: stat_name_def mk)
  have ready: "\<exists>st. stat_name ?w d name = Inr st \<and> directory_is_safe st \<and> fs_kind st = Directory_File
      \<and> fs_inode st = ?i"
    by (simp add: stat_name_def w mk) (simp add: sys_fill_def mk directory_is_safe_def)
  obtain st where st: "open_entry UNSAFE_PATH d name ?u = Inr st" "fs_inode st = ?i"
    using made by (auto simp: open_entry_def)
  have "goes (if True then call (sys_mkdir d name mode) else looks (\<lambda>_. Inr ())) v UNIV (Inr ()) ?u"
    by (simp add: goes_call)
  moreover have "goes (looks (open_entry UNSAFE_PATH d name)) ?u UNIV (Inr st) ?u"
    by (rule goes_looks) (rule st(1))
  moreover have "goes (if True then call (sys_fill (fs_inode st) (\<lambda>n. n\<lparr>nd_mode := DIRECTORY_MODE\<rparr>))
      else looks (\<lambda>_. Inr ())) ?u UNIV (Inr ()) ?w"
    by (simp add: goes_call st(2))
  moreover have "goes (looks (\<lambda>v. andthen (stat_name v d name) (\<lambda>st.
      require INSECURE_PERMISSIONS (directory_is_safe st) (Inr (fs_inode st))))) ?w UNIV (Inr ?i) ?w"
    by (rule goes_looks) (use ready in auto)
  ultimately have goes: "goes (ensure_directory mode d name) v UNIV (Inr ?i) ?w"
    unfolding ensure_directory_def
    by (intro goes_next [OF goes_looks [of _ _ "Inr True"]] goes_next) (simp_all add: name)
  show "snd (ensure_directory mode d name v) = Inr ?i"
    and "open_directory d name (reached v (fst (ensure_directory mode d name v))) = Inr ?i"
    and "list_entries ?i (reached v (fst (ensure_directory mode d name v))) = Inr []"
    using goes ready name(1) ne
    by (auto simp: goes_def open_directory_def open_entry_def list_entries_def w mk)
qed

section \<open>Properties\<close>

text \<open>
  Two directories, 4 and 5; the tokens are those of \<open>secrets.token_hex\<close>, the mode that of a umask
  without owner bits; the first write of three bytes takes two of them.
\<close>

definition two_directories :: volume where
  "two_directories = \<lparr>vl_nodes = [], vl_dirs = [(4, []), (5, [])], vl_next = 6\<rparr>"

definition example_env :: write_env where
  "example_env = \<lparr>we_tokens = [replicate 32 97], we_mode = FILE_MODE, we_counts = [2]\<rparr>"

definition example_write :: fs_command where
  "example_write = Publish example_env 4 (py ''record.json'') [7, 8, 9] None"

definition example_move :: fs_command where
  "example_move = Quarantine (py ''record.json'') (py ''orphan.json'')"

text \<open>
  C11.  The file system refines the directories of its clients.  On a volume without remnants, a
  publication with its guard, a replacement or a move returns what the directories say, errors
  included; afterwards the volume has no remnants, its directories are those the specification
  gives, and reads of it are reads of them.
\<close>

theorem filesystem_refines_directories:
  assumes "good_volume rs ds v" and "allowed rs ds d t c" and "run_command d t c v = (tr, r)"
    and "n \<notin> set rs"
  shows "r = andthen (command_spec d t c (view rs v)) (\<lambda>_. Inr ())
    \<and> view rs (reached v tr) = command_effect (command_spec d t) c (view rs v)
    \<and> good_volume rs ds (reached v tr)
    \<and> read_bytes k n limit (reached v tr) = dir_read (view rs (reached v tr) k) n limit"
  using session_fs.run_completes [OF assms(1-3)] assms(4)
  by (simp add: reached_def good_volume_def read_refines [of rs])

lemma example_is_good: "good_volume [py ''events''] [4, 5] two_directories"
  by code_simp

lemma example_is_allowed:
  "allowed [py ''events''] [4, 5] 4 5 example_write" "allowed [py ''events''] [4, 5] 4 5 example_move"
  by code_simp+

lemma filesystem_refines_directories_witness:
  "snd (run_command 4 5 example_write two_directories) = Inr ()
   \<and> read_bytes 4 (py ''record.json'') 3
       (reached two_directories (fst (run_command 4 5 example_write two_directories))) = Inr [7, 8, 9]"
proof -
  let ?v = two_directories and ?rs = "[py ''events'']"
  have spec: "command_spec 4 5 example_write (view ?rs ?v) = Inr ((view ?rs ?v)(4 := [(py ''record.json'', [7, 8, 9])]))"
  proof -
    have "valid_component (py ''record.json'')" "view ?rs ?v 4 = []" by code_simp+
    then show ?thesis by (simp add: example_write_def dir_write_def)
  qed
  have read: "dir_read [(py ''record.json'', [7, 8, 9])] (py ''record.json'') 3 = Inr [7, 8, 9]" by code_simp
  show ?thesis
    using filesystem_refines_directories [OF example_is_good example_is_allowed(1) prod.collapse [symmetric],
      of "py ''record.json''" 4 3]
    by (simp add: spec command_effect_def read)
qed

text \<open>
  C10.  Whatever sequence of publications, replacements and moves is run, cut off by crashes after
  any system call, with recoveries that are cut off themselves, the directories at the end are
  those of a run in which every command that returned took effect and every command that was cut
  off took effect wholly or not at all, in order; and the recovery succeeds after a crash at any
  call of any further command.
\<close>

theorem crashes_leave_whole_operations:
  assumes "lives (run_command d t) (recover_session ds d t) v cs w" and "good_volume rs ds v"
    and "list_all (allowed rs ds d t \<circ> fst) cs" and "allowed rs ds d t c"
    and "x \<in> set (w # fst (run_command d t c w))"
  shows "view rs w \<in> outcomes (command_spec d t) cs (view rs v)
    \<and> (\<exists>tr. recover_session ds d t x = (tr, Inr ()))"
  using session_fs.history_is_specified [OF assms(1-3)]
    session_fs.recovery_succeeds [OF _ assms(4,5)] by blast

text \<open>The write is cut off between the link and the removal of the temporary name.\<close>

definition example_crash :: volume where
  "example_crash = fst (run_command 4 5 example_write two_directories) ! 4"

definition example_recovered :: volume where
  "example_recovered = last (example_crash # fst (recover_session [4, 5] 4 5 example_crash))"

definition example_end :: volume where
  "example_end = last (example_recovered # fst (run_command 4 5 example_move example_recovered))"

definition example_volume :: "entries \<Rightarrow> entries \<Rightarrow> volume" where
  "example_volume es es' = \<lparr>vl_nodes = [(6, \<lparr>nd_kind = Regular_File, nd_owned = True, nd_mode = FILE_MODE,
     nd_bytes = [7, 8, 9]\<rparr>)], vl_dirs = [(4, es), (5, es')], vl_next = 7\<rparr>"

lemma example_crash_value:
  "example_crash = example_volume [(py ''record.json'', 6), (temporary example_env, 6)] []"
  by code_simp

lemma example_recovery:
  "recover_session [4, 5] 4 5 (example_volume [(py ''record.json'', 6), (temporary example_env, 6)] [])
     = ([example_volume [(py ''record.json'', 6)] []], Inr ())"
  by code_simp

lemma example_recovered_value: "example_recovered = example_volume [(py ''record.json'', 6)] []"
  by (simp add: example_recovered_def example_crash_value example_recovery)

lemma example_end_value: "example_end = example_volume [] [(py ''orphan.json'', 6)]"
  unfolding example_end_def example_recovered_value by code_simp

lemma example_lives:
  "lives (run_command 4 5) (recover_session [4, 5] 4 5) two_directories
     [(example_write, False), (example_move, True)] example_end"
proof (rule lives.crashes)
  show "example_crash \<in> set (two_directories # fst (run_command 4 5 example_write two_directories))"
    unfolding example_crash_value by code_simp
  have "recover_session [4, 5] 4 5 example_crash = ([example_recovered], Inr ())"
    by (simp add: example_crash_value example_recovered_value example_recovery)
  then show "recovers (recover_session [4, 5] 4 5) example_crash example_recovered"
    using recovers.returns [of "recover_session [4, 5] 4 5" example_crash "[example_recovered]"] by simp
  show "lives (run_command 4 5) (recover_session [4, 5] 4 5) example_recovered [(example_move, True)] example_end"
    unfolding example_end_def by (intro lives.completes lives.stays)
qed

lemma crashes_leave_whole_operations_witness:
  "view [py ''events''] example_end
     \<in> outcomes (command_spec 4 5) [(example_write, False), (example_move, True)] (view [py ''events''] two_directories)
   \<and> view [py ''events''] example_end 4 = [] \<and> view [py ''events''] example_end 5 = [(py ''orphan.json'', [7, 8, 9])]
   \<and> (\<exists>tr. recover_session [4, 5] 4 5 example_end = (tr, Inr ()))"
proof -
  have "list_all (allowed [py ''events''] [4, 5] 4 5 \<circ> fst) [(example_write, False), (example_move, True)]"
    using example_is_allowed by simp
  moreover have "view [py ''events''] example_end 4 = []"
      "view [py ''events''] example_end 5 = [(py ''orphan.json'', [7, 8, 9])]"
    unfolding example_end_value by code_simp+
  ultimately show ?thesis
    using crashes_leave_whole_operations [OF example_lives example_is_good _ example_is_allowed(1), of example_end]
    by simp
qed

end
