(* ===== verification/Spec2Isabelle.thy ===== *)
theory Spec2Isabelle
  imports Log_Properties Decision_Properties Session_Properties Topic_Properties Work_Properties
    Registry_Properties Lease_Properties Secure_Fs_Properties
begin

text \<open>
  The dialogue kernel of x-sync: the package \<open>src/skills/x-sync/scripts/xsync_v2\<close>.

  The program.  x-sync conducts a learning dialogue about a repository.  One \<^emph>\<open>session\<close> is an
  event-sourced aggregate: the learner, the host (the program that runs the language model) and
  the runtime send commands, \<open>state_machine.decide\<close> accepts or rejects them, the coordinator
  numbers the accepted events, and \<open>state_machine.reduce\<close> applies them to the state.  The
  \<^emph>\<open>registry\<close> says which session may write and under which generation; a hand-off moves the
  right to write from one session to the next.  A session that waits for the host owes exactly
  one work item, which \<open>work.derive_runnable_work\<close> projects; a host process holds a \<^emph>\<open>lease\<close> of it
  while it runs, and publishes its result behind the fence of that lease.

  The theories, in the order of their imports.

  \<^item> \<open>Prelude\<close>: Python strings, the result type of code that raises, sequencing, and the named
    collections the proofs use.  \<open>Event_Sourcing\<close>: the contracts of reducers as locales
    (\<open>guarded\<close>, \<open>aggregate\<close>, \<open>numbered\<close>, \<open>sequenced\<close>) with the lemmas on logs; they are interpreted
    on the dialogue, the registry and the lease histories.
  \<^item> \<open>Sha256\<close>, \<open>Canonical_Json\<close>: \<open>hashlib.sha256\<close> and \<open>json.dumps(...).encode()\<close>, executable.
  \<^item> \<open>Domain\<close> (\<open>domain.py\<close>), \<open>Work_Identity\<close> (\<open>work_identity.py\<close>): the records and
    enumerations, identifiers, and the derivation of work ids.
  \<^item> \<open>Validation\<close>, \<open>Decide\<close>, \<open>Reduce\<close> (\<open>state_machine.py\<close>): the predicates on values and on the
    state, the twenty command handlers with \<open>decide\<close> and \<open>decide_fenced_quiesce\<close>, and the
    twenty-two branches of \<open>reduce\<close> with the envelope and shape checks; also \<open>_stable_id\<close> and the
    numbering of \<open>coordinator.py\<close>, and the replay of a log.
  \<^item> \<open>Topic_Runs\<close>, \<open>Preservation\<close>, \<open>Guards\<close>: every guarded branch keeps the state valid.
    \<open>Progress\<close>, \<open>Commit\<close>: what a handler accepts the reducer applies.  \<open>Effects\<close>, \<open>Sessions\<close>,
    \<open>Phases\<close>: the moves of topics, the reachable states, and the transition systems of topic
    statuses and phases that the reducer refines.  \<open>Scenario\<close>: concrete states.
  \<^item> \<open>Registry\<close>, \<open>Registry_Reduce\<close> (\<open>registry.py\<close>), \<open>Registry_Codec\<close> (\<open>registry_codec.py\<close>): the
    state, \<open>decide\<close>, the validation and application of transactions, their trees and digests.
    \<open>Registry_Facts\<close>, \<open>Registry_Moves\<close>, \<open>Registry_History\<close>, \<open>Registry_Commit\<close>,
    \<open>Registry_Decide\<close>: the abstract hand-off protocol it refines, what a log keeps, and that
    accepted decisions commit.
  \<^item> \<open>Work\<close> (\<open>work.py\<close>): the projection of the state to runnable work.
  \<^item> \<open>Lease\<close>, \<open>Lease_History\<close>, \<open>Lease_Ports\<close>, \<open>Lease_Store\<close> (\<open>lease_store.py\<close>): requests, leases
    and transactions with their hashes; the rules of a history; the store's state and ports; the
    operations.  \<open>Lease_Effects\<close>, \<open>Lease_Encoding\<close>, \<open>Lease_Facts\<close>, \<open>Lease_Runs\<close>: what an
    operation may do to the disk, that records always encode, facts on readable histories, and
    when an operation succeeds.
  \<^item> \<open>Json_Parser\<close>, \<open>Json_Roundtrip\<close>, \<open>Typed_Codec\<close>, \<open>Typed_Roundtrip\<close>, \<open>Timestamps\<close> (the JSON
    side of \<open>event_codec.py\<close>): \<open>json.loads\<close> with the strictness the codec asks of it, the tagged
    encoding of values, canonical times.  The scanner inverts the printer, and the typed encoding
    is a bijection between the values of a type and the trees the decoder accepts.
  \<^item> \<open>Value_Maps\<close>, \<open>Domain_Values\<close>, \<open>Event_Values\<close>, \<open>Event_Records\<close>: the records of \<open>domain.py\<close>
    and the payloads of the events as trees of named fields, both ways, by one combinator per
    kind of field.  \<open>Event_Codec\<close>: event files, commit markers, states and receipts as bytes, with
    their hashes; \<open>Event_Codec_Facts\<close>: a file decodes exactly when it is the encoding of the record
    it decodes to.
  \<^item> \<open>Directory\<close>: the directories of \<open>secure_fs.py\<close> as finite maps from names to contents, with the
    codes its operations raise.  \<open>Secure_Fs\<close>: the operations of \<open>SecureDirectory\<close> as sequences of
    system calls on volumes, that is names, hard links and inodes, with the volume after each call;
    \<open>Secure_Fs_Facts\<close>, \<open>Secure_Fs_Runs\<close>, \<open>Secure_Fs_Recovery\<close>, \<open>Secure_Fs_Moves\<close>: tidy volumes,
    the directories a volume stands for, the runs of the operations and of the recovery.
    \<open>Crash_Contract\<close>: what durable storage promises under crashes, as a locale, and that histories
    with crashes are then histories of the specification; \<open>Secure_Fs_Session\<close> and
    \<open>Secure_Fs_Properties\<close>: the volumes keep this contract with \<open>Directory\<close> as the specification.
  \<^item> \<open>Event_Log\<close>, \<open>Log_Store\<close>, \<open>Log_Commit\<close> (\<open>event_store.py\<close>): the records and the markers of a
    log, the replay of a log over the state; the log of a session on its disk, opening and
    recovery, quarantine of files no marker names, the projection, the readers; creation and the
    commit of a decision with the decision that a command was already answered.  \<open>Log_Facts\<close>:
    what recovery accepts, as an inductive relation on logs.  \<open>Log_Appends\<close>: the marker a commit
    prepares is one recovery applies.  \<open>Log_Crash\<close>: the disks at the write boundaries of a commit
    and of an opening, and what each of them recovers to.  \<open>Log_Example\<close>: an empty disk, the first
    commit on it and a disk with a file left by an interrupted commit.
  \<^item> \<open>Decision_Properties\<close>, \<open>Session_Properties\<close>, \<open>Topic_Properties\<close>, \<open>Work_Properties\<close>,
    \<open>Registry_Properties\<close>, \<open>Lease_Properties\<close>, \<open>Log_Properties\<close>, \<open>Secure_Fs_Properties\<close>: the
    numbered properties with their witnesses (three on the codecs are in
    \<open>Typed_Roundtrip\<close> and \<open>Event_Codec_Facts\<close>).

  How code becomes definitions.  A data class is a record, an enumeration or union a datatype; a
  Python integer is an \<open>int\<close>, a string the list of its code points.  A function that raises
  returns \<open>Inl\<close> of the code.  Checks of Python types hold by typing and have no counterpart,
  except in the decoders, where the trees are untyped as they are in Python.  The lease store
  and the dialogue log pass their state explicitly.  In the lease store the lock, the snapshot
  loader, the runtime verifier and the clock are ports, functions of the number of the call, so
  that two calls may be answered differently; a port tells which transactions another process
  publishes in between, and another which calls of a publication the file system refuses, also
  those after the transaction took its name, whose failure is reported although the transaction is
  on disk.  Reading a history fails only for what the files hold.  In the dialogue log the caller's guard is a parameter of the commit, which
  is run under the lock it holds; each operation also returns the disks it passes through, so that
  a crash, and each of the fault hooks the code offers its tests, is one of these disks.  The log
  writes whole files into directories; that such a write is one step even when it is cut off
  is what the theories on the file system show, where a crash may follow any system call.  There a
  process works alone in its directories, as the session lock ensures, it may open every file it
  looks at, calls do not fail for reasons outside the volume, and effects reach the disk in the
  order of the calls, for which the code syncs files and directories.  So the code
  \<open>FS_DURABILITY_FAILED\<close> of a sync after a link is an outcome of the lease store's publication
  only, not of the log's and not of \<open>Secure_Fs\<close>.

  Loops and fuel.  Loops are folds over lists, or recursive functions with a measure.  Two are not:
  the JSON scanner, where an array or object calls back the value parser, runs on fuel of twice
  the length of the text plus two, and it is proved that more fuel never changes the answer, so
  that the fuel refuses no text (the interpreter's own limit on nesting, at which the code answers
  \<open>INVALID_JSON_RECORD\<close>, is not modelled); and
  the loop that reads marker after marker until none is found is a partial function, for which it
  is proved that opening and committing always return.

  Hypotheses.  The file system is run with random tokens of the shape \<open>secrets.token_hex\<close> gives, a
  umask that leaves the owner's bits (\<open>masked_temporary_blocks_recovery\<close> shows what happens
  otherwise) and writes that take at least one byte.  SHA-256 is defined and executable, but that
  two records never have the same hash is not provable and is false in general: the theorems on
  histories name the hashes they assume distinct.  The name of a marker holds its sequence number in
  twenty digits or more; a name longer than 255 bytes is rejected by the directory, so the theorem
  on prepared markers supposes fewer than \<open>10 ^ 199\<close> of them.

  Not modelled.  The registry store repeats the log's publication protocol for registry
  transactions.  The packages and results of host work, the host process interface, the browser
  service, the observers, exports and the capture of evidence from git repositories call processes,
  sockets and git; of the coordinator only the numbering of a decision is modelled, since the rest
  combines these parts.  Locks (\<open>locking.py\<close>) are operating system calls on locked file
  descriptors.  The previous generations of the program (\<open>xsync.py\<close>, \<open>xsync_chat\<close>) and the
  feasibility probes are superseded by this package.
\<close>

end
